(* ===== verification/Gateway_Input.thy ===== *)
theory Gateway_Input
  imports Js_Data
begin

text \<open>
  The validation of gateway settings (src/ai-console/src/lib/server/gateway-config.ts): model
  channels and MCP servers as an administrator submits them. A reader returns the problems it
  pushes, in order, and the draft when it builds one. The WHATWG URL parser is a parameter: a
  parsed URL carries the text it has after its path is replaced.
\<close>

definition MAX_CHANNELS :: nat where "MAX_CHANNELS = 20"
definition MAX_MODELS :: nat where "MAX_MODELS = 100"
definition MAX_MCP_SERVERS :: nat where "MAX_MCP_SERVERS = 40"
definition MAX_MCP_TOOL_FILTERS :: nat where "MAX_MCP_TOOL_FILTERS = 32"

definition OPEN_CONNECTOR_MCP_ID :: string where "OPEN_CONNECTOR_MCP_ID = ''mcp-open-connector''"
definition OPEN_CONNECTOR_MCP_NAMESPACE :: string where "OPEN_CONNECTOR_MCP_NAMESPACE = ''open-connector''"
definition RAG_MCP_ID :: string where "RAG_MCP_ID = ''mcp-rag''"
definition RAG_MCP_NAMESPACE :: string where "RAG_MCP_NAMESPACE = ''rag''"
definition PUBLIC_MCP_TOOL_NAMESPACES :: "string list" where
  "PUBLIC_MCP_TOOL_NAMESPACES = [''connector'', ''kb'']"

datatype gatewayProvider = OpenAI | Anthropic | OpenAICompatible

definition providerOf :: "json \<Rightarrow> gatewayProvider option" where
  "providerOf v = (if v = JStr ''openai'' then Some OpenAI
     else if v = JStr ''anthropic'' then Some Anthropic
     else if v = JStr ''openai-compatible'' then Some OpenAICompatible else None)"

record gatewayUrl =
  gu_protocol :: string
  gu_username :: string
  gu_password :: string
  gu_hostname :: string
  gu_port :: string
  gu_pathname :: string
  gu_search :: string
  gu_hash :: string
  gu_withPath :: "string \<Rightarrow> string"

type_synonym urlParser = "string \<Rightarrow> gatewayUrl option"

record modelRoute =
  mr_publicName :: string
  mr_upstreamName :: string

record channelDraft =
  cd_id :: string
  cd_name :: string
  cd_provider :: gatewayProvider
  cd_baseUrl :: string
  cd_enabled :: bool
  cd_models :: "modelRoute list"
  cd_apiKey :: "string option"
  cd_removeApiKey :: bool

record mcpServerDraft =
  sd_id :: string
  sd_name :: string
  sd_namespace :: string
  sd_url :: string
  sd_enabled :: bool
  sd_authHeader :: string
  sd_toolIncludes :: "string list"
  sd_toolExcludes :: "string list"
  sd_apiKey :: "string option"
  sd_removeApiKey :: bool

text \<open>A problem: the field it is about and what is wrong.\<close>

type_synonym gatewayProblem = "string \<times> string"

definition problem_if :: "bool \<Rightarrow> string \<Rightarrow> string \<Rightarrow> gatewayProblem list" where
  "problem_if b field what = (if b then [(field, what)] else [])"

lemma problem_if_Nil [simp]: "problem_if b f w = [] \<longleftrightarrow> \<not> b"
  by (simp add: problem_if_def)

section \<open>Patterns\<close>

definition slug_char :: "char \<Rightarrow> bool" where
  "slug_char c \<longleftrightarrow> is_lower c \<or> is_digit c \<or> c = CHR ''-''"

text \<open>CHANNEL_ID_PATTERN and MCP_NAMESPACE_PATTERN are the same expression.\<close>

definition valid_slug :: "string \<Rightarrow> bool" where
  "valid_slug s = (case s of [] \<Rightarrow> False
     | c # r \<Rightarrow> (is_lower c \<or> is_digit c) \<and> length r \<le> 47 \<and> list_all slug_char r)"

definition header_char :: "char \<Rightarrow> bool" where
  "header_char c \<longleftrightarrow> is_alnum c \<or> c \<in> set ''!#$%&*+.^_|~-'' \<or> c = CHR 0x27 \<or> c = CHR 0x60"

definition valid_header :: "string \<Rightarrow> bool" where
  "valid_header s \<longleftrightarrow> s \<noteq> [] \<and> list_all header_char s"

definition trimmed :: "json \<Rightarrow> string" where
  "trimmed v = js_trim (the_string v)"

definition trimmedKey :: "json \<Rightarrow> string option" where
  "trimmedKey v = (if is_string v then Some (js_trim (the_string v)) else None)"

definition the_bool :: "json \<Rightarrow> bool option" where
  "the_bool v = (case v of JBool b \<Rightarrow> Some b | _ \<Rightarrow> None)"

section \<open>URLs\<close>

definition strip_slashes :: "string \<Rightarrow> string" where
  "strip_slashes s = rev (dropWhile (\<lambda>c. c = CHR ''/'') (rev s))"

definition strip_last_slash :: "string \<Rightarrow> string" where
  "strip_last_slash s = (if s \<noteq> [] \<and> last s = CHR ''/'' then butlast s else s)"

definition normalizeUrl :: "urlParser \<Rightarrow> string \<Rightarrow> string option" where
  "normalizeUrl parse text = (case parse text of None \<Rightarrow> None
     | Some u \<Rightarrow>
         if gu_protocol u \<notin> {''http:'', ''https:''} then None
         else if gu_username u \<noteq> [] \<or> gu_password u \<noteq> [] \<or> gu_search u \<noteq> [] \<or> gu_hash u \<noteq> [] then None
         else let path = strip_slashes (gu_pathname u) in
           Some (strip_last_slash (gu_withPath u (if path = [] then ''/'' else path))))"

section \<open>Channels\<close>

definition bad_model_name :: "string \<Rightarrow> bool" where
  "bad_model_name s \<longleftrightarrow> s = [] \<or> length s > 200 \<or> list_ex is_space s"

definition readModelRoute :: "json \<Rightarrow> string \<Rightarrow> gatewayProblem list \<times> modelRoute option" where
  "readModelRoute v field =
    (if \<not> is_object v then ([(field, ''object'')], None)
     else let publicName = trimmed (jget v ''publicName''); upstreamName = trimmed (jget v ''upstreamName'') in
       (problem_if (bad_model_name publicName) (field @ ''.publicName'') ''name''
        @ problem_if (bad_model_name upstreamName) (field @ ''.upstreamName'') ''name'',
        if publicName \<noteq> [] \<and> upstreamName \<noteq> []
        then Some \<lparr>mr_publicName = publicName, mr_upstreamName = upstreamName\<rparr> else None))"

text \<open>Reading the elements of an array with their index: all problems, and the results that exist.\<close>

definition readAll ::
    "('a \<Rightarrow> string \<Rightarrow> gatewayProblem list \<times> 'b option) \<Rightarrow> string \<Rightarrow> 'a list \<Rightarrow> gatewayProblem list \<times> 'b list" where
  "readAll rd field xs =
    (let rs = map (\<lambda>(i, x). rd x (field @ ''['' @ dec i @ '']'')) (zip [0..<length xs] xs)
     in (concat (map fst rs), List.map_filter snd rs))"

definition readModels :: "json \<Rightarrow> string \<Rightarrow> gatewayProblem list \<times> modelRoute list" where
  "readModels v field =
    (if \<not> is_array v \<or> length (the_array v) > MAX_MODELS then ([(field @ ''.models'', ''array'')], [])
     else readAll readModelRoute (field @ ''.models'') (the_array v))"

definition readChannelDraft :: "urlParser \<Rightarrow> json \<Rightarrow> string \<Rightarrow> gatewayProblem list \<times> channelDraft option" where
  "readChannelDraft parse v field =
    (if \<not> is_object v then ([(field, ''object'')], None)
     else let i = trimmed (jget v ''id''); name = trimmed (jget v ''name'');
         provider = providerOf (jget v ''provider''); baseUrlValue = trimmed (jget v ''baseUrl'');
         enabled = the_bool (jget v ''enabled''); apiKey = trimmedKey (jget v ''apiKey'');
         url = normalizeUrl parse baseUrlValue;
         baseUrl = (case url of None \<Rightarrow> baseUrlValue | Some u \<Rightarrow> u);
         models = readModels (jget v ''models'') field in
       (problem_if (\<not> valid_slug i) (field @ ''.id'') ''invalid''
        @ problem_if (name = [] \<or> length name > 100) (field @ ''.name'') ''length''
        @ problem_if (provider = None) (field @ ''.provider'') ''unsupported''
        @ problem_if (enabled = None) (field @ ''.enabled'') ''boolean''
        @ problem_if (case apiKey of None \<Rightarrow> False | Some k \<Rightarrow> length k > 10000) (field @ ''.apiKey'') ''length''
        @ problem_if (url = None) (field @ ''.baseUrl'') ''url''
        @ fst models
        @ problem_if (enabled = Some True \<and> snd models = []) (field @ ''.models'') ''empty'',
        case (provider, enabled) of
          (Some p, Some e) \<Rightarrow> if i = [] \<or> name = [] \<or> baseUrl = [] then None
            else Some \<lparr>cd_id = i, cd_name = name, cd_provider = p, cd_baseUrl = baseUrl,
              cd_enabled = e, cd_models = snd models, cd_apiKey = apiKey,
              cd_removeApiKey = (jget v ''removeApiKey'' = JBool True)\<rparr>
        | _ \<Rightarrow> None))"

text \<open>The loop over the drafts: the ids and published names seen so far.\<close>

fun duplicateModels :: "modelRoute list \<Rightarrow> string list \<Rightarrow> gatewayProblem list \<times> string list" where
  "duplicateModels [] published = ([], published)"
| "duplicateModels (m # ms) published =
    (case duplicateModels ms (mr_publicName m # published) of
       (es, p) \<Rightarrow> (problem_if (mr_publicName m \<in> set published) (mr_publicName m) ''published twice'' @ es, p))"

fun duplicateChannels ::
    "nat \<Rightarrow> channelDraft list \<Rightarrow> string list \<Rightarrow> string list \<Rightarrow> gatewayProblem list" where
  "duplicateChannels n [] ids published = []"
| "duplicateChannels n (c # cs) ids published =
    problem_if (cd_id c \<in> set ids) (''channels['' @ dec n @ ''].id'') ''duplicated''
    @ (if cd_enabled c
       then (case duplicateModels (cd_models c) published of
           (es, p) \<Rightarrow> es @ duplicateChannels (Suc n) cs (cd_id c # ids) p)
       else duplicateChannels (Suc n) cs (cd_id c # ids) published)"

definition validateGatewayChannelsInput ::
    "urlParser \<Rightarrow> json \<Rightarrow> gatewayProblem list + channelDraft list" where
  "validateGatewayChannelsInput parse input =
    (if \<not> is_array (jget input ''channels'') then Inl [(''channels'', ''array'')]
     else if length (the_array (jget input ''channels'')) > MAX_CHANNELS
     then Inl [(''channels'', ''too many'')]
     else case readAll (readChannelDraft parse) ''channels'' (the_array (jget input ''channels'')) of
       (problems, channels) \<Rightarrow>
         let errors = problems @ duplicateChannels 0 channels [] [] in
         if errors \<noteq> [] then Inl errors else Inr channels)"

section \<open>MCP servers\<close>

definition isSystemManagedMcpServerId :: "string \<Rightarrow> bool" where
  "isSystemManagedMcpServerId i \<longleftrightarrow> i = OPEN_CONNECTOR_MCP_ID \<or> i = RAG_MCP_ID"

fun collectNames :: "string \<Rightarrow> nat \<Rightarrow> json list \<Rightarrow> string list \<Rightarrow> gatewayProblem list \<times> string list" where
  "collectNames field n [] acc = ([], acc)"
| "collectNames field n (v # vs) acc =
    (let s = trimmed v in
     if s = [] \<or> length s > 200
     then (case collectNames field (Suc n) vs acc of
         (es, out) \<Rightarrow> ((field @ ''['' @ dec n @ '']'', ''length'') # es, out))
     else collectNames field (Suc n) vs (if s \<in> set acc then acc else acc @ [s]))"

definition readStringList :: "json \<Rightarrow> string \<Rightarrow> gatewayProblem list \<times> string list" where
  "readStringList v field =
    (if \<not> is_array v \<or> length (the_array v) > MAX_MCP_TOOL_FILTERS then ([(field, ''array'')], [])
     else collectNames field 0 (the_array v) [])"

definition readMcpServerDraft :: "urlParser \<Rightarrow> json \<Rightarrow> string \<Rightarrow> gatewayProblem list \<times> mcpServerDraft option" where
  "readMcpServerDraft parse v field =
    (if \<not> is_object v then ([(field, ''object'')], None)
     else let i = trimmed (jget v ''id''); name = trimmed (jget v ''name'');
         namespace = trimmed (jget v ''namespace''); urlValue = trimmed (jget v ''url'');
         enabled = the_bool (jget v ''enabled'');
         authHeader = (if is_string (jget v ''authHeader'') then trimmed (jget v ''authHeader'')
           else ''Authorization'');
         apiKey = trimmedKey (jget v ''apiKey'');
         parsed = normalizeUrl parse urlValue;
         url = (case parsed of None \<Rightarrow> urlValue | Some u \<Rightarrow> u);
         includes = readStringList (jget v ''toolIncludes'') (field @ ''.toolIncludes'');
         excludes = readStringList (jget v ''toolExcludes'') (field @ ''.toolExcludes'') in
       (problem_if (\<not> valid_slug i) (field @ ''.id'') ''invalid''
        @ problem_if (name = [] \<or> length name > 100) (field @ ''.name'') ''length''
        @ problem_if (\<not> valid_slug namespace) (field @ ''.namespace'') ''invalid''
        @ problem_if (enabled = None) (field @ ''.enabled'') ''boolean''
        @ problem_if (authHeader = [] \<or> length authHeader > 100 \<or> \<not> valid_header authHeader)
            (field @ ''.authHeader'') ''header''
        @ problem_if (case apiKey of None \<Rightarrow> False | Some k \<Rightarrow> length k > 10000) (field @ ''.apiKey'') ''length''
        @ problem_if (parsed = None) (field @ ''.url'') ''url''
        @ fst includes @ fst excludes,
        case enabled of
          Some e \<Rightarrow> if i = [] \<or> name = [] \<or> namespace = [] \<or> url = [] \<or> authHeader = [] then None
            else Some \<lparr>sd_id = i, sd_name = name, sd_namespace = namespace, sd_url = url,
              sd_enabled = e, sd_authHeader = authHeader, sd_toolIncludes = snd includes,
              sd_toolExcludes = snd excludes, sd_apiKey = apiKey,
              sd_removeApiKey = (jget v ''removeApiKey'' = JBool True)\<rparr>
        | None \<Rightarrow> None))"

definition reservedNamespace :: "string \<Rightarrow> bool" where
  "reservedNamespace n \<longleftrightarrow> n \<in> {OPEN_CONNECTOR_MCP_NAMESPACE, RAG_MCP_NAMESPACE}"

definition proxyNamespace :: "string \<Rightarrow> bool" where
  "proxyNamespace n \<longleftrightarrow> n \<in> set PUBLIC_MCP_TOOL_NAMESPACES \<or> starts_with n ''mcp-''"

fun checkServers ::
    "nat \<Rightarrow> mcpServerDraft list \<Rightarrow> string list \<Rightarrow> string list \<Rightarrow> gatewayProblem list" where
  "checkServers n [] ids namespaces = []"
| "checkServers n (s # ss) ids namespaces =
    (let field = ''servers['' @ dec n @ '']'' in
     problem_if (isSystemManagedMcpServerId (sd_id s)) (field @ ''.id'') ''reserved''
     @ problem_if (reservedNamespace (sd_namespace s)) (field @ ''.namespace'') ''reserved''
     @ problem_if (proxyNamespace (sd_namespace s)) (field @ ''.namespace'') ''reserved for the proxy''
     @ problem_if (sd_id s \<in> set ids) (field @ ''.id'') ''duplicated''
     @ problem_if (sd_namespace s \<in> set namespaces) (field @ ''.namespace'') ''duplicated''
     @ checkServers (Suc n) ss (sd_id s # ids) (sd_namespace s # namespaces))"

definition validateGatewayMcpServersInput ::
    "urlParser \<Rightarrow> json \<Rightarrow> gatewayProblem list + mcpServerDraft list" where
  "validateGatewayMcpServersInput parse input =
    (if \<not> is_array (jget input ''servers'') then Inl [(''servers'', ''array'')]
     else if length (the_array (jget input ''servers'')) > MAX_MCP_SERVERS
     then Inl [(''servers'', ''too many'')]
     else case readAll (readMcpServerDraft parse) ''servers'' (the_array (jget input ''servers'')) of
       (problems, servers) \<Rightarrow>
         let errors = problems @ checkServers 0 servers [] [] in
         if errors \<noteq> [] then Inl errors else Inr servers)"

section \<open>Accepted input\<close>

lemma readAll_ok:
  assumes "readAll rd field xs = ([], ys)"
    and "\<And>x f. x \<in> set xs \<Longrightarrow> fst (rd x f) = [] \<Longrightarrow> snd (rd x f) \<noteq> None"
  shows "list_all2 (\<lambda>x y. \<exists>f. rd x f = ([], Some y)) xs ys"
proof -
  have aux: "concat (map fst (map (\<lambda>(i, x). rd x (field @ ''['' @ dec i @ '']'')) (zip is xs))) = [] \<Longrightarrow>
      (\<And>x f. x \<in> set xs \<Longrightarrow> fst (rd x f) = [] \<Longrightarrow> snd (rd x f) \<noteq> None) \<Longrightarrow> length is = length xs \<Longrightarrow>
      list_all2 (\<lambda>x y. \<exists>f. rd x f = ([], Some y)) xs
        (List.map_filter snd (map (\<lambda>(i, x). rd x (field @ ''['' @ dec i @ '']'')) (zip is xs)))"
    for "is" :: "nat list" and xs
  proof (induction xs arbitrary: "is")
    case (Cons x xs)
    then obtain i js where i: "is = i # js" by (cases "is") auto
    let ?f = "field @ ''['' @ dec i @ '']''"
    from Cons.prems i have e: "fst (rd x ?f) = []" by simp
    with Cons.prems(2) obtain y where y: "snd (rd x ?f) = Some y" by fastforce
    with e have "rd x ?f = ([], Some y)" by (metis prod.collapse)
    moreover have "list_all2 (\<lambda>x y. \<exists>f. rd x f = ([], Some y)) xs
        (List.map_filter snd (map (\<lambda>(i, x). rd x (field @ ''['' @ dec i @ '']'')) (zip js xs)))"
      using Cons.IH[of js] Cons.prems i by simp
    ultimately show ?case using i by (auto simp: map_filter_def)
  qed (simp add: map_filter_def)
  show ?thesis
    using aux[of "[0..<length xs]" xs] assms by (auto simp: readAll_def Let_def)
qed

definition modelOk :: "modelRoute \<Rightarrow> bool" where
  "modelOk m \<longleftrightarrow> \<not> bad_model_name (mr_publicName m) \<and> \<not> bad_model_name (mr_upstreamName m)"

lemma readModelRoute_ok: "readModelRoute v f = ([], Some m) \<Longrightarrow> modelOk m"
  by (auto simp: readModelRoute_def modelOk_def Let_def split: if_split_asm)

lemma readModelRoute_some: "fst (readModelRoute v f) = [] \<Longrightarrow> snd (readModelRoute v f) \<noteq> None"
  by (auto simp: readModelRoute_def bad_model_name_def Let_def split: if_split_asm)

lemma readModels_ok:
  assumes "readModels v f = ([], ms)"
  shows "list_all modelOk ms \<and> length ms = length (the_array v) \<and> length ms \<le> MAX_MODELS"
proof -
  have r: "readAll readModelRoute (f @ ''.models'') (the_array v) = ([], ms)"
    and l: "length (the_array v) \<le> MAX_MODELS"
    using assms by (auto simp: readModels_def split: if_split_asm)
  have "list_all2 (\<lambda>x y. \<exists>f. readModelRoute x f = ([], Some y)) (the_array v) ms"
    by (rule readAll_ok[OF r readModelRoute_some])
  with l show ?thesis
    by (auto simp: list_all2_conv_all_nth list_all_length dest: readModelRoute_ok)
qed

definition channelOk :: "urlParser \<Rightarrow> channelDraft \<Rightarrow> bool" where
  "channelOk parse c \<longleftrightarrow> valid_slug (cd_id c) \<and> cd_name c \<noteq> [] \<and> length (cd_name c) \<le> 100
     \<and> js_trim (cd_name c) = cd_name c \<and> (\<exists>t. normalizeUrl parse t = Some (cd_baseUrl c))
     \<and> list_all modelOk (cd_models c) \<and> length (cd_models c) \<le> MAX_MODELS
     \<and> (cd_enabled c \<longrightarrow> cd_models c \<noteq> [])
     \<and> (case cd_apiKey c of None \<Rightarrow> True | Some k \<Rightarrow> length k \<le> 10000)"

lemma valid_slug_ne: "valid_slug s \<Longrightarrow> s \<noteq> []"
  by (auto simp: valid_slug_def)

lemma readChannelDraft_ok:
  assumes "readChannelDraft parse v f = ([], Some c)"
  shows "channelOk parse c"
proof -
  let ?models = "readModels (jget v ''models'') f"
  from assms have p: "fst ?models = []"
    and c: "cd_models c = snd ?models" "cd_id c = trimmed (jget v ''id'')" "cd_name c = trimmed (jget v ''name'')"
      "valid_slug (trimmed (jget v ''id''))" "trimmed (jget v ''name'') \<noteq> []"
      "length (trimmed (jget v ''name'')) \<le> 100" "cd_apiKey c = trimmedKey (jget v ''apiKey'')"
      "normalizeUrl parse (trimmed (jget v ''baseUrl'')) = Some (cd_baseUrl c)"
      "cd_enabled c \<longrightarrow> cd_models c \<noteq> []"
      "case trimmedKey (jget v ''apiKey'') of None \<Rightarrow> True | Some k \<Rightarrow> length k \<le> 10000"
    by (auto simp: readChannelDraft_def Let_def split: if_split_asm option.splits)
  obtain ms where ms: "?models = ([], ms)" using p by (metis prod.collapse)
  from readModels_ok[OF ms] c ms show ?thesis
    unfolding channelOk_def by (auto simp: trimmed_def)
qed

text \<open>The serialisation of a URL starts with its scheme, so it is never a lone slash.\<close>

definition url_laws :: "urlParser \<Rightarrow> bool" where
  "url_laws parse \<longleftrightarrow> (\<forall>t u p. parse t = Some u \<longrightarrow> 1 < length (gu_withPath u p))"

lemma normalizeUrl_ne:
  assumes "url_laws parse" "normalizeUrl parse t = Some u"
  shows "u \<noteq> []"
proof -
  obtain v p where "parse t = Some v" and u: "u = strip_last_slash (gu_withPath v p)"
    using assms(2) by (auto simp: normalizeUrl_def Let_def split: option.split_asm if_split_asm)
  then have "1 < length (gu_withPath v p)" using assms(1) by (auto simp: url_laws_def)
  then have "length (butlast (gu_withPath v p)) \<noteq> 0" "gu_withPath v p \<noteq> []" by auto
  then show ?thesis unfolding u strip_last_slash_def by (auto simp del: length_butlast)
qed

lemma readChannelDraft_some:
  assumes "url_laws parse" "fst (readChannelDraft parse v f) = []"
  shows "snd (readChannelDraft parse v f) \<noteq> None"
proof -
  from assms(2) obtain u p e where v: "is_object v" "valid_slug (trimmed (jget v ''id''))"
    "trimmed (jget v ''name'') \<noteq> []" "providerOf (jget v ''provider'') = Some p"
    "the_bool (jget v ''enabled'') = Some e"
    "normalizeUrl parse (trimmed (jget v ''baseUrl'')) = Some u"
    by (auto simp: readChannelDraft_def Let_def split: if_split_asm)
  with normalizeUrl_ne[OF assms(1) v(6)] valid_slug_ne[OF v(2)] show ?thesis
    by (simp add: readChannelDraft_def Let_def)
qed

fun publishedNames :: "channelDraft list \<Rightarrow> string list" where
  "publishedNames [] = []"
| "publishedNames (c # cs) = (if cd_enabled c then map mr_publicName (cd_models c) else []) @ publishedNames cs"

lemma duplicateModels_ok:
  "duplicateModels ms published = ([], p) \<Longrightarrow> distinct (map mr_publicName ms)
    \<and> set (map mr_publicName ms) \<inter> set published = {}
    \<and> set p = set published \<union> set (map mr_publicName ms)"
  by (induction ms arbitrary: published p) (fastforce split: prod.splits)+

lemma duplicateChannels_ok:
  "duplicateChannels n cs ids published = [] \<Longrightarrow> distinct (map cd_id cs)
    \<and> set (map cd_id cs) \<inter> set ids = {}
    \<and> distinct (publishedNames cs) \<and> set (publishedNames cs) \<inter> set published = {}"
proof (induction cs arbitrary: n ids published)
  case (Cons c cs)
  show ?case
  proof (cases "cd_enabled c")
    case False
    with Cons.prems Cons.IH[of "Suc n" "cd_id c # ids" published] show ?thesis by auto
  next
    case True
    obtain es p where d: "duplicateModels (cd_models c) published = (es, p)" by fastforce
    with True Cons.prems have "es = []" and rest: "duplicateChannels (Suc n) cs (cd_id c # ids) p = []"
      and i: "cd_id c \<notin> set ids" by auto
    with d duplicateModels_ok[of "cd_models c" published p] Cons.IH[OF rest] True show ?thesis by auto
  qed
qed simp

lemma validateChannels_Inr:
  assumes "validateGatewayChannelsInput parse input = Inr cs"
  shows "length (the_array (jget input ''channels'')) \<le> MAX_CHANNELS"
    "readAll (readChannelDraft parse) ''channels'' (the_array (jget input ''channels'')) = ([], cs)"
    "duplicateChannels 0 cs [] [] = []"
proof -
  obtain problems channels where r: "readAll (readChannelDraft parse) ''channels''
      (the_array (jget input ''channels'')) = (problems, channels)" by fastforce
  with assms show "length (the_array (jget input ''channels'')) \<le> MAX_CHANNELS"
    "readAll (readChannelDraft parse) ''channels'' (the_array (jget input ''channels'')) = ([], cs)"
    "duplicateChannels 0 cs [] [] = []"
    by (auto simp: validateGatewayChannelsInput_def Let_def split: if_split_asm)
qed

text \<open>C24: Accepted channels are well typed and none is lost: for every submitted channel there is one
  draft, in order; every draft has a slug, a name, a normalised HTTP(S) address, well-formed models
  and at least one when it is enabled; identifiers are distinct and no model name is published
  twice by enabled channels.\<close>

theorem accepted_channels_well_typed:
  assumes "url_laws parse" "validateGatewayChannelsInput parse input = Inr cs"
  shows "list_all2 (\<lambda>v c. \<exists>f. readChannelDraft parse v f = ([], Some c))
      (the_array (jget input ''channels'')) cs
    \<and> length cs \<le> 20 \<and> list_all (channelOk parse) cs
    \<and> distinct (map cd_id cs) \<and> distinct (publishedNames cs)"
proof -
  note v = validateChannels_Inr[OF assms(2)]
  have all2: "list_all2 (\<lambda>v c. \<exists>f. readChannelDraft parse v f = ([], Some c))
      (the_array (jget input ''channels'')) cs"
    by (rule readAll_ok[OF v(2) readChannelDraft_some[OF assms(1)]])
  moreover from all2 have "length cs \<le> 20"
    using v(1) by (simp add: list_all2_lengthD[OF all2, symmetric] MAX_CHANNELS_def)
  moreover from all2 have "list_all (channelOk parse) cs"
    by (auto simp: list_all2_conv_all_nth list_all_length dest!: readChannelDraft_ok)
  ultimately show ?thesis using duplicateChannels_ok[OF v(3)] by simp
qed

definition demo_parse :: urlParser where
  "demo_parse t = (if starts_with t ''http://'' then Some \<lparr>gu_protocol = ''http:'', gu_username = [],
     gu_password = [], gu_hostname = drop 7 t, gu_port = [], gu_pathname = ''/'', gu_search = [],
     gu_hash = [], gu_withPath = (\<lambda>p. t @ p)\<rparr> else None)"

lemma demo_parse_laws: "url_laws demo_parse"
proof -
  have "1 < length t" if "starts_with t ''http://''" for t
    using that by (auto simp: starts_with_iff)
  then show ?thesis by (auto simp: url_laws_def demo_parse_def intro: trans_less_add1)
qed

definition demo_channel_input :: json where
  "demo_channel_input = JObj [(''channels'', JArr [JObj [(''id'', JStr ''c1''), (''name'', JStr '' C ''),
     (''provider'', JStr ''openai''), (''baseUrl'', JStr ''http://h''), (''enabled'', JBool True),
     (''models'', JArr [JObj [(''publicName'', JStr ''m''), (''upstreamName'', JStr ''m'')]])]])]"

definition demo_channel :: channelDraft where
  "demo_channel = \<lparr>cd_id = ''c1'', cd_name = ''C'', cd_provider = OpenAI, cd_baseUrl = ''http://h'',
     cd_enabled = True, cd_models = [\<lparr>mr_publicName = ''m'', mr_upstreamName = ''m''\<rparr>],
     cd_apiKey = None, cd_removeApiKey = False\<rparr>"

lemma demo_validated: "validateGatewayChannelsInput demo_parse demo_channel_input = Inr [demo_channel]"
  by code_simp

theorem accepted_channels_well_typed_witness:
  "list_all (channelOk demo_parse) [demo_channel]"
  using accepted_channels_well_typed[OF demo_parse_laws demo_validated] by simp

section \<open>Accepted MCP servers\<close>

definition filterOk :: "string list \<Rightarrow> bool" where
  "filterOk ts \<longleftrightarrow> distinct ts \<and> length ts \<le> MAX_MCP_TOOL_FILTERS
     \<and> list_all (\<lambda>t. t \<noteq> [] \<and> length t \<le> 200 \<and> js_trim t = t) ts"

definition serverOk :: "urlParser \<Rightarrow> mcpServerDraft \<Rightarrow> bool" where
  "serverOk parse s \<longleftrightarrow> valid_slug (sd_id s) \<and> valid_slug (sd_namespace s) \<and> sd_name s \<noteq> []
     \<and> length (sd_name s) \<le> 100 \<and> valid_header (sd_authHeader s) \<and> length (sd_authHeader s) \<le> 100
     \<and> (\<exists>t. normalizeUrl parse t = Some (sd_url s))
     \<and> filterOk (sd_toolIncludes s) \<and> filterOk (sd_toolExcludes s)
     \<and> (case sd_apiKey s of None \<Rightarrow> True | Some k \<Rightarrow> length k \<le> 10000)"

lemma collectNames_ok:
  "collectNames field n vs acc = ([], out) \<Longrightarrow> distinct acc \<Longrightarrow>
    list_all (\<lambda>t. t \<noteq> [] \<and> length t \<le> 200 \<and> js_trim t = t) acc \<Longrightarrow>
    distinct out \<and> length out \<le> length acc + length vs
    \<and> list_all (\<lambda>t. t \<noteq> [] \<and> length t \<le> 200 \<and> js_trim t = t) out"
proof (induction vs arbitrary: n acc)
  case (Cons v vs)
  have ok: "\<not> (trimmed v = [] \<or> 200 < length (trimmed v))"
    and rest: "collectNames field (Suc n) vs (if trimmed v \<in> set acc then acc else acc @ [trimmed v]) = ([], out)"
    using Cons.prems(1) by (auto simp: Let_def split: if_split_asm prod.split_asm)
  have "js_trim (trimmed v) = trimmed v" by (simp add: trimmed_def)
  with Cons.IH[OF rest] Cons.prems(2,3) ok show ?case by (cases "trimmed v \<in> set acc") auto
qed simp

lemma readStringList_ok: "readStringList v f = ([], ts) \<Longrightarrow> filterOk ts"
  using collectNames_ok[of f 0 "the_array v" "[]" ts]
  by (auto simp: readStringList_def filterOk_def split: if_split_asm)

lemma readMcpServerDraft_ok:
  assumes "readMcpServerDraft parse v f = ([], Some s)"
  shows "serverOk parse s"
proof -
  let ?in = "readStringList (jget v ''toolIncludes'') (f @ ''.toolIncludes'')"
  let ?ex = "readStringList (jget v ''toolExcludes'') (f @ ''.toolExcludes'')"
  let ?header = "if is_string (jget v ''authHeader'') then trimmed (jget v ''authHeader'') else ''Authorization''"
  have obj: "is_object v" using assms by (rule contrapos_pp) (simp add: readMcpServerDraft_def)
  obtain e where e: "the_bool (jget v ''enabled'') = Some e"
    using assms obj by (cases "the_bool (jget v ''enabled'')") (simp_all add: readMcpServerDraft_def Let_def)
  obtain u where u: "normalizeUrl parse (trimmed (jget v ''url'')) = Some u"
    using assms obj e by (cases "normalizeUrl parse (trimmed (jget v ''url''))") (simp_all add: readMcpServerDraft_def Let_def)
  have problems: "valid_slug (trimmed (jget v ''id''))" "valid_slug (trimmed (jget v ''namespace''))"
      "trimmed (jget v ''name'') \<noteq> []" "length (trimmed (jget v ''name'')) \<le> 100" "valid_header ?header" "length ?header \<le> 100"
      "\<not> (case trimmedKey (jget v ''apiKey'') of None \<Rightarrow> False | Some k \<Rightarrow> length k > 10000)"
      "fst ?in = []" "fst ?ex = []"
    using assms obj e u unfolding readMcpServerDraft_def Let_def
    by (simp_all only: not_True_eq_False if_False prod.inject append_is_Nil_conv problem_if_Nil option.case not_less de_Morgan_disj
        not_not simp_thms)
  have "snd (readMcpServerDraft parse v f) = Some s" using assms by simp
  then have s: "sd_id s = trimmed (jget v ''id'') \<and> sd_name s = trimmed (jget v ''name'') \<and> sd_namespace s = trimmed (jget v ''namespace'')
      \<and> sd_url s = u \<and> sd_authHeader s = ?header \<and> sd_toolIncludes s = snd ?in \<and> sd_toolExcludes s = snd ?ex
      \<and> sd_apiKey s = trimmedKey (jget v ''apiKey'')"
    unfolding readMcpServerDraft_def Let_def
    by (simp only: obj e u not_True_eq_False if_False snd_conv option.case option.distinct option.inject split: if_split_asm) auto
  have "filterOk (snd ?in)" "filterOk (snd ?ex)"
    using problems readStringList_ok by (metis prod.collapse)+
  with problems u s show ?thesis unfolding serverOk_def by (auto split: option.splits)
qed

lemma readMcpServerDraft_some:
  assumes "url_laws parse" "fst (readMcpServerDraft parse v f) = []"
  shows "snd (readMcpServerDraft parse v f) \<noteq> None"
proof -
  from assms(2) obtain u e where v: "is_object v" "valid_slug (trimmed (jget v ''id''))"
    "trimmed (jget v ''name'') \<noteq> []" "valid_slug (trimmed (jget v ''namespace''))"
    "the_bool (jget v ''enabled'') = Some e" "normalizeUrl parse (trimmed (jget v ''url'')) = Some u"
    "(if is_string (jget v ''authHeader'') then trimmed (jget v ''authHeader'') else ''Authorization'') \<noteq> []"
    by (auto simp: readMcpServerDraft_def Let_def split: if_split_asm)
  with normalizeUrl_ne[OF assms(1) v(6)] valid_slug_ne[OF v(2)] valid_slug_ne[OF v(4)] show ?thesis
    by (simp add: readMcpServerDraft_def Let_def split del: if_split)
qed

lemma checkServers_ok:
  "checkServers n ss ids namespaces = [] \<Longrightarrow> distinct (map sd_id ss) \<and> distinct (map sd_namespace ss)
    \<and> set (map sd_id ss) \<inter> set ids = {} \<and> set (map sd_namespace ss) \<inter> set namespaces = {}
    \<and> list_all (\<lambda>s. \<not> isSystemManagedMcpServerId (sd_id s) \<and> \<not> reservedNamespace (sd_namespace s)
         \<and> \<not> proxyNamespace (sd_namespace s)) ss"
proof (induction ss arbitrary: n ids namespaces)
  case (Cons s ss)
  then have "checkServers (Suc n) ss (sd_id s # ids) (sd_namespace s # namespaces) = []"
    by (simp add: Let_def)
  from Cons.IH[OF this] Cons.prems show ?case by (auto simp: Let_def)
qed simp

text \<open>Accepted MCP servers are well typed, none is lost, their identifiers and namespaces are
  distinct and none shadows a system-managed service or a namespace of the public tool proxy.\<close>

theorem accepted_servers_well_typed:
  assumes "url_laws parse" "validateGatewayMcpServersInput parse input = Inr ss"
  shows "list_all2 (\<lambda>v s. \<exists>f. readMcpServerDraft parse v f = ([], Some s))
      (the_array (jget input ''servers'')) ss
    \<and> length ss \<le> 40 \<and> list_all (serverOk parse) ss
    \<and> distinct (map sd_id ss) \<and> distinct (map sd_namespace ss)
    \<and> list_all (\<lambda>s. sd_id s \<notin> {''mcp-open-connector'', ''mcp-rag''}
        \<and> sd_namespace s \<notin> {''open-connector'', ''rag'', ''connector'', ''kb''}
        \<and> \<not> starts_with (sd_namespace s) ''mcp-'') ss"
proof -
  obtain problems servers where r: "readAll (readMcpServerDraft parse) ''servers''
      (the_array (jget input ''servers'')) = (problems, servers)" by fastforce
  with assms(2) have v: "length (the_array (jget input ''servers'')) \<le> MAX_MCP_SERVERS"
    "readAll (readMcpServerDraft parse) ''servers'' (the_array (jget input ''servers'')) = ([], ss)"
    "checkServers 0 ss [] [] = []"
    by (auto simp: validateGatewayMcpServersInput_def Let_def split: if_split_asm)
  have all2: "list_all2 (\<lambda>v s. \<exists>f. readMcpServerDraft parse v f = ([], Some s))
      (the_array (jget input ''servers'')) ss"
    by (rule readAll_ok[OF v(2) readMcpServerDraft_some[OF assms(1)]])
  moreover have "length ss \<le> 40"
    using v(1) by (simp add: list_all2_lengthD[OF all2, symmetric] MAX_MCP_SERVERS_def)
  moreover from all2 have "list_all (serverOk parse) ss"
    by (auto simp: list_all2_conv_all_nth list_all_length dest!: readMcpServerDraft_ok)
  ultimately show ?thesis
    using checkServers_ok[OF v(3)]
    by (simp add: list_all_iff isSystemManagedMcpServerId_def reservedNamespace_def proxyNamespace_def
        OPEN_CONNECTOR_MCP_ID_def RAG_MCP_ID_def OPEN_CONNECTOR_MCP_NAMESPACE_def RAG_MCP_NAMESPACE_def
        PUBLIC_MCP_TOOL_NAMESPACES_def)
qed

definition demo_server_input :: json where
  "demo_server_input = JObj [(''servers'', JArr [JObj [(''id'', JStr ''s1''), (''name'', JStr ''S''),
     (''namespace'', JStr ''n1''), (''url'', JStr ''http://h''), (''enabled'', JBool True),
     (''toolIncludes'', JArr [JStr ''t'', JStr ''t'']), (''toolExcludes'', JArr [])]])]"

definition demo_server :: mcpServerDraft where
  "demo_server = \<lparr>sd_id = ''s1'', sd_name = ''S'', sd_namespace = ''n1'', sd_url = ''http://h'',
     sd_enabled = True, sd_authHeader = ''Authorization'', sd_toolIncludes = [''t''],
     sd_toolExcludes = [], sd_apiKey = None, sd_removeApiKey = False\<rparr>"

lemma demo_servers_validated:
  "validateGatewayMcpServersInput demo_parse demo_server_input = Inr [demo_server]"
  by code_simp

theorem accepted_servers_well_typed_witness: "list_all (serverOk demo_parse) [demo_server]"
  using accepted_servers_well_typed[OF demo_parse_laws demo_servers_validated] by simp

end
