(* ===== verification/Base64url.thy ===== *)
theory Base64url
  imports Prelude
begin

text \<open>
  The base64url text encoding of Node's Buffer, used for the sealed secrets, the session and
  hand-off tokens and the browser nonces. A byte string is a HOL string. The decoder is Node's:
  it skips characters outside the alphabet, accepts the plain base64 alphabet too and stops at
  padding.
\<close>

definition sextet_char :: "nat \<Rightarrow> char" where
  "sextet_char n = (if n < 26 then char_of (65 + n) else if n < 52 then char_of (71 + n)
     else if n < 62 then char_of (n - 4) else if n = 62 then CHR ''-'' else CHR ''_'')"

definition char_sextet :: "char \<Rightarrow> nat option" where
  "char_sextet c = (let n = code_unit c in
     if 65 \<le> n \<and> n \<le> 90 then Some (n - 65) else if 97 \<le> n \<and> n \<le> 122 then Some (n - 71)
     else if 48 \<le> n \<and> n \<le> 57 then Some (n + 4)
     else if n = 45 \<or> n = 43 then Some 62 else if n = 95 \<or> n = 47 then Some 63 else None)"

fun encode_bytes :: "nat list \<Rightarrow> nat list" where
  "encode_bytes [] = []"
| "encode_bytes [a] = [a div 4, (a mod 4) * 16]"
| "encode_bytes [a, b] = [a div 4, (a mod 4) * 16 + b div 16, (b mod 16) * 4]"
| "encode_bytes (a # b # c # r) =
    a div 4 # ((a mod 4) * 16 + b div 16) # ((b mod 16) * 4 + c div 64) # c mod 64 # encode_bytes r"

fun decode_sextets :: "nat list \<Rightarrow> nat list" where
  "decode_sextets [] = []"
| "decode_sextets [p] = []"
| "decode_sextets [p, q] = [(p * 4 + q div 16) mod 256]"
| "decode_sextets [p, q, r] = [(p * 4 + q div 16) mod 256, ((q mod 16) * 16 + r div 4) mod 256]"
| "decode_sextets (p # q # r # s # t) =
    ((p * 4 + q div 16) mod 256) # (((q mod 16) * 16 + r div 4) mod 256)
      # (((r mod 4) * 64 + s) mod 256) # decode_sextets t"

definition base64url_encode :: "string \<Rightarrow> string" where
  "base64url_encode s = map sextet_char (encode_bytes (map code_unit s))"

definition base64url_decode :: "string \<Rightarrow> string" where
  "base64url_decode s = map char_of (decode_sextets
     (List.map_filter char_sextet (takeWhile (\<lambda>c. c \<noteq> CHR ''='') s)))"

lemma code_unit_less [simp]: "code_unit c < 256"
  by (simp add: code_unit_def)

lemma char_of_code_unit [simp]: "char_of (code_unit c) = c"
  by (simp add: code_unit_def)

lemma code_unit_char_of [simp]: "n < 256 \<Longrightarrow> code_unit (char_of n) = n"
  by (simp add: code_unit_def)

lemma char_sextet_char [simp]: "n < 64 \<Longrightarrow> char_sextet (sextet_char n) = Some n"
  by (auto simp: char_sextet_def sextet_char_def code_unit_def Let_def)

lemma encode_bytes_less: "list_all (\<lambda>n. n < 256) bs \<Longrightarrow> list_all (\<lambda>n. n < 64) (encode_bytes bs)"
  by (induction bs rule: encode_bytes.induct) auto

lemma digits_div: "(y::nat) < n \<Longrightarrow> (x * n + y) div n = x"
  by simp

lemma digits_mod: "(y::nat) < n \<Longrightarrow> (x * n + y) mod n = y"
  by simp

lemma byte1:
  "(a::nat) < 256 \<Longrightarrow> b < 256 \<Longrightarrow> (a div 4 * 4 + (a mod 4 * 16 + b div 16) div 16) mod 256 = a"
proof -
  assume *: "a < 256" "b < 256"
  then have "b div 16 < 16" by (simp add: less_mult_imp_div_less)
  then have "(a mod 4 * 16 + b div 16) div 16 = a mod 4" by (rule digits_div)
  with * show ?thesis by simp
qed

lemma byte2:
  "(b::nat) < 256 \<Longrightarrow> c < 256 \<Longrightarrow>
    ((a mod 4 * 16 + b div 16) mod 16 * 16 + (b mod 16 * 4 + c div 64) div 4) mod 256 = b"
proof -
  assume *: "b < 256" "c < 256"
  then have "b div 16 < 16" "c div 64 < 4" by (simp_all add: less_mult_imp_div_less)
  then have "(a mod 4 * 16 + b div 16) mod 16 = b div 16" "(b mod 16 * 4 + c div 64) div 4 = b mod 16"
    by (simp_all only: digits_div digits_mod)
  with * show ?thesis by simp
qed

lemma byte3: "(c::nat) < 256 \<Longrightarrow> ((b mod 16 * 4 + c div 64) mod 4 * 64 + c mod 64) mod 256 = c"
proof -
  assume *: "c < 256"
  then have "c div 64 < 4" by (simp add: less_mult_imp_div_less)
  then have "(b mod 16 * 4 + c div 64) mod 4 = c div 64" by (simp only: digits_mod)
  with * show ?thesis by simp
qed

lemma decode_encode_bytes:
  "list_all (\<lambda>n. n < 256) bs \<Longrightarrow> decode_sextets (encode_bytes bs) = bs"
proof (induction bs rule: encode_bytes.induct)
  case (2 a)
  then show ?case using byte1[of a 0] by simp
next
  case (3 a b)
  then show ?case using byte1[of a b] byte2[of b 0 a] by simp
next
  case (4 a b c r)
  then show ?case
    by (simp only: encode_bytes.simps decode_sextets.simps byte1 byte2 byte3 list.pred_inject simp_thms)
qed simp

lemma sextet_char_alphabet:
  "n < 64 \<Longrightarrow> is_alnum (sextet_char n) \<or> sextet_char n = CHR ''-'' \<or> sextet_char n = CHR ''_''"
  by (auto simp: sextet_char_def is_alnum_def is_digit_def is_lower_def is_upper_def code_unit_def)

definition base64url_char :: "char \<Rightarrow> bool" where
  "base64url_char c \<longleftrightarrow> is_alnum c \<or> c = CHR ''-'' \<or> c = CHR ''_''"

lemma bytes_less: "list_all (\<lambda>n. n < 256) (map code_unit s)"
  by (simp add: list_all_iff)

lemma encode_less: "n \<in> set (encode_bytes (map code_unit s)) \<Longrightarrow> n < 64"
  using encode_bytes_less[OF bytes_less] by (auto simp: list_all_iff)

lemma base64url_encode_chars: "c \<in> set (base64url_encode s) \<Longrightarrow> base64url_char c"
  using encode_less sextet_char_alphabet by (force simp: base64url_encode_def base64url_char_def)

lemma base64url_char_not: "\<not> base64url_char (CHR ''.'')" "\<not> base64url_char (CHR ''='')"
  by (simp_all add: base64url_char_def is_alnum_def is_digit_def is_lower_def is_upper_def
      code_unit_def)

lemma base64url_no_dot: "CHR ''.'' \<notin> set (base64url_encode s)"
  using base64url_encode_chars base64url_char_not by blast

lemma map_filter_sextets:
  "list_all (\<lambda>n. n < 64) ns \<Longrightarrow> List.map_filter char_sextet (map sextet_char ns) = ns"
  by (induction ns) (auto simp: map_filter_simps)

lemma base64url_roundtrip [simp]: "base64url_decode (base64url_encode s) = s"
proof -
  have "takeWhile (\<lambda>c. c \<noteq> CHR ''='') (base64url_encode s) = base64url_encode s"
    using base64url_encode_chars base64url_char_not by (intro takeWhile_eq_all_conv[THEN iffD2]) blast
  then have "base64url_decode (base64url_encode s) = map char_of (decode_sextets
      (List.map_filter char_sextet (base64url_encode s)))"
    by (simp only: base64url_decode_def)
  also have "\<dots> = map char_of (decode_sextets (encode_bytes (map code_unit s)))"
    by (simp only: base64url_encode_def map_filter_sextets encode_bytes_less[OF bytes_less])
  finally have "base64url_decode (base64url_encode s)
      = map char_of (decode_sextets (encode_bytes (map code_unit s)))" .
  then show ?thesis
    by (simp add: decode_encode_bytes[OF bytes_less] o_def)
qed

lemma base64url_inject [simp]: "base64url_encode s = base64url_encode t \<longleftrightarrow> s = t"
  by (metis base64url_roundtrip)

lemma base64url_Nil_iff [simp]: "base64url_encode s = [] \<longleftrightarrow> s = []"
  by (cases "map code_unit s" rule: encode_bytes.cases) (auto simp: base64url_encode_def)

end
