(* ===== verification/Json_Text.thy ===== *)
theory Json_Text
  imports Js_Data Base64url
begin

text \<open>
  \<open>JSON.stringify\<close> and \<open>JSON.parse\<close> on the strings of the model, and the bytes of a text in UTF-8
  (\<open>Buffer.from(text, "utf8")\<close> and back). Numbers are exact: a value is written when its numbers
  are integers below 10^21, where the notation has no fraction and no exponent; every number
  of the grammar is read. An escape of a code unit above 255 is not read. The parser takes fuel,
  twice the length of the text and two, which the proof of the round trip shows to be enough.
\<close>

section \<open>Strings\<close>

definition hexDigit :: "nat \<Rightarrow> char" where
  "hexDigit n = char_of (if n < 10 then 48 + n else 87 + n)"

definition jsonChar :: "char \<Rightarrow> string" where
  "jsonChar c = (let n = code_unit c in
     if n = 34 then [CHR 0x5C, CHR 0x22]
     else if n = 92 then [CHR 0x5C, CHR 0x5C]
     else if n = 8 then [CHR 0x5C, CHR ''b'']
     else if n = 9 then [CHR 0x5C, CHR ''t'']
     else if n = 10 then [CHR 0x5C, CHR ''n'']
     else if n = 12 then [CHR 0x5C, CHR ''f'']
     else if n = 13 then [CHR 0x5C, CHR ''r'']
     else if n < 32 then [CHR 0x5C, CHR ''u'', CHR ''0'', CHR ''0'', hexDigit (n div 16), hexDigit (n mod 16)]
     else [c])"

definition quoted :: "string \<Rightarrow> string" where
  "quoted s = CHR 0x22 # concat (map jsonChar s) @ [CHR 0x22]"

text \<open>A reader of double-quoted scalars, as YAML and JSON read them: the value and what follows.\<close>

definition hexValue :: "char \<Rightarrow> nat option" where
  "hexValue c = (let n = code_unit c in
     if is_digit c then Some (n - 48) else if 97 \<le> n \<and> n \<le> 102 then Some (n - 87)
     else if 65 \<le> n \<and> n \<le> 70 then Some (n - 55) else None)"

definition unescapeChar :: "char \<Rightarrow> char option" where
  "unescapeChar e = (if e = CHR 0x22 \<or> e = CHR 0x5C \<or> e = CHR ''/'' then Some e
     else if e = CHR ''b'' then Some CHR 0x08 else if e = CHR ''t'' then Some CHR 0x09
     else if e = CHR ''n'' then Some CHR 0x0A else if e = CHR ''f'' then Some CHR 0x0C
     else if e = CHR ''r'' then Some CHR 0x0D else None)"

definition readBefore :: "char \<Rightarrow> (string \<times> string) option \<Rightarrow> (string \<times> string) option" where
  "readBefore c = map_option (\<lambda>(v, r). (c # v, r))"

fun readQuoted :: "string \<Rightarrow> (string \<times> string) option" where
  "readQuoted [] = None"
| "readQuoted (c # r) =
    (if c = CHR 0x22 then Some ([], r)
     else if c \<noteq> CHR 0x5C then (if code_unit c < 32 then None else readBefore c (readQuoted r))
     else case r of [] \<Rightarrow> None
       | e # r1 \<Rightarrow>
         if e = CHR ''u''
         then (case r1 of z1 # z2 # a # b # r2 \<Rightarrow>
             (case (hexValue a, hexValue b) of
                (Some m, Some n) \<Rightarrow> if z1 = CHR ''0'' \<and> z2 = CHR ''0''
                  then readBefore (char_of (16 * m + n)) (readQuoted r2) else None
              | _ \<Rightarrow> None)
           | _ \<Rightarrow> None)
         else (case unescapeChar e of None \<Rightarrow> None | Some d \<Rightarrow> readBefore d (readQuoted r1)))"

lemma char_by_code: "code_unit c = n \<longleftrightarrow> n < 256 \<and> c = char_of n"
  by (auto simp: code_unit_def)

lemma char_codes:
  "char_of (34::nat) = CHR 0x22" "char_of (92::nat) = CHR 0x5C" "char_of (8::nat) = CHR 0x08"
  "char_of (9::nat) = CHR 0x09" "char_of (10::nat) = CHR 0x0A" "char_of (12::nat) = CHR 0x0C"
  "char_of (13::nat) = CHR 0x0D"
  by code_simp+

lemma hexValue_hexDigit: "n < 16 \<Longrightarrow> hexValue (hexDigit n) = Some n"
  by (auto simp: hexValue_def hexDigit_def is_digit_def code_unit_def Let_def)

lemma readQuoted_jsonChar: "readQuoted (jsonChar c @ t) = readBefore c (readQuoted t)"
proof -
  let ?n = "code_unit c"
  consider "?n = 34" | "?n = 92" | "?n = 8" | "?n = 9" | "?n = 10" | "?n = 12" | "?n = 13"
    | (low) "?n \<notin> {34, 92, 8, 9, 10, 12, 13}" "?n < 32" | (plain) "?n \<notin> {34, 92}" "\<not> ?n < 32"
    by fastforce
  then show ?thesis
  proof cases
    case low
    have "char_of (16 * (?n div 16) + ?n mod 16) = c" by (simp add: code_unit_def)
    with low show ?thesis
      by (simp add: jsonChar_def hexValue_hexDigit Let_def)
  next
    case plain
    then have "c \<noteq> CHR 0x22" "c \<noteq> CHR 0x5C" by (auto simp: code_unit_def)
    with plain show ?thesis by (simp add: jsonChar_def Let_def)
  qed (simp_all add: jsonChar_def Let_def unescapeChar_def char_by_code char_codes)
qed

lemma readQuoted_chars: "readQuoted (concat (map jsonChar s) @ CHR 0x22 # t) = Some (s, t)"
  by (induction s) (simp_all add: readQuoted_jsonChar readBefore_def)

lemma jsonChar_printable: "list_all (\<lambda>d. 32 \<le> code_unit d) (jsonChar c)"
proof -
  have "32 \<le> code_unit (hexDigit k)" if "k < 16" for k :: nat
    using that by (auto simp: hexDigit_def code_unit_def)
  then show ?thesis by (auto simp: jsonChar_def Let_def code_unit_def)
qed

lemma quoted_printable: "list_all (\<lambda>d. 32 \<le> code_unit d) (quoted s)"
proof -
  have "list_all (\<lambda>d. 32 \<le> code_unit d) (concat (map jsonChar s))"
    using jsonChar_printable by (induction s) simp_all
  then show ?thesis by (simp add: quoted_def code_unit_def)
qed


section \<open>Reading\<close>

definition json_space :: "char \<Rightarrow> bool" where
  "json_space c \<longleftrightarrow> c \<in> {CHR 0x20, CHR 0x09, CHR 0x0A, CHR 0x0D}"

definition skipSpace :: "string \<Rightarrow> string" where
  "skipSpace s = dropWhile json_space s"

definition natOf :: "string \<Rightarrow> nat" where
  "natOf s = foldl (\<lambda>n c. 10 * n + (code_unit c - 48)) 0 s"

definition readFraction :: "string \<Rightarrow> (string \<times> string) option" where
  "readFraction s = (case s of c # r \<Rightarrow>
       if c = CHR ''.'' then (if takeWhile is_digit r = [] then None
         else Some (takeWhile is_digit r, dropWhile is_digit r))
       else Some ([], s)
     | [] \<Rightarrow> Some ([], []))"

definition readExponent :: "string \<Rightarrow> (int \<times> string) option" where
  "readExponent s = (case s of c # r \<Rightarrow>
       if c = CHR ''e'' \<or> c = CHR ''E'' then
         (let negative = (r \<noteq> [] \<and> hd r = CHR ''-'');
              r1 = (if r \<noteq> [] \<and> (hd r = CHR ''-'' \<or> hd r = CHR ''+'') then tl r else r);
              n = int (natOf (takeWhile is_digit r1)) in
          if takeWhile is_digit r1 = [] then None
          else Some (if negative then - n else n, dropWhile is_digit r1))
       else Some (0, s)
     | [] \<Rightarrow> Some (0, []))"

definition scaled :: "nat \<Rightarrow> int \<Rightarrow> rat" where
  "scaled m e = (if 0 \<le> e then of_nat m * 10 ^ nat e else of_nat m / 10 ^ nat (- e))"

definition readNumber :: "string \<Rightarrow> (json \<times> string) option" where
  "readNumber s =
    (let negative = (s \<noteq> [] \<and> hd s = CHR ''-''); r = (if negative then tl s else s);
         whole = takeWhile is_digit r in
     if whole = [] \<or> (1 < length whole \<and> hd whole = CHR ''0'') then None
     else case readFraction (dropWhile is_digit r) of None \<Rightarrow> None
       | Some (fraction, r1) \<Rightarrow> (case readExponent r1 of None \<Rightarrow> None
           | Some (e, r2) \<Rightarrow>
               let q = scaled (natOf (whole @ fraction)) (e - int (length fraction)) in
               Some (JNum (Fin (if negative then - q else q)), r2)))"

fun readValue :: "nat \<Rightarrow> string \<Rightarrow> (json \<times> string) option"
  and readElements :: "nat \<Rightarrow> string \<Rightarrow> (json list \<times> string) option"
  and readMembers :: "nat \<Rightarrow> string \<Rightarrow> ((string \<times> json) list \<times> string) option" where
  "readValue 0 s = None"
| "readValue (Suc n) s = (case skipSpace s of [] \<Rightarrow> None
     | c # r \<Rightarrow>
       if c = CHR 0x22 then map_option (\<lambda>(v, t). (JStr v, t)) (readQuoted r)
       else if c = CHR ''['' then
         (if skipSpace r \<noteq> [] \<and> hd (skipSpace r) = CHR '']'' then Some (JArr [], tl (skipSpace r))
          else map_option (\<lambda>(vs, t). (JArr vs, t)) (readElements n r))
       else if c = CHR ''{'' then
         (if skipSpace r \<noteq> [] \<and> hd (skipSpace r) = CHR ''}'' then Some (JObj [], tl (skipSpace r))
          else map_option (\<lambda>(kvs, t). (JObj (js_map kvs), t)) (readMembers n r))
       else if starts_with (c # r) ''true'' then Some (JBool True, drop 3 r)
       else if starts_with (c # r) ''false'' then Some (JBool False, drop 4 r)
       else if starts_with (c # r) ''null'' then Some (JNull, drop 3 r)
       else readNumber (c # r))"
| "readElements 0 s = None"
| "readElements (Suc n) s = (case readValue n s of None \<Rightarrow> None
     | Some (v, t) \<Rightarrow> (case skipSpace t of [] \<Rightarrow> None
         | c # u \<Rightarrow> if c = CHR '','' then map_option (\<lambda>(vs, w). (v # vs, w)) (readElements n u)
             else if c = CHR '']'' then Some ([v], u) else None))"
| "readMembers 0 s = None"
| "readMembers (Suc n) s = (case skipSpace s of [] \<Rightarrow> None
     | q # r \<Rightarrow> if q \<noteq> CHR 0x22 then None
       else (case readQuoted r of None \<Rightarrow> None
         | Some (k, t) \<Rightarrow> (case skipSpace t of [] \<Rightarrow> None
             | d # u \<Rightarrow> if d \<noteq> CHR '':'' then None
               else (case readValue n u of None \<Rightarrow> None
                 | Some (v, w) \<Rightarrow> (case skipSpace w of [] \<Rightarrow> None
                     | c # x \<Rightarrow> if c = CHR '','' then map_option (\<lambda>(kvs, y). ((k, v) # kvs, y)) (readMembers n x)
                         else if c = CHR ''}'' then Some ([(k, v)], x) else None)))))"

definition jsonParse :: "string \<Rightarrow> json option" where
  "jsonParse s = (case readValue (2 * length s + 2) s of None \<Rightarrow> None
     | Some (v, t) \<Rightarrow> if skipSpace t = [] then Some v else None)"

section \<open>Writing\<close>

definition writable :: "jsnum \<Rightarrow> bool" where
  "writable n \<longleftrightarrow> (case n of Fin r \<Rightarrow> r = of_int \<lfloor>r\<rfloor> \<and> \<bar>\<lfloor>r\<rfloor>\<bar> < 10 ^ 21 | _ \<Rightarrow> True)"

fun numText :: "jsnum \<Rightarrow> string option" where
  "numText (Fin r) = (if writable (Fin r) then Some (decInt \<lfloor>r\<rfloor>) else None)"
| "numText n = Some ''null''"

text \<open>None for undefined, and for a value that holds a number outside the range above.\<close>

fun jsonText :: "json \<Rightarrow> string option"
  and elementTexts :: "json list \<Rightarrow> string list option"
  and memberTexts :: "(string \<times> json) list \<Rightarrow> string list option" where
  "jsonText JUndef = None"
| "jsonText JNull = Some ''null''"
| "jsonText (JBool b) = Some (if b then ''true'' else ''false'')"
| "jsonText (JNum n) = numText n"
| "jsonText (JStr s) = Some (quoted s)"
| "jsonText (JArr vs) = map_option (\<lambda>ts. CHR ''['' # js_join '','' ts @ '']'') (elementTexts vs)"
| "jsonText (JObj kvs) = map_option (\<lambda>ts. CHR ''{'' # js_join '','' ts @ ''}'') (memberTexts kvs)"
| "elementTexts [] = Some []"
| "elementTexts (v # vs) = (case (if v = JUndef then Some ''null'' else jsonText v) of None \<Rightarrow> None
     | Some t \<Rightarrow> map_option (\<lambda>ts. t # ts) (elementTexts vs))"
| "memberTexts [] = Some []"
| "memberTexts ((k, v) # kvs) = (if v = JUndef then memberTexts kvs
     else case jsonText v of None \<Rightarrow> None
       | Some t \<Rightarrow> map_option (\<lambda>ts. (quoted k @ CHR '':'' # t) # ts) (memberTexts kvs))"

section \<open>The round trip\<close>

text \<open>What is read back: no undefined inside, finite numbers, distinct keys.\<close>

fun json_ok :: "json \<Rightarrow> bool" where
  "json_ok JUndef = False"
| "json_ok (JNum n) = (case n of Fin r \<Rightarrow> writable n | _ \<Rightarrow> False)"
| "json_ok (JArr vs) = list_all json_ok vs"
| "json_ok (JObj kvs) = (distinct (map fst kvs) \<and> list_all (\<lambda>kv. json_ok (snd kv)) kvs)"
| "json_ok _ = True"

definition ends_value :: "string \<Rightarrow> bool" where
  "ends_value r \<longleftrightarrow> r = [] \<or> hd r \<in> {CHR '','', CHR '']'', CHR ''}''}"

lemma skipSpace_hd: "s \<noteq> [] \<Longrightarrow> \<not> json_space (hd s) \<Longrightarrow> skipSpace s = s"
  by (cases s) (simp_all add: skipSpace_def)

lemma natOf_dec: "foldl (\<lambda>n c. 10 * n + (code_unit c - 48)) a (dec n) = a * 10 ^ length (dec n) + n"
proof (induction n arbitrary: a rule: dec.induct)
  case (1 n)
  show ?case
  proof (cases "n < 10")
    case True
    then show ?thesis by (subst (1 2) dec.simps) (simp add: code_unit_def)
  next
    case False
    have "n = 10 * (n div 10) + n mod 10" by simp
    with 1[OF False] False show ?thesis
      by (subst (1 2) dec.simps) (simp add: code_unit_def algebra_simps)
  qed
qed

lemma dec_length_one: "1 < length (dec n) \<Longrightarrow> hd (dec n) \<noteq> CHR ''0''"
proof (induction n rule: dec.induct)
  case (1 n)
  show ?case
  proof (cases "n < 10")
    case True
    with 1(2) show ?thesis by (simp add: dec.simps)
  next
    case False
    have hd: "hd (dec n) = hd (dec (n div 10))"
      using False by (subst dec.simps) (simp add: hd_append)
    show ?thesis
    proof (cases "n div 10 < 10")
      case True
      then have "dec (n div 10) = [char_of (48 + n div 10)]" by (subst dec.simps) simp
      moreover have "n div 10 \<noteq> 0" using False by simp
      moreover have "char_of (48 + m) \<noteq> CHR ''0''" if "m \<noteq> 0" "m < 10" for m :: nat
      proof -
        have "code_unit (char_of (48 + m)) = 48 + m" using that by simp
        moreover have "code_unit (CHR ''0'') = 48" by code_simp
        ultimately show ?thesis using that by force
      qed
      ultimately show ?thesis using hd True by simp
    next
      case F: False
      then have "1 < length (dec (n div 10))"
        by (subst dec.simps) (simp add: Suc_lessI)
      with 1(1)[OF False] hd show ?thesis by simp
    qed
  qed
qed

lemma number_stop:
  assumes "ends_value r"
  shows "takeWhile is_digit r = []" "dropWhile is_digit r = r" "readFraction r = Some ([], r)" "readExponent r = Some (0, r)"
  using assms by (cases r; auto simp: ends_value_def is_digit_def code_unit_def readFraction_def readExponent_def)+

lemma digits_split:
  assumes "ends_value r"
  shows "takeWhile is_digit (dec n @ r) = dec n" "dropWhile is_digit (dec n @ r) = r"
  using dec_digits[of n] number_stop(1,2)[OF assms]
  by (simp_all add: takeWhile_append2 dropWhile_append2 list_all_iff)

lemma decInt_parts: "decInt i = (if i < 0 then CHR ''-'' # dec (nat (- i)) else dec (nat i))"
  by (simp add: decInt_def)

lemma hd_dec_digit: "is_digit (hd (dec n))"
  using dec_digits[of n] by (cases "dec n") auto

lemma readNumber_decInt:
  assumes "ends_value r"
  shows "readNumber (decInt i @ r) = Some (JNum (Fin (of_int i)), r)"
proof -
  have scaled: "scaled m 0 = of_nat m" for m by (simp add: scaled_def)
  have nat: "natOf (dec n) = n" for n using natOf_dec[of 0 n] by (simp add: natOf_def)
  have lead: "\<not> (1 < length (dec n) \<and> hd (dec n) = CHR ''0'')" for n using dec_length_one[of n] by blast
  have no_minus: "hd (dec n) \<noteq> CHR ''-''" for n
    using hd_dec_digit[of n] by (auto simp: is_digit_def code_unit_def)
  show ?thesis
  proof (cases "i < 0")
    case True
    then show ?thesis
      using lead[of "nat (- i)"]
      by (simp add: readNumber_def decInt_parts digits_split[OF assms] number_stop[OF assms] scaled nat Let_def)
  next
    case False
    then show ?thesis
      using lead[of "nat i"] no_minus[of "nat i"]
      by (simp add: readNumber_def decInt_parts digits_split[OF assms] number_stop[OF assms] scaled nat Let_def hd_append)
  qed
qed

lemma starts_with_char:
  "starts_with (c # s) (d # p) \<longleftrightarrow> c = d \<and> starts_with s p" "starts_with s []"
  by (simp_all add: starts_with_def)

definition value_start :: "string \<Rightarrow> bool" where
  "value_start t \<longleftrightarrow> t \<noteq> [] \<and> \<not> json_space (hd t) \<and> hd t \<notin> {CHR '']'', CHR ''}'', CHR '',''}"

lemma decInt_start: "value_start (decInt i)" "hd (decInt i) = CHR ''-'' \<or> is_digit (hd (decInt i))"
proof -
  show *: "hd (decInt i) = CHR ''-'' \<or> is_digit (hd (decInt i))"
    using hd_dec_digit by (simp add: decInt_def)
  have ne: "decInt i \<noteq> []" by (simp add: decInt_def)
  with * show "value_start (decInt i)"
    by (auto simp: value_start_def json_space_def is_digit_def code_unit_def)
qed

lemma numText_start: "numText n = Some t \<Longrightarrow> value_start t"
  using decInt_start(1) by (cases n) (auto simp: value_start_def json_space_def split: if_split_asm)

lemma jsonText_start: "jsonText v = Some t \<Longrightarrow> value_start t"
proof (cases v)
  case (JNum n)
  assume "jsonText v = Some t"
  with JNum numText_start show ?thesis by simp
qed (auto simp: value_start_def json_space_def quoted_def split: if_split_asm)

lemma update_fresh: "k \<notin> set (map fst m) \<Longrightarrow> AList.update k v m = m @ [(k, v)]"
  by (induction m) auto

lemma js_map_distinct: "distinct (map fst kvs) \<Longrightarrow> js_map kvs = kvs"
proof -
  have "fold (\<lambda>(k, v) m. AList.update k v m) kvs m = m @ kvs"
    if "distinct (map fst (m @ kvs))" for m
    using that
  proof (induction kvs arbitrary: m)
    case (Cons kv kvs)
    obtain k v where kv: "kv = (k, v)" by fastforce
    have "AList.update k v m = m @ [(k, v)]"
      using Cons.prems by (intro update_fresh) (auto simp: kv)
    with Cons kv show ?case by simp
  qed simp
  then show "distinct (map fst kvs) \<Longrightarrow> ?thesis" by (simp add: js_map_def)
qed

lemma readValue_number:
  assumes "ends_value r"
  shows "readValue (Suc n) (decInt i @ r) = Some (JNum (Fin (of_int i)), r)"
proof -
  obtain c u where cu: "decInt i = c # u" using decInt_start(1)[of i] by (cases "decInt i") (auto simp: value_start_def)
  have c: "c = CHR ''-'' \<or> is_digit c" using decInt_start(2)[of i] by (simp add: cu)
  then have "\<not> json_space c" "c \<notin> {CHR 0x22, CHR ''['', CHR ''{'', CHR ''t'', CHR ''f'', CHR ''n''}"
    by (auto simp: json_space_def is_digit_def code_unit_def)
  then have "readValue (Suc n) (decInt i @ r) = readNumber (decInt i @ r)"
    by (simp add: cu skipSpace_def starts_with_char)
  then show ?thesis by (simp add: readNumber_decInt[OF assms])
qed

lemma json_ok_ne: "json_ok v \<Longrightarrow> v \<noteq> JUndef" by auto

lemma elementTexts_Nil [simp]: "elementTexts vs = Some [] \<longleftrightarrow> vs = []"
  by (cases vs) (auto split: option.splits)

lemma skip_start: "value_start t \<Longrightarrow> skipSpace (t @ r) = t @ r"
  by (intro skipSpace_hd) (auto simp: value_start_def)

lemma read_written:
  "jsonText v = Some t \<Longrightarrow> json_ok v \<Longrightarrow> ends_value r \<Longrightarrow> 2 * length t \<le> n \<Longrightarrow>
    readValue (Suc n) (t @ r) = Some (v, r)"
  "elementTexts vs = Some ts \<Longrightarrow> list_all json_ok vs \<Longrightarrow> vs \<noteq> [] \<Longrightarrow> 2 * length (js_join '','' ts) + 1 \<le> n \<Longrightarrow>
    readElements (Suc n) (js_join '','' ts @ CHR '']'' # r) = Some (vs, r)"
  "memberTexts kvs = Some ts \<Longrightarrow> list_all (\<lambda>kv. json_ok (snd kv)) kvs \<Longrightarrow> kvs \<noteq> [] \<Longrightarrow>
    2 * length (js_join '','' ts) + 1 \<le> n \<Longrightarrow>
    readMembers (Suc n) (js_join '','' ts @ CHR ''}'' # r) = Some (kvs, r)"
proof (induction v and vs and kvs arbitrary: t n r and ts n r and ts n r rule: jsonText_elementTexts_memberTexts.induct)
  case (4 m)
  then obtain q where "m = Fin q" "q = of_int \<lfloor>q\<rfloor>" "t = decInt \<lfloor>q\<rfloor>"
    by (cases m) (auto simp: writable_def)
  then show ?case using readValue_number[OF 4(3), of n "\<lfloor>q\<rfloor>"] by simp
next
  case (5 s)
  then have "t = quoted s" by simp
  then show ?case by (simp add: quoted_def skipSpace_def json_space_def readQuoted_chars)
next
  case (6 vs)
  then obtain ts where ts: "elementTexts vs = Some ts" "t = CHR ''['' # js_join '','' ts @ '']''" by auto
  show ?case
  proof (cases "vs = []")
    case True
    with ts show ?thesis by (simp add: skipSpace_def json_space_def)
  next
    case False
    obtain n' where n': "n = Suc n'" "2 * length (js_join '','' ts) + 1 \<le> n'"
      using 6(5) ts(2) by (cases n) auto
    have "readElements n (js_join '','' ts @ CHR '']'' # r) = Some (vs, r)"
      unfolding n'(1) using 6(1)[OF ts(1) _ False n'(2)] 6(3) by simp
    moreover obtain e es where "vs = e # es" using False by (cases vs) auto
    with ts(1) 6(3) obtain t1 ts1 where "ts = t1 # ts1" "jsonText e = Some t1"
      by (auto split: option.split_asm if_split_asm)
    then have "\<exists>u. js_join '','' ts = t1 @ u" "value_start t1" using jsonText_start by (cases ts1; auto)+
    then have "skipSpace (js_join '','' ts @ CHR '']'' # r) = js_join '','' ts @ CHR '']'' # r"
      "hd (js_join '','' ts @ CHR '']'' # r) \<noteq> CHR '']''"
      by (auto simp: skip_start value_start_def)
    ultimately show ?thesis by (simp add: ts(2) skipSpace_def json_space_def)
  qed
next
  case (7 kvs)
  then obtain ts where ts: "memberTexts kvs = Some ts" "t = CHR ''{'' # js_join '','' ts @ ''}''" by auto
  show ?case
  proof (cases "kvs = []")
    case True
    with ts show ?thesis by (simp add: skipSpace_def json_space_def js_map_def)
  next
    case False
    obtain n' where n': "n = Suc n'" "2 * length (js_join '','' ts) + 1 \<le> n'"
      using 7(5) ts(2) by (cases n) auto
    have "readMembers n (js_join '','' ts @ CHR ''}'' # r) = Some (kvs, r)"
      unfolding n'(1) using 7(1)[OF ts(1) _ False n'(2)] 7(3) by simp
    moreover obtain k v ms where "kvs = (k, v) # ms" using False by (cases kvs) auto
    with ts(1) 7(3) obtain t1 ts1 where "ts = (quoted k @ t1) # ts1"
      by (auto split: option.split_asm if_split_asm)
    then have "\<exists>u. js_join '','' ts = CHR 0x22 # u" by (cases ts1) (auto simp: quoted_def)
    then have "skipSpace (js_join '','' ts @ CHR ''}'' # r) = js_join '','' ts @ CHR ''}'' # r"
      "hd (js_join '','' ts @ CHR ''}'' # r) \<noteq> CHR ''}''"
      by (auto simp: skipSpace_def json_space_def)
    moreover have "js_map kvs = kvs" using 7(3) by (simp add: js_map_distinct)
    ultimately show ?thesis by (simp add: ts(2) skipSpace_def json_space_def)
  qed
next
  case (9 v vs)
  then obtain t1 ts1 where ts: "jsonText v = Some t1" "elementTexts vs = Some ts1" "ts = t1 # ts1"
    by (auto split: option.split_asm if_split_asm dest: json_ok_ne)
  obtain n' where n': "n = Suc n'" using 9(6) by (cases n) auto
  have ne: "v \<noteq> JUndef" and ok: "json_ok v" "list_all json_ok vs" using 9(4) json_ok_ne by auto
  show ?case
  proof (cases "vs = []")
    case True
    with ts have j: "ts = [t1]" by simp
    have "readValue n (t1 @ CHR '']'' # r) = Some (v, CHR '']'' # r)"
      unfolding n' using 9(6) j ne ts(1) ok by (intro 9(1)) (auto simp: ends_value_def n')
    with True j show ?thesis by (simp add: skipSpace_def json_space_def)
  next
    case False
    with ts(2) have j: "js_join '','' ts = t1 @ CHR '','' # js_join '','' ts1" by (cases ts1) (auto simp: ts(3))
    have "readValue n (t1 @ CHR '','' # js_join '','' ts1 @ CHR '']'' # r)
        = Some (v, CHR '','' # js_join '','' ts1 @ CHR '']'' # r)"
      unfolding n' using 9(6) j ne ts(1) ok by (intro 9(1)) (auto simp: ends_value_def n')
    moreover have "readElements n (js_join '','' ts1 @ CHR '']'' # r) = Some (vs, r)"
      unfolding n' using 9(6) j False ts ok ne by (intro 9(2)[of t1]) (auto simp: n')
    ultimately show ?thesis by (simp add: j skipSpace_def json_space_def)
  qed
next
  case (11 k v kvs)
  have ne: "v \<noteq> JUndef" and ok: "json_ok v" "list_all (\<lambda>kv. json_ok (snd kv)) kvs" using 11(5) json_ok_ne by auto
  with 11(4) obtain t1 ts1 where ts: "jsonText v = Some t1" "memberTexts kvs = Some ts1"
      "ts = (quoted k @ CHR '':'' # t1) # ts1"
    by (auto split: option.split_asm if_split_asm)
  obtain n' where n': "n = Suc n'" using 11(7) by (cases n) auto
  show ?case
  proof (cases "kvs = []")
    case True
    with ts have j: "ts = [quoted k @ CHR '':'' # t1]" by simp
    have "readValue n (t1 @ CHR ''}'' # r) = Some (v, CHR ''}'' # r)"
      unfolding n' using 11(7) j ne ts(1) ok by (intro 11(2)) (auto simp: ends_value_def n')
    with True j show ?thesis by (simp add: quoted_def skipSpace_def json_space_def readQuoted_chars)
  next
    case False
    with ts(2,3) ne have "ts1 \<noteq> []" using ok
      by (cases kvs) (auto split: option.split_asm if_split_asm dest: json_ok_ne)
    then have j: "js_join '','' ts = quoted k @ CHR '':'' # t1 @ CHR '','' # js_join '','' ts1"
      by (cases ts1) (auto simp: ts(3))
    have "readValue n (t1 @ CHR '','' # js_join '','' ts1 @ CHR ''}'' # r)
        = Some (v, CHR '','' # js_join '','' ts1 @ CHR ''}'' # r)"
      unfolding n' using 11(7) j ne ts(1) ok by (intro 11(2)) (auto simp: ends_value_def n')
    moreover have "readMembers n (js_join '','' ts1 @ CHR ''}'' # r) = Some (kvs, r)"
      unfolding n' using 11(7) j False ts ok ne by (intro 11(3)) (auto simp: n')
    ultimately show ?thesis by (simp add: j quoted_def skipSpace_def json_space_def readQuoted_chars)
  qed
qed (auto simp: skipSpace_def json_space_def starts_with_char)

theorem json_round_trip: "json_ok v \<Longrightarrow> jsonText v = Some t \<Longrightarrow> jsonParse t = Some v"
  using read_written(1)[of v t "[]" "2 * length t + 1"] by (simp add: jsonParse_def ends_value_def skipSpace_def)

section \<open>Looking into parsed values\<close>

fun objectKeys :: "json \<Rightarrow> string list" where
  "objectKeys (JObj kvs) = map fst kvs"
| "objectKeys v = []"

text \<open>The integer a number stands for (\<open>Number.isInteger\<close>).\<close>

definition integerOf :: "json \<Rightarrow> int option" where
  "integerOf v = (case v of JNum (Fin r) \<Rightarrow> if r = of_int \<lfloor>r\<rfloor> then Some \<lfloor>r\<rfloor> else None | _ \<Rightarrow> None)"

lemma integerOf_of_int [simp]: "integerOf (JNum (Fin (of_int i))) = Some i"
  by (simp add: integerOf_def)

section \<open>UTF-8\<close>

text \<open>The bytes of a text whose code units are below 256. Bytes that encode no such code unit are read
  as a question mark, where the library gives another character.\<close>

definition utf8_char :: "char \<Rightarrow> string" where
  "utf8_char c = (let n = code_unit c in
     if n < 128 then [c] else [char_of (192 + n div 64), char_of (128 + n mod 64)])"

definition utf8_encode :: "string \<Rightarrow> string" where
  "utf8_encode s = concat (map utf8_char s)"

fun utf8_decode :: "string \<Rightarrow> string" where
  "utf8_decode [] = []"
| "utf8_decode [c] = [if code_unit c < 128 then c else CHR ''?'']"
| "utf8_decode (c # d # s) =
    (if code_unit c < 128 then c # utf8_decode (d # s)
     else if (code_unit c = 194 \<or> code_unit c = 195) \<and> 128 \<le> code_unit d \<and> code_unit d < 192
     then char_of ((code_unit c - 192) * 64 + (code_unit d - 128)) # utf8_decode s
     else CHR ''?'' # utf8_decode (d # s))"

lemma utf8_decode_low: "code_unit c < 128 \<Longrightarrow> utf8_decode (c # s) = c # utf8_decode s"
  by (cases s) simp_all

lemma utf8_round_trip [simp]: "utf8_decode (utf8_encode s) = s"
proof (induction s)
  case (Cons c s)
  let ?n = "code_unit c"
  show ?case
  proof (cases "?n < 128")
    case True
    with Cons show ?thesis by (simp add: utf8_encode_def utf8_char_def utf8_decode_low)
  next
    case False
    have bound: "?n < 256" by (rule code_unit_less)
    have "192 + ?n div 64 = 194 \<or> 192 + ?n div 64 = 195" "192 + ?n div 64 < 256" "128 + ?n mod 64 < 192"
      using False bound by linarith+
    moreover have "(192 + ?n div 64 - 192) * 64 + (128 + ?n mod 64 - 128) = ?n" by simp
    ultimately show ?thesis
      using False Cons by (simp add: utf8_encode_def utf8_char_def Let_def)
  qed
qed (simp add: utf8_encode_def)

section \<open>Lengths\<close>

lemma length_encode_bytes_le: "length (encode_bytes bs) \<le> 2 * length bs"
  by (induction bs rule: encode_bytes.induct) auto

lemma length_utf8_le: "length (utf8_encode s) \<le> 2 * length s"
  by (induction s) (auto simp: utf8_encode_def utf8_char_def Let_def)

lemma length_encode_bytes: "4 * length bs \<le> 3 * length (encode_bytes bs)"
  by (induction bs rule: encode_bytes.induct) auto

lemma length_utf8: "length s \<le> length (utf8_encode s)"
  by (induction s) (auto simp: utf8_encode_def utf8_char_def Let_def)

lemma length_quoted: "length s + 2 \<le> length (quoted s)"
  by (induction s) (auto simp: quoted_def jsonChar_def Let_def)

end
