(* ===== verification/Gateway_Config.thy ===== *)
theory Gateway_Config
  imports Gateway_Input Json_Text
begin

text \<open>
  The Envoy AI gateway configuration the console generates
  (src/ai-console/src/lib/server/gateway-config.ts): the system-managed MCP services, the quoting
  of values and \<open>generateGatewayConfig\<close>. The text is a list of resources, each a list of lines
  under its kind and name; \<open>renderResource\<close> is the layout all of them share. The URL parser, the
  resolution of a relative URL and \<open>isIP\<close> of node:net are parameters.
\<close>

section \<open>Snapshots\<close>

text \<open>A stored channel or server is the published one without the flags that are computed on reading.\<close>

record storedChannel =
  gc_id :: string
  gc_name :: string
  gc_provider :: gatewayProvider
  gc_baseUrl :: string
  gc_enabled :: bool
  gc_models :: "modelRoute list"
  gc_createdAt :: string
  gc_updatedAt :: string

record gatewayChannel = storedChannel +
  gc_keyConfigured :: bool

record storedServer =
  ms_id :: string
  ms_name :: string
  ms_namespace :: string
  ms_url :: string
  ms_enabled :: bool
  ms_authHeader :: string
  ms_toolIncludes :: "string list"
  ms_toolExcludes :: "string list"
  ms_createdAt :: string
  ms_updatedAt :: string

record mcpServer = storedServer +
  ms_managed :: bool
  ms_keyConfigured :: bool

text \<open>What the process reads from its environment and the two library functions.\<close>

record gatewayEnv =
  ge_openConnectorUrl :: "string option"
  ge_openConnectorRuntimeToken :: "string option"
  ge_ragMcpUrl :: "string option"
  ge_lightRagApiKey :: "string option"
  ge_resolveUrl :: "string \<Rightarrow> string \<Rightarrow> string option"
  ge_parse :: urlParser
  ge_isIP :: "string \<Rightarrow> bool"

section \<open>System-managed services\<close>

definition orElse :: "string \<Rightarrow> string \<Rightarrow> string" where
  "orElse s d = (if s = [] then d else s)"

definition envTrimmed :: "string option \<Rightarrow> string" where
  "envTrimmed v = (case v of None \<Rightarrow> [] | Some s \<Rightarrow> js_trim s)"

definition openConnectorMcpUrl :: "gatewayEnv \<Rightarrow> string" where
  "openConnectorMcpUrl env =
    (case ge_resolveUrl env ''mcp''
        (strip_last_slash (orElse (case ge_openConnectorUrl env of None \<Rightarrow> [] | Some s \<Rightarrow> s)
           ''http://localhost:8080/connector'') @ ''/'') of
      None \<Rightarrow> ''http://localhost:8080/connector/mcp''
    | Some u \<Rightarrow> u)"

text \<open>An absent token and an empty one are the same: the empty string.\<close>

definition openConnectorRuntimeToken :: "gatewayEnv \<Rightarrow> string" where
  "openConnectorRuntimeToken env = envTrimmed (ge_openConnectorRuntimeToken env)"

definition ragMcpUrl :: "gatewayEnv \<Rightarrow> string" where
  "ragMcpUrl env = orElse (envTrimmed (ge_ragMcpUrl env)) ''http://rag-mcp:8080/mcp''"

definition lightRagApiKey :: "gatewayEnv \<Rightarrow> string" where
  "lightRagApiKey env = envTrimmed (ge_lightRagApiKey env)"

definition SYSTEM_MANAGED_TIMESTAMP :: string where
  "SYSTEM_MANAGED_TIMESTAMP = ''1970-01-01T00:00:00.000Z''"

definition getSystemManagedMcpServers :: "gatewayEnv \<Rightarrow> mcpServer list" where
  "getSystemManagedMcpServers env =
    [\<lparr>ms_id = OPEN_CONNECTOR_MCP_ID, ms_name = ''Open Connector'', ms_namespace = OPEN_CONNECTOR_MCP_NAMESPACE,
       ms_url = openConnectorMcpUrl env, ms_enabled = True, ms_authHeader = ''Authorization'', ms_toolIncludes = [], ms_toolExcludes = [],
       ms_createdAt = SYSTEM_MANAGED_TIMESTAMP, ms_updatedAt = SYSTEM_MANAGED_TIMESTAMP,
       ms_managed = True, ms_keyConfigured = (openConnectorRuntimeToken env \<noteq> [])\<rparr>,
     \<lparr>ms_id = RAG_MCP_ID, ms_name = ''enterprise knowledge base RAG'', ms_namespace = RAG_MCP_NAMESPACE,
       ms_url = ragMcpUrl env, ms_enabled = True, ms_authHeader = ''X-API-Key'', ms_toolIncludes = [], ms_toolExcludes = [],
       ms_createdAt = SYSTEM_MANAGED_TIMESTAMP, ms_updatedAt = SYSTEM_MANAGED_TIMESTAMP,
       ms_managed = True, ms_keyConfigured = (lightRagApiKey env \<noteq> [])\<rparr>]"

definition getSystemManagedMcpServer :: "gatewayEnv \<Rightarrow> string \<Rightarrow> mcpServer option" where
  "getSystemManagedMcpServer env i = find (\<lambda>s. ms_id s = i) (getSystemManagedMcpServers env)"

section \<open>Quoting\<close>

text \<open>JSON.stringify of a string is also a double-quoted YAML scalar.\<close>

definition yamlString :: "string \<Rightarrow> string" where
  "yamlString s = quoted s"

section \<open>Resources\<close>

record resource =
  rs_apiVersion :: string
  rs_kind :: string
  rs_name :: string
  rs_body :: "string list"

definition unlines :: "string list \<Rightarrow> string" where
  "unlines ls = concat (map (\<lambda>l. l @ [CHR 0x0A]) ls)"

definition resourceLines :: "resource \<Rightarrow> string list" where
  "resourceLines r = [''apiVersion: '' @ rs_apiVersion r, ''kind: '' @ rs_kind r, ''metadata:'',
     ''  name: '' @ rs_name r] @ rs_body r"

definition backendName :: "string \<Rightarrow> string" where
  "backendName i = ''llm-'' @ i"

definition mcpBackendName :: "string \<Rightarrow> string" where
  "mcpBackendName n = ''mcp-'' @ n"

record endpoint =
  ep_hostname :: string
  ep_port :: nat
  ep_tls :: bool
  ep_pathPrefix :: "string option"

definition digitValue :: "char \<Rightarrow> nat" where
  "digitValue c = code_unit c - 48"

definition urlPort :: "gatewayUrl \<Rightarrow> nat" where
  "urlPort u = (if gu_port u \<noteq> [] then foldl (\<lambda>n c. 10 * n + digitValue c) 0 (gu_port u)
     else if gu_protocol u = ''https:'' then 443 else 80)"

definition endpointParts :: "gatewayUrl \<Rightarrow> endpoint" where
  "endpointParts u = \<lparr>ep_hostname = gu_hostname u, ep_port = urlPort u,
     ep_tls = (gu_protocol u = ''https:''),
     ep_pathPrefix = (if gu_pathname u = ''/'' \<or> gu_pathname u = ''/v1'' then None
       else Some (strip_last_slash (gu_pathname u)))\<rparr>"

definition GATEWAY_CONFIG_VERSION_MARKER :: string where
  "GATEWAY_CONFIG_VERSION_MARKER = ''# ai-base-gateway-config-version: 2''"

definition BASE_GATEWAY_RESOURCES :: "resource list" where
  "BASE_GATEWAY_RESOURCES =
    [\<lparr>rs_apiVersion = ''gateway.networking.k8s.io/v1'', rs_kind = ''GatewayClass'', rs_name = ''ai-base-llm'',
       rs_body = [''spec:'', ''  controllerName: gateway.envoyproxy.io/gatewayclass-controller'']\<rparr>,
     \<lparr>rs_apiVersion = ''gateway.networking.k8s.io/v1'', rs_kind = ''Gateway'', rs_name = ''ai-base-llm'',
       rs_body = [''  namespace: default'', ''spec:'', ''  gatewayClassName: ai-base-llm'', ''  listeners:'',
         ''    - name: http'', ''      protocol: HTTP'', ''      port: 1975'', ''  infrastructure:'',
         ''    parametersRef:'', ''      group: gateway.envoyproxy.io'', ''      kind: EnvoyProxy'',
         ''      name: ai-base-llm'']\<rparr>,
     \<lparr>rs_apiVersion = ''gateway.envoyproxy.io/v1alpha1'', rs_kind = ''EnvoyProxy'', rs_name = ''ai-base-llm'',
       rs_body = [''  namespace: default'', ''spec:'', ''  logging:'', ''    level:'', ''      default: error'']\<rparr>]"

section \<open>Model channels\<close>

definition routeRule :: "gatewayChannel \<Rightarrow> modelRoute \<Rightarrow> string list" where
  "routeRule c m =
    [''    - matches:'', ''        - headers:'', ''            - type: Exact'',
     ''              name: x-ai-eg-model'', ''              value: '' @ yamlString (mr_publicName m),
     ''      backendRefs:'', ''        - name: '' @ backendName (gc_id c), ''          namespace: default'']
    @ (if mr_upstreamName m = mr_publicName m then []
       else [''          modelNameOverride: '' @ yamlString (mr_upstreamName m)])
    @ [''      timeouts:'', ''        request: 120s'']"

definition llmRoute :: "gatewayChannel list \<Rightarrow> resource" where
  "llmRoute cs = \<lparr>rs_apiVersion = ''aigateway.envoyproxy.io/v1beta1'', rs_kind = ''AIGatewayRoute'',
     rs_name = ''ai-base-llm'',
     rs_body = [''  namespace: default'', ''spec:'', ''  parentRefs:'', ''    - name: ai-base-llm'',
       ''      kind: Gateway'', ''      group: gateway.networking.k8s.io'', ''  rules:'']
       @ (if concat (map gc_models cs) = [] then [[]]
          else concat (map (\<lambda>c. concat (map (routeRule c) (gc_models c))) cs))
       @ [''  llmRequestCosts:'', ''    - metadataKey: llm_input_token'', ''      type: InputToken'',
          ''    - metadataKey: llm_output_token'', ''      type: OutputToken'']\<rparr>"

definition endpointLines :: "(string \<Rightarrow> bool) \<Rightarrow> string \<Rightarrow> nat \<Rightarrow> string list" where
  "endpointLines isIP hostname port =
    (if isIP hostname then [''    - ip:'', ''        address: '' @ yamlString hostname]
     else [''    - fqdn:'', ''        hostname: '' @ yamlString hostname])
    @ [''        port: '' @ dec port]"

definition backendResource :: "(string \<Rightarrow> bool) \<Rightarrow> string \<Rightarrow> string \<Rightarrow> nat \<Rightarrow> resource" where
  "backendResource isIP name hostname port =
    \<lparr>rs_apiVersion = ''gateway.envoyproxy.io/v1alpha1'', rs_kind = ''Backend'', rs_name = name,
     rs_body = [''  namespace: default'', ''spec:'', ''  endpoints:''] @ endpointLines isIP hostname port\<rparr>"

definition tlsResource :: "string \<Rightarrow> string \<Rightarrow> resource" where
  "tlsResource name hostname =
    \<lparr>rs_apiVersion = ''gateway.networking.k8s.io/v1alpha3'', rs_kind = ''BackendTLSPolicy'', rs_name = name @ ''-tls'',
     rs_body = [''  namespace: default'', ''spec:'', ''  targetRefs:'', ''    - group: gateway.envoyproxy.io'',
       ''      kind: Backend'', ''      name: '' @ name, ''  validation:'',
       ''    wellKnownCACertificates: System'', ''    hostname: '' @ yamlString hostname]\<rparr>"

definition serviceBackendResource :: "string \<Rightarrow> gatewayProvider \<Rightarrow> string option \<Rightarrow> resource" where
  "serviceBackendResource name provider pathPrefix =
    \<lparr>rs_apiVersion = ''aigateway.envoyproxy.io/v1beta1'', rs_kind = ''AIServiceBackend'', rs_name = name,
     rs_body = [''  namespace: default'', ''spec:'', ''  timeouts:'', ''    request: 3m'', ''  schema:'',
       ''    name: '' @ (if provider = Anthropic then ''Anthropic'' else ''OpenAI'')]
       @ (case pathPrefix of None \<Rightarrow> [] | Some p \<Rightarrow>
            if p = [] then [] else [''    prefix: '' @ yamlString p])
       @ [''  backendRef:'', ''    name: '' @ name, ''    kind: Backend'', ''    group: gateway.envoyproxy.io'',
          ''    namespace: default'']\<rparr>"

definition SECRET_DIRECTORY_NAME :: string where
  "SECRET_DIRECTORY_NAME = ''llm-gateway-secrets''"

definition MCP_SECRET_DIRECTORY_NAME :: string where
  "MCP_SECRET_DIRECTORY_NAME = ''llm-gateway-mcp-secrets''"

definition secretResource :: "string \<Rightarrow> string \<Rightarrow> string \<Rightarrow> resource" where
  "secretResource name directory i =
    \<lparr>rs_apiVersion = ''v1'', rs_kind = ''Secret'', rs_name = name @ ''-key'',
     rs_body = [''  namespace: default'', ''  annotations:'',
       ''    substitution.aigw.run/file/apiKey: ''
         @ yamlString (''/control/'' @ directory @ ''/'' @ i @ ''.key''),
       ''type: Opaque'', ''stringData:'', ''  apiKey: replaced-at-runtime'']\<rparr>"

definition securityPolicyResource :: "string \<Rightarrow> gatewayProvider \<Rightarrow> resource" where
  "securityPolicyResource name provider =
    \<lparr>rs_apiVersion = ''aigateway.envoyproxy.io/v1beta1'', rs_kind = ''BackendSecurityPolicy'', rs_name = name @ ''-key'',
     rs_body = [''  namespace: default'', ''spec:'', ''  targetRefs:'', ''    - group: aigateway.envoyproxy.io'',
       ''      kind: AIServiceBackend'', ''      name: '' @ name]
       @ (if provider = Anthropic then [''  type: AnthropicAPIKey'', ''  anthropicAPIKey:'']
          else [''  type: APIKey'', ''  apiKey:''])
       @ [''    secretRef:'', ''      name: '' @ name @ ''-key'']\<rparr>"

text \<open>The address is parsed with \<open>new URL\<close>, which throws on a text that is no URL.\<close>

definition channelResources :: "gatewayEnv \<Rightarrow> gatewayChannel \<Rightarrow> resource list option" where
  "channelResources env c = (case ge_parse env (gc_baseUrl c) of None \<Rightarrow> None
     | Some u \<Rightarrow> let name = backendName (gc_id c); endpoint = endpointParts u in
         Some ([backendResource (ge_isIP env) name (ep_hostname endpoint) (ep_port endpoint)]
           @ (if ep_tls endpoint then [tlsResource name (ep_hostname endpoint)] else [])
           @ [serviceBackendResource name (gc_provider c) (ep_pathPrefix endpoint),
              secretResource name SECRET_DIRECTORY_NAME (gc_id c),
              securityPolicyResource name (gc_provider c)]))"

section \<open>MCP servers\<close>

definition CUSTOM_MCP_ADAPTER_HOST :: string where
  "CUSTOM_MCP_ADAPTER_HOST = ''mcp-backend-adapter''"

definition CUSTOM_MCP_ADAPTER_PORT :: nat where
  "CUSTOM_MCP_ADAPTER_PORT = 8090"

definition CUSTOM_MCP_ADAPTER_PATH_PREFIX :: string where
  "CUSTOM_MCP_ADAPTER_PATH_PREFIX = ''/internal/v1/mcp-backends''"

definition mcpBackendRef :: "gatewayUrl \<Rightarrow> mcpServer \<Rightarrow> string list" where
  "mcpBackendRef u s =
    [''    - name: '' @ mcpBackendName (ms_namespace s), ''      kind: Backend'',
     ''      group: gateway.envoyproxy.io'',
     ''      path: '' @ yamlString (if ms_managed s then gu_pathname u
        else CUSTOM_MCP_ADAPTER_PATH_PREFIX @ ''/'' @ ms_namespace s)]
    @ (if ms_toolIncludes s = [] then []
       else [''      toolSelector:'', ''        include:'']
         @ map (\<lambda>t. ''          - '' @ yamlString t) (ms_toolIncludes s))
    @ (if ms_toolExcludes s = [] then []
       else (if ms_toolIncludes s = [] then [''      toolSelector:''] else []) @ [''        exclude:'']
         @ map (\<lambda>t. ''          - '' @ yamlString t) (ms_toolExcludes s))
    @ (if ms_managed s \<and> ms_keyConfigured s
       then [''      securityPolicy:'', ''        apiKey:'', ''          secretRef:'',
         ''            name: '' @ mcpBackendName (ms_namespace s) @ ''-key'',
         ''          header: '' @ yamlString (ms_authHeader s)]
       else [])"

definition mcpRoute :: "(gatewayUrl \<times> mcpServer) list \<Rightarrow> resource" where
  "mcpRoute ss = \<lparr>rs_apiVersion = ''aigateway.envoyproxy.io/v1beta1'', rs_kind = ''MCPRoute'', rs_name = ''ai-base-mcp'',
     rs_body = [''  namespace: default'', ''spec:'', ''  parentRefs:'', ''    - name: ai-base-llm'',
       ''      kind: Gateway'', ''      group: gateway.networking.k8s.io'',
       ''  path: '' @ yamlString ''/mcp'', ''  backendRefs:'']
       @ concat (map (\<lambda>(u, s). mcpBackendRef u s) ss)\<rparr>"

definition mcpServerResources :: "gatewayEnv \<Rightarrow> gatewayUrl \<times> mcpServer \<Rightarrow> resource list" where
  "mcpServerResources env us = (case us of (u, s) \<Rightarrow>
     let name = mcpBackendName (ms_namespace s);
         hostname = (if ms_managed s then gu_hostname u else CUSTOM_MCP_ADAPTER_HOST);
         port = (if ms_managed s then urlPort u else CUSTOM_MCP_ADAPTER_PORT) in
     [backendResource (ge_isIP env) name hostname port]
     @ (if ms_managed s \<and> gu_protocol u = ''https:'' then [tlsResource name hostname] else [])
     @ (if ms_keyConfigured s then [secretResource name MCP_SECRET_DIRECTORY_NAME (ms_id s)] else []))"

definition trafficPolicy :: resource where
  "trafficPolicy = \<lparr>rs_apiVersion = ''gateway.envoyproxy.io/v1alpha1'', rs_kind = ''ClientTrafficPolicy'',
     rs_name = ''ai-base-llm-buffer'',
     rs_body = [''  namespace: default'', ''spec:'', ''  targetRefs:'', ''    - group: gateway.networking.k8s.io'',
       ''      kind: Gateway'', ''      name: ai-base-llm'', ''  connection:'', ''    bufferLimit: 50Mi'']\<rparr>"

section \<open>The configuration\<close>

fun allSome :: "('a \<Rightarrow> 'b option) \<Rightarrow> 'a list \<Rightarrow> 'b list option" where
  "allSome f [] = Some []"
| "allSome f (x # xs) = (case f x of None \<Rightarrow> None
     | Some y \<Rightarrow> (case allSome f xs of None \<Rightarrow> None | Some ys \<Rightarrow> Some (y # ys)))"

definition enabledChannels :: "gatewayChannel list \<Rightarrow> gatewayChannel list" where
  "enabledChannels cs = filter (\<lambda>c. gc_enabled c \<and> gc_keyConfigured c) cs"

definition enabledServers :: "mcpServer list \<Rightarrow> mcpServer list" where
  "enabledServers ss = filter ms_enabled ss"

text \<open>The resources between the base and the traffic policy; None where \<open>new URL\<close> throws.\<close>

definition routedResources :: "gatewayEnv \<Rightarrow> gatewayChannel list \<Rightarrow> mcpServer list \<Rightarrow> resource list option" where
  "routedResources env cs ss =
    (case allSome (channelResources env) cs of None \<Rightarrow> None
     | Some backends \<Rightarrow>
       (case allSome (\<lambda>s. map_option (\<lambda>u. (u, s)) (ge_parse env (ms_url s))) ss of None \<Rightarrow> None
        | Some parsed \<Rightarrow>
          Some ((if cs = [] then [] else [llmRoute cs]) @ concat backends
            @ (if parsed = [] then [] else [mcpRoute parsed]) @ concat (map (mcpServerResources env) parsed))))"

definition gatewayResources :: "gatewayEnv \<Rightarrow> gatewayChannel list \<Rightarrow> mcpServer list \<Rightarrow> resource list option" where
  "gatewayResources env channels servers =
    map_option (\<lambda>rs. BASE_GATEWAY_RESOURCES @ rs)
      (routedResources env (enabledChannels channels) (enabledServers servers))"

definition configLines :: "resource list \<Rightarrow> string list" where
  "configLines rs = [''# Generated by AI Console. Do not edit by hand.'', GATEWAY_CONFIG_VERSION_MARKER]
     @ concat (map (\<lambda>r. resourceLines r @ [''---'']) rs) @ resourceLines trafficPolicy"

definition generateGatewayConfig :: "gatewayEnv \<Rightarrow> gatewayChannel list \<Rightarrow> mcpServer list \<Rightarrow> string option" where
  "generateGatewayConfig env channels servers =
    (if enabledChannels channels = [] \<and> enabledServers servers = [] then Some []
     else map_option (\<lambda>rs. unlines (configLines rs)) (gatewayResources env channels servers))"

section \<open>Lines\<close>

definition oneLine :: "string \<Rightarrow> bool" where
  "oneLine l \<longleftrightarrow> CHR 0x0A \<notin> set l"

lemma oneLine_append [simp]: "oneLine (a @ b) \<longleftrightarrow> oneLine a \<and> oneLine b"
  by (auto simp: oneLine_def)

lemma oneLine_Cons [simp]: "oneLine (c # l) \<longleftrightarrow> c \<noteq> CHR 0x0A \<and> oneLine l"
  by (auto simp: oneLine_def)

lemma oneLine_Nil [simp]: "oneLine []"
  by (simp add: oneLine_def)

lemma oneLine_yamlString [simp]: "oneLine (yamlString s)"
  using quoted_printable[of s] by (auto simp: yamlString_def oneLine_def list_all_iff code_unit_def)

lemma oneLine_dec [simp]: "oneLine (dec n)"
  using dec_digits[of n] by (auto simp: oneLine_def list_all_iff is_digit_def code_unit_def)

lemma oneLine_slug: "valid_slug s \<Longrightarrow> oneLine s"
  by (auto simp: oneLine_def valid_slug_def slug_char_def list_all_iff is_digit_def is_lower_def code_unit_def
      split: list.splits)

lemma js_split_unlines:
  "list_all oneLine ls \<Longrightarrow> js_split (CHR 0x0A) (unlines ls) = ls @ [[]]"
proof (induction ls)
  case (Cons l ls)
  have "oneLine l \<Longrightarrow> js_split (CHR 0x0A) (l @ CHR 0x0A # t) = l # js_split (CHR 0x0A) t" for t
    by (induction l) auto
  with Cons show ?case by (simp add: unlines_def)
qed (simp add: unlines_def)

lemma allSome_iff: "allSome f xs = Some ys \<longleftrightarrow> list_all2 (\<lambda>x y. f x = Some y) xs ys"
proof (induction xs arbitrary: ys)
  case (Cons x xs)
  show ?case
    by (cases "f x"; cases "allSome f xs") (auto simp: list_all2_Cons1 simp flip: Cons.IH)
qed auto

end
