(* ===== verification/Gateway_Properties.thy ===== *)
theory Gateway_Properties
  imports Gateway_Config
begin

text \<open>
  What the generated gateway configuration promises: its text is exactly the laid-out lines
  whatever the administrator typed, no two resources have the same kind and name, and every
  backend a route or a policy refers to is defined.
\<close>

section \<open>Lines hold no line break\<close>

lemma oneLine_backendNames:
  "valid_slug i \<Longrightarrow> oneLine (backendName i)" "valid_slug i \<Longrightarrow> oneLine (mcpBackendName i)"
  by (simp_all add: backendName_def mcpBackendName_def oneLine_slug)

lemma unlines_iff [simp]: "list_all oneLine (resourceLines r) \<longleftrightarrow>
    oneLine (rs_apiVersion r) \<and> oneLine (rs_kind r) \<and> oneLine (rs_name r) \<and> list_all oneLine (rs_body r)"
  by (auto simp: resourceLines_def)

lemma routeRule_lines: "valid_slug (gc_id c) \<Longrightarrow> list_all oneLine (routeRule c m)"
  by (simp add: routeRule_def oneLine_backendNames)

lemma list_all_concat [simp]: "list_all P (concat xss) \<longleftrightarrow> list_all (list_all P) xss"
  by (auto simp: list_all_iff)

lemma llmRoute_lines:
  assumes "list_all (\<lambda>c. valid_slug (gc_id c)) cs"
  shows "list_all oneLine (resourceLines (llmRoute cs))"
proof -
  have "list_all oneLine (concat (map (\<lambda>c. concat (map (routeRule c) (gc_models c))) cs))"
    using assms by (induction cs) (simp_all add: list.pred_map o_def routeRule_lines list.pred_True)
  then show ?thesis by (simp add: llmRoute_def)
qed

lemma channelResources_lines:
  "valid_slug (gc_id c) \<Longrightarrow> channelResources env c = Some rs \<Longrightarrow>
    list_all (\<lambda>r. list_all oneLine (resourceLines r)) rs"
  by (auto simp: channelResources_def backendResource_def tlsResource_def serviceBackendResource_def
      secretResource_def securityPolicyResource_def endpointLines_def Let_def oneLine_backendNames
      split: option.split_asm option.splits)

lemma channels_lines:
  assumes "list_all2 (\<lambda>c b. channelResources env c = Some b) cs backends" "list_all (\<lambda>c. valid_slug (gc_id c)) cs"
  shows "list_all (\<lambda>r. list_all oneLine (resourceLines r)) (concat backends)"
  using assms
proof (induction rule: list_all2_induct)
  case (Cons c cs b bs)
  from Cons.prems have "valid_slug (gc_id c)" by simp
  from channelResources_lines[OF this Cons(1)] Cons show ?case by (simp del: list_all_concat unlines_iff)
qed simp

lemma mcpBackendRef_lines:
  assumes "valid_slug (ms_namespace s)"
  shows "list_all oneLine (mcpBackendRef u s)"
proof -
  have "list_all oneLine (map (\<lambda>t. ''          - '' @ yamlString t) ts)" for ts
    by (induction ts) simp_all
  then show ?thesis using assms by (simp add: mcpBackendRef_def oneLine_backendNames)
qed

lemma mcpRoute_lines:
  assumes "list_all (\<lambda>(u, s). valid_slug (ms_namespace s)) ss"
  shows "list_all oneLine (resourceLines (mcpRoute ss))"
proof -
  have "list_all oneLine (concat (map (\<lambda>(u, s). mcpBackendRef u s) ss))"
    using assms by (induction ss) (auto simp: mcpBackendRef_lines simp del: list_all_concat)
  then show ?thesis by (simp add: mcpRoute_def)
qed

lemma mcpServerResources_lines:
  "valid_slug (ms_namespace s) \<Longrightarrow>
    list_all (\<lambda>r. list_all oneLine (resourceLines r)) (mcpServerResources env (u, s))"
  by (simp add: mcpServerResources_def backendResource_def tlsResource_def secretResource_def
      endpointLines_def Let_def oneLine_backendNames)

lemma base_lines: "list_all (\<lambda>r. list_all oneLine (resourceLines r)) (trafficPolicy # BASE_GATEWAY_RESOURCES)"
  by code_simp

section \<open>Taking a configuration apart\<close>

lemma gatewayResources_cases:
  assumes "gatewayResources env channels servers = Some rs"
  obtains backends parsed where
    "list_all2 (\<lambda>c b. channelResources env c = Some b) (enabledChannels channels) backends"
    "list_all2 (\<lambda>s p. \<exists>u. ge_parse env (ms_url s) = Some u \<and> p = (u, s)) (enabledServers servers) parsed"
    "rs = BASE_GATEWAY_RESOURCES @ (if enabledChannels channels = [] then [] else [llmRoute (enabledChannels channels)])
        @ concat backends @ (if parsed = [] then [] else [mcpRoute parsed])
        @ concat (map (mcpServerResources env) parsed)"
proof -
  obtain backends parsed where b: "allSome (channelResources env) (enabledChannels channels) = Some backends"
    and p: "allSome (\<lambda>s. map_option (\<lambda>u. (u, s)) (ge_parse env (ms_url s))) (enabledServers servers) = Some parsed"
    and rs: "rs = BASE_GATEWAY_RESOURCES @ (if enabledChannels channels = [] then [] else [llmRoute (enabledChannels channels)])
        @ concat backends @ (if parsed = [] then [] else [mcpRoute parsed])
        @ concat (map (mcpServerResources env) parsed)"
    using assms by (auto simp: gatewayResources_def routedResources_def split: option.split_asm)
  have "list_all2 (\<lambda>s p. \<exists>u. ge_parse env (ms_url s) = Some u \<and> p = (u, s)) (enabledServers servers) parsed"
    using p[unfolded allSome_iff] by (rule list_all2_mono) auto
  with b[unfolded allSome_iff] rs show ?thesis by (intro that) blast+
qed

lemma parsed_servers:
  assumes "list_all2 (\<lambda>s p. \<exists>u. ge_parse env (ms_url s) = Some u \<and> p = (u, s)) ss parsed"
  shows "map snd parsed = ss"
  using assms by (induction rule: list_all2_induct) auto

section \<open>Kinds and names\<close>

definition resourceKey :: "resource \<Rightarrow> string \<times> string" where
  "resourceKey r = (rs_kind r, rs_name r)"

text \<open>The backend a resource belongs to: its name without \<open>-key\<close> and \<open>-tls\<close>.\<close>

definition ownerOf :: "string \<times> string \<Rightarrow> string" where
  "ownerOf k = (if fst k \<in> {''Secret'', ''BackendSecurityPolicy'', ''BackendTLSPolicy''}
     then take (length (snd k) - 4) (snd k) else snd k)"

definition backendKinds :: "string set" where
  "backendKinds = {''Backend'', ''BackendTLSPolicy'', ''AIServiceBackend'', ''Secret'', ''BackendSecurityPolicy''}"

definition keysOwned :: "string \<Rightarrow> (string \<times> string) list \<Rightarrow> bool" where
  "keysOwned n ks \<longleftrightarrow> distinct ks \<and> list_all (\<lambda>k. ownerOf k = n \<and> fst k \<in> backendKinds) ks"

lemma keysOwned_concat:
  "list_all2 keysOwned ns kss \<Longrightarrow> distinct ns \<Longrightarrow>
    distinct (concat kss) \<and> list_all (\<lambda>k. ownerOf k \<in> set ns \<and> fst k \<in> backendKinds) (concat kss)"
proof (induction rule: list_all2_induct)
  case (Cons n ns ks kss)
  then have ks: "distinct ks" "\<forall>k\<in>set ks. ownerOf k = n \<and> fst k \<in> backendKinds"
    and rest: "distinct (concat kss)" "\<forall>k\<in>set (concat kss). ownerOf k \<in> set ns \<and> fst k \<in> backendKinds"
    and n: "n \<notin> set ns" by (auto simp: keysOwned_def list_all_iff)
  from ks(2) rest(2) n have "set ks \<inter> set (concat kss) = {}" by (metis disjoint_iff)
  moreover have "\<forall>k\<in>set ks \<union> set (concat kss). ownerOf k \<in> insert n (set ns) \<and> fst k \<in> backendKinds"
    using ks(2) rest(2) by blast
  ultimately show ?case using ks(1) rest(1) unfolding list_all_iff by simp
qed simp

lemma resource_keys [simp]:
  "resourceKey (backendResource isIP n h p) = (''Backend'', n)"
  "resourceKey (tlsResource n h) = (''BackendTLSPolicy'', n @ ''-tls'')"
  "resourceKey (serviceBackendResource n pr pre) = (''AIServiceBackend'', n)"
  "resourceKey (secretResource n d i) = (''Secret'', n @ ''-key'')"
  "resourceKey (securityPolicyResource n pr) = (''BackendSecurityPolicy'', n @ ''-key'')"
  by (simp_all add: resourceKey_def backendResource_def tlsResource_def serviceBackendResource_def
      secretResource_def securityPolicyResource_def)

lemma key_owners [simp]:
  "ownerOf (''Backend'', n) = n" "ownerOf (''AIServiceBackend'', n) = n"
  "ownerOf (''BackendTLSPolicy'', n @ ''-tls'') = n" "ownerOf (''Secret'', n @ ''-key'') = n"
  "ownerOf (''BackendSecurityPolicy'', n @ ''-key'') = n"
  by (simp_all add: ownerOf_def)

lemma backend_kinds [simp]:
  "''Backend'' \<in> backendKinds" "''AIServiceBackend'' \<in> backendKinds" "''BackendTLSPolicy'' \<in> backendKinds"
  "''Secret'' \<in> backendKinds" "''BackendSecurityPolicy'' \<in> backendKinds"
  by (simp_all add: backendKinds_def)

definition channelKeys :: "bool \<Rightarrow> string \<Rightarrow> (string \<times> string) list" where
  "channelKeys tls n = [(''Backend'', n)] @ (if tls then [(''BackendTLSPolicy'', n @ ''-tls'')] else [])
     @ [(''AIServiceBackend'', n), (''Secret'', n @ ''-key''), (''BackendSecurityPolicy'', n @ ''-key'')]"

definition serverKeys :: "bool \<Rightarrow> bool \<Rightarrow> string \<Rightarrow> (string \<times> string) list" where
  "serverKeys tls key n = [(''Backend'', n)] @ (if tls then [(''BackendTLSPolicy'', n @ ''-tls'')] else [])
     @ (if key then [(''Secret'', n @ ''-key'')] else [])"

lemma channelKeys_owned: "keysOwned n (channelKeys tls n)"
  by (cases tls) (simp_all add: keysOwned_def channelKeys_def)

lemma serverKeys_owned: "keysOwned n (serverKeys tls key n)"
  by (cases tls; cases key) (simp_all add: keysOwned_def serverKeys_def)

lemma channel_keys:
  "channelResources env c = Some b \<Longrightarrow> \<exists>tls. map resourceKey b = channelKeys tls (backendName (gc_id c))"
  by (fastforce simp: channelResources_def Let_def channelKeys_def split: option.split_asm)

lemma server_keys:
  "\<exists>tls. map resourceKey (mcpServerResources env (u, s))
    = serverKeys tls (ms_keyConfigured s) (mcpBackendName (ms_namespace s))"
  by (fastforce simp: mcpServerResources_def Let_def serverKeys_def)

text \<open>A line of a route rule that names its backend.\<close>

definition backendRefOf :: "string \<Rightarrow> string option" where
  "backendRefOf l = (if starts_with l ''        - name: '' then Some (drop 16 l) else None)"

lemma starts_with_literal:
  "starts_with (c # s) (d # p) \<longleftrightarrow> c = d \<and> starts_with s p" "starts_with s []"
  "\<not> starts_with [] (d # p)"
  by (simp_all add: starts_with_def)

definition refsIn :: "(string \<times> string) set \<Rightarrow> string \<Rightarrow> bool" where
  "refsIn keys l \<longleftrightarrow> (case backendRefOf l of None \<Rightarrow> True | Some n \<Rightarrow> (''AIServiceBackend'', n) \<in> keys)"

lemmas refs_simps = refsIn_def backendRefOf_def starts_with_literal

lemma other_refs:
  "list_all (refsIn keys) (resourceLines (backendResource isIP n h p))"
  "list_all (refsIn keys) (resourceLines (tlsResource n h))"
  "list_all (refsIn keys) (resourceLines (serviceBackendResource n pr pre))"
  "list_all (refsIn keys) (resourceLines (secretResource n d i))"
  "list_all (refsIn keys) (resourceLines (securityPolicyResource n pr))"
  by (simp_all add: refs_simps resourceLines_def backendResource_def tlsResource_def serviceBackendResource_def
      secretResource_def securityPolicyResource_def endpointLines_def split: option.split)

lemma base_refs: "list_all (\<lambda>r. list_all (refsIn keys) (resourceLines r)) (trafficPolicy # BASE_GATEWAY_RESOURCES)"
  by (simp add: refs_simps resourceLines_def trafficPolicy_def BASE_GATEWAY_RESOURCES_def)

lemma routeRule_refs:
  "(''AIServiceBackend'', backendName (gc_id c)) \<in> keys \<Longrightarrow> list_all (refsIn keys) (routeRule c m)"
  by (simp add: refs_simps routeRule_def)

lemma llmRoute_refs:
  assumes "list_all (\<lambda>c. (''AIServiceBackend'', backendName (gc_id c)) \<in> keys) cs"
  shows "list_all (refsIn keys) (resourceLines (llmRoute cs))"
proof -
  have "list_all (refsIn keys) (concat (map (\<lambda>c. concat (map (routeRule c) (gc_models c))) cs))"
    using assms by (induction cs) (simp_all add: list.pred_map o_def routeRule_refs list.pred_True)
  then show ?thesis by (simp add: llmRoute_def resourceLines_def) (simp add: refs_simps)
qed

lemma mcpBackendRef_refs: "list_all (refsIn keys) (mcpBackendRef u s)"
proof -
  have "list_all (refsIn keys) (map (\<lambda>t. ''          - '' @ yamlString t) ts)" for ts
    by (induction ts) (simp_all add: refs_simps)
  then show ?thesis by (simp add: mcpBackendRef_def) (simp add: refs_simps)
qed

lemma mcpRoute_refs: "list_all (refsIn keys) (resourceLines (mcpRoute ss))"
proof -
  have "list_all (refsIn keys) (concat (map (\<lambda>(u, s). mcpBackendRef u s) ss))"
    by (induction ss) (auto simp: mcpBackendRef_refs simp del: list_all_concat)
  then show ?thesis by (simp add: mcpRoute_def resourceLines_def) (simp add: refs_simps)
qed

section \<open>The whole configuration\<close>

definition gatewayKeys :: "resource list \<Rightarrow> (string \<times> string) list" where
  "gatewayKeys rs = map resourceKey (rs @ [trafficPolicy])"

definition channelNames :: "gatewayChannel list \<Rightarrow> string list" where
  "channelNames channels = map (\<lambda>c. backendName (gc_id c)) (enabledChannels channels)"

definition serverNames :: "mcpServer list \<Rightarrow> string list" where
  "serverNames servers = map (\<lambda>s. mcpBackendName (ms_namespace s)) (enabledServers servers)"

lemma distinct_names:
  assumes "distinct (map gc_id channels)" "distinct (map ms_namespace servers)"
  shows "distinct (channelNames channels @ serverNames servers)"
proof -
  have "distinct (map gc_id (enabledChannels channels))" "distinct (map ms_namespace (enabledServers servers))"
    using assms by (simp_all add: enabledChannels_def enabledServers_def distinct_map_filter)
  then have "distinct (channelNames channels)" "distinct (serverNames servers)"
    by (auto simp: channelNames_def serverNames_def distinct_map inj_on_def backendName_def mcpBackendName_def)
  moreover have "set (channelNames channels) \<inter> set (serverNames servers) = {}"
    by (auto simp: channelNames_def serverNames_def backendName_def mcpBackendName_def)
  ultimately show ?thesis by simp
qed

lemma channel_owned:
  assumes "list_all2 (\<lambda>c b. channelResources env c = Some b) cs backends"
  shows "list_all2 keysOwned (map (\<lambda>c. backendName (gc_id c)) cs) (map (map resourceKey) backends)"
  using assms
proof (induction rule: list_all2_induct)
  case (Cons c cs b bs)
  from channel_keys[OF Cons(1)] channelKeys_owned Cons.IH show ?case by auto
qed simp

lemma server_owned:
  "list_all2 keysOwned (map (\<lambda>p. mcpBackendName (ms_namespace (snd p))) parsed)
    (map (\<lambda>p. map resourceKey (mcpServerResources env p)) parsed)"
proof (induction parsed)
  case (Cons p ps)
  obtain u s where p: "p = (u, s)" by fastforce
  from server_keys[of env u s] serverKeys_owned Cons.IH show ?case unfolding p by auto
qed simp

lemma distinct_around:
  assumes "distinct (C @ S)" "\<forall>k \<in> set C \<union> set S. fst k \<in> backendKinds"
  shows "distinct (map resourceKey BASE_GATEWAY_RESOURCES
      @ (if a then [] else [(''AIGatewayRoute'', ''ai-base-llm'')]) @ C
      @ (if b then [] else [(''MCPRoute'', ''ai-base-mcp'')]) @ S
      @ [(''ClientTrafficPolicy'', ''ai-base-llm-buffer'')])"
proof -
  have other: "(kind, n) \<notin> set C" "(kind, n) \<notin> set S" if "kind \<notin> backendKinds" for kind n
    using assms(2) that by (metis UnI1 UnI2 fst_conv)+
  show ?thesis
    using assms(1) by (simp add: BASE_GATEWAY_RESOURCES_def resourceKey_def other backendKinds_def)
qed

lemma gateway_keys_distinct:
  assumes "distinct (map gc_id channels)" "distinct (map ms_namespace servers)"
    and "gatewayResources env channels servers = Some rs"
  shows "distinct (gatewayKeys rs)"
proof -
  from assms(3) obtain backends parsed where
    b: "list_all2 (\<lambda>c b. channelResources env c = Some b) (enabledChannels channels) backends"
    and p: "list_all2 (\<lambda>s p. \<exists>u. ge_parse env (ms_url s) = Some u \<and> p = (u, s)) (enabledServers servers) parsed"
    and rs: "rs = BASE_GATEWAY_RESOURCES @ (if enabledChannels channels = [] then [] else [llmRoute (enabledChannels channels)])
        @ concat backends @ (if parsed = [] then [] else [mcpRoute parsed])
        @ concat (map (mcpServerResources env) parsed)"
    by (rule gatewayResources_cases)
  have names: "map (\<lambda>p. mcpBackendName (ms_namespace (snd p))) parsed = serverNames servers"
    unfolding serverNames_def parsed_servers[OF p, symmetric] by simp
  let ?C = "map (map resourceKey) backends"
  let ?S = "map (\<lambda>p. map resourceKey (mcpServerResources env p)) parsed"
  have "list_all2 keysOwned (channelNames channels @ serverNames servers) (?C @ ?S)"
    using channel_owned[OF b] server_owned[of parsed env] names
    by (simp add: channelNames_def list_all2_appendI)
  from keysOwned_concat[OF this distinct_names[OF assms(1,2)]]
  have d: "distinct (concat ?C @ concat ?S)"
    and k: "\<forall>k \<in> set (concat ?C) \<union> set (concat ?S). fst k \<in> backendKinds"
    by (simp_all add: list_all_iff ball_Un)
  have keys: "gatewayKeys rs = map resourceKey BASE_GATEWAY_RESOURCES
      @ (if enabledChannels channels = [] then [] else [(''AIGatewayRoute'', ''ai-base-llm'')]) @ concat ?C
      @ (if parsed = [] then [] else [(''MCPRoute'', ''ai-base-mcp'')]) @ concat ?S
      @ [(''ClientTrafficPolicy'', ''ai-base-llm-buffer'')]"
    unfolding gatewayKeys_def rs
    by (simp add: map_concat o_def resourceKey_def llmRoute_def mcpRoute_def trafficPolicy_def)
  show ?thesis unfolding keys by (rule distinct_around[OF d k])
qed

definition channelDefined :: "(string \<times> string) list \<Rightarrow> gatewayChannel \<Rightarrow> bool" where
  "channelDefined keys c \<longleftrightarrow> list_all (\<lambda>k. k \<in> set keys)
     [(''Backend'', ''llm-'' @ gc_id c), (''AIServiceBackend'', ''llm-'' @ gc_id c),
      (''Secret'', ''llm-'' @ gc_id c @ ''-key''), (''BackendSecurityPolicy'', ''llm-'' @ gc_id c @ ''-key'')]"

definition serverDefined :: "(string \<times> string) list \<Rightarrow> mcpServer \<Rightarrow> bool" where
  "serverDefined keys s \<longleftrightarrow> (''Backend'', ''mcp-'' @ ms_namespace s) \<in> set keys
     \<and> (ms_keyConfigured s \<longrightarrow> (''Secret'', ''mcp-'' @ ms_namespace s @ ''-key'') \<in> set keys)"

lemma channels_defined:
  assumes "list_all2 (\<lambda>c b. channelResources env c = Some b) cs backends"
    and "\<And>b. b \<in> set backends \<Longrightarrow> set (map resourceKey b) \<subseteq> set keys"
  shows "list_all (channelDefined keys) cs"
  using assms
proof (induction rule: list_all2_induct)
  case (Cons c cs b bs)
  from channel_keys[OF Cons(1)] obtain tls where k: "map resourceKey b = channelKeys tls (backendName (gc_id c))" ..
  have "set (channelKeys tls (backendName (gc_id c))) \<subseteq> set keys"
    using Cons.prems[of b] k by simp
  then have "channelDefined keys c"
    by (simp add: channelDefined_def channelKeys_def backendName_def)
  with Cons show ?case by simp
qed simp

lemma servers_defined:
  assumes "\<And>p. p \<in> set parsed \<Longrightarrow> set (map resourceKey (mcpServerResources env p)) \<subseteq> set keys"
  shows "list_all (serverDefined keys) (map snd parsed)"
  using assms
proof (induction parsed)
  case (Cons p ps)
  obtain u s where p: "p = (u, s)" by fastforce
  from server_keys[of env u s] obtain tls where
    k: "map resourceKey (mcpServerResources env p) = serverKeys tls (ms_keyConfigured s) (mcpBackendName (ms_namespace s))"
    unfolding p ..
  have "set (serverKeys tls (ms_keyConfigured s) (mcpBackendName (ms_namespace s))) \<subseteq> set keys"
    using Cons.prems[of p] k by simp
  then have "serverDefined keys s"
    by (auto simp: serverDefined_def serverKeys_def mcpBackendName_def)
  with Cons p show ?case by simp
qed simp

lemma resource_refs:
  "channelResources env c = Some b \<Longrightarrow> list_all (\<lambda>r. list_all (refsIn keys) (resourceLines r)) b"
  "list_all (\<lambda>r. list_all (refsIn keys) (resourceLines r)) (mcpServerResources env (u, s))"
  by (auto simp: channelResources_def mcpServerResources_def Let_def other_refs split: option.split_asm)

lemma config_refs:
  assumes "list_all (\<lambda>r. list_all (refsIn keys) (resourceLines r)) rs"
  shows "list_all (refsIn keys) (configLines rs)"
proof -
  have "list_all (refsIn keys) (concat (map (\<lambda>r. resourceLines r @ [''---'']) rs))"
    using assms by (induction rs) (simp_all add: refs_simps del: list_all_concat)
  then show ?thesis
    using base_refs[of keys] unfolding configLines_def
    by (simp del: list_all_concat) (simp add: refs_simps GATEWAY_CONFIG_VERSION_MARKER_def)
qed

text \<open>C25: The generated gateway configuration is coherent: no two resources have the same kind and
  name, every enabled channel with a key has its backend, AI service backend, secret and security
  policy, every enabled MCP server its backend and, with a key, its secret, and every backend a
  route rule names is defined.\<close>

theorem gateway_config_coherent:
  assumes "distinct (map gc_id channels)" "distinct (map ms_namespace servers)"
    and "gatewayResources env channels servers = Some rs"
  shows "distinct (gatewayKeys rs)
    \<and> list_all (channelDefined (gatewayKeys rs)) (enabledChannels channels)
    \<and> list_all (serverDefined (gatewayKeys rs)) (enabledServers servers)
    \<and> list_all (\<lambda>l. case backendRefOf l of None \<Rightarrow> True
          | Some n \<Rightarrow> (''AIServiceBackend'', n) \<in> set (gatewayKeys rs)) (configLines rs)"
proof -
  let ?keys = "gatewayKeys rs"
  from assms(3) obtain backends parsed where
    b: "list_all2 (\<lambda>c b. channelResources env c = Some b) (enabledChannels channels) backends"
    and p: "list_all2 (\<lambda>s p. \<exists>u. ge_parse env (ms_url s) = Some u \<and> p = (u, s)) (enabledServers servers) parsed"
    and rs: "rs = BASE_GATEWAY_RESOURCES @ (if enabledChannels channels = [] then [] else [llmRoute (enabledChannels channels)])
        @ concat backends @ (if parsed = [] then [] else [mcpRoute parsed])
        @ concat (map (mcpServerResources env) parsed)"
    by (rule gatewayResources_cases)
  have channels: "list_all (channelDefined ?keys) (enabledChannels channels)"
    by (rule channels_defined[OF b]) (auto simp: gatewayKeys_def rs)
  have "list_all (serverDefined ?keys) (map snd parsed)"
    by (rule servers_defined) (auto simp: gatewayKeys_def rs)
  then have servers: "list_all (serverDefined ?keys) (enabledServers servers)"
    unfolding parsed_servers[OF p] .
  have "list_all (\<lambda>c. (''AIServiceBackend'', backendName (gc_id c)) \<in> set ?keys) (enabledChannels channels)"
    using channels by (rule list.pred_mono_strong) (simp add: channelDefined_def backendName_def)
  then have route: "list_all (refsIn (set ?keys)) (resourceLines (llmRoute (enabledChannels channels)))"
    by (rule llmRoute_refs)
  have "list_all (\<lambda>r. list_all (refsIn (set ?keys)) (resourceLines r)) (concat backends)"
    using b resource_refs(1) by (induction rule: list_all2_induct) (simp_all del: list_all_concat)
  moreover have "list_all (\<lambda>r. list_all (refsIn (set ?keys)) (resourceLines r)) (concat (map (mcpServerResources env) parsed))"
    using resource_refs(2) by (induction parsed) (auto simp del: list_all_concat)
  ultimately have "list_all (\<lambda>r. list_all (refsIn (set ?keys)) (resourceLines r)) rs"
    using base_refs[of "set ?keys"] route mcpRoute_refs[of "set ?keys" parsed] by (subst rs) (simp del: list_all_concat)
  from config_refs[OF this] gateway_keys_distinct[OF assms] channels servers show ?thesis
    unfolding refsIn_def by blast
qed

definition demo_env :: gatewayEnv where
  "demo_env = \<lparr>ge_openConnectorUrl = None, ge_openConnectorRuntimeToken = Some ''tok'', ge_ragMcpUrl = None,
     ge_lightRagApiKey = None, ge_resolveUrl = (\<lambda>p b. Some (b @ p)), ge_parse = demo_parse, ge_isIP = (\<lambda>h. False)\<rparr>"

definition demo_gateway_channel :: gatewayChannel where
  "demo_gateway_channel = \<lparr>gc_id = ''c1'', gc_name = ''C'', gc_provider = OpenAI, gc_baseUrl = ''http://h'',
     gc_enabled = True, gc_models = [\<lparr>mr_publicName = ''m'', mr_upstreamName = ''up''\<rparr>],
     gc_createdAt = ''t'', gc_updatedAt = ''t'', gc_keyConfigured = True\<rparr>"

lemma demo_resources_exist:
  "gatewayResources demo_env [demo_gateway_channel] (getSystemManagedMcpServers demo_env) \<noteq> None"
  by code_simp

lemma demo_namespaces: "distinct (map ms_namespace (getSystemManagedMcpServers demo_env))"
  by code_simp

theorem gateway_config_coherent_witness:
  "\<exists>rs. gatewayResources demo_env [demo_gateway_channel] (getSystemManagedMcpServers demo_env) = Some rs
    \<and> distinct (gatewayKeys rs)"
proof -
  from demo_resources_exist obtain rs where
    rs: "gatewayResources demo_env [demo_gateway_channel] (getSystemManagedMcpServers demo_env) = Some rs" by auto
  have "distinct (map gc_id [demo_gateway_channel])" by simp
  from gateway_config_coherent[OF this demo_namespaces rs] rs show ?thesis by blast
qed

text \<open>The text of the configuration is faithful to its layout whatever values it quotes: splitting it
  at its line breaks gives back exactly the lines of its resources, so no value starts a line or
  a resource of its own, and a quoted value is read back as it was.\<close>

theorem gateway_config_text_faithful:
  assumes "list_all (\<lambda>c. valid_slug (gc_id c)) channels" "list_all (\<lambda>s. valid_slug (ms_namespace s)) servers"
    and "generateGatewayConfig env channels servers = Some config" "config \<noteq> []"
  shows "(\<exists>rs. gatewayResources env channels servers = Some rs
      \<and> js_split (CHR 0x0A) config = configLines rs @ [[]])
    \<and> readQuoted (tl (yamlString v)) = Some (v, [])"
proof -
  from assms(3,4) obtain rs where g: "gatewayResources env channels servers = Some rs"
    and config: "config = unlines (configLines rs)"
    by (auto simp: generateGatewayConfig_def split: if_split_asm)
  from g obtain backends parsed where
    b: "list_all2 (\<lambda>c b. channelResources env c = Some b) (enabledChannels channels) backends"
    and p: "list_all2 (\<lambda>s p. \<exists>u. ge_parse env (ms_url s) = Some u \<and> p = (u, s)) (enabledServers servers) parsed"
    and rs: "rs = BASE_GATEWAY_RESOURCES @ (if enabledChannels channels = [] then [] else [llmRoute (enabledChannels channels)])
        @ concat backends @ (if parsed = [] then [] else [mcpRoute parsed])
        @ concat (map (mcpServerResources env) parsed)"
    by (rule gatewayResources_cases)
  have c: "list_all (\<lambda>c. valid_slug (gc_id c)) (enabledChannels channels)"
    using assms(1) by (auto simp: enabledChannels_def list_all_iff)
  have "list_all (\<lambda>s. valid_slug (ms_namespace s)) (map snd parsed)"
    using assms(2) unfolding parsed_servers[OF p] by (auto simp: enabledServers_def list_all_iff)
  then have s: "list_all (\<lambda>(u, s). valid_slug (ms_namespace s)) parsed" by (simp add: list.pred_map o_def case_prod_unfold)
  have "list_all (\<lambda>r. list_all oneLine (resourceLines r)) (concat backends)"
    using b c by (rule channels_lines)
  moreover have "list_all (\<lambda>r. list_all oneLine (resourceLines r)) (concat (map (mcpServerResources env) parsed))"
    using s mcpServerResources_lines by (induction parsed) (auto simp del: list_all_concat)
  ultimately have lines: "list_all (\<lambda>r. list_all oneLine (resourceLines r)) rs"
    using base_lines llmRoute_lines[OF c] mcpRoute_lines[OF s] by (subst rs) (simp del: list_all_concat)
  have "list_all oneLine (concat (map (\<lambda>r. resourceLines r @ [''---'']) rs))"
    using lines by (induction rs) (simp_all del: list_all_concat)
  then have "list_all oneLine (configLines rs)"
    using base_lines unfolding configLines_def GATEWAY_CONFIG_VERSION_MARKER_def by (simp del: list_all_concat)
  with g config js_split_unlines readQuoted_chars[of v "[]"] show ?thesis by (simp add: yamlString_def quoted_def)
qed

lemma demo_config_exists:
  "generateGatewayConfig demo_env [demo_gateway_channel] (getSystemManagedMcpServers demo_env) \<notin> {None, Some []}"
  by code_simp

lemma demo_slugs:
  "list_all (\<lambda>c. valid_slug (gc_id c)) [demo_gateway_channel]"
  "list_all (\<lambda>s. valid_slug (ms_namespace s)) (getSystemManagedMcpServers demo_env)"
  by code_simp+

theorem gateway_config_text_faithful_witness:
  "\<exists>rs config. generateGatewayConfig demo_env [demo_gateway_channel] (getSystemManagedMcpServers demo_env) = Some config
    \<and> js_split (CHR 0x0A) config = configLines rs @ [[]]"
proof -
  from demo_config_exists obtain config where
    t: "generateGatewayConfig demo_env [demo_gateway_channel] (getSystemManagedMcpServers demo_env) = Some config"
      "config \<noteq> []" by auto
  from gateway_config_text_faithful[OF demo_slugs t] t(1) show ?thesis by blast
qed

end
