(* ===== verification/Gateway_Store.thy ===== *)
theory Gateway_Store
  imports Gateway_Properties
begin

text \<open>
  The stored gateway settings (src/ai-console/src/lib/server/gateway-config.ts): the files under
  the data directory as one state, reading and saving channels and MCP servers, and the
  registration of the system-managed MCP services. An operation returns its result and the files
  as it leaves them, also when it throws.

  A file is read whole and replaced atomically (a rename), so its content is a value; the JSON
  files hold the values they serialise. Permissions, the temporary names and failing writes are
  not modelled.
\<close>

datatype 'a diskFile = Missing | Damaged | File 'a

record storedChannels =
  sc_channels :: "storedChannel list"
  sc_updatedAt :: string
  sc_revision :: string

record storedServers =
  ss_servers :: "storedServer list"
  ss_updatedAt :: string
  ss_revision :: string

record channelsSnapshot =
  cs_channels :: "gatewayChannel list"
  cs_updatedAt :: string
  cs_revision :: string

record serversSnapshot =
  sn_servers :: "mcpServer list"
  sn_updatedAt :: string
  sn_revision :: string

record gatewayFiles =
  gf_channels :: "storedChannels diskFile"
  gf_mcpServers :: "storedServers diskFile"
  gf_config :: "string diskFile"
  gf_revision :: "string diskFile"
  gf_secrets :: "string \<Rightarrow> string option"
  gf_mcpSecrets :: "string \<Rightarrow> string option"

datatype gatewayError = ReadFailed | InvalidUrl | MissingKeys "string list"

section \<open>Reading\<close>

definition withKey :: "storedChannel \<Rightarrow> bool \<Rightarrow> gatewayChannel" where
  "withKey c b = storedChannel.extend c (gatewayChannel.fields b)"

definition withFlags :: "storedServer \<Rightarrow> bool \<Rightarrow> bool \<Rightarrow> mcpServer" where
  "withFlags s m k = storedServer.extend s (mcpServer.fields m k)"

definition readStoredChannels :: "gatewayFiles \<Rightarrow> gatewayError + storedChannels" where
  "readStoredChannels fs = (case gf_channels fs of
     File st \<Rightarrow> Inr st
   | Damaged \<Rightarrow> Inl ReadFailed
   | Missing \<Rightarrow> Inr \<lparr>sc_channels = [], sc_updatedAt = SYSTEM_MANAGED_TIMESTAMP, sc_revision = ''bootstrap''\<rparr>)"

definition readGatewayChannels :: "gatewayFiles \<Rightarrow> gatewayError + channelsSnapshot" where
  "readGatewayChannels fs = bindE (readStoredChannels fs) (\<lambda>st.
     Inr \<lparr>cs_channels = map (\<lambda>c. withKey c (gf_secrets fs (gc_id c) \<noteq> None)) (sc_channels st),
       cs_updatedAt = sc_updatedAt st, cs_revision = sc_revision st\<rparr>)"

definition readStoredMcpServers :: "gatewayFiles \<Rightarrow> gatewayError + storedServers" where
  "readStoredMcpServers fs = (case gf_mcpServers fs of
     File st \<Rightarrow> Inr (st\<lparr>ss_servers := filter (\<lambda>s. \<not> isSystemManagedMcpServerId (ms_id s)) (ss_servers st)\<rparr>)
   | Damaged \<Rightarrow> Inl ReadFailed
   | Missing \<Rightarrow> Inr \<lparr>ss_servers = [], ss_updatedAt = SYSTEM_MANAGED_TIMESTAMP, ss_revision = ''bootstrap''\<rparr>)"

definition readGatewayMcpServersSnapshot :: "gatewayEnv \<Rightarrow> gatewayFiles \<Rightarrow> gatewayError + serversSnapshot" where
  "readGatewayMcpServersSnapshot env fs = bindE (readStoredMcpServers fs) (\<lambda>st.
     Inr \<lparr>sn_servers = getSystemManagedMcpServers env
         @ map (\<lambda>s. withFlags s False (gf_mcpSecrets fs (ms_id s) \<noteq> None)) (ss_servers st),
       sn_updatedAt = ss_updatedAt st, sn_revision = ss_revision st\<rparr>)"

section \<open>Secrets\<close>

definition putSecret :: "string \<Rightarrow> string \<Rightarrow> gatewayFiles \<Rightarrow> gatewayFiles" where
  "putSecret i v fs = fs\<lparr>gf_secrets := (gf_secrets fs)(i \<mapsto> v)\<rparr>"

definition dropSecret :: "string \<Rightarrow> gatewayFiles \<Rightarrow> gatewayFiles" where
  "dropSecret i fs = fs\<lparr>gf_secrets := (gf_secrets fs)(i := None)\<rparr>"

definition putMcpSecret :: "string \<Rightarrow> string \<Rightarrow> gatewayFiles \<Rightarrow> gatewayFiles" where
  "putMcpSecret i v fs = fs\<lparr>gf_mcpSecrets := (gf_mcpSecrets fs)(i \<mapsto> v)\<rparr>"

definition dropMcpSecret :: "string \<Rightarrow> gatewayFiles \<Rightarrow> gatewayFiles" where
  "dropMcpSecret i fs = fs\<lparr>gf_mcpSecrets := (gf_mcpSecrets fs)(i := None)\<rparr>"

text \<open>The key a draft brings; an absent key and an empty one are the same.\<close>

record keyDraft =
  kd_id :: string
  kd_key :: string
  kd_remove :: bool

definition keyText :: "string option \<Rightarrow> string" where
  "keyText k = (case k of None \<Rightarrow> [] | Some s \<Rightarrow> s)"

definition channelKey :: "channelDraft \<Rightarrow> keyDraft" where
  "channelKey d = \<lparr>kd_id = cd_id d, kd_key = keyText (cd_apiKey d), kd_remove = cd_removeApiKey d\<rparr>"

definition serverKey :: "mcpServerDraft \<Rightarrow> keyDraft" where
  "serverKey d = \<lparr>kd_id = sd_id d, kd_key = keyText (sd_apiKey d), kd_remove = sd_removeApiKey d\<rparr>"

text \<open>The loop over the drafts, and the loop over what was stored before.\<close>

fun applyKeys :: "(string \<Rightarrow> string \<Rightarrow> 'fs \<Rightarrow> 'fs) \<Rightarrow> (string \<Rightarrow> 'fs \<Rightarrow> 'fs) \<Rightarrow> keyDraft list \<Rightarrow> 'fs \<Rightarrow> 'fs" where
  "applyKeys put remove [] fs = fs"
| "applyKeys put remove (d # ds) fs = applyKeys put remove ds
     (if kd_remove d then remove (kd_id d) fs
      else if kd_key d \<noteq> [] then put (kd_id d) (kd_key d) fs else fs)"

fun dropStale :: "(string \<Rightarrow> 'fs \<Rightarrow> 'fs) \<Rightarrow> string list \<Rightarrow> string list \<Rightarrow> 'fs \<Rightarrow> 'fs" where
  "dropStale remove retained [] fs = fs"
| "dropStale remove retained (i # is) fs =
     dropStale remove retained is (if i \<in> set retained then fs else remove i fs)"

definition keyConfiguredBy :: "bool \<Rightarrow> keyDraft \<Rightarrow> bool" where
  "keyConfiguredBy hasExisting d \<longleftrightarrow> \<not> kd_remove d \<and> (kd_key d \<noteq> [] \<or> hasExisting)"

definition systemSecrets :: "gatewayEnv \<Rightarrow> (string \<times> string) list" where
  "systemSecrets env = [(OPEN_CONNECTOR_MCP_ID, openConnectorRuntimeToken env), (RAG_MCP_ID, lightRagApiKey env)]"

definition syncSystemManagedMcpSecrets :: "gatewayEnv \<Rightarrow> gatewayFiles \<Rightarrow> gatewayFiles" where
  "syncSystemManagedMcpSecrets env fs =
    fold (\<lambda>(i, v) fs. if v \<noteq> [] then putMcpSecret i v fs else dropMcpSecret i fs) (systemSecrets env) fs"

definition systemManagedMcpSecretsNeedSync :: "gatewayEnv \<Rightarrow> gatewayFiles \<Rightarrow> bool" where
  "systemManagedMcpSecretsNeedSync env fs = list_ex (\<lambda>(i, v). case gf_mcpSecrets fs i of
       Some stored \<Rightarrow> v = [] \<or> js_trim stored \<noteq> v
     | None \<Rightarrow> v \<noteq> []) (systemSecrets env)"

section \<open>Writing the configuration\<close>

definition writeConfig :: "string \<Rightarrow> gatewayFiles \<Rightarrow> gatewayFiles" where
  "writeConfig config fs = fs\<lparr>gf_config := (if config \<noteq> [] then File config else Missing)\<rparr>"

definition readConfig :: "gatewayFiles \<Rightarrow> gatewayError + string" where
  "readConfig fs = (case gf_config fs of File s \<Rightarrow> Inr s | Missing \<Rightarrow> Inr [] | Damaged \<Rightarrow> Inl ReadFailed)"

definition registrationStale :: "gatewayEnv \<Rightarrow> string \<Rightarrow> gatewayFiles \<Rightarrow> bool" where
  "registrationStale env current fs \<longleftrightarrow>
    list_ex (\<lambda>s. ms_enabled s \<and> \<not> js_includes current (''name: '' @ mcpBackendName (ms_namespace s) @ [CHR 0x0A]))
      (getSystemManagedMcpServers env)
    \<or> (current \<noteq> [] \<and> \<not> js_includes current GATEWAY_CONFIG_VERSION_MARKER)
    \<or> systemManagedMcpSecretsNeedSync env fs"

definition ensureSystemManagedMcpRegistration ::
    "gatewayEnv \<Rightarrow> string \<Rightarrow> serversSnapshot \<Rightarrow> gatewayFiles \<Rightarrow> (gatewayError + unit) \<times> gatewayFiles" where
  "ensureSystemManagedMcpRegistration env uuid snapshot fs =
    (case readConfig fs of Inl e \<Rightarrow> (Inl e, fs)
     | Inr current \<Rightarrow>
       if \<not> registrationStale env current fs then (Inr (), fs)
       else case readGatewayChannels fs of Inl e \<Rightarrow> (Inl e, fs)
         | Inr channels \<Rightarrow>
           let fs1 = syncSystemManagedMcpSecrets env fs in
           case generateGatewayConfig env (cs_channels channels) (sn_servers snapshot) of
             None \<Rightarrow> (Inl InvalidUrl, fs1)
           | Some generated \<Rightarrow>
               (Inr (), (writeConfig generated fs1)\<lparr>gf_revision := File (uuid @ [CHR 0x0A])\<rparr>))"

definition readGatewayMcpServers ::
    "gatewayEnv \<Rightarrow> string \<Rightarrow> gatewayFiles \<Rightarrow> (gatewayError + serversSnapshot) \<times> gatewayFiles" where
  "readGatewayMcpServers env uuid fs =
    (case readGatewayMcpServersSnapshot env fs of Inl e \<Rightarrow> (Inl e, fs)
     | Inr snapshot \<Rightarrow>
       (case ensureSystemManagedMcpRegistration env uuid snapshot fs of
          (Inl e, fs1) \<Rightarrow> (Inl e, fs1)
        | (Inr u, fs1) \<Rightarrow> (Inr snapshot, fs1)))"

section \<open>Saving\<close>

text \<open>\<open>previousById.get(id)\<close>, and the field of an entry that may be absent or empty.\<close>

definition byId :: "('a \<Rightarrow> string) \<Rightarrow> 'a list \<Rightarrow> string \<Rightarrow> 'a option" where
  "byId key xs i = map_of (js_map (map (\<lambda>x. (key x, x)) xs)) i"

definition fieldOr :: "('a \<Rightarrow> string) \<Rightarrow> 'a option \<Rightarrow> string \<Rightarrow> string" where
  "fieldOr f entry d = (case entry of None \<Rightarrow> d | Some x \<Rightarrow> orElse (f x) d)"

definition draftChannel :: "channelDraft \<Rightarrow> string \<Rightarrow> string \<Rightarrow> storedChannel" where
  "draftChannel d created timestamp = \<lparr>gc_id = cd_id d, gc_name = cd_name d, gc_provider = cd_provider d,
     gc_baseUrl = cd_baseUrl d, gc_enabled = cd_enabled d, gc_models = cd_models d,
     gc_createdAt = created, gc_updatedAt = timestamp\<rparr>"

definition draftServer :: "mcpServerDraft \<Rightarrow> string \<Rightarrow> string \<Rightarrow> storedServer" where
  "draftServer d created timestamp = \<lparr>ms_id = sd_id d, ms_name = sd_name d, ms_namespace = sd_namespace d,
     ms_url = sd_url d, ms_enabled = sd_enabled d, ms_authHeader = sd_authHeader d,
     ms_toolIncludes = sd_toolIncludes d, ms_toolExcludes = sd_toolExcludes d,
     ms_createdAt = created, ms_updatedAt = timestamp\<rparr>"

text \<open>The channels and servers a save publishes, from what was there before.\<close>

definition savedChannels :: "gatewayChannel list \<Rightarrow> string \<Rightarrow> channelDraft list \<Rightarrow> gatewayChannel list" where
  "savedChannels previous timestamp drafts = map (\<lambda>d.
     let before = byId gc_id previous (cd_id d) in
     withKey (draftChannel d (fieldOr gc_createdAt before timestamp) timestamp)
       (keyConfiguredBy (case before of None \<Rightarrow> False | Some c \<Rightarrow> gc_keyConfigured c) (channelKey d))) drafts"

definition savedServers :: "mcpServer list \<Rightarrow> string \<Rightarrow> mcpServerDraft list \<Rightarrow> mcpServer list" where
  "savedServers previous timestamp drafts = map (\<lambda>d.
     let before = byId ms_id previous (sd_id d) in
     withFlags (draftServer d (fieldOr ms_createdAt before timestamp) timestamp) False
       (keyConfiguredBy (case before of None \<Rightarrow> False | Some s \<Rightarrow> ms_keyConfigured s) (serverKey d))) drafts"

definition missingKeys :: "gatewayChannel list \<Rightarrow> string list" where
  "missingKeys cs = map gc_name (filter (\<lambda>c. gc_enabled c \<and> \<not> gc_keyConfigured c) cs)"

definition saveGatewayChannels ::
    "gatewayEnv \<Rightarrow> string \<Rightarrow> string \<Rightarrow> channelDraft list \<Rightarrow> gatewayFiles \<Rightarrow>
      (gatewayError + channelsSnapshot) \<times> gatewayFiles" where
  "saveGatewayChannels env revision timestamp drafts fs =
    (case bindE (readGatewayChannels fs) (\<lambda>c. bindE (readGatewayMcpServersSnapshot env fs) (\<lambda>m. Inr (c, m))) of
       Inl e \<Rightarrow> (Inl e, fs)
     | Inr (previous, mcpSnapshot) \<Rightarrow>
       let channels = savedChannels (cs_channels previous) timestamp drafts in
       if missingKeys channels \<noteq> [] then (Inl (MissingKeys (missingKeys channels)), fs)
       else
         let fs1 = applyKeys putSecret dropSecret (map channelKey drafts) fs;
             fs2 = dropStale dropSecret (map cd_id drafts) (map gc_id (cs_channels previous)) fs1;
             fs3 = syncSystemManagedMcpSecrets env fs2 in
         case generateGatewayConfig env channels (sn_servers mcpSnapshot) of
           None \<Rightarrow> (Inl InvalidUrl, fs3)
         | Some generated \<Rightarrow>
             (Inr \<lparr>cs_channels = channels, cs_updatedAt = timestamp, cs_revision = revision\<rparr>,
              (writeConfig generated fs3)
                \<lparr>gf_channels := File \<lparr>sc_channels = map storedChannel.truncate channels,
                   sc_updatedAt = timestamp, sc_revision = revision\<rparr>,
                 gf_revision := File (revision @ [CHR 0x0A])\<rparr>))"

definition saveGatewayMcpServers ::
    "gatewayEnv \<Rightarrow> string \<Rightarrow> string \<Rightarrow> mcpServerDraft list \<Rightarrow> gatewayFiles \<Rightarrow>
      (gatewayError + serversSnapshot) \<times> gatewayFiles" where
  "saveGatewayMcpServers env revision timestamp drafts fs =
    (case bindE (readGatewayMcpServersSnapshot env fs) (\<lambda>m. bindE (readGatewayChannels fs) (\<lambda>c. Inr (m, c))) of
       Inl e \<Rightarrow> (Inl e, fs)
     | Inr (previous, channelSnapshot) \<Rightarrow>
       let previousUserServers = filter (\<lambda>s. \<not> ms_managed s) (sn_servers previous);
           servers = savedServers previousUserServers timestamp drafts;
           fs1 = applyKeys putMcpSecret dropMcpSecret (map serverKey drafts) fs;
           fs2 = dropStale dropMcpSecret (map sd_id drafts) (map ms_id previousUserServers) fs1;
           fs3 = syncSystemManagedMcpSecrets env fs2;
           allServers = getSystemManagedMcpServers env @ servers in
       case generateGatewayConfig env (cs_channels channelSnapshot) allServers of
         None \<Rightarrow> (Inl InvalidUrl, fs3)
       | Some generated \<Rightarrow>
           (Inr \<lparr>sn_servers = allServers, sn_updatedAt = timestamp, sn_revision = revision\<rparr>,
            (writeConfig generated fs3)
              \<lparr>gf_mcpServers := File \<lparr>ss_servers = map storedServer.truncate servers,
                 ss_updatedAt = timestamp, ss_revision = revision\<rparr>,
               gf_revision := File (revision @ [CHR 0x0A])\<rparr>))"

section \<open>Key files\<close>

text \<open>A directory of key files: what it holds and how a write and an unlink change it.\<close>

locale key_directory =
  fixes get :: "'fs \<Rightarrow> string \<Rightarrow> string option"
    and put :: "string \<Rightarrow> string \<Rightarrow> 'fs \<Rightarrow> 'fs"
    and remove :: "string \<Rightarrow> 'fs \<Rightarrow> 'fs"
  assumes get_put: "get (put i v fs) j = (if i = j then Some v else get fs j)"
    and get_remove: "get (remove i fs) j = (if i = j then None else get fs j)"
begin

lemma get_dropStale:
  "get (dropStale remove retained is fs) j = (if j \<in> set is \<and> j \<notin> set retained then None else get fs j)"
  by (induction "is" arbitrary: fs) (auto simp: get_remove)

lemma get_applyKeys:
  "distinct (map kd_id ds) \<Longrightarrow> get (applyKeys put remove ds fs) j
    = (case find (\<lambda>d. kd_id d = j) ds of None \<Rightarrow> get fs j
       | Some d \<Rightarrow> if kd_remove d then None else if kd_key d \<noteq> [] then Some (kd_key d) else get fs j)"
proof (induction ds arbitrary: fs)
  case (Cons d ds)
  have "find (\<lambda>x. kd_id x = kd_id d) ds = None"
    using Cons.prems by (simp add: find_None_iff) (metis imageI)
  with Cons show ?case by (auto simp: get_put get_remove split: option.splits)
qed simp

lemma find_unique: "distinct (map kd_id ds) \<Longrightarrow> d \<in> set ds \<Longrightarrow> find (\<lambda>x. kd_id x = kd_id d) ds = Some d"
proof (induction ds)
  case (Cons x xs)
  then show ?case by (cases "x = d") (auto simp: image_iff)
qed simp

lemma key_file_iff:
  assumes "distinct (map kd_id ds)" "d \<in> set ds"
  shows "(get (dropStale remove (map kd_id ds) is (applyKeys put remove ds fs)) (kd_id d) \<noteq> None)
    = keyConfiguredBy (get fs (kd_id d) \<noteq> None) d"
  using assms(2) find_unique[OF assms]
  by (auto simp: get_dropStale get_applyKeys[OF assms(1)] keyConfiguredBy_def)

lemma no_stray_keys:
  assumes "distinct (map kd_id ds)" "get fs j \<noteq> None \<Longrightarrow> j \<in> set is"
    and "get (dropStale remove (map kd_id ds) is (applyKeys put remove ds fs)) j \<noteq> None"
  shows "j \<in> set (map kd_id ds)"
proof (rule ccontr)
  assume n: "j \<notin> set (map kd_id ds)"
  then have "find (\<lambda>d. kd_id d = j) ds = None" by (auto simp: find_None_iff)
  with assms n show False
    by (auto simp: get_dropStale get_applyKeys[OF assms(1)] split: if_split_asm)
qed

end

interpretation channel_secrets: key_directory gf_secrets putSecret dropSecret
  by unfold_locales (simp_all add: putSecret_def dropSecret_def)

interpretation server_secrets: key_directory gf_mcpSecrets putMcpSecret dropMcpSecret
  by unfold_locales (simp_all add: putMcpSecret_def dropMcpSecret_def)

section \<open>What the operations leave alone\<close>

lemma applyKeys_other:
  "gf_channels (applyKeys putSecret dropSecret ds fs) = gf_channels fs"
  "gf_mcpServers (applyKeys putSecret dropSecret ds fs) = gf_mcpServers fs"
  "gf_mcpSecrets (applyKeys putSecret dropSecret ds fs) = gf_mcpSecrets fs"
  "gf_config (applyKeys putSecret dropSecret ds fs) = gf_config fs"
  by (induction ds arbitrary: fs) (simp_all add: putSecret_def dropSecret_def)

lemma dropStale_other:
  "gf_channels (dropStale dropSecret ids is fs) = gf_channels fs"
  "gf_mcpServers (dropStale dropSecret ids is fs) = gf_mcpServers fs"
  "gf_mcpSecrets (dropStale dropSecret ids is fs) = gf_mcpSecrets fs"
  "gf_config (dropStale dropSecret ids is fs) = gf_config fs"
  by (induction "is" arbitrary: fs) (simp_all add: dropSecret_def)

lemma sync_other [simp]:
  "gf_channels (syncSystemManagedMcpSecrets env fs) = gf_channels fs"
  "gf_mcpServers (syncSystemManagedMcpSecrets env fs) = gf_mcpServers fs"
  "gf_secrets (syncSystemManagedMcpSecrets env fs) = gf_secrets fs"
  "gf_config (syncSystemManagedMcpSecrets env fs) = gf_config fs"
  by (simp_all add: syncSystemManagedMcpSecrets_def systemSecrets_def putMcpSecret_def dropMcpSecret_def)

lemma sync_secret:
  "gf_mcpSecrets (syncSystemManagedMcpSecrets env fs) i =
    (case map_of (systemSecrets env) i of None \<Rightarrow> gf_mcpSecrets fs i
     | Some v \<Rightarrow> if v \<noteq> [] then Some v else None)"
  by (simp add: syncSystemManagedMcpSecrets_def systemSecrets_def putMcpSecret_def dropMcpSecret_def
      OPEN_CONNECTOR_MCP_ID_def RAG_MCP_ID_def)

lemma sync_user_secret:
  "\<not> isSystemManagedMcpServerId i \<Longrightarrow> gf_mcpSecrets (syncSystemManagedMcpSecrets env fs) i = gf_mcpSecrets fs i"
  by (simp add: sync_secret systemSecrets_def isSystemManagedMcpServerId_def)

lemma trimmed_tokens:
  "js_trim (openConnectorRuntimeToken env) = openConnectorRuntimeToken env"
  "js_trim (lightRagApiKey env) = lightRagApiKey env"
  by (simp_all add: openConnectorRuntimeToken_def lightRagApiKey_def envTrimmed_def split: option.split)

lemma synced:
  assumes "gf_mcpSecrets fs' = gf_mcpSecrets (syncSystemManagedMcpSecrets env fs)"
  shows "\<not> systemManagedMcpSecretsNeedSync env fs'"
  by (simp add: systemManagedMcpSecretsNeedSync_def assms sync_secret systemSecrets_def trimmed_tokens
      OPEN_CONNECTOR_MCP_ID_def RAG_MCP_ID_def)

lemma readStoredMcpServers_user:
  "readStoredMcpServers fs = Inr st \<Longrightarrow> s \<in> set (ss_servers st) \<Longrightarrow> \<not> isSystemManagedMcpServerId (ms_id s)"
  by (auto simp: readStoredMcpServers_def split: diskFile.split_asm)

lemma snapshot_unchanged:
  assumes "gf_mcpServers fs' = gf_mcpServers fs"
    and "\<And>i. \<not> isSystemManagedMcpServerId i \<Longrightarrow> gf_mcpSecrets fs' i = gf_mcpSecrets fs i"
  shows "readGatewayMcpServersSnapshot env fs' = readGatewayMcpServersSnapshot env fs"
proof -
  have "readStoredMcpServers fs' = readStoredMcpServers fs"
    by (simp add: readStoredMcpServers_def assms(1))
  then show ?thesis
    using assms(2) readStoredMcpServers_user
    by (cases "readStoredMcpServers fs") (auto simp: readGatewayMcpServersSnapshot_def)
qed

section \<open>The registration of the system-managed services\<close>

lemma js_includes_suffix: "js_includes s p \<Longrightarrow> js_includes (a @ s) p"
  by (induction a) auto

lemma js_includes_mid: "js_includes (a @ p @ b) p"
proof -
  have "starts_with (p @ b) p" by (simp add: starts_with_def)
  then have "js_includes (p @ b) p" by (cases "p @ b") auto
  then show ?thesis by (rule js_includes_suffix)
qed

lemma unlines_includes:
  assumes "l \<in> set ls" "l = a @ p"
  shows "js_includes (unlines ls) (p @ [CHR 0x0A])"
proof -
  obtain us vs where ls: "ls = us @ l # vs" using assms(1) by (meson split_list)
  have "unlines ls = (unlines us @ a) @ (p @ [CHR 0x0A]) @ unlines vs"
    by (simp add: ls unlines_def assms(2))
  then show ?thesis by (metis js_includes_mid)
qed

lemma generated_lines:
  assumes "generateGatewayConfig env channels servers = Some config" "config \<noteq> []"
  shows "\<exists>rs. gatewayResources env channels servers = Some rs \<and> config = unlines (configLines rs)"
  using assms by (auto simp: generateGatewayConfig_def split: if_split_asm)

lemma generated_marker:
  assumes "generateGatewayConfig env channels servers = Some config" "config \<noteq> []"
  shows "js_includes config GATEWAY_CONFIG_VERSION_MARKER"
proof -
  obtain rs where "config = unlines (configLines rs)" using generated_lines[OF assms] by blast
  then have "config = ''# Generated by AI Console. Do not edit by hand.\<newline>'' @ GATEWAY_CONFIG_VERSION_MARKER
      @ CHR 0x0A # unlines (tl (tl (configLines rs)))"
    by (simp add: unlines_def configLines_def)
  then show ?thesis by (metis js_includes_mid)
qed

lemma generated_names:
  assumes "generateGatewayConfig env channels servers = Some config" "s \<in> set (enabledServers servers)"
  shows "config \<noteq> [] \<and> js_includes config (''name: '' @ mcpBackendName (ms_namespace s) @ [CHR 0x0A])"
proof -
  have "enabledServers servers \<noteq> []" using assms(2) by auto
  then obtain rs where rs: "gatewayResources env channels servers = Some rs" and c: "config = unlines (configLines rs)"
    using assms(1) by (auto simp: generateGatewayConfig_def)
  from rs obtain backends parsed where
    p: "list_all2 (\<lambda>s p. \<exists>u. ge_parse env (ms_url s) = Some u \<and> p = (u, s)) (enabledServers servers) parsed"
    and mem: "set (concat (map (mcpServerResources env) parsed)) \<subseteq> set rs"
    by (rule gatewayResources_cases) auto
  obtain u where u: "(u, s) \<in> set parsed"
    using assms(2) unfolding parsed_servers[OF p, symmetric] by auto
  from server_keys[of env u s] obtain tls where
    "map resourceKey (mcpServerResources env (u, s)) = serverKeys tls (ms_keyConfigured s) (mcpBackendName (ms_namespace s))" ..
  then have "(''Backend'', mcpBackendName (ms_namespace s)) \<in> set (map resourceKey (mcpServerResources env (u, s)))"
    by (simp add: serverKeys_def)
  then obtain r where r: "r \<in> set (mcpServerResources env (u, s))" "rs_name r = mcpBackendName (ms_namespace s)"
    by (auto simp: resourceKey_def)
  with u mem have "r \<in> set rs" by auto
  then have "''  name: '' @ rs_name r \<in> set (configLines rs)"
    by (auto simp: configLines_def resourceLines_def)
  from unlines_includes[OF this, of "''  ''" "''name: '' @ rs_name r"] c r(2)
  show ?thesis by (auto simp: unlines_def configLines_def)
qed

lemma registered_not_stale:
  assumes "generateGatewayConfig env channels (sn_servers snapshot) = Some config"
    and "readGatewayMcpServersSnapshot env fs = Inr snapshot"
    and "gf_mcpSecrets fs' = gf_mcpSecrets (syncSystemManagedMcpSecrets env fs)"
  shows "config \<noteq> [] \<and> \<not> registrationStale env config fs'"
proof -
  have sub: "set (getSystemManagedMcpServers env) \<subseteq> set (enabledServers (sn_servers snapshot))"
    using assms(2) by (auto simp: readGatewayMcpServersSnapshot_def enabledServers_def getSystemManagedMcpServers_def)
  have names: "config \<noteq> [] \<and> js_includes config (''name: '' @ mcpBackendName (ms_namespace s) @ [CHR 0x0A])"
    if "s \<in> set (getSystemManagedMcpServers env)" for s
    using generated_names[OF assms(1)] that sub by blast
  have "getSystemManagedMcpServers env \<noteq> []" by (simp add: getSystemManagedMcpServers_def)
  then have ne: "config \<noteq> []" using names by (meson list.set_sel(1))
  show ?thesis
    using ne names generated_marker[OF assms(1) ne] synced[OF assms(3)]
    by (auto simp: registrationStale_def list_ex_iff)
qed

text \<open>C26: Reading the MCP servers brings the registration of the system-managed services up to date and
  converges: when it succeeds, the configuration on disk names every system-managed service and
  their key files hold their tokens, and reading again returns the same and writes nothing.\<close>

theorem registration_converges:
  assumes "readGatewayMcpServers env uuid fs = (Inr snapshot, fs')"
  shows "readGatewayMcpServers env uuid' fs' = (Inr snapshot, fs')
    \<and> (\<exists>config. readConfig fs' = Inr config \<and> \<not> registrationStale env config fs')
    \<and> gf_channels fs' = gf_channels fs \<and> gf_mcpServers fs' = gf_mcpServers fs \<and> gf_secrets fs' = gf_secrets fs"
proof -
  from assms have snap: "readGatewayMcpServersSnapshot env fs = Inr snapshot"
    and e: "ensureSystemManagedMcpRegistration env uuid snapshot fs = (Inr (), fs')"
    by (auto simp: readGatewayMcpServers_def split: sum.split_asm prod.split_asm)
  consider (current) config where "fs' = fs" "readConfig fs = Inr config" "\<not> registrationStale env config fs"
    | (registered) channels config where "generateGatewayConfig env channels (sn_servers snapshot) = Some config"
        "fs' = (writeConfig config (syncSystemManagedMcpSecrets env fs))\<lparr>gf_revision := File (uuid @ [CHR 0x0A])\<rparr>"
    using e by (auto simp: ensureSystemManagedMcpRegistration_def Let_def
        split: sum.split_asm if_split_asm option.split_asm)
  then have *: "readGatewayMcpServersSnapshot env fs' = Inr snapshot
    \<and> (\<exists>config. readConfig fs' = Inr config \<and> \<not> registrationStale env config fs')
    \<and> gf_channels fs' = gf_channels fs \<and> gf_mcpServers fs' = gf_mcpServers fs \<and> gf_secrets fs' = gf_secrets fs"
  proof cases
    case registered
    have fields: "gf_mcpSecrets fs' = gf_mcpSecrets (syncSystemManagedMcpSecrets env fs)"
      "gf_mcpServers fs' = gf_mcpServers fs" "gf_channels fs' = gf_channels fs" "gf_secrets fs' = gf_secrets fs"
      "gf_config fs' = (if config \<noteq> [] then File config else Missing)"
      by (simp_all add: registered(2) writeConfig_def)
    have "readGatewayMcpServersSnapshot env fs' = Inr snapshot"
      using snapshot_unchanged[OF fields(2), of env] sync_user_secret[of _ env fs] snap by (simp add: fields(1))
    moreover have "readConfig fs' = Inr config \<and> \<not> registrationStale env config fs'"
      using registered_not_stale[OF registered(1) snap fields(1)] by (auto simp: readConfig_def fields(5))
    ultimately show ?thesis using fields by blast
  qed (use snap in auto)
  then obtain config where "readConfig fs' = Inr config" "\<not> registrationStale env config fs'" by blast
  then have "ensureSystemManagedMcpRegistration env uuid' snapshot fs' = (Inr (), fs')"
    by (simp add: ensureSystemManagedMcpRegistration_def)
  with * show ?thesis by (simp add: readGatewayMcpServers_def)
qed

definition empty_files :: gatewayFiles where
  "empty_files = \<lparr>gf_channels = Missing, gf_mcpServers = Missing, gf_config = Missing, gf_revision = Missing,
     gf_secrets = (\<lambda>i. None), gf_mcpSecrets = (\<lambda>i. None)\<rparr>"

lemma first_read_succeeds: "is_ok (fst (readGatewayMcpServers demo_env ''u'' empty_files))"
  by code_simp

theorem registration_converges_witness:
  "\<exists>snapshot fs. readGatewayMcpServers demo_env ''u'' empty_files = (Inr snapshot, fs)
    \<and> readGatewayMcpServers demo_env ''v'' fs = (Inr snapshot, fs)"
proof -
  obtain r fs where r: "readGatewayMcpServers demo_env ''u'' empty_files = (r, fs)" by fastforce
  with first_read_succeeds obtain snapshot where "r = Inr snapshot" by (auto simp: is_ok_iff)
  with r registration_converges[of demo_env "''u''" empty_files snapshot fs "''v''"] show ?thesis by blast
qed

section \<open>Saving channels\<close>

text \<open>Every key file of the channel directory belongs to a stored channel, and stored identifiers are
  distinct.\<close>

definition channels_ok :: "gatewayFiles \<Rightarrow> bool" where
  "channels_ok fs \<longleftrightarrow> (case gf_channels fs of
     File st \<Rightarrow> distinct (map gc_id (sc_channels st)) \<and> dom (gf_secrets fs) \<subseteq> set (map gc_id (sc_channels st))
   | _ \<Rightarrow> dom (gf_secrets fs) = {})"

lemma withKey_simps [simp]:
  "gc_id (withKey c b) = gc_id c" "gc_enabled (withKey c b) = gc_enabled c" "gc_keyConfigured (withKey c b) = b"
  "storedChannel.truncate (withKey c b) = c"
  by (cases c; simp add: withKey_def storedChannel.defs gatewayChannel.defs)+

lemma byId_distinct:
  assumes "distinct (map key xs)" "x \<in> set xs"
  shows "byId key xs (key x) = Some x"
proof -
  have "distinct (map key (rev xs))" using assms(1) by (metis distinct_rev rev_map)
  then have "distinct (map fst (rev (map (\<lambda>x. (key x, x)) xs)))" by (simp add: rev_map o_def)
  moreover have "(key x, x) \<in> set (rev (map (\<lambda>x. (key x, x)) xs))" using assms(2) by simp
  ultimately show ?thesis unfolding byId_def map_of_js_map by (rule map_of_is_SomeI)
qed

lemma byId_None: "i \<notin> set (map key xs) \<Longrightarrow> byId key xs i = None"
  by (auto simp: byId_def map_of_js_map map_of_eq_None_iff)

lemma readGatewayChannels_Inr:
  assumes "channels_ok fs" "readGatewayChannels fs = Inr previous"
  shows "distinct (map gc_id (cs_channels previous))" "dom (gf_secrets fs) \<subseteq> set (map gc_id (cs_channels previous))"
    "c \<in> set (cs_channels previous) \<Longrightarrow> gc_keyConfigured c = (gf_secrets fs (gc_id c) \<noteq> None)"
proof -
  obtain st where st: "readStoredChannels fs = Inr st"
    and p: "cs_channels previous = map (\<lambda>c. withKey c (gf_secrets fs (gc_id c) \<noteq> None)) (sc_channels st)"
    using assms(2) by (auto simp: readGatewayChannels_def)
  have ids: "map gc_id (cs_channels previous) = map gc_id (sc_channels st)" by (simp add: p o_def)
  show "distinct (map gc_id (cs_channels previous))" "dom (gf_secrets fs) \<subseteq> set (map gc_id (cs_channels previous))"
    unfolding ids using assms(1) st
    by (auto simp: channels_ok_def readStoredChannels_def split: diskFile.split_asm)
  show "c \<in> set (cs_channels previous) \<Longrightarrow> gc_keyConfigured c = (gf_secrets fs (gc_id c) \<noteq> None)"
    by (auto simp: p)
qed

text \<open>What the channel list says of the existing key is what the directory holds.\<close>

lemma existing_key:
  assumes "channels_ok fs" "readGatewayChannels fs = Inr previous"
  shows "(case byId gc_id (cs_channels previous) i of None \<Rightarrow> False | Some c \<Rightarrow> gc_keyConfigured c)
    = (gf_secrets fs i \<noteq> None)"
proof (cases "i \<in> set (map gc_id (cs_channels previous))")
  case True
  then obtain c where c: "c \<in> set (cs_channels previous)" "i = gc_id c" by auto
  with byId_distinct[OF readGatewayChannels_Inr(1)[OF assms] c(1)] readGatewayChannels_Inr(3)[OF assms c(1)]
  show ?thesis by simp
next
  case False
  with byId_None[OF False] readGatewayChannels_Inr(2)[OF assms] show ?thesis by auto
qed

lemma channelKey_simps [simp]: "kd_id (channelKey d) = cd_id d" "kd_id \<circ> channelKey = cd_id"
  by (simp_all add: channelKey_def fun_eq_iff)

lemma savedChannels_simps:
  "map gc_id (savedChannels previous timestamp drafts) = map cd_id drafts"
  by (simp add: savedChannels_def Let_def o_def draftChannel_def)

definition afterKeys :: "gatewayEnv \<Rightarrow> channelDraft list \<Rightarrow> gatewayChannel list \<Rightarrow> gatewayFiles \<Rightarrow> gatewayFiles" where
  "afterKeys env drafts previous fs = syncSystemManagedMcpSecrets env
     (dropStale dropSecret (map cd_id drafts) (map gc_id previous)
       (applyKeys putSecret dropSecret (map channelKey drafts) fs))"

lemma afterKeys_other:
  "gf_channels (afterKeys env drafts previous fs) = gf_channels fs"
  "gf_mcpServers (afterKeys env drafts previous fs) = gf_mcpServers fs"
  "gf_config (afterKeys env drafts previous fs) = gf_config fs"
  "\<not> isSystemManagedMcpServerId i \<Longrightarrow> gf_mcpSecrets (afterKeys env drafts previous fs) i = gf_mcpSecrets fs i"
  by (simp_all add: afterKeys_def dropStale_other applyKeys_other sync_user_secret)

text \<open>The published flag of a saved channel is exactly the presence of its key file.\<close>

lemma saved_key_files:
  assumes "channels_ok fs" "readGatewayChannels fs = Inr previous" "distinct (map cd_id drafts)"
  shows "map (\<lambda>c. withKey (storedChannel.truncate c)
      (gf_secrets (afterKeys env drafts (cs_channels previous) fs) (gc_id c) \<noteq> None))
      (savedChannels (cs_channels previous) timestamp drafts)
    = savedChannels (cs_channels previous) timestamp drafts"
proof -
  have "(gf_secrets (afterKeys env drafts (cs_channels previous) fs) (cd_id d) \<noteq> None)
      = keyConfiguredBy (case byId gc_id (cs_channels previous) (cd_id d) of None \<Rightarrow> False | Some c \<Rightarrow> gc_keyConfigured c)
          (channelKey d)" if "d \<in> set drafts" for d
    using channel_secrets.key_file_iff[of "map channelKey drafts" "channelKey d"
        "map gc_id (cs_channels previous)" fs] that assms(3)
    unfolding existing_key[OF assms(1,2)] by (simp add: afterKeys_def)
  then show ?thesis by (simp add: savedChannels_def Let_def draftChannel_def)
qed

lemma no_stray_channel_keys:
  assumes "channels_ok fs" "readGatewayChannels fs = Inr previous" "distinct (map cd_id drafts)"
  shows "dom (gf_secrets (afterKeys env drafts (cs_channels previous) fs)) \<subseteq> set (map cd_id drafts)"
proof
  fix i
  assume "i \<in> dom (gf_secrets (afterKeys env drafts (cs_channels previous) fs))"
  moreover have "gf_secrets fs i \<noteq> None \<Longrightarrow> i \<in> set (map gc_id (cs_channels previous))"
    using readGatewayChannels_Inr(2)[OF assms(1,2)] by blast
  ultimately show "i \<in> set (map cd_id drafts)"
    using channel_secrets.no_stray_keys[of "map channelKey drafts" fs i "map gc_id (cs_channels previous)"] assms(3)
    unfolding afterKeys_def by auto
qed

text \<open>Saving channels is sound in every outcome. When it succeeds, reading returns exactly the
  snapshot it returned, in the order of the drafts; every enabled channel has its key file and no
  key file is left of a channel that is gone; the configuration on disk is the one generated from
  the saved channels and the current MCP servers, which are untouched. When an enabled channel has
  no key, it fails and nothing is written.\<close>

theorem save_channels_sound:
  assumes "channels_ok fs" "distinct (map cd_id drafts)"
    and "saveGatewayChannels env revision timestamp drafts fs = (r, fs')"
  shows "case r of
      Inr snapshot \<Rightarrow> channels_ok fs' \<and> readGatewayChannels fs' = Inr snapshot
        \<and> map gc_id (cs_channels snapshot) = map cd_id drafts
        \<and> missingKeys (cs_channels snapshot) = []
        \<and> gf_mcpServers fs' = gf_mcpServers fs
        \<and> (\<exists>mcp config. readGatewayMcpServersSnapshot env fs' = Inr mcp
            \<and> generateGatewayConfig env (cs_channels snapshot) (sn_servers mcp) = Some config
            \<and> gf_config fs' = (if config \<noteq> [] then File config else Missing))
    | Inl e \<Rightarrow> gf_channels fs' = gf_channels fs \<and> gf_mcpServers fs' = gf_mcpServers fs
        \<and> gf_config fs' = gf_config fs \<and> (e \<noteq> InvalidUrl \<longrightarrow> fs' = fs)"
proof (cases "bindE (readGatewayChannels fs) (\<lambda>c. bindE (readGatewayMcpServersSnapshot env fs) (\<lambda>m. Inr (c, m)))")
  case (Inl e)
  with assms(3) show ?thesis by (auto simp: saveGatewayChannels_def)
next
  case (Inr p)
  then obtain previous mcp where p: "p = (previous, mcp)" "readGatewayChannels fs = Inr previous"
    "readGatewayMcpServersSnapshot env fs = Inr mcp" by auto
  let ?channels = "savedChannels (cs_channels previous) timestamp drafts"
  let ?fs = "afterKeys env drafts (cs_channels previous) fs"
  show ?thesis
  proof (cases "missingKeys ?channels = []")
    case False
    with assms(3) Inr p(1) show ?thesis by (auto simp: saveGatewayChannels_def Let_def)
  next
    case True
    show ?thesis
    proof (cases "generateGatewayConfig env ?channels (sn_servers mcp)")
      case None
      with assms(3) Inr p(1) True have "r = Inl InvalidUrl" "fs' = ?fs"
        by (auto simp: saveGatewayChannels_def Let_def afterKeys_def)
      then show ?thesis by (simp add: afterKeys_other)
    next
      case (Some config)
      with assms(3) Inr p(1) True have r: "r = Inr \<lparr>cs_channels = ?channels, cs_updatedAt = timestamp, cs_revision = revision\<rparr>"
        and f: "fs' = (writeConfig config ?fs)\<lparr>gf_channels := File \<lparr>sc_channels = map storedChannel.truncate ?channels,
            sc_updatedAt = timestamp, sc_revision = revision\<rparr>, gf_revision := File (revision @ [CHR 0x0A])\<rparr>"
        by (auto simp: saveGatewayChannels_def Let_def afterKeys_def)
      have fields: "gf_secrets fs' = gf_secrets ?fs" "gf_mcpSecrets fs' = gf_mcpSecrets ?fs" "gf_mcpServers fs' = gf_mcpServers fs"
        "gf_channels fs' = File \<lparr>sc_channels = map storedChannel.truncate ?channels, sc_updatedAt = timestamp, sc_revision = revision\<rparr>"
        "gf_config fs' = (if config \<noteq> [] then File config else Missing)"
        by (simp_all add: f writeConfig_def afterKeys_other)
      have ids: "map gc_id (map storedChannel.truncate ?channels) = map cd_id drafts"
        by (simp add: savedChannels_def Let_def o_def draftChannel_def)
      have "channels_ok fs'"
        using no_stray_channel_keys[OF assms(1) p(2) assms(2)] ids assms(2) by (simp add: channels_ok_def fields)
      moreover have "readGatewayChannels fs' = Inr \<lparr>cs_channels = ?channels, cs_updatedAt = timestamp, cs_revision = revision\<rparr>"
        using saved_key_files[OF assms(1) p(2) assms(2), of env timestamp]
        by (simp add: readGatewayChannels_def readStoredChannels_def fields o_def storedChannel.truncate_def)
      moreover have "readGatewayMcpServersSnapshot env fs' = Inr mcp"
        using snapshot_unchanged[OF fields(3), of env] p(3) afterKeys_other(4) by (simp add: fields(2))
      ultimately show ?thesis using r True Some fields(3,5) savedChannels_simps by simp
    qed
  qed
qed

lemma empty_files_ok: "channels_ok empty_files"
  by (simp add: channels_ok_def empty_files_def)

end
