(* ===== verification/Gateway_Probe.thy ===== *)
theory Gateway_Probe
  imports Gateway_Store
begin

text \<open>
  The connection tests of the gateway settings (src/ai-console/src/lib/server/gateway-config.ts):
  discovering the models of a channel, and the MCP handshake followed by the paginated list of
  tools. The remote service is a parameter that answers a request from the whole history of
  requests; so is the clock.
\<close>

datatype probeFailure = TimedOut | Unreachable

datatype probeMessage = KeyRequired | FoundModels nat | ChannelStatus int | TimeoutReached | CannotConnect
  | ServiceStatus int | InitializeError string | InitializeRejected | ConfirmationStatus int
  | ToolsStatus int | RepeatedCursor | TooManyPages | FoundTools nat

definition MAX_MCP_TOOL_PAGES :: nat where "MAX_MCP_TOOL_PAGES = 100"

definition responseOk :: "int \<Rightarrow> bool" where
  "responseOk status \<longleftrightarrow> 200 \<le> status \<and> status \<le> 299"

section \<open>Channels\<close>

record channelTestResult =
  ct_ok :: bool
  ct_status :: "int option"
  ct_latencyMs :: int
  ct_message :: probeMessage
  ct_discoveredModels :: "json list"

definition resolveTestKey :: "gatewayFiles \<Rightarrow> channelDraft \<Rightarrow> string" where
  "resolveTestKey fs draft =
    (if keyText (cd_apiKey draft) \<noteq> [] then keyText (cd_apiKey draft)
     else if cd_removeApiKey draft then []
     else case gf_secrets fs (cd_id draft) of None \<Rightarrow> [] | Some k \<Rightarrow> js_trim k)"

definition probeHeaders :: "gatewayProvider \<Rightarrow> string \<Rightarrow> (string \<times> string) list" where
  "probeHeaders provider apiKey =
    (if provider = Anthropic then [(''x-api-key'', apiKey), (''anthropic-version'', ''2023-06-01'')]
     else [(''Authorization'', ''Bearer '' @ apiKey)])"

text \<open>The names a list of records has under a field, empty ones left out; reading a field of null or
  undefined throws, and then nothing is discovered.\<close>

fun namedEntries :: "string \<Rightarrow> json list \<Rightarrow> (unit + json list)" where
  "namedEntries field [] = Inr []"
| "namedEntries field (v # vs) =
    (if v = JNull \<or> v = JUndef then Inl ()
     else bindE (namedEntries field vs) (\<lambda>out.
       Inr (if jtruthy (jget v field) then jget v field # out else out)))"

definition entriesOf :: "json \<Rightarrow> string \<Rightarrow> unit + json list" where
  "entriesOf v field =
    (if \<not> jtruthy v then Inr [] else if is_array v then namedEntries field (the_array v) else Inl ())"

definition discoverModels :: "json \<Rightarrow> json list" where
  "discoverModels payload = (if payload = JNull \<or> payload = JUndef then []
     else case entriesOf (jget payload ''data'') ''id'' of Inl e \<Rightarrow> []
       | Inr ids \<Rightarrow> if ids \<noteq> [] then ids
           else case entriesOf (jget payload ''models'') ''name'' of Inl e \<Rightarrow> [] | Inr names \<Rightarrow> names)"

definition testGatewayChannel ::
    "urlParser \<Rightarrow> gatewayFiles \<Rightarrow> (string \<Rightarrow> (string \<times> string) list \<Rightarrow> probeFailure + (int \<times> json option)) \<Rightarrow> int \<Rightarrow>
      channelDraft \<Rightarrow> gatewayError + channelTestResult" where
  "testGatewayChannel parse fs remote elapsed draft =
    (let apiKey = resolveTestKey fs draft in
     if apiKey = [] then Inr \<lparr>ct_ok = False, ct_status = None, ct_latencyMs = 0, ct_message = KeyRequired,
       ct_discoveredModels = []\<rparr>
     else case parse (cd_baseUrl draft) of None \<Rightarrow> Inl InvalidUrl
       | Some u \<Rightarrow>
         Inr (case remote (gu_withPath u (strip_last_slash (gu_pathname u) @ ''/models'')) (probeHeaders (cd_provider draft) apiKey) of
             Inl e \<Rightarrow> \<lparr>ct_ok = False, ct_status = None, ct_latencyMs = elapsed,
               ct_message = (if e = TimedOut then TimeoutReached else CannotConnect), ct_discoveredModels = []\<rparr>
           | Inr (status, body) \<Rightarrow>
               let models = (case body of None \<Rightarrow> [] | Some payload \<Rightarrow> discoverModels payload) in
               \<lparr>ct_ok = responseOk status, ct_status = Some status, ct_latencyMs = elapsed,
                 ct_message = (if responseOk status then FoundModels (length models) else ChannelStatus status),
                 ct_discoveredModels = take MAX_MODELS models\<rparr>))"

section \<open>The MCP handshake\<close>

record mcpRequest =
  rq_headers :: "(string \<times> string) list"
  rq_id :: "nat option"
  rq_method :: string
  rq_params :: json

record mcpResponse =
  rp_status :: int
  rp_text :: string
  rp_contentType :: "string option"
  rp_sessionId :: "string option"

text \<open>The newest request is the head of the history.\<close>

type_synonym mcpRemote = "mcpRequest list \<Rightarrow> probeFailure + mcpResponse"

record toolInfo =
  ti_name :: string
  ti_description :: "string option"

record serverTestResult =
  st_ok :: bool
  st_status :: "int option"
  st_latencyMs :: int
  st_message :: probeMessage
  st_tools :: "toolInfo list"

definition st_discoveredTools :: "serverTestResult \<Rightarrow> string list" where
  "st_discoveredTools r = map ti_name (st_tools r)"

definition resolveMcpTestKey :: "gatewayEnv \<Rightarrow> gatewayFiles \<Rightarrow> mcpServerDraft \<Rightarrow> string" where
  "resolveMcpTestKey env fs draft =
    (if sd_id draft = OPEN_CONNECTOR_MCP_ID then openConnectorRuntimeToken env
     else if sd_id draft = RAG_MCP_ID then lightRagApiKey env
     else if keyText (sd_apiKey draft) \<noteq> [] then keyText (sd_apiKey draft)
     else if sd_removeApiKey draft then []
     else case gf_mcpSecrets fs (sd_id draft) of None \<Rightarrow> [] | Some k \<Rightarrow> js_trim k)"

text \<open>\<open>Headers.set\<close>: names are compared in lower case, a value that holds a line break or a NUL is
  refused with a TypeError.\<close>

definition setHeader :: "string \<Rightarrow> string \<Rightarrow> (string \<times> string) list \<Rightarrow> (string \<times> string) list option" where
  "setHeader name v hs =
    (if \<not> valid_header name \<or> list_ex (\<lambda>c. c \<in> {CHR 0x00, CHR 0x0A, CHR 0x0D}) v then None
     else Some (AList.update (js_lower name) v hs))"

definition splitLines :: "string \<Rightarrow> string list" where
  "splitLines s = (let ls = js_split (CHR 0x0A) s in
     map (\<lambda>l. if l \<noteq> [] \<and> last l = CHR 0x0D then butlast l else l) (butlast ls) @ [last ls])"

fun firstObject :: "string list \<Rightarrow> json option" where
  "firstObject [] = None"
| "firstObject (c # cs) = (case jsonParse c of
     Some payload \<Rightarrow> if is_object payload then Some payload else firstObject cs
   | None \<Rightarrow> firstObject cs)"

definition parseMcpPayload :: "string \<Rightarrow> string option \<Rightarrow> json option" where
  "parseMcpPayload v contentType =
    (if js_trim v = [] then None
     else firstObject
       (if (case contentType of None \<Rightarrow> False | Some t \<Rightarrow> js_includes t ''text/event-stream'')
        then map (\<lambda>l. js_trim (drop 5 l)) (filter (\<lambda>l. starts_with l ''data:'') (splitLines v))
        else [v]))"

definition postMcpRequest ::
    "mcpRemote \<Rightarrow> mcpRequest list \<Rightarrow> probeFailure + mcpResponse \<times> json option" where
  "postMcpRequest remote history = bindE (remote history) (\<lambda>r.
     Inr (r, parseMcpPayload (rp_text r) (rp_contentType r)))"

text \<open>\<open>payload?.field\<close>\<close>

definition payloadField :: "json option \<Rightarrow> string \<Rightarrow> json" where
  "payloadField p field = (case p of None \<Rightarrow> JUndef | Some v \<Rightarrow> jget v field)"

definition failedProbe :: "int option \<Rightarrow> int \<Rightarrow> probeMessage \<Rightarrow> serverTestResult" where
  "failedProbe status latency message = \<lparr>st_ok = False, st_status = status, st_latencyMs = latency,
     st_message = message, st_tools = []\<rparr>"

section \<open>The list of tools\<close>

definition readTool :: "json \<Rightarrow> toolInfo option" where
  "readTool tool =
    (if \<not> is_object tool \<or> trimmed (jget tool ''name'') = [] then None
     else Some \<lparr>ti_name = trimmed (jget tool ''name''),
       ti_description = (if trimmed (jget tool ''description'') \<noteq> []
         then Some (trimmed (jget tool ''description'')) else None)\<rparr>)"

text \<open>\<open>Map.set\<close> keeps the position of a name that is already there.\<close>

definition collectTools :: "json list \<Rightarrow> (string \<times> toolInfo) list \<Rightarrow> (string \<times> toolInfo) list" where
  "collectTools vs tools =
    fold (\<lambda>v m. case readTool v of None \<Rightarrow> m | Some t \<Rightarrow> AList.update (ti_name t) t m) vs tools"

datatype listOutcome = Listed int "(string \<times> toolInfo) list" | ListStatus int | ListRepeated
  | ListTooLong | ListFailed probeFailure

definition listRequest :: "(string \<times> string) list \<Rightarrow> nat \<Rightarrow> string option \<Rightarrow> mcpRequest" where
  "listRequest headers page cursor = \<lparr>rq_headers = headers, rq_id = Some (page + 1), rq_method = ''tools/list'',
     rq_params = JObj (case cursor of None \<Rightarrow> [] | Some c \<Rightarrow> [(''cursor'', JStr c)])\<rparr>"

text \<open>One pass of the loop per page, from page 1; the history grows by one request per page.\<close>

function listTools ::
    "(mcpRequest list \<Rightarrow> probeFailure + mcpResponse \<times> json option) \<Rightarrow> (string \<times> string) list \<Rightarrow> nat \<Rightarrow> string option \<Rightarrow>
      string list \<Rightarrow> (string \<times> toolInfo) list \<Rightarrow> mcpRequest list \<Rightarrow> listOutcome \<times> mcpRequest list" where
  "listTools post headers page cursor visited tools history =
    (let history1 = listRequest headers page cursor # history in
     case post history1 of
       Inl e \<Rightarrow> (ListFailed e, history1)
     | Inr (r, payload) \<Rightarrow>
         if \<not> responseOk (rp_status r) then (ListStatus (rp_status r), history1)
         else
           let result = payloadField payload ''result'';
               tools1 = (if is_array (jget result ''tools'') then collectTools (the_array (jget result ''tools'')) tools
                 else tools);
               nextCursor = trimmed (jget result ''nextCursor'') in
           if nextCursor = [] then (Listed (rp_status r) tools1, history1)
           else if nextCursor \<in> set visited then (ListRepeated, history1)
           else if MAX_MCP_TOOL_PAGES \<le> page then (ListTooLong, history1)
           else listTools post headers (page + 1) (Some nextCursor) (nextCursor # visited) tools1 history1)"
  by pat_completeness auto
termination
  by (relation "measure (\<lambda>(post, headers, page, cursor, visited, tools, history). MAX_MCP_TOOL_PAGES - page)") auto

declare listTools.simps [simp del]

section \<open>The whole test\<close>

definition probeParams :: json where
  "probeParams = JObj [(''protocolVersion'', JStr ''2025-06-18''), (''capabilities'', JObj []),
     (''clientInfo'', JObj [(''name'', JStr ''ai-base-console''), (''version'', JStr ''0.1.0'')])]"

definition listResult :: "int \<Rightarrow> listOutcome \<Rightarrow> serverTestResult" where
  "listResult latency out = (case out of
     Listed status tools \<Rightarrow> \<lparr>st_ok = True, st_status = Some status, st_latencyMs = latency,
       st_message = FoundTools (length tools), st_tools = map snd tools\<rparr>
   | ListStatus status \<Rightarrow> failedProbe (Some status) latency (ToolsStatus status)
   | ListRepeated \<Rightarrow> failedProbe None latency RepeatedCursor
   | ListTooLong \<Rightarrow> failedProbe None latency TooManyPages
   | ListFailed e \<Rightarrow> failedProbe None latency (if e = TimedOut then TimeoutReached else CannotConnect))"

definition initialHeaders :: "string \<Rightarrow> string \<Rightarrow> (string \<times> string) list option" where
  "initialHeaders authHeader apiKey =
    (let hs = [(''accept'', ''application/json, text/event-stream''), (''content-type'', ''application/json''),
         (''x-ai-base-traffic-origin'', ''management_probe'')] in
     if apiKey = [] then Some hs
     else setHeader authHeader (if js_lower authHeader = ''authorization'' then ''Bearer '' @ apiKey else apiKey) hs)"

definition sessionHeaders :: "string option \<Rightarrow> (string \<times> string) list \<Rightarrow> (string \<times> string) list" where
  "sessionHeaders session hs =
    AList.update ''mcp-protocol-version'' ''2025-06-18''
      (case session of None \<Rightarrow> hs | Some s \<Rightarrow> if s = [] then hs else AList.update ''mcp-session-id'' s hs)"

text \<open>None when setting the key header throws, which happens outside the try block.\<close>

definition testGatewayMcpServer ::
    "gatewayEnv \<Rightarrow> gatewayFiles \<Rightarrow> mcpRemote \<Rightarrow> (mcpRequest list \<Rightarrow> int) \<Rightarrow> mcpServerDraft \<Rightarrow>
      (serverTestResult \<times> mcpRequest list) option" where
  "testGatewayMcpServer env fs remote clock draft =
    (case initialHeaders (sd_authHeader draft) (resolveMcpTestKey env fs draft) of None \<Rightarrow> None
     | Some headers \<Rightarrow> Some (
       let post = postMcpRequest remote; latency = (\<lambda>h. clock h - clock []);
           h1 = [\<lparr>rq_headers = headers, rq_id = Some 1, rq_method = ''initialize'', rq_params = probeParams\<rparr>] in
       case post h1 of
         Inl e \<Rightarrow> (listResult (latency h1) (ListFailed e), h1)
       | Inr (initialize, payload) \<Rightarrow>
         if \<not> responseOk (rp_status initialize)
         then (failedProbe (Some (rp_status initialize)) (latency h1) (ServiceStatus (rp_status initialize)), h1)
         else if is_object (payloadField payload ''error'')
         then (failedProbe None (latency h1)
             (case jget (payloadField payload ''error'') ''message'' of JStr s \<Rightarrow> InitializeError s | _ \<Rightarrow> InitializeRejected), h1)
         else
           let headers1 = sessionHeaders (rp_sessionId initialize) headers;
               h2 = \<lparr>rq_headers = headers1, rq_id = None, rq_method = ''notifications/initialized'', rq_params = JUndef\<rparr> # h1 in
           case post h2 of
             Inl e \<Rightarrow> (listResult (latency h2) (ListFailed e), h2)
           | Inr (initialized, payload2) \<Rightarrow>
             if \<not> responseOk (rp_status initialized)
             then (failedProbe (Some (rp_status initialized)) (latency h2) (ConfirmationStatus (rp_status initialized)), h2)
             else case listTools post headers1 1 None [] [] h2 of
                 (out, h3) \<Rightarrow> (listResult (latency h3) out, h3)))"

section \<open>The test is bounded\<close>

definition cursorOf :: "mcpRequest \<Rightarrow> json" where
  "cursorOf r = jget (rq_params r) ''cursor''"

definition toolsOk :: "(string \<times> toolInfo) list \<Rightarrow> bool" where
  "toolsOk tools \<longleftrightarrow> distinct (map fst tools)
     \<and> list_all (\<lambda>(k, t). ti_name t = k \<and> k \<noteq> [] \<and> js_trim k = k) tools"

lemma toolsOk_update:
  assumes "toolsOk tools" "ti_name t \<noteq> []" "js_trim (ti_name t) = ti_name t"
  shows "toolsOk (AList.update (ti_name t) t tools)"
proof -
  have "distinct (map fst (AList.update (ti_name t) t tools))"
    using assms(1) by (simp add: toolsOk_def distinct_update)
  moreover have "list_all (\<lambda>(k, x). ti_name x = k \<and> k \<noteq> [] \<and> js_trim k = k) (AList.update (ti_name t) t tools)"
    using assms unfolding toolsOk_def by (induction tools) auto
  ultimately show ?thesis by (simp add: toolsOk_def)
qed

lemma readTool_ok: "readTool v = Some t \<Longrightarrow> ti_name t \<noteq> [] \<and> js_trim (ti_name t) = ti_name t"
  by (auto simp: readTool_def trimmed_def split: if_split_asm)

lemma toolsOk_collect: "toolsOk tools \<Longrightarrow> toolsOk (collectTools vs tools)"
  unfolding collectTools_def
  by (induction vs arbitrary: tools) (auto simp: toolsOk_update split: option.split dest!: readTool_ok)

lemma listTools_bounded:
  "listTools post headers page cursor visited tools history = (out, h) \<Longrightarrow> page \<le> MAX_MCP_TOOL_PAGES \<Longrightarrow>
    toolsOk tools \<Longrightarrow> (case cursor of None \<Rightarrow> True | Some c \<Rightarrow> c \<in> set visited) \<Longrightarrow>
    \<exists>new. h = new @ history \<and> length new + page \<le> Suc MAX_MCP_TOOL_PAGES
      \<and> list_all (\<lambda>r. rq_method r = ''tools/list'' \<and> rq_headers r = headers) new
      \<and> distinct (map cursorOf new)
      \<and> (\<forall>c \<in> cursorOf ` set (butlast new). c \<notin> JStr ` set visited \<and> c \<noteq> JUndef)
      \<and> cursorOf (last new) = (case cursor of None \<Rightarrow> JUndef | Some c \<Rightarrow> JStr c) \<and> new \<noteq> []
      \<and> (case out of Listed status ts \<Rightarrow> toolsOk ts | _ \<Rightarrow> True)"
proof (induction post headers page cursor visited tools history arbitrary: out h rule: listTools.induct)
  case (1 post headers page cursor visited tools history)
  let ?rq = "listRequest headers page cursor"
  have rq: "rq_method ?rq = ''tools/list''" "rq_headers ?rq = headers"
    "cursorOf ?rq = (case cursor of None \<Rightarrow> JUndef | Some c \<Rightarrow> JStr c)"
    by (simp_all add: listRequest_def cursorOf_def split: option.split)
  show ?case
  proof (cases "h = ?rq # history \<and> (case out of Listed status ts \<Rightarrow> toolsOk ts | _ \<Rightarrow> True)")
    case True
    with rq 1(3) show ?thesis by (intro exI[of _ "[?rq]"]) simp
  next
    case False
    obtain r payload where post: "post (?rq # history) = Inr (r, payload)" and ok: "responseOk (rp_status r)"
      using 1(2) False by (subst (asm) listTools.simps) (auto simp: Let_def split: sum.split_asm if_split_asm)
    define result where "result = payloadField payload ''result''"
    define tools1 where "tools1 = (if is_array (jget result ''tools'') then collectTools (the_array (jget result ''tools'')) tools else tools)"
    define c where "c = trimmed (jget result ''nextCursor'')"
    have t1: "toolsOk tools1" using 1(4) by (simp add: tools1_def toolsOk_collect)
    have next_page: "c \<noteq> []" "c \<notin> set visited" "\<not> MAX_MCP_TOOL_PAGES \<le> page"
      and rec: "listTools post headers (page + 1) (Some c) (c # visited) tools1 (?rq # history) = (out, h)"
      using 1(2) False t1 post ok unfolding result_def tools1_def c_def
      by (subst (asm) listTools.simps, auto simp: Let_def split: if_split_asm)+
    have "\<exists>new. h = new @ (?rq # history) \<and> length new + (page + 1) \<le> Suc MAX_MCP_TOOL_PAGES
      \<and> list_all (\<lambda>r. rq_method r = ''tools/list'' \<and> rq_headers r = headers) new
      \<and> distinct (map cursorOf new)
      \<and> (\<forall>d \<in> cursorOf ` set (butlast new). d \<notin> JStr ` set (c # visited) \<and> d \<noteq> JUndef)
      \<and> cursorOf (last new) = (case Some c of None \<Rightarrow> JUndef | Some c \<Rightarrow> JStr c) \<and> new \<noteq> []
      \<and> (case out of Listed status ts \<Rightarrow> toolsOk ts | _ \<Rightarrow> True)"
      using 1(1)[OF refl post refl _ result_def tools1_def c_def next_page rec _ t1] ok next_page(3) by simp
    then obtain new where new: "h = new @ (?rq # history)" "length new + (page + 1) \<le> Suc MAX_MCP_TOOL_PAGES"
      "list_all (\<lambda>r. rq_method r = ''tools/list'' \<and> rq_headers r = headers) new" "distinct (map cursorOf new)"
      "\<forall>d \<in> cursorOf ` set (butlast new). d \<notin> JStr ` set (c # visited) \<and> d \<noteq> JUndef"
      "cursorOf (last new) = JStr c" "new \<noteq> []"
      "case out of Listed status ts \<Rightarrow> toolsOk ts | _ \<Rightarrow> True" by auto
    have all: "d \<notin> JStr ` set visited \<and> d \<noteq> JUndef" if "d \<in> cursorOf ` set new" for d
    proof -
      have "set new = insert (last new) (set (butlast new))"
        using new(7) by (metis append_butlast_last_id list.simps(15) rotate1.simps(2) set_rotate1)
      with that new(5,6) next_page(2) show ?thesis by auto
    qed
    have "cursorOf ?rq \<in> JStr ` set visited \<or> cursorOf ?rq = JUndef"
      using 1(5) unfolding rq(3) by (cases cursor) auto
    with all have "cursorOf ?rq \<notin> cursorOf ` set new" by blast
    then show ?thesis
      using new all rq next_page(3) by (intro exI[of _ "new @ [?rq]"]) (auto simp: butlast_append)
  qed
qed

definition pageRequests :: "mcpRequest list \<Rightarrow> mcpRequest list" where
  "pageRequests = filter (\<lambda>r. rq_method r = ''tools/list'')"

lemma sessionHeaders_version: "map_of (sessionHeaders session hs) ''mcp-protocol-version'' = Some ''2025-06-18''"
  by (simp add: sessionHeaders_def update_conv')

lemma listResult_ok:
  "(case out of Listed status ts \<Rightarrow> toolsOk ts | _ \<Rightarrow> True) \<Longrightarrow>
    (if st_ok (listResult latency out)
     then distinct (st_discoveredTools (listResult latency out))
       \<and> list_all (\<lambda>n. n \<noteq> [] \<and> js_trim n = n) (st_discoveredTools (listResult latency out))
     else st_tools (listResult latency out) = [])"
proof (cases out)
  case (Listed status ts)
  assume "case out of Listed status ts \<Rightarrow> toolsOk ts | _ \<Rightarrow> True"
  with Listed have ok: "toolsOk ts" by simp
  then have names: "map (ti_name \<circ> snd) ts = map fst ts"
    by (auto simp: toolsOk_def list_all_iff)
  have "list_all (\<lambda>n. n \<noteq> [] \<and> js_trim n = n) (map fst ts)"
    using ok by (auto simp: toolsOk_def list_all_iff)
  moreover have "st_discoveredTools (listResult latency out) = map fst ts" "st_ok (listResult latency out)"
    by (simp_all add: Listed listResult_def st_discoveredTools_def names)
  ultimately show ?thesis using ok by (simp add: toolsOk_def)
qed (simp_all add: listResult_def failedProbe_def)

text \<open>C27: The connection test of an MCP server always ends and is bounded, whatever the server answers: it
  sends at most 102 requests, no page is asked for twice, every request after the first carries
  the protocol version, and the answer lists distinct trimmed tool names on success and none on
  failure.\<close>

theorem server_probe_bounded:
  assumes "testGatewayMcpServer env fs remote clock draft = Some (result, requests)"
  shows "length requests \<le> 102 \<and> distinct (map cursorOf (pageRequests requests))
    \<and> list_all (\<lambda>r. map_of (rq_headers r) ''mcp-protocol-version'' = Some ''2025-06-18'') (butlast requests)
    \<and> (if st_ok result then distinct (st_discoveredTools result)
          \<and> list_all (\<lambda>n. n \<noteq> [] \<and> js_trim n = n) (st_discoveredTools result)
        else st_tools result = [])"
proof -
  let ?post = "postMcpRequest remote"
  obtain headers where headers: "initialHeaders (sd_authHeader draft) (resolveMcpTestKey env fs draft) = Some headers"
    using assms by (auto simp: testGatewayMcpServer_def split: option.split_asm)
  let ?h1 = "[\<lparr>rq_headers = headers, rq_id = Some 1, rq_method = ''initialize'', rq_params = probeParams\<rparr>]"
  consider (failed) m h where "requests = h" "length h \<le> 1" "pageRequests h = []" "result = m" "\<not> st_ok m" "st_tools m = []"
    | (handshake) session m where "requests = \<lparr>rq_headers = sessionHeaders session headers, rq_id = None,
          rq_method = ''notifications/initialized'', rq_params = JUndef\<rparr> # ?h1" "result = m" "\<not> st_ok m" "st_tools m = []"
    | (listed) session h2 out latency where "h2 = \<lparr>rq_headers = sessionHeaders session headers, rq_id = None,
          rq_method = ''notifications/initialized'', rq_params = JUndef\<rparr> # ?h1"
        "listTools ?post (sessionHeaders session headers) 1 None [] [] h2 = (out, requests)" "result = listResult latency out"
    using assms headers
    by (auto simp: testGatewayMcpServer_def Let_def pageRequests_def listResult_def failedProbe_def
        split: sum.split_asm if_split_asm prod.split_asm)
  then show ?thesis
  proof cases
    case failed
    then show ?thesis by (cases requests) (auto simp: pageRequests_def)
  next
    case handshake
    then show ?thesis by (simp add: pageRequests_def sessionHeaders_version)
  next
    case listed
    obtain new where new: "requests = new @ h2" "length new + 1 \<le> Suc MAX_MCP_TOOL_PAGES"
      "list_all (\<lambda>r. rq_method r = ''tools/list'' \<and> rq_headers r = sessionHeaders session headers) new"
      "distinct (map cursorOf new)" "case out of Listed status ts \<Rightarrow> toolsOk ts | _ \<Rightarrow> True"
      using listTools_bounded[OF listed(2)] by (auto simp: MAX_MCP_TOOL_PAGES_def toolsOk_def)
    have "pageRequests requests = new"
      using new(3) by (simp add: new(1) listed(1) pageRequests_def list_all_iff filter_id_conv)
    moreover have "list_all (\<lambda>r. map_of (rq_headers r) ''mcp-protocol-version'' = Some ''2025-06-18'') new"
      using new(3) by (rule list.pred_mono_strong) (simp add: sessionHeaders_version)
    ultimately show ?thesis
      using new(1,2,4) listed(1,3) listResult_ok[OF new(5)]
      by (simp add: MAX_MCP_TOOL_PAGES_def butlast_append sessionHeaders_version)
  qed
qed

definition demo_remote :: mcpRemote where
  "demo_remote h = Inr \<lparr>rp_status = 200, rp_text = ''data: '' @ CHR ''{'' # quoted ''result'' @ '':{'' @ quoted ''tools''
     @ '':[{'' @ quoted ''name'' @ CHR '':'' # quoted '' t '' @ ''}]}}'',
     rp_contentType = Some ''text/event-stream'', rp_sessionId = Some ''sid''\<rparr>"

lemma demo_probe:
  "map_option (\<lambda>(r, h). (st_discoveredTools r, length h))
    (testGatewayMcpServer demo_env empty_files demo_remote (\<lambda>h. int (length h)) demo_server) = Some ([''t''], 3)"
  by code_simp

theorem server_probe_bounded_witness:
  "\<exists>result requests. testGatewayMcpServer demo_env empty_files demo_remote (\<lambda>h. int (length h)) demo_server
      = Some (result, requests) \<and> length requests \<le> 102"
proof -
  obtain result requests where r: "testGatewayMcpServer demo_env empty_files demo_remote
      (\<lambda>h. int (length h)) demo_server = Some (result, requests)"
    using demo_probe by (cases "testGatewayMcpServer demo_env empty_files demo_remote
      (\<lambda>h. int (length h)) demo_server") auto
  from server_probe_bounded[OF r] r show ?thesis by blast
qed

end
