(* ===== verification/Connectors.thy ===== *)
theory Connectors
  imports Js_Data
begin

text \<open>
  The connector vocabulary shared by the client and the server
  (src/ai-console/src/lib/control-plane/connectors.ts): the data types of providers, actions and
  connections, the authorisation test of an action, the select-all toggle of the action list and
  the classification of connections by who may use them.
\<close>

section \<open>Data\<close>

datatype connectorAuthType = NoAuth | ApiKey | CustomCredential | OAuth2
datatype connectorAccessMode = AccessNoAuth | AccountBound | ControlledShared | AccessGlobal
datatype connectorManagerView = ViewAll | ViewManaged | ViewUserConnections | ViewNoAuth
datatype fieldInputType = InText | InPassword | InTextarea | InJson

record connectorCredentialField =
  cf_key :: string
  cf_label :: string
  cf_inputType :: fieldInputType
  cf_required :: bool
  cf_secret :: bool
  cf_placeholder :: "string option"
  cf_description :: "string option"

datatype oauthFieldLocation = LocExtra | LocSecretExtra

record connectorOAuthClientField = connectorCredentialField +
  cf_location :: "oauthFieldLocation option"
  cf_defaultValue :: "string option"

datatype connectorAuthDefinition =
    DefNoAuth
  | DefApiKey "string option" "string option" "string option" "connectorCredentialField list"
  | DefCustomCredential "connectorCredentialField list"
  | DefOAuth2 "string list" "connectorOAuthClientField list"

record connectorProviderSummary =
  cp_service :: string
  cp_displayName :: string
  cp_description :: "string option"
  cp_categories :: "string list"
  cp_authTypes :: "connectorAuthType list"
  cp_iconUrl :: "string option"
  cp_actionCount :: nat

record connectorExecution =
  ce_locallyExecutable :: bool
  ce_catalogOnly :: bool
  ce_requiredAuthTypes :: "connectorAuthType list"
  ce_noAuthRunnable :: bool
  ce_needsCredential :: bool

record connectorActionDefinition =
  ca_id :: string
  ca_name :: string
  ca_description :: "string option"
  ca_requiredScopes :: "string list"
  ca_providerPermissions :: "string list"
  ca_inputSchema :: "json option"
  ca_outputSchema :: "json option"
  ca_execution :: "connectorExecution option"

record connectorProviderDetail = connectorProviderSummary +
  cp_auth :: "connectorAuthDefinition list"
  cp_actions :: "connectorActionDefinition list"

record connectorProvidersPage =
  pg_items :: "connectorProviderSummary list"
  pg_total :: nat
  pg_page :: jsnum
  pg_limit :: int
  pg_categories :: "string list"
  pg_authTypes :: "connectorAuthType list"

record connectorLocalAccount =
  la_name :: string
  la_email :: string

datatype authorizationMode = ModeManual | ModeWecomVisibility

record connectorSharedAccess =
  sa_resourceId :: string
  sa_displayName :: string
  sa_securityDomain :: string
  sa_authorizationMode :: authorizationMode
  sa_wecomOrganizationId :: "string option"
  sa_wecomOrganizationName :: "string option"
  sa_actionCount :: nat
  sa_enabled :: bool
  sa_grantCount :: nat

record connectorConnection =
  cc_id :: string
  cc_service :: string
  cc_connectionName :: string
  cc_authType :: connectorAuthType
  cc_accessMode :: connectorAccessMode
  cc_configured :: bool
  cc_virtual :: bool
  cc_default :: bool
  cc_accountId :: string
  cc_displayName :: string
  cc_grantedScopes :: "string list"
  cc_localAccount :: "connectorLocalAccount option"
  cc_sharedAccess :: "connectorSharedAccess option"

record connectorOAuthConfig =
  oc_service :: string
  oc_configured :: bool
  oc_clientId :: "string option"
  oc_expectedRedirectUri :: string

section \<open>Operations\<close>

definition connectorActionIsAuthorized ::
    "connectorConnection \<Rightarrow> connectorActionDefinition \<Rightarrow> bool" where
  "connectorActionIsAuthorized connection action =
    (if cc_authType connection \<noteq> OAuth2 then True
     else \<forall>permission\<in>set (ca_providerPermissions action).
       permission \<in> set (cc_grantedScopes connection))"

definition nextConnectorActionSelection ::
    "string list \<Rightarrow> string list \<Rightarrow> string list \<Rightarrow> string list" where
  "nextConnectorActionSelection actionIds hardDeniedActionIds selectedActionIds =
    (let selectable = filter (\<lambda>actionId. actionId \<notin> set hardDeniedActionIds) actionIds;
         allSelected = (length selectable > 0
           \<and> list_all (\<lambda>actionId. actionId \<in> set selectedActionIds) selectable)
     in if allSelected then [] else selectable)"

definition connectorConnectionKey :: "string \<Rightarrow> string \<Rightarrow> string" where
  "connectorConnectionKey service connectionName = service @ [CHR 0x00] @ connectionName"

definition connectorConnectionMatchesView ::
    "connectorConnection \<Rightarrow> connectorManagerView \<Rightarrow> bool" where
  "connectorConnectionMatchesView connection view =
    (case view of
       ViewManaged \<Rightarrow> cc_accessMode connection = ControlledShared
         \<or> cc_accessMode connection = AccessGlobal
     | ViewUserConnections \<Rightarrow> cc_accessMode connection = AccountBound
     | ViewNoAuth \<Rightarrow> cc_accessMode connection = AccessNoAuth
     | ViewAll \<Rightarrow> True)"

definition classifyConnection ::
    "(string \<rightharpoonup> connectorLocalAccount) \<Rightarrow> (string \<rightharpoonup> connectorSharedAccess)
      \<Rightarrow> connectorConnection \<Rightarrow> connectorConnection" where
  "classifyConnection localAccounts sharedAccesses connection =
    (let key = connectorConnectionKey (cc_service connection) (cc_connectionName connection);
         localAccount = localAccounts key;
         sharedAccess = sharedAccesses key
     in if cc_authType connection = NoAuth
        then connection \<lparr>cc_accessMode := AccessNoAuth, cc_localAccount := None, cc_sharedAccess := None\<rparr>
        else case localAccount of
          Some a \<Rightarrow> connection \<lparr>cc_accessMode := AccountBound, cc_localAccount := Some a,
            cc_sharedAccess := None\<rparr>
        | None \<Rightarrow> (case sharedAccess of
            Some a \<Rightarrow> connection \<lparr>cc_accessMode := ControlledShared, cc_localAccount := None,
              cc_sharedAccess := Some a\<rparr>
          | None \<Rightarrow> connection \<lparr>cc_accessMode := AccessGlobal, cc_localAccount := None,
              cc_sharedAccess := None\<rparr>))"

definition classifyConnectorConnections ::
    "connectorConnection list \<Rightarrow> (string \<rightharpoonup> connectorLocalAccount)
      \<Rightarrow> (string \<rightharpoonup> connectorSharedAccess) \<Rightarrow> connectorConnection list" where
  "classifyConnectorConnections connections localAccounts sharedAccesses =
    map (classifyConnection localAccounts sharedAccesses) connections"

section \<open>Lemmas\<close>

text \<open>What the classification promises of every connection it returns.\<close>

definition classified :: "connectorConnection \<Rightarrow> bool" where
  "classified c \<longleftrightarrow>
     (cc_accessMode c = AccessNoAuth \<longleftrightarrow> cc_authType c = NoAuth)
   \<and> (cc_accessMode c = AccountBound \<longleftrightarrow> cc_localAccount c \<noteq> None)
   \<and> (cc_accessMode c = ControlledShared \<longleftrightarrow> cc_sharedAccess c \<noteq> None)"

lemma classifyConnection_classified: "classified (classifyConnection la sa c)"
  by (auto simp: classified_def classifyConnection_def Let_def split: option.splits)

lemma classifyConnection_identity [simp]:
  "cc_service (classifyConnection la sa c) = cc_service c"
  "cc_connectionName (classifyConnection la sa c) = cc_connectionName c"
  "cc_authType (classifyConnection la sa c) = cc_authType c"
  "cc_id (classifyConnection la sa c) = cc_id c"
  by (simp_all add: classifyConnection_def Let_def split: option.splits)

lemma classifyConnection_idem:
  "classifyConnection la sa (classifyConnection la sa c) = classifyConnection la sa c"
  by (simp add: classifyConnection_def Let_def split: option.splits)

lemma connectorConnectionKey_inject:
  assumes "CHR 0x00 \<notin> set s" "CHR 0x00 \<notin> set t"
  shows "connectorConnectionKey s c = connectorConnectionKey t d \<longleftrightarrow> s = t \<and> c = d"
proof -
  have split: "takeWhile (\<lambda>x. x \<noteq> CHR 0x00) (connectorConnectionKey u e) = u"
      "dropWhile (\<lambda>x. x \<noteq> CHR 0x00) (connectorConnectionKey u e) = CHR 0x00 # e"
    if "CHR 0x00 \<notin> set u" for u e
    using that by (induction u) (auto simp: connectorConnectionKey_def)
  show ?thesis using split assms by (metis list.inject)
qed

text \<open>Every classified connection is in exactly one of the three partial views.\<close>

lemma views_partition:
  "length (filter (connectorConnectionMatchesView c)
     [ViewManaged, ViewUserConnections, ViewNoAuth]) = 1"
  by (cases "cc_accessMode c") (simp_all add: connectorConnectionMatchesView_def)

lemma nextConnectorActionSelection_set:
  "set (nextConnectorActionSelection acts denied sel) \<subseteq> set acts - set denied"
  by (auto simp: nextConnectorActionSelection_def Let_def)

lemma nextConnectorActionSelection_cases:
  "nextConnectorActionSelection acts denied sel =
    (if set acts - set denied \<subseteq> set sel then []
     else filter (\<lambda>a. a \<notin> set denied) acts)"
  by (auto simp: nextConnectorActionSelection_def Let_def list_all_iff filter_empty_conv)

section \<open>Properties\<close>

text \<open>Classification gives every connection exactly one access mode: no_auth connections are
  never bound to anybody, a personal account wins over a shared resource, only controlled_shared
  connections carry a shared resource; the identity of the connections and their order are
  kept, and classifying twice with the same accounts changes nothing.\<close>

theorem classify_exclusive:
  "list_all classified (classifyConnectorConnections cs la sa)
   \<and> map (\<lambda>c. (cc_id c, cc_service c, cc_connectionName c, cc_authType c))
       (classifyConnectorConnections cs la sa)
     = map (\<lambda>c. (cc_id c, cc_service c, cc_connectionName c, cc_authType c)) cs
   \<and> classifyConnectorConnections (classifyConnectorConnections cs la sa) la sa
     = classifyConnectorConnections cs la sa"
  by (simp add: classifyConnectorConnections_def list_all_iff classifyConnection_classified
      classifyConnection_idem o_def)

text \<open>The select-all toggle never selects a hard-denied action; from any selection, pressing it
  at most twice selects every selectable action, and pressing it on the full selection clears
  it.\<close>

theorem action_selection_toggle:
  "set (nextConnectorActionSelection acts denied sel) \<inter> set denied = {}
   \<and> nextConnectorActionSelection acts denied (filter (\<lambda>a. a \<notin> set denied) acts) = []
   \<and> (let once = nextConnectorActionSelection acts denied sel;
          twice = nextConnectorActionSelection acts denied once
      in filter (\<lambda>a. a \<notin> set denied) acts \<in> {once, twice})"
proof (intro conjI)
  show "set (nextConnectorActionSelection acts denied sel) \<inter> set denied = {}"
    using nextConnectorActionSelection_set[of acts denied sel] by blast
  show "nextConnectorActionSelection acts denied (filter (\<lambda>a. a \<notin> set denied) acts) = []"
    by (auto simp: nextConnectorActionSelection_cases)
  show "let once = nextConnectorActionSelection acts denied sel;
          twice = nextConnectorActionSelection acts denied once
      in filter (\<lambda>a. a \<notin> set denied) acts \<in> {once, twice}"
    by (auto simp: nextConnectorActionSelection_cases Let_def filter_empty_conv)
qed

end
