(* ===== verification/Ttl_Cache.thy ===== *)
theory Ttl_Cache
  imports Main
begin

text \<open>
  The contract shared by the console's time-limited caches: a live entry answers without a
  request, a stale or missing one fetches and stores the answer with a deadline, a failed fetch
  stores nothing. The locale derives what every client may rely on: an answer is the answer of
  this read or of an earlier read that was stored less than the cache's lifetime ago.
\<close>

record ('w, 'k) readEvent =
  ev_world :: 'w
  ev_key :: 'k
  ev_now :: int
  ev_stored :: int

fun run_reads :: "('w \<Rightarrow> int \<Rightarrow> int \<Rightarrow> 'k \<Rightarrow> 'c \<Rightarrow> 'r \<times> 'c) \<Rightarrow> 'c \<Rightarrow> ('w, 'k) readEvent list
    \<Rightarrow> 'r list \<times> 'c" where
  "run_reads rd c [] = ([], c)"
| "run_reads rd c (e # es) =
    (case rd (ev_world e) (ev_now e) (ev_stored e) (ev_key e) c of
       (r, c') \<Rightarrow> (case run_reads rd c' es of (rs, c'') \<Rightarrow> (r # rs, c'')))"

lemma run_reads_append:
  "run_reads rd c (es @ fs) =
    (let (rs, c') = run_reads rd c es; (ss, c'') = run_reads rd c' fs in (rs @ ss, c''))"
  by (induction es arbitrary: c) (auto simp: Let_def split: prod.splits)

lemma run_reads_length: "length (fst (run_reads rd c es)) = length es"
proof (induction es arbitrary: c)
  case (Cons e es)
  then show ?case by (simp split: prod.splits) (metis fst_conv)
qed simp

locale ttl_cache =
  fixes rd :: "'w \<Rightarrow> int \<Rightarrow> int \<Rightarrow> 'k \<Rightarrow> 'c \<Rightarrow> ('e + 'v) \<times> 'c"
    and fetch :: "'w \<Rightarrow> 'k \<Rightarrow> 'e + 'v"
    and entry :: "'c \<Rightarrow> 'k \<Rightarrow> (int \<times> 'v) option"
    and ttl :: int
  assumes hit: "entry c k = Some (x, v) \<Longrightarrow> now < x \<Longrightarrow> rd w now now' k c = (Inr v, c)"
    and miss_ok: "\<not> (\<exists>x v. entry c k = Some (x, v) \<and> now < x) \<Longrightarrow> fetch w k = Inr v \<Longrightarrow>
      fst (rd w now now' k c) = Inr v
      \<and> entry (snd (rd w now now' k c)) k = Some (now' + ttl, v)"
    and miss_err: "\<not> (\<exists>x v. entry c k = Some (x, v) \<and> now < x) \<Longrightarrow> fetch w k = Inl e \<Longrightarrow>
      fst (rd w now now' k c) = Inl e
      \<and> entry (snd (rd w now now' k c)) k \<in> {None, entry c k}"
    and other: "j \<noteq> k \<Longrightarrow> entry (snd (rd w now now' k c)) j = entry c j"
begin

definition live :: "'c \<Rightarrow> 'k \<Rightarrow> int \<Rightarrow> bool" where
  "live c k now \<longleftrightarrow> (case entry c k of None \<Rightarrow> False | Some (x, v) \<Rightarrow> now < x)"

text \<open>Every entry of the cache is explained by a read of the history.\<close>

definition explained :: "('w, 'k) readEvent set \<Rightarrow> 'c \<Rightarrow> bool" where
  "explained H c \<longleftrightarrow> (\<forall>k x v. entry c k = Some (x, v) \<longrightarrow>
     (\<exists>e\<in>H. ev_key e = k \<and> fetch (ev_world e) k = Inr v \<and> x = ev_stored e + ttl))"

lemma explainedD:
  assumes "explained H c" "entry c k = Some (x, v)"
  obtains e where "e \<in> H" "ev_key e = k" "fetch (ev_world e) k = Inr v" "x = ev_stored e + ttl"
proof -
  have "\<exists>e\<in>H. ev_key e = k \<and> fetch (ev_world e) k = Inr v \<and> x = ev_stored e + ttl"
    using assms unfolding explained_def by blast
  with that show ?thesis by blast
qed

lemma miss_cases:
  assumes "\<not> live c k now"
  shows "fst (rd w now now' k c) = fetch w k"
    and "entry (snd (rd w now now' k c)) k = Some y \<Longrightarrow>
      entry c k = Some y \<or> (\<exists>v. fetch w k = Inr v \<and> y = (now' + ttl, v))"
proof -
  have stale: "\<not> (\<exists>x v. entry c k = Some (x, v) \<and> now < x)"
    using assms by (auto simp: live_def)
  show "fst (rd w now now' k c) = fetch w k"
  proof (cases "fetch w k")
    case (Inl e)
    with miss_err[where now' = now', OF stale Inl] show ?thesis by simp
  next
    case (Inr v)
    with miss_ok[where now' = now', OF stale Inr] show ?thesis by simp
  qed
  show "entry c k = Some y \<or> (\<exists>v. fetch w k = Inr v \<and> y = (now' + ttl, v))"
    if y: "entry (snd (rd w now now' k c)) k = Some y"
  proof (cases "fetch w k")
    case (Inl e)
    with miss_err[where now' = now', OF stale Inl] y show ?thesis by auto
  next
    case (Inr v)
    with miss_ok[where now' = now', OF stale Inr] y show ?thesis by auto
  qed
qed

lemma live_read:
  assumes "live c k now"
  obtains x v where "entry c k = Some (x, v)" "now < x" "rd w now now' k c = (Inr v, c)"
  using assms hit by (auto simp: live_def split: option.splits)

lemma explained_read:
  assumes "explained H c"
  shows "explained (insert e H)
    (snd (rd (ev_world e) (ev_now e) (ev_stored e) (ev_key e) c))"
proof (cases "live c (ev_key e) (ev_now e)")
  case True
  then obtain x v where "rd (ev_world e) (ev_now e) (ev_stored e) (ev_key e) c = (Inr v, c)"
    by (rule live_read)
  then have "snd (rd (ev_world e) (ev_now e) (ev_stored e) (ev_key e) c) = c" by simp
  moreover have "explained (insert e H) c" using assms unfolding explained_def by blast
  ultimately show ?thesis by simp
next
  case False
  show ?thesis
    unfolding explained_def
  proof (intro allI impI)
    fix j x v
    let ?c = "snd (rd (ev_world e) (ev_now e) (ev_stored e) (ev_key e) c)"
    assume j: "entry ?c j = Some (x, v)"
    show "\<exists>d\<in>insert e H. ev_key d = j \<and> fetch (ev_world d) j = Inr v \<and> x = ev_stored d + ttl"
    proof (cases "entry c j = Some (x, v)")
      case True
      from explainedD[OF assms this] show ?thesis by blast
    next
      case old: False
      have key: "j = ev_key e"
      proof (rule ccontr)
        assume "j \<noteq> ev_key e"
        from other[OF this] j old show False by simp
      qed
      have "entry c (ev_key e) = Some (x, v) \<or> (\<exists>u. fetch (ev_world e) (ev_key e) = Inr u
          \<and> (x, v) = (ev_stored e + ttl, u))"
        by (rule miss_cases(2)[OF False]) (use j key in simp)
      then show ?thesis using key old by auto
    qed
  qed
qed

lemma read_explained:
  assumes "explained H c" "fst (rd w now now' k c) = Inr v"
  shows "fetch w k = Inr v \<or>
    (\<exists>e\<in>H. ev_key e = k \<and> fetch (ev_world e) k = Inr v \<and> now < ev_stored e + ttl)"
proof (cases "live c k now")
  case True
  then obtain x u where u: "entry c k = Some (x, u)" "now < x" "rd w now now' k c = (Inr u, c)"
    by (rule live_read)
  then have "u = v" using assms(2) by simp
  moreover obtain e where "e \<in> H" "ev_key e = k" "fetch (ev_world e) k = Inr u"
      "x = ev_stored e + ttl"
    using assms(1) u(1) by (rule explainedD)
  ultimately show ?thesis using u(2) by auto
next
  case False
  from miss_cases(1)[OF this, of w now'] assms(2) show ?thesis by simp
qed

lemma run_explained:
  "explained H c \<Longrightarrow> explained (H \<union> set es) (snd (run_reads rd c es))"
proof (induction es arbitrary: c H)
  case (Cons e es)
  from Cons.IH[OF explained_read[OF Cons.prems, of e]] show ?case by (auto split: prod.splits)
qed simp

text \<open>The bound on staleness, over any sequence of reads.\<close>

lemma run_bounded_staleness:
  assumes "\<And>k. entry c k = None"
    and "fst (run_reads rd c (es @ [e])) = rs @ [Inr v]"
  shows "fetch (ev_world e) (ev_key e) = Inr v \<or>
    (\<exists>d\<in>set es. ev_key d = ev_key e \<and> fetch (ev_world d) (ev_key e) = Inr v
      \<and> ev_now e < ev_stored d + ttl)"
proof -
  obtain ss c' where es: "run_reads rd c es = (ss, c')" by fastforce
  have "explained {} c" using assms(1) by (simp add: explained_def)
  from run_explained[OF this, of es] es have ex: "explained (set es) c'" by simp
  have "fst (rd (ev_world e) (ev_now e) (ev_stored e) (ev_key e) c') = Inr v"
    using assms(2) es by (auto simp: run_reads_append split: prod.splits)
  from read_explained[OF ex this] show ?thesis by auto
qed

text \<open>A live entry hides the world: the answer does not depend on it.\<close>

lemma live_no_fetch: "live c k now \<Longrightarrow> rd w now now' k c = rd w' now now'' k c"
  using hit by (auto simp: live_def split: option.splits)

end

end
