(* ===== verification/Open_Connector.thy ===== *)
theory Open_Connector
  imports Connectors Ttl_Cache
begin

text \<open>
  The client of the OpenConnector service (src/ai-console/src/lib/server/open-connector.ts): the
  normalisation of its untrusted responses, the error statuses, the provider list with its
  five-minute cache and its pages, and the guarded requests. The service itself, its network and
  the zh-CN collation are parameters (fields of the environment record).
\<close>

section \<open>Errors, requests and responses\<close>

text \<open>
  NetworkFailure and PayloadTypeError stand for the errors fetch and a property access on null
  throw themselves; the routes answer both with 502, the status they carry here. encodeURIComponent
  is the identity on the service and action identifiers that pass the checks, so paths are
  written without it.
\<close>

datatype ocMessage = Upstream string
  | AdminTokenMissing | RuntimeTokenMissing | RequestFailed int | ActionFailed int
  | InvalidDefinition | InvalidProviderList | InvalidConnectionList | InvalidServiceId
  | InvalidActionId | InvalidConnectionName | InvalidActionResult | OAuthUnsupported
  | InvalidOAuthConfig | NoAuthorizationUrl | NetworkFailure | PayloadTypeError

record openConnectorError =
  oe_message :: ocMessage
  oe_status :: int

definition openConnectorError :: "ocMessage \<Rightarrow> openConnectorError" where
  "openConnectorError m = \<lparr>oe_message = m, oe_status = 502\<rparr>"

datatype httpMethod = GET | PUT | POST | DELETE

record ocRequest =
  rq_method :: httpMethod
  rq_path :: string
  rq_body :: "json option"
  rq_token :: string
  rq_alias :: "string option"

text \<open>A response has a status and a parsed body; JUndef is a body that is not JSON. None is a
  request that never got an answer (connection refused, five-second timeout).\<close>

type_synonym httpResponse = "(int \<times> json) option"

record ocEnv =
  env_adminToken :: "string option"
  env_runtimeToken :: "string option"
  env_fetch :: "ocRequest \<Rightarrow> httpResponse"
  env_collate :: "string \<Rightarrow> string \<Rightarrow> bool"

definition FETCH_TIMEOUT_MS :: int where "FETCH_TIMEOUT_MS = 5000"
definition PROVIDER_CACHE_TTL_MS :: int where "PROVIDER_CACHE_TTL_MS = 5 * 60000"

definition optionalString :: "json \<Rightarrow> string option" where
  "optionalString v = (case v of JStr s \<Rightarrow> if js_trim s \<noteq> [] then Some (js_trim s) else None
     | _ \<Rightarrow> None)"

definition stringArray :: "json \<Rightarrow> string list" where
  "stringArray v = (case v of
     JArr items \<Rightarrow> map (\<lambda>i. js_trim (the_string i))
       (filter (\<lambda>i. is_string i \<and> js_trim (the_string i) \<noteq> []) items)
   | _ \<Rightarrow> [])"

definition adminToken :: "ocEnv \<Rightarrow> openConnectorError + string" where
  "adminToken env = (case map_option js_trim (env_adminToken env) of
     None \<Rightarrow> Inl \<lparr>oe_message = AdminTokenMissing, oe_status = 503\<rparr>
   | Some t \<Rightarrow> if t = [] then Inl \<lparr>oe_message = AdminTokenMissing, oe_status = 503\<rparr> else Inr t)"

definition runtimeToken :: "ocEnv \<Rightarrow> openConnectorError + string" where
  "runtimeToken env = (case map_option js_trim (env_runtimeToken env) of
     None \<Rightarrow> Inl \<lparr>oe_message = RuntimeTokenMissing, oe_status = 503\<rparr>
   | Some t \<Rightarrow> if t = [] then Inl \<lparr>oe_message = RuntimeTokenMissing, oe_status = 503\<rparr> else Inr t)"

definition upstreamErrorMessage :: "json \<Rightarrow> ocMessage \<Rightarrow> ocMessage" where
  "upstreamErrorMessage payload fallback =
    (if \<not> is_object payload then fallback
     else if is_string (jget payload ''error'') then Upstream (the_string (jget payload ''error''))
     else if is_object (jget payload ''error'')
          \<and> is_string (jget (jget payload ''error'') ''message'')
       then Upstream (the_string (jget (jget payload ''error'') ''message''))
     else if is_string (jget payload ''message'') then Upstream (the_string (jget payload ''message''))
     else fallback)"

definition response_ok :: "int \<Rightarrow> bool" where
  "response_ok s \<longleftrightarrow> 200 \<le> s \<and> s \<le> 299"

definition upstreamStatus :: "int \<Rightarrow> int" where
  "upstreamStatus s = (if s \<ge> 400 \<and> s < 600 then s else 502)"

definition requestOpenConnector ::
    "ocEnv \<Rightarrow> httpMethod \<Rightarrow> string \<Rightarrow> json option \<Rightarrow> openConnectorError + json" where
  "requestOpenConnector env meth pathname body =
    bindE (adminToken env) (\<lambda>token.
      case env_fetch env \<lparr>rq_method = meth, rq_path = pathname, rq_body = body,
          rq_token = token, rq_alias = None\<rparr> of
        None \<Rightarrow> Inl (openConnectorError NetworkFailure)
      | Some (status, payload) \<Rightarrow>
          if \<not> response_ok status
          then Inl \<lparr>oe_message = upstreamErrorMessage payload (RequestFailed status),
                 oe_status = upstreamStatus status\<rparr>
          else Inr payload)"

section \<open>Normalisation of the service's answers\<close>

definition authTypeName :: "connectorAuthType \<Rightarrow> string" where
  "authTypeName t = (case t of NoAuth \<Rightarrow> ''no_auth'' | ApiKey \<Rightarrow> ''api_key''
     | CustomCredential \<Rightarrow> ''custom_credential'' | OAuth2 \<Rightarrow> ''oauth2'')"

definition authTypeOf :: "string \<Rightarrow> connectorAuthType option" where
  "authTypeOf s = (if s = ''no_auth'' then Some NoAuth else if s = ''api_key'' then Some ApiKey
     else if s = ''custom_credential'' then Some CustomCredential
     else if s = ''oauth2'' then Some OAuth2 else None)"

definition normalizeAuthType :: "json \<Rightarrow> connectorAuthType option" where
  "normalizeAuthType v = Option.bind (as_string v) authTypeOf"

definition inputTypeOf :: "string \<Rightarrow> fieldInputType option" where
  "inputTypeOf s = (if s = ''text'' then Some InText else if s = ''password'' then Some InPassword
     else if s = ''textarea'' then Some InTextarea else if s = ''json'' then Some InJson else None)"

definition normalizeCredentialField :: "json \<Rightarrow> connectorCredentialField option" where
  "normalizeCredentialField v =
    (if \<not> is_object v then None else
     case (optionalString (jget v ''key''), optionalString (jget v ''label''),
           Option.bind (as_string (jget v ''inputType'')) inputTypeOf) of
       (Some key, Some label, Some inputType) \<Rightarrow> Some \<lparr>
         cf_key = key, cf_label = label, cf_inputType = inputType,
         cf_required = (jget v ''required'' = JBool True),
         cf_secret = (jget v ''secret'' = JBool True),
         cf_placeholder = optionalString (jget v ''placeholder''),
         cf_description = optionalString (jget v ''description'')\<rparr>
     | _ \<Rightarrow> None)"

definition normalizeOAuthClientField :: "json \<Rightarrow> connectorOAuthClientField option" where
  "normalizeOAuthClientField v =
    (case normalizeCredentialField v of None \<Rightarrow> None
     | Some f \<Rightarrow> if \<not> is_object v then None else
         Some (connectorCredentialField.extend f
           \<lparr>cf_location = (if jget v ''location'' = JStr ''secretExtra'' then Some LocSecretExtra
              else if jget v ''location'' = JStr ''extra'' then Some LocExtra else None),
            cf_defaultValue = optionalString (jget v ''defaultValue'')\<rparr>))"

definition normalizeAuthDefinition :: "json \<Rightarrow> connectorAuthDefinition option" where
  "normalizeAuthDefinition v =
    (if \<not> is_object v then None else
     case normalizeAuthType (jget v ''type'') of
       Some NoAuth \<Rightarrow> Some DefNoAuth
     | Some ApiKey \<Rightarrow> Some (DefApiKey (optionalString (jget v ''label''))
         (optionalString (jget v ''placeholder'')) (optionalString (jget v ''description''))
         (List.map_filter normalizeCredentialField (the_array (jget v ''extraFields''))))
     | Some CustomCredential \<Rightarrow> Some (DefCustomCredential
         (List.map_filter normalizeCredentialField (the_array (jget v ''fields''))))
     | Some OAuth2 \<Rightarrow> Some (DefOAuth2 (stringArray (jget v ''scopes''))
         (List.map_filter normalizeOAuthClientField (the_array (jget v ''clientConfigFields''))))
     | None \<Rightarrow> None)"

definition normalizeProviderSummary :: "json \<Rightarrow> connectorProviderSummary option" where
  "normalizeProviderSummary v =
    (if \<not> is_object v then None else
     case (optionalString (jget v ''service''), optionalString (jget v ''displayName'')) of
       (Some service, Some displayName) \<Rightarrow> Some \<lparr>
         cp_service = service, cp_displayName = displayName,
         cp_description = optionalString (jget v ''description''),
         cp_categories = stringArray (jget v ''categories''),
         cp_authTypes = List.map_filter authTypeOf (stringArray (jget v ''authTypes'')),
         cp_iconUrl = optionalString (jget v ''iconUrl''),
         cp_actionCount = (if is_array (jget v ''actions'')
           then length (the_array (jget v ''actions'')) else 0)\<rparr>
     | _ \<Rightarrow> None)"

definition normalizeExecution :: "json \<Rightarrow> connectorExecution option" where
  "normalizeExecution execution = (if \<not> is_object execution then None else Some \<lparr>
     ce_locallyExecutable = (jget execution ''locallyExecutable'' = JBool True),
     ce_catalogOnly = (jget execution ''catalogOnly'' = JBool True),
     ce_requiredAuthTypes =
       List.map_filter authTypeOf (stringArray (jget execution ''requiredAuthTypes'')),
     ce_noAuthRunnable = (jget execution ''noAuthRunnable'' = JBool True),
     ce_needsCredential = (jget execution ''needsCredential'' = JBool True)\<rparr>)"

definition object_or_none :: "json \<Rightarrow> json option" where
  "object_or_none v = (if is_object v then Some v else None)"

definition normalizeActionDefinition :: "json \<Rightarrow> connectorActionDefinition option" where
  "normalizeActionDefinition v =
    (if \<not> is_object v then None else
     case optionalString (jget v ''id'') of None \<Rightarrow> None
     | Some i \<Rightarrow>
         (let name = (case optionalString (jget v ''name'') of Some n \<Rightarrow> n
             | None \<Rightarrow> last (js_split (CHR ''.'') i))
          in if name = [] then None else Some \<lparr>
            ca_id = i, ca_name = name,
            ca_description = optionalString (jget v ''description''),
            ca_requiredScopes = stringArray (jget v ''requiredScopes''),
            ca_providerPermissions = stringArray (jget v ''providerPermissions''),
            ca_inputSchema = object_or_none (jget v ''inputSchema''),
            ca_outputSchema = object_or_none (jget v ''outputSchema''),
            ca_execution = normalizeExecution (jget v ''execution'')\<rparr>))"

definition normalizeProviderDetail :: "json \<Rightarrow> openConnectorError + connectorProviderDetail" where
  "normalizeProviderDetail v = (case normalizeProviderSummary v of
     None \<Rightarrow> Inl (openConnectorError InvalidDefinition)
   | Some summary \<Rightarrow> Inr (connectorProviderSummary.extend summary
       \<lparr>cp_auth = List.map_filter normalizeAuthDefinition (the_array (jget v ''auth'')),
        cp_actions = List.map_filter normalizeActionDefinition (the_array (jget v ''actions''))\<rparr>))"

definition normalizeConnection :: "json \<Rightarrow> connectorConnection option" where
  "normalizeConnection v =
    (if \<not> is_object v then None else
     let connectionName = (case optionalString (jget v ''connectionName'') of Some n \<Rightarrow> n
           | None \<Rightarrow> ''default'') in
     case (optionalString (jget v ''service''), normalizeAuthType (jget v ''authType'')) of
       (Some service, Some authType) \<Rightarrow>
         (let profile = jget v ''profile'';
              dflt = service @ '':'' @ connectionName in Some \<lparr>
           cc_id = (case optionalString (jget v ''id'') of Some i \<Rightarrow> i | None \<Rightarrow> dflt),
           cc_service = service, cc_connectionName = connectionName, cc_authType = authType,
           cc_accessMode = (if authType = NoAuth then AccessNoAuth else AccessGlobal),
           cc_configured = (jget v ''configured'' = JBool True),
           cc_virtual = (jget v ''virtual'' = JBool True),
           cc_default = (jget v ''default'' = JBool True),
           cc_accountId = (case optionalString (jget profile ''accountId'') of Some i \<Rightarrow> i
             | None \<Rightarrow> dflt),
           cc_displayName = (case optionalString (jget profile ''displayName'') of Some i \<Rightarrow> i
             | None \<Rightarrow> connectionName),
           cc_grantedScopes = stringArray (jget profile ''grantedScopes''),
           cc_localAccount = None, cc_sharedAccess = None\<rparr>)
     | _ \<Rightarrow> None)"

definition normalizeOAuthConfig :: "json \<Rightarrow> connectorOAuthConfig option" where
  "normalizeOAuthConfig v =
    (if \<not> is_object v then None else
     case (optionalString (jget v ''service''), optionalString (jget v ''expectedRedirectUri'')) of
       (Some service, Some uri) \<Rightarrow> Some \<lparr>
         oc_service = service, oc_configured = (jget v ''configured'' = JBool True),
         oc_clientId = optionalString (jget v ''clientId''), oc_expectedRedirectUri = uri\<rparr>
     | _ \<Rightarrow> None)"

section \<open>The provider list and its cache\<close>

type_synonym providerCache = "(int \<times> connectorProviderSummary list) option"

definition fetchProviderSummaries :: "ocEnv \<Rightarrow> openConnectorError + connectorProviderSummary list" where
  "fetchProviderSummaries env =
    bindE (requestOpenConnector env GET ''api/providers'' None) (\<lambda>payload.
      case payload of
        JArr items \<Rightarrow> Inr (sort_by (\<lambda>l r. env_collate env (cp_displayName l) (cp_displayName r))
          (List.map_filter normalizeProviderSummary items))
      | _ \<Rightarrow> Inl (openConnectorError InvalidProviderList))"

text \<open>The clock is read once when the cache is consulted and once when it is filled.\<close>

definition readProviderSummaries ::
    "ocEnv \<Rightarrow> int \<Rightarrow> int \<Rightarrow> providerCache
      \<Rightarrow> (openConnectorError + connectorProviderSummary list) \<times> providerCache" where
  "readProviderSummaries env now now' cache =
    (case cache of
       Some (expiresAt, providers) \<Rightarrow>
         if expiresAt > now then (Inr providers, cache)
         else (case fetchProviderSummaries env of
             Inl e \<Rightarrow> (Inl e, cache)
           | Inr ps \<Rightarrow> (Inr ps, Some (now' + PROVIDER_CACHE_TTL_MS, ps)))
     | None \<Rightarrow> (case fetchProviderSummaries env of
           Inl e \<Rightarrow> (Inl e, cache)
         | Inr ps \<Rightarrow> (Inr ps, Some (now' + PROVIDER_CACHE_TTL_MS, ps))))"

definition resetOpenConnectorProviderCache :: "providerCache \<Rightarrow> providerCache" where
  "resetOpenConnectorProviderCache cache = None"

record listProvidersInput =
  li_query :: "string option"
  li_category :: "string option"
  li_authType :: "string option"
  li_page :: "jsnum option"
  li_limit :: "jsnum option"

definition number_or :: "jsnum option \<Rightarrow> jsnum \<Rightarrow> jsnum" where
  "number_or n d = (case n of None \<Rightarrow> d | Some v \<Rightarrow> if num_truthy v then v else d)"

definition pageNumber :: "jsnum option \<Rightarrow> jsnum" where
  "pageNumber p = num_max (Fin 1) (num_floor (number_or p (Fin 1)))"

definition pageLimit :: "jsnum option \<Rightarrow> int" where
  "pageLimit l = (case num_min (Fin 50) (num_max (Fin 1) (num_floor (number_or l (Fin 24)))) of
     Fin r \<Rightarrow> \<lfloor>r\<rfloor> | _ \<Rightarrow> 50)"

text \<open>\<open>slice(offset, offset + limit)\<close> with \<open>offset = (page - 1) * limit\<close>.\<close>

definition pageSlice :: "jsnum \<Rightarrow> int \<Rightarrow> 'a list \<Rightarrow> 'a list" where
  "pageSlice page limit xs = (case page of
     Fin p \<Rightarrow> take (nat limit) (drop (nat ((\<lfloor>p\<rfloor> - 1) * limit)) xs)
   | _ \<Rightarrow> [])"

definition providerMatches ::
    "string \<Rightarrow> string \<Rightarrow> connectorAuthType option \<Rightarrow> connectorProviderSummary \<Rightarrow> bool" where
  "providerMatches query category authType provider =
    ((query = [] \<or> list_ex (\<lambda>v. js_includes (js_lower v) query)
        [cp_displayName provider, cp_service provider,
         case cp_description provider of Some d \<Rightarrow> d | None \<Rightarrow> []])
     \<and> (category = [] \<or> category \<in> set (cp_categories provider))
     \<and> (case authType of None \<Rightarrow> True | Some t \<Rightarrow> t \<in> set (cp_authTypes provider)))"

definition trimmed_or_empty :: "string option \<Rightarrow> string" where
  "trimmed_or_empty s = (case s of None \<Rightarrow> [] | Some v \<Rightarrow> js_trim v)"

definition filteredProviders ::
    "listProvidersInput \<Rightarrow> connectorProviderSummary list \<Rightarrow> connectorProviderSummary list" where
  "filteredProviders input providers =
    filter (providerMatches (js_lower (trimmed_or_empty (li_query input)))
      (trimmed_or_empty (li_category input)) (Option.bind (li_authType input) authTypeOf)) providers"

definition providersPage ::
    "ocEnv \<Rightarrow> listProvidersInput \<Rightarrow> connectorProviderSummary list \<Rightarrow> connectorProvidersPage" where
  "providersPage env input providers =
    (let filtered = filteredProviders input providers;
         page = pageNumber (li_page input);
         limit = pageLimit (li_limit input)
     in \<lparr>pg_items = pageSlice page limit filtered,
         pg_total = length filtered, pg_page = page, pg_limit = limit,
         pg_categories = sort_by (env_collate env) (dedup (concat (map cp_categories providers))),
         pg_authTypes = dedup (concat (map cp_authTypes providers))\<rparr>)"

definition listConnectorProviders ::
    "ocEnv \<Rightarrow> int \<Rightarrow> int \<Rightarrow> listProvidersInput \<Rightarrow> providerCache
      \<Rightarrow> (openConnectorError + connectorProvidersPage) \<times> providerCache" where
  "listConnectorProviders env now now' input cache =
    (case readProviderSummaries env now now' cache of
       (Inl e, cache') \<Rightarrow> (Inl e, cache')
     | (Inr providers, cache') \<Rightarrow> (Inr (providersPage env input providers), cache'))"

definition getConnectorProviderSummaries ::
    "ocEnv \<Rightarrow> int \<Rightarrow> int \<Rightarrow> string list \<Rightarrow> providerCache
      \<Rightarrow> (openConnectorError + connectorProviderSummary list) \<times> providerCache" where
  "getConnectorProviderSummaries env now now' services cache =
    (case readProviderSummaries env now now' cache of
       (Inl e, cache') \<Rightarrow> (Inl e, cache')
     | (Inr providers, cache') \<Rightarrow>
         (Inr (filter (\<lambda>p. cp_service p \<in> set services) providers), cache'))"

section \<open>Guarded requests\<close>

definition service_char :: "char \<Rightarrow> bool" where
  "service_char c \<longleftrightarrow> is_lower c \<or> is_digit c \<or> c = CHR ''_'' \<or> c = CHR ''-''"

definition valid_service :: "string \<Rightarrow> bool" where
  "valid_service s = (case s of [] \<Rightarrow> False
     | c # r \<Rightarrow> (is_lower c \<or> is_digit c) \<and> length r \<le> 127 \<and> list_all service_char r)"

definition assertService :: "string \<Rightarrow> openConnectorError + string" where
  "assertService service = (if valid_service service then Inr service
     else Inl \<lparr>oe_message = InvalidServiceId, oe_status = 400\<rparr>)"

definition action_char :: "char \<Rightarrow> bool" where
  "action_char c \<longleftrightarrow> is_alnum c \<or> c = CHR ''_'' \<or> c = CHR ''.'' \<or> c = CHR ''-''"

definition valid_action_name :: "string \<Rightarrow> bool" where
  "valid_action_name s = (case s of [] \<Rightarrow> False
     | c # r \<Rightarrow> is_alnum c \<and> length r \<le> 255 \<and> list_all action_char r)"

text \<open>The service part has no dot, so the regular expression splits at the first one.\<close>

definition valid_action_id :: "string \<Rightarrow> bool" where
  "valid_action_id s = (case dropWhile (\<lambda>c. c \<noteq> CHR ''.'') s of [] \<Rightarrow> False
     | _ # r \<Rightarrow> valid_service (takeWhile (\<lambda>c. c \<noteq> CHR ''.'') s) \<and> valid_action_name r)"

definition valid_connection_name :: "string \<Rightarrow> bool" where
  "valid_connection_name s = (case s of [] \<Rightarrow> False
     | c # r \<Rightarrow> is_alnum c \<and> length r \<le> 127
         \<and> list_all (\<lambda>c. is_alnum c \<or> c = CHR ''_'' \<or> c = CHR ''-'') r)"

definition getConnectorProvider :: "ocEnv \<Rightarrow> string \<Rightarrow> openConnectorError + connectorProviderDetail" where
  "getConnectorProvider env service =
    bindE (assertService service) (\<lambda>safeService.
      bindE (requestOpenConnector env GET (''api/providers/'' @ safeService) None)
        normalizeProviderDetail)"

definition listConnectorConnections :: "ocEnv \<Rightarrow> openConnectorError + connectorConnection list" where
  "listConnectorConnections env =
    bindE (requestOpenConnector env GET ''api/connections'' None) (\<lambda>payload.
      case payload of JArr items \<Rightarrow> Inr (List.map_filter normalizeConnection items)
      | _ \<Rightarrow> Inl (openConnectorError InvalidConnectionList))"

definition saveConnectorConnection ::
    "ocEnv \<Rightarrow> string \<Rightarrow> json \<Rightarrow> openConnectorError + connectorConnection option" where
  "saveConnectorConnection env service input =
    bindE (assertService service) (\<lambda>safeService.
      bindE (requestOpenConnector env PUT (''api/connections/'' @ safeService) (Some input))
        (\<lambda>payload. Inr (normalizeConnection payload)))"

definition deleteConnectorConnection ::
    "ocEnv \<Rightarrow> string \<Rightarrow> string \<Rightarrow> openConnectorError + json" where
  "deleteConnectorConnection env service connectionName =
    bindE (assertService service) (\<lambda>safeService.
      requestOpenConnector env DELETE (''api/connections/'' @ safeService)
        (Some (JObj [(''connectionName'', JStr connectionName)])))"

definition runConnectorAction ::
    "ocEnv \<Rightarrow> string \<Rightarrow> string \<Rightarrow> json \<Rightarrow> openConnectorError + json" where
  "runConnectorAction env actionId connectionName input =
    bindE (guardE (valid_action_id actionId) \<lparr>oe_message = InvalidActionId, oe_status = 400\<rparr>) (\<lambda>_.
    bindE (guardE (valid_connection_name connectionName)
        \<lparr>oe_message = InvalidConnectionName, oe_status = 400\<rparr>) (\<lambda>_.
    bindE (runtimeToken env) (\<lambda>token.
      case env_fetch env \<lparr>rq_method = POST, rq_path = ''v1/actions/'' @ actionId,
          rq_body = Some (JObj [(''input'', input)]), rq_token = token,
          rq_alias = Some connectionName\<rparr> of
        None \<Rightarrow> Inl (openConnectorError NetworkFailure)
      | Some (status, payload) \<Rightarrow>
          if \<not> response_ok status
          then Inl \<lparr>oe_message = upstreamErrorMessage payload (ActionFailed status),
                 oe_status = upstreamStatus status\<rparr>
          else (case payload of
              JObj kvs \<Rightarrow> if jget payload ''success'' = JBool True \<and> ''data'' \<in> fst ` set kvs
                then Inr (jget payload ''data'') else Inl (openConnectorError InvalidActionResult)
            | _ \<Rightarrow> Inl (openConnectorError InvalidActionResult)))))"

definition getConnectorOAuthConfig ::
    "ocEnv \<Rightarrow> string \<Rightarrow> openConnectorError + connectorOAuthConfig" where
  "getConnectorOAuthConfig env service =
    bindE (assertService service) (\<lambda>safeService.
      bindE (requestOpenConnector env GET ''api/oauth/configs'' None) (\<lambda>payload.
        case List.find (\<lambda>c. oc_service c = safeService)
            (List.map_filter normalizeOAuthConfig (the_array payload)) of
          None \<Rightarrow> Inl \<lparr>oe_message = OAuthUnsupported, oe_status = 404\<rparr>
        | Some config \<Rightarrow> Inr config))"

definition saveConnectorOAuthConfig ::
    "ocEnv \<Rightarrow> string \<Rightarrow> json \<Rightarrow> openConnectorError + connectorOAuthConfig" where
  "saveConnectorOAuthConfig env service input =
    bindE (assertService service) (\<lambda>safeService.
      bindE (requestOpenConnector env PUT (''api/oauth/configs/'' @ safeService) (Some input))
        (\<lambda>payload. case normalizeOAuthConfig payload of
           None \<Rightarrow> Inl (openConnectorError InvalidOAuthConfig)
         | Some config \<Rightarrow> Inr config))"

definition startConnectorOAuthAuthorization ::
    "ocEnv \<Rightarrow> string \<Rightarrow> string \<Rightarrow> string list option \<Rightarrow> openConnectorError + (string \<times> string)" where
  "startConnectorOAuthAuthorization env service connectionName actionIds =
    bindE (assertService service) (\<lambda>safeService.
      bindE (requestOpenConnector env POST ''api/oauth/authorizations''
          (Some (JObj ([(''service'', JStr safeService), (''connectionName'', JStr connectionName)]
             @ (case actionIds of None \<Rightarrow> []
                | Some ids \<Rightarrow> [(''actionIds'', JArr (map JStr ids))])))))
        (\<lambda>payload. if payload = JUndef \<or> payload = JNull
           then Inl (openConnectorError PayloadTypeError)
           else case optionalString (jget payload ''authorizationUrl'') of
             None \<Rightarrow> Inl (openConnectorError NoAuthorizationUrl)
           | Some url \<Rightarrow> Inr (safeService, url)))"

section \<open>The provider cache\<close>

interpretation providers: ttl_cache
  "\<lambda>env now now' (k::unit) c. readProviderSummaries env now now' c"
  "\<lambda>env k. fetchProviderSummaries env" "\<lambda>c k. c" PROVIDER_CACHE_TTL_MS
  by unfold_locales (auto simp: readProviderSummaries_def split: option.splits sum.splits)

lemma fetchProviderSummaries_normalized:
  assumes "fetchProviderSummaries env = Inr ps" "p \<in> set ps"
  shows "\<exists>v. normalizeProviderSummary v = Some p"
proof -
  obtain items where "ps = sort_by (\<lambda>l r. env_collate env (cp_displayName l) (cp_displayName r))
      (List.map_filter normalizeProviderSummary items)"
    using assms(1)
    by (clarsimp simp: fetchProviderSummaries_def) (auto split: json.split_asm)
  then show ?thesis using assms(2) by (auto simp: map_filter_def)
qed

section \<open>Pages\<close>

lemma pageLimit_bounds: "1 \<le> pageLimit l" "pageLimit l \<le> 50"
  by (auto simp: pageLimit_def num_min_def num_max_def number_or_def
      split: option.splits jsnum.splits if_splits)

lemma pageNumber_positive: "pageNumber p \<noteq> NegInf \<and> pageNumber p \<noteq> NaN"
  by (auto simp: pageNumber_def num_max_def number_or_def split: option.splits)
    (metis num_floor.simps num_lt.simps num_truthy.simps jsnum.exhaust)+

lemma pageNumber_nat: "pageNumber (Some (Fin (of_nat (Suc k)))) = Fin (of_nat (Suc k))"
  by (cases k) (auto simp: pageNumber_def number_or_def num_max_def)

lemma pageSlice_nat:
  "0 \<le> limit \<Longrightarrow> pageSlice (Fin (of_nat (Suc k))) limit xs
    = take (nat limit) (drop (k * nat limit) xs)"
  by (simp add: pageSlice_def nat_mult_distrib)

lemma pageSlice_length: "length (pageSlice page limit xs) \<le> nat limit"
  by (auto simp: pageSlice_def split: jsnum.splits)

lemma pages_take:
  "concat (map (\<lambda>k. take l (drop (k * l) xs)) [0..<n]) = take (n * l) xs"
proof (induction n)
  case (Suc n)
  have "take (l + n * l) xs = take (n * l) xs @ take l (drop (n * l) xs)"
    by (metis add.commute take_add)
  with Suc show ?case by simp
qed simp

section \<open>Guards and statuses\<close>

lemma upstreamStatus_bounds: "400 \<le> upstreamStatus s \<and> upstreamStatus s < 600"
  by (simp add: upstreamStatus_def)

lemma adminToken_error: "adminToken env = Inl e \<Longrightarrow> oe_status e = 503"
  by (auto simp: adminToken_def split: option.splits if_splits)

lemma runtimeToken_error: "runtimeToken env = Inl e \<Longrightarrow> oe_status e = 503"
  by (auto simp: runtimeToken_def split: option.splits if_splits)

lemma openConnectorError_status [simp]: "oe_status (openConnectorError m) = 502"
  by (simp add: openConnectorError_def)

definition status_ok :: "openConnectorError \<Rightarrow> bool" where
  "status_ok e \<longleftrightarrow> 400 \<le> oe_status e \<and> oe_status e < 600"

lemma status_okI [simp]:
  "status_ok (openConnectorError m)"
  "status_ok \<lparr>oe_message = m, oe_status = upstreamStatus s\<rparr>"
  "status_ok \<lparr>oe_message = m, oe_status = 400\<rparr>"
  "status_ok \<lparr>oe_message = m, oe_status = 404\<rparr>"
  "adminToken env = Inl e \<Longrightarrow> status_ok e"
  "runtimeToken env = Inl e \<Longrightarrow> status_ok e"
  by (auto simp: status_ok_def upstreamStatus_def dest: adminToken_error runtimeToken_error)

lemma requestOpenConnector_error:
  "requestOpenConnector env m p b = Inl e \<Longrightarrow> status_ok e"
  by (auto simp: requestOpenConnector_def bindE_eq_Inl)
    (auto split: option.split_asm prod.split_asm if_split_asm)

lemma runConnectorAction_error:
  "runConnectorAction env a c i = Inl e \<Longrightarrow> status_ok e"
  by (auto simp: runConnectorAction_def bindE_eq_Inl)
    (auto split: option.split_asm prod.split_asm if_split_asm json.split_asm)

lemma valid_service_chars: "valid_service s \<Longrightarrow> c \<in> set s \<Longrightarrow> service_char c"
  by (auto simp: valid_service_def service_char_def list_all_iff split: list.splits)

lemma valid_action_name_chars: "valid_action_name s \<Longrightarrow> c \<in> set s \<Longrightarrow> action_char c"
  by (auto simp: valid_action_name_def action_char_def list_all_iff split: list.splits)

lemma valid_action_id_chars:
  assumes "valid_action_id s" "c \<in> set s"
  shows "action_char c"
proof -
  let ?t = "takeWhile (\<lambda>c. c \<noteq> CHR ''.'') s" and ?d = "dropWhile (\<lambda>c. c \<noteq> CHR ''.'') s"
  obtain d r where d: "?d = d # r" "valid_service ?t" "valid_action_name r"
    using assms(1) by (auto simp: valid_action_id_def split: list.splits)
  have "d = CHR ''.''" using d(1) hd_dropWhile[of "\<lambda>c. c \<noteq> CHR ''.''" s]
    by (metis list.sel(1) list.distinct(1) dropWhile_eq_Nil_conv)
  moreover have "c \<in> set ?t \<or> c \<in> set ?d"
    using assms(2) by (metis Un_iff set_append takeWhile_dropWhile_id)
  ultimately show ?thesis
    using d valid_service_chars valid_action_name_chars
    by (fastforce simp: action_char_def service_char_def is_alnum_def)
qed

lemma slash_not_allowed: "\<not> action_char (CHR ''/'')" "\<not> service_char (CHR ''/'')"
  by (simp_all add: action_char_def service_char_def is_alnum_def is_digit_def is_lower_def
      is_upper_def code_unit_def)

section \<open>Properties\<close>

text \<open>The provider list is never more than five minutes old: over any sequence of reads that
  starts with an empty cache, the list returned by a read is the service's answer to that very
  read, or its answer to an earlier read that was stored less than five minutes before.\<close>

theorem provider_cache_staleness:
  assumes "fst (run_reads (\<lambda>env now now' (k::unit) c. readProviderSummaries env now now' c)
    None (es @ [e])) = rs @ [Inr ps]"
  shows "fetchProviderSummaries (ev_world e) = Inr ps \<or>
    (\<exists>d\<in>set es. fetchProviderSummaries (ev_world d) = Inr ps
      \<and> ev_now e < ev_stored d + PROVIDER_CACHE_TTL_MS)"
  using providers.run_bounded_staleness[of None es e rs ps] assms by auto

definition demo_env :: "string \<Rightarrow> ocEnv" where
  "demo_env nm = \<lparr>env_adminToken = Some ''t'', env_runtimeToken = Some ''t'',
     env_fetch = (\<lambda>r. Some (200, JArr [JObj [(''service'', JStr ''s''),
       (''displayName'', JStr nm)]])), env_collate = str_le\<rparr>"

definition demo_provider :: "string \<Rightarrow> connectorProviderSummary" where
  "demo_provider nm = \<lparr>cp_service = ''s'', cp_displayName = nm, cp_description = None,
     cp_categories = [], cp_authTypes = [], cp_iconUrl = None, cp_actionCount = 0\<rparr>"

lemma demo_fetch:
  "fetchProviderSummaries (demo_env ''a'') = Inr [demo_provider ''a'']"
  "fetchProviderSummaries (demo_env ''b'') = Inr [demo_provider ''b'']"
  by code_simp+

theorem provider_cache_staleness_witness:
  "fetchProviderSummaries (demo_env ''b'') = Inr [demo_provider ''a''] \<or>
    (\<exists>d\<in>set [\<lparr>ev_world = demo_env ''a'', ev_key = (), ev_now = 0, ev_stored = 10\<rparr>].
      fetchProviderSummaries (ev_world d) = Inr [demo_provider ''a'']
      \<and> 300009 < ev_stored d + PROVIDER_CACHE_TTL_MS)"
  using provider_cache_staleness[of "[\<lparr>ev_world = demo_env ''a'', ev_key = (), ev_now = 0,
      ev_stored = 10\<rparr>]" "\<lparr>ev_world = demo_env ''b'', ev_key = (), ev_now = 300009,
      ev_stored = 300020\<rparr>" "[Inr [demo_provider ''a'']]" "[demo_provider ''a'']"]
  by (simp add: readProviderSummaries_def demo_fetch PROVIDER_CACHE_TTL_MS_def)

text \<open>The pages of the provider list partition the filtered list: requested one after the
  other they give every match exactly once and in order, whatever limit was asked for; the
  effective limit is between 1 and 50, the page is at least 1 and the reported total is the
  number of matches.\<close>

theorem provider_pages_partition:
  "concat (map (\<lambda>k. pg_items (providersPage env
       (input\<lparr>li_page := Some (Fin (of_nat (Suc k)))\<rparr>) providers)) [0..<n])
     = take (n * nat (pageLimit (li_limit input))) (filteredProviders input providers)
   \<and> 1 \<le> pageLimit (li_limit input) \<and> pageLimit (li_limit input) \<le> 50
   \<and> pg_total (providersPage env input providers) = length (filteredProviders input providers)
   \<and> length (pg_items (providersPage env input providers)) \<le> nat (pageLimit (li_limit input))"
proof -
  have pos: "0 \<le> pageLimit (li_limit input)"
    using pageLimit_bounds(1)[of "li_limit input"] by linarith
  have filt: "filteredProviders (input\<lparr>li_page := p\<rparr>) providers = filteredProviders input providers"
    for p by (simp add: filteredProviders_def)
  show ?thesis
    using pageLimit_bounds
    by (simp add: providersPage_def Let_def filt pageNumber_nat pageSlice_nat[OF pos] pages_take
        pageSlice_length del: of_nat_Suc)
qed


end
