(* ===== verification/Store.thy ===== *)
theory Store
  imports Js_Data
begin

text \<open>
  The relational store behind the console (the tables and constraints ensureSchema and the
  multi-organisation migration create in src/ai-console/src/lib/server/integrations.ts). A table
  is the list of its rows, a statement computes the new table and the database accepts it when
  every constraint holds afterwards; a transaction keeps the old store when a step fails.
  Timestamps are milliseconds. JSON columns hold the JSON value.
\<close>

section \<open>Rows\<close>

datatype platform = Feishu | Wecom | WecomBot | Dingtalk
datatype bindingStatus = Pending | Connected | Errored | Revoked
datatype resourceMode = Manual | WecomVisibility
datatype principalType = UserPrincipal | GroupPrincipal
datatype bindingMessage = MsgNone | MsgConnectionLost | MsgText string

record applicationRow =
  ap_id :: string
  ap_platform :: platform
  ap_app_name :: string
  ap_app_id :: string
  ap_note :: string
  ap_action_ids :: json
  ap_active :: bool
  ap_secret :: string
  ap_created_at :: int
  ap_updated_at :: int

record bindingRow =
  bi_id :: string
  bi_application_id :: "string option"
  bi_issuer :: string
  bi_subject :: string
  bi_email :: string
  bi_name :: string
  bi_platform :: platform
  bi_service :: string
  bi_connection_name :: string
  bi_status :: bindingStatus
  bi_display_name :: "string option"
  bi_account_id :: "string option"
  bi_error_message :: bindingMessage
  bi_action_ids :: "json option"
  bi_fingerprint :: "string option"
  bi_connected_at :: "int option"
  bi_created_at :: int
  bi_updated_at :: int

record organizationRow =
  og_id :: string
  og_name :: string
  og_corp_id :: string
  og_relay_callback_url :: "string option"
  og_active :: bool
  og_created_at :: int
  og_updated_at :: int

record linkRow =
  lk_id :: string
  lk_organization_id :: string
  lk_principal_issuer :: string
  lk_principal_subject :: string
  lk_principal_email :: string
  lk_principal_name :: string
  lk_wecom_issuer :: string
  lk_wecom_subject :: string
  lk_corp_hash :: string
  lk_user_hash :: string
  lk_linked_at :: int
  lk_updated_at :: int

record loginRow =
  lr_request_hash :: string
  lr_nonce_hash :: string
  lr_organization_id :: "string option"
  lr_wecom_issuer :: "string option"
  lr_wecom_subject :: "string option"
  lr_corp_hash :: "string option"
  lr_user_hash :: "string option"
  lr_created_at :: int
  lr_expires_at :: int
  lr_verified_at :: "int option"
  lr_consumed_at :: "int option"

record botRequestRow =
  br_request_hash :: string
  br_scode :: "string option"
  br_issuer :: string
  br_subject :: string
  br_expires_at :: int
  br_processing_at :: "int option"
  br_completed_at :: "int option"
  br_connection_name :: "string option"

record resourceRow =
  rs_id :: string
  rs_service :: string
  rs_connection_name :: string
  rs_display_name :: string
  rs_security_domain :: string
  rs_mode :: resourceMode
  rs_action_ids :: json
  rs_enabled :: bool
  rs_created_by :: string
  rs_updated_by :: string
  rs_created_at :: int
  rs_updated_at :: int
  rs_organization_id :: "string option"

record grantRow =
  gr_id :: string
  gr_resource_id :: string
  gr_type :: principalType
  gr_issuer :: string
  gr_subject :: "string option"
  gr_email :: "string option"
  gr_group :: "string option"
  gr_action_ids :: json
  gr_starts_at :: "int option"
  gr_expires_at :: "int option"
  gr_enabled :: bool
  gr_created_by :: string
  gr_updated_by :: string
  gr_created_at :: int

record db =
  applications :: "applicationRow list"
  bindings :: "bindingRow list"
  organizations :: "organizationRow list"
  links :: "linkRow list"
  logins :: "loginRow list"
  botRequests :: "botRequestRow list"
  resources :: "resourceRow list"
  grants :: "grantRow list"

definition empty_db :: db where
  "empty_db = \<lparr>applications = [], bindings = [], organizations = [], links = [], logins = [],
     botRequests = [], resources = [], grants = []\<rparr>"

section \<open>Constraints\<close>

definition is_hash64 :: "string \<Rightarrow> bool" where
  "is_hash64 s \<longleftrightarrow> length s = 64
     \<and> list_all (\<lambda>c. is_digit c \<or> 97 \<le> code_unit c \<and> code_unit c \<le> 102) s"

definition unique_by :: "('a \<Rightarrow> 'k) \<Rightarrow> 'a list \<Rightarrow> bool" where
  "unique_by key rows \<longleftrightarrow> distinct (map key rows)"

definition btrim_blank :: "string \<Rightarrow> bool" where
  "btrim_blank s \<longleftrightarrow> list_all (\<lambda>c. c = CHR '' '') s"

definition applications_unique :: "applicationRow list \<Rightarrow> bool" where
  "applications_unique rows \<longleftrightarrow> unique_by ap_id rows
     \<and> unique_by (\<lambda>a. (ap_platform a, ap_app_id a)) rows
     \<and> unique_by ap_platform (filter ap_active rows)"

definition bindings_unique :: "bindingRow list \<Rightarrow> bool" where
  "bindings_unique rows \<longleftrightarrow> unique_by bi_id rows
     \<and> unique_by (\<lambda>b. (bi_service b, bi_connection_name b)) rows
     \<and> unique_by (\<lambda>b. (bi_issuer b, bi_subject b, bi_service b))
         (filter (\<lambda>b. bi_application_id b \<noteq> None) rows)
     \<and> unique_by bi_fingerprint
         (filter (\<lambda>b. bi_fingerprint b \<noteq> None \<and> bi_status b \<noteq> Revoked) rows)"

definition bindings_check :: "bindingRow list \<Rightarrow> bool" where
  "bindings_check rows \<longleftrightarrow> list_all (\<lambda>b.
     (bi_application_id b \<noteq> None \<or> bi_platform b = WecomBot)
     \<and> (case bi_fingerprint b of None \<Rightarrow> True | Some f \<Rightarrow> is_hash64 f)) rows"

definition organizations_unique :: "organizationRow list \<Rightarrow> bool" where
  "organizations_unique rows \<longleftrightarrow> unique_by og_id rows \<and> unique_by og_corp_id rows
     \<and> unique_by og_relay_callback_url (filter (\<lambda>g. og_relay_callback_url g \<noteq> None) rows)"

definition organizations_check :: "organizationRow list \<Rightarrow> bool" where
  "organizations_check rows \<longleftrightarrow> list_all (\<lambda>g. case og_relay_callback_url g of None \<Rightarrow> True
     | Some u \<Rightarrow> \<not> btrim_blank u) rows"

definition links_unique :: "linkRow list \<Rightarrow> bool" where
  "links_unique rows \<longleftrightarrow> unique_by lk_id rows
     \<and> unique_by (\<lambda>l. (lk_principal_issuer l, lk_principal_subject l, lk_organization_id l)) rows
     \<and> unique_by (\<lambda>l. (lk_wecom_issuer l, lk_wecom_subject l)) rows
     \<and> unique_by (\<lambda>l. (lk_corp_hash l, lk_user_hash l)) rows"

definition links_check :: "linkRow list \<Rightarrow> bool" where
  "links_check rows \<longleftrightarrow> list_all (\<lambda>l. is_hash64 (lk_corp_hash l) \<and> is_hash64 (lk_user_hash l)) rows"

definition login_verified_consistent :: "loginRow \<Rightarrow> bool" where
  "login_verified_consistent r \<longleftrightarrow>
     lr_wecom_issuer r = None \<and> lr_wecom_subject r = None \<and> lr_corp_hash r = None
       \<and> lr_user_hash r = None \<and> lr_verified_at r = None
     \<or> lr_wecom_issuer r \<noteq> None \<and> lr_wecom_subject r \<noteq> None \<and> lr_corp_hash r \<noteq> None
       \<and> lr_user_hash r \<noteq> None \<and> lr_verified_at r \<noteq> None"

definition hash_or_null :: "string option \<Rightarrow> bool" where
  "hash_or_null h = (case h of None \<Rightarrow> True | Some s \<Rightarrow> is_hash64 s)"

definition logins_check :: "loginRow list \<Rightarrow> bool" where
  "logins_check rows \<longleftrightarrow> list_all (\<lambda>r. is_hash64 (lr_request_hash r) \<and> is_hash64 (lr_nonce_hash r)
     \<and> hash_or_null (lr_corp_hash r) \<and> hash_or_null (lr_user_hash r)
     \<and> login_verified_consistent r) rows"

definition botRequests_check :: "botRequestRow list \<Rightarrow> bool" where
  "botRequests_check rows \<longleftrightarrow> list_all (\<lambda>r. is_hash64 (br_request_hash r)
     \<and> (br_completed_at r = None \<longleftrightarrow> br_connection_name r = None)) rows"

definition resources_unique :: "resourceRow list \<Rightarrow> bool" where
  "resources_unique rows \<longleftrightarrow> unique_by rs_id rows
     \<and> unique_by (\<lambda>r. (rs_service r, rs_connection_name r)) rows"

definition resources_check :: "resourceRow list \<Rightarrow> bool" where
  "resources_check rows \<longleftrightarrow> list_all (\<lambda>r.
     rs_mode r = WecomVisibility \<longleftrightarrow> rs_organization_id r \<noteq> None) rows"

definition grants_check :: "grantRow list \<Rightarrow> bool" where
  "grants_check rows \<longleftrightarrow> list_all (\<lambda>g.
     gr_type g = UserPrincipal \<and> (gr_subject g \<noteq> None \<or> gr_email g \<noteq> None)
     \<or> gr_type g = GroupPrincipal \<and> gr_group g \<noteq> None) rows"

definition uniques_ok :: "db \<Rightarrow> bool" where
  "uniques_ok d \<longleftrightarrow> applications_unique (applications d) \<and> bindings_unique (bindings d)
     \<and> organizations_unique (organizations d) \<and> links_unique (links d)
     \<and> unique_by lr_request_hash (logins d) \<and> unique_by br_request_hash (botRequests d)
     \<and> resources_unique (resources d) \<and> unique_by gr_id (grants d)"

definition ref_ok :: "string option \<Rightarrow> string list \<Rightarrow> bool" where
  "ref_ok r ids = (case r of None \<Rightarrow> True | Some i \<Rightarrow> i \<in> set ids)"

definition foreign_keys_ok :: "db \<Rightarrow> bool" where
  "foreign_keys_ok d \<longleftrightarrow>
     list_all (\<lambda>b. ref_ok (bi_application_id b) (map ap_id (applications d))) (bindings d)
   \<and> list_all (\<lambda>l. lk_organization_id l \<in> set (map og_id (organizations d))) (links d)
   \<and> list_all (\<lambda>r. ref_ok (lr_organization_id r) (map og_id (organizations d))) (logins d)
   \<and> list_all (\<lambda>r. ref_ok (rs_organization_id r) (map og_id (organizations d))) (resources d)
   \<and> list_all (\<lambda>g. gr_resource_id g \<in> set (map rs_id (resources d))) (grants d)"

definition checks_ok :: "db \<Rightarrow> bool" where
  "checks_ok d \<longleftrightarrow> bindings_check (bindings d) \<and> organizations_check (organizations d)
     \<and> links_check (links d) \<and> logins_check (logins d) \<and> botRequests_check (botRequests d)
     \<and> resources_check (resources d) \<and> grants_check (grants d)"

definition db_ok :: "db \<Rightarrow> bool" where
  "db_ok d \<longleftrightarrow> uniques_ok d \<and> foreign_keys_ok d \<and> checks_ok d"

section \<open>Statements and transactions\<close>

text \<open>InvalidInput is a text that is no value of the column's type.\<close>

datatype violation = UniqueViolation | ForeignKeyViolation | CheckViolation | InvalidInput

text \<open>The database accepts the result of a statement when all constraints hold.\<close>

definition checked :: "db \<Rightarrow> violation + db" where
  "checked d = (if \<not> checks_ok d then Inl CheckViolation
     else if \<not> uniques_ok d then Inl UniqueViolation
     else if \<not> foreign_keys_ok d then Inl ForeignKeyViolation
     else Inr d)"

lemma checked_Inr [simp]: "checked d = Inr d' \<longleftrightarrow> d' = d \<and> db_ok d"
  by (auto simp: checked_def db_ok_def)

lemma checked_ok: "db_ok d \<Longrightarrow> checked d = Inr d"
  by simp

text \<open>BEGIN, the statements, COMMIT; ROLLBACK when one of them throws.\<close>

definition transaction :: "(db \<Rightarrow> 'e + 'a \<times> db) \<Rightarrow> db \<Rightarrow> ('e + 'a) \<times> db" where
  "transaction body d = (case body d of Inl e \<Rightarrow> (Inl e, d) | Inr (v, d') \<Rightarrow> (Inr v, d'))"

lemma transaction_error: "fst (transaction body d) = Inl e \<Longrightarrow> snd (transaction body d) = d"
  by (auto simp: transaction_def split: sum.splits prod.splits)

lemma transaction_result:
  "transaction body d = (Inr v, d') \<longleftrightarrow> body d = Inr (v, d')"
  by (auto simp: transaction_def split: sum.splits prod.splits)

lemma transaction_snd:
  "snd (transaction body d) = (case body d of Inl e \<Rightarrow> d | Inr (v, d') \<Rightarrow> d')"
  by (auto simp: transaction_def split: sum.splits prod.splits)

section \<open>Lemmas on tables\<close>

lemma unique_by_eq:
  "unique_by key rows \<Longrightarrow> r \<in> set rows \<Longrightarrow> s \<in> set rows \<Longrightarrow> key r = key s \<Longrightarrow> r = s"
  by (auto simp: unique_by_def distinct_map inj_on_def)

lemma unique_by_filter: "unique_by key rows \<Longrightarrow> unique_by key (filter P rows)"
  by (simp add: unique_by_def distinct_map_filter)

lemma unique_by_Cons [simp]:
  "unique_by key (r # rows) \<longleftrightarrow> key r \<notin> key ` set rows \<and> unique_by key rows"
  by (auto simp: unique_by_def)

lemma unique_by_Nil [simp]: "unique_by key []"
  by (simp add: unique_by_def)

lemma unique_by_append:
  "unique_by key (rows @ [r]) \<longleftrightarrow> unique_by key rows \<and> key r \<notin> key ` set rows"
  by (auto simp: unique_by_def)

lemma unique_by_map:
  "(\<And>r. r \<in> set rows \<Longrightarrow> key (f r) = key r) \<Longrightarrow> unique_by key (map f rows) = unique_by key rows"
  unfolding unique_by_def by (metis (no_types, lifting) list.map_comp map_eq_conv comp_apply)

lemma unique_by_find:
  assumes "unique_by key rows" "r \<in> set rows"
  shows "List.find (\<lambda>x. key x = key r) rows = Some r"
  using assms by (induction rows) auto

lemma unique_by_filter_eq:
  assumes "unique_by key rows" "r \<in> set rows"
  shows "filter (\<lambda>x. key x = key r) rows = [r]"
  using assms
proof (induction rows)
  case (Cons s rows)
  have "filter (\<lambda>x. key x = key s) rows = []"
    using Cons.prems by (fastforce simp: filter_empty_conv image_iff)
  with Cons show ?case by auto
qed simp

lemma empty_db_ok: "db_ok empty_db"
  by (simp add: db_ok_def empty_db_def uniques_ok_def foreign_keys_ok_def checks_ok_def
      applications_unique_def bindings_unique_def organizations_unique_def links_unique_def
      resources_unique_def bindings_check_def organizations_check_def links_check_def
      logins_check_def botRequests_check_def resources_check_def grants_check_def)

lemmas db_ok_defs = db_ok_def uniques_ok_def foreign_keys_ok_def checks_ok_def

lemmas table_uniques = applications_unique_def bindings_unique_def organizations_unique_def
  links_unique_def resources_unique_def

lemmas table_checks = bindings_check_def organizations_check_def links_check_def logins_check_def
  botRequests_check_def resources_check_def grants_check_def

text \<open>What every stateful handler of the store shares: started on a consistent store it leaves a
  consistent store, and a failing one of the transactional handlers leaves the store alone.\<close>

locale store_handler =
  fixes handler :: "'w \<Rightarrow> db \<Rightarrow> ('e + 'a) \<times> db"
  assumes keeps_ok: "db_ok d \<Longrightarrow> db_ok (snd (handler w d))"
begin

lemma run_keeps_ok: "db_ok d \<Longrightarrow> db_ok (fold (\<lambda>w d. snd (handler w d)) ws d)"
  by (induction ws arbitrary: d) (auto intro: keeps_ok)

end

locale atomic_handler = store_handler +
  assumes failed_unchanged: "handler w d = (Inl e, d') \<Longrightarrow> d' = d"
begin

lemma changed_succeeded:
  assumes "snd (handler w d) \<noteq> d"
  shows "\<exists>v. fst (handler w d) = Inr v"
proof (cases "fst (handler w d)")
  case (Inl e)
  then have "handler w d = (Inl e, snd (handler w d))" by (metis prod.collapse)
  from failed_unchanged[OF this] assms show ?thesis by simp
qed simp

lemma failed_runs_unchanged:
  "(\<And>w. w \<in> set ws \<Longrightarrow> \<exists>e. fst (handler w d) = Inl e) \<Longrightarrow>
    fold (\<lambda>w d. snd (handler w d)) ws d = d"
proof (induction ws)
  case (Cons w ws)
  then obtain e where "fst (handler w d) = Inl e" by auto
  then have "snd (handler w d) = d"
    using failed_unchanged[of w d e] by (metis prod.collapse)
  with Cons show ?case by simp
qed simp

end

text \<open>A handler that is one transaction is atomic, whatever its body does, as long as the body's
  statements are checked by the database.\<close>

locale transactional =
  fixes body :: "'w \<Rightarrow> db \<Rightarrow> 'e + 'a \<times> db"
  assumes body_ok: "db_ok d \<Longrightarrow> body w d = Inr (v, d') \<Longrightarrow> db_ok d'"

sublocale transactional \<subseteq> tx: atomic_handler "\<lambda>w. transaction (body w)"
proof
  show "db_ok d \<Longrightarrow> db_ok (snd (transaction (body w) d))" for d w
    by (auto simp: transaction_snd dest: body_ok split: sum.split)
  show "transaction (body w) d = (Inl e, d') \<Longrightarrow> d' = d" for w d e d'
    using transaction_error[of "body w" d e] by simp
qed

end
