(* ===== verification/Integration_Core.thy ===== *)
theory Integration_Core
  imports Open_Connector Store Base64url
begin

text \<open>
  What the handlers of src/ai-console/src/lib/server/integrations.ts share: their errors, the
  validation of request fields, the sealing of secrets, the action catalogue of a platform and the
  identity of the caller. The cryptographic primitives of Node are a record of functions.
\<close>

section \<open>Errors\<close>

datatype fieldLabel = LabelName | LabelAppId | LabelRemark | LabelResourceName | LabelDomain
  | LabelOperator | LabelEmail | LabelGroup | LabelIssuer | LabelSubject | LabelOrganization
  | LabelService | LabelConnection | LabelOrganizationName | LabelCorpId | LabelResourceId

datatype storeMessage = KeyMissing | SealFormat | SealBroken | PlatformUnsupported
  | FieldRequired fieldLabel | FieldTooLong fieldLabel nat | SecretRequired | SecretTooLong
  | ActionsNotArray | TooManyActions | NoAction | UnknownActions "string list"
  | DuplicateAppId | ApplicationMissing | ApplicationBound | PlatformHasBindings
  | PlatformInactive | BindingUnsupported | ApplicationInactive | NotBound | InvalidUuid
  | LegacyBindingConflict | LinkRequestInvalid | LinkRequestExpired | LinkRequestWithoutOrganization
  | OrganizationUnavailable | RelayIssuerInvalid | RelayCorpMismatch | UserIdTooLong | LinkConflict
  | LinkOwnedByOther | LinkMissing | LinkWithoutIdentity | UserHashInvalid | VisibilityQueryFailed
  | ConnectorNotAuthorized | ConnectionNotAllowed | ActionNotAllowed
  | SelectionRequired "string list" | BindingConflict | StoreMsg string

record storeError =
  se_message :: storeMessage
  se_status :: int
  se_code :: "string option"

datatype appError = StoreError storeError | ConnectorError openConnectorError
  | DatabaseError violation | TypeFailure | QrError string int
  | AuthError string int

definition storeError :: "storeMessage \<Rightarrow> int \<Rightarrow> appError" where
  "storeError m s = StoreError \<lparr>se_message = m, se_status = s, se_code = None\<rparr>"

definition storeErrorCode :: "storeMessage \<Rightarrow> int \<Rightarrow> string \<Rightarrow> appError" where
  "storeErrorCode m s c = StoreError \<lparr>se_message = m, se_status = s, se_code = Some c\<rparr>"

fun liftConnector :: "openConnectorError + 'a \<Rightarrow> appError + 'a" where
  "liftConnector (Inl e) = Inl (ConnectorError e)"
| "liftConnector (Inr v) = Inr v"

lemma liftConnector_eq [simp]:
  "liftConnector r = Inr v \<longleftrightarrow> r = Inr v"
  "liftConnector r = Inl f \<longleftrightarrow> (\<exists>e. r = Inl e \<and> f = ConnectorError e)"
  by (cases r; auto)+

record consoleIdentity =
  ci_principalIssuer :: string
  ci_principalSubject :: string
  ci_email :: string
  ci_name :: string
  ci_admin :: bool

section \<open>Primitives of the platform\<close>

record crypto =
  cr_sha256 :: "string \<Rightarrow> string"
  cr_hmac :: "string \<Rightarrow> string \<Rightarrow> string"
  cr_seal :: "string \<Rightarrow> string \<Rightarrow> string \<Rightarrow> string \<times> string"
  cr_open :: "string \<Rightarrow> string \<Rightarrow> string \<Rightarrow> string \<Rightarrow> string option"

text \<open>Documented behaviour: AES-256-GCM decrypts what it encrypted under the same key and nonce,
  the tag has 16 bytes, the ciphertext as many as the plaintext at least, and SHA-256 and
  HMAC-SHA-256 give 32 bytes.\<close>

definition crypto_laws :: "crypto \<Rightarrow> bool" where
  "crypto_laws cr \<longleftrightarrow>
     (\<forall>k iv s. cr_open cr k iv (snd (cr_seal cr k iv s)) (fst (cr_seal cr k iv s)) = Some s
       \<and> length (snd (cr_seal cr k iv s)) = 16 \<and> length s \<le> length (fst (cr_seal cr k iv s)))
   \<and> (\<forall>s. length (cr_sha256 cr s) = 32) \<and> (\<forall>k s. length (cr_hmac cr k s) = 32)"

definition hex_digit :: "nat \<Rightarrow> char" where
  "hex_digit n = (if n < 10 then char_of (48 + n) else char_of (87 + n))"

definition hex :: "string \<Rightarrow> string" where
  "hex s = concat (map (\<lambda>c. [hex_digit (code_unit c div 16), hex_digit (code_unit c mod 16)]) s)"

definition sha256hex :: "crypto \<Rightarrow> string \<Rightarrow> string" where
  "sha256hex cr s = hex (cr_sha256 cr s)"

lemma hex_length [simp]: "length (hex s) = 2 * length s"
  by (induction s) (auto simp: hex_def)

lemma hex_digit_ok:
  "n < 16 \<Longrightarrow> is_digit (hex_digit n) \<or> 97 \<le> code_unit (hex_digit n) \<and> code_unit (hex_digit n) \<le> 102"
  by (auto simp: hex_digit_def is_digit_def)

lemma hex_chars: "c \<in> set (hex s) \<Longrightarrow> is_digit c \<or> 97 \<le> code_unit c \<and> code_unit c \<le> 102"
proof -
  assume "c \<in> set (hex s)"
  then obtain d where "c = hex_digit (code_unit d div 16) \<or> c = hex_digit (code_unit d mod 16)"
    by (auto simp: hex_def)
  moreover have "code_unit d div 16 < 16" "code_unit d mod 16 < 16"
    using code_unit_less[of d] by (simp_all add: less_mult_imp_div_less)
  ultimately show ?thesis using hex_digit_ok by blast
qed

lemma sha256hex_hash64: "crypto_laws cr \<Longrightarrow> is_hash64 (sha256hex cr s)"
  using hex_chars[of _ "cr_sha256 cr s"]
  by (auto simp: crypto_laws_def is_hash64_def sha256hex_def list_all_iff)

section \<open>Sealed secrets\<close>

definition ENCRYPTION_VERSION :: string where "ENCRYPTION_VERSION = ''v1''"

definition encryptionKey :: "crypto \<Rightarrow> string option \<Rightarrow> appError + string" where
  "encryptionKey cr secret = (case map_option js_trim secret of
     None \<Rightarrow> Inl (storeError KeyMissing 503)
   | Some s \<Rightarrow> if length s < 32 then Inl (storeError KeyMissing 503) else Inr (cr_sha256 cr s))"

definition encryptIntegrationSecret ::
    "crypto \<Rightarrow> string option \<Rightarrow> string \<Rightarrow> string \<Rightarrow> appError + string" where
  "encryptIntegrationSecret cr env_key iv secret =
    bindE (encryptionKey cr env_key) (\<lambda>key.
      case cr_seal cr key iv secret of (ciphertext, tag) \<Rightarrow>
        Inr (js_join ''.'' [ENCRYPTION_VERSION, base64url_encode iv, base64url_encode tag,
          base64url_encode ciphertext]))"

definition decryptIntegrationSecret :: "crypto \<Rightarrow> string option \<Rightarrow> string \<Rightarrow> appError + string" where
  "decryptIntegrationSecret cr env_key payload =
    (case js_split (CHR ''.'') payload of
       [version, ivValue, tagValue, ciphertextValue] \<Rightarrow>
         if version \<noteq> ENCRYPTION_VERSION \<or> ivValue = [] \<or> tagValue = [] \<or> ciphertextValue = []
         then Inl (storeError SealFormat 500)
         else (case encryptionKey cr env_key of
             Inl e \<Rightarrow> Inl (storeError SealBroken 500)
           | Inr key \<Rightarrow> (case cr_open cr key (base64url_decode ivValue) (base64url_decode tagValue)
                 (base64url_decode ciphertextValue) of
               None \<Rightarrow> Inl (storeError SealBroken 500)
             | Some s \<Rightarrow> Inr s))
     | _ \<Rightarrow> Inl (storeError SealFormat 500))"

lemma js_split_word: "d \<notin> set w \<Longrightarrow> js_split d w = [w]"
  by (induction w) auto

lemma js_split_append:
  "d \<notin> set w \<Longrightarrow> js_split d (w @ d # s) = w # js_split d s"
  by (induction w) auto

lemma decrypt_encrypt:
  assumes "crypto_laws cr" "encryptIntegrationSecret cr k iv secret = Inr sealed"
    "iv \<noteq> []" "secret \<noteq> []"
  shows "decryptIntegrationSecret cr k sealed = Inr secret"
proof -
  obtain key where key: "encryptionKey cr k = Inr key"
    using assms(2) by (auto simp: encryptIntegrationSecret_def)
  let ?c = "fst (cr_seal cr key iv secret)" and ?t = "snd (cr_seal cr key iv secret)"
  have law: "cr_open cr key iv ?t ?c = Some secret" "length ?t = 16" "length secret \<le> length ?c"
    using assms(1) by (auto simp: crypto_laws_def)
  then have ne: "?t \<noteq> []" "?c \<noteq> []" using assms(4) by auto
  have "sealed = ENCRYPTION_VERSION @ CHR ''.'' # base64url_encode iv @ CHR ''.''
      # base64url_encode ?t @ CHR ''.'' # base64url_encode ?c"
    using assms(2) key by (auto simp: encryptIntegrationSecret_def split: prod.splits)
  then have "js_split (CHR ''.'') sealed = [ENCRYPTION_VERSION, base64url_encode iv,
      base64url_encode ?t, base64url_encode ?c]"
    by (simp add: js_split_append js_split_word base64url_no_dot ENCRYPTION_VERSION_def)
  with key law ne assms(3) show ?thesis by (simp add: decryptIntegrationSecret_def)
qed

section \<open>Field validation\<close>

definition APP_ID_MAX_LENGTH :: nat where "APP_ID_MAX_LENGTH = 255"
definition APP_NAME_MAX_LENGTH :: nat where "APP_NAME_MAX_LENGTH = 120"
definition APP_NOTE_MAX_LENGTH :: nat where "APP_NOTE_MAX_LENGTH = 500"
definition APP_SECRET_MAX_LENGTH :: nat where "APP_SECRET_MAX_LENGTH = 4096"
definition ACTION_IDS_MAX_COUNT :: nat where "ACTION_IDS_MAX_COUNT = 1000"

definition requiredValue :: "json \<Rightarrow> fieldLabel \<Rightarrow> nat \<Rightarrow> appError + string" where
  "requiredValue v label maxLength =
    (let normalized = js_trim (the_string v) in
     if normalized = [] then Inl (storeError (FieldRequired label) 400)
     else if length normalized > maxLength then Inl (storeError (FieldTooLong label maxLength) 400)
     else Inr normalized)"

definition requiredSecret :: "json \<Rightarrow> appError + string" where
  "requiredSecret v =
    (if \<not> is_string v \<or> js_trim (the_string v) = [] then Inl (storeError SecretRequired 400)
     else if length (the_string v) > APP_SECRET_MAX_LENGTH then Inl (storeError SecretTooLong 400)
     else Inr (the_string v))"

definition optionalValue :: "json \<Rightarrow> fieldLabel \<Rightarrow> nat \<Rightarrow> appError + string" where
  "optionalValue v label maxLength =
    (let normalized = js_trim (the_string v) in
     if length normalized > maxLength then Inl (storeError (FieldTooLong label maxLength) 400)
     else Inr normalized)"

definition optionalSecret :: "json \<Rightarrow> appError + string option" where
  "optionalSecret v =
    (if v = JUndef \<or> v = JNull \<or> is_string v \<and> js_trim (the_string v) = [] then Inr None
     else bindE (requiredSecret v) (\<lambda>s. Inr (Some s)))"

definition storedActionIds :: "json \<Rightarrow> string list" where
  "storedActionIds v = dedup (stringArray v)"

definition hex_any :: "char \<Rightarrow> bool" where
  "hex_any c \<longleftrightarrow> is_digit c \<or> 97 \<le> code_unit (lower_char c) \<and> code_unit (lower_char c) \<le> 102
     \<and> (is_upper c \<or> is_lower c)"

text \<open>The UUID pattern, group by group: 8, 4, 4, 4 and 12 hexadecimal digits, the version digit 1
  to 8 and the variant digit 8, 9, a or b.\<close>

definition valid_uuid :: "string \<Rightarrow> bool" where
  "valid_uuid s = (case js_split (CHR ''-'') s of
     [a, b, c, d, e] \<Rightarrow> map length [a, b, c, d, e] = [8, 4, 4, 4, 12]
       \<and> list_all hex_any (a @ b @ c @ d @ e)
       \<and> 49 \<le> code_unit (hd c) \<and> code_unit (hd c) \<le> 56
       \<and> js_lower [hd d] \<in> {''8'', ''9'', ''a'', ''b''}
   | _ \<Rightarrow> False)"

text \<open>The column type UUID compares without regard to case.\<close>

definition requiredUuid :: "string \<Rightarrow> appError + string" where
  "requiredUuid v = (if valid_uuid v then Inr (js_lower v) else Inl (storeError InvalidUuid 400))"

lemma requiredValue_ok:
  "requiredValue v l n = Inr s \<Longrightarrow> s \<noteq> [] \<and> length s \<le> n \<and> js_trim s = s"
  by (auto simp: requiredValue_def Let_def split: if_splits)

lemma optionalValue_ok: "optionalValue v l n = Inr s \<Longrightarrow> length s \<le> n \<and> js_trim s = s"
  by (auto simp: optionalValue_def Let_def split: if_splits)

lemma requiredSecret_ok:
  "requiredSecret v = Inr s \<Longrightarrow> v = JStr s \<and> js_trim s \<noteq> [] \<and> length s \<le> APP_SECRET_MAX_LENGTH"
  by (auto simp: requiredSecret_def is_string_iff split: if_splits)

lemma distinct_storedActionIds [simp]: "distinct (storedActionIds v)"
  by (simp add: storedActionIds_def)

lemma storedActionIds_strings [simp]:
  "(\<And>s. s \<in> set ids \<Longrightarrow> js_trim s = s \<and> s \<noteq> []) \<Longrightarrow>
    storedActionIds (JArr (map JStr ids)) = dedup ids"
  by (induction ids) (auto simp: storedActionIds_def stringArray_def)

lemma storedActionIds_trimmed: "s \<in> set (storedActionIds v) \<Longrightarrow> js_trim s = s \<and> s \<noteq> []"
  by (auto simp: storedActionIds_def stringArray_def split: json.splits)

section \<open>Platforms and their actions\<close>

datatype bindingMode = ModeOAuth2 | ModeUnsupported

record platformDefinition =
  pd_platform :: platform
  pd_service :: "string option"
  pd_bindingMode :: bindingMode
  pd_defaultActionIds :: "string list"
  pd_excludedActionIds :: "string list"

definition FEISHU_DEFAULT_ACTION_IDS :: "string list" where
  "FEISHU_DEFAULT_ACTION_IDS = [
    ''feishu.get_current_user'', ''feishu.get_document'', ''feishu.get_document_content'',
    ''feishu.list_document_blocks'', ''feishu.list_bitable_tables'',
    ''feishu.list_bitable_fields'', ''feishu.search_bitable_records'']"

definition platformDefinitions :: "platformDefinition list" where
  "platformDefinitions = [
    \<lparr>pd_platform = Feishu, pd_service = Some ''feishu'', pd_bindingMode = ModeOAuth2,
     pd_defaultActionIds = FEISHU_DEFAULT_ACTION_IDS, pd_excludedActionIds = []\<rparr>,
    \<lparr>pd_platform = Dingtalk, pd_service = None, pd_bindingMode = ModeUnsupported,
     pd_defaultActionIds = [], pd_excludedActionIds = []\<rparr>]"

definition platformDefinition :: "platform \<Rightarrow> appError + platformDefinition" where
  "platformDefinition p = (case List.find (\<lambda>d. pd_platform d = p) platformDefinitions of
     None \<Rightarrow> Inl (storeError PlatformUnsupported 400) | Some d \<Rightarrow> Inr d)"

definition normalizePlatform :: "json \<Rightarrow> appError + platform" where
  "normalizePlatform v =
    (if v = JStr ''feishu'' then Inr Feishu else if v = JStr ''dingtalk'' then Inr Dingtalk
     else Inl (storeError PlatformUnsupported 400))"

record actionOption =
  ao_id :: string
  ao_name :: string
  ao_description :: "string option"
  ao_providerPermissions :: "string list"

record actionCatalog =
  ac_actions :: "actionOption list"
  ac_defaultActionIds :: "string list"
  ac_oauthBaseScopes :: "string list"

definition catalog_only :: "connectorActionDefinition \<Rightarrow> bool" where
  "catalog_only a = (case ca_execution a of None \<Rightarrow> False | Some e \<Rightarrow> ce_catalogOnly e)"

fun oauth_scopes :: "connectorAuthDefinition list \<Rightarrow> string list" where
  "oauth_scopes [] = []"
| "oauth_scopes (DefOAuth2 scopes flds # ds) = scopes"
| "oauth_scopes (d # ds) = oauth_scopes ds"

definition catalogOfProvider ::
    "ocEnv \<Rightarrow> platformDefinition \<Rightarrow> connectorProviderDetail \<Rightarrow> actionCatalog" where
  "catalogOfProvider env definition provider =
    (let actions = sort_by (\<lambda>l r. env_collate env (ao_name l) (ao_name r))
           (map (\<lambda>a. \<lparr>ao_id = ca_id a, ao_name = ca_name a, ao_description = ca_description a,
                 ao_providerPermissions = ca_providerPermissions a\<rparr>)
             (filter (\<lambda>a. \<not> catalog_only a \<and> ca_id a \<notin> set (pd_excludedActionIds definition))
               (cp_actions provider)));
         actionPermissions = concat (map ao_providerPermissions actions)
     in \<lparr>ac_actions = actions,
         ac_defaultActionIds = filter (\<lambda>i. i \<in> set (map ao_id actions))
           (pd_defaultActionIds definition),
         ac_oauthBaseScopes = filter (\<lambda>s. s \<notin> set actionPermissions)
           (oauth_scopes (cp_auth provider))\<rparr>)"

definition integrationActionCatalog :: "ocEnv \<Rightarrow> platform \<Rightarrow> appError + actionCatalog" where
  "integrationActionCatalog env p =
    bindE (platformDefinition p) (\<lambda>definition.
      case pd_service definition of
        None \<Rightarrow> Inr \<lparr>ac_actions = [], ac_defaultActionIds = [], ac_oauthBaseScopes = []\<rparr>
      | Some service \<Rightarrow> bindE (liftConnector (getConnectorProvider env service)) (\<lambda>provider.
          Inr (catalogOfProvider env definition provider)))"

definition requestedActionIds :: "json \<Rightarrow> string list \<Rightarrow> string list option" where
  "requestedActionIds v fallback =
    (case v of JUndef \<Rightarrow> Some fallback
     | JArr items \<Rightarrow> Some (dedup (filter (\<lambda>s. s \<noteq> []) (map (\<lambda>i. js_trim (the_string i)) items)))
     | _ \<Rightarrow> None)"

definition normalizeIntegrationActionIds ::
    "ocEnv \<Rightarrow> platform \<Rightarrow> json \<Rightarrow> string list \<Rightarrow> appError + string list" where
  "normalizeIntegrationActionIds env p v fallback =
    (case requestedActionIds v fallback of
       None \<Rightarrow> Inl (storeError ActionsNotArray 400)
     | Some actionIds \<Rightarrow>
         if length actionIds > ACTION_IDS_MAX_COUNT then Inl (storeError TooManyActions 400)
         else bindE (integrationActionCatalog env p) (\<lambda>catalog.
           if length (ac_actions catalog) > 0 \<and> actionIds = []
           then Inl (storeError NoAction 400)
           else let unknownIds = filter (\<lambda>i. i \<notin> set (map ao_id (ac_actions catalog))) actionIds in
             if unknownIds \<noteq> [] then Inl (storeError (UnknownActions (take 3 unknownIds)) 400)
             else Inr actionIds))"

lemma normalizeIntegrationActionIds_ok:
  assumes "normalizeIntegrationActionIds env p v fallback = Inr ids"
  obtains c where "integrationActionCatalog env p = Inr c"
    "set ids \<subseteq> set (map ao_id (ac_actions c))" "length ids \<le> ACTION_IDS_MAX_COUNT"
    "ac_actions c \<noteq> [] \<Longrightarrow> ids \<noteq> []" "requestedActionIds v fallback = Some ids"
  using assms
  by (auto simp: normalizeIntegrationActionIds_def Let_def filter_empty_conv subset_code(1)
      split: option.split_asm if_split_asm)

lemma requestedActionIds_distinct:
  "requestedActionIds v fallback = Some ids \<Longrightarrow> distinct fallback \<Longrightarrow> distinct ids"
  by (auto simp: requestedActionIds_def split: json.splits)

lemma requestedActionIds_trimmed:
  "requestedActionIds v fallback = Some ids \<Longrightarrow> (\<And>s. s \<in> set fallback \<Longrightarrow> js_trim s = s \<and> s \<noteq> [])
    \<Longrightarrow> s \<in> set ids \<Longrightarrow> js_trim s = s \<and> s \<noteq> []"
  by (auto simp: requestedActionIds_def split: json.splits)

lemma default_ids_trimmed:
  "s \<in> set FEISHU_DEFAULT_ACTION_IDS \<Longrightarrow> js_trim s = s \<and> s \<noteq> []"
  "distinct FEISHU_DEFAULT_ACTION_IDS"
  by (auto simp: FEISHU_DEFAULT_ACTION_IDS_def js_trim_def is_space_def code_unit_def)

text \<open>A small instance of the primitives, for concrete runs.\<close>

definition demo_crypto :: crypto where
  "demo_crypto = \<lparr>cr_sha256 = (\<lambda>s. replicate 32 (CHR ''h'')),
     cr_hmac = (\<lambda>k s. replicate 32 (CHR ''m'')),
     cr_seal = (\<lambda>k iv s. (s, replicate 16 (CHR ''t''))), cr_open = (\<lambda>k iv t c. Some c)\<rparr>"

lemma demo_crypto_laws: "crypto_laws demo_crypto"
  by (simp add: crypto_laws_def demo_crypto_def)

end
