(* ===== verification/Identity_Link.thy ===== *)
theory Identity_Link
  imports Integration_Core
begin

text \<open>
  Linking a WeCom identity to a platform account (src/ai-console/src/lib/server/integrations.ts):
  the one-time login requests, their verification against the relay's answer, the link that
  completes them, and the links' removal. Every handler is one transaction. NOW() of the database
  and the clock of the server are one parameter; the URL parser of Node is a parameter.
\<close>

record parsedUrl =
  url_protocol :: string
  url_username :: string
  url_password :: string
  url_pathname :: string
  url_search :: string
  url_hash :: string
  url_href :: string

record linkEnv =
  le_crypto :: crypto
  le_url :: "string \<Rightarrow> parsedUrl option"

definition WECOM_IDENTITY_LOGIN_LIFETIME_MS :: int where
  "WECOM_IDENTITY_LOGIN_LIFETIME_MS = 30 * 60 * 1000"

definition DAY_MS :: int where "DAY_MS = 24 * 60 * 60 * 1000"

section \<open>Trusted relay identities\<close>

record relayIdentity =
  ri_corpId :: string
  ri_userId :: string
  ri_relayIssuer :: string

record trustedIdentity =
  ti_issuer :: string
  ti_subject :: string
  ti_corpHash :: string
  ti_userHash :: string

definition strip_slash :: "string \<Rightarrow> string" where
  "strip_slash s = (if s \<noteq> [] \<and> last s = CHR ''/'' then butlast s else s)"

definition relayIssuerOf :: "linkEnv \<Rightarrow> string \<Rightarrow> string option" where
  "relayIssuerOf env s = (case le_url env s of None \<Rightarrow> None
     | Some u \<Rightarrow> if url_protocol u \<noteq> ''https:'' \<or> url_username u \<noteq> [] \<or> url_password u \<noteq> []
           \<or> url_pathname u \<noteq> ''/wecom'' \<or> url_search u \<noteq> [] \<or> url_hash u \<noteq> []
         then None else Some (strip_slash (url_href u)))"

definition deriveTrustedWeComRelayIdentity ::
    "linkEnv \<Rightarrow> relayIdentity \<Rightarrow> string \<Rightarrow> appError + trustedIdentity" where
  "deriveTrustedWeComRelayIdentity env identity configuredCorpId =
    (let corpId = js_trim (ri_corpId identity);
         userId = js_trim (ri_userId identity);
         expected = js_trim configuredCorpId in
     case relayIssuerOf env (ri_relayIssuer identity) of
       None \<Rightarrow> Inl (storeErrorCode RelayIssuerInvalid 403 ''invalid_wecom_identity'')
     | Some relayIssuer \<Rightarrow>
         if corpId = [] \<or> corpId \<noteq> expected \<or> userId = []
         then Inl (storeErrorCode RelayCorpMismatch 403 ''invalid_wecom_identity'')
         else if length userId > 256
         then Inl (storeErrorCode UserIdTooLong 403 ''invalid_wecom_identity'')
         else Inr \<lparr>ti_issuer = relayIssuer,
           ti_subject = ''wecom_'' @ base64url_encode
             (cr_sha256 (le_crypto env) (corpId @ [CHR 0x00] @ userId)),
           ti_corpHash = sha256hex (le_crypto env) corpId,
           ti_userHash = sha256hex (le_crypto env) userId\<rparr>)"

definition valid_link_secret :: "string \<Rightarrow> bool" where
  "valid_link_secret s \<longleftrightarrow> length s = 43 \<and> list_all base64url_char s"

definition validateWeComIdentityLoginSecrets :: "string \<Rightarrow> string \<Rightarrow> appError + unit" where
  "validateWeComIdentityLoginSecrets requestToken browserNonce =
    guardE (valid_link_secret requestToken \<and> valid_link_secret browserNonce)
      (storeErrorCode LinkRequestInvalid 400 ''invalid_wecom_link_request'')"

definition organizationConfigured :: "organizationRow \<Rightarrow> bool" where
  "organizationConfigured g \<longleftrightarrow> og_active g \<and> og_corp_id g \<noteq> [] \<and> og_relay_callback_url g \<noteq> None"

definition configuredWeComOrganization :: "db \<Rightarrow> string \<Rightarrow> appError + organizationRow" where
  "configuredWeComOrganization d organizationId =
    (case List.find (\<lambda>g. og_id g = organizationId \<and> organizationConfigured g) (organizations d) of
       None \<Rightarrow> Inl (storeErrorCode OrganizationUnavailable 503 ''wecom_authentication_unavailable'')
     | Some g \<Rightarrow> Inr g)"

record linkedIdentity =
  li_linkId :: string
  li_organizationId :: string
  li_principalIssuer :: string
  li_principalSubject :: string
  li_email :: string
  li_name :: string

definition linkedPlatformIdentity :: "linkRow \<Rightarrow> appError + linkedIdentity" where
  "linkedPlatformIdentity row =
    (if lk_principal_email row = [] \<or> lk_principal_name row = []
     then Inl (storeErrorCode LinkWithoutIdentity 500 ''invalid_wecom_identity'')
     else Inr \<lparr>li_linkId = lk_id row, li_organizationId = lk_organization_id row,
       li_principalIssuer = lk_principal_issuer row, li_principalSubject = lk_principal_subject row,
       li_email = lk_principal_email row, li_name = lk_principal_name row\<rparr>)"

section \<open>Login requests\<close>

definition newLoginRow :: "string \<Rightarrow> string \<Rightarrow> string \<Rightarrow> int \<Rightarrow> loginRow" where
  "newLoginRow requestHash nonceHash organizationId now =
    \<lparr>lr_request_hash = requestHash, lr_nonce_hash = nonceHash,
     lr_organization_id = Some organizationId, lr_wecom_issuer = None, lr_wecom_subject = None,
     lr_corp_hash = None, lr_user_hash = None, lr_created_at = now,
     lr_expires_at = now + WECOM_IDENTITY_LOGIN_LIFETIME_MS, lr_verified_at = None,
     lr_consumed_at = None\<rparr>"

definition databaseStep :: "violation + db \<Rightarrow> appError + db" where
  "databaseStep r = (case r of Inl v \<Rightarrow> Inl (DatabaseError v) | Inr d \<Rightarrow> Inr d)"

text \<open>The two tokens are base64url texts of 32 random bytes, chosen by the caller here.\<close>

definition createBody ::
    "linkEnv \<Rightarrow> int \<Rightarrow> string \<Rightarrow> string \<Rightarrow> string \<Rightarrow> db \<Rightarrow> appError + (string \<times> string) \<times> db" where
  "createBody env now requestToken browserNonce organizationId d =
    bindE (configuredWeComOrganization d organizationId) (\<lambda>_.
    bindE (databaseStep (checked (d\<lparr>logins := filter (\<lambda>r. \<not> (lr_expires_at r < now - DAY_MS
        \<or> lr_consumed_at r \<noteq> None)) (logins d)\<rparr>))) (\<lambda>d1.
    bindE (databaseStep (checked (d1\<lparr>logins := logins d1 @ [newLoginRow
        (sha256hex (le_crypto env) requestToken) (sha256hex (le_crypto env) browserNonce)
        organizationId now]\<rparr>))) (\<lambda>d2.
      Inr ((requestToken, browserNonce), d2))))"

definition createWeComIdentityLoginRequest ::
    "linkEnv \<Rightarrow> int \<Rightarrow> string \<Rightarrow> string \<Rightarrow> string \<Rightarrow> db
      \<Rightarrow> (appError + (string \<times> string)) \<times> db" where
  "createWeComIdentityLoginRequest env now requestToken browserNonce organizationId d =
    transaction (createBody env now requestToken browserNonce organizationId) d"

definition openLogin :: "linkEnv \<Rightarrow> string \<Rightarrow> string \<Rightarrow> loginRow \<Rightarrow> bool" where
  "openLogin env requestToken browserNonce r \<longleftrightarrow>
     lr_request_hash r = sha256hex (le_crypto env) requestToken
     \<and> lr_nonce_hash r = sha256hex (le_crypto env) browserNonce \<and> lr_consumed_at r = None"

definition matchingLinks :: "string \<Rightarrow> string \<Rightarrow> string \<Rightarrow> string \<Rightarrow> db \<Rightarrow> linkRow list" where
  "matchingLinks issuer subject corpHash userHash d = filter (\<lambda>l.
     lk_wecom_issuer l = issuer \<and> lk_wecom_subject l = subject
     \<or> lk_corp_hash l = corpHash \<and> lk_user_hash l = userHash) (links d)"

definition updateLogins :: "string \<Rightarrow> (loginRow \<Rightarrow> loginRow) \<Rightarrow> db \<Rightarrow> db" where
  "updateLogins h f d = d\<lparr>logins := map (\<lambda>r. if lr_request_hash r = h then f r else r) (logins d)\<rparr>"

definition verifiedLogin :: "trustedIdentity \<Rightarrow> int \<Rightarrow> bool \<Rightarrow> loginRow \<Rightarrow> loginRow" where
  "verifiedLogin trusted now consume r = r\<lparr>lr_wecom_issuer := Some (ti_issuer trusted),
     lr_wecom_subject := Some (ti_subject trusted), lr_corp_hash := Some (ti_corpHash trusted),
     lr_user_hash := Some (ti_userHash trusted), lr_verified_at := Some now,
     lr_consumed_at := (if consume then Some now else None)\<rparr>"

definition expiredRequest :: appError where
  "expiredRequest = storeErrorCode LinkRequestExpired 410 ''expired_wecom_link_request''"

definition resolveBody ::
    "linkEnv \<Rightarrow> int \<Rightarrow> string \<Rightarrow> string \<Rightarrow> relayIdentity \<Rightarrow> db \<Rightarrow> appError + linkRow option \<times> db" where
  "resolveBody env now requestToken browserNonce identity d =
    (case List.find (openLogin env requestToken browserNonce) (logins d) of
       None \<Rightarrow> Inl expiredRequest
     | Some loginRequest \<Rightarrow>
         if lr_expires_at loginRequest \<le> now then Inl expiredRequest
         else case lr_organization_id loginRequest of
           None \<Rightarrow> Inl (storeErrorCode LinkRequestWithoutOrganization 400 ''invalid_wecom_link_request'')
         | Some organizationId \<Rightarrow>
             bindE (configuredWeComOrganization d organizationId) (\<lambda>organization.
             bindE (deriveTrustedWeComRelayIdentity env identity (og_corp_id organization)) (\<lambda>trusted.
             let existing = matchingLinks (ti_issuer trusted) (ti_subject trusted)
                   (ti_corpHash trusted) (ti_userHash trusted) d in
             if length existing > 1
             then Inl (storeErrorCode LinkConflict 409 ''wecom_identity_conflict'')
             else bindE (databaseStep (checked (updateLogins (lr_request_hash loginRequest)
                 (verifiedLogin trusted now (length existing = 1)) d))) (\<lambda>d'.
               Inr (case existing of [] \<Rightarrow> None | l # _ \<Rightarrow> Some l, d')))))"

datatype resolveResult = Linked linkedIdentity | LoginRequired

text \<open>The answer is built after COMMIT.\<close>

definition resolveWeComIdentityLoginRequest ::
    "linkEnv \<Rightarrow> int \<Rightarrow> string \<Rightarrow> string \<Rightarrow> relayIdentity \<Rightarrow> db \<Rightarrow> (appError + resolveResult) \<times> db" where
  "resolveWeComIdentityLoginRequest env now requestToken browserNonce identity d =
    (case validateWeComIdentityLoginSecrets requestToken browserNonce of
       Inl e \<Rightarrow> (Inl e, d)
     | Inr u \<Rightarrow> (case transaction (resolveBody env now requestToken browserNonce identity) d of
           (Inl e, d') \<Rightarrow> (Inl e, d')
         | (Inr None, d') \<Rightarrow> (Inr LoginRequired, d')
         | (Inr (Some l), d') \<Rightarrow> (bindE (linkedPlatformIdentity l) (\<lambda>i. Inr (Linked i)), d')))"

definition newLinkRow :: "string \<Rightarrow> consoleIdentity \<Rightarrow> string \<Rightarrow> trustedIdentity \<Rightarrow> int \<Rightarrow> linkRow" where
  "newLinkRow uuid identity organizationId w now =
    \<lparr>lk_id = uuid, lk_organization_id = organizationId,
     lk_principal_issuer = ci_principalIssuer identity,
     lk_principal_subject = ci_principalSubject identity,
     lk_principal_email = ci_email identity, lk_principal_name = ci_name identity,
     lk_wecom_issuer = ti_issuer w, lk_wecom_subject = ti_subject w,
     lk_corp_hash = ti_corpHash w, lk_user_hash = ti_userHash w,
     lk_linked_at = now, lk_updated_at = now\<rparr>"

definition sameLinkSlot :: "linkRow \<Rightarrow> linkRow \<Rightarrow> bool" where
  "sameLinkSlot new l \<longleftrightarrow> lk_principal_issuer l = lk_principal_issuer new
     \<and> lk_principal_subject l = lk_principal_subject new
     \<and> lk_organization_id l = lk_organization_id new"

text \<open>INSERT ... ON CONFLICT (issuer, subject, organization) DO UPDATE ... RETURNING id.\<close>

definition upsertLink :: "linkRow \<Rightarrow> db \<Rightarrow> violation + string \<times> db" where
  "upsertLink new d =
    (case List.find (sameLinkSlot new) (links d) of
       Some l \<Rightarrow> bindE (checked (d\<lparr>links := map (\<lambda>l. if sameLinkSlot new l then new\<lparr>lk_id := lk_id l\<rparr> else l)
           (links d)\<rparr>)) (\<lambda>d'. Inr (lk_id l, d'))
     | None \<Rightarrow> bindE (checked (d\<lparr>links := links d @ [new]\<rparr>)) (\<lambda>d'. Inr (lk_id new, d')))"

definition loginIdentity :: "loginRow \<Rightarrow> trustedIdentity option" where
  "loginIdentity r =
    (case (lr_verified_at r, lr_wecom_issuer r, lr_wecom_subject r, lr_corp_hash r, lr_user_hash r) of
       (Some t, Some i, Some s, Some c, Some u) \<Rightarrow>
         if i = [] \<or> s = [] \<or> c = [] \<or> u = [] then None
         else Some \<lparr>ti_issuer = i, ti_subject = s, ti_corpHash = c, ti_userHash = u\<rparr>
     | _ \<Rightarrow> None)"

definition completeBody ::
    "linkEnv \<Rightarrow> int \<Rightarrow> string \<Rightarrow> string \<Rightarrow> string \<Rightarrow> consoleIdentity \<Rightarrow> db \<Rightarrow> appError + string \<times> db" where
  "completeBody env now uuid requestToken browserNonce identity d =
    (case List.find (openLogin env requestToken browserNonce) (logins d) of
       None \<Rightarrow> Inl expiredRequest
     | Some loginRequest \<Rightarrow>
         (case (loginIdentity loginRequest, lr_organization_id loginRequest) of
            (Some w, Some organizationId) \<Rightarrow>
              if lr_expires_at loginRequest \<le> now then Inl expiredRequest
              else if list_ex (\<lambda>l. lk_principal_issuer l \<noteq> ci_principalIssuer identity
                  \<or> lk_principal_subject l \<noteq> ci_principalSubject identity)
                  (matchingLinks (ti_issuer w) (ti_subject w) (ti_corpHash w) (ti_userHash w) d)
              then Inl (storeErrorCode LinkOwnedByOther 409 ''wecom_identity_conflict'')
              else (case upsertLink (newLinkRow uuid identity organizationId w now) d of
                  Inl UniqueViolation \<Rightarrow>
                    Inl (storeErrorCode LinkOwnedByOther 409 ''wecom_identity_conflict'')
                | Inl v \<Rightarrow> Inl (DatabaseError v)
                | Inr (linkId, d1) \<Rightarrow>
                    bindE (databaseStep (checked (updateLogins (lr_request_hash loginRequest)
                      (\<lambda>r. if lr_consumed_at r = None then r\<lparr>lr_consumed_at := Some now\<rparr> else r) d1)))
                      (\<lambda>d2. Inr (linkId, d2)))
          | _ \<Rightarrow> Inl expiredRequest))"

definition completeVerifiedWeComIdentityLinkRequest ::
    "linkEnv \<Rightarrow> int \<Rightarrow> string \<Rightarrow> string \<Rightarrow> string \<Rightarrow> consoleIdentity \<Rightarrow> db \<Rightarrow> (appError + string) \<times> db" where
  "completeVerifiedWeComIdentityLinkRequest env now uuid requestToken browserNonce identity d =
    (case validateWeComIdentityLoginSecrets requestToken browserNonce of
       Inl e \<Rightarrow> (Inl e, d)
     | Inr u \<Rightarrow> transaction (completeBody env now uuid requestToken browserNonce identity) d)"

section \<open>Reading and removing links\<close>

definition ownLink :: "string \<Rightarrow> string \<Rightarrow> linkRow \<Rightarrow> bool" where
  "ownLink issuer subject l \<longleftrightarrow> lk_principal_issuer l = issuer \<and> lk_principal_subject l = subject"

definition getWeComLinkedPlatformIdentity ::
    "string \<Rightarrow> string \<Rightarrow> string \<Rightarrow> db \<Rightarrow> appError + linkedIdentity option" where
  "getWeComLinkedPlatformIdentity issuer subject linkId d =
    (case List.find (\<lambda>l. ownLink issuer subject l \<and> lk_id l = linkId) (links d) of
       None \<Rightarrow> Inr None
     | Some l \<Rightarrow> bindE (linkedPlatformIdentity l) (\<lambda>i. Inr (Some i)))"

record identityClaim =
  ic_organizationId :: string
  ic_corpGroup :: string
  ic_userIdHash :: string

definition getLinkedWeComIdentityClaims :: "string \<Rightarrow> string \<Rightarrow> db \<Rightarrow> identityClaim list" where
  "getLinkedWeComIdentityClaims issuer subject d = map (\<lambda>l.
     \<lparr>ic_organizationId = lk_organization_id l,
      ic_corpGroup = ''wecom:'' @ take 12 (lk_corp_hash l), ic_userIdHash = lk_user_hash l\<rparr>)
     (filter (ownLink issuer subject) (links d))"

text \<open>The snapshot's rows, with the inner join on the organisations; the collation orders names.\<close>

definition getWeComIdentityLinkSnapshot ::
    "(string \<Rightarrow> string \<Rightarrow> bool) \<Rightarrow> string \<Rightarrow> string \<Rightarrow> db \<Rightarrow> (string \<times> string \<times> string \<times> int) list" where
  "getWeComIdentityLinkSnapshot collate issuer subject d =
    map (\<lambda>(l, g). (lk_id l, lk_organization_id l, og_name g, lk_linked_at l))
      (sort_by (\<lambda>(l, g) (m, h). if og_name g \<noteq> og_name h then collate (og_name g) (og_name h)
          else lk_linked_at l < lk_linked_at m
            \<or> lk_linked_at l = lk_linked_at m \<and> str_le (lk_id l) (lk_id m))
        (concat (map (\<lambda>l. map (\<lambda>g. (l, g)) (filter (\<lambda>g. og_id g = lk_organization_id l) (organizations d)))
          (filter (ownLink issuer subject) (links d)))))"

definition disconnectWeComIdentityLink ::
    "string \<Rightarrow> string \<Rightarrow> string \<Rightarrow> db \<Rightarrow> (appError + unit) \<times> db" where
  "disconnectWeComIdentityLink issuer subject linkId d =
    (case requiredUuid linkId of
       Inl e \<Rightarrow> (Inl e, d)
     | Inr safeId \<Rightarrow>
         if list_ex (\<lambda>l. ownLink issuer subject l \<and> lk_id l = safeId) (links d)
         then (case checked (d\<lparr>links := filter (\<lambda>l. \<not> (ownLink issuer subject l \<and> lk_id l = safeId))
             (links d)\<rparr>) of Inl v \<Rightarrow> (Inl (DatabaseError v), d) | Inr d' \<Rightarrow> (Inr (), d'))
         else (Inl (storeError LinkMissing 404), d))"

section \<open>Consistency of the handlers\<close>

lemma databaseStep_eq [simp]:
  "databaseStep r = Inr d \<longleftrightarrow> r = Inr d"
  "databaseStep r = Inl e \<longleftrightarrow> (\<exists>v. r = Inl v \<and> e = DatabaseError v)"
  by (auto simp: databaseStep_def split: sum.splits)

lemma createBody_ok: "createBody env now t n g d = Inr (v, d') \<Longrightarrow> db_ok d'"
  by (auto simp: createBody_def)

lemma resolveBody_Inr:
  assumes "resolveBody env now t n identity d = Inr (v, d')"
  obtains req g organizationId w where "List.find (openLogin env t n) (logins d) = Some req"
    "now < lr_expires_at req" "lr_organization_id req = Some organizationId"
    "configuredWeComOrganization d organizationId = Inr g"
    "deriveTrustedWeComRelayIdentity env identity (og_corp_id g) = Inr w"
    "length (matchingLinks (ti_issuer w) (ti_subject w) (ti_corpHash w) (ti_userHash w) d) \<le> 1"
    "v = (case matchingLinks (ti_issuer w) (ti_subject w) (ti_corpHash w) (ti_userHash w) d of
        [] \<Rightarrow> None | l # _ \<Rightarrow> Some l)"
    "d' = updateLogins (lr_request_hash req) (verifiedLogin w now (v \<noteq> None)) d" "db_ok d'"
proof -
  obtain req where req: "List.find (openLogin env t n) (logins d) = Some req"
    using assms by (cases "List.find (openLogin env t n) (logins d)") (simp_all add: resolveBody_def)
  obtain organizationId where gid: "lr_organization_id req = Some organizationId" "now < lr_expires_at req"
    using assms req by (cases "lr_organization_id req") (auto simp: resolveBody_def split: if_splits)
  obtain g where g: "configuredWeComOrganization d organizationId = Inr g"
    using assms req gid by (auto simp: resolveBody_def)
  obtain w where w: "deriveTrustedWeComRelayIdentity env identity (og_corp_id g) = Inr w"
    using assms req gid g by (auto simp: resolveBody_def)
  let ?m = "matchingLinks (ti_issuer w) (ti_subject w) (ti_corpHash w) (ti_userHash w) d"
  have m: "length ?m \<le> 1" "v = (case ?m of [] \<Rightarrow> None | l # _ \<Rightarrow> Some l)"
    "d' = updateLogins (lr_request_hash req) (verifiedLogin w now (length ?m = 1)) d" "db_ok d'"
    using assms req gid g w by (auto simp: resolveBody_def Let_def split: if_splits)
  have "(length ?m = 1) = (v \<noteq> None)" using m(1,2) by (cases ?m) auto
  with m that[OF req gid(2) gid(1) g w] show thesis by simp
qed

lemma upsertLink_Inr:
  assumes "upsertLink new d = Inr (linkId, d')"
  obtains l where "l = new\<lparr>lk_id := linkId\<rparr>" "l \<in> set (links d')" "db_ok d'"
    "logins d' = logins d" "organizations d' = organizations d"
    "filter (\<lambda>l. \<not> sameLinkSlot new l) (links d') = filter (\<lambda>l. \<not> sameLinkSlot new l) (links d)"
proof (cases "List.find (sameLinkSlot new) (links d)")
  case None
  then have d': "d' = d\<lparr>links := links d @ [new]\<rparr>" "linkId = lk_id new" "db_ok d'"
    using assms by (auto simp: upsertLink_def)
  have "sameLinkSlot new new" by (simp add: sameLinkSlot_def)
  with d' show thesis by (intro that[of new]) simp_all
next
  case (Some l)
  let ?f = "\<lambda>l. if sameLinkSlot new l then new\<lparr>lk_id := lk_id l\<rparr> else l"
  have d': "d' = d\<lparr>links := map ?f (links d)\<rparr>" "linkId = lk_id l" "db_ok d'"
    using assms Some by (auto simp: upsertLink_def)
  have l: "l \<in> set (links d)" "sameLinkSlot new l"
    using Some by (auto simp: find_Some_iff)
  have "?f l \<in> set (map ?f (links d))" unfolding set_map by (rule imageI[OF l(1)])
  then have "new\<lparr>lk_id := linkId\<rparr> \<in> set (links d')" using d' l(2) by simp
  moreover have "filter (\<lambda>l. \<not> sameLinkSlot new l) (map ?f ls) = filter (\<lambda>l. \<not> sameLinkSlot new l) ls" for ls
    by (induction ls) (auto simp: sameLinkSlot_def)
  ultimately show thesis using d' by (intro that) simp_all
qed

lemma completeBody_Inr:
  assumes "completeBody env now uuid t n identity d = Inr (linkId, d')"
  obtains req w organizationId d1 where
    "List.find (openLogin env t n) (logins d) = Some req" "loginIdentity req = Some w"
    "lr_organization_id req = Some organizationId" "now < lr_expires_at req"
    "upsertLink (newLinkRow uuid identity organizationId w now) d = Inr (linkId, d1)"
    "d' = updateLogins (lr_request_hash req)
       (\<lambda>r. if lr_consumed_at r = None then r\<lparr>lr_consumed_at := Some now\<rparr> else r) d1" "db_ok d'"
    "\<And>l. l \<in> set (matchingLinks (ti_issuer w) (ti_subject w) (ti_corpHash w) (ti_userHash w) d) \<Longrightarrow>
       ownLink (ci_principalIssuer identity) (ci_principalSubject identity) l"
proof -
  obtain req where req: "List.find (openLogin env t n) (logins d) = Some req"
    using assms by (cases "List.find (openLogin env t n) (logins d)") (simp_all add: completeBody_def)
  obtain w where w: "loginIdentity req = Some w"
    using assms req by (cases "loginIdentity req") (simp_all add: completeBody_def)
  obtain organizationId where g: "lr_organization_id req = Some organizationId"
    using assms req w by (cases "lr_organization_id req") (simp_all add: completeBody_def)
  have checks: "now < lr_expires_at req"
    "\<not> list_ex (\<lambda>l. lk_principal_issuer l \<noteq> ci_principalIssuer identity
                  \<or> lk_principal_subject l \<noteq> ci_principalSubject identity)
       (matchingLinks (ti_issuer w) (ti_subject w) (ti_corpHash w) (ti_userHash w) d)"
    using assms req w g by (auto simp: completeBody_def split: if_splits)
  obtain d1 where up: "upsertLink (newLinkRow uuid identity organizationId w now) d = Inr (linkId, d1)"
    and d': "d' = updateLogins (lr_request_hash req)
       (\<lambda>r. if lr_consumed_at r = None then r\<lparr>lr_consumed_at := Some now\<rparr> else r) d1" "db_ok d'"
    using assms req w g checks
    by (cases "upsertLink (newLinkRow uuid identity organizationId w now) d")
      (auto simp: completeBody_def split: violation.splits)
  show thesis
    by (rule that[OF req w g checks(1) up d']) (use checks(2) in \<open>auto simp: list_ex_iff ownLink_def\<close>)
qed

interpretation create_login: transactional "\<lambda>(env, now, t, n, g). createBody env now t n g"
  by unfold_locales (auto dest: createBody_ok)

interpretation resolve_login: transactional
  "\<lambda>(env, now, t, n, identity). resolveBody env now t n identity"
  by unfold_locales (auto elim: resolveBody_Inr)

interpretation complete_login: transactional
  "\<lambda>(env, now, uuid, t, n, identity). completeBody env now uuid t n identity"
  by unfold_locales (auto elim: completeBody_Inr)

lemma create_keeps_ok:
  "db_ok d \<Longrightarrow> db_ok (snd (createWeComIdentityLoginRequest env now t n g d))"
  using create_login.tx.keeps_ok[of d "(env, now, t, n, g)"]
  by (simp add: createWeComIdentityLoginRequest_def)

lemma resolve_keeps_ok:
  "db_ok d \<Longrightarrow> db_ok (snd (resolveWeComIdentityLoginRequest env now t n identity d))"
  using resolve_login.tx.keeps_ok[of d "(env, now, t, n, identity)"]
  by (auto simp: resolveWeComIdentityLoginRequest_def split: sum.split prod.split option.split)

lemma complete_keeps_ok:
  "db_ok d \<Longrightarrow> db_ok (snd (completeVerifiedWeComIdentityLinkRequest env now uuid t n identity d))"
  using complete_login.tx.keeps_ok[of d "(env, now, uuid, t, n, identity)"]
  by (simp add: completeVerifiedWeComIdentityLinkRequest_def split: sum.split)

lemma complete_failed_unchanged:
  "completeVerifiedWeComIdentityLinkRequest env now uuid t n identity d = (Inl e, d') \<Longrightarrow> d' = d"
  using complete_login.tx.failed_unchanged[of "(env, now, uuid, t, n, identity)" d e d']
  by (auto simp: completeVerifiedWeComIdentityLinkRequest_def split: sum.split_asm)

lemma disconnect_keeps_ok:
  "db_ok d \<Longrightarrow> db_ok (snd (disconnectWeComIdentityLink issuer subject i d))"
  by (auto simp: disconnectWeComIdentityLink_def split: sum.split)

interpretation disconnect_link: atomic_handler
  "\<lambda>(issuer, subject, i) d. disconnectWeComIdentityLink issuer subject i d"
  by unfold_locales (auto simp: disconnectWeComIdentityLink_def split: sum.split sum.split_asm if_split_asm)

section \<open>Spent requests\<close>

text \<open>A request hash is spent when no open login row carries it.\<close>

definition spent :: "string \<Rightarrow> db \<Rightarrow> bool" where
  "spent h d \<longleftrightarrow> list_all (\<lambda>r. lr_request_hash r = h \<longrightarrow> lr_consumed_at r \<noteq> None) (logins d)"

lemma spent_no_open: "spent (sha256hex (le_crypto env) t) d \<Longrightarrow>
    List.find (openLogin env t n) (logins d) = None"
  by (auto simp: spent_def find_None_iff openLogin_def list_all_iff)

lemma spent_resolve:
  "spent (sha256hex (le_crypto env) t) d \<Longrightarrow> resolveBody env now t n identity d = Inl expiredRequest"
  by (simp add: resolveBody_def spent_no_open)

lemma spent_complete:
  "spent (sha256hex (le_crypto env) t) d \<Longrightarrow>
    completeBody env now uuid t n identity d = Inl expiredRequest"
  by (simp add: completeBody_def spent_no_open)

lemma updateLogins_logins [simp]:
  "logins (updateLogins h f d) = map (\<lambda>r. if lr_request_hash r = h then f r else r) (logins d)"
  "links (updateLogins h f d) = links d" "organizations (updateLogins h f d) = organizations d"
  by (simp_all add: updateLogins_def)

lemma open_unique:
  assumes "db_ok d" "List.find (openLogin env t n) (logins d) = Some req" "r \<in> set (logins d)"
    "lr_request_hash r = lr_request_hash req"
  shows "r = req"
proof -
  have "req \<in> set (logins d)" using assms(2) by (auto simp: find_Some_iff)
  moreover have "unique_by lr_request_hash (logins d)"
    using assms(1) by (simp add: db_ok_def uniques_ok_def)
  ultimately show ?thesis using unique_by_eq assms(3,4) by metis
qed

lemma find_open:
  "List.find (openLogin env t n) (logins d) = Some req \<Longrightarrow>
    req \<in> set (logins d) \<and> lr_request_hash req = sha256hex (le_crypto env) t
      \<and> lr_consumed_at req = None"
  by (auto simp: find_Some_iff openLogin_def)

lemma spent_updateLogins:
  assumes "\<And>r. lr_request_hash (f r) = lr_request_hash r"
    "\<And>r. r \<in> set (logins d) \<Longrightarrow> lr_request_hash r = h \<Longrightarrow> k = h \<Longrightarrow>
      lr_consumed_at r \<noteq> None \<Longrightarrow> lr_consumed_at (f r) \<noteq> None"
    "spent k d"
  shows "spent k (updateLogins h f d)"
  using assms by (auto simp: spent_def list_all_iff)

lemma resolveBody_spent:
  assumes "resolveBody env now t n identity d = Inr (v, d')" "spent h d"
  shows "spent h d'"
proof -
  obtain req where req: "List.find (openLogin env t n) (logins d) = Some req"
    and d': "\<exists>w c. d' = updateLogins (lr_request_hash req) (verifiedLogin w now c) d"
    using assms(1) by (elim resolveBody_Inr) blast
  have "h \<noteq> lr_request_hash req"
    using find_open[OF req] assms(2) by (auto simp: spent_def list_all_iff)
  then show ?thesis using d' assms(2)
    by (auto intro!: spent_updateLogins simp: verifiedLogin_def)
qed

lemma completeBody_spent:
  assumes "completeBody env now uuid t n identity d = Inr (v, d')" "spent h d"
  shows "spent h d'"
proof -
  obtain req :: loginRow and w organizationId d1
    where up: "upsertLink (newLinkRow uuid identity organizationId w now) d = Inr (v, d1)"
    and d': "d' = updateLogins (lr_request_hash req)
       (\<lambda>r. if lr_consumed_at r = None then r\<lparr>lr_consumed_at := Some now\<rparr> else r) d1"
    using assms(1) by (elim completeBody_Inr) blast
  have "logins d1 = logins d" using up by (elim upsertLink_Inr) blast
  then have "spent h d1" using assms(2) by (simp add: spent_def)
  then show ?thesis unfolding d' by (intro spent_updateLogins) auto
qed

lemma completeBody_spends:
  assumes "db_ok d" "completeBody env now uuid t n identity d = Inr (v, d')"
  shows "spent (sha256hex (le_crypto env) t) d'"
proof -
  obtain req w organizationId d1
    where req: "List.find (openLogin env t n) (logins d) = Some req"
    and up: "upsertLink (newLinkRow uuid identity organizationId w now) d = Inr (v, d1)"
    and d': "d' = updateLogins (lr_request_hash req)
       (\<lambda>r. if lr_consumed_at r = None then r\<lparr>lr_consumed_at := Some now\<rparr> else r) d1"
    using assms(2) by (elim completeBody_Inr) blast
  have "logins d1 = logins d" using up by (elim upsertLink_Inr) blast
  then show ?thesis
    using find_open[OF req] by (auto simp: d' spent_def list_all_iff)
qed

lemma createBody_spent:
  assumes "createBody env now t n g d = Inr (v, d')" "spent h d" "sha256hex (le_crypto env) t \<noteq> h"
  shows "spent h d'"
  using assms by (auto simp: createBody_def spent_def newLoginRow_def list_all_iff)

text \<open>The store as other requests may have changed it: any number of login requests for other
  tokens, verifications, completions and removals.\<close>

inductive link_run :: "linkEnv \<Rightarrow> string \<Rightarrow> db \<Rightarrow> db \<Rightarrow> bool" for env h where
  start: "link_run env h d d"
| created: "link_run env h d d1 \<Longrightarrow> sha256hex (le_crypto env) t \<noteq> h \<Longrightarrow>
    link_run env h d (snd (createWeComIdentityLoginRequest env now t n g d1))"
| resolved: "link_run env h d d1 \<Longrightarrow>
    link_run env h d (snd (resolveWeComIdentityLoginRequest env now t n identity d1))"
| completed: "link_run env h d d1 \<Longrightarrow>
    link_run env h d (snd (completeVerifiedWeComIdentityLinkRequest env now uuid t n person d1))"
| disconnected: "link_run env h d d1 \<Longrightarrow>
    link_run env h d (snd (disconnectWeComIdentityLink issuer subject i d1))"

inductive_cases link_runE: "link_run env h d d'"

lemma link_run_ok: "link_run env h d d' \<Longrightarrow> db_ok d \<Longrightarrow> db_ok d'"
  by (induction rule: link_run.induct)
    (auto intro: create_keeps_ok resolve_keeps_ok complete_keeps_ok disconnect_keeps_ok)

lemma link_run_spent: "link_run env h d d' \<Longrightarrow> spent h d \<Longrightarrow> spent h d'"
proof (induction rule: link_run.induct)
  case (created d d1 t now n g)
  then show ?case
    by (auto simp: createWeComIdentityLoginRequest_def transaction_snd split: sum.split
        dest: createBody_spent)
next
  case (resolved d d1 now t n identity)
  then have "spent h (snd (transaction (resolveBody env now t n identity) d1))"
    by (auto simp: transaction_snd split: sum.split dest: resolveBody_spent)
  with resolved show ?case
    by (auto simp: resolveWeComIdentityLoginRequest_def split: sum.split prod.split option.split)
next
  case (completed d d1 now uuid t n person)
  then show ?case
    by (auto simp: completeVerifiedWeComIdentityLinkRequest_def transaction_snd split: sum.split
        dest: completeBody_spent)
next
  case (disconnected d d1 issuer subject i)
  then show ?case
    by (auto simp: disconnectWeComIdentityLink_def spent_def split: sum.split)
qed

section \<open>What a completed link looks like\<close>

definition linkMatches :: "trustedIdentity \<Rightarrow> linkRow \<Rightarrow> bool" where
  "linkMatches w l \<longleftrightarrow> lk_wecom_issuer l = ti_issuer w \<and> lk_wecom_subject l = ti_subject w
     \<or> lk_corp_hash l = ti_corpHash w \<and> lk_user_hash l = ti_userHash w"

lemma matchingLinks_filter:
  "matchingLinks (ti_issuer w) (ti_subject w) (ti_corpHash w) (ti_userHash w) d = filter (linkMatches w) (links d)"
  unfolding matchingLinks_def linkMatches_def[abs_def] by (rule refl)

lemma filter_single:
  assumes "unique_by key rows" "r \<in> set rows" "P r" "\<And>s. s \<in> set rows \<Longrightarrow> P s \<Longrightarrow> s = r"
  shows "filter P rows = [r]"
proof -
  have "P s \<longleftrightarrow> key s = key r" if "s \<in> set rows" for s
    using assms(3) assms(4)[OF that] unique_by_eq[OF assms(1) that assms(2)] by blast
  then have "filter P rows = filter (\<lambda>s. key s = key r) rows" by (intro filter_cong) auto
  then show ?thesis using unique_by_filter_eq[OF assms(1,2)] by simp
qed

lemma link_matches_unique:
  assumes "db_ok d" "l \<in> set (links d)" "lk_wecom_issuer l = ti_issuer w"
    "lk_wecom_subject l = ti_subject w" "lk_corp_hash l = ti_corpHash w" "lk_user_hash l = ti_userHash w"
  shows "filter (linkMatches w) (links d) = [l]"
proof -
  have u: "unique_by lk_id (links d)"
    "unique_by (\<lambda>l. (lk_wecom_issuer l, lk_wecom_subject l)) (links d)"
    "unique_by (\<lambda>l. (lk_corp_hash l, lk_user_hash l)) (links d)"
    using assms(1) by (simp_all add: db_ok_def uniques_ok_def links_unique_def)
  have eq: "m = l" if "m \<in> set (links d)" "linkMatches w m" for m
    using that(2) unfolding linkMatches_def
  proof
    assume "lk_wecom_issuer m = ti_issuer w \<and> lk_wecom_subject m = ti_subject w"
    with assms(3,4) show ?thesis by (intro unique_by_eq[OF u(2) that(1) assms(2)]) simp
  next
    assume "lk_corp_hash m = ti_corpHash w \<and> lk_user_hash m = ti_userHash w"
    with assms(5,6) show ?thesis by (intro unique_by_eq[OF u(3) that(1) assms(2)]) simp
  qed
  show ?thesis
  proof (rule filter_single[OF u(1) assms(2)])
    show "linkMatches w l" using assms by (simp add: linkMatches_def)
  qed (rule eq)
qed

lemma complete_success:
  assumes "completeVerifiedWeComIdentityLinkRequest env now uuid t n identity d = (Inr linkId, d')"
  shows "valid_link_secret t" "valid_link_secret n"
    "completeBody env now uuid t n identity d = Inr (linkId, d')"
proof -
  have ok: "valid_link_secret t \<and> valid_link_secret n"
  proof (rule ccontr)
    assume "\<not> ?thesis"
    then have "validateWeComIdentityLoginSecrets t n = Inl (storeErrorCode LinkRequestInvalid 400
        ''invalid_wecom_link_request'')"
      by (simp add: validateWeComIdentityLoginSecrets_def guardE_def)
    with assms show False by (simp add: completeVerifiedWeComIdentityLinkRequest_def)
  qed
  then show "valid_link_secret t" "valid_link_secret n" by simp_all
  have "transaction (completeBody env now uuid t n identity) d = (Inr linkId, d')"
    using assms ok
    by (simp add: completeVerifiedWeComIdentityLinkRequest_def validateWeComIdentityLoginSecrets_def)
  then show "completeBody env now uuid t n identity d = Inr (linkId, d')"
    unfolding transaction_result .
qed

lemma complete_link:
  assumes "completeBody env now uuid t n identity d = Inr (linkId, d')"
    "List.find (openLogin env t n) (logins d) = Some req" "loginIdentity req = Some w"
  obtains l where "filter (linkMatches w) (links d') = [l]" "lk_id l = linkId"
    "ownLink (ci_principalIssuer identity) (ci_principalSubject identity) l"
    "Some (lk_organization_id l) = lr_organization_id req" "db_ok d'"
    "filter (\<lambda>l. \<not> ownLink (ci_principalIssuer identity) (ci_principalSubject identity) l) (links d')
      = filter (\<lambda>l. \<not> ownLink (ci_principalIssuer identity) (ci_principalSubject identity) l) (links d)"
    "\<And>l. l \<in> set (links d) \<Longrightarrow> linkMatches w l \<Longrightarrow>
      ownLink (ci_principalIssuer identity) (ci_principalSubject identity) l"
proof -
  obtain req' w' g d1 where r: "List.find (openLogin env t n) (logins d) = Some req'"
    "loginIdentity req' = Some w'" "lr_organization_id req' = Some g"
    "upsertLink (newLinkRow uuid identity g w' now) d = Inr (linkId, d1)"
    "d' = updateLogins (lr_request_hash req')
       (\<lambda>r. if lr_consumed_at r = None then r\<lparr>lr_consumed_at := Some now\<rparr> else r) d1" "db_ok d'"
    and own: "\<And>l. l \<in> set (matchingLinks (ti_issuer w') (ti_subject w') (ti_corpHash w')
        (ti_userHash w') d) \<Longrightarrow> ownLink (ci_principalIssuer identity) (ci_principalSubject identity) l"
    using assms(1) by (elim completeBody_Inr) blast
  then have w: "req' = req" "w' = w" using assms by simp_all
  let ?new = "newLinkRow uuid identity g w now"
  let ?own = "ownLink (ci_principalIssuer identity) (ci_principalSubject identity)"
  obtain l where l: "l = ?new\<lparr>lk_id := linkId\<rparr>" "l \<in> set (links d1)"
    "filter (\<lambda>l. \<not> sameLinkSlot ?new l) (links d1) = filter (\<lambda>l. \<not> sameLinkSlot ?new l) (links d)"
    using r(4)[unfolded w] by (elim upsertLink_Inr) blast
  have links: "links d' = links d1" using r(5) by simp
  have slot: "sameLinkSlot ?new m \<Longrightarrow> ?own m" for m
    by (simp add: sameLinkSlot_def ownLink_def newLinkRow_def)
  have "filter (\<lambda>l. \<not> ?own l) ls = filter (\<lambda>l. \<not> ?own l) (filter (\<lambda>l. \<not> sameLinkSlot ?new l) ls)" for ls
    using slot by (auto intro: filter_cong)
  then have others: "filter (\<lambda>l. \<not> ?own l) (links d') = filter (\<lambda>l. \<not> ?own l) (links d)"
    unfolding links using l(3) by metis
  have "filter (linkMatches w) (links d') = [l]"
    using r(6) l(1,2) links by (intro link_matches_unique) (simp_all add: newLinkRow_def)
  moreover have "m \<in> set (links d) \<Longrightarrow> linkMatches w m \<Longrightarrow> ?own m" for m
    using own w by (simp add: matchingLinks_filter)
  ultimately show ?thesis
    using others r(3,6) w l(1)
    by (intro that[of l]) (simp_all add: newLinkRow_def ownLink_def)
qed

lemma resolve_result:
  assumes "resolveWeComIdentityLoginRequest env now t n relay d = (Inr res, d')"
  obtains v where "valid_link_secret t" "valid_link_secret n"
    "resolveBody env now t n relay d = Inr (v, d')"
    "case v of None \<Rightarrow> res = LoginRequired
       | Some l \<Rightarrow> \<exists>i. linkedPlatformIdentity l = Inr i \<and> res = Linked i"
proof -
  have secrets: "valid_link_secret t" "valid_link_secret n"
    using assms by (auto simp: resolveWeComIdentityLoginRequest_def
        validateWeComIdentityLoginSecrets_def split: sum.split_asm)
  then have run: "(case transaction (resolveBody env now t n relay) d of
        (Inl e, d') \<Rightarrow> (Inl e, d') | (Inr None, d') \<Rightarrow> (Inr LoginRequired, d')
      | (Inr (Some l), d') \<Rightarrow> (bindE (linkedPlatformIdentity l) (\<lambda>i. Inr (Linked i)), d')) = (Inr res, d')"
    using assms by (simp add: resolveWeComIdentityLoginRequest_def validateWeComIdentityLoginSecrets_def)
  show thesis
  proof (cases "resolveBody env now t n relay d")
    case (Inl e)
    with run show thesis by (simp add: transaction_def)
  next
    case (Inr p)
    obtain v d2 where p: "p = (v, d2)" by fastforce
    with run Inr secrets that show thesis by (cases v) (auto simp: transaction_def)
  qed
qed

lemma resolve_spends:
  assumes "db_ok d" "resolveBody env now t n relay d = Inr (Some l, d')"
  shows "spent (sha256hex (le_crypto env) t) d'"
proof -
  obtain req w where req: "List.find (openLogin env t n) (logins d) = Some req"
    "d' = updateLogins (lr_request_hash req) (verifiedLogin w now (Some l \<noteq> None)) d"
    using assms(2) by (elim resolveBody_Inr) blast
  then show ?thesis
    using find_open[OF req(1)] by (auto simp: spent_def list_all_iff verifiedLogin_def)
qed

section \<open>Properties\<close>

definition demo_link_env :: linkEnv where
  "demo_link_env = \<lparr>le_crypto = demo_crypto, le_url = (\<lambda>s. Some \<lparr>url_protocol = ''https:'',
     url_username = [], url_password = [], url_pathname = ''/wecom'', url_search = [],
     url_hash = [], url_href = s\<rparr>)\<rparr>"

definition demo_token :: string where "demo_token = replicate 43 (CHR ''a'')"

definition demo_relay :: relayIdentity where
  "demo_relay = \<lparr>ri_corpId = ''corp'', ri_userId = ''u1'', ri_relayIssuer = ''https://r/wecom''\<rparr>"

definition demo_person :: "string \<Rightarrow> consoleIdentity" where
  "demo_person s = \<lparr>ci_principalIssuer = ''iss'', ci_principalSubject = s, ci_email = ''a@b'',
     ci_name = ''A'', ci_admin = False\<rparr>"

definition demo_org :: organizationRow where
  "demo_org = \<lparr>og_id = ''o1'', og_name = ''O'', og_corp_id = ''corp'',
     og_relay_callback_url = Some ''u'', og_active = True, og_created_at = 0, og_updated_at = 0\<rparr>"

definition demo_digest :: string where
  "demo_digest = sha256hex demo_crypto []"

definition demo_trusted :: trustedIdentity where
  "demo_trusted = \<lparr>ti_issuer = ''https://r/wecom'',
     ti_subject = ''wecom_'' @ base64url_encode (replicate 32 (CHR ''h'')),
     ti_corpHash = demo_digest, ti_userHash = demo_digest\<rparr>"

definition demo_requested :: db where
  "demo_requested = empty_db\<lparr>organizations := [demo_org],
     logins := [newLoginRow demo_digest demo_digest ''o1'' 0]\<rparr>"

definition demo_verified :: db where
  "demo_verified = demo_requested\<lparr>logins :=
     [verifiedLogin demo_trusted 1 False (newLoginRow demo_digest demo_digest ''o1'' 0)]\<rparr>"

definition demo_link :: linkRow where
  "demo_link = newLinkRow ''k'' (demo_person ''p'') ''o1'' demo_trusted 2"

definition demo_linked :: db where
  "demo_linked = demo_verified\<lparr>links := [demo_link], logins :=
     [(verifiedLogin demo_trusted 1 False (newLoginRow demo_digest demo_digest ''o1'' 0))
        \<lparr>lr_consumed_at := Some 2\<rparr>]\<rparr>"

definition demo_second :: db where
  "demo_second = demo_requested\<lparr>links := [demo_link]\<rparr>"

lemma demo_digest_eq [simp]: "sha256hex demo_crypto s = demo_digest"
  by (simp add: demo_digest_def sha256hex_def demo_crypto_def)

lemma demo_digest_hash [simp]: "is_hash64 demo_digest"
  using sha256hex_hash64[OF demo_crypto_laws, of "[]"] by simp

lemma demo_digest_ne [simp]: "demo_digest \<noteq> []"
  using demo_digest_hash by (auto simp: is_hash64_def)

lemmas demo_db_simps = demo_requested_def demo_verified_def demo_linked_def demo_second_def empty_db_def
  newLoginRow_def verifiedLogin_def demo_trusted_def demo_org_def demo_link_def newLinkRow_def
  demo_person_def

lemma demo_dbs_ok [simp]:
  "db_ok demo_requested" "db_ok demo_verified" "db_ok demo_linked" "db_ok demo_second"
  by (simp_all add: demo_db_simps db_ok_defs table_uniques table_checks hash_or_null_def
      login_verified_consistent_def ref_ok_def btrim_blank_def)

lemma demo_secret [simp]: "valid_link_secret demo_token"
  by (simp add: demo_token_def valid_link_secret_def list_all_iff base64url_char_def
      is_alnum_def is_lower_def code_unit_def)

lemma demo_derive: "deriveTrustedWeComRelayIdentity demo_link_env demo_relay ''corp'' = Inr demo_trusted"
proof -
  have "js_trim ''corp'' = ''corp''" "js_trim ''u1'' = ''u1''" by code_simp+
  then show ?thesis
    by (simp add: deriveTrustedWeComRelayIdentity_def demo_relay_def relayIssuerOf_def demo_link_env_def
        strip_slash_def demo_trusted_def demo_crypto_def[THEN arg_cong, of cr_sha256] Let_def)
qed

lemmas demo_run_simps = transaction_def validateWeComIdentityLoginSecrets_def openLogin_def
  configuredWeComOrganization_def organizationConfigured_def matchingLinks_def updateLogins_def
  WECOM_IDENTITY_LOGIN_LIFETIME_MS_def databaseStep_def Let_def

lemma demo_env_crypto [simp]: "le_crypto demo_link_env = demo_crypto"
  by (simp add: demo_link_env_def)

lemma demo_resolve:
  "resolveWeComIdentityLoginRequest demo_link_env 1 demo_token demo_token demo_relay demo_requested
    = (Inr LoginRequired, demo_verified)"
proof -
  have "updateLogins demo_digest (verifiedLogin demo_trusted 1 False) demo_requested = demo_verified"
    by (simp add: updateLogins_def demo_requested_def demo_verified_def newLoginRow_def)
  moreover have "List.find (openLogin demo_link_env demo_token demo_token) (logins demo_requested)
      = Some (newLoginRow demo_digest demo_digest ''o1'' 0)"
    by (simp add: demo_requested_def openLogin_def newLoginRow_def)
  moreover have "configuredWeComOrganization demo_requested ''o1'' = Inr demo_org"
    by (simp add: demo_requested_def configuredWeComOrganization_def organizationConfigured_def demo_org_def)
  moreover have "og_corp_id demo_org = ''corp''" "links demo_requested = []"
    by (simp_all add: demo_org_def demo_requested_def empty_db_def)
  moreover have "lr_expires_at (newLoginRow demo_digest demo_digest ''o1'' 0) = 1800000"
    "lr_organization_id (newLoginRow demo_digest demo_digest ''o1'' 0) = Some ''o1''"
    "lr_request_hash (newLoginRow demo_digest demo_digest ''o1'' 0) = demo_digest"
    by (simp_all add: newLoginRow_def WECOM_IDENTITY_LOGIN_LIFETIME_MS_def)
  ultimately have "resolveBody demo_link_env 1 demo_token demo_token demo_relay demo_requested
      = Inr (None, demo_verified)"
    by (simp add: resolveBody_def demo_derive matchingLinks_def Let_def checked_ok)
  then show ?thesis
    by (simp add: resolveWeComIdentityLoginRequest_def transaction_def validateWeComIdentityLoginSecrets_def)
qed

lemma demo_identity_of_login:
  "loginIdentity (verifiedLogin demo_trusted 1 False (newLoginRow demo_digest demo_digest ''o1'' 0))
    = Some demo_trusted"
  by (simp add: loginIdentity_def verifiedLogin_def demo_trusted_def)

lemma demo_complete:
  "completeVerifiedWeComIdentityLinkRequest demo_link_env 2 ''k'' demo_token demo_token
    (demo_person ''p'') demo_verified = (Inr ''k'', demo_linked)"
proof -
  let ?row = "verifiedLogin demo_trusted 1 False (newLoginRow demo_digest demo_digest ''o1'' 0)"
  have "List.find (openLogin demo_link_env demo_token demo_token) (logins demo_verified) = Some ?row"
    by (simp add: demo_verified_def openLogin_def newLoginRow_def verifiedLogin_def)
  moreover have "lr_expires_at ?row = 1800000" "lr_organization_id ?row = Some ''o1''"
    "lr_request_hash ?row = demo_digest"
    by (simp_all add: newLoginRow_def verifiedLogin_def WECOM_IDENTITY_LOGIN_LIFETIME_MS_def)
  moreover have "links demo_verified = []"
    by (simp add: demo_verified_def demo_requested_def empty_db_def)
  moreover have "db_ok (demo_verified\<lparr>links := [demo_link]\<rparr>)"
    by (simp add: demo_db_simps db_ok_defs table_uniques table_checks hash_or_null_def
        login_verified_consistent_def ref_ok_def btrim_blank_def)
  moreover have "updateLogins demo_digest (\<lambda>r. if lr_consumed_at r = None
      then r\<lparr>lr_consumed_at := Some 2\<rparr> else r) (demo_verified\<lparr>links := [demo_link]\<rparr>) = demo_linked"
    by (simp add: updateLogins_def demo_verified_def demo_linked_def newLoginRow_def verifiedLogin_def)
  ultimately have "completeBody demo_link_env 2 ''k'' demo_token demo_token (demo_person ''p'') demo_verified
      = Inr (''k'', demo_linked)"
    by (simp add: completeBody_def demo_identity_of_login matchingLinks_def upsertLink_def
        demo_link_def[symmetric] checked_ok) (simp add: demo_link_def newLinkRow_def)
  then show ?thesis
    by (simp add: completeVerifiedWeComIdentityLinkRequest_def transaction_def
        validateWeComIdentityLoginSecrets_def)
qed

lemma demo_login:
  "resolveWeComIdentityLoginRequest demo_link_env 1 demo_token demo_token demo_relay demo_second
    = (Inr (Linked \<lparr>li_linkId = ''k'', li_organizationId = ''o1'', li_principalIssuer = ''iss'',
        li_principalSubject = ''p'', li_email = ''a@b'', li_name = ''A''\<rparr>),
      updateLogins demo_digest (verifiedLogin demo_trusted 1 True) demo_second)"
proof -
  have "db_ok (updateLogins demo_digest (verifiedLogin demo_trusted 1 True) demo_second)"
    by (simp add: updateLogins_def demo_db_simps db_ok_defs table_uniques table_checks hash_or_null_def
        login_verified_consistent_def ref_ok_def btrim_blank_def)
  moreover have "List.find (openLogin demo_link_env demo_token demo_token) (logins demo_second)
      = Some (newLoginRow demo_digest demo_digest ''o1'' 0)"
    by (simp add: demo_second_def demo_requested_def openLogin_def newLoginRow_def)
  moreover have "configuredWeComOrganization demo_second ''o1'' = Inr demo_org"
    by (simp add: demo_second_def demo_requested_def configuredWeComOrganization_def
        organizationConfigured_def demo_org_def)
  moreover have "og_corp_id demo_org = ''corp''"
    "matchingLinks (ti_issuer demo_trusted) (ti_subject demo_trusted) (ti_corpHash demo_trusted)
       (ti_userHash demo_trusted) demo_second = [demo_link]"
    by (simp_all add: demo_org_def demo_second_def matchingLinks_def demo_link_def newLinkRow_def)
  moreover have "lr_expires_at (newLoginRow demo_digest demo_digest ''o1'' 0) = 1800000"
    "lr_organization_id (newLoginRow demo_digest demo_digest ''o1'' 0) = Some ''o1''"
    "lr_request_hash (newLoginRow demo_digest demo_digest ''o1'' 0) = demo_digest"
    by (simp_all add: newLoginRow_def WECOM_IDENTITY_LOGIN_LIFETIME_MS_def)
  ultimately have "resolveBody demo_link_env 1 demo_token demo_token demo_relay demo_second
      = Inr (Some demo_link, updateLogins demo_digest (verifiedLogin demo_trusted 1 True) demo_second)"
    by (simp add: resolveBody_def demo_derive Let_def checked_ok)
  then show ?thesis
    by (simp add: resolveWeComIdentityLoginRequest_def transaction_def validateWeComIdentityLoginSecrets_def)
      (simp add: linkedPlatformIdentity_def demo_link_def newLinkRow_def demo_person_def)
qed

text \<open>C3: Completing a link needs an open, verified, unexpired request; afterwards the WeCom
  identity that was verified belongs to exactly one link, the one of the platform account that
  completed it. Nobody else's link is changed, and the identity was not linked to anybody else
  before: a link is never taken over from another account.\<close>

theorem link_never_stolen:
  assumes "db_ok d"
    "completeVerifiedWeComIdentityLinkRequest env now uuid t n identity d = (Inr linkId, d')"
  shows "\<exists>req w l. List.find (openLogin env t n) (logins d) = Some req \<and> now < lr_expires_at req
    \<and> loginIdentity req = Some w
    \<and> filter (linkMatches w) (links d') = [l] \<and> lk_id l = linkId
    \<and> ownLink (ci_principalIssuer identity) (ci_principalSubject identity) l
    \<and> filter (\<lambda>m. \<not> ownLink (ci_principalIssuer identity) (ci_principalSubject identity) m) (links d')
      = filter (\<lambda>m. \<not> ownLink (ci_principalIssuer identity) (ci_principalSubject identity) m) (links d)
    \<and> filter (\<lambda>m. linkMatches w m \<and>
         \<not> ownLink (ci_principalIssuer identity) (ci_principalSubject identity) m) (links d) = []
    \<and> db_ok d'"
proof -
  note body = complete_success(3)[OF assms(2)]
  obtain req w where req: "List.find (openLogin env t n) (logins d) = Some req"
    "loginIdentity req = Some w" "now < lr_expires_at req"
    using body by (elim completeBody_Inr) blast
  obtain l where "filter (linkMatches w) (links d') = [l]" "lk_id l = linkId"
    "ownLink (ci_principalIssuer identity) (ci_principalSubject identity) l" "db_ok d'"
    "filter (\<lambda>l. \<not> ownLink (ci_principalIssuer identity) (ci_principalSubject identity) l) (links d')
      = filter (\<lambda>l. \<not> ownLink (ci_principalIssuer identity) (ci_principalSubject identity) l) (links d)"
    "\<And>l. l \<in> set (links d) \<Longrightarrow> linkMatches w l \<Longrightarrow>
      ownLink (ci_principalIssuer identity) (ci_principalSubject identity) l"
    using complete_link[OF body req(1,2)] by metis
  with req show ?thesis by (auto simp: filter_empty_conv)
qed

theorem link_never_stolen_witness:
  "\<exists>l w. filter (linkMatches w) (links demo_linked) = [l] \<and> lk_id l = ''k''
    \<and> ownLink ''iss'' ''p'' l \<and> db_ok demo_linked"
  using link_never_stolen[OF demo_dbs_ok(2) demo_complete] by (auto simp: demo_person_def)

text \<open>The ways a request is used up: completing a link, or logging in with an existing one.\<close>

definition loginAccepted :: "linkEnv \<Rightarrow> string \<Rightarrow> db \<Rightarrow> db \<Rightarrow> bool" where
  "loginAccepted env t d d' \<longleftrightarrow>
     (\<exists>now uuid n identity linkId.
        completeVerifiedWeComIdentityLinkRequest env now uuid t n identity d = (Inr linkId, d'))
   \<or> (\<exists>now n relay i. resolveWeComIdentityLoginRequest env now t n relay d = (Inr (Linked i), d'))"

lemma accepted_spends:
  assumes "db_ok d" "loginAccepted env t d d'"
  shows "spent (sha256hex (le_crypto env) t) d' \<and> valid_link_secret t"
  using assms(2) unfolding loginAccepted_def
proof (elim disjE exE)
  fix now uuid n identity linkId
  assume c: "completeVerifiedWeComIdentityLinkRequest env now uuid t n identity d = (Inr linkId, d')"
  show ?thesis using complete_success[OF c] completeBody_spends[OF assms(1)] by blast
next
  fix now n relay i
  assume r: "resolveWeComIdentityLoginRequest env now t n relay d = (Inr (Linked i), d')"
  show ?thesis
    by (rule resolve_result[OF r])
      (use resolve_spends[OF assms(1)] in \<open>auto split: option.splits\<close>)
qed

text \<open>C1: A login request is used at most once: after it completed a link or logged an employee in,
  every later attempt with the same request token fails and changes nothing, whatever browser
  nonce, relay answer or account it comes with and whatever other requests ran in between.\<close>

theorem login_request_single_use:
  assumes "db_ok d" "loginAccepted env t d d1" "link_run env (sha256hex (le_crypto env) t) d1 d2"
  shows "resolveWeComIdentityLoginRequest env now t n relay d2
      = (Inl (if valid_link_secret n then expiredRequest
           else storeErrorCode LinkRequestInvalid 400 ''invalid_wecom_link_request''), d2)
    \<and> completeVerifiedWeComIdentityLinkRequest env now uuid t n identity d2
      = (Inl (if valid_link_secret n then expiredRequest
           else storeErrorCode LinkRequestInvalid 400 ''invalid_wecom_link_request''), d2)"
proof -
  note spent = accepted_spends[OF assms(1,2)]
  then have "spent (sha256hex (le_crypto env) t) d2" using link_run_spent[OF assms(3)] by blast
  then show ?thesis
    using spent
    by (simp add: resolveWeComIdentityLoginRequest_def completeVerifiedWeComIdentityLinkRequest_def
        validateWeComIdentityLoginSecrets_def guardE_def transaction_def spent_resolve spent_complete)
qed

theorem login_request_single_use_witness:
  "resolveWeComIdentityLoginRequest demo_link_env 3 demo_token demo_token demo_relay demo_linked
    = (Inl expiredRequest, demo_linked)"
proof -
  have "loginAccepted demo_link_env demo_token demo_verified demo_linked"
    using demo_complete by (auto simp: loginAccepted_def)
  from login_request_single_use[OF demo_dbs_ok(2) this link_run.start, of 3 demo_token demo_relay]
  show ?thesis by simp
qed

lemma resolve_linked:
  assumes "db_ok d" "resolveWeComIdentityLoginRequest env now t n relay d = (Inr (Linked i), d')"
  shows "\<exists>req g w l. List.find (openLogin env t n) (logins d) = Some req \<and> now < lr_expires_at req
    \<and> g \<in> set (organizations d) \<and> Some (og_id g) = lr_organization_id req
    \<and> organizationConfigured g \<and> js_trim (ri_corpId relay) = js_trim (og_corp_id g)
    \<and> deriveTrustedWeComRelayIdentity env relay (og_corp_id g) = Inr w
    \<and> filter (linkMatches w) (links d) = [l] \<and> linkedPlatformIdentity l = Inr i
    \<and> links d' = links d \<and> spent (sha256hex (le_crypto env) t) d'"
proof (rule resolve_result[OF assms(2)])
  fix v
  assume body: "resolveBody env now t n relay d = Inr (v, d')"
    and "case v of None \<Rightarrow> Linked i = LoginRequired
       | Some l \<Rightarrow> \<exists>j. linkedPlatformIdentity l = Inr j \<and> Linked i = Linked j"
  then obtain l where l: "v = Some l" "linkedPlatformIdentity l = Inr i"
    by (cases v) auto
  obtain req g gid w where r: "List.find (openLogin env t n) (logins d) = Some req"
    "now < lr_expires_at req" "lr_organization_id req = Some gid"
    "configuredWeComOrganization d gid = Inr g"
    "deriveTrustedWeComRelayIdentity env relay (og_corp_id g) = Inr w"
    and m: "length (filter (linkMatches w) (links d)) \<le> 1"
      "v = (case filter (linkMatches w) (links d) of [] \<Rightarrow> None | l # _ \<Rightarrow> Some l)"
    and d': "d' = updateLogins (lr_request_hash req) (verifiedLogin w now (v \<noteq> None)) d"
    using body unfolding matchingLinks_filter[symmetric] by (elim resolveBody_Inr) blast
  have "filter (linkMatches w) (links d) = [l]"
    using m l(1) by (cases "filter (linkMatches w) (links d)") auto
  moreover have "g \<in> set (organizations d) \<and> og_id g = gid \<and> organizationConfigured g"
    using r(4) by (auto simp: configuredWeComOrganization_def find_Some_iff split: option.splits)
  moreover have "js_trim (ri_corpId relay) = js_trim (og_corp_id g)"
    using r(5) by (auto simp: deriveTrustedWeComRelayIdentity_def Let_def split: option.splits if_splits)
  ultimately show ?thesis
    using r l d' resolve_spends[OF assms(1)] body by auto
qed

text \<open>C4: Logging in with a WeCom identity yields exactly the platform account whose link matches
  the identity the relay vouched for: the request is open and unexpired, its organisation is
  configured and active, the relay's corporation is the configured one, and one link matches.
  Links are not touched and the request is used up.\<close>

theorem resolve_login_sound:
  assumes "db_ok d" "resolveWeComIdentityLoginRequest env now t n relay d = (Inr (Linked i), d')"
  shows "\<exists>req g w l. List.find (openLogin env t n) (logins d) = Some req \<and> now < lr_expires_at req
    \<and> g \<in> set (organizations d) \<and> Some (og_id g) = lr_organization_id req
    \<and> organizationConfigured g \<and> js_trim (ri_corpId relay) = js_trim (og_corp_id g)
    \<and> deriveTrustedWeComRelayIdentity env relay (og_corp_id g) = Inr w
    \<and> filter (linkMatches w) (links d) = [l] \<and> linkedPlatformIdentity l = Inr i
    \<and> links d' = links d \<and> spent (sha256hex (le_crypto env) t) d'"
  using assms by (rule resolve_linked)

theorem resolve_login_sound_witness:
  "\<exists>(g::organizationRow) w (l::linkRow) (i::linkedIdentity). deriveTrustedWeComRelayIdentity demo_link_env demo_relay (og_corp_id g) = Inr w
    \<and> filter (linkMatches w) (links demo_second) = [l] \<and> linkedPlatformIdentity l = Inr i
    \<and> li_principalSubject i = ''p''"
proof -
  let ?i = "\<lparr>li_linkId = ''k'', li_organizationId = ''o1'', li_principalIssuer = ''iss'',
        li_principalSubject = ''p'', li_email = ''a@b'', li_name = ''A''\<rparr>"
  have "li_principalSubject ?i = ''p''" by simp
  with resolve_login_sound[OF demo_dbs_ok(4) demo_login] show ?thesis by blast
qed

text \<open>The whole hand-shake: when the relay's answer is verified and no link exists yet, and the
  account then completes the same request, the account ends up linked to precisely the identity
  derived from the relay's answer, in the organisation the request was made for, whose configured
  corporation is the relay's.\<close>

theorem verified_identity_is_linked:
  assumes "db_ok d" "resolveWeComIdentityLoginRequest env now t n relay d = (Inr LoginRequired, d1)"
    "completeVerifiedWeComIdentityLinkRequest env now' uuid t n identity d1 = (Inr linkId, d2)"
  shows "\<exists>g w l. g \<in> set (organizations d) \<and> organizationConfigured g
    \<and> js_trim (ri_corpId relay) = js_trim (og_corp_id g)
    \<and> deriveTrustedWeComRelayIdentity env relay (og_corp_id g) = Inr w
    \<and> filter (linkMatches w) (links d2) = [l] \<and> lk_id l = linkId
    \<and> lk_organization_id l = og_id g
    \<and> ownLink (ci_principalIssuer identity) (ci_principalSubject identity) l"
proof (rule resolve_result[OF assms(2)])
  fix v
  assume body: "resolveBody env now t n relay d = Inr (v, d1)"
    and "case v of None \<Rightarrow> LoginRequired = LoginRequired
       | Some l \<Rightarrow> \<exists>j. linkedPlatformIdentity l = Inr j \<and> LoginRequired = Linked j"
  then have v: "v = None" by (cases v) auto
  obtain req g gid w where r: "List.find (openLogin env t n) (logins d) = Some req"
    "lr_organization_id req = Some gid" "configuredWeComOrganization d gid = Inr g"
    "deriveTrustedWeComRelayIdentity env relay (og_corp_id g) = Inr w"
    and d1: "d1 = updateLogins (lr_request_hash req) (verifiedLogin w now (v \<noteq> None)) d" "db_ok d1"
    using body by (elim resolveBody_Inr) blast
  let ?req = "verifiedLogin w now False req"
  have mem: "?req \<in> set (logins d1)"
    using find_open[OF r(1)] v unfolding d1 updateLogins_logins set_map by (force intro: image_eqI)
  note complete = complete_success(3)[OF assms(3)]
  obtain req' w' where c: "List.find (openLogin env t n) (logins d1) = Some req'"
    "loginIdentity req' = Some w'"
    using complete by (elim completeBody_Inr) blast
  have "?req = req'"
    by (rule open_unique[OF d1(2) c(1) mem])
      (use find_open[OF c(1)] find_open[OF r(1)] in \<open>simp add: verifiedLogin_def\<close>)
  then have w: "w' = w" and gid: "lr_organization_id req' = Some gid"
    using c(2) r(2) by (auto simp: loginIdentity_def verifiedLogin_def split: if_splits)
  obtain l where "filter (linkMatches w) (links d2) = [l]" "lk_id l = linkId"
    "ownLink (ci_principalIssuer identity) (ci_principalSubject identity) l"
    "Some (lk_organization_id l) = lr_organization_id req'"
    using complete_link[OF complete c] w by metis
  moreover have "g \<in> set (organizations d) \<and> og_id g = gid \<and> organizationConfigured g"
    using r(3) by (auto simp: configuredWeComOrganization_def find_Some_iff split: option.splits)
  moreover have "js_trim (ri_corpId relay) = js_trim (og_corp_id g)"
    using r(4) by (auto simp: deriveTrustedWeComRelayIdentity_def Let_def split: option.splits if_splits)
  ultimately show ?thesis using r(4) gid by auto
qed

theorem verified_identity_is_linked_witness:
  "\<exists>(g::organizationRow) w (l::linkRow). deriveTrustedWeComRelayIdentity demo_link_env demo_relay (og_corp_id g) = Inr w
    \<and> filter (linkMatches w) (links demo_linked) = [l] \<and> lk_id l = ''k''"
  using verified_identity_is_linked[OF demo_dbs_ok(1) demo_resolve demo_complete] by blast

end
