(* ===== verification/Wecom_Relay.thy ===== *)
theory Wecom_Relay
  imports Identity_Link Json_Text
begin

text \<open>
  The tickets of the public WeCom relay (src/ai-console/src/lib/server/wecom-relay.ts): sealed
  payloads, the hand-off a ticket carries and the exchange of a ticket for the employee's identity;
  and the addresses of the login flow (wecom-identity-link-routing.ts). The URL parser, the cipher
  and the relay's answer are parameters. Times are seconds.
\<close>

datatype relayErrorCode = AccessDenied | IdentityExchangeFailed | InvalidRelayResult | RelayUnavailable

record relayUrl = parsedUrl +
  url_origin :: string
  url_hostname :: string

text \<open>AES-256-GCM with associated data: key, nonce, associated data and text to ciphertext and tag.\<close>

record relayCrypto =
  rc_hmac :: "string \<Rightarrow> string \<Rightarrow> string"
  rc_seal :: "string \<Rightarrow> string \<Rightarrow> string \<Rightarrow> string \<Rightarrow> string \<times> string"
  rc_open :: "string \<Rightarrow> string \<Rightarrow> string \<Rightarrow> string \<Rightarrow> string \<Rightarrow> string option"

record relayEnv =
  re_crypto :: relayCrypto
  re_sharedKey :: "string option"
  re_consoleUrl :: "string option"
  re_url :: "string \<Rightarrow> relayUrl option"

text \<open>Documented behaviour of the cipher: what was sealed opens under the same key, nonce and associated
  data; the tag has 16 bytes and the ciphertext as many as the text.\<close>

definition relay_crypto_laws :: "relayCrypto \<Rightarrow> bool" where
  "relay_crypto_laws cr \<longleftrightarrow> (\<forall>k n a s. rc_open cr k n a (snd (rc_seal cr k n a s)) (fst (rc_seal cr k n a s)) = Some s
     \<and> length (snd (rc_seal cr k n a s)) = 16 \<and> length (fst (rc_seal cr k n a s)) = length s)"

definition TICKET_VERSION :: int where "TICKET_VERSION = 1"
definition TICKET_AAD :: string where "TICKET_AAD = ''ai-base-wecom-relay:v1''"
definition TICKET_MAX_LENGTH :: nat where "TICKET_MAX_LENGTH = 16 * 1024"
definition RESULT_LIFETIME_SECONDS :: int where "RESULT_LIFETIME_SECONDS = 5 * 60"
definition USER_ID_MAX_LENGTH :: nat where "USER_ID_MAX_LENGTH = 256"
definition RESULT_PROOF_KEY_DOMAIN :: string where
  "RESULT_PROOF_KEY_DOMAIN = ''ai-base-wecom-relay:result-consumer-key:v1''"
definition RESULT_PROOF_DOMAIN :: string where
  "RESULT_PROOF_DOMAIN = ''POST'' @ CHR 0x0A # ''/api/wecom/results'' @ [CHR 0x0A]"

section \<open>Sealed payloads\<close>

definition strip_padding :: "string \<Rightarrow> string" where
  "strip_padding s = rev (dropWhile (\<lambda>c. c = CHR ''='') (rev s))"

definition relaySharedKey :: "relayEnv \<Rightarrow> relayErrorCode + string" where
  "relaySharedKey env =
    (let raw = (case re_sharedKey env of None \<Rightarrow> [] | Some s \<Rightarrow> js_trim s); key = base64url_decode raw in
     if raw = [] \<or> length key \<noteq> 32 \<or> base64url_encode key \<noteq> strip_padding raw then Inl RelayUnavailable
     else Inr key)"

definition sealWeComRelayPayload :: "relayEnv \<Rightarrow> string \<Rightarrow> json \<Rightarrow> (relayErrorCode + string) option" where
  "sealWeComRelayPayload env nonce v = map_option (\<lambda>t.
     bindE (relaySharedKey env) (\<lambda>key.
       case rc_seal (re_crypto env) key nonce TICKET_AAD (utf8_encode t) of
         (ciphertext, tag) \<Rightarrow> Inr (js_join ''.'' [''v1'', base64url_encode nonce, base64url_encode (ciphertext @ tag)])))
     (jsonText v)"

definition openWeComRelayPayload :: "relayEnv \<Rightarrow> string \<Rightarrow> relayErrorCode + json" where
  "openWeComRelayPayload env v =
    (if v = [] \<or> length v > TICKET_MAX_LENGTH then Inl InvalidRelayResult
     else case js_split (CHR ''.'') v of
       [version, noncePart, sealedPart] \<Rightarrow>
         let nonce = base64url_decode noncePart; sealed = base64url_decode sealedPart in
         if version \<noteq> ''v1'' \<or> length nonce \<noteq> 12 \<or> length sealed \<le> 16 then Inl InvalidRelayResult
         else (case relaySharedKey env of Inl e \<Rightarrow> Inl InvalidRelayResult
           | Inr key \<Rightarrow>
               (case rc_open (re_crypto env) key nonce TICKET_AAD (drop (length sealed - 16) sealed)
                    (take (length sealed - 16) sealed) of
                  None \<Rightarrow> Inl InvalidRelayResult
                | Some plaintext \<Rightarrow> (case jsonParse (utf8_decode plaintext) of
                    None \<Rightarrow> Inl InvalidRelayResult | Some j \<Rightarrow> Inr j)))
     | _ \<Rightarrow> Inl InvalidRelayResult)"

section \<open>The hand-off\<close>

record relayEndpoints =
  rp_callback :: string
  rp_result :: string
  rp_issuer :: string

definition relayEndpoints :: "relayEnv \<Rightarrow> string \<Rightarrow> relayErrorCode + relayEndpoints" where
  "relayEndpoints env relayCallbackUrl =
    (case re_url env relayCallbackUrl of None \<Rightarrow> Inl InvalidRelayResult
     | Some u \<Rightarrow>
         if url_protocol u \<noteq> ''https:'' \<or> url_username u \<noteq> [] \<or> url_password u \<noteq> []
            \<or> url_pathname u \<noteq> ''/callbacks/wecom'' \<or> url_search u \<noteq> [] \<or> url_hash u \<noteq> []
         then Inl InvalidRelayResult
         else Inr \<lparr>rp_callback = url_href u, rp_result = url_origin u @ ''/api/wecom/results'',
           rp_issuer = url_origin u @ ''/wecom''\<rparr>)"

definition handoffFresh :: "json \<Rightarrow> int \<Rightarrow> bool" where
  "handoffFresh v now = (case (integerOf (jget v ''issued_at''), integerOf (jget v ''expires_at'')) of
     (Some issued, Some expires) \<Rightarrow> issued \<le> now + 30 \<and> now < expires \<and> expires - issued = RESULT_LIFETIME_SECONDS
   | _ \<Rightarrow> False)"

definition readWeComRelayResultHandoff :: "relayEnv \<Rightarrow> string \<Rightarrow> int \<Rightarrow> relayErrorCode + string" where
  "readWeComRelayResultHandoff env ticket now =
    bindE (openWeComRelayPayload env ticket) (\<lambda>v.
      if \<not> is_object v
         \<or> list_ex (\<lambda>k. k \<notin> set [''v'', ''result_id'', ''relay_callback_url'', ''issued_at'', ''expires_at'']) (objectKeys v)
         \<or> jget v ''v'' \<noteq> JNum (Fin (of_int TICKET_VERSION))
         \<or> \<not> valid_link_secret (the_string (jget v ''result_id''))
         \<or> \<not> is_string (jget v ''relay_callback_url'') \<or> \<not> handoffFresh v now
      then Inl InvalidRelayResult
      else bindE (relayEndpoints env (the_string (jget v ''relay_callback_url''))) (\<lambda>endpoints.
        Inr (rp_callback endpoints)))"

section \<open>The exchange\<close>

definition createWeComRelayResultConsumerProof :: "relayEnv \<Rightarrow> string \<Rightarrow> relayErrorCode + string" where
  "createWeComRelayResultConsumerProof env ticket = bindE (relaySharedKey env) (\<lambda>key.
     Inr (base64url_encode (rc_hmac (re_crypto env) (rc_hmac (re_crypto env) key RESULT_PROOF_KEY_DOMAIN)
       (RESULT_PROOF_DOMAIN @ utf8_encode ticket))))"

definition identityResponse :: "json option \<Rightarrow> relayErrorCode + (string \<times> string \<times> string)" where
  "identityResponse body = (case body of None \<Rightarrow> Inl InvalidRelayResult
     | Some v \<Rightarrow>
         if \<not> is_object v \<or> list_ex (\<lambda>k. k \<notin> set [''corp_id'', ''user_id'', ''error'']) (objectKeys v)
            \<or> \<not> is_string (jget v ''corp_id'') \<or> \<not> is_string (jget v ''user_id'') \<or> \<not> is_string (jget v ''error'')
         then Inl InvalidRelayResult
         else Inr (the_string (jget v ''corp_id''), the_string (jget v ''user_id''), the_string (jget v ''error'')))"

record relayRequest =
  rr_url :: string
  rr_proof :: string
  rr_ticket :: string

text \<open>The relay answers with a status and a body, which may not be JSON, or not at all.\<close>

type_synonym relayFetch = "relayRequest \<Rightarrow> (int \<times> json option) option"

definition readIdentity :: "string \<Rightarrow> string \<times> string \<times> string \<Rightarrow> relayErrorCode + relayIdentity" where
  "readIdentity issuer r = (case r of (corpId, userId, error) \<Rightarrow>
     if error \<noteq> [] then
       (if error = ''access_denied'' then Inl AccessDenied
        else if error = ''identity_exchange_failed'' then Inl IdentityExchangeFailed
        else Inl InvalidRelayResult)
     else if js_trim corpId = [] \<or> length corpId > 255 \<or> js_trim userId = [] \<or> length userId > USER_ID_MAX_LENGTH
     then Inl InvalidRelayResult
     else Inr \<lparr>ri_corpId = corpId, ri_userId = userId, ri_relayIssuer = issuer\<rparr>)"

text \<open>Building the proof is part of the request and inside its try block.\<close>

definition consumeWeComRelayIdentity ::
    "relayEnv \<Rightarrow> relayFetch \<Rightarrow> string \<Rightarrow> string \<Rightarrow> relayErrorCode + relayIdentity" where
  "consumeWeComRelayIdentity env fetch ticket relayCallbackUrl =
    bindE (relayEndpoints env relayCallbackUrl) (\<lambda>endpoints.
      case createWeComRelayResultConsumerProof env ticket of Inl e \<Rightarrow> Inl RelayUnavailable
      | Inr proof_text \<Rightarrow>
        (case fetch \<lparr>rr_url = rp_result endpoints, rr_proof = proof_text, rr_ticket = ticket\<rparr> of
           None \<Rightarrow> Inl RelayUnavailable
         | Some (status, body) \<Rightarrow>
             if \<not> (200 \<le> status \<and> status \<le> 299)
             then Inl (if status = 400 \<or> status = 410 then InvalidRelayResult else RelayUnavailable)
             else bindE (identityResponse body) (readIdentity (rp_issuer endpoints))))"

section \<open>The addresses of the flow\<close>

definition DEFAULT_CONSOLE_URL :: string where
  "DEFAULT_CONSOLE_URL = ''https://ai-console.localhost.pomerium.io:8443''"

definition WECOM_IDENTITY_LINK_COOKIE :: string where
  "WECOM_IDENTITY_LINK_COOKIE = ''ai_base_wecom_identity_link''"

text \<open>None where the address is refused or is no URL.\<close>

definition configuredConsoleOrigin :: "relayEnv \<Rightarrow> relayUrl option" where
  "configuredConsoleOrigin env =
    (let configured = (case re_consoleUrl env of None \<Rightarrow> [] | Some s \<Rightarrow> js_trim s) in
     case re_url env (if configured = [] then DEFAULT_CONSOLE_URL else configured) of None \<Rightarrow> None
     | Some u \<Rightarrow>
         if url_protocol u \<noteq> ''https:'' \<or> url_username u \<noteq> [] \<or> url_password u \<noteq> []
            \<or> url_pathname u \<noteq> ''/'' \<or> url_search u \<noteq> [] \<or> url_hash u \<noteq> [] then None
         else Some u)"

definition aiConsoleAudience :: "relayEnv \<Rightarrow> string option" where
  "aiConsoleAudience env = map_option url_hostname (configuredConsoleOrigin env)"

definition hexUpper :: "nat \<Rightarrow> char" where
  "hexUpper n = char_of (if n < 10 then 48 + n else 55 + n)"

text \<open>The serialisation of \<open>URLSearchParams\<close>.\<close>

definition formChar :: "char \<Rightarrow> string" where
  "formChar c = (if is_alnum c \<or> c \<in> set ''*-._'' then [c] else if c = CHR '' '' then ''+''
     else concat (map (\<lambda>b. [CHR ''%'', hexUpper (code_unit b div 16), hexUpper (code_unit b mod 16)]) (utf8_char c)))"

definition withParam :: "relayUrl \<Rightarrow> string \<Rightarrow> string \<Rightarrow> string \<Rightarrow> string" where
  "withParam origin path name v = url_origin origin @ path @ ''?'' @ name @ ''='' @ concat (map formChar v)"

definition wecomIdentityLinkResultUrl :: "relayEnv \<Rightarrow> string \<Rightarrow> string option" where
  "wecomIdentityLinkResultUrl env result =
    map_option (\<lambda>u. withParam u ''/account'' ''wecom_link'' result) (configuredConsoleOrigin env)"

definition wecomIdentityLinkLoginUrl :: "relayEnv \<Rightarrow> string \<Rightarrow> string option" where
  "wecomIdentityLinkLoginUrl env requestToken =
    map_option (\<lambda>u. withParam u ''/auth/wework/link'' ''request'' requestToken) (configuredConsoleOrigin env)"

definition wecomIdentityStatusUrl :: "relayEnv \<Rightarrow> string \<Rightarrow> string option" where
  "wecomIdentityStatusUrl env result =
    map_option (\<lambda>u. withParam u ''/auth/wework/status'' ''result'' result) (configuredConsoleOrigin env)"

definition wecomRelayApplicationHomepageUrl :: "relayEnv \<Rightarrow> string \<Rightarrow> string option" where
  "wecomRelayApplicationHomepageUrl env relayCallbackUrl =
    map_option (\<lambda>u. url_origin u @ ''/launch/wecom'') (re_url env relayCallbackUrl)"

section \<open>Sealing and opening\<close>

lemma base64url_no_space: "base64url_char c \<Longrightarrow> \<not> is_space c"
  by (auto simp: base64url_char_def is_space_def is_alnum_def is_digit_def is_lower_def is_upper_def code_unit_def)

lemma base64url_trim [simp]: "js_trim (base64url_encode s) = base64url_encode s"
proof (rule js_trim_id)
  show "base64url_encode s = [] \<or> \<not> is_space (hd (base64url_encode s)) \<and> \<not> is_space (last (base64url_encode s))"
    using base64url_encode_chars base64url_no_space by (metis hd_in_set last_in_set)
qed

lemma relay_ticket_split:
  "js_split (CHR ''.'') (js_join ''.'' [''v1'', base64url_encode p, base64url_encode s])
    = [''v1'', base64url_encode p, base64url_encode s]"
  by (simp add: js_split_append js_split_word base64url_no_dot)

lemma sealed_opens:
  assumes "relay_crypto_laws (re_crypto env)" "json_ok v" "length nonce = 12"
    and "sealWeComRelayPayload env nonce v = Some (Inr ticket)" "length ticket \<le> 16384"
  shows "openWeComRelayPayload env ticket = Inr v"
proof -
  obtain t key where t: "jsonText v = Some t" and key: "relaySharedKey env = Inr key"
    using assms(4) by (auto simp: sealWeComRelayPayload_def)
  obtain ciphertext tag where seal: "rc_seal (re_crypto env) key nonce TICKET_AAD (utf8_encode t) = (ciphertext, tag)"
    by fastforce
  have ticket: "ticket = js_join ''.'' [''v1'', base64url_encode nonce, base64url_encode (ciphertext @ tag)]"
    using assms(4) t key seal by (auto simp: sealWeComRelayPayload_def)
  have law: "rc_open (re_crypto env) key nonce TICKET_AAD tag ciphertext = Some (utf8_encode t)" "length tag = 16"
    "length ciphertext = length (utf8_encode t)"
    using assms(1) seal unfolding relay_crypto_laws_def by (metis fst_conv snd_conv)+
  have "t \<noteq> []" using jsonText_start[OF t] by (simp add: value_start_def)
  then have ne: "0 < length (utf8_encode t)" by (cases t) (auto simp: utf8_encode_def utf8_char_def Let_def)
  have "ticket \<noteq> []" by (simp add: ticket)
  moreover have "js_split (CHR ''.'') ticket = [''v1'', base64url_encode nonce, base64url_encode (ciphertext @ tag)]"
    unfolding ticket by (rule relay_ticket_split)
  ultimately show ?thesis
    using assms(3,5) key law ne json_round_trip[OF assms(2) t]
    by (simp add: openWeComRelayPayload_def TICKET_MAX_LENGTH_def Let_def)
qed

text \<open>What the relay key seals it opens again: a payload sealed under a nonce of twelve bytes is read
  back as it was, if the ticket is no longer than the reader takes.\<close>

theorem relay_seal_round_trip:
  assumes "relay_crypto_laws (re_crypto env)" "json_ok v" "length nonce = 12"
    and "sealWeComRelayPayload env nonce v = Some (Inr ticket)" "length ticket \<le> 16384"
  shows "openWeComRelayPayload env ticket = Inr v"
  using assms by (rule sealed_opens)

section \<open>What an accepted ticket vouches for\<close>

lemma relayEndpoints_Inr:
  assumes "relayEndpoints env a = Inr endpoints"
  obtains u where "re_url env a = Some u" "url_protocol u = ''https:''" "url_username u = []" "url_password u = []"
    "url_pathname u = ''/callbacks/wecom''" "url_search u = []" "url_hash u = []"
    "endpoints = \<lparr>rp_callback = url_href u, rp_result = url_origin u @ ''/api/wecom/results'',
      rp_issuer = url_origin u @ ''/wecom''\<rparr>"
  using assms by (auto simp: relayEndpoints_def split: option.split_asm if_split_asm intro: that)

lemma openWeComRelayPayload_Inr:
  assumes "openWeComRelayPayload env ticket = Inr v"
  obtains key noncePart sealedPart plaintext where "relaySharedKey env = Inr key"
    "js_split (CHR ''.'') ticket = [''v1'', noncePart, sealedPart]"
    "let sealed = base64url_decode sealedPart in
      rc_open (re_crypto env) key (base64url_decode noncePart) TICKET_AAD (drop (length sealed - 16) sealed)
        (take (length sealed - 16) sealed) = Some plaintext"
    "jsonParse (utf8_decode plaintext) = Some v"
  using assms
  by (auto simp: openWeComRelayPayload_def Let_def intro: that
      split: if_split_asm list.split_asm sum.split_asm option.split_asm)

text \<open>An authentic payload: the ticket opens under the shared key to a text that reads as the value.\<close>

definition authenticPayload :: "relayEnv \<Rightarrow> string \<Rightarrow> json \<Rightarrow> bool" where
  "authenticPayload env ticket v \<longleftrightarrow> (\<exists>key noncePart sealedPart plaintext. relaySharedKey env = Inr key
     \<and> js_split (CHR ''.'') ticket = [''v1'', noncePart, sealedPart]
     \<and> (let sealed = base64url_decode sealedPart in
        rc_open (re_crypto env) key (base64url_decode noncePart) TICKET_AAD (drop (length sealed - 16) sealed)
          (take (length sealed - 16) sealed) = Some plaintext)
     \<and> jsonParse (utf8_decode plaintext) = Some v)"

lemma handoff_Inr:
  assumes "readWeComRelayResultHandoff env ticket now = Inr url"
  obtains v u issued where "authenticPayload env ticket v" "re_url env (the_string (jget v ''relay_callback_url'')) = Some u"
    "url = url_href u" "url_protocol u = ''https:''" "url_username u = []" "url_password u = []"
    "url_pathname u = ''/callbacks/wecom''" "url_search u = []" "url_hash u = []"
    "integerOf (jget v ''issued_at'') = Some issued" "issued \<le> now + 30" "now < issued + 300"
proof -
  obtain v where v: "openWeComRelayPayload env ticket = Inr v" "handoffFresh v now"
    and ends: "bindE (relayEndpoints env (the_string (jget v ''relay_callback_url''))) (\<lambda>endpoints. Inr (rp_callback endpoints)) = Inr url"
    using assms by (auto simp: readWeComRelayResultHandoff_def simp del: jget.simps split: if_split_asm)
  have auth: "authenticPayload env ticket v"
    using openWeComRelayPayload_Inr[OF v(1)] unfolding authenticPayload_def by metis
  obtain issued where issued: "integerOf (jget v ''issued_at'') = Some issued" "issued \<le> now + 30" "now < issued + 300"
    using v(2) by (auto simp: handoffFresh_def RESULT_LIFETIME_SECONDS_def split: option.split_asm)
  obtain e where e: "relayEndpoints env (the_string (jget v ''relay_callback_url'')) = Inr e" "url = rp_callback e"
    using ends by auto
  show ?thesis using e(1)
  proof (rule relayEndpoints_Inr)
    fix u
    assume "re_url env (the_string (jget v ''relay_callback_url'')) = Some u" "url_protocol u = ''https:''"
      "url_username u = []" "url_password u = []" "url_pathname u = ''/callbacks/wecom''" "url_search u = []"
      "url_hash u = []" "e = \<lparr>rp_callback = url_href u, rp_result = url_origin u @ ''/api/wecom/results'',
        rp_issuer = url_origin u @ ''/wecom''\<rparr>"
    with that[OF auth this(1) _ this(2-7) issued] e(2) show ?thesis by simp
  qed
qed

lemma consume_Inr:
  assumes "consumeWeComRelayIdentity env fetch ticket url = Inr identity"
  obtains u mac status v where "re_url env url = Some u" "url_protocol u = ''https:''"
    "createWeComRelayResultConsumerProof env ticket = Inr mac"
    "fetch \<lparr>rr_url = url_origin u @ ''/api/wecom/results'', rr_proof = mac, rr_ticket = ticket\<rparr> = Some (status, Some v)"
    "200 \<le> status" "status \<le> 299" "the_string (jget v ''error'') = []"
    "ri_corpId identity = the_string (jget v ''corp_id'')" "ri_userId identity = the_string (jget v ''user_id'')"
    "js_trim (ri_corpId identity) \<noteq> []" "js_trim (ri_userId identity) \<noteq> []"
    "length (ri_corpId identity) \<le> 255" "length (ri_userId identity) \<le> 256"
    "ri_relayIssuer identity = url_origin u @ ''/wecom''"
proof -
  obtain e where e: "relayEndpoints env url = Inr e"
    using assms by (auto simp: consumeWeComRelayIdentity_def)
  obtain u where u: "re_url env url = Some u" "url_protocol u = ''https:''"
    "e = \<lparr>rp_callback = url_href u, rp_result = url_origin u @ ''/api/wecom/results'', rp_issuer = url_origin u @ ''/wecom''\<rparr>"
    using e by (rule relayEndpoints_Inr)
  obtain mac where mac: "createWeComRelayResultConsumerProof env ticket = Inr mac"
    using assms e by (auto simp: consumeWeComRelayIdentity_def split: sum.split_asm)
  obtain status body where f: "fetch \<lparr>rr_url = rp_result e, rr_proof = mac, rr_ticket = ticket\<rparr> = Some (status, body)"
    using assms e mac by (auto simp: consumeWeComRelayIdentity_def split: option.split_asm)
  then have s: "200 \<le> status" "status \<le> 299" and r: "bindE (identityResponse body) (readIdentity (rp_issuer e)) = Inr identity"
    using assms e mac by (auto simp: consumeWeComRelayIdentity_def split: if_split_asm)
  obtain v where v: "body = Some v" "readIdentity (rp_issuer e)
      (the_string (jget v ''corp_id''), the_string (jget v ''user_id''), the_string (jget v ''error'')) = Inr identity"
    using r by (auto simp: identityResponse_def simp del: jget.simps split: option.split_asm if_split_asm)
  show ?thesis
    using v(2) by (intro that[OF u(1,2) mac f[unfolded v(1) u(3), simplified] s])
      (auto simp: readIdentity_def u(3) USER_ID_MAX_LENGTH_def split: if_split_asm)
qed

text \<open>The relay's word is taken only for an authentic, fresh ticket: when the exchange of a ticket
  yields an identity, the ticket opened under the shared key to a hand-off issued less than five
  minutes ago for an https callback without credentials, the request went to that origin with the
  proof for this ticket, and the identity is the one its successful answer names.\<close>

theorem relay_identity_sound:
  assumes "readWeComRelayResultHandoff env ticket now = Inr url"
    and "consumeWeComRelayIdentity env fetch ticket url = Inr identity"
  shows "(\<exists>v callback issued. authenticPayload env ticket v
      \<and> re_url env (the_string (jget v ''relay_callback_url'')) = Some callback \<and> url = url_href callback
      \<and> url_protocol callback = ''https:'' \<and> url_pathname callback = ''/callbacks/wecom''
      \<and> integerOf (jget v ''issued_at'') = Some issued \<and> issued \<le> now + 30 \<and> now < issued + 300)
    \<and> (\<exists>u mac status answer. re_url env url = Some u \<and> createWeComRelayResultConsumerProof env ticket = Inr mac
      \<and> fetch \<lparr>rr_url = url_origin u @ ''/api/wecom/results'', rr_proof = mac, rr_ticket = ticket\<rparr> = Some (status, Some answer)
      \<and> 200 \<le> status \<and> status \<le> 299
      \<and> ri_corpId identity = the_string (jget answer ''corp_id'') \<and> js_trim (ri_corpId identity) \<noteq> []
      \<and> ri_userId identity = the_string (jget answer ''user_id'') \<and> js_trim (ri_userId identity) \<noteq> []
      \<and> length (ri_userId identity) \<le> 256
      \<and> ri_relayIssuer identity = url_origin u @ ''/wecom'')"
proof (rule conjI, goal_cases)
  case 1
  show ?case by (rule handoff_Inr[OF assms(1)]) blast
next
  case 2
  show ?case by (rule consume_Inr[OF assms(2)]) blast
qed

section \<open>A ticket that is accepted\<close>

definition demo_relay_key :: string where "demo_relay_key = replicate 32 (CHR ''k'')"

definition demo_handoff :: json where
  "demo_handoff = JObj [(''v'', JNum (Fin 1)), (''result_id'', JStr (replicate 43 (CHR ''r''))),
     (''relay_callback_url'', JStr ''https://relay/callbacks/wecom''), (''issued_at'', JNum (Fin (of_int 1000))),
     (''expires_at'', JNum (Fin (of_int 1300)))]"

definition demo_relay_url :: relayUrl where
  "demo_relay_url = \<lparr>url_protocol = ''https:'', url_username = [], url_password = [], url_pathname = ''/callbacks/wecom'',
     url_search = [], url_hash = [], url_href = ''https://relay/callbacks/wecom'', url_origin = ''https://relay'',
     url_hostname = ''relay''\<rparr>"

definition demo_url :: "string \<Rightarrow> relayUrl option" where
  "demo_url s = (if s = ''https://relay/callbacks/wecom'' then Some demo_relay_url
     else if s = ''https://relay/wecom'' then Some (demo_relay_url\<lparr>url_pathname := ''/wecom'', url_href := s\<rparr>)
     else if s = DEFAULT_CONSOLE_URL then Some (demo_relay_url\<lparr>url_pathname := ''/'', url_href := s, url_origin := s,
       url_hostname := ''console''\<rparr>) else None)"

definition demo_relay_env :: relayEnv where
  "demo_relay_env = \<lparr>re_crypto = \<lparr>rc_hmac = (\<lambda>k s. replicate 32 (CHR ''m'')),
       rc_seal = (\<lambda>k n a s. (s, replicate 16 (CHR ''t''))), rc_open = (\<lambda>k n a t c. Some c)\<rparr>,
     re_sharedKey = Some (base64url_encode demo_relay_key), re_consoleUrl = None,
     re_url = demo_url\<rparr>"

definition demo_relay_answer :: relayFetch where
  "demo_relay_answer r = Some (200, Some (JObj [(''corp_id'', JStr ''corp''), (''user_id'', JStr ''ann''), (''error'', JStr [])]))"

lemma demo_relay_laws: "relay_crypto_laws (re_crypto demo_relay_env)"
  by (simp add: relay_crypto_laws_def demo_relay_env_def)

lemma strip_padding_encoded: "strip_padding (base64url_encode s) = base64url_encode s"
proof -
  have "dropWhile (\<lambda>c. c = CHR ''='') (rev (base64url_encode s)) = rev (base64url_encode s)"
    using base64url_encode_chars[of _ s] base64url_char_not(2)
    by (intro dropWhile_eq_self_iff[THEN iffD2]) (metis hd_in_set set_rev)
  then show ?thesis by (simp add: strip_padding_def)
qed

lemma demo_shared_key: "relaySharedKey demo_relay_env = Inr demo_relay_key"
  by (simp add: relaySharedKey_def demo_relay_env_def demo_relay_key_def strip_padding_encoded)

lemma demo_handoff_ok: "json_ok demo_handoff"
  by (simp add: demo_handoff_def writable_def)

definition demo_ticket :: string where
  "demo_ticket = js_join ''.'' [''v1'', base64url_encode (replicate 12 (CHR ''n'')),
     base64url_encode (utf8_encode (the (jsonText demo_handoff)) @ replicate 16 (CHR ''t''))]"

lemma demo_handoff_text: "\<exists>t. jsonText demo_handoff = Some t \<and> length t \<le> 1000"
  by (simp add: demo_handoff_def writable_def quoted_def jsonChar_def decInt_def dec.simps code_unit_def)

lemma demo_sealed: "sealWeComRelayPayload demo_relay_env (replicate 12 (CHR ''n'')) demo_handoff = Some (Inr demo_ticket)"
  using demo_handoff_text demo_shared_key
  by (auto simp: sealWeComRelayPayload_def demo_ticket_def) (simp add: demo_relay_env_def)

lemma demo_ticket_short: "length demo_ticket \<le> 16384"
proof -
  obtain t where t: "jsonText demo_handoff = Some t" "length t \<le> 1000" using demo_handoff_text by blast
  have "length (base64url_encode (utf8_encode t @ replicate 16 (CHR ''t''))) \<le> 2 * (2 * length t + 16)"
    using length_encode_bytes_le[of "map code_unit (utf8_encode t @ replicate 16 (CHR ''t''))"] length_utf8_le[of t]
    by (simp add: base64url_encode_def)
  moreover have "length (base64url_encode (replicate 12 (CHR ''n''))) \<le> 2 * 12"
    using length_encode_bytes_le[of "map code_unit (replicate 12 (CHR ''n''))"] by (simp add: base64url_encode_def)
  ultimately show ?thesis using t by (simp add: demo_ticket_def)
qed

theorem relay_seal_round_trip_witness: "openWeComRelayPayload demo_relay_env demo_ticket = Inr demo_handoff"
  by (rule relay_seal_round_trip[OF demo_relay_laws demo_handoff_ok _ demo_sealed demo_ticket_short]) simp

lemma demo_opened: "openWeComRelayPayload demo_relay_env demo_ticket = Inr demo_handoff"
  by (rule sealed_opens[OF demo_relay_laws demo_handoff_ok _ demo_sealed demo_ticket_short]) simp

lemma demo_read: "readWeComRelayResultHandoff demo_relay_env demo_ticket 1100 = Inr ''https://relay/callbacks/wecom''"
proof -
  have "valid_link_secret (replicate 43 (CHR ''r''))"
    by (simp add: valid_link_secret_def base64url_char_def is_alnum_def is_lower_def code_unit_def list_all_iff)
  moreover have "handoffFresh demo_handoff 1100"
    by (simp add: handoffFresh_def demo_handoff_def RESULT_LIFETIME_SECONDS_def del: of_int_numeral)
  moreover have "relayEndpoints demo_relay_env ''https://relay/callbacks/wecom'' = Inr \<lparr>rp_callback = ''https://relay/callbacks/wecom'',
      rp_result = ''https://relay/api/wecom/results'', rp_issuer = ''https://relay/wecom''\<rparr>"
    by (simp add: relayEndpoints_def demo_relay_env_def demo_url_def demo_relay_url_def)
  ultimately show ?thesis
    by (simp add: readWeComRelayResultHandoff_def demo_opened TICKET_VERSION_def) (simp add: demo_handoff_def)
qed

lemma demo_consumed:
  "consumeWeComRelayIdentity demo_relay_env demo_relay_answer demo_ticket ''https://relay/callbacks/wecom''
    = Inr \<lparr>ri_corpId = ''corp'', ri_userId = ''ann'', ri_relayIssuer = ''https://relay/wecom''\<rparr>"
proof -
  have "relayEndpoints demo_relay_env ''https://relay/callbacks/wecom'' = Inr \<lparr>rp_callback = ''https://relay/callbacks/wecom'',
      rp_result = ''https://relay/api/wecom/results'', rp_issuer = ''https://relay/wecom''\<rparr>"
    by (simp add: relayEndpoints_def demo_relay_env_def demo_url_def demo_relay_url_def)
  then show ?thesis
    by (simp add: consumeWeComRelayIdentity_def createWeComRelayResultConsumerProof_def demo_shared_key demo_relay_answer_def
        identityResponse_def readIdentity_def js_trim_def is_space_def code_unit_def USER_ID_MAX_LENGTH_def)
qed

theorem relay_identity_sound_witness:
  "\<exists>v. authenticPayload demo_relay_env demo_ticket v"
  using relay_identity_sound[OF demo_read demo_consumed] by blast

end
