(* ===== verification/Applications.thy ===== *)
theory Applications
  imports Integration_Core
begin

text \<open>
  The enterprise applications of src/ai-console/src/lib/server/integrations.ts: creating, updating,
  deleting and activating the application of a platform, reading the active credential, and the
  part of the schema migration that repairs the table. Activation reads its row before its
  transaction, so it is modelled as the two steps other requests can come between.
\<close>

record integrationEnv =
  ie_connector :: ocEnv
  ie_crypto :: crypto
  ie_key :: "string option"
  ie_errorText :: "appError \<Rightarrow> string"

record applicationView =
  av_id :: string
  av_platform :: platform
  av_name :: string
  av_appId :: string
  av_remark :: string
  av_actionIds :: "string list"
  av_active :: bool
  av_secretConfigured :: bool
  av_createdAt :: int
  av_updatedAt :: int

definition serializeApplication :: "applicationRow \<Rightarrow> applicationView" where
  "serializeApplication row = \<lparr>av_id = ap_id row, av_platform = ap_platform row,
     av_name = ap_app_name row, av_appId = ap_app_id row, av_remark = ap_note row,
     av_actionIds = storedActionIds (ap_action_ids row), av_active = ap_active row,
     av_secretConfigured = True, av_createdAt = ap_created_at row,
     av_updatedAt = ap_updated_at row\<rparr>"

record integrationGroup =
  ig_platform :: platform
  ig_actions :: "actionOption list"
  ig_defaultActionIds :: "string list"
  ig_oauthBaseScopes :: "string list"
  ig_applications :: "applicationView list"

definition buildEnterpriseIntegrationsSnapshot ::
    "applicationView list \<Rightarrow> (platform \<rightharpoonup> actionCatalog) \<Rightarrow> integrationGroup list" where
  "buildEnterpriseIntegrationsSnapshot apps catalogs = map (\<lambda>definition.
     let p = pd_platform definition in
     \<lparr>ig_platform = p,
      ig_actions = (case catalogs p of None \<Rightarrow> [] | Some c \<Rightarrow> ac_actions c),
      ig_defaultActionIds = (case catalogs p of None \<Rightarrow> pd_defaultActionIds definition
        | Some c \<Rightarrow> ac_defaultActionIds c),
      ig_oauthBaseScopes = (case catalogs p of None \<Rightarrow> [] | Some c \<Rightarrow> ac_oauthBaseScopes c),
      ig_applications = filter (\<lambda>a. av_platform a = p) apps\<rparr>) platformDefinitions"

section \<open>Create, update, delete\<close>

record createInput =
  cr_platform :: json
  cr_name :: json
  cr_appId :: json
  cr_remark :: json
  cr_appSecret :: json
  cr_actionIds :: json

definition applicationToCreate ::
    "integrationEnv \<Rightarrow> string \<Rightarrow> string \<Rightarrow> int \<Rightarrow> createInput \<Rightarrow> db \<Rightarrow> appError + applicationRow" where
  "applicationToCreate env uuid iv now input d =
     bindE (normalizePlatform (cr_platform input)) (\<lambda>p.
     bindE (requiredValue (cr_name input) LabelName APP_NAME_MAX_LENGTH) (\<lambda>name.
     bindE (requiredValue (cr_appId input) LabelAppId APP_ID_MAX_LENGTH) (\<lambda>appId.
     bindE (optionalValue (cr_remark input) LabelRemark APP_NOTE_MAX_LENGTH) (\<lambda>remark.
     bindE (requiredSecret (cr_appSecret input)) (\<lambda>appSecret.
     bindE (platformDefinition p) (\<lambda>definition.
     bindE (normalizeIntegrationActionIds (ie_connector env) p (cr_actionIds input)
         (pd_defaultActionIds definition)) (\<lambda>actionIds.
     bindE (encryptIntegrationSecret (ie_crypto env) (ie_key env) iv appSecret) (\<lambda>sealed.
     Inr \<lparr>ap_id = uuid, ap_platform = p, ap_app_name = name, ap_app_id = appId,
          ap_note = remark, ap_action_ids = JArr (map JStr actionIds),
          ap_active = (\<not> list_ex (\<lambda>a. ap_platform a = p \<and> ap_active a) (applications d)),
          ap_secret = sealed, ap_created_at = now, ap_updated_at = now\<rparr>))))))))"

definition createIntegrationApplication ::
    "integrationEnv \<Rightarrow> string \<Rightarrow> string \<Rightarrow> int \<Rightarrow> createInput \<Rightarrow> db
      \<Rightarrow> (appError + applicationView) \<times> db" where
  "createIntegrationApplication env uuid iv now input d =
    (case applicationToCreate env uuid iv now input d of
       Inl e \<Rightarrow> (Inl e, d)
     | Inr row \<Rightarrow> (case checked (d\<lparr>applications := applications d @ [row]\<rparr>) of
           Inr d' \<Rightarrow> (Inr (serializeApplication row), d')
         | Inl UniqueViolation \<Rightarrow> (Inl (storeError DuplicateAppId 409), d)
         | Inl v \<Rightarrow> (Inl (DatabaseError v), d)))"

record updateInput =
  up_name :: json
  up_appId :: json
  up_remark :: json
  up_appSecret :: json
  up_actionIds :: json

definition findApplication :: "db \<Rightarrow> string \<Rightarrow> applicationRow option" where
  "findApplication d i = List.find (\<lambda>a. ap_id a = i) (applications d)"

definition updateApplicationRows ::
    "(applicationRow \<Rightarrow> bool) \<Rightarrow> (applicationRow \<Rightarrow> applicationRow) \<Rightarrow> db \<Rightarrow> db" where
  "updateApplicationRows P f d = d\<lparr>applications := map (\<lambda>a. if P a then f a else a) (applications d)\<rparr>"

definition applicationToUpdate ::
    "integrationEnv \<Rightarrow> string \<Rightarrow> int \<Rightarrow> string \<Rightarrow> updateInput \<Rightarrow> db \<Rightarrow> appError + applicationRow" where
  "applicationToUpdate env iv now i input d =
     bindE (requiredUuid i) (\<lambda>safeId.
     case findApplication d safeId of
       None \<Rightarrow> Inl (storeError ApplicationMissing 404)
     | Some current \<Rightarrow>
         bindE (requiredValue (up_name input) LabelName APP_NAME_MAX_LENGTH) (\<lambda>name.
         bindE (requiredValue (up_appId input) LabelAppId APP_ID_MAX_LENGTH) (\<lambda>appId.
         bindE (optionalValue (up_remark input) LabelRemark APP_NOTE_MAX_LENGTH) (\<lambda>remark.
         bindE (optionalSecret (up_appSecret input)) (\<lambda>appSecret.
         bindE (normalizeIntegrationActionIds (ie_connector env) (ap_platform current)
             (up_actionIds input) (storedActionIds (ap_action_ids current))) (\<lambda>actionIds.
         bindE (case appSecret of None \<Rightarrow> Inr (ap_secret current)
             | Some s \<Rightarrow> encryptIntegrationSecret (ie_crypto env) (ie_key env) iv s) (\<lambda>sealed.
         Inr (current\<lparr>ap_app_name := name, ap_app_id := appId, ap_note := remark,
           ap_action_ids := JArr (map JStr actionIds), ap_secret := sealed,
           ap_updated_at := now\<rparr>))))))))"

definition updateIntegrationApplication ::
    "integrationEnv \<Rightarrow> string \<Rightarrow> int \<Rightarrow> string \<Rightarrow> updateInput \<Rightarrow> db
      \<Rightarrow> (appError + applicationView) \<times> db" where
  "updateIntegrationApplication env iv now i input d =
    (case applicationToUpdate env iv now i input d of
       Inl e \<Rightarrow> (Inl e, d)
     | Inr row \<Rightarrow> (case checked (updateApplicationRows (\<lambda>a. ap_id a = ap_id row) (\<lambda>_. row) d) of
           Inr d' \<Rightarrow> (Inr (serializeApplication row), d')
         | Inl UniqueViolation \<Rightarrow> (Inl (storeError DuplicateAppId 409), d)
         | Inl v \<Rightarrow> (Inl (DatabaseError v), d)))"

definition deleteIntegrationApplication :: "string \<Rightarrow> db \<Rightarrow> (appError + unit) \<times> db" where
  "deleteIntegrationApplication i d =
    (case requiredUuid i of
       Inl e \<Rightarrow> (Inl e, d)
     | Inr safeId \<Rightarrow>
         (case checked (d\<lparr>applications := filter (\<lambda>a. ap_id a \<noteq> safeId) (applications d)\<rparr>) of
            Inl ForeignKeyViolation \<Rightarrow> (Inl (storeError ApplicationBound 409), d)
          | Inl v \<Rightarrow> (Inl (DatabaseError v), d)
          | Inr d' \<Rightarrow> if findApplication d safeId = None
              then (Inl (storeError ApplicationMissing 404), d')
              else (Inr (), d')))"

section \<open>The active application\<close>

definition applicationWithSecret :: "string \<Rightarrow> db \<Rightarrow> appError + applicationRow" where
  "applicationWithSecret i d = bindE (requiredUuid i) (\<lambda>safeId.
     case findApplication d safeId of
       None \<Rightarrow> Inl (storeError ApplicationMissing 404)
     | Some row \<Rightarrow> if ap_secret row = [] then Inl (storeError ApplicationMissing 404) else Inr row)"

record activeCredential =
  cd_id :: string
  cd_platform :: platform
  cd_name :: string
  cd_appId :: string
  cd_appSecret :: string
  cd_updatedAt :: int

definition getActiveIntegrationCredential ::
    "integrationEnv \<Rightarrow> json \<Rightarrow> db \<Rightarrow> appError + activeCredential" where
  "getActiveIntegrationCredential env p d =
    bindE (normalizePlatform p) (\<lambda>safePlatform.
      case List.find (\<lambda>a. ap_platform a = safePlatform \<and> ap_active a) (applications d) of
        None \<Rightarrow> Inl (storeError PlatformInactive 404)
      | Some row \<Rightarrow> if ap_secret row = [] then Inl (storeError PlatformInactive 404)
          else bindE (decryptIntegrationSecret (ie_crypto env) (ie_key env) (ap_secret row)) (\<lambda>s.
            Inr \<lparr>cd_id = ap_id row, cd_platform = ap_platform row, cd_name = ap_app_name row,
                 cd_appId = ap_app_id row, cd_appSecret = s, cd_updatedAt = ap_updated_at row\<rparr>))"

definition syncApplicationOAuthClient :: "integrationEnv \<Rightarrow> applicationRow \<Rightarrow> appError + unit" where
  "syncApplicationOAuthClient env row =
    (case List.find (\<lambda>definition. pd_platform definition = ap_platform row) platformDefinitions of
       None \<Rightarrow> Inr ()
     | Some definition \<Rightarrow> (case pd_service definition of
         None \<Rightarrow> Inr ()
       | Some service \<Rightarrow>
           if pd_bindingMode definition \<noteq> ModeOAuth2 \<or> ap_secret row = [] then Inr ()
           else bindE (decryptIntegrationSecret (ie_crypto env) (ie_key env) (ap_secret row)) (\<lambda>s.
             bindE (liftConnector (saveConnectorOAuthConfig (ie_connector env) service
               (JObj [(''clientId'', JStr (ap_app_id row)), (''clientSecret'', JStr s),
                  (''extra'', JObj []), (''secretExtra'', JObj [])]))) (\<lambda>_. Inr ()))))"

definition activateCheck :: "integrationEnv \<Rightarrow> string \<Rightarrow> db \<Rightarrow> appError + applicationRow" where
  "activateCheck env i d =
    bindE (applicationWithSecret i d) (\<lambda>row.
      if \<not> ap_active row \<and> list_ex (\<lambda>b. bi_platform b = ap_platform row
           \<and> (bi_status b = Pending \<or> bi_status b = Connected)) (bindings d)
      then Inl (storeError PlatformHasBindings 409)
      else bindE (syncApplicationOAuthClient env row) (\<lambda>_. Inr row))"

text \<open>The transaction. Its last step serialises the returned row after COMMIT; when the row is
  gone that throws, and the ROLLBACK that follows has nothing left to undo.\<close>

definition activateCommit :: "int \<Rightarrow> applicationRow \<Rightarrow> db \<Rightarrow> (appError + applicationView) \<times> db" where
  "activateCommit now row d =
    (let d1 = updateApplicationRows (\<lambda>a. ap_platform a = ap_platform row \<and> ap_id a \<noteq> ap_id row)
           (\<lambda>a. a\<lparr>ap_active := False, ap_updated_at := now\<rparr>) d in
     case checked d1 of Inl v \<Rightarrow> (Inl (DatabaseError v), d)
     | Inr d1' \<Rightarrow>
        (case checked (updateApplicationRows (\<lambda>a. ap_id a = ap_id row)
             (\<lambda>a. a\<lparr>ap_active := True, ap_updated_at := now\<rparr>) d1') of
           Inl v \<Rightarrow> (Inl (DatabaseError v), d)
         | Inr d2 \<Rightarrow> (case findApplication d2 (ap_id row) of
             None \<Rightarrow> (Inl TypeFailure, d2)
           | Some activated \<Rightarrow> (Inr (serializeApplication activated), d2))))"

definition activateIntegrationApplication ::
    "integrationEnv \<Rightarrow> int \<Rightarrow> string \<Rightarrow> db \<Rightarrow> (appError + applicationView) \<times> db" where
  "activateIntegrationApplication env now i d =
    (case activateCheck env i d of
       Inl e \<Rightarrow> (Inl e, d)
     | Inr row \<Rightarrow> activateCommit now row d)"

section \<open>The repairs of the schema migration\<close>

definition app_before :: "applicationRow \<Rightarrow> applicationRow \<Rightarrow> bool" where
  "app_before a b \<longleftrightarrow> ap_created_at a < ap_created_at b
     \<or> ap_created_at a = ap_created_at b \<and> str_le (ap_id a) (ap_id b)"

text \<open>DISTINCT ON (platform) ... ORDER BY platform, created_at, id.\<close>

definition promoted :: "applicationRow list \<Rightarrow> platform \<Rightarrow> string option" where
  "promoted rows p =
    (if list_ex (\<lambda>a. ap_platform a = p \<and> ap_active a) rows then None
     else case sort_by app_before (filter (\<lambda>a. ap_platform a = p) rows) of
       [] \<Rightarrow> None | a # _ \<Rightarrow> Some (ap_id a))"

definition repairRow :: "applicationRow \<Rightarrow> applicationRow" where
  "repairRow a =
    (let b = (if btrim_blank (ap_app_name a) then a\<lparr>ap_app_name := ap_app_id a\<rparr> else a) in
     if ap_platform b = Feishu \<and> ap_action_ids b = JArr []
     then b\<lparr>ap_action_ids := JArr (map JStr FEISHU_DEFAULT_ACTION_IDS)\<rparr> else b)"

definition promoteRow :: "applicationRow list \<Rightarrow> applicationRow \<Rightarrow> applicationRow" where
  "promoteRow rows a =
    (if promoted rows (ap_platform a) = Some (ap_id a) then a\<lparr>ap_active := True\<rparr> else a)"

definition migrateApplications :: "applicationRow list \<Rightarrow> applicationRow list" where
  "migrateApplications rows =
    map (promoteRow (map repairRow rows)) (map repairRow rows)"

section \<open>Lemmas\<close>

definition activeIds :: "applicationRow list \<Rightarrow> platform \<Rightarrow> string list" where
  "activeIds rows p = map ap_id (filter (\<lambda>a. ap_platform a = p \<and> ap_active a) rows)"

lemma db_ok_applications:
  assumes "db_ok d" "map ap_id rows = map ap_id (applications d)" "applications_unique rows"
  shows "db_ok (d\<lparr>applications := rows\<rparr>)"
  using assms by (simp add: db_ok_defs)

lemma unique_by_active:
  "unique_by ap_platform (filter ap_active rows) \<longleftrightarrow> (\<forall>p. length (activeIds rows p) \<le> 1)"
proof (induction rows)
  case (Cons a rows)
  have "ap_platform a \<notin> ap_platform ` set (filter ap_active rows) \<longleftrightarrow> activeIds rows (ap_platform a) = []"
    by (auto simp: activeIds_def filter_empty_conv image_iff)
  moreover have "length (activeIds (a # rows) p) = length (activeIds rows p)
      + (if ap_platform a = p \<and> ap_active a then 1 else 0)" for p
    by (simp add: activeIds_def)
  ultimately show ?case
    using Cons.IH by (auto simp: le_Suc_eq)
qed (simp add: activeIds_def)

lemma active_none:
  "(\<not> list_ex (\<lambda>a. ap_platform a = p \<and> ap_active a) rows) = (activeIds rows p = [])"
  by (auto simp: activeIds_def list_ex_iff filter_empty_conv)

lemma applicationToCreate_row:
  assumes "applicationToCreate env uuid iv now input d = Inr row"
  shows "ap_id row = uuid"
    and "ap_active row = (activeIds (applications d) (ap_platform row) = [])"
    and "\<exists>secret. cr_appSecret input = JStr secret \<and> secret \<noteq> []
      \<and> encryptIntegrationSecret (ie_crypto env) (ie_key env) iv secret = Inr (ap_secret row)"
    and "\<exists>ids c. ap_action_ids row = JArr (map JStr ids)
      \<and> integrationActionCatalog (ie_connector env) (ap_platform row) = Inr c
      \<and> set ids \<subseteq> set (map ao_id (ac_actions c))"
proof -
  show "ap_id row = uuid" "ap_active row = (activeIds (applications d) (ap_platform row) = [])"
    using assms by (auto simp: applicationToCreate_def active_none)
  show "\<exists>secret. cr_appSecret input = JStr secret \<and> secret \<noteq> []
      \<and> encryptIntegrationSecret (ie_crypto env) (ie_key env) iv secret = Inr (ap_secret row)"
    using assms by (auto simp: applicationToCreate_def dest!: requiredSecret_ok)
  show "\<exists>ids c. ap_action_ids row = JArr (map JStr ids)
      \<and> integrationActionCatalog (ie_connector env) (ap_platform row) = Inr c
      \<and> set ids \<subseteq> set (map ao_id (ac_actions c))"
    using assms
    by (auto simp: applicationToCreate_def elim!: normalizeIntegrationActionIds_ok)
qed

lemma createIntegrationApplication_Inl:
  "createIntegrationApplication env uuid iv now input d = (Inl e, d') \<Longrightarrow> d' = d"
  by (auto simp: createIntegrationApplication_def split: sum.split_asm violation.split_asm)

lemma createIntegrationApplication_Inr:
  "createIntegrationApplication env uuid iv now input d = (Inr v, d') \<Longrightarrow>
    \<exists>row. applicationToCreate env uuid iv now input d = Inr row \<and> v = serializeApplication row
      \<and> d' = d\<lparr>applications := applications d @ [row]\<rparr> \<and> db_ok d'"
  by (auto simp: createIntegrationApplication_def split: sum.split_asm violation.split_asm)

lemma updateIntegrationApplication_Inl:
  "updateIntegrationApplication env iv now i input d = (Inl e, d') \<Longrightarrow> d' = d"
  by (auto simp: updateIntegrationApplication_def split: sum.split_asm violation.split_asm)

lemma updateIntegrationApplication_Inr:
  "updateIntegrationApplication env iv now i input d = (Inr v, d') \<Longrightarrow>
    \<exists>row. applicationToUpdate env iv now i input d = Inr row \<and> v = serializeApplication row
      \<and> d' = updateApplicationRows (\<lambda>a. ap_id a = ap_id row) (\<lambda>_. row) d \<and> db_ok d'"
  by (auto simp: updateIntegrationApplication_def split: sum.split_asm violation.split_asm)

lemma findApplication_None: "findApplication d i = None \<longleftrightarrow> i \<notin> ap_id ` set (applications d)"
  by (auto simp: findApplication_def find_None_iff)

lemma findApplication_Some:
  "findApplication d i = Some a \<Longrightarrow> a \<in> set (applications d) \<and> ap_id a = i"
  by (auto simp: findApplication_def find_Some_iff)

lemma delete_missing:
  "findApplication d k = None \<Longrightarrow>
    d\<lparr>applications := filter (\<lambda>a. ap_id a \<noteq> k) (applications d)\<rparr> = d"
proof -
  assume "findApplication d k = None"
  then have "filter (\<lambda>a. ap_id a \<noteq> k) (applications d) = applications d"
    by (auto simp: findApplication_None filter_id_conv)
  then show ?thesis by simp
qed

lemma deleteIntegrationApplication_Inl:
  "deleteIntegrationApplication i d = (Inl e, d') \<Longrightarrow> d' = d"
  by (auto simp: deleteIntegrationApplication_def delete_missing
      split: sum.split_asm violation.split_asm if_split_asm)

lemma deleteIntegrationApplication_Inr:
  "deleteIntegrationApplication i d = (Inr v, d') \<Longrightarrow>
    valid_uuid i \<and> findApplication d (js_lower i) \<noteq> None \<and> db_ok d'
      \<and> d' = d\<lparr>applications := filter (\<lambda>a. ap_id a \<noteq> js_lower i) (applications d)\<rparr>"
  by (auto simp: deleteIntegrationApplication_def requiredUuid_def
      split: sum.split_asm violation.split_asm if_split_asm)

interpretation create_application: atomic_handler
  "\<lambda>(env, uuid, iv, now, input) d. createIntegrationApplication env uuid iv now input d"
proof (unfold_locales, goal_cases)
  case (1 d w)
  obtain env uuid iv now input where w: "w = (env, uuid, iv, now, input)" by (cases w)
  obtain r d' where "createIntegrationApplication env uuid iv now input d = (r, d')" by fastforce
  with 1 w show ?case
    by (cases r) (auto dest: createIntegrationApplication_Inl createIntegrationApplication_Inr)
qed (auto dest: createIntegrationApplication_Inl)

interpretation update_application: atomic_handler
  "\<lambda>(env, iv, now, i, input) d. updateIntegrationApplication env iv now i input d"
proof (unfold_locales, goal_cases)
  case (1 d w)
  obtain env iv now i input where w: "w = (env, iv, now, i, input)" by (cases w)
  obtain r d' where "updateIntegrationApplication env iv now i input d = (r, d')" by fastforce
  with 1 w show ?case
    by (cases r) (auto dest: updateIntegrationApplication_Inl updateIntegrationApplication_Inr)
qed (auto dest: updateIntegrationApplication_Inl)

interpretation delete_application: atomic_handler "\<lambda>i d. deleteIntegrationApplication i d"
proof (unfold_locales, goal_cases)
  case (1 d i)
  obtain r d' where "deleteIntegrationApplication i d = (r, d')" by fastforce
  with 1 show ?case
    by (cases r) (auto dest: deleteIntegrationApplication_Inl deleteIntegrationApplication_Inr)
qed (auto dest: deleteIntegrationApplication_Inl)

section \<open>Activation\<close>

definition activatedRow :: "int \<Rightarrow> applicationRow \<Rightarrow> applicationRow \<Rightarrow> applicationRow" where
  "activatedRow now row a =
    (if ap_id a = ap_id row then a\<lparr>ap_active := True, ap_updated_at := now\<rparr>
     else if ap_platform a = ap_platform row then a\<lparr>ap_active := False, ap_updated_at := now\<rparr>
     else a)"

definition deactivatedRow :: "int \<Rightarrow> applicationRow \<Rightarrow> applicationRow \<Rightarrow> applicationRow" where
  "deactivatedRow now row a =
    (if ap_platform a = ap_platform row \<and> ap_id a \<noteq> ap_id row
     then a\<lparr>ap_active := False, ap_updated_at := now\<rparr> else a)"

lemma activatedRow_keys [simp]:
  "ap_id (activatedRow now row a) = ap_id a" "ap_platform (activatedRow now row a) = ap_platform a"
  "ap_app_id (activatedRow now row a) = ap_app_id a"
  "ap_id (deactivatedRow now row a) = ap_id a"
  "ap_platform (deactivatedRow now row a) = ap_platform a"
  "ap_app_id (deactivatedRow now row a) = ap_app_id a"
  by (simp_all add: activatedRow_def deactivatedRow_def)

lemma activeIds_map:
  "(\<And>a. ap_id (f a) = ap_id a \<and> ap_platform (f a) = ap_platform a) \<Longrightarrow>
    activeIds (map f rows) q = map ap_id (filter (\<lambda>a. ap_platform a = q \<and> ap_active (f a)) rows)"
  by (induction rows) (auto simp: activeIds_def)

lemma length_filter_mono: "(\<And>x. P x \<Longrightarrow> Q x) \<Longrightarrow> length (filter P xs) \<le> length (filter Q xs)"
  by (induction xs) (auto simp: le_SucI)

lemma applications_unique_map:
  assumes "applications_unique rows"
    and "\<And>a. ap_id (f a) = ap_id a \<and> ap_platform (f a) = ap_platform a \<and> ap_app_id (f a) = ap_app_id a"
    and "\<And>q. length (activeIds (map f rows) q) \<le> 1"
  shows "applications_unique (map f rows)"
  using assms by (auto simp: applications_unique_def unique_by_active unique_by_map)

lemma activeIds_deactivated:
  "length (activeIds (map (deactivatedRow now row) rows) q) \<le> length (activeIds rows q)"
  by (subst activeIds_map) (auto simp: activeIds_def deactivatedRow_def intro!: length_filter_mono)

lemma activeIds_activated:
  assumes "unique_by ap_id rows" "a \<in> set rows" "ap_id a = ap_id row" "ap_platform a = ap_platform row"
  shows "activeIds (map (activatedRow now row) rows) q
    = (if q = ap_platform row then [ap_id row] else activeIds rows q)"
proof -
  have ids: "ap_platform b = ap_platform row" if "b \<in> set rows" "ap_id b = ap_id row" for b
    using unique_by_eq[OF assms(1) that(1) assms(2)] that assms by simp
  have "filter (\<lambda>b. ap_platform b = q \<and> ap_active (activatedRow now row b)) rows
      = (if q = ap_platform row then filter (\<lambda>b. ap_id b = ap_id a) rows
         else filter (\<lambda>b. ap_platform b = q \<and> ap_active b) rows)"
    using ids assms(3) by (auto simp: activatedRow_def intro!: filter_cong)
  then show ?thesis
    using unique_by_filter_eq[OF assms(1,2)] assms(3) by (simp add: activeIds_map) (simp add: activeIds_def)
qed

lemma activateCommit_rows:
  assumes ok: "db_ok d" and a: "a \<in> set (applications d)" "ap_id a = ap_id row"
    "ap_platform a = ap_platform row"
  shows "activateCommit now row d = (Inr (serializeApplication (activatedRow now row a)),
      d\<lparr>applications := map (activatedRow now row) (applications d)\<rparr>)"
    and "db_ok (d\<lparr>applications := map (activatedRow now row) (applications d)\<rparr>)"
proof -
  let ?d1 = "d\<lparr>applications := map (deactivatedRow now row) (applications d)\<rparr>"
  let ?d2 = "d\<lparr>applications := map (activatedRow now row) (applications d)\<rparr>"
  have uniq: "applications_unique (applications d)" using ok by (simp add: db_ok_def uniques_ok_def)
  then have ids: "unique_by ap_id (applications d)"
    and act: "length (activeIds (applications d) q) \<le> 1" for q
    by (auto simp: applications_unique_def unique_by_active)
  have ok1: "db_ok ?d1"
    using ok act activeIds_deactivated[of now row "applications d"]
    by (intro db_ok_applications applications_unique_map uniq)
      (auto simp: o_def intro: order_trans)
  show ok2: "db_ok ?d2"
    using ok act activeIds_activated[OF ids a, of now]
    by (intro db_ok_applications applications_unique_map uniq) (auto simp: o_def)
  have e1: "updateApplicationRows (\<lambda>a. ap_platform a = ap_platform row \<and> ap_id a \<noteq> ap_id row)
      (\<lambda>a. a\<lparr>ap_active := False, ap_updated_at := now\<rparr>) d = ?d1"
    by (simp add: updateApplicationRows_def deactivatedRow_def cong: map_cong)
  have e2: "updateApplicationRows (\<lambda>a. ap_id a = ap_id row)
      (\<lambda>a. a\<lparr>ap_active := True, ap_updated_at := now\<rparr>) ?d1 = ?d2"
    by (simp add: updateApplicationRows_def deactivatedRow_def activatedRow_def)
  have "unique_by ap_id (map (activatedRow now row) (applications d))"
    using ids by (simp add: unique_by_map)
  from unique_by_find[OF this, of "activatedRow now row a"] a
  have "findApplication ?d2 (ap_id row) = Some (activatedRow now row a)"
    by (simp add: findApplication_def)
  then show "activateCommit now row d = (Inr (serializeApplication (activatedRow now row a)), ?d2)"
    by (simp add: activateCommit_def Let_def e1 e2 checked_ok[OF ok1] checked_ok[OF ok2])
qed

lemma activateCheck_row:
  assumes "activateCheck env i d = Inr row"
  shows "row \<in> set (applications d)" "ap_id row = js_lower i"
    "\<not> ap_active row \<Longrightarrow> \<not> list_ex (\<lambda>b. bi_platform b = ap_platform row
       \<and> (bi_status b = Pending \<or> bi_status b = Connected)) (bindings d)"
proof -
  have "requiredUuid i = Inr (js_lower i) \<and> findApplication d (js_lower i) = Some row"
    using assms by (auto simp: activateCheck_def applicationWithSecret_def requiredUuid_def
        split: option.split_asm if_split_asm)
  then show "row \<in> set (applications d)" "ap_id row = js_lower i"
    using findApplication_Some by blast+
  show "\<not> ap_active row \<Longrightarrow> \<not> list_ex (\<lambda>b. bi_platform b = ap_platform row
       \<and> (bi_status b = Pending \<or> bi_status b = Connected)) (bindings d)"
    using assms by (auto simp: activateCheck_def split: if_split_asm)
qed

interpretation activate_application: store_handler
  "\<lambda>(env, now, i) d. activateIntegrationApplication env now i d"
proof (unfold_locales, goal_cases)
  case (1 d w)
  obtain env now i where w: "w = (env, now, i)" by (cases w)
  show ?case
  proof (cases "activateCheck env i d")
    case (Inr row)
    from activateCheck_row[OF this] 1 w Inr show ?thesis
      by (simp add: activateIntegrationApplication_def activateCommit_rows)
  qed (use 1 w in \<open>simp add: activateIntegrationApplication_def\<close>)
qed

section \<open>Deletion\<close>

lemma db_ok_delete_application:
  assumes "db_ok d" "\<not> list_ex (\<lambda>b. bi_application_id b = Some k) (bindings d)"
  shows "db_ok (d\<lparr>applications := filter (\<lambda>a. ap_id a \<noteq> k) (applications d)\<rparr>)"
proof -
  have "ref_ok (bi_application_id b) (map ap_id (filter (\<lambda>a. ap_id a \<noteq> k) (applications d)))"
    if "b \<in> set (bindings d)" for b
  proof -
    have "ref_ok (bi_application_id b) (map ap_id (applications d))"
      using assms(1) that by (auto simp: db_ok_def foreign_keys_ok_def list_all_iff)
    moreover have "bi_application_id b \<noteq> Some k" using assms(2) that by (auto simp: list_ex_iff)
    ultimately show ?thesis by (auto simp: ref_ok_def split: option.splits)
  qed
  moreover have "applications_unique (filter (\<lambda>a. ap_id a \<noteq> k) (applications d))"
  proof -
    have "filter ap_active (filter (\<lambda>a. ap_id a \<noteq> k) (applications d))
        = filter (\<lambda>a. ap_id a \<noteq> k) (filter ap_active (applications d))"
      by (simp add: conj_commute)
    then show ?thesis
      using assms(1) unfolding db_ok_def uniques_ok_def applications_unique_def
      by (simp only: unique_by_filter)
  qed
  ultimately show ?thesis
    using assms(1) by (auto simp: db_ok_defs list_all_iff)
qed

lemma delete_bound:
  assumes "db_ok d" "list_ex (\<lambda>b. bi_application_id b = Some k) (bindings d)"
  shows "checked (d\<lparr>applications := filter (\<lambda>a. ap_id a \<noteq> k) (applications d)\<rparr>)
    = Inl ForeignKeyViolation"
proof -
  let ?d = "d\<lparr>applications := filter (\<lambda>a. ap_id a \<noteq> k) (applications d)\<rparr>"
  have "filter ap_active (filter (\<lambda>a. ap_id a \<noteq> k) (applications d))
      = filter (\<lambda>a. ap_id a \<noteq> k) (filter ap_active (applications d))"
    by (simp add: conj_commute)
  then have "uniques_ok ?d"
    using assms(1)
    by (simp add: db_ok_def uniques_ok_def applications_unique_def unique_by_filter del: filter_filter)
  moreover have "checks_ok ?d" using assms(1) by (simp add: db_ok_def checks_ok_def)
  moreover have "\<not> foreign_keys_ok ?d"
    using assms(2) by (fastforce simp: foreign_keys_ok_def list_all_iff list_ex_iff ref_ok_def)
  ultimately show ?thesis by (simp add: checked_def)
qed

section \<open>Migration\<close>

lemma app_before_total: "app_before a b \<or> app_before b a"
  using str_le_total by (auto simp: app_before_def)

lemma app_before_trans: "app_before a b \<Longrightarrow> app_before b c \<Longrightarrow> app_before a c"
  using str_le_trans by (auto simp: app_before_def)

interpretation app_order: comparator app_before
  by unfold_locales (use app_before_total in auto, rule app_before_trans)

lemma promoted_Some:
  "promoted rows p = Some i \<Longrightarrow> activeIds rows p = []
    \<and> (\<exists>a\<in>set rows. ap_platform a = p \<and> ap_id a = i)"
proof -
  assume *: "promoted rows p = Some i"
  let ?sorted = "sort_by app_before (filter (\<lambda>a. ap_platform a = p) rows)"
  have none: "\<not> list_ex (\<lambda>a. ap_platform a = p \<and> ap_active a) rows"
  proof
    assume "list_ex (\<lambda>a. ap_platform a = p \<and> ap_active a) rows"
    then have "promoted rows p = None" unfolding promoted_def by (rule if_P)
    with * show False by simp
  qed
  obtain a as where as: "?sorted = a # as"
    using * none by (cases ?sorted) (simp_all add: promoted_def)
  then have i: "ap_id a = i" using * none by (simp add: promoted_def)
  have "a \<in> set ?sorted" unfolding as by simp
  then have "a \<in> set rows" "ap_platform a = p" by simp_all
  with none i show ?thesis unfolding active_none[symmetric] by blast
qed

lemma promoted_None:
  "promoted rows p = None \<longleftrightarrow> activeIds rows p \<noteq> [] \<or> (\<forall>a\<in>set rows. ap_platform a \<noteq> p)"
proof -
  let ?own = "filter (\<lambda>a. ap_platform a = p) rows"
  have act: "list_ex (\<lambda>a. ap_platform a = p \<and> ap_active a) rows \<longleftrightarrow> activeIds rows p \<noteq> []"
    using active_none[of p rows] by blast
  have own: "?own = [] \<longleftrightarrow> (\<forall>a\<in>set rows. ap_platform a \<noteq> p)"
    by (simp add: filter_empty_conv)
  have "promoted rows p = None \<longleftrightarrow> activeIds rows p \<noteq> [] \<or> sort_by app_before ?own = []"
    unfolding promoted_def act
    by (cases "sort_by app_before ?own") (simp_all del: sort_by_Nil_iff)
  then show ?thesis unfolding sort_by_Nil_iff own .
qed

lemma repairRow_keys [simp]:
  "ap_id (repairRow a) = ap_id a" "ap_platform (repairRow a) = ap_platform a"
  "ap_active (repairRow a) = ap_active a" "ap_app_id (repairRow a) = ap_app_id a"
  by (simp_all add: repairRow_def Let_def)

lemma promoteRow_keys [simp]:
  "ap_id (promoteRow rows a) = ap_id a" "ap_platform (promoteRow rows a) = ap_platform a"
  "ap_app_id (promoteRow rows a) = ap_app_id a"
  by (simp_all add: promoteRow_def)

lemma activeIds_repair: "activeIds (map repairRow rows) p = activeIds rows p"
  by (subst activeIds_map) (simp_all add: activeIds_def)

lemma activeIds_promote:
  assumes "unique_by ap_id rows"
  shows "activeIds (map (promoteRow rows) rows) p
    = (case promoted rows p of None \<Rightarrow> activeIds rows p | Some i \<Rightarrow> [i])"
proof (cases "promoted rows p")
  case None
  then have "filter (\<lambda>a. ap_platform a = p \<and> ap_active (promoteRow rows a)) rows
      = filter (\<lambda>a. ap_platform a = p \<and> ap_active a) rows"
    by (auto simp: promoteRow_def intro!: filter_cong)
  with None show ?thesis by (simp add: activeIds_map) (simp add: activeIds_def)
next
  case (Some i)
  from promoted_Some[OF this] obtain a where a: "a \<in> set rows" "ap_platform a = p" "ap_id a = i"
    and none: "\<forall>b\<in>set rows. \<not> (ap_platform b = p \<and> ap_active b)"
    by (auto simp: activeIds_def filter_empty_conv)
  have "filter (\<lambda>b. ap_platform b = p \<and> ap_active (promoteRow rows b)) rows
      = filter (\<lambda>b. ap_id b = ap_id a) rows"
  proof (rule filter_cong[OF refl])
    fix b assume b: "b \<in> set rows"
    show "(ap_platform b = p \<and> ap_active (promoteRow rows b)) = (ap_id b = ap_id a)"
    proof (cases "ap_id b = ap_id a")
      case True
      then have "b = a" by (rule unique_by_eq[OF assms b a(1)])
      then show ?thesis using a Some by (simp add: promoteRow_def)
    next
      case False
      then show ?thesis using none b a Some by (auto simp: promoteRow_def)
    qed
  qed
  also have "\<dots> = [a]" by (rule unique_by_filter_eq[OF assms a(1)])
  finally show ?thesis using a Some by (simp add: activeIds_map)
qed

lemma repairRow_idem: "\<not> btrim_blank (ap_app_id a) \<Longrightarrow> repairRow (repairRow a) = repairRow a"
  by (simp add: repairRow_def Let_def FEISHU_DEFAULT_ACTION_IDS_def)

lemma repair_promote: "repairRow (promoteRow rows a) = promoteRow rows (repairRow a)"
  by (simp add: repairRow_def promoteRow_def Let_def)

lemma migrate_active:
  assumes "unique_by ap_id rows"
  shows "activeIds (migrateApplications rows) p
    = (case promoted (map repairRow rows) p of None \<Rightarrow> activeIds rows p | Some i \<Rightarrow> [i])"
proof -
  have "unique_by ap_id (map repairRow rows)" using assms by (simp add: unique_by_map)
  from activeIds_promote[OF this] show ?thesis
    by (simp add: migrateApplications_def activeIds_repair del: map_map split: option.split)
qed

lemma promoteRow_settled:
  assumes "\<And>p. (\<exists>a\<in>set rows. ap_platform a = p) \<Longrightarrow> activeIds rows p \<noteq> []"
  shows "map (promoteRow rows) rows = rows"
proof (rule map_idI)
  fix a assume "a \<in> set rows"
  then have "promoted rows (ap_platform a) = None" using assms by (auto simp: promoted_None)
  then show "promoteRow rows a = a" by (simp add: promoteRow_def)
qed

lemma migrate_covers:
  assumes "unique_by ap_id rows" "a \<in> set rows"
  shows "activeIds (migrateApplications rows) (ap_platform a) \<noteq> []"
proof (cases "promoted (map repairRow rows) (ap_platform a)")
  case None
  then have "activeIds (map repairRow rows) (ap_platform a) \<noteq> []"
    using assms(2) by (auto simp: promoted_None)
  with None show ?thesis
    using assms by (simp add: migrate_active activeIds_repair)
qed (use assms in \<open>simp add: migrate_active\<close>)

section \<open>Properties\<close>

definition demo_integration :: integrationEnv where
  "demo_integration = \<lparr>ie_connector = demo_env ''a'', ie_crypto = demo_crypto,
     ie_key = Some (replicate 32 (CHR ''k'')),
     ie_errorText = (\<lambda>e. ''error'')\<rparr>"

definition demo_app :: "string \<Rightarrow> string \<Rightarrow> bool \<Rightarrow> applicationRow" where
  "demo_app i app active = \<lparr>ap_id = i, ap_platform = Dingtalk, ap_app_name = ''n'', ap_app_id = app,
     ap_note = [], ap_action_ids = JArr [], ap_active = active, ap_secret = ''s'',
     ap_created_at = 1, ap_updated_at = 1\<rparr>"

definition demo_uuid :: "char \<Rightarrow> string" where
  "demo_uuid c = replicate 8 c @ ''-'' @ replicate 4 c @ ''-4'' @ replicate 3 c @ ''-8''
     @ replicate 3 c @ ''-'' @ replicate 12 c"

definition demo_apps :: db where
  "demo_apps = empty_db\<lparr>applications := [demo_app (demo_uuid (CHR ''1'')) ''a'' True,
     demo_app (demo_uuid (CHR ''2'')) ''b'' False]\<rparr>"

text \<open>C14: Activating an application makes it the only active application of its platform, leaves
  the other platforms as they were and keeps the store consistent; it never happens while a
  pending or connected employee binding of the platform exists, unless the application was
  active already, and a refused activation changes nothing.\<close>

theorem activate_exactly_one:
  assumes "db_ok d" "activateIntegrationApplication env now i d = (r, d')"
  shows "case r of Inl e \<Rightarrow> d' = d
    | Inr v \<Rightarrow> av_id v = js_lower i \<and> db_ok d' \<and> bindings d' = bindings d
        \<and> activeIds (applications d') =
            (activeIds (applications d))(av_platform v := [av_id v])
        \<and> (av_id v \<in> set (activeIds (applications d) (av_platform v))
            \<or> (\<nexists>b. b \<in> set (bindings d) \<and> bi_platform b = av_platform v
                  \<and> bi_status b \<in> {Pending, Connected}))"
proof (cases "activateCheck env i d")
  case (Inl e)
  then show ?thesis using assms(2) by (auto simp: activateIntegrationApplication_def)
next
  case (Inr row)
  note row = activateCheck_row[OF Inr]
  have ids: "unique_by ap_id (applications d)"
    using assms(1) by (simp add: db_ok_def uniques_ok_def applications_unique_def)
  have r: "r = Inr (serializeApplication (activatedRow now row row))"
    and d': "d' = d\<lparr>applications := map (activatedRow now row) (applications d)\<rparr>"
    using assms(2) activateCommit_rows(1)[OF assms(1) row(1), of row now] Inr
    by (auto simp: activateIntegrationApplication_def)
  have "row \<in> set (filter (\<lambda>a. ap_platform a = ap_platform row \<and> ap_active a) (applications d))
      \<or> \<not> ap_active row"
    using row(1) by simp
  then have "ap_id row \<in> set (activeIds (applications d) (ap_platform row)) \<or> \<not> ap_active row"
    by (auto simp: activeIds_def)
  then show ?thesis
    using r d' row activateCommit_rows(2)[OF assms(1) row(1), of row now]
      activeIds_activated[OF ids row(1), of row now]
    by (auto simp: serializeApplication_def list_ex_iff fun_eq_iff)
qed

theorem activate_exactly_one_witness:
  "case activateIntegrationApplication demo_integration 5 (demo_uuid (CHR ''2'')) demo_apps of
     (Inr v, d') \<Rightarrow> activeIds (applications d') Dingtalk = [demo_uuid (CHR ''2'')]
   | _ \<Rightarrow> False"
proof -
  have ok: "db_ok demo_apps" by code_simp
  obtain r d' where rd: "activateIntegrationApplication demo_integration 5 (demo_uuid (CHR ''2''))
      demo_apps = (r, d')" by fastforce
  have "(case fst (activateIntegrationApplication demo_integration 5 (demo_uuid (CHR ''2''))
      demo_apps) of Inr v \<Rightarrow> av_platform v = Dingtalk \<and> av_id v = demo_uuid (CHR ''2'')
      | Inl e \<Rightarrow> False)" by code_simp
  with activate_exactly_one[OF ok rd] rd show ?thesis by (auto split: sum.splits)
qed

text \<open>The secret an application is created with is the secret its active credential returns,
  for every key and nonce: sealing loses nothing. The first application of a platform becomes
  active, a later one does not, and the store stays consistent.\<close>

theorem created_credential_roundtrip:
  assumes "crypto_laws (ie_crypto env)" "iv \<noteq> []" "db_ok d"
    "createIntegrationApplication env uuid iv now input d = (Inr v, d')"
  shows "db_ok d' \<and> activeIds (applications d') (av_platform v)
      = (if activeIds (applications d) (av_platform v) = [] then [uuid]
         else activeIds (applications d) (av_platform v))
    \<and> (activeIds (applications d) (av_platform v) = [] \<longrightarrow>
        (\<exists>c secret. getActiveIntegrationCredential env (cr_platform input) d' = Inr c
          \<and> cr_appSecret input = JStr secret \<and> cd_appSecret c = secret \<and> cd_id c = uuid))"
proof -
  from createIntegrationApplication_Inr[OF assms(4)] obtain row
    where row: "applicationToCreate env uuid iv now input d = Inr row" "v = serializeApplication row"
      "d' = d\<lparr>applications := applications d @ [row]\<rparr>" "db_ok d'" by blast
  note facts = applicationToCreate_row[OF row(1)]
  let ?p = "ap_platform row"
  have plat: "normalizePlatform (cr_platform input) = Inr ?p"
    using row(1) by (auto simp: applicationToCreate_def)
  have act: "activeIds (applications d') ?p
      = (if activeIds (applications d) ?p = [] then [uuid] else activeIds (applications d) ?p)"
    using facts(1,2) row(3) by (simp add: activeIds_def)
  have "\<exists>c secret. getActiveIntegrationCredential env (cr_platform input) d' = Inr c
          \<and> cr_appSecret input = JStr secret \<and> cd_appSecret c = secret \<and> cd_id c = uuid"
    if none: "activeIds (applications d) ?p = []"
  proof -
    obtain secret where secret: "cr_appSecret input = JStr secret" "secret \<noteq> []"
      "encryptIntegrationSecret (ie_crypto env) (ie_key env) iv secret = Inr (ap_secret row)"
      using facts(3) by blast
    have dec: "decryptIntegrationSecret (ie_crypto env) (ie_key env) (ap_secret row) = Inr secret"
      by (rule decrypt_encrypt[OF assms(1) secret(3) assms(2) secret(2)])
    then have ne: "ap_secret row \<noteq> []"
      by (auto simp: decryptIntegrationSecret_def storeError_def)
    have "List.find (\<lambda>a. ap_platform a = ?p \<and> ap_active a) (applications d @ [row]) = Some row"
    proof -
      have "\<forall>a\<in>set rows. \<not> (ap_platform a = ?p \<and> ap_active a) \<Longrightarrow>
          List.find (\<lambda>a. ap_platform a = ?p \<and> ap_active a) (rows @ [row])
            = List.find (\<lambda>a. ap_platform a = ?p \<and> ap_active a) [row]" for rows
        by (induction rows) auto
      then show ?thesis using none facts(2) by (simp add: activeIds_def filter_empty_conv)
    qed
    then show ?thesis
      using plat dec ne secret(1) row(3) facts(1)
      by (simp add: getActiveIntegrationCredential_def)
  qed
  with act row show ?thesis by (simp add: serializeApplication_def)
qed

text \<open>An application is deleted exactly when no employee binding, revoked ones included, refers
  to it; otherwise the request is answered with 409 and nothing changes.\<close>

theorem delete_application_guarded:
  assumes "db_ok d" "valid_uuid i" "findApplication d (js_lower i) \<noteq> None"
  shows "deleteIntegrationApplication i d =
    (if list_ex (\<lambda>b. bi_application_id b = Some (js_lower i)) (bindings d)
     then (Inl (storeError ApplicationBound 409), d)
     else (Inr (), d\<lparr>applications := filter (\<lambda>a. ap_id a \<noteq> js_lower i) (applications d)\<rparr>))"
proof (cases "list_ex (\<lambda>b. bi_application_id b = Some (js_lower i)) (bindings d)")
  case True
  then show ?thesis
    using assms delete_bound[OF assms(1) True]
    by (simp add: deleteIntegrationApplication_def requiredUuid_def)
next
  case False
  then show ?thesis
    using assms db_ok_delete_application[OF assms(1) False]
    by (simp add: deleteIntegrationApplication_def requiredUuid_def checked_ok)
qed

theorem delete_application_guarded_witness:
  "deleteIntegrationApplication (demo_uuid (CHR ''2'')) demo_apps
    = (Inr (), demo_apps\<lparr>applications := [demo_app (demo_uuid (CHR ''1'')) ''a'' True]\<rparr>)"
proof -
  have "db_ok demo_apps" "valid_uuid (demo_uuid (CHR ''2''))"
    "findApplication demo_apps (js_lower (demo_uuid (CHR ''2''))) \<noteq> None" by code_simp+
  from delete_application_guarded[OF this]
  have *: "deleteIntegrationApplication (demo_uuid (CHR ''2'')) demo_apps =
    (if list_ex (\<lambda>b. bi_application_id b = Some (js_lower (demo_uuid (CHR ''2'')))) (bindings demo_apps)
     then (Inl (storeError ApplicationBound 409), demo_apps)
     else (Inr (), demo_apps\<lparr>applications := filter (\<lambda>a. ap_id a \<noteq> js_lower (demo_uuid (CHR ''2'')))
       (applications demo_apps)\<rparr>))" .
  have "list_ex (\<lambda>b. bi_application_id b = Some (js_lower (demo_uuid (CHR ''2'')))) (bindings demo_apps)
      = False" by code_simp
  moreover have "filter (\<lambda>a. ap_id a \<noteq> js_lower (demo_uuid (CHR ''2''))) (applications demo_apps)
      = [demo_app (demo_uuid (CHR ''1'')) ''a'' True]" by code_simp
  ultimately show ?thesis using * by simp
qed

text \<open>The migration leaves exactly one active application on every platform that has
  applications, the one that was active if there was one, so the unique index on active
  applications it then creates always holds; running it again changes no active flag.\<close>

theorem migrate_applications_active:
  assumes "unique_by ap_id rows" "\<And>p. length (activeIds rows p) \<le> 1"
  shows "length (activeIds (migrateApplications rows) p)
      = (if p \<in> ap_platform ` set rows then 1 else 0)
    \<and> (activeIds rows p \<noteq> [] \<longrightarrow> activeIds (migrateApplications rows) p = activeIds rows p)
    \<and> unique_by ap_platform (filter ap_active (migrateApplications rows))
    \<and> activeIds (migrateApplications (migrateApplications rows)) = activeIds (migrateApplications rows)"
proof -
  let ?m = "migrateApplications rows"
  have one: "length (activeIds ?m q) \<le> 1" for q
    using assms by (simp add: migrate_active split: option.split)
  have keep: "activeIds rows q \<noteq> [] \<Longrightarrow> activeIds ?m q = activeIds rows q" for q
    using assms(1) promoted_None[of "map repairRow rows" q]
    by (simp add: migrate_active activeIds_repair)
  have plats: "ap_platform ` set ?m = ap_platform ` set rows" and ids: "map ap_id ?m = map ap_id rows"
    by (simp_all add: migrateApplications_def image_image o_def)
  have none: "activeIds ?m q = []" if "q \<notin> ap_platform ` set rows" for q
  proof -
    have "q \<notin> ap_platform ` set ?m" using that plats by simp
    then show ?thesis by (auto simp: activeIds_def filter_empty_conv)
  qed
  have some: "activeIds ?m q \<noteq> []" if "q \<in> ap_platform ` set rows" for q
    using that migrate_covers[OF assms(1)] by auto
  have "unique_by ap_id ?m" using assms(1) ids by (simp add: unique_by_def)
  then have again: "activeIds (migrateApplications ?m) q = activeIds ?m q" for q
  proof (cases "q \<in> ap_platform ` set ?m")
    case True
    then have "activeIds ?m q \<noteq> []" using some plats by simp
    then have "promoted (map repairRow ?m) q = None" by (simp add: promoted_None activeIds_repair)
    with \<open>unique_by ap_id ?m\<close> show ?thesis by (simp add: migrate_active)
  next
    case False
    then have "promoted (map repairRow ?m) q = None" by (auto simp: promoted_None)
    with \<open>unique_by ap_id ?m\<close> show ?thesis by (simp add: migrate_active)
  qed
  have "length (activeIds ?m p) = 1" if "p \<in> ap_platform ` set rows"
    using one[of p] some[OF that] by (cases "activeIds ?m p") auto
  with none keep one again show ?thesis
    by (auto simp: unique_by_active fun_eq_iff)
qed

theorem migrate_applications_active_witness:
  "activeIds (migrateApplications [demo_app ''b'' ''x'' False, demo_app ''a'' ''y'' False]) Dingtalk = [''a'']
   \<and> length (activeIds (migrateApplications [demo_app ''b'' ''x'' False, demo_app ''a'' ''y'' False]) Dingtalk) = 1"
proof -
  have "unique_by ap_id [demo_app ''b'' ''x'' False, demo_app ''a'' ''y'' False]" by code_simp
  moreover have "length (activeIds [demo_app ''b'' ''x'' False, demo_app ''a'' ''y'' False] p) \<le> 1" for p
    by (simp add: activeIds_def demo_app_def)
  moreover have "activeIds (migrateApplications [demo_app ''b'' ''x'' False, demo_app ''a'' ''y'' False])
      Dingtalk = [''a'']" by code_simp
  ultimately show ?thesis
    using migrate_applications_active[of "[demo_app ''b'' ''x'' False, demo_app ''a'' ''y'' False]" Dingtalk]
    by (simp add: demo_app_def)
qed

text \<open>When the application is deleted between the checks of its activation and the
  transaction, the transaction still deactivates the other applications of the platform and
  commits, and the request then fails: the platform is left without an active application.\<close>

theorem activation_of_deleted_application:
  assumes "db_ok d" "findApplication d (ap_id row) = None"
  shows "fst (activateCommit now row d) = Inl TypeFailure
    \<and> activeIds (applications (snd (activateCommit now row d))) (ap_platform row) = []"
proof -
  let ?rows = "map (deactivatedRow now row) (applications d)"
  let ?d1 = "d\<lparr>applications := ?rows\<rparr>"
  have gone: "ap_id row \<notin> ap_id ` set (applications d)"
    using assms(2) by (simp add: findApplication_None)
  have uniq: "applications_unique (applications d)" using assms(1) by (simp add: db_ok_def uniques_ok_def)
  then have act: "length (activeIds (applications d) q) \<le> 1" for q
    by (auto simp: applications_unique_def unique_by_active)
  have ok1: "db_ok ?d1"
    using assms(1) act activeIds_deactivated[of now row "applications d"]
    by (intro db_ok_applications applications_unique_map uniq) (auto simp: o_def intro: order_trans)
  have e1: "updateApplicationRows (\<lambda>a. ap_platform a = ap_platform row \<and> ap_id a \<noteq> ap_id row)
      (\<lambda>a. a\<lparr>ap_active := False, ap_updated_at := now\<rparr>) d = ?d1"
    by (simp add: updateApplicationRows_def deactivatedRow_def cong: map_cong)
  have "ap_id x \<noteq> ap_id row" if x: "x \<in> set ?rows" for x
  proof -
    obtain a where "a \<in> set (applications d)" "x = deactivatedRow now row a"
      using x by auto
    then show ?thesis using gone by (metis activatedRow_keys(4) imageI)
  qed
  then have "map (\<lambda>a. if ap_id a = ap_id row then f a else a) ?rows = ?rows" for f
    by (intro map_idI) simp
  then have e2: "updateApplicationRows (\<lambda>a. ap_id a = ap_id row) f ?d1 = ?d1" for f
    by (simp add: updateApplicationRows_def)
  have "findApplication ?d1 (ap_id row) = None"
    using gone by (auto simp: findApplication_None)
  then have "activateCommit now row d = (Inl TypeFailure, ?d1)"
    by (simp add: activateCommit_def Let_def e1 e2 checked_ok[OF ok1])
  moreover have "activeIds ?rows (ap_platform row) = []"
  proof -
    have "\<not> (ap_platform a = ap_platform row \<and> ap_active (deactivatedRow now row a))"
      if a: "a \<in> set (applications d)" for a
    proof -
      have "ap_id a \<noteq> ap_id row" using a gone by (metis imageI)
      then show ?thesis by (simp add: deactivatedRow_def)
    qed
    then show ?thesis by (simp add: activeIds_map filter_empty_conv)
  qed
  ultimately show ?thesis by simp
qed

theorem activation_of_deleted_application_witness:
  "activeIds (applications demo_apps) Dingtalk = [demo_uuid (CHR ''1'')]
   \<and> activeIds (applications (snd (activateCommit 9 (demo_app ''gone'' ''c'' False) demo_apps))) Dingtalk = []"
proof -
  have "db_ok demo_apps" "findApplication demo_apps (ap_id (demo_app ''gone'' ''c'' False)) = None"
    by code_simp+
  from activation_of_deleted_application[OF this, of 9]
  have "activeIds (applications (snd (activateCommit 9 (demo_app ''gone'' ''c'' False) demo_apps))) Dingtalk = []"
    by (simp add: demo_app_def)
  moreover have "activeIds (applications demo_apps) Dingtalk = [demo_uuid (CHR ''1'')]" by code_simp
  ultimately show ?thesis by simp
qed

end
