(* ===== verification/Employee_Bindings.thy ===== *)
theory Employee_Bindings
  imports Applications
begin

text \<open>
  The personal connections of an employee in src/ai-console/src/lib/server/integrations.ts: the
  reconciliation of the binding table with the connections OpenConnector holds, the start of an
  OAuth authorisation and its error path, and disconnecting. A row's error text is the text of the
  error that stopped it, a function of the environment.
\<close>

definition employeeConnectionName ::
    "crypto \<Rightarrow> consoleIdentity \<Rightarrow> string \<Rightarrow> string \<Rightarrow> string" where
  "employeeConnectionName cr identity service discriminator =
    (let base = ci_principalIssuer identity @ [CHR 0x00] @ ci_principalSubject identity
           @ [CHR 0x00] @ service;
         material = (if discriminator \<noteq> [] then base @ [CHR 0x00] @ discriminator else base)
     in ''usr_'' @ take 40 (sha256hex cr material))"

definition updateBindings ::
    "(bindingRow \<Rightarrow> bool) \<Rightarrow> (bindingRow \<Rightarrow> bindingRow) \<Rightarrow> db \<Rightarrow> db" where
  "updateBindings P f d = d\<lparr>bindings := map (\<lambda>b. if P b then f b else b) (bindings d)\<rparr>"

fun liftDatabase :: "violation + 'a \<Rightarrow> appError + 'a" where
  "liftDatabase (Inl v) = Inl (DatabaseError v)"
| "liftDatabase (Inr x) = Inr x"

lemma liftDatabase_eq [simp]:
  "liftDatabase r = Inr x \<longleftrightarrow> r = Inr x"
  "liftDatabase r = Inl e \<longleftrightarrow> (\<exists>v. r = Inl v \<and> e = DatabaseError v)"
  by (cases r; auto)+

section \<open>Reconciliation\<close>

definition ownBinding :: "consoleIdentity \<Rightarrow> bindingRow \<Rightarrow> bool" where
  "ownBinding identity b \<longleftrightarrow> bi_issuer b = ci_principalIssuer identity
     \<and> bi_subject b = ci_principalSubject identity \<and> bi_status b \<noteq> Revoked"

definition legacyBinding :: "consoleIdentity \<Rightarrow> bindingRow \<Rightarrow> bool" where
  "legacyBinding identity b \<longleftrightarrow> bi_issuer b = ci_principalIssuer identity
     \<and> js_lower (bi_email b) = ci_email identity \<and> bi_status b \<noteq> Revoked"

text \<open>ORDER BY service, updated_at DESC; only the order within a service matters below.\<close>

definition legacy_order :: "bindingRow \<Rightarrow> bindingRow \<Rightarrow> bool" where
  "legacy_order a b \<longleftrightarrow> (if bi_service a = bi_service b then bi_updated_at a \<ge> bi_updated_at b
     else str_le (bi_service a) (bi_service b))"

fun conflictingService :: "string list \<Rightarrow> bindingRow list \<Rightarrow> bool" where
  "conflictingService seen [] = False"
| "conflictingService seen (b # bs) =
    (if bi_service b \<in> set seen \<and> bi_platform b \<noteq> WecomBot then True
     else conflictingService (bi_service b # seen) bs)"

definition adoptLegacyBindings :: "int \<Rightarrow> consoleIdentity \<Rightarrow> db \<Rightarrow> appError + db" where
  "adoptLegacyBindings now identity d =
    (let legacy = sort_by legacy_order (filter (legacyBinding identity) (bindings d)) in
     if list_ex (ownBinding identity) (bindings d) then Inr d
     else if conflictingService [] legacy then Inl (storeError LegacyBindingConflict 409)
     else if legacy = [] then Inr d
     else liftDatabase (checked (updateBindings (legacyBinding identity)
       (\<lambda>b. b\<lparr>bi_subject := ci_principalSubject identity, bi_email := ci_email identity,
         bi_name := ci_name identity, bi_updated_at := now\<rparr>) d)))"

definition configuredConnections :: "connectorConnection list \<Rightarrow> (string \<times> connectorConnection) list" where
  "configuredConnections cs = js_map (map (\<lambda>c.
     (connectorConnectionKey (cc_service c) (cc_connectionName c), c)) (filter cc_configured cs))"

definition reconcileRow ::
    "int \<Rightarrow> (string \<times> connectorConnection) list \<Rightarrow> bindingRow \<Rightarrow> bindingRow" where
  "reconcileRow now connections row =
    (case map_of connections (connectorConnectionKey (bi_service row) (bi_connection_name row)) of
       Some c \<Rightarrow> if bi_status row \<noteq> Connected
         then row\<lparr>bi_status := Connected, bi_display_name := Some (cc_displayName c),
           bi_account_id := Some (cc_accountId c), bi_error_message := MsgNone,
           bi_connected_at := (case bi_connected_at row of None \<Rightarrow> Some now | Some t \<Rightarrow> Some t),
           bi_updated_at := now\<rparr>
         else row
     | None \<Rightarrow> if bi_status row = Connected
         then row\<lparr>bi_status := Revoked, bi_error_message := MsgConnectionLost, bi_updated_at := now\<rparr>
         else row)"

fun reconcileLoop ::
    "int \<Rightarrow> (string \<times> connectorConnection) list \<Rightarrow> bindingRow list \<Rightarrow> db \<Rightarrow> (appError + unit) \<times> db" where
  "reconcileLoop now connections [] d = (Inr (), d)"
| "reconcileLoop now connections (row # rows) d =
    (if reconcileRow now connections row = row then reconcileLoop now connections rows d
     else case checked (updateBindings (\<lambda>b. bi_id b = bi_id row) (reconcileRow now connections) d) of
         Inl v \<Rightarrow> (Inl (DatabaseError v), d)
       | Inr d' \<Rightarrow> reconcileLoop now connections rows d')"

definition reconcileEmployeeBindings ::
    "ocEnv \<Rightarrow> int \<Rightarrow> consoleIdentity \<Rightarrow> db \<Rightarrow> (appError + bindingRow list) \<times> db" where
  "reconcileEmployeeBindings env now identity d =
    (case adoptLegacyBindings now identity d of
       Inl e \<Rightarrow> (Inl e, d)
     | Inr d1 \<Rightarrow>
         (let rows = filter (ownBinding identity) (bindings d1) in
          if rows = [] then (Inr [], d1)
          else case listConnectorConnections env of
              Inl e \<Rightarrow> (Inl (ConnectorError e), d1)
            | Inr snapshot \<Rightarrow>
                (case reconcileLoop now (configuredConnections snapshot) rows d1 of
                   (Inl e, d2) \<Rightarrow> (Inl e, d2)
                 | (Inr u, d2) \<Rightarrow> (Inr (filter (ownBinding identity) (bindings d2)), d2))))"

section \<open>OAuth authorisation\<close>

definition pendingBinding ::
    "consoleIdentity \<Rightarrow> platformDefinition \<Rightarrow> applicationRow \<Rightarrow> string \<Rightarrow> string \<Rightarrow> string \<Rightarrow> int
      \<Rightarrow> bindingRow" where
  "pendingBinding identity definition row service connectionName uuid now =
    \<lparr>bi_id = uuid, bi_application_id = Some (ap_id row),
     bi_issuer = ci_principalIssuer identity, bi_subject = ci_principalSubject identity,
     bi_email = ci_email identity, bi_name = ci_name identity,
     bi_platform = pd_platform definition, bi_service = service,
     bi_connection_name = connectionName, bi_status = Pending, bi_display_name = None,
     bi_account_id = None, bi_error_message = MsgNone, bi_action_ids = None,
     bi_fingerprint = None, bi_connected_at = None, bi_created_at = now, bi_updated_at = now\<rparr>"

definition sameApplicationSlot :: "bindingRow \<Rightarrow> bindingRow \<Rightarrow> bool" where
  "sameApplicationSlot new b \<longleftrightarrow> bi_application_id b \<noteq> None \<and> bi_issuer b = bi_issuer new
     \<and> bi_subject b = bi_subject new \<and> bi_service b = bi_service new"

text \<open>INSERT ... ON CONFLICT (issuer, subject, service) WHERE application_id IS NOT NULL DO UPDATE.\<close>

definition upsertBinding :: "bindingRow \<Rightarrow> db \<Rightarrow> violation + db" where
  "upsertBinding new d =
    (if list_ex (sameApplicationSlot new) (bindings d)
     then checked (updateBindings (sameApplicationSlot new)
       (\<lambda>b. b\<lparr>bi_application_id := bi_application_id new, bi_email := bi_email new,
         bi_name := bi_name new, bi_platform := bi_platform new,
         bi_connection_name := bi_connection_name new, bi_status := Pending,
         bi_display_name := None, bi_account_id := None, bi_error_message := MsgNone,
         bi_connected_at := None, bi_updated_at := bi_updated_at new\<rparr>) d)
     else checked (d\<lparr>bindings := bindings d @ [new]\<rparr>))"

definition failBindings :: "consoleIdentity \<Rightarrow> string \<Rightarrow> string \<Rightarrow> int \<Rightarrow> db \<Rightarrow> db" where
  "failBindings identity service text now d =
    updateBindings (\<lambda>b. bi_issuer b = ci_principalIssuer identity
        \<and> bi_subject b = ci_principalSubject identity \<and> bi_service b = service)
      (\<lambda>b. b\<lparr>bi_status := Errored, bi_error_message := MsgText text, bi_updated_at := now\<rparr>) d"

definition startAuthorizationChecks ::
    "integrationEnv \<Rightarrow> string \<Rightarrow> db \<Rightarrow> appError + (applicationRow \<times> platformDefinition \<times> string \<times> string list)" where
  "startAuthorizationChecks env applicationId d =
    bindE (applicationWithSecret applicationId d) (\<lambda>row.
    bindE (platformDefinition (ap_platform row)) (\<lambda>definition.
    case pd_service definition of
      None \<Rightarrow> Inl (storeError BindingUnsupported 409)
    | Some service \<Rightarrow>
        if pd_bindingMode definition = ModeUnsupported then Inl (storeError BindingUnsupported 409)
        else if \<not> ap_active row then Inl (storeError ApplicationInactive 409)
        else bindE (normalizeIntegrationActionIds (ie_connector env) (ap_platform row)
            (ap_action_ids row) (pd_defaultActionIds definition)) (\<lambda>actionIds.
          Inr (row, definition, service, actionIds))))"

definition requestAuthorization ::
    "integrationEnv \<Rightarrow> applicationRow \<Rightarrow> string \<Rightarrow> string \<Rightarrow> string list \<Rightarrow> appError + (string \<times> string)" where
  "requestAuthorization env row service connectionName actionIds =
    bindE (syncApplicationOAuthClient env row) (\<lambda>_.
      liftConnector (startConnectorOAuthAuthorization (ie_connector env) service connectionName
        (Some actionIds)))"

definition startEmployeeIntegrationAuthorization ::
    "integrationEnv \<Rightarrow> int \<Rightarrow> string \<Rightarrow> consoleIdentity \<Rightarrow> string \<Rightarrow> db
      \<Rightarrow> (appError + (string \<times> string)) \<times> db" where
  "startEmployeeIntegrationAuthorization env now uuid identity applicationId d =
    (case startAuthorizationChecks env applicationId d of
       Inl e \<Rightarrow> (Inl e, d)
     | Inr (row, definition, service, actionIds) \<Rightarrow>
         (let connectionName = employeeConnectionName (ie_crypto env) identity service [] in
          case upsertBinding (pendingBinding identity definition row service connectionName uuid now) d of
            Inl v \<Rightarrow> (Inl (DatabaseError v), d)
          | Inr d1 \<Rightarrow>
              (case requestAuthorization env row service connectionName actionIds of
                 Inr r \<Rightarrow> (Inr r, d1)
               | Inl e \<Rightarrow> (case checked (failBindings identity service (ie_errorText env e) now d1) of
                     Inl v \<Rightarrow> (Inl (DatabaseError v), d1)
                   | Inr d2 \<Rightarrow> (Inl e, d2)))))"

definition disconnectEmployeeIntegration ::
    "ocEnv \<Rightarrow> int \<Rightarrow> consoleIdentity \<Rightarrow> string \<Rightarrow> db \<Rightarrow> (appError + unit) \<times> db" where
  "disconnectEmployeeIntegration env now identity applicationId d =
    (case requiredUuid applicationId of
       Inl e \<Rightarrow> (Inl e, d)
     | Inr safeId \<Rightarrow>
         (case List.find (\<lambda>b. ownBinding identity b \<and> bi_application_id b = Some safeId) (bindings d) of
            None \<Rightarrow> (Inl (storeError NotBound 404), d)
          | Some b \<Rightarrow>
              (case deleteConnectorConnection env (bi_service b) (bi_connection_name b) of
                 Inl e \<Rightarrow> (Inl (ConnectorError e), d)
               | Inr u \<Rightarrow>
                   (case checked (updateBindings (\<lambda>c. bi_id c = bi_id b)
                       (\<lambda>c. c\<lparr>bi_status := Revoked, bi_error_message := MsgNone,
                         bi_updated_at := now\<rparr>) d) of
                      Inl v \<Rightarrow> (Inl (DatabaseError v), d)
                    | Inr d' \<Rightarrow> (Inr (), d')))))"

section \<open>Lemmas on the binding table\<close>

lemma unique_by_filter_map:
  assumes "unique_by key (filter P rows)"
    and "\<And>r. r \<in> set rows \<Longrightarrow> key (f r) = key r"
    and "\<And>r. r \<in> set rows \<Longrightarrow> P (f r) \<Longrightarrow> P r"
  shows "unique_by key (filter P (map f rows))"
  using assms
proof (induction rows)
  case (Cons r rows)
  have IH: "unique_by key (filter P (map f rows))"
    using Cons by (auto split: if_splits)
  show ?case
  proof (cases "P (f r)")
    case True
    then have "key r \<notin> key ` set (filter P rows)" using Cons.prems by auto
    moreover have "key ` set (filter P (map f rows)) \<subseteq> key ` set (filter P rows)"
    proof
      fix k assume "k \<in> key ` set (filter P (map f rows))"
      then obtain x where "x \<in> set rows" "P (f x)" "k = key (f x)" by auto
      then show "k \<in> key ` set (filter P rows)" using Cons.prems(2,3) by auto
    qed
    ultimately show ?thesis using IH True Cons.prems(2) by auto
  qed (use IH in simp)
qed simp

text \<open>An update that keeps a row's keys and does not revive revoked rows is always accepted.\<close>

definition keepsKeys :: "(bindingRow \<Rightarrow> bindingRow) \<Rightarrow> bindingRow \<Rightarrow> bool" where
  "keepsKeys f b \<longleftrightarrow> bi_id (f b) = bi_id b \<and> bi_application_id (f b) = bi_application_id b
     \<and> bi_issuer (f b) = bi_issuer b \<and> bi_subject (f b) = bi_subject b
     \<and> bi_platform (f b) = bi_platform b \<and> bi_service (f b) = bi_service b
     \<and> bi_connection_name (f b) = bi_connection_name b \<and> bi_fingerprint (f b) = bi_fingerprint b
     \<and> (bi_status (f b) \<noteq> Revoked \<longrightarrow> bi_status b \<noteq> Revoked)"

lemma db_ok_updateBindings:
  assumes ok: "db_ok d" and keys: "\<And>b. b \<in> set (bindings d) \<Longrightarrow> P b \<Longrightarrow> keepsKeys f b"
  shows "db_ok (updateBindings P f d)"
proof -
  define g where "g = (\<lambda>b. if P b then f b else b)"
  have k: "keepsKeys g b" if "b \<in> set (bindings d)" for b
    using keys that by (auto simp: keepsKeys_def g_def)
  have u: "bindings_unique (bindings d)" and c: "bindings_check (bindings d)"
    using ok by (simp_all add: db_ok_defs)
  have "bindings_unique (map g (bindings d))"
    using u k unfolding bindings_unique_def
    by (intro conjI unique_by_filter_map unique_by_map[THEN iffD2]) (auto simp: keepsKeys_def)
  moreover have "bindings_check (map g (bindings d))"
    using c k by (simp add: bindings_check_def list_all_iff keepsKeys_def)
  moreover have "list_all (\<lambda>b. ref_ok (bi_application_id b) (map ap_id (applications d)))
      (map g (bindings d))"
    using ok k by (simp add: db_ok_def foreign_keys_ok_def list_all_iff keepsKeys_def)
  ultimately show ?thesis
    using ok by (simp add: db_ok_defs updateBindings_def g_def[symmetric])
qed

lemma keepsKeys_reconcileRow: "bi_status b \<noteq> Revoked \<Longrightarrow> keepsKeys (reconcileRow now cs) b"
  by (simp add: keepsKeys_def reconcileRow_def split: option.split)

lemma reconcileRow_id [simp]: "bi_id (reconcileRow now cs b) = bi_id b"
  by (simp add: reconcileRow_def split: option.split)

lemma updateBindings_bindings [simp]:
  "bindings (updateBindings P f d) = map (\<lambda>b. if P b then f b else b) (bindings d)"
  by (simp add: updateBindings_def)

lemma reconcileLoop_map:
  assumes "db_ok d" "set rows \<subseteq> set (bindings d)" "distinct (map bi_id rows)"
    "\<And>r. r \<in> set rows \<Longrightarrow> bi_status r \<noteq> Revoked"
  shows "reconcileLoop now cs rows d
    = (Inr (), updateBindings (\<lambda>b. b \<in> set rows) (reconcileRow now cs) d)"
  using assms
proof (induction rows arbitrary: d)
  case Nil
  then show ?case by (simp add: updateBindings_def)
next
  case (Cons row rows)
  have ids: "unique_by bi_id (bindings d)"
    using Cons.prems(1) by (simp add: db_ok_def uniques_ok_def bindings_unique_def)
  have row: "row \<in> set (bindings d)" "bi_status row \<noteq> Revoked" using Cons.prems by auto
  have only: "b = row" if "b \<in> set (bindings d)" "bi_id b = bi_id row" for b
    by (rule unique_by_eq[OF ids that(1) row(1) that(2)])
  have fresh: "row \<notin> set rows" "bi_id row \<notin> bi_id ` set rows" using Cons.prems(3) by auto
  show ?case
  proof (cases "reconcileRow now cs row = row")
    case True
    have "reconcileLoop now cs rows d = (Inr (), updateBindings (\<lambda>b. b \<in> set rows) (reconcileRow now cs) d)"
      using Cons.prems by (intro Cons.IH) auto
    moreover have "updateBindings (\<lambda>b. b \<in> set (row # rows)) (reconcileRow now cs) d
        = updateBindings (\<lambda>b. b \<in> set rows) (reconcileRow now cs) d"
      using True unfolding updateBindings_def by (auto intro!: arg_cong[where f = "\<lambda>x. d\<lparr>bindings := x\<rparr>"])
    ultimately show ?thesis using True by simp
  next
    case False
    let ?d = "updateBindings (\<lambda>b. bi_id b = bi_id row) (reconcileRow now cs) d"
    have ok: "db_ok ?d"
      using only row(2) by (intro db_ok_updateBindings Cons.prems(1))
        (auto intro: keepsKeys_reconcileRow)
    have "set rows \<subseteq> set (bindings ?d)"
    proof
      fix b assume b: "b \<in> set rows"
      then have "bi_id b \<noteq> bi_id row" using fresh(2) by (metis imageI)
      then show "b \<in> set (bindings ?d)" using b Cons.prems(2) by force
    qed
    then have IH: "reconcileLoop now cs rows ?d
        = (Inr (), updateBindings (\<lambda>b. b \<in> set rows) (reconcileRow now cs) ?d)"
      using Cons.prems ok by (intro Cons.IH) auto
    have "map (\<lambda>b. if b \<in> set rows then reconcileRow now cs b else b) (bindings ?d)
        = map (\<lambda>b. if b \<in> set (row # rows) then reconcileRow now cs b else b) (bindings d)"
    proof -
      have "(let c = if bi_id b = bi_id row then reconcileRow now cs b else b in
          if c \<in> set rows then reconcileRow now cs c else c)
          = (if b \<in> set (row # rows) then reconcileRow now cs b else b)"
        if b: "b \<in> set (bindings d)" for b
      proof (cases "b = row")
        case True
        have "reconcileRow now cs row \<notin> set rows" using fresh(2) by (metis imageI reconcileRow_id)
        with True show ?thesis by simp
      next
        case other: False
        then have "bi_id b \<noteq> bi_id row" using only b by blast
        with other show ?thesis by simp
      qed
      then show ?thesis by (simp add: Let_def)
    qed
    then have "updateBindings (\<lambda>b. b \<in> set rows) (reconcileRow now cs) ?d
        = updateBindings (\<lambda>b. b \<in> set (row # rows)) (reconcileRow now cs) d"
      by (simp add: updateBindings_def)
    with False ok IH show ?thesis by (simp add: checked_ok)
  qed
qed

definition connectionOf ::
    "(string \<times> connectorConnection) list \<Rightarrow> bindingRow \<Rightarrow> connectorConnection option" where
  "connectionOf cs b = map_of cs (connectorConnectionKey (bi_service b) (bi_connection_name b))"

lemma reconcileRow_status:
  "bi_status b \<noteq> Revoked \<Longrightarrow> bi_status (reconcileRow now cs b)
    = (if connectionOf cs b \<noteq> None then Connected
       else if bi_status b = Connected then Revoked else bi_status b)"
  by (simp add: reconcileRow_def connectionOf_def split: option.split)

lemma reconcileRow_owner [simp]:
  "bi_issuer (reconcileRow now cs b) = bi_issuer b" "bi_subject (reconcileRow now cs b) = bi_subject b"
  "bi_service (reconcileRow now cs b) = bi_service b"
  "bi_connection_name (reconcileRow now cs b) = bi_connection_name b"
  by (simp_all add: reconcileRow_def split: option.split)

lemma adoptLegacyBindings_ok:
  "db_ok d \<Longrightarrow> adoptLegacyBindings now identity d = Inr d1 \<Longrightarrow> db_ok d1"
  by (auto simp: adoptLegacyBindings_def Let_def split: if_splits)

lemma adoptLegacyBindings_own:
  "list_ex (ownBinding identity) (bindings d) \<Longrightarrow> adoptLegacyBindings now identity d = Inr d"
  by (simp add: adoptLegacyBindings_def Let_def)

lemma own_is_unrevoked: "ownBinding identity b \<Longrightarrow> bi_status b \<noteq> Revoked"
  by (simp add: ownBinding_def)

lemma reconcile_result:
  assumes "db_ok d" "reconcileEmployeeBindings env now identity d = (Inr rows, d')"
    "adoptLegacyBindings now identity d = Inr d1" "list_ex (ownBinding identity) (bindings d1)"
  obtains snapshot where "listConnectorConnections env = Inr snapshot"
    "d' = updateBindings (ownBinding identity)
       (reconcileRow now (configuredConnections snapshot)) d1"
    "rows = filter (ownBinding identity) (bindings d')"
proof -
  have ok: "db_ok d1" using adoptLegacyBindings_ok[OF assms(1,3)] .
  let ?own = "filter (ownBinding identity) (bindings d1)"
  have ne: "?own \<noteq> []" using assms(4) by (auto simp: list_ex_iff filter_empty_conv)
  have "unique_by bi_id ?own"
    using ok by (intro unique_by_filter) (simp add: db_ok_def uniques_ok_def bindings_unique_def)
  then have dist: "distinct (map bi_id ?own)" by (simp add: unique_by_def)
  obtain snapshot where snap: "listConnectorConnections env = Inr snapshot"
    using assms(2,3) ne by (cases "listConnectorConnections env") (simp_all add: reconcileEmployeeBindings_def)
  let ?cs = "configuredConnections snapshot"
  have "reconcileLoop now ?cs ?own d1 = (Inr (), updateBindings (\<lambda>b. b \<in> set ?own) (reconcileRow now ?cs) d1)"
    by (rule reconcileLoop_map[OF ok _ dist]) (auto simp: ownBinding_def)
  moreover have "updateBindings (\<lambda>b. b \<in> set ?own) (reconcileRow now ?cs) d1
      = updateBindings (ownBinding identity) (reconcileRow now ?cs) d1"
    by (simp add: updateBindings_def cong: map_cong)
  ultimately show thesis
    using assms(2,3) ne snap that by (simp add: reconcileEmployeeBindings_def Let_def)
qed

section \<open>Properties\<close>

definition demo_identity :: consoleIdentity where
  "demo_identity = \<lparr>ci_principalIssuer = ''iss'', ci_principalSubject = ''sub'',
     ci_email = ''a@b.c'', ci_name = ''A'', ci_admin = False\<rparr>"

definition demo_binding :: "string \<Rightarrow> string \<Rightarrow> string \<Rightarrow> bindingStatus \<Rightarrow> bindingRow" where
  "demo_binding i subject cname st = \<lparr>bi_id = i, bi_application_id = Some (demo_uuid (CHR ''1'')),
     bi_issuer = ''iss'', bi_subject = subject, bi_email = ''A@b.c'', bi_name = ''A'',
     bi_platform = Feishu, bi_service = ''feishu'', bi_connection_name = cname, bi_status = st,
     bi_display_name = None, bi_account_id = None, bi_error_message = MsgNone,
     bi_action_ids = None, bi_fingerprint = None, bi_connected_at = None, bi_created_at = 1,
     bi_updated_at = 1\<rparr>"

definition demo_connections :: ocEnv where
  "demo_connections = demo_env ''a'' \<lparr>env_fetch := (\<lambda>r. Some (200, JArr [JObj
     [(''service'', JStr ''feishu''), (''connectionName'', JStr ''c1''),
      (''authType'', JStr ''oauth2''), (''configured'', JBool True)]]))\<rparr>"

definition demo_bound :: "bindingRow list \<Rightarrow> db" where
  "demo_bound bs = demo_apps\<lparr>bindings := bs\<rparr>"



text \<open>An employee whose own binding of a service was revoked and who is adopted an earlier
  binding of the same service by email runs into the one-binding-per-service index: the adoption
  is rejected by the database, so loading the personal integrations fails on every attempt.\<close>

theorem adoption_conflicts_with_revoked_binding:
  "reconcileEmployeeBindings demo_connections 9 demo_identity
     (demo_bound [demo_binding ''i'' ''sub'' ''c1'' Revoked, demo_binding ''j'' ''old'' ''c2'' Connected])
   = (Inl (DatabaseError UniqueViolation),
      demo_bound [demo_binding ''i'' ''sub'' ''c1'' Revoked, demo_binding ''j'' ''old'' ''c2'' Connected])
   \<and> db_ok (demo_bound [demo_binding ''i'' ''sub'' ''c1'' Revoked, demo_binding ''j'' ''old'' ''c2'' Connected])"
proof
  let ?d = "demo_bound [demo_binding ''i'' ''sub'' ''c1'' Revoked, demo_binding ''j'' ''old'' ''c2'' Connected]"
  have "adoptLegacyBindings 9 demo_identity ?d = Inl (DatabaseError UniqueViolation)" by code_simp
  then show "reconcileEmployeeBindings demo_connections 9 demo_identity ?d
      = (Inl (DatabaseError UniqueViolation), ?d)"
    by (simp add: reconcileEmployeeBindings_def)
  show "db_ok ?d" by code_simp
qed

definition slotRows :: "consoleIdentity \<Rightarrow> string \<Rightarrow> db \<Rightarrow> bindingRow list" where
  "slotRows identity service d = filter (\<lambda>b. bi_application_id b \<noteq> None
     \<and> bi_issuer b = ci_principalIssuer identity \<and> bi_subject b = ci_principalSubject identity
     \<and> bi_service b = service) (bindings d)"

lemma slotRows_single:
  assumes "db_ok d" "slotRows identity service d \<noteq> []"
  obtains b where "slotRows identity service d = [b]"
proof -
  let ?app = "filter (\<lambda>b. bi_application_id b \<noteq> None) (bindings d)"
  have u: "unique_by (\<lambda>b. (bi_issuer b, bi_subject b, bi_service b)) ?app"
    using assms(1) by (simp add: db_ok_def uniques_ok_def bindings_unique_def)
  have eq: "slotRows identity service d = filter (\<lambda>b. (bi_issuer b, bi_subject b, bi_service b)
      = (ci_principalIssuer identity, ci_principalSubject identity, service)) ?app"
    by (simp add: slotRows_def conj_commute conj_left_commute)
  obtain b where "b \<in> set (slotRows identity service d)" using assms(2) by (meson last_in_set)
  then have b: "b \<in> set ?app" "(bi_issuer b, bi_subject b, bi_service b)
      = (ci_principalIssuer identity, ci_principalSubject identity, service)"
    unfolding eq by auto
  show thesis
    using unique_by_filter_eq[OF u b(1)] b(2) eq that by auto
qed

lemma upsert_slot:
  assumes "upsertBinding new d = Inr d'" "bi_application_id new \<noteq> None" "bi_status new = Pending"
    "bi_issuer new = ci_principalIssuer identity" "bi_subject new = ci_principalSubject identity"
    "bi_service new = service"
  shows "db_ok d'" "slotRows identity service d' \<noteq> []"
    "\<And>b. b \<in> set (slotRows identity service d') \<Longrightarrow> bi_status b = Pending
      \<and> bi_connection_name b = bi_connection_name new \<and> bi_application_id b = bi_application_id new"
proof -
  let ?f = "\<lambda>b. b\<lparr>bi_application_id := bi_application_id new, bi_email := bi_email new,
         bi_name := bi_name new, bi_platform := bi_platform new,
         bi_connection_name := bi_connection_name new, bi_status := Pending,
         bi_display_name := None, bi_account_id := None, bi_error_message := MsgNone,
         bi_connected_at := None, bi_updated_at := bi_updated_at new\<rparr>"
  consider (update) x where "x \<in> set (bindings d)" "sameApplicationSlot new x"
      "d' = updateBindings (sameApplicationSlot new) ?f d" "db_ok d'"
    | (insert) "\<forall>b\<in>set (bindings d). \<not> sameApplicationSlot new b"
      "d' = d\<lparr>bindings := bindings d @ [new]\<rparr>" "db_ok d'"
    using assms(1) by (auto simp: upsertBinding_def list_ex_iff split: if_splits)
  then have "db_ok d' \<and> slotRows identity service d' \<noteq> [] \<and>
      (\<forall>b\<in>set (slotRows identity service d'). bi_status b = Pending
      \<and> bi_connection_name b = bi_connection_name new \<and> bi_application_id b = bi_application_id new)"
  proof cases
    case update
    have "(\<lambda>b. if sameApplicationSlot new b then ?f b else b) x \<in> set (bindings d')"
      unfolding update(3) updateBindings_bindings set_map using update(1) by (rule imageI)
    then have "?f x \<in> set (bindings d')" using update(2) by simp
    moreover have "bi_application_id new \<noteq> None \<and> bi_issuer x = ci_principalIssuer identity
        \<and> bi_subject x = ci_principalSubject identity \<and> bi_service x = service"
      using update(2) assms by (simp add: sameApplicationSlot_def)
    ultimately have "?f x \<in> set (slotRows identity service d')"
      by (simp add: slotRows_def)
    then have "slotRows identity service d' \<noteq> []" by (metis empty_iff list.set(1))
    moreover have "\<forall>b\<in>set (slotRows identity service d'). bi_status b = Pending
      \<and> bi_connection_name b = bi_connection_name new \<and> bi_application_id b = bi_application_id new"
      unfolding update(3) slotRows_def using assms(2-6) by (auto simp: sameApplicationSlot_def)
    ultimately show ?thesis using update(4) by blast
  next
    case insert
    with assms show ?thesis by (auto simp: slotRows_def sameApplicationSlot_def)
  qed
  then show "db_ok d'" "slotRows identity service d' \<noteq> []"
    "\<And>b. b \<in> set (slotRows identity service d') \<Longrightarrow> bi_status b = Pending
      \<and> bi_connection_name b = bi_connection_name new \<and> bi_application_id b = bi_application_id new"
    by blast+
qed

text \<open>Starting an OAuth authorisation leaves exactly one application binding of the employee
  for the service. When the upstream start succeeds it is pending under the employee's connection
  name and bound to the requested application; when the start fails after the row was written, the
  row carries the error and the employee sees the same error, unless the database refuses the
  update; a failed check changes nothing.\<close>

theorem authorization_start_outcome:
  assumes "startAuthorizationChecks env i d = Inr (row, definition, service, actionIds)"
    "upsertBinding (pendingBinding identity definition row service
       (employeeConnectionName (ie_crypto env) identity service []) uuid now) d = Inr d1"
    "startEmployeeIntegrationAuthorization env now uuid identity i d = (r, d')"
  shows "\<exists>b. slotRows identity service d' = [b]
    \<and> bi_connection_name b = employeeConnectionName (ie_crypto env) identity service []
    \<and> bi_application_id b = Some (ap_id row)
    \<and> (case r of Inr u \<Rightarrow> bi_status b = Pending \<and> fst u = service
       | Inl e \<Rightarrow> requestAuthorization env row service
            (employeeConnectionName (ie_crypto env) identity service []) actionIds = Inl e
            \<and> bi_status b = Errored \<and> bi_error_message b = MsgText (ie_errorText env e)
          \<or> (\<exists>v. e = DatabaseError v) \<and> bi_status b = Pending)"
proof -
  let ?name = "employeeConnectionName (ie_crypto env) identity service []"
  note up = upsert_slot[OF assms(2), where identity = identity and service = service]
  have ok: "db_ok d1" and ne: "slotRows identity service d1 \<noteq> []"
    and pend: "b \<in> set (slotRows identity service d1) \<Longrightarrow> bi_status b = Pending
      \<and> bi_connection_name b = ?name \<and> bi_application_id b = Some (ap_id row)" for b
    using up by (simp_all add: pendingBinding_def)
  obtain b where b: "slotRows identity service d1 = [b]" by (rule slotRows_single[OF ok ne])
  note pb = pend[of b, unfolded b, simplified]
  have fail: "slotRows identity service (failBindings identity service t now d1)
      = [b\<lparr>bi_status := Errored, bi_error_message := MsgText t, bi_updated_at := now\<rparr>]" for t
  proof -
    let ?own = "\<lambda>c. bi_issuer c = ci_principalIssuer identity
        \<and> bi_subject c = ci_principalSubject identity \<and> bi_service c = service"
    let ?f = "\<lambda>c. c\<lparr>bi_status := Errored, bi_error_message := MsgText t, bi_updated_at := now\<rparr>"
    have "filter (\<lambda>c. bi_application_id c \<noteq> None \<and> ?own c) (map (\<lambda>c. if ?own c then ?f c else c) bs)
        = map ?f (filter (\<lambda>c. bi_application_id c \<noteq> None \<and> ?own c) bs)"
      for bs :: "bindingRow list"
      by (induction bs) auto
    then show ?thesis using b by (simp add: slotRows_def failBindings_def)
  qed
  show ?thesis
  proof (cases "requestAuthorization env row service ?name actionIds")
    case (Inr u)
    have "fst u = service"
      using Inr by (auto simp: requestAuthorization_def startConnectorOAuthAuthorization_def
          assertService_def split: option.split_asm if_split_asm)
    moreover have "r = Inr u" "d' = d1"
      using Inr assms by (simp_all add: startEmployeeIntegrationAuthorization_def)
    ultimately show ?thesis using b pb by simp
  next
    case (Inl e)
    show ?thesis
    proof (cases "checked (failBindings identity service (ie_errorText env e) now d1)")
      case inl: (Inl v)
      with Inl assms have "r = Inl (DatabaseError v)" "d' = d1"
        by (simp_all add: startEmployeeIntegrationAuthorization_def)
      then show ?thesis using b pb by simp
    next
      case inr: (Inr d2)
      with Inl assms have "r = Inl e" "d' = d2"
        by (simp_all add: startEmployeeIntegrationAuthorization_def)
      with Inl inr fail pb show ?thesis by auto
    qed
  qed
qed

end
