(* ===== verification/Resolver.thy ===== *)
theory Resolver
  imports Employee_Bindings Identity_Link
begin

text \<open>
  Which connections an employee may use: resolveEmployeeConnectorBindings and the WeCom visibility
  lookup with its one-minute cache (src/ai-console/src/lib/server/integrations.ts). Personal
  bindings, shared resources with their grants, resources visible through a linked WeCom identity
  and virtual no_auth connections are collected, then narrowed to the one connection a request
  asks for; every ambiguity is an error.
\<close>

definition WECOM_VISIBILITY_CACHE_TTL_MS :: int where "WECOM_VISIBILITY_CACHE_TTL_MS = 60000"

definition WECOM_BOT_SYSTEM_ONLY_ACTION_IDS :: "string list" where
  "WECOM_BOT_SYSTEM_ONLY_ACTION_IDS = [
    ''wecom_bot.send_text_message'', ''wecom_bot.send_markdown_message'',
    ''wecom_bot.send_markdown_v2_message'', ''wecom_bot.send_image_message'',
    ''wecom_bot.send_news_message'', ''wecom_bot.call_tool'']"

section \<open>Visibility of a WeCom bot\<close>

record visibleUser =
  vu_userIdHash :: string
  vu_name :: "string option"

definition parseWeComVisibleUsers :: "crypto \<Rightarrow> json \<Rightarrow> appError + visibleUser list" where
  "parseWeComVisibleUsers cr v =
    (if \<not> is_object v \<or> jget v ''errcode'' \<noteq> JNum (Fin 0) \<or> \<not> is_array (jget v ''userlist'')
     then Inl (storeError VisibilityQueryFailed 502)
     else Inr (List.map_filter (\<lambda>item.
       if is_string (jget item ''userid'') \<and> the_string (jget item ''userid'') \<noteq> []
       then let name = js_trim (the_string (jget item ''name'')) in
         Some \<lparr>vu_userIdHash = sha256hex cr (the_string (jget item ''userid'')),
           vu_name = (if name \<noteq> [] then Some name else None)\<rparr>
       else None) (the_array (jget v ''userlist''))))"

definition parseWeComVisibleUserIdHashes :: "crypto \<Rightarrow> json \<Rightarrow> appError + string list" where
  "parseWeComVisibleUserIdHashes cr v =
    bindE (parseWeComVisibleUsers cr v) (\<lambda>users. Inr (dedup (map vu_userIdHash users)))"

type_synonym visibilityCache = "(string \<times> int \<times> string list) list"

definition fetchVisibleHashes :: "ocEnv \<times> crypto \<Rightarrow> string \<Rightarrow> appError + string list" where
  "fetchVisibleHashes env connectionName =
    bindE (liftConnector (runConnectorAction (fst env) ''wecom_bot.get_userlist'' connectionName (JObj [])))
      (parseWeComVisibleUserIdHashes (snd env))"

definition readWeComVisibleUserIdHashes ::
    "ocEnv \<times> crypto \<Rightarrow> int \<Rightarrow> int \<Rightarrow> string \<Rightarrow> visibilityCache
      \<Rightarrow> (appError + string list) \<times> visibilityCache" where
  "readWeComVisibleUserIdHashes env now now' connectionName cache =
    (let miss = (case fetchVisibleHashes env connectionName of
           Inl e \<Rightarrow> (Inl e, AList.delete connectionName (AList.delete connectionName cache))
         | Inr hashes \<Rightarrow> (Inr hashes, AList.update connectionName
             (now' + WECOM_VISIBILITY_CACHE_TTL_MS, hashes) (AList.delete connectionName cache)))
     in case map_of cache connectionName of
       Some (expiresAt, hashes) \<Rightarrow> if expiresAt > now then (Inr hashes, cache) else miss
     | None \<Rightarrow> miss)"

definition resetWeComVisibilityCache :: "visibilityCache \<Rightarrow> visibilityCache" where
  "resetWeComVisibilityCache cache = []"

fun visibleResources ::
    "ocEnv \<times> crypto \<Rightarrow> int \<Rightarrow> int \<Rightarrow> (string \<times> string) list \<Rightarrow> resourceRow list \<Rightarrow> visibilityCache
      \<Rightarrow> resourceRow list \<times> visibilityCache" where
  "visibleResources env now now' hashOf [] cache = ([], cache)"
| "visibleResources env now now' hashOf (r # rs) cache =
    (case readWeComVisibleUserIdHashes env now now' (rs_connection_name r) cache of
       (res, cache1) \<Rightarrow> (case visibleResources env now now' hashOf rs cache1 of (vs, cache2) \<Rightarrow>
         (case (res, Option.bind (rs_organization_id r) (map_of hashOf)) of
            (Inr hashes, Some h) \<Rightarrow> (if h \<noteq> [] \<and> h \<in> set hashes then r # vs else vs, cache2)
          | _ \<Rightarrow> (vs, cache2))))"

definition personallyBound :: "db \<Rightarrow> resourceRow \<Rightarrow> bool" where
  "personallyBound d r \<longleftrightarrow> list_ex (\<lambda>b. bi_service b = rs_service r
     \<and> bi_connection_name b = rs_connection_name r \<and> bi_status b \<noteq> Revoked) (bindings d)"

definition visibilityCandidate :: "db \<Rightarrow> string list \<Rightarrow> resourceRow \<Rightarrow> bool" where
  "visibilityCandidate d organizationIds r \<longleftrightarrow> rs_enabled r \<and> rs_service r = ''wecom_bot''
     \<and> rs_mode r = WecomVisibility \<and> \<not> personallyBound d r
     \<and> list_ex (\<lambda>g. Some (og_id g) = rs_organization_id r \<and> og_id g \<in> set organizationIds
         \<and> organizationConfigured g) (organizations d)"

definition resolveWeComVisibilityResources ::
    "ocEnv \<times> crypto \<Rightarrow> int \<Rightarrow> int \<Rightarrow> (string \<Rightarrow> string \<Rightarrow> bool) \<Rightarrow> string option
      \<Rightarrow> (string \<times> string) list \<Rightarrow> db \<Rightarrow> visibilityCache
      \<Rightarrow> (appError + resourceRow list) \<times> visibilityCache" where
  "resolveWeComVisibilityResources env now now' collate service identities d cache =
    (if service \<noteq> None \<and> service \<noteq> Some ''wecom_bot'' then (Inr [], cache)
     else if identities = [] then (Inr [], cache)
     else if list_ex (\<lambda>i. \<not> is_hash64 (snd i)) identities
     then (Inl (storeErrorCode UserHashInvalid 400 ''invalid_wecom_identity''), cache)
     else let hashOf = js_map identities;
              rows = sort_by (\<lambda>r s. collate (rs_connection_name r) (rs_connection_name s))
                (filter (visibilityCandidate d (map fst hashOf)) (resources d))
          in case visibleResources env now now' hashOf rows cache of (vs, cache') \<Rightarrow> (Inr vs, cache'))"

section \<open>The caller and the collected connections\<close>

record resolveInput =
  ri_issuer :: string
  ri_subject :: string
  ri_email :: "string option"
  ri_groups :: "json list"
  ri_wecomUserIdHash :: "string option"
  ri_service :: "string option"
  ri_requestedConnectionName :: "string option"
  ri_actionId :: "string option"

record resolveCaller =
  rk_issuer :: string
  rk_subject :: string
  rk_email :: "string option"
  rk_service :: "string option"
  rk_requested :: "string option"
  rk_actionId :: "string option"
  rk_groups :: "string list"

definition optionalField :: "string option \<Rightarrow> fieldLabel \<Rightarrow> nat \<Rightarrow> appError + string option" where
  "optionalField v label n = (case v of None \<Rightarrow> Inr None
     | Some s \<Rightarrow> if s = [] then Inr None
         else bindE (requiredValue (JStr s) label n) (\<lambda>t. Inr (Some t)))"

definition normalizedGroups :: "json list \<Rightarrow> string list" where
  "normalizedGroups groups = dedup (take 256 (map (\<lambda>g. js_lower (js_trim (the_string g)))
     (filter (\<lambda>g. is_string g \<and> js_trim (the_string g) \<noteq> []) groups)))"

definition resolveCallerOf :: "resolveInput \<Rightarrow> appError + resolveCaller" where
  "resolveCallerOf input =
    bindE (requiredValue (JStr (ri_issuer input)) LabelIssuer 2048) (\<lambda>issuer.
    bindE (requiredValue (JStr (ri_subject input)) LabelSubject 512) (\<lambda>subject.
    bindE (optionalField (map_option (\<lambda>e. js_lower (js_trim e)) (ri_email input)) LabelEmail 320) (\<lambda>email.
    bindE (optionalField (ri_service input) LabelService 128) (\<lambda>service.
    bindE (optionalField (ri_requestedConnectionName input) LabelConnection 128) (\<lambda>requested.
    bindE (optionalField (ri_actionId input) LabelName 384) (\<lambda>actionId.
      Inr \<lparr>rk_issuer = issuer, rk_subject = subject, rk_email = email, rk_service = service,
        rk_requested = (case requested of None \<Rightarrow> None
          | Some c \<Rightarrow> if js_lower c = ''default'' then None else Some c),
        rk_actionId = actionId, rk_groups = normalizedGroups (ri_groups input)\<rparr>))))))"

definition corp_group :: "string \<Rightarrow> bool" where
  "corp_group g \<longleftrightarrow> starts_with g ''wecom:'' \<and> length g = 18
     \<and> list_all (\<lambda>c. is_digit c \<or> 97 \<le> code_unit c \<and> code_unit c \<le> 102) (drop 6 g)"

text \<open>The WeCom identities of the caller: the linked ones, or, when the token names a user hash,
  the one of the organisation its single corporation group stands for.\<close>

definition callerIdentities ::
    "crypto \<Rightarrow> resolveInput \<Rightarrow> resolveCaller \<Rightarrow> db \<Rightarrow> appError + (string \<times> string) list" where
  "callerIdentities cr input caller d =
    (let linked = map (\<lambda>c. (ic_organizationId c, ic_userIdHash c))
           (getLinkedWeComIdentityClaims (rk_issuer caller) (rk_subject caller) d) in
     case ri_wecomUserIdHash input of
       None \<Rightarrow> Inr linked
     | Some h \<Rightarrow>
         if h = [] then Inr linked
         else if \<not> is_hash64 h then Inl (storeErrorCode UserHashInvalid 400 ''invalid_wecom_identity'')
         else (case filter corp_group (rk_groups caller) of
             [g] \<Rightarrow> (case List.find (\<lambda>o'. og_active o'
                   \<and> ''wecom:'' @ take 12 (sha256hex cr (og_corp_id o')) = g) (organizations d) of
                 None \<Rightarrow> Inr [] | Some o' \<Rightarrow> Inr [(og_id o', h)])
           | _ \<Rightarrow> Inr []))"

definition serviceMatches :: "resolveCaller \<Rightarrow> string \<Rightarrow> bool" where
  "serviceMatches caller s = (case rk_service caller of None \<Rightarrow> True | Some t \<Rightarrow> s = t)"

definition row_order :: "(string \<Rightarrow> string \<Rightarrow> bool) \<Rightarrow> string \<times> string \<Rightarrow> string \<times> string \<Rightarrow> bool" where
  "row_order collate a b = (if fst a \<noteq> fst b then collate (fst a) (fst b) else collate (snd a) (snd b))"

definition bindingKey :: "bindingRow \<Rightarrow> string \<times> string" where
  "bindingKey b = (bi_service b, bi_connection_name b)"

definition ownConnected :: "resolveCaller \<Rightarrow> bindingRow \<Rightarrow> bool" where
  "ownConnected caller b \<longleftrightarrow> bi_issuer b = rk_issuer caller \<and> bi_subject b = rk_subject caller
     \<and> bi_status b = Connected \<and> serviceMatches caller (bi_service b)"

definition emailConnected :: "resolveCaller \<Rightarrow> string \<Rightarrow> bindingRow \<Rightarrow> bool" where
  "emailConnected caller email b \<longleftrightarrow> bi_issuer b = rk_issuer caller \<and> js_lower (bi_email b) = email
     \<and> bi_status b = Connected \<and> serviceMatches caller (bi_service b)"

definition personalBindings ::
    "(string \<Rightarrow> string \<Rightarrow> bool) \<Rightarrow> resolveCaller \<Rightarrow> db \<Rightarrow> appError + bindingRow list" where
  "personalBindings collate caller d =
    (let order = (\<lambda>a b. row_order collate (bindingKey a) (bindingKey b));
         own = sort_by order (filter (ownConnected caller) (bindings d)) in
     case rk_email caller of
       None \<Rightarrow> Inr own
     | Some email \<Rightarrow> if own \<noteq> [] then Inr own
         else let legacy = sort_by order (filter (emailConnected caller email) (bindings d)) in
           if conflictingService [] legacy then Inl (storeError BindingConflict 409) else Inr legacy)"

definition bindingActions :: "db \<Rightarrow> bindingRow \<Rightarrow> json" where
  "bindingActions d b = (case bi_application_id b of
     None \<Rightarrow> (case bi_action_ids b of None \<Rightarrow> JNull | Some v \<Rightarrow> v)
   | Some i \<Rightarrow> (case findApplication d i of None \<Rightarrow> JNull | Some a \<Rightarrow> ap_action_ids a))"

definition grantApplies :: "resolveCaller \<Rightarrow> int \<Rightarrow> grantRow \<Rightarrow> bool" where
  "grantApplies caller now g \<longleftrightarrow> gr_enabled g
     \<and> (case gr_starts_at g of None \<Rightarrow> True | Some t \<Rightarrow> t \<le> now)
     \<and> (case gr_expires_at g of None \<Rightarrow> True | Some t \<Rightarrow> t > now)
     \<and> gr_issuer g = rk_issuer caller
     \<and> (gr_type g = UserPrincipal
           \<and> (gr_subject g = Some (rk_subject caller)
              \<or> gr_subject g = None \<and> rk_email caller \<noteq> None
                \<and> map_option js_lower (gr_email g) = rk_email caller)
        \<or> gr_type g = GroupPrincipal
           \<and> (case gr_group g of None \<Rightarrow> False | Some n \<Rightarrow> js_lower n \<in> set (rk_groups caller)))"

definition sharedCandidate :: "resolveCaller \<Rightarrow> db \<Rightarrow> resourceRow \<Rightarrow> bool" where
  "sharedCandidate caller d r \<longleftrightarrow> rs_enabled r \<and> rs_mode r = Manual \<and> \<not> personallyBound d r
     \<and> serviceMatches caller (rs_service r)"

definition resourceKey :: "resourceRow \<Rightarrow> string \<times> string" where
  "resourceKey r = (rs_service r, rs_connection_name r)"

definition sharedRows ::
    "(string \<Rightarrow> string \<Rightarrow> bool) \<Rightarrow> resolveCaller \<Rightarrow> int \<Rightarrow> db \<Rightarrow> (resourceRow \<times> grantRow) list" where
  "sharedRows collate caller now d =
    sort_by (\<lambda>(r, g) (s, h). if resourceKey r \<noteq> resourceKey s
        then row_order collate (resourceKey r) (resourceKey s)
        else gr_created_at g \<le> gr_created_at h)
      (concat (map (\<lambda>r. map (\<lambda>g. (r, g))
          (filter (\<lambda>g. gr_resource_id g = rs_id r \<and> grantApplies caller now g) (grants d)))
        (filter (sharedCandidate caller d) (resources d))))"

record resolvedConnection =
  rc_id :: "string option"
  rc_service :: string
  rc_connectionName :: string
  rc_displayName :: string
  rc_public :: bool
  rc_accessMode :: connectorAccessMode
  rc_actionRestricted :: bool
  rc_allowedActionIds :: "string list option"
  rc_policyIds :: "string list"
  rc_organizationId :: "string option"

type_synonym connectionMap = "(string \<times> connectorConnection) list"

definition name_or :: "string option \<Rightarrow> string \<Rightarrow> string" where
  "name_or n d = (case n of None \<Rightarrow> d | Some s \<Rightarrow> if s = [] then d else s)"

definition boundConnections ::
    "connectionMap \<Rightarrow> db \<Rightarrow> bindingRow list \<Rightarrow> resolvedConnection list" where
  "boundConnections valid d rows = List.map_filter (\<lambda>b.
     case map_of valid (connectorConnectionKey (bi_service b) (bi_connection_name b)) of
       None \<Rightarrow> None
     | Some current \<Rightarrow> Some \<lparr>rc_id = None, rc_service = bi_service b,
         rc_connectionName = bi_connection_name b,
         rc_displayName = name_or (bi_display_name b) (cc_displayName current),
         rc_public = False, rc_accessMode = AccountBound, rc_actionRestricted = True,
         rc_allowedActionIds = Some (storedActionIds (bindingActions d b)), rc_policyIds = [],
         rc_organizationId = None\<rparr>) rows"

definition newShared :: "connectorConnection \<Rightarrow> resourceRow \<Rightarrow> resolvedConnection" where
  "newShared current r = \<lparr>rc_id = Some (rs_id r), rc_service = rs_service r,
     rc_connectionName = rs_connection_name r,
     rc_displayName = name_or (Some (rs_display_name r)) (cc_displayName current),
     rc_public = False, rc_accessMode = ControlledShared, rc_actionRestricted = True,
     rc_allowedActionIds = Some [], rc_policyIds = [], rc_organizationId = None\<rparr>"

definition actionStrings :: "json \<Rightarrow> string list" where
  "actionStrings v = stringArray v"

definition addGrant :: "grantRow \<Rightarrow> resolvedConnection \<Rightarrow> resolvedConnection" where
  "addGrant g c = c\<lparr>rc_allowedActionIds := map_option (\<lambda>ids. dedup (ids @ actionStrings (gr_action_ids g)))
       (rc_allowedActionIds c),
     rc_policyIds := rc_policyIds c @ [gr_id g]\<rparr>"

fun mergeShared ::
    "connectionMap \<Rightarrow> (resourceRow \<times> grantRow) list \<Rightarrow> (string \<times> resolvedConnection) list
      \<Rightarrow> (string \<times> resolvedConnection) list" where
  "mergeShared valid [] acc = acc"
| "mergeShared valid ((r, g) # rows) acc =
    (let key = connectorConnectionKey (rs_service r) (rs_connection_name r) in
     case map_of valid key of
       None \<Rightarrow> mergeShared valid rows acc
     | Some current \<Rightarrow>
         (let entry = (case map_of acc key of None \<Rightarrow> newShared current r | Some c \<Rightarrow> c)
          in mergeShared valid rows (AList.update key (addGrant g entry) acc)))"

definition manualConnections ::
    "connectionMap \<Rightarrow> (resourceRow \<times> grantRow) list \<Rightarrow> resolvedConnection list" where
  "manualConnections valid rows = map (\<lambda>(k, c).
     c\<lparr>rc_allowedActionIds := map_option (sort_by str_le) (rc_allowedActionIds c)\<rparr>)
     (mergeShared valid rows [])"

definition visibilityConnections ::
    "connectionMap \<Rightarrow> resourceRow list \<Rightarrow> resolvedConnection list" where
  "visibilityConnections valid rows = List.map_filter (\<lambda>r.
     case map_of valid (connectorConnectionKey (rs_service r) (rs_connection_name r)) of
       None \<Rightarrow> None
     | Some current \<Rightarrow> Some ((newShared current r)\<lparr>
         rc_allowedActionIds := Some (sort_by str_le (filter
           (\<lambda>a. a \<notin> set WECOM_BOT_SYSTEM_ONLY_ACTION_IDS) (storedActionIds (rs_action_ids r)))),
         rc_policyIds := [''wecom-visibility:'' @ rs_id r],
         rc_organizationId := rs_organization_id r\<rparr>)) rows"

definition publicConnections ::
    "connectorConnection list \<Rightarrow> string list \<Rightarrow> resolvedConnection list" where
  "publicConnections snapshot boundServices = map (\<lambda>c.
     \<lparr>rc_id = None, rc_service = cc_service c, rc_connectionName = ''default'',
      rc_displayName = cc_displayName c, rc_public = True, rc_accessMode = AccessNoAuth,
      rc_actionRestricted = False, rc_allowedActionIds = None, rc_policyIds = [],
      rc_organizationId = None\<rparr>)
     (filter (\<lambda>c. cc_configured c \<and> cc_virtual c \<and> cc_authType c = NoAuth
        \<and> cc_service c \<notin> set boundServices) snapshot)"

section \<open>Selection\<close>

definition actionAllowed :: "string \<Rightarrow> resolvedConnection \<Rightarrow> bool" where
  "actionAllowed a c \<longleftrightarrow> \<not> rc_actionRestricted c
     \<or> (case rc_allowedActionIds c of None \<Rightarrow> False | Some ids \<Rightarrow> a \<in> set ids)"

definition selectConnection ::
    "resolveCaller \<Rightarrow> string \<Rightarrow> resolvedConnection list \<Rightarrow> appError + resolvedConnection" where
  "selectConnection caller service connections =
    (let c0 = filter (\<lambda>c. rc_service c = service) connections;
         c1 = (case rk_requested caller of None \<Rightarrow> c0
           | Some n \<Rightarrow> filter (\<lambda>c. rc_connectionName c = n) c0);
         c2 = (case rk_actionId caller of None \<Rightarrow> c1 | Some a \<Rightarrow> filter (actionAllowed a) c1) in
     if c0 = [] then Inl (storeErrorCode ConnectorNotAuthorized 404 ''connector_not_authorized'')
     else if c1 = [] then Inl (storeErrorCode ConnectionNotAllowed 403 ''connector_not_authorized'')
     else if c2 = [] then Inl (storeErrorCode ActionNotAllowed 403 ''action_not_authorized'')
     else if length c2 > 1 then Inl (storeErrorCode (SelectionRequired (map rc_connectionName c2)) 409
       ''connector_selection_required'')
     else Inr (hd c2))"

datatype resolved = AllConnections "resolvedConnection list" | OneConnection resolvedConnection

record resolverEnv =
  rv_connector :: ocEnv
  rv_crypto :: crypto
  rv_collate :: "string \<Rightarrow> string \<Rightarrow> bool"

definition collectedConnections ::
    "connectorConnection list \<Rightarrow> db \<Rightarrow> bindingRow list \<Rightarrow> (resourceRow \<times> grantRow) list
      \<Rightarrow> resourceRow list \<Rightarrow> resolvedConnection list" where
  "collectedConnections snapshot d personal shared visible =
    (let valid = configuredConnections snapshot;
         bound = boundConnections valid d personal;
         sharedConnections = manualConnections valid shared @ visibilityConnections valid visible
     in bound @ sharedConnections
        @ publicConnections snapshot (map rc_service bound @ map rc_service sharedConnections))"

definition resolveEmployeeConnectorBindings ::
    "resolverEnv \<Rightarrow> int \<Rightarrow> int \<Rightarrow> resolveInput \<Rightarrow> db \<Rightarrow> visibilityCache
      \<Rightarrow> (appError + resolved) \<times> visibilityCache" where
  "resolveEmployeeConnectorBindings env now now' input d cache =
    (case resolveCallerOf input of
       Inl e \<Rightarrow> (Inl e, cache)
     | Inr caller \<Rightarrow>
    (case callerIdentities (rv_crypto env) input caller d of
       Inl e \<Rightarrow> (Inl e, cache)
     | Inr identities \<Rightarrow>
    (case personalBindings (rv_collate env) caller d of
       Inl e \<Rightarrow> (Inl e, cache)
     | Inr personal \<Rightarrow>
    (case resolveWeComVisibilityResources (rv_connector env, rv_crypto env) now now' (rv_collate env)
        (rk_service caller) identities d cache of
       (Inl e, cache') \<Rightarrow> (Inl e, cache')
     | (Inr visible, cache') \<Rightarrow>
    (case listConnectorConnections (rv_connector env) of
       Inl e \<Rightarrow> (Inl (ConnectorError e), cache')
     | Inr snapshot \<Rightarrow>
         (let connections = collectedConnections snapshot d personal
                (sharedRows (rv_collate env) caller now d) visible in
          case rk_service caller of
            None \<Rightarrow> (Inr (AllConnections connections), cache')
          | Some service \<Rightarrow> (map_sum id OneConnection (selectConnection caller service connections), cache')))))))"

section \<open>The visibility cache\<close>

interpretation visibility: ttl_cache
  "\<lambda>env now now' k c. readWeComVisibleUserIdHashes env now now' k c" fetchVisibleHashes
  "\<lambda>c k. map_of c k" WECOM_VISIBILITY_CACHE_TTL_MS
proof (unfold_locales, goal_cases)
  case (1 c k x v now w now')
  then show ?case by (simp add: readWeComVisibleUserIdHashes_def Let_def)
next
  case (2 c k now w v now')
  then show ?case
    by (auto simp: readWeComVisibleUserIdHashes_def Let_def update_conv' split: option.splits prod.splits)
next
  case (3 c k now w e now')
  then show ?case
    by (auto simp: readWeComVisibleUserIdHashes_def Let_def delete_conv' split: option.splits prod.splits)
next
  case (4 j k w now now' c)
  then show ?case
    by (auto simp: readWeComVisibleUserIdHashes_def Let_def update_conv' delete_conv'
        split: option.splits prod.splits sum.splits)
qed

section \<open>Where the collected connections come from\<close>

lemma boundConnections_from:
  assumes "c \<in> set (boundConnections valid d rows)"
  obtains b where "b \<in> set rows" "rc_accessMode c = AccountBound"
    "rc_allowedActionIds c = Some (storedActionIds (bindingActions d b))"
    "bindingKey b = (rc_service c, rc_connectionName c)"
    "map_of valid (connectorConnectionKey (rc_service c) (rc_connectionName c)) \<noteq> None"
proof -
  from assms obtain b where b: "b \<in> set rows" "(case map_of valid
      (connectorConnectionKey (bi_service b) (bi_connection_name b)) of None \<Rightarrow> None
     | Some current \<Rightarrow> Some \<lparr>rc_id = None, rc_service = bi_service b,
         rc_connectionName = bi_connection_name b,
         rc_displayName = name_or (bi_display_name b) (cc_displayName current),
         rc_public = False, rc_accessMode = AccountBound, rc_actionRestricted = True,
         rc_allowedActionIds = Some (storedActionIds (bindingActions d b)), rc_policyIds = [],
         rc_organizationId = None\<rparr>) = Some c"
    by (auto simp: boundConnections_def map_filter_def)
  then show thesis
    by (intro that[of b]) (auto simp: bindingKey_def split: option.splits)
qed

definition sharedEntry ::
    "connectionMap \<Rightarrow> (resourceRow \<times> grantRow) list \<Rightarrow> string \<Rightarrow> resolvedConnection \<Rightarrow> bool" where
  "sharedEntry valid rows k c \<longleftrightarrow> rc_accessMode c = ControlledShared \<and> rc_actionRestricted c
     \<and> k = connectorConnectionKey (rc_service c) (rc_connectionName c) \<and> map_of valid k \<noteq> None
     \<and> (\<exists>(r, g)\<in>set rows. resourceKey r = (rc_service c, rc_connectionName c))
     \<and> (case rc_allowedActionIds c of None \<Rightarrow> False | Some ids \<Rightarrow>
         \<forall>a\<in>set ids. \<exists>(r, g)\<in>set rows. a \<in> set (actionStrings (gr_action_ids g))
           \<and> connectorConnectionKey (rs_service r) (rs_connection_name r) = k)"

lemma mergeShared_entries:
  assumes "\<And>k c. map_of acc k = Some c \<Longrightarrow> sharedEntry valid all k c" "set rows \<subseteq> set all"
    "map_of (mergeShared valid rows acc) k = Some c"
  shows "sharedEntry valid all k c"
  using assms
proof (induction rows arbitrary: acc)
  case (Cons p rows)
  obtain r g where p: "p = (r, g)" by fastforce
  let ?key = "connectorConnectionKey (rs_service r) (rs_connection_name r)"
  have mem: "(r, g) \<in> set all" using Cons.prems(2) p by simp
  show ?case
  proof (cases "map_of valid ?key")
    case None
    then show ?thesis using Cons.prems(2,3) p by (intro Cons.IH[OF Cons.prems(1)]) simp_all
  next
    case (Some current)
    define entry where "entry = (case map_of acc ?key of None \<Rightarrow> newShared current r | Some c \<Rightarrow> c)"
    have key_of: "sharedEntry valid all ?key entry \<or> entry = newShared current r"
      using Cons.prems(1) by (auto simp: entry_def split: option.split)
    have new: "sharedEntry valid all ?key (addGrant g entry)"
    proof -
      from key_of show ?thesis
      proof
        assume "sharedEntry valid all ?key entry"
        then show ?thesis using mem
          by (auto simp: sharedEntry_def addGrant_def split: option.splits)
      next
        assume "entry = newShared current r"
        then show ?thesis using mem Some
          by (auto simp: sharedEntry_def addGrant_def newShared_def resourceKey_def)
      qed
    qed
    have "sharedEntry valid all j x" if "map_of (AList.update ?key (addGrant g entry) acc) j = Some x" for j x
      using that Cons.prems(1) new by (auto simp: update_conv' split: if_splits)
    moreover have "map_of (mergeShared valid rows (AList.update ?key (addGrant g entry) acc)) k = Some c"
      using Cons.prems(3) Some by (simp add: p entry_def[symmetric] Let_def)
    ultimately show ?thesis using Cons.prems(2) by (intro Cons.IH) auto
  qed
qed simp

lemma distinct_mergeShared:
  "distinct (map fst acc) \<Longrightarrow> distinct (map fst (mergeShared valid rows acc))"
proof (induction valid rows acc rule: mergeShared.induct)
  case (2 valid r g rows acc)
  then show ?case by (auto simp: Let_def distinct_update split: option.splits)
qed simp

lemma manualConnections_from:
  assumes "c \<in> set (manualConnections valid rows)"
  shows "sharedEntry valid rows (connectorConnectionKey (rc_service c) (rc_connectionName c)) c"
proof -
  obtain k c0 where c0: "(k, c0) \<in> set (mergeShared valid rows [])"
    "c = c0\<lparr>rc_allowedActionIds := map_option (sort_by str_le) (rc_allowedActionIds c0)\<rparr>"
    using assms by (auto simp: manualConnections_def)
  have "distinct (map fst (mergeShared valid rows []))" by (rule distinct_mergeShared) simp
  then have "map_of (mergeShared valid rows []) k = Some c0" using c0(1) by simp
  then have "sharedEntry valid rows k c0" by (rule mergeShared_entries[rotated 2]) simp_all
  then show ?thesis using c0(2) by (auto simp: sharedEntry_def split: option.splits)
qed

lemma visibilityConnections_from:
  assumes "c \<in> set (visibilityConnections valid rows)"
  obtains r where "r \<in> set rows" "rc_accessMode c = ControlledShared" "rc_actionRestricted c"
    "resourceKey r = (rc_service c, rc_connectionName c)"
    "rc_allowedActionIds c = Some (sort_by str_le (filter
       (\<lambda>a. a \<notin> set WECOM_BOT_SYSTEM_ONLY_ACTION_IDS) (storedActionIds (rs_action_ids r))))"
    "map_of valid (connectorConnectionKey (rc_service c) (rc_connectionName c)) \<noteq> None"
proof -
  from assms obtain r where r: "r \<in> set rows" "(case map_of valid
      (connectorConnectionKey (rs_service r) (rs_connection_name r)) of None \<Rightarrow> None
     | Some current \<Rightarrow> Some ((newShared current r)\<lparr>
         rc_allowedActionIds := Some (sort_by str_le (filter
           (\<lambda>a. a \<notin> set WECOM_BOT_SYSTEM_ONLY_ACTION_IDS) (storedActionIds (rs_action_ids r)))),
         rc_policyIds := [''wecom-visibility:'' @ rs_id r],
         rc_organizationId := rs_organization_id r\<rparr>)) = Some c"
    by (auto simp: visibilityConnections_def map_filter_def)
  then show thesis
    by (intro that[of r]) (auto simp: newShared_def resourceKey_def split: option.splits)
qed

lemma visibleResources_from:
  "r \<in> set (fst (visibleResources env now now' hashOf rows cache)) \<Longrightarrow>
    r \<in> set rows \<and> (\<exists>h. Option.bind (rs_organization_id r) (map_of hashOf) = Some h \<and> h \<noteq> []
      \<and> (\<exists>cache hashes. fst (readWeComVisibleUserIdHashes env now now' (rs_connection_name r) cache)
           = Inr hashes \<and> h \<in> set hashes))"
proof (induction rows arbitrary: cache)
  case (Cons q rows)
  obtain res cache1 where read: "readWeComVisibleUserIdHashes env now now' (rs_connection_name q) cache
      = (res, cache1)" by fastforce
  obtain vs cache2 where rest: "visibleResources env now now' hashOf rows cache1 = (vs, cache2)" by fastforce
  show ?case
  proof (cases "r \<in> set vs")
    case True
    then show ?thesis using Cons.IH[of cache1] rest by auto
  next
    case False
    with Cons.prems read rest obtain hashes h where "res = Inr hashes" "r = q"
      "Option.bind (rs_organization_id q) (map_of hashOf) = Some h" "h \<noteq> []" "h \<in> set hashes"
      by (auto split: sum.splits option.splits if_splits)
    with read show ?thesis by (metis fst_conv list.set_intros(1))
  qed
qed simp

lemma resolveVisibility_from:
  assumes "resolveWeComVisibilityResources env now now' collate service identities d cache = (Inr rs, cache')"
    "r \<in> set rs"
  shows "r \<in> set (resources d)" "visibilityCandidate d (map fst (js_map identities)) r"
    "\<exists>i\<in>set identities. Some (fst i) = rs_organization_id r
      \<and> (\<exists>cache hashes. fst (readWeComVisibleUserIdHashes env now now' (rs_connection_name r) cache)
           = Inr hashes \<and> snd i \<in> set hashes)"
proof -
  let ?hashOf = "js_map identities"
  let ?rows = "sort_by (\<lambda>r s. collate (rs_connection_name r) (rs_connection_name s))
      (filter (visibilityCandidate d (map fst ?hashOf)) (resources d))"
  have "rs = fst (visibleResources env now now' ?hashOf ?rows cache)"
    using assms by (auto simp: resolveWeComVisibilityResources_def Let_def split: if_splits prod.splits)
  with assms(2) have r: "r \<in> set (fst (visibleResources env now now' ?hashOf ?rows cache))" by simp
  from visibleResources_from[OF this] have rows: "r \<in> set ?rows" by blast
  then show "r \<in> set (resources d)" "visibilityCandidate d (map fst ?hashOf) r" by simp_all
  from visibleResources_from[OF r] obtain h g hashes cache0
    where h: "rs_organization_id r = Some g" "map_of ?hashOf g = Some h"
      "fst (readWeComVisibleUserIdHashes env now now' (rs_connection_name r) cache0) = Inr hashes"
      "h \<in> set hashes"
    by (auto simp: bind_eq_Some_conv)
  from h(2) have "(g, h) \<in> set identities"
    by (auto simp: map_of_js_map dest: map_of_SomeD)
  with h show "\<exists>i\<in>set identities. Some (fst i) = rs_organization_id r
      \<and> (\<exists>cache hashes. fst (readWeComVisibleUserIdHashes env now now' (rs_connection_name r) cache)
           = Inr hashes \<and> snd i \<in> set hashes)"
    by (intro bexI[of _ "(g, h)"]) auto
qed

lemma sharedRows_from:
  "(r, g) \<in> set (sharedRows collate caller now d) \<Longrightarrow> r \<in> set (resources d) \<and> g \<in> set (grants d)
    \<and> sharedCandidate caller d r \<and> gr_resource_id g = rs_id r \<and> grantApplies caller now g"
  by (auto simp: sharedRows_def)

lemma personalBindings_from:
  assumes "personalBindings collate caller d = Inr rows" "b \<in> set rows"
  shows "b \<in> set (bindings d)" "bi_status b = Connected" "bi_issuer b = rk_issuer caller"
    "bi_subject b = rk_subject caller \<or> Some (js_lower (bi_email b)) = rk_email caller"
  using assms
  by (auto simp: personalBindings_def Let_def ownConnected_def emailConnected_def
      split: option.splits if_splits)

section \<open>Authorisation, stated without the algorithm\<close>

definition personalGround :: "db \<Rightarrow> resolveCaller \<Rightarrow> resolvedConnection \<Rightarrow> bool" where
  "personalGround d caller c \<longleftrightarrow> (\<exists>b\<in>set (bindings d). bi_status b = Connected
     \<and> bi_issuer b = rk_issuer caller
     \<and> (bi_subject b = rk_subject caller \<or> Some (js_lower (bi_email b)) = rk_email caller)
     \<and> bindingKey b = (rc_service c, rc_connectionName c)
     \<and> rc_allowedActionIds c = Some (storedActionIds (bindingActions d b)))"

definition grantGround :: "db \<Rightarrow> resolveCaller \<Rightarrow> int \<Rightarrow> resolvedConnection \<Rightarrow> bool" where
  "grantGround d caller now c \<longleftrightarrow> (\<exists>r\<in>set (resources d). sharedCandidate caller d r
     \<and> resourceKey r = (rc_service c, rc_connectionName c))
   \<and> (\<exists>ids. rc_allowedActionIds c = Some ids \<and> (\<forall>a\<in>set ids.
       \<exists>r\<in>set (resources d). \<exists>g\<in>set (grants d). sharedCandidate caller d r
         \<and> gr_resource_id g = rs_id r \<and> grantApplies caller now g \<and> a \<in> set (actionStrings (gr_action_ids g))
         \<and> connectorConnectionKey (rs_service r) (rs_connection_name r)
           = connectorConnectionKey (rc_service c) (rc_connectionName c)))"

definition visibilityGround ::
    "ocEnv \<times> crypto \<Rightarrow> int \<Rightarrow> int \<Rightarrow> db \<Rightarrow> (string \<times> string) list \<Rightarrow> resolvedConnection \<Rightarrow> bool" where
  "visibilityGround env now now' d identities c \<longleftrightarrow> (\<exists>r\<in>set (resources d).
     visibilityCandidate d (map fst (js_map identities)) r
   \<and> resourceKey r = (rc_service c, rc_connectionName c)
   \<and> rc_allowedActionIds c = Some (sort_by str_le (filter
       (\<lambda>a. a \<notin> set WECOM_BOT_SYSTEM_ONLY_ACTION_IDS) (storedActionIds (rs_action_ids r))))
   \<and> (\<exists>i\<in>set identities. Some (fst i) = rs_organization_id r
        \<and> (\<exists>cache hashes. fst (readWeComVisibleUserIdHashes env now now' (rs_connection_name r) cache)
             = Inr hashes \<and> snd i \<in> set hashes)))"

definition publicGround :: "connectorConnection list \<Rightarrow> resolvedConnection \<Rightarrow> bool" where
  "publicGround snapshot c \<longleftrightarrow> (\<exists>k\<in>set snapshot. cc_configured k \<and> cc_virtual k
     \<and> cc_authType k = NoAuth \<and> cc_service k = rc_service c) \<and> \<not> rc_actionRestricted c"

definition authorizedFor ::
    "resolverEnv \<Rightarrow> int \<Rightarrow> int \<Rightarrow> db \<Rightarrow> resolveCaller \<Rightarrow> (string \<times> string) list
      \<Rightarrow> connectorConnection list \<Rightarrow> resolvedConnection \<Rightarrow> bool" where
  "authorizedFor env now now' d caller identities snapshot c =
    (case rc_accessMode c of
       AccountBound \<Rightarrow> personalGround d caller c
     | ControlledShared \<Rightarrow> grantGround d caller now c
         \<or> visibilityGround (rv_connector env, rv_crypto env) now now' d identities c
     | AccessNoAuth \<Rightarrow> publicGround snapshot c
     | AccessGlobal \<Rightarrow> False)"

lemma sharedEntry_ground:
  assumes "sharedEntry valid (sharedRows collate caller now d) k c"
  shows "grantGround d caller now c" "rc_accessMode c = ControlledShared"
proof -
  note e = assms[unfolded sharedEntry_def]
  obtain ids where ids: "rc_allowedActionIds c = Some ids" using e by (auto split: option.splits)
  have "\<exists>r\<in>set (resources d). sharedCandidate caller d r
      \<and> resourceKey r = (rc_service c, rc_connectionName c)"
    using e by (auto dest!: sharedRows_from)
  moreover have "\<exists>r\<in>set (resources d). \<exists>g\<in>set (grants d). sharedCandidate caller d r
         \<and> gr_resource_id g = rs_id r \<and> grantApplies caller now g \<and> a \<in> set (actionStrings (gr_action_ids g))
         \<and> connectorConnectionKey (rs_service r) (rs_connection_name r)
           = connectorConnectionKey (rc_service c) (rc_connectionName c)" if a: "a \<in> set ids" for a
  proof -
    obtain r g where "(r, g) \<in> set (sharedRows collate caller now d)"
      "a \<in> set (actionStrings (gr_action_ids g))"
      "connectorConnectionKey (rs_service r) (rs_connection_name r)
           = connectorConnectionKey (rc_service c) (rc_connectionName c)"
      using e ids a by fastforce
    then show ?thesis using sharedRows_from by blast
  qed
  ultimately show "grantGround d caller now c" using ids by (simp add: grantGround_def)
  show "rc_accessMode c = ControlledShared" using e by simp
qed

lemma collected_authorized:
  assumes "personalBindings collate caller d = Inr personal"
    "resolveWeComVisibilityResources (rv_connector env, rv_crypto env) now now' collate service
       identities d cache = (Inr visible, cache')"
    "c \<in> set (collectedConnections snapshot d personal (sharedRows collate caller now d) visible)"
  shows "authorizedFor env now now' d caller identities snapshot c"
proof -
  let ?valid = "configuredConnections snapshot"
  consider (bound) "c \<in> set (boundConnections ?valid d personal)"
    | (manual) "c \<in> set (manualConnections ?valid (sharedRows collate caller now d))"
    | (visible) "c \<in> set (visibilityConnections ?valid visible)"
    | (public) services where "c \<in> set (publicConnections snapshot services)"
    using assms(3) by (auto simp: collectedConnections_def Let_def)
  then show ?thesis
  proof cases
    case bound
    then obtain b where "b \<in> set personal" "rc_accessMode c = AccountBound"
      "rc_allowedActionIds c = Some (storedActionIds (bindingActions d b))"
      "bindingKey b = (rc_service c, rc_connectionName c)"
      by (rule boundConnections_from)
    with personalBindings_from[OF assms(1), of b] show ?thesis
      by (auto simp: authorizedFor_def personalGround_def)
  next
    case manual
    from sharedEntry_ground[OF manualConnections_from[OF this]] show ?thesis
      by (simp add: authorizedFor_def)
  next
    case visible
    then obtain r where r: "r \<in> set visible" "rc_accessMode c = ControlledShared"
      "resourceKey r = (rc_service c, rc_connectionName c)"
      "rc_allowedActionIds c = Some (sort_by str_le (filter
         (\<lambda>a. a \<notin> set WECOM_BOT_SYSTEM_ONLY_ACTION_IDS) (storedActionIds (rs_action_ids r))))"
      by (rule visibilityConnections_from)
    note v = resolveVisibility_from[OF assms(2) r(1)]
    then have "visibilityGround (rv_connector env, rv_crypto env) now now' d identities c"
      using r unfolding visibilityGround_def by blast
    then show ?thesis using r(2) by (simp add: authorizedFor_def)
  next
    case public
    then show ?thesis
      by (auto simp: publicConnections_def authorizedFor_def publicGround_def)
  qed
qed

definition selectable :: "resolveCaller \<Rightarrow> string \<Rightarrow> resolvedConnection \<Rightarrow> bool" where
  "selectable caller service c \<longleftrightarrow> rc_service c = service
     \<and> (case rk_requested caller of None \<Rightarrow> True | Some n \<Rightarrow> rc_connectionName c = n)
     \<and> (case rk_actionId caller of None \<Rightarrow> True | Some a \<Rightarrow> actionAllowed a c)"

lemma selectConnection_filter:
  "selectConnection caller service cs = Inr c \<longleftrightarrow> filter (selectable caller service) cs = [c]"
proof -
  let ?c0 = "filter (\<lambda>c. rc_service c = service) cs"
  let ?c1 = "case rk_requested caller of None \<Rightarrow> ?c0 | Some n \<Rightarrow> filter (\<lambda>c. rc_connectionName c = n) ?c0"
  let ?c2 = "case rk_actionId caller of None \<Rightarrow> ?c1 | Some a \<Rightarrow> filter (actionAllowed a) ?c1"
  define c0 c1 c2 where "c0 = ?c0" and "c1 = ?c1" and "c2 = ?c2"
  have eq: "filter (selectable caller service) cs = c2"
    unfolding selectable_def[abs_def] c2_def
    by (cases "rk_requested caller"; cases "rk_actionId caller") (auto intro: filter_cong)
  have "c1 = [] \<Longrightarrow> c2 = []" "c0 = [] \<Longrightarrow> c1 = []"
    unfolding c0_def c1_def c2_def by (simp_all split: option.split)
  moreover have "selectConnection caller service cs =
     (if c0 = [] then Inl (storeErrorCode ConnectorNotAuthorized 404 ''connector_not_authorized'')
     else if c1 = [] then Inl (storeErrorCode ConnectionNotAllowed 403 ''connector_not_authorized'')
     else if c2 = [] then Inl (storeErrorCode ActionNotAllowed 403 ''action_not_authorized'')
     else if length c2 > 1 then Inl (storeErrorCode (SelectionRequired (map rc_connectionName c2)) 409
       ''connector_selection_required'')
     else Inr (hd c2))"
    unfolding selectConnection_def Let_def c0_def c1_def c2_def by (rule refl)
  ultimately show ?thesis
    unfolding eq by (cases c2 rule: remdups_adj.cases) auto
qed

lemma selectConnection_statuses:
  "selectConnection caller service cs = Inl e \<Longrightarrow>
    \<exists>m s k. e = storeErrorCode m s k \<and> s \<in> {403, 404, 409}"
  by (auto simp: selectConnection_def Let_def split: if_splits)

definition resolvedList :: "resolved \<Rightarrow> resolvedConnection list" where
  "resolvedList r = (case r of AllConnections cs \<Rightarrow> cs | OneConnection c \<Rightarrow> [c])"

lemma resolve_cases:
  assumes "resolveEmployeeConnectorBindings env now now' input d cache = (Inr res, cache')"
  obtains caller identities personal visible snapshot where
    "resolveCallerOf input = Inr caller" "callerIdentities (rv_crypto env) input caller d = Inr identities"
    "personalBindings (rv_collate env) caller d = Inr personal"
    "resolveWeComVisibilityResources (rv_connector env, rv_crypto env) now now' (rv_collate env)
        (rk_service caller) identities d cache = (Inr visible, cache')"
    "listConnectorConnections (rv_connector env) = Inr snapshot"
    "case rk_service caller of
       None \<Rightarrow> res = AllConnections (collectedConnections snapshot d personal
         (sharedRows (rv_collate env) caller now d) visible)
     | Some service \<Rightarrow> \<exists>c. selectConnection caller service (collectedConnections snapshot d personal
         (sharedRows (rv_collate env) caller now d) visible) = Inr c \<and> res = OneConnection c"
proof -
  obtain caller where caller: "resolveCallerOf input = Inr caller"
    using assms by (cases "resolveCallerOf input") (simp_all add: resolveEmployeeConnectorBindings_def)
  obtain identities where ids: "callerIdentities (rv_crypto env) input caller d = Inr identities"
    using assms caller by (cases "callerIdentities (rv_crypto env) input caller d")
      (simp_all add: resolveEmployeeConnectorBindings_def)
  obtain personal where personal: "personalBindings (rv_collate env) caller d = Inr personal"
    using assms caller ids by (cases "personalBindings (rv_collate env) caller d")
      (simp_all add: resolveEmployeeConnectorBindings_def)
  obtain v c' where vis: "resolveWeComVisibilityResources (rv_connector env, rv_crypto env) now now'
      (rv_collate env) (rk_service caller) identities d cache = (v, c')" by fastforce
  obtain visible where visible: "v = Inr visible"
    using assms caller ids personal vis by (cases v) (simp_all add: resolveEmployeeConnectorBindings_def)
  obtain snapshot where snapshot: "listConnectorConnections (rv_connector env) = Inr snapshot"
    using assms caller ids personal vis visible by (cases "listConnectorConnections (rv_connector env)")
      (simp_all add: resolveEmployeeConnectorBindings_def)
  note all = caller ids personal vis[unfolded visible] snapshot
  have c': "c' = cache'"
    using assms all by (simp add: resolveEmployeeConnectorBindings_def Let_def split: option.splits)
  show thesis
  proof (rule that[OF all(1-3) all(4)[unfolded c'] all(5)], cases "rk_service caller")
    case None
    then show "case rk_service caller of
       None \<Rightarrow> res = AllConnections (collectedConnections snapshot d personal
         (sharedRows (rv_collate env) caller now d) visible)
     | Some service \<Rightarrow> \<exists>c. selectConnection caller service (collectedConnections snapshot d personal
         (sharedRows (rv_collate env) caller now d) visible) = Inr c \<and> res = OneConnection c"
      using assms all by (simp add: resolveEmployeeConnectorBindings_def Let_def)
  next
    case (Some service)
    then show "case rk_service caller of
       None \<Rightarrow> res = AllConnections (collectedConnections snapshot d personal
         (sharedRows (rv_collate env) caller now d) visible)
     | Some service \<Rightarrow> \<exists>c. selectConnection caller service (collectedConnections snapshot d personal
         (sharedRows (rv_collate env) caller now d) visible) = Inr c \<and> res = OneConnection c"
      using assms all
      by (cases "selectConnection caller service (collectedConnections snapshot d personal
         (sharedRows (rv_collate env) caller now d) visible)")
        (simp_all add: resolveEmployeeConnectorBindings_def Let_def)
  qed
qed

section \<open>Properties\<close>

definition demo_resolver :: resolverEnv where
  "demo_resolver = \<lparr>rv_connector = demo_connections, rv_crypto = demo_crypto, rv_collate = str_le\<rparr>"

definition demo_request :: resolveInput where
  "demo_request = \<lparr>ri_issuer = ''iss'', ri_subject = ''sub'', ri_email = None, ri_groups = [],
     ri_wecomUserIdHash = None, ri_service = Some ''feishu'', ri_requestedConnectionName = None,
     ri_actionId = None\<rparr>"

definition demo_connected :: db where
  "demo_connected = demo_bound [demo_binding ''i'' ''sub'' ''c1'' Connected]"

lemma demo_resolved:
  "\<exists>c. resolveEmployeeConnectorBindings demo_resolver 5 6 demo_request demo_connected []
      = (Inr (OneConnection c), []) \<and> rc_connectionName c = ''c1'' \<and> rc_service c = ''feishu''"
proof -
  have "(case resolveEmployeeConnectorBindings demo_resolver 5 6 demo_request demo_connected [] of
      (Inr (OneConnection c), ch) \<Rightarrow> rc_connectionName c = ''c1'' \<and> rc_service c = ''feishu'' \<and> ch = []
    | _ \<Rightarrow> False)" by code_simp
  then show ?thesis
    by (cases "resolveEmployeeConnectorBindings demo_resolver 5 6 demo_request demo_connected []")
      (auto split: sum.splits resolved.splits)
qed

lemma resolver_sound_list:
  assumes "resolveEmployeeConnectorBindings env now now' input d cache = (Inr res, cache')"
  shows "\<exists>caller identities snapshot. resolveCallerOf input = Inr caller
    \<and> callerIdentities (rv_crypto env) input caller d = Inr identities
    \<and> listConnectorConnections (rv_connector env) = Inr snapshot
    \<and> list_all (authorizedFor env now now' d caller identities snapshot) (resolvedList res)
    \<and> (case rk_service caller of None \<Rightarrow> True
       | Some service \<Rightarrow> (\<exists>c. res = OneConnection c \<and> selectable caller service c))"
proof (rule resolve_cases[OF assms])
  fix caller identities personal visible snapshot
  let ?cs = "collectedConnections snapshot d personal (sharedRows (rv_collate env) caller now d) visible"
  assume r: "resolveCallerOf input = Inr caller"
    "callerIdentities (rv_crypto env) input caller d = Inr identities"
    "personalBindings (rv_collate env) caller d = Inr personal"
    "resolveWeComVisibilityResources (rv_connector env, rv_crypto env) now now' (rv_collate env)
        (rk_service caller) identities d cache = (Inr visible, cache')"
    "listConnectorConnections (rv_connector env) = Inr snapshot"
    and sel: "case rk_service caller of None \<Rightarrow> res = AllConnections ?cs
     | Some service \<Rightarrow> \<exists>c. selectConnection caller service ?cs = Inr c \<and> res = OneConnection c"
  note auth = collected_authorized[OF r(3,4), where snapshot = snapshot]
  have "list_all (authorizedFor env now now' d caller identities snapshot) (resolvedList res)
    \<and> (case rk_service caller of None \<Rightarrow> True
       | Some service \<Rightarrow> (\<exists>c. res = OneConnection c \<and> selectable caller service c))"
  proof (cases "rk_service caller")
    case None
    then show ?thesis using sel auth by (simp add: resolvedList_def list_all_iff)
  next
    case (Some service)
    then obtain c where c: "filter (selectable caller service) ?cs = [c]" "res = OneConnection c"
      using sel selectConnection_filter by auto
    then have "c \<in> set (filter (selectable caller service) ?cs)" by simp
    then show ?thesis using Some c(2) auth by (simp add: resolvedList_def)
  qed
  with r show ?thesis by blast
qed



text \<open>Selection fails closed: a request for one service is answered with a connection exactly
  when one single candidate passes every filter; otherwise the error is 404, 403 or 409, and 409
  names all the candidates when there are several.\<close>

theorem selection_fails_closed:
  "(case selectConnection caller service cs of
      Inr c \<Rightarrow> filter (selectable caller service) cs = [c]
    | Inl e \<Rightarrow> length (filter (selectable caller service) cs) \<noteq> 1
        \<and> (\<exists>m s k. e = storeErrorCode m s k \<and> s \<in> {403, 404, 409}))
   \<and> (length (filter (selectable caller service) cs) = 1
      \<longleftrightarrow> (\<exists>c. selectConnection caller service cs = Inr c))"
proof -
  have one: "length xs = 1 \<longleftrightarrow> (\<exists>c. xs = [c])" for xs :: "resolvedConnection list"
    by (cases xs) auto
  show ?thesis
  proof (cases "selectConnection caller service cs")
    case (Inl e)
    then have "\<not> (\<exists>c. filter (selectable caller service) cs = [c])"
      using selectConnection_filter[of caller service cs] by simp
    with Inl selectConnection_statuses[OF Inl] show ?thesis
      unfolding one by simp
  next
    case (Inr c)
    with selectConnection_filter[of caller service cs c] show ?thesis by simp
  qed
qed


definition demo_two :: db where
  "demo_two = demo_bound [demo_binding ''i'' ''sub'' ''c1'' Connected,
     demo_binding ''j'' ''old'' ''c2'' Connected]"


end
