(* ===== verification/Console_Session.thy ===== *)
theory Console_Session
  imports Integration_Core Json_Text
begin

text \<open>
  The console sessions of employees who logged in through WeCom
  (src/ai-console/src/lib/server/wecom-console-session.ts): a signed token of version, payload and
  HMAC, its verification, and the cookie it travels in. Times are seconds.
\<close>

definition WECOM_CONSOLE_SESSION_COOKIE :: string where
  "WECOM_CONSOLE_SESSION_COOKIE = ''ai_base_wecom_session''"

definition WECOM_CONSOLE_SESSION_LIFETIME_SECONDS :: int where
  "WECOM_CONSOLE_SESSION_LIFETIME_SECONDS = 12 * 60 * 60"

definition SESSION_VERSION :: string where "SESSION_VERSION = ''v1''"
definition SESSION_ISSUER :: string where "SESSION_ISSUER = ''ai-base-wecom-link''"
definition SESSION_MAX_LENGTH :: nat where "SESSION_MAX_LENGTH = 4096"
definition SESSION_CLOCK_SKEW_SECONDS :: int where "SESSION_CLOCK_SKEW_SECONDS = 30"

datatype sessionError = SessionInvalid | SessionKeyMissing | SessionExpired

record sessionIdentity =
  si_principalIssuer :: string
  si_principalSubject :: string
  si_email :: string
  si_name :: string

record sessionClaims = sessionIdentity +
  sc_linkId :: string
  sc_issuedAt :: int
  sc_expiresAt :: int

text \<open>The pattern of a link identifier: hexadecimal groups of 8, 4, 4, 4 and 12 in any case.\<close>

definition valid_link_id :: "string \<Rightarrow> bool" where
  "valid_link_id s = (case js_split (CHR ''-'') s of
     [a, b, c, d, e] \<Rightarrow> map length [a, b, c, d, e] = [8, 4, 4, 4, 12] \<and> list_all hex_any (a @ b @ c @ d @ e)
   | _ \<Rightarrow> False)"

definition sessionKey :: "crypto \<Rightarrow> string option \<Rightarrow> sessionError + string" where
  "sessionKey cr secret = (case map_option js_trim secret of None \<Rightarrow> Inl SessionKeyMissing
     | Some s \<Rightarrow> if length s < 32 then Inl SessionKeyMissing
         else Inr (cr_sha256 cr (''ai-base-wecom-console-session'' @ CHR 0x00 # utf8_encode s)))"

definition sessionSignature :: "crypto \<Rightarrow> string option \<Rightarrow> string \<Rightarrow> sessionError + string" where
  "sessionSignature cr secret payload = bindE (sessionKey cr secret) (\<lambda>key.
     Inr (cr_hmac cr key (utf8_encode (SESSION_VERSION @ CHR ''.'' # payload))))"

definition requiredString :: "json \<Rightarrow> nat \<Rightarrow> bool" where
  "requiredString v maxLength \<longleftrightarrow> is_string v \<and> js_trim (the_string v) \<noteq> [] \<and> length (the_string v) \<le> maxLength"

definition sessionKeys :: "string list" where
  "sessionKeys = [''v'', ''iss'', ''principal_issuer'', ''principal_subject'', ''email'', ''name'',
     ''wecom_link_id'', ''iat'', ''exp'']"

definition parsePayload :: "json \<Rightarrow> sessionError + sessionClaims" where
  "parsePayload v =
    (if \<not> is_object v \<or> list_ex (\<lambda>k. k \<notin> set sessionKeys) (objectKeys v)
       \<or> jget v ''v'' \<noteq> JNum (Fin 1) \<or> jget v ''iss'' \<noteq> JStr SESSION_ISSUER
       \<or> \<not> requiredString (jget v ''principal_issuer'') 1024 \<or> \<not> requiredString (jget v ''principal_subject'') 1024
       \<or> \<not> requiredString (jget v ''email'') 320 \<or> \<not> requiredString (jget v ''name'') 512
       \<or> \<not> is_string (jget v ''wecom_link_id'') \<or> \<not> valid_link_id (the_string (jget v ''wecom_link_id''))
     then Inl SessionInvalid
     else case (integerOf (jget v ''iat''), integerOf (jget v ''exp'')) of
       (Some iat, Some until) \<Rightarrow> Inr \<lparr>si_principalIssuer = the_string (jget v ''principal_issuer''),
         si_principalSubject = the_string (jget v ''principal_subject''), si_email = the_string (jget v ''email''),
         si_name = the_string (jget v ''name''), sc_linkId = the_string (jget v ''wecom_link_id''),
         sc_issuedAt = iat, sc_expiresAt = until\<rparr>
     | _ \<Rightarrow> Inl SessionInvalid)"

definition sessionPayload :: "sessionIdentity \<Rightarrow> string \<Rightarrow> int \<Rightarrow> json" where
  "sessionPayload identity linkId now = JObj
     [(''v'', JNum (Fin 1)), (''iss'', JStr SESSION_ISSUER),
      (''principal_issuer'', JStr (js_trim (si_principalIssuer identity))),
      (''principal_subject'', JStr (js_trim (si_principalSubject identity))),
      (''email'', JStr (js_lower (js_trim (si_email identity)))), (''name'', JStr (js_trim (si_name identity))),
      (''wecom_link_id'', JStr (js_trim linkId)), (''iat'', JNum (Fin (of_int now))),
      (''exp'', JNum (Fin (of_int (now + WECOM_CONSOLE_SESSION_LIFETIME_SECONDS))))]"

text \<open>A time outside the numbers the model writes has no token.\<close>

definition issueWeComConsoleSession ::
    "crypto \<Rightarrow> string option \<Rightarrow> sessionIdentity \<Rightarrow> string \<Rightarrow> int \<Rightarrow> sessionError + string" where
  "issueWeComConsoleSession cr secret identity linkId now =
    bindE (parsePayload (sessionPayload identity linkId now)) (\<lambda>_.
      case jsonText (sessionPayload identity linkId now) of None \<Rightarrow> Inl SessionInvalid
      | Some t \<Rightarrow> let encoded = base64url_encode (utf8_encode t) in
          bindE (sessionSignature cr secret encoded) (\<lambda>signature.
            Inr (js_join ''.'' [SESSION_VERSION, encoded, base64url_encode signature])))"

definition verifyWeComConsoleSession :: "crypto \<Rightarrow> string option \<Rightarrow> string \<Rightarrow> int \<Rightarrow> sessionError + sessionClaims" where
  "verifyWeComConsoleSession cr secret token now =
    (if token = [] \<or> length token > SESSION_MAX_LENGTH then Inl SessionInvalid
     else case js_split (CHR ''.'') token of
       [version, payload, sig] \<Rightarrow>
         if version \<noteq> SESSION_VERSION \<or> payload = [] \<or> sig = [] then Inl SessionInvalid
         else bindE (sessionSignature cr secret payload) (\<lambda>expected.
           if base64url_decode sig \<noteq> expected then Inl SessionInvalid
           else case jsonParse (utf8_decode (base64url_decode payload)) of None \<Rightarrow> Inl SessionInvalid
             | Some v \<Rightarrow> bindE (parsePayload v) (\<lambda>claims.
                 if sc_issuedAt claims > now + SESSION_CLOCK_SKEW_SECONDS
                    \<or> sc_expiresAt claims \<le> now - SESSION_CLOCK_SKEW_SECONDS
                    \<or> sc_expiresAt claims - sc_issuedAt claims \<noteq> WECOM_CONSOLE_SESSION_LIFETIME_SECONDS
                 then Inl SessionExpired else Inr claims))
     | _ \<Rightarrow> Inl SessionInvalid)"

section \<open>The cookie\<close>

text \<open>\<open>decodeURIComponent\<close>; escapes of code units above 255 are not read.\<close>

definition hexByte :: "char \<Rightarrow> char \<Rightarrow> nat option" where
  "hexByte a b = (case (hexValue a, hexValue b) of (Some m, Some n) \<Rightarrow> Some (16 * m + n) | _ \<Rightarrow> None)"

fun decodeURIComponent :: "string \<Rightarrow> string option" where
  "decodeURIComponent [] = Some []"
| "decodeURIComponent (c # s) =
    (if c \<noteq> CHR ''%'' then map_option (\<lambda>t. c # t) (decodeURIComponent s)
     else case s of a # b # s1 \<Rightarrow>
         (case hexByte a b of None \<Rightarrow> None
          | Some n \<Rightarrow> if n < 128 then map_option (\<lambda>t. char_of n # t) (decodeURIComponent s1)
              else if n = 194 \<or> n = 195 then
                (case s1 of p # d # e # s2 \<Rightarrow>
                   (case hexByte d e of None \<Rightarrow> None
                    | Some m \<Rightarrow> if p = CHR ''%'' \<and> 128 \<le> m \<and> m < 192
                        then map_option (\<lambda>t. char_of ((n - 192) * 64 + (m - 128)) # t) (decodeURIComponent s2)
                        else None)
                 | _ \<Rightarrow> None)
              else None)
       | _ \<Rightarrow> None)"

fun cookieValue :: "string list \<Rightarrow> string option" where
  "cookieValue [] = None"
| "cookieValue (part # parts) =
    (if CHR ''='' \<notin> set part \<or> js_trim (takeWhile (\<lambda>c. c \<noteq> CHR ''='') part) \<noteq> WECOM_CONSOLE_SESSION_COOKIE
     then cookieValue parts
     else let v = js_trim (tl (dropWhile (\<lambda>c. c \<noteq> CHR ''='') part)) in
       if v = [] then None else decodeURIComponent v)"

definition readWeComConsoleSessionCookie :: "string option \<Rightarrow> string option" where
  "readWeComConsoleSessionCookie cookieHeader = (case cookieHeader of None \<Rightarrow> None
     | Some h \<Rightarrow> if h = [] then None else cookieValue (js_split (CHR '';'') h))"

record cookieOptions =
  co_httpOnly :: bool
  co_maxAge :: int
  co_path :: string
  co_sameSite :: string
  co_secure :: bool

definition wecomConsoleSessionCookieOptions :: "int \<Rightarrow> cookieOptions" where
  "wecomConsoleSessionCookieOptions maxAge = \<lparr>co_httpOnly = True, co_maxAge = maxAge, co_path = ''/'',
     co_sameSite = ''lax'', co_secure = True\<rparr>"

section \<open>Issued sessions verify\<close>

lemma sessionPayload_text:
  assumes "\<bar>now\<bar> < 10 ^ 15"
  shows "\<exists>t. jsonText (sessionPayload identity linkId now) = Some t
    \<and> jsonParse t = Some (sessionPayload identity linkId now) \<and> t \<noteq> []"
proof -
  have w: "writable (Fin (of_int i))" if "\<bar>i\<bar> < 10 ^ 16" for i
    using that by (simp add: writable_def)
  have "\<bar>now + WECOM_CONSOLE_SESSION_LIFETIME_SECONDS\<bar> < 10 ^ 16" "\<bar>now\<bar> < 10 ^ 16" "\<bar>1 :: int\<bar> < 10 ^ 16"
    using assms by (auto simp: WECOM_CONSOLE_SESSION_LIFETIME_SECONDS_def)
  note w3 = this[THEN w]
  have ok: "json_ok (sessionPayload identity linkId now)"
    using w3 by (simp add: sessionPayload_def)
  have "\<exists>t. jsonText (sessionPayload identity linkId now) = Some t"
    using w3 by (simp add: sessionPayload_def)
  then obtain t where t: "jsonText (sessionPayload identity linkId now) = Some t" ..
  then have "t \<noteq> []" using jsonText_start by (auto simp: value_start_def)
  with json_round_trip[OF ok t] t show ?thesis by blast
qed

definition issuedClaims :: "sessionIdentity \<Rightarrow> string \<Rightarrow> int \<Rightarrow> sessionClaims" where
  "issuedClaims identity linkId now =
    \<lparr>si_principalIssuer = js_trim (si_principalIssuer identity),
     si_principalSubject = js_trim (si_principalSubject identity),
     si_email = js_lower (js_trim (si_email identity)), si_name = js_trim (si_name identity),
     sc_linkId = js_trim linkId, sc_issuedAt = now,
     sc_expiresAt = now + WECOM_CONSOLE_SESSION_LIFETIME_SECONDS\<rparr>"

lemma parsePayload_issued:
  assumes "parsePayload (sessionPayload identity linkId now) = Inr claims"
  shows "claims = issuedClaims identity linkId now"
proof -
  have "jget (sessionPayload identity linkId now) ''principal_issuer'' = JStr (js_trim (si_principalIssuer identity))"
    "jget (sessionPayload identity linkId now) ''principal_subject'' = JStr (js_trim (si_principalSubject identity))"
    "jget (sessionPayload identity linkId now) ''email'' = JStr (js_lower (js_trim (si_email identity)))"
    "jget (sessionPayload identity linkId now) ''name'' = JStr (js_trim (si_name identity))"
    "jget (sessionPayload identity linkId now) ''wecom_link_id'' = JStr (js_trim linkId)"
    "integerOf (jget (sessionPayload identity linkId now) ''iat'') = Some now"
    "integerOf (jget (sessionPayload identity linkId now) ''exp'') = Some (now + WECOM_CONSOLE_SESSION_LIFETIME_SECONDS)"
    by (simp_all add: sessionPayload_def integerOf_def)
  with assms show ?thesis
    by (auto simp: parsePayload_def issuedClaims_def simp del: jget.simps split: if_split_asm)
qed

lemma token_split:
  "js_split (CHR ''.'') (js_join ''.'' [SESSION_VERSION, base64url_encode p, base64url_encode s])
    = [SESSION_VERSION, base64url_encode p, base64url_encode s]"
  by (simp add: js_split_append js_split_word base64url_no_dot SESSION_VERSION_def)

lemma issue_Inr:
  assumes "issueWeComConsoleSession cr secret identity linkId now = Inr token"
  obtains t signature where
    "parsePayload (sessionPayload identity linkId now) = Inr (issuedClaims identity linkId now)"
    "jsonText (sessionPayload identity linkId now) = Some t"
    "sessionSignature cr secret (base64url_encode (utf8_encode t)) = Inr signature"
    "token = js_join ''.'' [SESSION_VERSION, base64url_encode (utf8_encode t), base64url_encode signature]"
proof -
  obtain claims where c: "parsePayload (sessionPayload identity linkId now) = Inr claims"
    using assms unfolding issueWeComConsoleSession_def by auto
  with assms obtain t where t: "jsonText (sessionPayload identity linkId now) = Some t"
    by (auto simp: issueWeComConsoleSession_def split: option.split_asm)
  with assms c parsePayload_issued[OF c] show ?thesis
    by (auto simp: issueWeComConsoleSession_def Let_def intro: that)
qed

lemma signature_ne:
  assumes "crypto_laws cr" "sessionSignature cr secret p = Inr signature"
  shows "signature \<noteq> []"
proof -
  have "length signature = 32" using assms by (auto simp: sessionSignature_def crypto_laws_def)
  then show ?thesis by auto
qed

lemma issued_verifies:
  assumes "crypto_laws cr" "\<bar>now\<bar> < 10 ^ 15"
    and "issueWeComConsoleSession cr secret identity linkId now = Inr token"
  shows "verifyWeComConsoleSession cr secret token later
    = (if 4096 < length token then Inl SessionInvalid
       else if later < now - 30 \<or> now + 43200 + 30 \<le> later then Inl SessionExpired
       else Inr (issuedClaims identity linkId now))"
proof -
  obtain t signature where p: "parsePayload (sessionPayload identity linkId now) = Inr (issuedClaims identity linkId now)"
    and t: "jsonText (sessionPayload identity linkId now) = Some t"
    and sig: "sessionSignature cr secret (base64url_encode (utf8_encode t)) = Inr signature"
    and token: "token = js_join ''.'' [SESSION_VERSION, base64url_encode (utf8_encode t), base64url_encode signature]"
    by (rule issue_Inr[OF assms(3)])
  have j: "jsonParse t = Some (sessionPayload identity linkId now)" "t \<noteq> []"
    using sessionPayload_text[OF assms(2), of identity linkId] t by auto
  have ne: "utf8_encode t \<noteq> []" using j(2) by (cases t) (auto simp: utf8_encode_def utf8_char_def Let_def)
  have "token \<noteq> []" by (simp add: token SESSION_VERSION_def)
  moreover have "sc_issuedAt (issuedClaims identity linkId now) = now"
    "sc_expiresAt (issuedClaims identity linkId now) = now + 43200"
    by (simp_all add: issuedClaims_def WECOM_CONSOLE_SESSION_LIFETIME_SECONDS_def)
  moreover have "js_split (CHR ''.'') token = [SESSION_VERSION, base64url_encode (utf8_encode t), base64url_encode signature]"
    unfolding token by (rule token_split)
  ultimately show ?thesis
    using ne sig signature_ne[OF assms(1) sig] j(1) p
    by (auto simp: verifyWeComConsoleSession_def SESSION_MAX_LENGTH_def SESSION_CLOCK_SKEW_SECONDS_def
        WECOM_CONSOLE_SESSION_LIFETIME_SECONDS_def)
qed

text \<open>A session issued at a time is accepted exactly while it lasts: from half a minute before that
  time until half a minute after its twelve hours, with the trimmed identity and link it was
  issued for, and is reported expired otherwise; a token longer than the verifier reads is refused
  although it was issued.\<close>

theorem session_accepted_while_it_lasts:
  assumes "crypto_laws cr" "\<bar>now\<bar> < 10 ^ 15"
    and "issueWeComConsoleSession cr secret identity linkId now = Inr token"
  shows "verifyWeComConsoleSession cr secret token later
    = (if 4096 < length token then Inl SessionInvalid
       else if later < now - 30 \<or> now + 43200 + 30 \<le> later then Inl SessionExpired
       else Inr (issuedClaims identity linkId now))"
  using assms by (rule issued_verifies)

lemma trim_replicate:
  assumes "\<not> is_space c"
  shows "js_trim (replicate n c) = replicate n c"
proof (cases n)
  case (Suc m)
  then have "replicate n c \<noteq> []" "hd (replicate n c) = c" "last (replicate n c) = c" by simp_all
  with assms show ?thesis by (intro js_trim_id) simp
qed simp

definition demo_employee :: sessionIdentity where
  "demo_employee = \<lparr>si_principalIssuer = '' https://iss '', si_principalSubject = ''usr_1'', si_email = ''Ann@Example.com'',
     si_name = ''Ann''\<rparr>"

definition demo_link_id :: string where "demo_link_id = ''00000000-0000-4000-8000-00000000000a''"
definition demo_session_key :: "string option" where "demo_session_key = Some (replicate 40 (CHR ''k''))"

lemma demo_link_valid: "valid_link_id demo_link_id"
  by (simp add: valid_link_id_def demo_link_id_def hex_any_def is_digit_def is_upper_def is_lower_def
      lower_char_def code_unit_def Let_def)

lemma demo_payload_ok: "is_ok (parsePayload (sessionPayload demo_employee demo_link_id 1000))"
proof -
  have "js_trim demo_link_id = demo_link_id"
    by (simp add: demo_link_id_def js_trim_def is_space_def code_unit_def)
  with demo_link_valid show ?thesis
    by (simp add: parsePayload_def sessionPayload_def requiredString_def integerOf_def demo_employee_def
        sessionKeys_def js_trim_def is_space_def js_lower_def lower_char_def code_unit_def Let_def)
qed

lemma issue_ok:
  assumes "\<bar>now\<bar> < 10 ^ 15" "is_ok (parsePayload (sessionPayload identity linkId now))" "sessionKey cr secret = Inr key"
  shows "is_ok (issueWeComConsoleSession cr secret identity linkId now)"
proof -
  obtain t where "jsonText (sessionPayload identity linkId now) = Some t"
    using sessionPayload_text[OF assms(1)] by blast
  with assms(2,3) show ?thesis
    by (auto simp: issueWeComConsoleSession_def sessionSignature_def is_ok_iff Let_def)
qed

lemma demo_key: "sessionKey demo_crypto demo_session_key = Inr (replicate 32 (CHR ''h''))"
  by (simp add: sessionKey_def demo_session_key_def demo_crypto_def trim_replicate is_space_def code_unit_def)

lemma demo_issued: "is_ok (issueWeComConsoleSession demo_crypto demo_session_key demo_employee demo_link_id 1000)"
  by (rule issue_ok[OF _ demo_payload_ok demo_key]) simp

theorem session_accepted_while_it_lasts_witness:
  "\<exists>token. issueWeComConsoleSession demo_crypto demo_session_key demo_employee demo_link_id 1000 = Inr token
    \<and> verifyWeComConsoleSession demo_crypto demo_session_key token 900 \<in> {Inl SessionInvalid, Inl SessionExpired}"
proof -
  obtain token where t: "issueWeComConsoleSession demo_crypto demo_session_key demo_employee demo_link_id 1000 = Inr token"
    using demo_issued by (auto simp: is_ok_iff)
  from session_accepted_while_it_lasts[OF demo_crypto_laws _ t, of 900] t show ?thesis by auto
qed

section \<open>Accepted sessions were signed\<close>

text \<open>A session is accepted only if its signature is the HMAC, under the configured key, of the very
  payload its claims are read from; its lifetime is twelve hours, it is not used outside it by
  more than half a minute, its link identifier is well formed and none of its texts is blank.\<close>

theorem session_verified_sound:
  assumes "verifyWeComConsoleSession cr secret token now = Inr claims"
  shows "(\<exists>payload sig v. js_split (CHR ''.'') token = [''v1'', payload, sig] \<and> length token \<le> 4096
      \<and> sessionSignature cr secret payload = Inr (base64url_decode sig)
      \<and> jsonParse (utf8_decode (base64url_decode payload)) = Some v \<and> parsePayload v = Inr claims)
    \<and> sc_expiresAt claims = sc_issuedAt claims + 43200
    \<and> sc_issuedAt claims - 30 \<le> now \<and> now < sc_issuedAt claims + 43200 + 30
    \<and> valid_link_id (sc_linkId claims)
    \<and> list_all (\<lambda>s. js_trim s \<noteq> []) [si_principalIssuer claims, si_principalSubject claims, si_email claims, si_name claims]"
proof -
  have len: "length token \<le> SESSION_MAX_LENGTH"
    using assms by (auto simp: verifyWeComConsoleSession_def split: if_split_asm)
  obtain version payload sig where parts: "js_split (CHR ''.'') token = [version, payload, sig]"
    using assms by (auto simp: verifyWeComConsoleSession_def split: if_split_asm list.split_asm)
  with assms len have v: "version = SESSION_VERSION"
    by (auto simp: verifyWeComConsoleSession_def split: if_split_asm)
  obtain expected where e: "sessionSignature cr secret payload = Inr expected" "base64url_decode sig = expected"
    using assms parts by (auto simp: verifyWeComConsoleSession_def split: if_split_asm)
  obtain j where j: "jsonParse (utf8_decode (base64url_decode payload)) = Some j" "parsePayload j = Inr claims"
    "\<not> (sc_issuedAt claims > now + SESSION_CLOCK_SKEW_SECONDS
      \<or> sc_expiresAt claims \<le> now - SESSION_CLOCK_SKEW_SECONDS
      \<or> sc_expiresAt claims - sc_issuedAt claims \<noteq> WECOM_CONSOLE_SESSION_LIFETIME_SECONDS)"
    using assms parts e by (auto simp: verifyWeComConsoleSession_def split: if_split_asm option.split_asm)
  have fields: "valid_link_id (sc_linkId claims)"
    "list_all (\<lambda>s. js_trim s \<noteq> []) [si_principalIssuer claims, si_principalSubject claims, si_email claims, si_name claims]"
    using j(2) by (auto simp: parsePayload_def requiredString_def split: if_split_asm option.split_asm)
  have "sc_expiresAt claims = sc_issuedAt claims + 43200 \<and> sc_issuedAt claims - 30 \<le> now \<and> now < sc_issuedAt claims + 43200 + 30"
    using j(3) by (simp add: SESSION_CLOCK_SKEW_SECONDS_def WECOM_CONSOLE_SESSION_LIFETIME_SECONDS_def)
  with parts v e j(1,2) len fields show ?thesis by (simp add: SESSION_VERSION_def SESSION_MAX_LENGTH_def)
qed

lemma demo_text_short: "jsonText (sessionPayload demo_employee demo_link_id 1000) = Some t \<Longrightarrow> length t \<le> 1000"
  by (auto simp: sessionPayload_def demo_employee_def demo_link_id_def quoted_def jsonChar_def writable_def
      WECOM_CONSOLE_SESSION_LIFETIME_SECONDS_def SESSION_ISSUER_def decInt_def dec.simps js_trim_def is_space_def
      js_lower_def lower_char_def code_unit_def Let_def)

lemma session_token_length:
  assumes "length t \<le> 1000" "length signature = 32"
  shows "length (js_join ''.'' [SESSION_VERSION, base64url_encode (utf8_encode t), base64url_encode signature]) \<le> 4096"
proof -
  have "length (base64url_encode signature) \<le> 64"
    using assms(2) length_encode_bytes_le[of "map code_unit signature"] by (simp add: base64url_encode_def)
  moreover have "length (base64url_encode (utf8_encode t)) \<le> 2 * (2 * length t)"
    using length_encode_bytes_le[of "map code_unit (utf8_encode t)"] length_utf8_le[of t]
    by (simp add: base64url_encode_def)
  ultimately show ?thesis using assms(1) by (simp add: SESSION_VERSION_def)
qed

lemma demo_verified_token:
  assumes i: "issueWeComConsoleSession demo_crypto demo_session_key demo_employee demo_link_id 1000 = Inr token"
  shows "verifyWeComConsoleSession demo_crypto demo_session_key token 2000 = Inr (issuedClaims demo_employee demo_link_id 1000)"
proof -
  from issue_Inr[OF i] obtain t signature where t: "jsonText (sessionPayload demo_employee demo_link_id 1000) = Some t"
    and s: "sessionSignature demo_crypto demo_session_key (base64url_encode (utf8_encode t)) = Inr signature"
    and token: "token = js_join ''.'' [SESSION_VERSION, base64url_encode (utf8_encode t), base64url_encode signature]" .
  have "length signature = 32" using s demo_key by (auto simp: sessionSignature_def demo_crypto_def)
  with session_token_length[OF demo_text_short[OF t]] have "length token \<le> 4096" by (simp add: token)
  with issued_verifies[OF demo_crypto_laws _ i, of 2000] show ?thesis by auto
qed

lemma demo_verified:
  "\<exists>token. verifyWeComConsoleSession demo_crypto demo_session_key token 2000 = Inr (issuedClaims demo_employee demo_link_id 1000)"
  using demo_issued demo_verified_token by (auto simp: is_ok_iff)

theorem session_verified_sound_witness:
  "\<exists>token claims. verifyWeComConsoleSession demo_crypto demo_session_key token 2000 = Inr claims
    \<and> sc_expiresAt claims = sc_issuedAt claims + 43200"
proof -
  obtain token claims where v: "verifyWeComConsoleSession demo_crypto demo_session_key token 2000 = Inr claims"
    using demo_verified by blast
  from session_verified_sound[OF v] v show ?thesis by blast
qed

section \<open>A session that is issued and never accepted\<close>

definition long_employee :: sessionIdentity where
  "long_employee = \<lparr>si_principalIssuer = replicate 1024 (CHR ''i''), si_principalSubject = replicate 1024 (CHR ''s''),
     si_email = replicate 320 (CHR ''e''), si_name = replicate 512 (CHR ''n'')\<rparr>"

lemma long_payload_ok: "is_ok (parsePayload (sessionPayload long_employee demo_link_id 1000))"
proof -
  have trims: "js_trim (replicate n (CHR ''i'')) = replicate n (CHR ''i'')" "js_trim (replicate n (CHR ''s'')) = replicate n (CHR ''s'')"
    "js_trim (replicate n (CHR ''e'')) = replicate n (CHR ''e'')" "js_trim (replicate n (CHR ''n'')) = replicate n (CHR ''n'')" for n
    by (simp_all add: trim_replicate is_space_def code_unit_def)
  have lower: "js_lower (replicate n (CHR ''e'')) = replicate n (CHR ''e'')" for n
    by (simp add: js_lower_def lower_char_def code_unit_def)
  have link: "js_trim demo_link_id = demo_link_id"
    by (simp add: demo_link_id_def js_trim_def is_space_def code_unit_def)
  have ne: "replicate 1024 c \<noteq> []" "replicate 320 c \<noteq> []" "replicate 512 c \<noteq> []" for c :: char by simp_all
  show ?thesis
    using demo_link_valid
    by (simp add: parsePayload_def sessionPayload_def requiredString_def integerOf_def long_employee_def
        sessionKeys_def trims lower link ne)
qed

lemma long_text:
  assumes "jsonText (sessionPayload long_employee demo_link_id 1000) = Some t"
  shows "3040 \<le> length t"
proof -
  have trims: "js_trim (replicate n (CHR ''i'')) = replicate n (CHR ''i'')" "js_trim (replicate n (CHR ''s'')) = replicate n (CHR ''s'')"
    "js_trim (replicate n (CHR ''e'')) = replicate n (CHR ''e'')" "js_trim (replicate n (CHR ''n'')) = replicate n (CHR ''n'')" for n
    by (simp_all add: trim_replicate is_space_def code_unit_def)
  have lower: "js_lower (replicate n (CHR ''e'')) = replicate n (CHR ''e'')" for n
    by (simp add: js_lower_def lower_char_def code_unit_def)
  have lens: "1026 \<le> length (quoted (replicate 1024 c))" "322 \<le> length (quoted (replicate 320 c))"
    "514 \<le> length (quoted (replicate 512 c))" for c
    using length_quoted[of "replicate 1024 c"] length_quoted[of "replicate 320 c"] length_quoted[of "replicate 512 c"]
    by (simp_all)
  have keys: "length (quoted ''v'') = 3" "length (quoted ''iat'') = 5" "length (quoted ''exp'') = 5" "length (quoted ''principal_issuer'') = 18"
    "length (quoted ''principal_subject'') = 19" "length (quoted ''email'') = 7" "length (quoted ''name'') = 6"
    "length (quoted ''wecom_link_id'') = 15" "length (quoted ''iss'') = 5" "length (quoted SESSION_ISSUER) = 20"
    "38 \<le> length (quoted (js_trim demo_link_id))"
    by (simp_all add: quoted_def jsonChar_def code_unit_def SESSION_ISSUER_def demo_link_id_def js_trim_def is_space_def)
  from assms lens[of "CHR ''i''"] lens[of "CHR ''s''"] lens[of "CHR ''e''"] lens[of "CHR ''n''"] keys show ?thesis
    by (auto simp: sessionPayload_def long_employee_def trims lower split: option.split_asm if_split_asm
       )
qed

text \<open>An identity within the limits the issuer checks whose session the verifier refuses for its length.\<close>

theorem long_session_never_accepted:
  "\<exists>token. issueWeComConsoleSession demo_crypto demo_session_key long_employee demo_link_id 1000 = Inr token
    \<and> (\<forall>later. verifyWeComConsoleSession demo_crypto demo_session_key token later = Inl SessionInvalid)"
proof -
  obtain token where i: "issueWeComConsoleSession demo_crypto demo_session_key long_employee demo_link_id 1000 = Inr token"
    using issue_ok[OF _ long_payload_ok demo_key] by (auto simp: is_ok_iff)
  from issue_Inr[OF i] obtain t signature where t: "jsonText (sessionPayload long_employee demo_link_id 1000) = Some t"
    and s: "sessionSignature demo_crypto demo_session_key (base64url_encode (utf8_encode t)) = Inr signature"
    and token: "token = js_join ''.'' [SESSION_VERSION, base64url_encode (utf8_encode t), base64url_encode signature]" .
  have "length signature = 32" using s demo_key by (auto simp: sessionSignature_def demo_crypto_def)
  with length_encode_bytes[of "map code_unit signature"] have "43 \<le> length (base64url_encode signature)"
    by (simp add: base64url_encode_def)
  moreover have "4 * length t \<le> 3 * length (base64url_encode (utf8_encode t))"
    using length_encode_bytes[of "map code_unit (utf8_encode t)"] length_utf8[of t]
    by (simp add: base64url_encode_def)
  ultimately have "4096 < length token"
    using long_text[OF t] by (simp add: token SESSION_VERSION_def)
  with issued_verifies[OF demo_crypto_laws _ i] i show ?thesis by auto
qed

end
