(* ===== verification/Wecom_Authentication.thy ===== *)
theory Wecom_Authentication
  imports Wecom_Relay Resolver Console_Session
begin

text \<open>
  The WeCom organisations an administrator configures
  (src/ai-console/src/lib/server/wecom-authentication.ts): the validation of their settings, their
  rows and snapshots, and the organisation a relay belongs to. The URL parser, the collation of
  names, new identifiers and the clock are parameters; messages are tags.
\<close>

definition ORGANIZATION_NAME_MAX_LENGTH :: nat where "ORGANIZATION_NAME_MAX_LENGTH = 120"
definition CORP_ID_MAX_LENGTH :: nat where "CORP_ID_MAX_LENGTH = 255"
definition MAX_URL_LENGTH :: nat where "MAX_URL_LENGTH = 2048"

definition UUID_PATTERN :: "string \<Rightarrow> bool" where "UUID_PATTERN = valid_link_id"

datatype settingProblem = BodyNotObject | UnsupportedField string | OrganizationIdInvalid | NameEmpty | NameTooLong
  | CorpIdEmpty | CorpIdTooLong | RelayUrlMissing | RelayUrlInvalid | ActiveInvalid

record wecomSettings =
  ws_id :: "string option"
  ws_organizationName :: string
  ws_corpId :: string
  ws_relayCallbackUrl :: string
  ws_active :: bool

record organizationSnapshot =
  os_id :: string
  os_organizationName :: string
  os_corpId :: string
  os_relayCallbackUrl :: string
  os_active :: bool
  os_configured :: bool
  os_applicationHomepageUrl :: string
  os_updatedAt :: int

record wecomSnapshot =
  wn_organizations :: "organizationSnapshot list"
  wn_configuredCount :: nat
  wn_updatedAt :: int

type_synonym wecomState = "db \<times> visibilityCache"

section \<open>Validation\<close>

definition normalizeRelayCallbackUrl :: "relayEnv \<Rightarrow> json \<Rightarrow> settingProblem + string" where
  "normalizeRelayCallbackUrl env v =
    (if \<not> is_string v \<or> the_string v = [] \<or> length (the_string v) > MAX_URL_LENGTH then Inl RelayUrlMissing
     else case re_url env (the_string v) of None \<Rightarrow> Inl RelayUrlInvalid
       | Some u \<Rightarrow> if url_protocol u \<noteq> ''https:'' \<or> url_username u \<noteq> [] \<or> url_password u \<noteq> [] \<or> url_search u \<noteq> []
             \<or> url_hash u \<noteq> [] \<or> url_pathname u \<noteq> ''/callbacks/wecom''
           then Inl RelayUrlInvalid else Inr (url_href u))"

definition trimmedText :: "json \<Rightarrow> string" where
  "trimmedText v = (if is_string v then js_trim (the_string v) else [])"

definition textProblems :: "string \<Rightarrow> nat \<Rightarrow> settingProblem \<Rightarrow> settingProblem \<Rightarrow> settingProblem list" where
  "textProblems s maxLength blank tooLong = (if s = [] then [blank] else if length s > maxLength then [tooLong] else [])"

text \<open>A missing \<open>active\<close> means active. The list is the one of the code, in its order.\<close>

definition settingProblems :: "relayEnv \<Rightarrow> json \<Rightarrow> settingProblem list" where
  "settingProblems env input =
    map UnsupportedField (filter (\<lambda>k. k \<notin> set [''id'', ''organizationName'', ''corpId'', ''relayCallbackUrl'', ''active''])
      (objectKeys input))
    @ (if trimmedText (jget input ''id'') \<noteq> [] \<and> \<not> UUID_PATTERN (trimmedText (jget input ''id'')) then [OrganizationIdInvalid] else [])
    @ textProblems (trimmedText (jget input ''organizationName'')) ORGANIZATION_NAME_MAX_LENGTH NameEmpty NameTooLong
    @ textProblems (trimmedText (jget input ''corpId'')) CORP_ID_MAX_LENGTH CorpIdEmpty CorpIdTooLong
    @ (case normalizeRelayCallbackUrl env (jget input ''relayCallbackUrl'') of Inl p \<Rightarrow> [p] | Inr u \<Rightarrow> [])
    @ (case jget input ''active'' of JUndef \<Rightarrow> [] | JBool b \<Rightarrow> [] | _ \<Rightarrow> [ActiveInvalid])"

definition validateWeComAuthenticationSettings :: "relayEnv \<Rightarrow> json \<Rightarrow> settingProblem list + wecomSettings" where
  "validateWeComAuthenticationSettings env input =
    (if \<not> is_object input then Inl [BodyNotObject]
     else case normalizeRelayCallbackUrl env (jget input ''relayCallbackUrl'') of
       Inl p \<Rightarrow> Inl (settingProblems env input)
     | Inr relayCallbackUrl \<Rightarrow>
         if settingProblems env input \<noteq> [] \<or> relayCallbackUrl = [] then Inl (settingProblems env input)
         else Inr \<lparr>ws_id = (case trimmedText (jget input ''id'') of [] \<Rightarrow> None | c # cs \<Rightarrow> Some (c # cs)),
           ws_organizationName = trimmedText (jget input ''organizationName''),
           ws_corpId = trimmedText (jget input ''corpId''), ws_relayCallbackUrl = relayCallbackUrl,
           ws_active = (jget input ''active'' \<noteq> JBool False)\<rparr>)"

section \<open>Snapshots\<close>

definition relayUrlText :: "organizationRow \<Rightarrow> string" where
  "relayUrlText row = (case og_relay_callback_url row of None \<Rightarrow> [] | Some u \<Rightarrow> u)"

text \<open>A stored address that is no URL makes the constructor throw.\<close>

definition serializeOrganization :: "relayEnv \<Rightarrow> organizationRow \<Rightarrow> appError + organizationSnapshot" where
  "serializeOrganization env row =
    bindE (if relayUrlText row = [] then Inr [] else case wecomRelayApplicationHomepageUrl env (relayUrlText row) of
        None \<Rightarrow> Inl TypeFailure | Some u \<Rightarrow> Inr u) (\<lambda>homepage.
      Inr \<lparr>os_id = og_id row, os_organizationName = og_name row, os_corpId = og_corp_id row,
        os_relayCallbackUrl = relayUrlText row, os_active = og_active row,
        os_configured = (og_active row \<and> og_corp_id row \<noteq> [] \<and> relayUrlText row \<noteq> []),
        os_applicationHomepageUrl = homepage, os_updatedAt = og_updated_at row\<rparr>)"

definition serializeSnapshot :: "relayEnv \<Rightarrow> organizationRow list \<Rightarrow> appError + wecomSnapshot" where
  "serializeSnapshot env rows = bindE (mapE (serializeOrganization env) rows) (\<lambda>organizations.
     Inr \<lparr>wn_organizations = organizations, wn_configuredCount = length (filter os_configured organizations),
       wn_updatedAt = foldl (\<lambda>v g. if os_updatedAt g > v then os_updatedAt g else v) 0 organizations\<rparr>)"

definition readRows :: "(string \<Rightarrow> string \<Rightarrow> bool) \<Rightarrow> db \<Rightarrow> organizationRow list" where
  "readRows collate d = sort_by (\<lambda>g h. if og_name g \<noteq> og_name h then collate (og_name g) (og_name h)
     else og_created_at g < og_created_at h \<or> og_created_at g = og_created_at h \<and> str_le (og_id g) (og_id h)) (organizations d)"

text \<open>PostgreSQL reads a UUID in any case and writes it in lower case.\<close>

definition readRow :: "string \<Rightarrow> db \<Rightarrow> appError + organizationRow" where
  "readRow i d = (if \<not> UUID_PATTERN i then Inl (storeError (StoreMsg ''organization_id_invalid'') 400)
     else case List.find (\<lambda>g. og_id g = js_lower i) (organizations d) of
       None \<Rightarrow> Inl (storeError (StoreMsg ''organization_missing'') 404) | Some g \<Rightarrow> Inr g)"

definition getWeComAuthenticationConfiguration ::
    "relayEnv \<Rightarrow> (string \<Rightarrow> string \<Rightarrow> bool) \<Rightarrow> db \<Rightarrow> appError + wecomSnapshot" where
  "getWeComAuthenticationConfiguration env collate d = serializeSnapshot env (readRows collate d)"

section \<open>Changes\<close>

text \<open>The index PostgreSQL names in a unique violation: the relay's if no older one is violated.\<close>

definition duplicateOrganizationMessage :: "organizationRow \<Rightarrow> organizationRow list \<Rightarrow> storeMessage" where
  "duplicateOrganizationMessage new others =
    (if list_ex (\<lambda>g. og_id g = og_id new \<or> og_corp_id g = og_corp_id new) others
     then StoreMsg ''duplicate_corp_id'' else StoreMsg ''duplicate_relay'')"

definition organizationWrite :: "organizationRow \<Rightarrow> organizationRow list \<Rightarrow> db \<Rightarrow> appError + db" where
  "organizationWrite new others d = (case checked d of Inr d' \<Rightarrow> Inr d'
     | Inl UniqueViolation \<Rightarrow> Inl (storeError (duplicateOrganizationMessage new others) 409)
     | Inl v \<Rightarrow> Inl (DatabaseError v))"

definition createWeComAuthenticationConfiguration ::
    "relayEnv \<Rightarrow> string \<Rightarrow> int \<Rightarrow> wecomSettings \<Rightarrow> wecomState \<Rightarrow> (appError + organizationSnapshot) \<times> wecomState" where
  "createWeComAuthenticationConfiguration env uuid now settings st =
    (let d = fst st;
         row = \<lparr>og_id = uuid, og_name = ws_organizationName settings, og_corp_id = ws_corpId settings,
           og_relay_callback_url = Some (ws_relayCallbackUrl settings), og_active = ws_active settings,
           og_created_at = now, og_updated_at = now\<rparr> in
     case organizationWrite row (organizations d) (d\<lparr>organizations := organizations d @ [row]\<rparr>) of
       Inl e \<Rightarrow> (Inl e, st)
     | Inr d' \<Rightarrow> (serializeOrganization env row, (d', resetWeComVisibilityCache (snd st))))"

definition changedOrganization :: "wecomSettings \<Rightarrow> int \<Rightarrow> organizationRow \<Rightarrow> organizationRow" where
  "changedOrganization settings now row = row\<lparr>og_name := ws_organizationName settings, og_corp_id := ws_corpId settings,
     og_relay_callback_url := Some (ws_relayCallbackUrl settings), og_active := ws_active settings, og_updated_at := now\<rparr>"

definition updateWeComAuthenticationConfiguration ::
    "relayEnv \<Rightarrow> int \<Rightarrow> wecomSettings \<Rightarrow> wecomState \<Rightarrow> (appError + organizationSnapshot) \<times> wecomState" where
  "updateWeComAuthenticationConfiguration env now settings st =
    (case ws_id settings of None \<Rightarrow> (Inl (storeError (StoreMsg ''organization_id_empty'') 400), st)
     | Some i \<Rightarrow> (case readRow i (fst st) of Inl e \<Rightarrow> (Inl e, st)
       | Inr old \<Rightarrow>
           let d = fst st; row = changedOrganization settings now old in
           (case organizationWrite row (filter (\<lambda>g. og_id g \<noteq> og_id old) (organizations d))
               (d\<lparr>organizations := map (\<lambda>g. if og_id g = og_id old then changedOrganization settings now g else g) (organizations d)\<rparr>) of
              Inl e \<Rightarrow> (Inl e, st)
            | Inr d' \<Rightarrow> (serializeOrganization env row, (d', resetWeComVisibilityCache (snd st))))))"

definition finishedLogin :: "string \<Rightarrow> int \<Rightarrow> loginRow \<Rightarrow> bool" where
  "finishedLogin i now r \<longleftrightarrow> lr_organization_id r = Some i \<and> (lr_consumed_at r \<noteq> None \<or> lr_expires_at r \<le> now)"

definition deleteBody :: "string \<Rightarrow> int \<Rightarrow> db \<Rightarrow> appError + bool \<times> db" where
  "deleteBody i now d =
    bindE (databaseStep (checked (d\<lparr>logins := filter (\<lambda>r. \<not> finishedLogin i now r) (logins d)\<rparr>))) (\<lambda>d1.
    bindE (databaseStep (checked (d1\<lparr>organizations := filter (\<lambda>g. og_id g \<noteq> i) (organizations d1)\<rparr>))) (\<lambda>d2.
      Inr (list_ex (\<lambda>g. og_id g = i) (organizations d1), d2)))"

definition deleteWeComAuthenticationConfiguration :: "string \<Rightarrow> int \<Rightarrow> wecomState \<Rightarrow> (appError + unit) \<times> wecomState" where
  "deleteWeComAuthenticationConfiguration i now st =
    (if \<not> UUID_PATTERN i then (Inl (storeError (StoreMsg ''organization_id_invalid'') 400), st)
     else case transaction (deleteBody (js_lower i) now) (fst st) of
       (Inl (DatabaseError ForeignKeyViolation), d') \<Rightarrow>
         (Inl (storeError (StoreMsg ''organization_in_use'') 409), (d', snd st))
     | (Inl e, d') \<Rightarrow> (Inl e, (d', snd st))
     | (Inr found, d') \<Rightarrow>
         if found then (Inr (), (d', resetWeComVisibilityCache (snd st)))
         else (Inl (storeError (StoreMsg ''organization_missing'') 404), (d', snd st)))"

section \<open>The organisation of a relay\<close>

definition relayCandidate :: "string \<Rightarrow> organizationRow \<Rightarrow> bool" where
  "relayCandidate relayCallbackUrl g \<longleftrightarrow> og_relay_callback_url g = Some relayCallbackUrl \<and> og_active g \<and> og_corp_id g \<noteq> []"

definition getWeComOrganizationIdForRelay :: "string \<Rightarrow> db \<Rightarrow> appError + string" where
  "getWeComOrganizationIdForRelay relayCallbackUrl d =
    (case filter (relayCandidate relayCallbackUrl) (organizations d) of
       [g] \<Rightarrow> Inr (og_id g)
     | _ \<Rightarrow> Inl (storeError (StoreMsg ''relay_unmapped'') 404))"

section \<open>Accepted settings\<close>

lemma normalizeRelayCallbackUrl_Inr:
  assumes "normalizeRelayCallbackUrl env v = Inr url"
  obtains u where "re_url env (the_string v) = Some u" "url_protocol u = ''https:''" "url_username u = []"
    "url_password u = []" "url_search u = []" "url_hash u = []" "url_pathname u = ''/callbacks/wecom''" "url = url_href u"
    "length (the_string v) \<le> 2048"
  using assms
  by (auto simp: normalizeRelayCallbackUrl_def MAX_URL_LENGTH_def intro: that split: if_split_asm option.split_asm)

lemma textProblems_Nil: "textProblems s n a b = [] \<longleftrightarrow> s \<noteq> [] \<and> length s \<le> n"
  by (auto simp: textProblems_def)

lemma trimmedText_trim [simp]: "js_trim (trimmedText v) = trimmedText v"
  by (simp add: trimmedText_def)

text \<open>Settings that pass the validation are well formed: the name and the CorpID are trimmed, not blank and
  within their lengths, an identifier is a UUID, and the relay address is the normal form of an
  absolute HTTPS address that ends in /callbacks/wecom without account, query or fragment.\<close>

theorem settings_validated_sound:
  assumes "validateWeComAuthenticationSettings env input = Inr settings"
  shows "js_trim (ws_organizationName settings) = ws_organizationName settings \<and> ws_organizationName settings \<noteq> []
    \<and> length (ws_organizationName settings) \<le> 120
    \<and> js_trim (ws_corpId settings) = ws_corpId settings \<and> ws_corpId settings \<noteq> [] \<and> length (ws_corpId settings) \<le> 255
    \<and> (case ws_id settings of None \<Rightarrow> True | Some i \<Rightarrow> UUID_PATTERN i)
    \<and> ws_relayCallbackUrl settings \<noteq> []
    \<and> (\<exists>u. re_url env (the_string (jget input ''relayCallbackUrl'')) = Some u \<and> ws_relayCallbackUrl settings = url_href u
        \<and> url_protocol u = ''https:'' \<and> url_username u = [] \<and> url_password u = [] \<and> url_search u = [] \<and> url_hash u = []
        \<and> url_pathname u = ''/callbacks/wecom'')"
proof -
  obtain url where n: "normalizeRelayCallbackUrl env (jget input ''relayCallbackUrl'') = Inr url"
    using assms by (auto simp: validateWeComAuthenticationSettings_def simp del: jget.simps split: if_split_asm sum.split_asm)
  with assms have v: "settingProblems env input = []" "url \<noteq> []" "ws_relayCallbackUrl settings = url"
    "ws_organizationName settings = trimmedText (jget input ''organizationName'')"
    "ws_corpId settings = trimmedText (jget input ''corpId'')"
    "ws_id settings = (case trimmedText (jget input ''id'') of [] \<Rightarrow> None | c # cs \<Rightarrow> Some (c # cs))"
    by (auto simp: validateWeComAuthenticationSettings_def simp del: jget.simps split: if_split_asm)
  from n show ?thesis
  proof (rule normalizeRelayCallbackUrl_Inr)
    fix u
    assume "re_url env (the_string (jget input ''relayCallbackUrl'')) = Some u" "url_protocol u = ''https:''" "url_username u = []"
      "url_password u = []" "url_search u = []" "url_hash u = []" "url_pathname u = ''/callbacks/wecom''" "url = url_href u"
    with v show ?thesis
      by (auto simp: settingProblems_def textProblems_Nil ORGANIZATION_NAME_MAX_LENGTH_def CORP_ID_MAX_LENGTH_def
          simp del: jget.simps split: if_split_asm list.split)
  qed
qed

section \<open>The organisation of a relay\<close>

lemma unique_filter_single:
  assumes "distinct rows" "\<And>g h. g \<in> set rows \<Longrightarrow> h \<in> set rows \<Longrightarrow> P g \<Longrightarrow> P h \<Longrightarrow> g = h"
  shows "filter P rows = (case List.find P rows of None \<Rightarrow> [] | Some g \<Rightarrow> [g])"
  using assms
proof (induction rows)
  case (Cons r rows)
  have IH: "filter P rows = (case List.find P rows of None \<Rightarrow> [] | Some g \<Rightarrow> [g])"
    using Cons.prems by (intro Cons.IH) auto
  show ?case
  proof (cases "P r")
    case True
    then have "filter P rows = []"
      using Cons.prems(1) Cons.prems(2)[of r] by (auto simp: filter_empty_conv)
    with True show ?thesis by simp
  qed (use IH in simp)
qed simp

lemma relay_candidates:
  assumes "db_ok d"
  shows "filter (relayCandidate url) (organizations d)
    = (case List.find (relayCandidate url) (organizations d) of None \<Rightarrow> [] | Some g \<Rightarrow> [g])"
proof (rule unique_filter_single)
  have u: "unique_by og_id (organizations d)"
    "unique_by og_relay_callback_url (filter (\<lambda>g. og_relay_callback_url g \<noteq> None) (organizations d))"
    using assms by (simp_all add: db_ok_def uniques_ok_def organizations_unique_def)
  from u(1) show "distinct (organizations d)" by (simp add: unique_by_def distinct_map)
  show "g = h" if "g \<in> set (organizations d)" "h \<in> set (organizations d)" "relayCandidate url g" "relayCandidate url h" for g h
    using unique_by_eq[OF u(2), of g h] that by (simp add: relayCandidate_def)
qed

lemma organization_for_relay:
  assumes "db_ok d"
  shows "getWeComOrganizationIdForRelay url d = Inr i
    \<longleftrightarrow> (\<exists>g. g \<in> set (organizations d) \<and> relayCandidate url g \<and> og_id g = i)"
proof -
  have "(\<exists>g. g \<in> set (organizations d) \<and> relayCandidate url g \<and> og_id g = i)
      \<longleftrightarrow> (\<exists>g \<in> set (filter (relayCandidate url) (organizations d)). og_id g = i)" by auto
  then show ?thesis
    by (simp add: getWeComOrganizationIdForRelay_def relay_candidates[OF assms] split: option.split)
qed

text \<open>In a consistent store a relay address names an organisation exactly if an active organisation
  with a CorpID has that address; the answer is never ambiguous.\<close>

theorem organization_for_relay_iff:
  assumes "db_ok d"
  shows "getWeComOrganizationIdForRelay url d = Inr i
    \<longleftrightarrow> (\<exists>g. g \<in> set (organizations d) \<and> relayCandidate url g \<and> og_id g = i)"
  using assms by (rule organization_for_relay)

section \<open>Creating\<close>

lemma unique_by_snoc: "unique_by key (rows @ [r]) \<longleftrightarrow> unique_by key rows \<and> key r \<notin> set (map key rows)"
  by (auto simp: unique_by_def)

lemma add_organization_ok:
  assumes "db_ok d" "og_relay_callback_url row = Some url" "\<not> btrim_blank url"
    and "og_id row \<notin> set (map og_id (organizations d))"
  shows "checked (d\<lparr>organizations := organizations d @ [row]\<rparr>)
    = (if list_ex (\<lambda>g. og_corp_id g = og_corp_id row \<or> og_relay_callback_url g = Some url) (organizations d)
       then Inl UniqueViolation else Inr (d\<lparr>organizations := organizations d @ [row]\<rparr>))"
proof -
  let ?d = "d\<lparr>organizations := organizations d @ [row]\<rparr>"
  have c: "checks_ok ?d" "foreign_keys_ok ?d"
    using assms(1-3) by (auto simp: db_ok_def checks_ok_def organizations_check_def foreign_keys_ok_def ref_ok_def list_all_iff
        split: option.split)
  have "uniques_ok ?d \<longleftrightarrow> organizations_unique (organizations d @ [row])"
    using assms(1) by (simp add: db_ok_def uniques_ok_def)
  also have "\<dots> \<longleftrightarrow> og_corp_id row \<notin> set (map og_corp_id (organizations d))
      \<and> Some url \<notin> set (map og_relay_callback_url (organizations d))"
  proof -
    have "Some url \<in> set (map og_relay_callback_url (filter (\<lambda>g. og_relay_callback_url g \<noteq> None) (organizations d)))
        \<longleftrightarrow> Some url \<in> set (map og_relay_callback_url (organizations d))"
      by (auto simp: image_iff eq_commute[of "Some url"])
    then show ?thesis
      using assms(1,2,4) by (simp add: db_ok_def uniques_ok_def organizations_unique_def unique_by_snoc)
  qed
  also have "\<dots> \<longleftrightarrow> \<not> list_ex (\<lambda>g. og_corp_id g = og_corp_id row \<or> og_relay_callback_url g = Some url) (organizations d)"
    by (simp add: list_ex_iff image_iff eq_commute[of "Some url"] eq_commute[of "og_corp_id row"]) blast
  finally show ?thesis using c by (simp add: checked_def)
qed

definition newOrganization :: "string \<Rightarrow> int \<Rightarrow> wecomSettings \<Rightarrow> organizationRow" where
  "newOrganization uuid now settings = \<lparr>og_id = uuid, og_name = ws_organizationName settings, og_corp_id = ws_corpId settings,
     og_relay_callback_url = Some (ws_relayCallbackUrl settings), og_active = ws_active settings,
     og_created_at = now, og_updated_at = now\<rparr>"

text \<open>Creating an organisation under a fresh identifier refuses a CorpID that exists and then a relay that
  is mapped, each with status 409 and an unchanged store; otherwise the organisation is appended
  and the visibility cache is emptied. An active one with a CorpID is from then on the one its
  relay address names.\<close>

theorem create_organization_outcome:
  assumes "db_ok d" "uuid \<notin> set (map og_id (organizations d))" "\<not> btrim_blank (ws_relayCallbackUrl settings)"
  shows "createWeComAuthenticationConfiguration env uuid now settings (d, cache)
    = (if list_ex (\<lambda>g. og_corp_id g = ws_corpId settings) (organizations d)
       then (Inl (storeError (StoreMsg ''duplicate_corp_id'') 409), (d, cache))
       else if list_ex (\<lambda>g. og_relay_callback_url g = Some (ws_relayCallbackUrl settings)) (organizations d)
       then (Inl (storeError (StoreMsg ''duplicate_relay'') 409), (d, cache))
       else (serializeOrganization env (newOrganization uuid now settings),
         (d\<lparr>organizations := organizations d @ [newOrganization uuid now settings]\<rparr>, [])))
    \<and> (if list_ex (\<lambda>g. og_corp_id g = ws_corpId settings \<or> og_relay_callback_url g = Some (ws_relayCallbackUrl settings)) (organizations d)
         \<or> \<not> ws_active settings \<or> ws_corpId settings = []
       then True
       else getWeComOrganizationIdForRelay (ws_relayCallbackUrl settings)
         (d\<lparr>organizations := organizations d @ [newOrganization uuid now settings]\<rparr>) = Inr uuid)"
proof -
  let ?row = "newOrganization uuid now settings"
  have row: "og_relay_callback_url ?row = Some (ws_relayCallbackUrl settings)" "og_id ?row = uuid"
    "og_corp_id ?row = ws_corpId settings" "og_active ?row = ws_active settings"
    by (simp_all add: newOrganization_def)
  have ck: "checked (d\<lparr>organizations := organizations d @ [?row]\<rparr>)
    = (if list_ex (\<lambda>g. og_corp_id g = ws_corpId settings \<or> og_relay_callback_url g = Some (ws_relayCallbackUrl settings)) (organizations d)
       then Inl UniqueViolation else Inr (d\<lparr>organizations := organizations d @ [?row]\<rparr>))"
    using add_organization_ok[OF assms(1), of ?row] assms(2,3) row by simp
  have ex: "list_ex (\<lambda>g. og_corp_id g = ws_corpId settings \<or> og_relay_callback_url g = Some (ws_relayCallbackUrl settings)) (organizations d)
    \<longleftrightarrow> list_ex (\<lambda>g. og_corp_id g = ws_corpId settings) (organizations d)
      \<or> list_ex (\<lambda>g. og_relay_callback_url g = Some (ws_relayCallbackUrl settings)) (organizations d)"
    by (auto simp: list_ex_iff)
  have dup: "duplicateOrganizationMessage ?row (organizations d) = (if list_ex (\<lambda>g. og_corp_id g = ws_corpId settings) (organizations d)
      then StoreMsg ''duplicate_corp_id'' else StoreMsg ''duplicate_relay'')"
    using assms(2) row by (auto simp: duplicateOrganizationMessage_def list_ex_iff)
  have "createWeComAuthenticationConfiguration env uuid now settings (d, cache)
      = (case organizationWrite ?row (organizations d) (d\<lparr>organizations := organizations d @ [?row]\<rparr>) of
         Inl e \<Rightarrow> (Inl e, (d, cache)) | Inr d' \<Rightarrow> (serializeOrganization env ?row, (d', [])))"
    by (simp add: createWeComAuthenticationConfiguration_def Let_def flip: newOrganization_def)
      (simp add: resetWeComVisibilityCache_def split: sum.split)
  moreover have "db_ok (d\<lparr>organizations := organizations d @ [?row]\<rparr>)"
    if "\<not> list_ex (\<lambda>g. og_corp_id g = ws_corpId settings \<or> og_relay_callback_url g = Some (ws_relayCallbackUrl settings)) (organizations d)"
    using ck that by (auto simp del: checked_Inr dest: checked_Inr[THEN iffD1])
  ultimately show ?thesis
    using ck ex dup row by (auto simp: organizationWrite_def organization_for_relay relayCandidate_def simp del: checked_Inr)
qed

section \<open>Deleting\<close>

text \<open>What keeps an organisation: its links, its shared connections, its login requests still open.\<close>

definition organizationInUse :: "string \<Rightarrow> int \<Rightarrow> db \<Rightarrow> bool" where
  "organizationInUse i now d \<longleftrightarrow> list_ex (\<lambda>l. lk_organization_id l = i) (links d)
     \<or> list_ex (\<lambda>r. rs_organization_id r = Some i) (resources d)
     \<or> list_ex (\<lambda>r. lr_organization_id r = Some i \<and> lr_consumed_at r = None \<and> now < lr_expires_at r) (logins d)"

definition withoutFinished :: "string \<Rightarrow> int \<Rightarrow> db \<Rightarrow> db" where
  "withoutFinished i now d = d\<lparr>logins := filter (\<lambda>r. \<not> finishedLogin i now r) (logins d)\<rparr>"

definition withoutOrganization :: "string \<Rightarrow> int \<Rightarrow> db \<Rightarrow> db" where
  "withoutOrganization i now d = (withoutFinished i now d)\<lparr>organizations := filter (\<lambda>g. og_id g \<noteq> i) (organizations d)\<rparr>"

lemma withoutFinished_ok: "db_ok d \<Longrightarrow> db_ok (withoutFinished i now d)"
  by (auto simp: db_ok_defs withoutFinished_def unique_by_filter logins_check_def list_all_iff)

lemma withoutOrganization_uniques: "db_ok d \<Longrightarrow> uniques_ok (withoutOrganization i now d) \<and> checks_ok (withoutOrganization i now d)"
  using unique_by_filter[of og_relay_callback_url "filter (\<lambda>g. og_relay_callback_url g \<noteq> None) (organizations d)" "\<lambda>g. og_id g \<noteq> i"]
  by (auto simp: db_ok_defs withoutOrganization_def withoutFinished_def unique_by_filter logins_check_def list_all_iff
      organizations_unique_def organizations_check_def conj_commute)

lemma withoutOrganization_keys:
  assumes "db_ok d"
  shows "foreign_keys_ok (withoutOrganization i now d) \<longleftrightarrow> \<not> organizationInUse i now d"
proof -
  have fk: "list_all (\<lambda>l. lk_organization_id l \<in> set (map og_id (organizations d))) (links d)"
    "list_all (\<lambda>r. ref_ok (lr_organization_id r) (map og_id (organizations d))) (logins d)"
    "list_all (\<lambda>r. ref_ok (rs_organization_id r) (map og_id (organizations d))) (resources d)"
    "list_all (\<lambda>b. ref_ok (bi_application_id b) (map ap_id (applications d))) (bindings d)"
    "list_all (\<lambda>g. gr_resource_id g \<in> set (map rs_id (resources d))) (grants d)"
    using assms by (simp_all add: db_ok_def foreign_keys_ok_def)
  let ?ids = "map og_id (filter (\<lambda>g. og_id g \<noteq> i) (organizations d))"
  have ids: "x \<in> set ?ids \<longleftrightarrow> x \<in> set (map og_id (organizations d)) \<and> x \<noteq> i" for x by auto
  have ref: "ref_ok r ?ids \<longleftrightarrow> ref_ok r (map og_id (organizations d)) \<and> r \<noteq> Some i" for r
    by (cases r) (simp_all add: ref_ok_def ids del: set_map set_filter)
  have "list_all (\<lambda>l. lk_organization_id l \<in> set ?ids) (links d) \<longleftrightarrow> \<not> list_ex (\<lambda>l. lk_organization_id l = i) (links d)"
    using fk(1) by (auto simp only: ids list_all_iff list_ex_iff)
  moreover have "list_all (\<lambda>r. ref_ok (rs_organization_id r) ?ids) (resources d)
      \<longleftrightarrow> \<not> list_ex (\<lambda>r. rs_organization_id r = Some i) (resources d)"
    using fk(3) by (auto simp only: ref list_all_iff list_ex_iff)
  moreover have "list_all (\<lambda>r. ref_ok (lr_organization_id r) ?ids) (filter (\<lambda>r. \<not> finishedLogin i now r) (logins d))
      \<longleftrightarrow> \<not> list_ex (\<lambda>r. lr_organization_id r = Some i \<and> lr_consumed_at r = None \<and> now < lr_expires_at r) (logins d)"
    using fk(2) by (auto simp: ref list_all_iff list_ex_iff finishedLogin_def)
  moreover have "foreign_keys_ok (withoutOrganization i now d) \<longleftrightarrow>
      list_all (\<lambda>b. ref_ok (bi_application_id b) (map ap_id (applications d))) (bindings d)
      \<and> list_all (\<lambda>l. lk_organization_id l \<in> set ?ids) (links d)
      \<and> list_all (\<lambda>r. ref_ok (lr_organization_id r) ?ids) (filter (\<lambda>r. \<not> finishedLogin i now r) (logins d))
      \<and> list_all (\<lambda>r. ref_ok (rs_organization_id r) ?ids) (resources d)
      \<and> list_all (\<lambda>g. gr_resource_id g \<in> set (map rs_id (resources d))) (grants d)"
    by (simp add: foreign_keys_ok_def withoutOrganization_def withoutFinished_def)
  ultimately show ?thesis
    using fk(4,5) unfolding organizationInUse_def by blast
qed

lemma deleteBody_outcome:
  assumes "db_ok d"
  shows "deleteBody i now d = (if organizationInUse i now d then Inl (DatabaseError ForeignKeyViolation)
    else Inr (list_ex (\<lambda>g. og_id g = i) (organizations d), withoutOrganization i now d))"
proof -
  have "checked (withoutOrganization i now d)
      = (if organizationInUse i now d then Inl ForeignKeyViolation else Inr (withoutOrganization i now d))"
    using withoutOrganization_uniques[OF assms] withoutOrganization_keys[OF assms] by (simp add: checked_def)
  moreover have "checked (withoutFinished i now d) = Inr (withoutFinished i now d)"
    using withoutFinished_ok[OF assms] by (rule checked_ok)
  moreover have "organizations (withoutFinished i now d) = organizations d"
    "(withoutFinished i now d)\<lparr>organizations := filter (\<lambda>g. og_id g \<noteq> i) (organizations d)\<rparr> = withoutOrganization i now d"
    by (simp_all add: withoutFinished_def withoutOrganization_def)
  ultimately show ?thesis
    by (simp add: deleteBody_def databaseStep_def del: checked_Inr flip: withoutFinished_def)
qed

text \<open>Deleting an organisation removes it, with its finished login requests, exactly if nothing refers to it
  any more: while a link, a shared connection or an open login request does, the answer is 409 and
  the whole store stays as it was. An organisation that is deleted leaves no reference behind.\<close>

theorem delete_organization_outcome:
  assumes "db_ok d" "UUID_PATTERN i"
  shows "deleteWeComAuthenticationConfiguration i now (d, cache)
    = (if organizationInUse (js_lower i) now d then (Inl (storeError (StoreMsg ''organization_in_use'') 409), (d, cache))
       else if list_ex (\<lambda>g. og_id g = js_lower i) (organizations d)
       then (Inr (), (withoutOrganization (js_lower i) now d, []))
       else (Inl (storeError (StoreMsg ''organization_missing'') 404), (withoutOrganization (js_lower i) now d, cache)))
    \<and> (organizationInUse (js_lower i) now d \<or> db_ok (withoutOrganization (js_lower i) now d))"
  using assms withoutOrganization_uniques[OF assms(1)] withoutOrganization_keys[OF assms(1)]
  by (simp add: deleteWeComAuthenticationConfiguration_def transaction_def deleteBody_outcome resetWeComVisibilityCache_def
      db_ok_def)

section \<open>Concrete organisations\<close>

definition demo_settings_json :: json where
  "demo_settings_json = JObj [(''organizationName'', JStr '' Acme ''), (''corpId'', JStr ''corp''),
     (''relayCallbackUrl'', JStr ''https://relay/callbacks/wecom'')]"

definition demo_settings :: wecomSettings where
  "demo_settings = \<lparr>ws_id = None, ws_organizationName = ''Acme'', ws_corpId = ''corp'',
     ws_relayCallbackUrl = ''https://relay/callbacks/wecom'', ws_active = True\<rparr>"

lemma demo_settings_valid: "validateWeComAuthenticationSettings demo_relay_env demo_settings_json = Inr demo_settings"
proof -
  have "js_trim '' Acme '' = ''Acme''" "js_trim ''corp'' = ''corp''"
    by (simp_all add: js_trim_def is_space_def code_unit_def)
  then show ?thesis
    by (simp add: validateWeComAuthenticationSettings_def settingProblems_def normalizeRelayCallbackUrl_def textProblems_def
        trimmedText_def demo_settings_json_def demo_settings_def demo_relay_env_def demo_url_def demo_relay_url_def MAX_URL_LENGTH_def
        ORGANIZATION_NAME_MAX_LENGTH_def CORP_ID_MAX_LENGTH_def)
qed

theorem settings_validated_sound_witness:
  "validateWeComAuthenticationSettings demo_relay_env demo_settings_json = Inr demo_settings
    \<and> js_trim (ws_organizationName demo_settings) = ws_organizationName demo_settings"
  using settings_validated_sound[OF demo_settings_valid] demo_settings_valid by blast

definition demo_organization_db :: db where
  "demo_organization_db = empty_db\<lparr>organizations := [newOrganization demo_link_id 1000 demo_settings]\<rparr>"

lemma demo_organization_db_ok: "db_ok demo_organization_db"
  by (simp add: demo_organization_db_def db_ok_defs empty_db_def applications_unique_def bindings_unique_def
      organizations_unique_def links_unique_def resources_unique_def bindings_check_def organizations_check_def
      links_check_def logins_check_def botRequests_check_def resources_check_def grants_check_def newOrganization_def
      demo_settings_def btrim_blank_def)

theorem organization_for_relay_iff_witness:
  "db_ok demo_organization_db
    \<and> getWeComOrganizationIdForRelay ''https://relay/callbacks/wecom'' demo_organization_db = Inr demo_link_id"
proof -
  have "\<exists>g. g \<in> set (organizations demo_organization_db) \<and> relayCandidate ''https://relay/callbacks/wecom'' g \<and> og_id g = demo_link_id"
    by (simp add: demo_organization_db_def relayCandidate_def newOrganization_def demo_settings_def)
  with organization_for_relay_iff[OF demo_organization_db_ok] demo_organization_db_ok show ?thesis by blast
qed

theorem create_organization_outcome_witness:
  "fst (createWeComAuthenticationConfiguration demo_relay_env ''u2'' 2000 demo_settings (demo_organization_db, []))
    = Inl (storeError (StoreMsg ''duplicate_corp_id'') 409)"
proof -
  have "''u2'' \<notin> set (map og_id (organizations demo_organization_db))" "\<not> btrim_blank (ws_relayCallbackUrl demo_settings)"
    "list_ex (\<lambda>g. og_corp_id g = ws_corpId demo_settings) (organizations demo_organization_db)"
    by (simp_all add: demo_organization_db_def newOrganization_def demo_link_id_def demo_settings_def btrim_blank_def)
  with create_organization_outcome[OF demo_organization_db_ok this(1,2), of demo_relay_env 2000 "[]"] show ?thesis by simp
qed

theorem delete_organization_outcome_witness:
  "deleteWeComAuthenticationConfiguration demo_link_id 2000 (demo_organization_db, [])
    = (Inr (), (withoutOrganization demo_link_id 2000 demo_organization_db, []))"
proof -
  have "js_lower demo_link_id = demo_link_id"
    by (simp add: js_lower_def demo_link_id_def lower_char_def code_unit_def)
  moreover have "UUID_PATTERN demo_link_id" by (simp add: UUID_PATTERN_def demo_link_valid)
  moreover have "\<not> organizationInUse demo_link_id 2000 demo_organization_db"
    "list_ex (\<lambda>g. og_id g = demo_link_id) (organizations demo_organization_db)"
    by (simp_all add: demo_organization_db_def organizationInUse_def empty_db_def newOrganization_def)
  ultimately show ?thesis using delete_organization_outcome[OF demo_organization_db_ok, of demo_link_id 2000 "[]"] by simp
qed

end
