(* ===== verification/Console_Identity.thy ===== *)
theory Console_Identity
  imports Console_Session Identity_Link
begin

text \<open>
  Who calls the console (src/ai-console/src/lib/server/console-identity.ts): the JWT assertion of
  the Pomerium proxy, its verification, the identity read from it or from a WeCom console session,
  and the administrators; and the middleware in front of every route (src/ai-console/src/proxy.ts).
  Signature verification, the key file, the environment and the clock (in seconds) are parameters;
  an error message is named by a tag, since the texts are Chinese.
\<close>

record platformIdentity = consoleIdentity +
  pi_upstreamIssuer :: string
  pi_upstreamSubject :: string
  pi_groups :: "string list"
  pi_preferredUsername :: "string option"

text \<open>\<open>idn_verify key text signature\<close> is ECDSA over SHA-256, None where Node throws; the two default
  display names are parameters because they are Chinese.\<close>

record identityEnv =
  idn_crypto :: crypto
  idn_verify :: "string \<Rightarrow> string \<Rightarrow> string \<Rightarrow> bool option"
  idn_readFile :: "string \<Rightarrow> string option"
  idn_publicKeyPath :: "string option"
  idn_jwtAudience :: "string option"
  idn_jwtIssuer :: "string option"
  idn_adminEmails :: "string option"
  idn_devEnabled :: "string option"
  idn_devEmail :: "string option"
  idn_devSubject :: "string option"
  idn_devName :: "string option"
  idn_loginIssuer :: "string option"
  idn_issuer :: "string option"
  idn_sessionSecret :: "string option"
  idn_unnamed :: string
  idn_devUnnamed :: string

type_synonym headers = "string \<Rightarrow> string option"

definition or_default :: "string option \<Rightarrow> string \<Rightarrow> string" where
  "or_default v d = (case v of None \<Rightarrow> d | Some s \<Rightarrow> if s = [] then d else s)"

definition header_json :: "string option \<Rightarrow> json" where
  "header_json v = (case v of None \<Rightarrow> JNull | Some s \<Rightarrow> JStr s)"

section \<open>Claims\<close>

definition stringClaim :: "json \<Rightarrow> string option" where
  "stringClaim v = (if is_string v \<and> js_trim (the_string v) \<noteq> [] then Some (js_trim (the_string v)) else None)"

definition stringArrayClaim :: "json \<Rightarrow> string list" where
  "stringArrayClaim v =
    (if is_array v then map (\<lambda>i. js_trim (the_string i)) (filter (\<lambda>i. is_string i \<and> js_trim (the_string i) \<noteq> []) (the_array v))
     else if is_string v then filter (\<lambda>s. s \<noteq> []) (map js_trim (js_split (CHR '','') (the_string v))) else [])"

definition decodePart :: "string \<Rightarrow> json option" where
  "decodePart part = jsonParse (utf8_decode (base64url_decode part))"

definition decodePomeriumAssertion :: "string option \<Rightarrow> json" where
  "decodePomeriumAssertion assertion = (case assertion of None \<Rightarrow> JObj []
     | Some a \<Rightarrow> (case js_split (CHR ''.'') a of
         header # payload # rest \<Rightarrow>
           if payload = [] then JObj []
           else (case decodePart payload of Some v \<Rightarrow> if is_object v then v else JObj [] | None \<Rightarrow> JObj [])
       | _ \<Rightarrow> JObj []))"

definition numericClaim :: "json \<Rightarrow> rat option" where
  "numericClaim v = (case v of JNum (Fin q) \<Rightarrow> Some q | _ \<Rightarrow> None)"

definition audienceClaim :: "json \<Rightarrow> string list" where
  "audienceClaim v = (if is_string v then [the_string v]
     else if is_array v then map the_string (filter is_string (the_array v)) else [])"

section \<open>Verification of an assertion\<close>

definition signedByKey :: "identityEnv \<Rightarrow> string \<Rightarrow> string \<Rightarrow> string \<Rightarrow> string \<Rightarrow> bool" where
  "signedByKey env key header payload signature =
    (case decodePart header of None \<Rightarrow> False
     | Some v \<Rightarrow> jget v ''alg'' = JStr ''ES256''
         \<and> idn_verify env key (utf8_encode (header @ CHR ''.'' # payload)) (base64url_decode signature) = Some True)"

definition outsideValidity :: "json \<Rightarrow> int \<Rightarrow> bool" where
  "outsideValidity claims now = (case numericClaim (jget claims ''exp'') of None \<Rightarrow> True
     | Some until \<Rightarrow> until = 0 \<or> until \<le> of_int (now - 30)
         \<or> (case numericClaim (jget claims ''nbf'') of None \<Rightarrow> False | Some from_time \<Rightarrow> from_time > of_int (now + 30)))"

definition verifyPomeriumAssertion ::
    "identityEnv \<Rightarrow> string \<Rightarrow> string \<Rightarrow> string list option \<Rightarrow> string option \<Rightarrow> int \<Rightarrow> appError + json" where
  "verifyPomeriumAssertion env assertion publicKey audience issuer now =
    (case js_split (CHR ''.'') assertion of
       [header, payload, signature] \<Rightarrow>
         if header = [] \<or> payload = [] \<or> signature = [] then Inl (AuthError ''assertion_format'' 401)
         else if \<not> signedByKey env publicKey header payload signature then Inl (AuthError ''assertion_signature'' 401)
         else let claims = decodePomeriumAssertion (Some assertion) in
           if outsideValidity claims now then Inl (AuthError ''assertion_expired'' 401)
           else if (case audience of None \<Rightarrow> False
               | Some as \<Rightarrow> \<not> list_ex (\<lambda>a. a \<in> set (audienceClaim (jget claims ''aud''))) as)
           then Inl (AuthError ''assertion_audience'' 401)
           else if (case issuer of None \<Rightarrow> False | Some i \<Rightarrow> i \<noteq> []
               \<and> map_option strip_slash (stringClaim (jget claims ''iss'')) \<noteq> Some (strip_slash i))
           then Inl (AuthError ''assertion_issuer'' 401)
           else Inr claims
     | _ \<Rightarrow> Inl (AuthError ''assertion_format'' 401))"

section \<open>The identity\<close>

definition brokerSubject :: "identityEnv \<Rightarrow> string \<Rightarrow> string \<Rightarrow> string" where
  "brokerSubject env loginIssuer upstreamSubject = ''usr_'' @ base64url_encode
     (cr_sha256 (idn_crypto env) (utf8_encode (strip_slash loginIssuer @ CHR 0x00 # upstreamSubject)))"

definition configuredAdminEmails :: "identityEnv \<Rightarrow> string list" where
  "configuredAdminEmails env = filter (\<lambda>e. e \<noteq> []) (map (\<lambda>e. js_lower (js_trim e))
     (js_split (CHR '','') (or_default (idn_adminEmails env) ''admin@example.com'')))"

definition isConsoleAdminEmail :: "identityEnv \<Rightarrow> string \<Rightarrow> bool" where
  "isConsoleAdminEmail env email \<longleftrightarrow> js_lower (js_trim email) \<in> set (configuredAdminEmails env)"

definition developmentEnabled :: "identityEnv \<Rightarrow> bool" where
  "developmentEnabled env \<longleftrightarrow> idn_devEnabled env = Some ''true''"

definition loginIssuerOf :: "identityEnv \<Rightarrow> string" where
  "loginIssuerOf env = strip_slash (or_default (idn_loginIssuer env) ''http://dex.localtest.me:5556/dex'')"

definition principalIssuerOf :: "identityEnv \<Rightarrow> string" where
  "principalIssuerOf env = strip_slash (or_default (idn_issuer env) ''http://127.0.0.1:8080/oauth'')"

definition developmentIdentity :: "identityEnv \<Rightarrow> platformIdentity" where
  "developmentIdentity env =
    (let subject = or_default (map_option js_trim (idn_devSubject env)) ''local-development-admin'' in
     \<lparr>ci_principalIssuer = principalIssuerOf env,
      ci_principalSubject = brokerSubject env (loginIssuerOf env) subject,
      ci_email = or_default (map_option (\<lambda>e. js_lower (js_trim e)) (idn_devEmail env)) ''admin@example.com'',
      ci_name = or_default (map_option js_trim (idn_devName env)) (idn_devUnnamed env), ci_admin = True,
      pi_upstreamIssuer = loginIssuerOf env, pi_upstreamSubject = subject,
      pi_groups = [''local-development''], pi_preferredUsername = None\<rparr>)"

definition first_claim :: "string option list \<Rightarrow> string option" where
  "first_claim vs = (case filter (\<lambda>v. v \<noteq> None) vs of [] \<Rightarrow> None | v # _ \<Rightarrow> v)"

definition headerEmail :: "json \<Rightarrow> headers \<Rightarrow> string" where
  "headerEmail claims input = js_lower (case first_claim [stringClaim (jget claims ''email''),
     stringClaim (header_json (input ''x-pomerium-claim-email''))] of None \<Rightarrow> [] | Some e \<Rightarrow> e)"

definition headerSubject :: "json \<Rightarrow> headers \<Rightarrow> string option" where
  "headerSubject claims input = first_claim [stringClaim (jget claims ''sub''),
     stringClaim (header_json (input ''x-pomerium-claim-sub'')),
     stringClaim (header_json (input ''x-pomerium-claim-user''))]"

definition consoleIdentityFromHeaders :: "identityEnv \<Rightarrow> headers \<Rightarrow> appError + platformIdentity" where
  "consoleIdentityFromHeaders env input =
    (let claims = decodePomeriumAssertion (input ''x-pomerium-jwt-assertion'');
         email = headerEmail claims input;
         local = hd (js_split (CHR ''@'') email);
         name = (case first_claim [stringClaim (jget claims ''name''),
             stringClaim (header_json (input ''x-pomerium-claim-name''))] of Some n \<Rightarrow> n
           | None \<Rightarrow> if local \<noteq> [] then local else idn_unnamed env) in
     case (email, headerSubject claims input) of
       (_ # _, Some subject) \<Rightarrow>
         Inr \<lparr>ci_principalIssuer = principalIssuerOf env,
           ci_principalSubject = brokerSubject env (loginIssuerOf env) subject,
           ci_email = email, ci_name = name, ci_admin = isConsoleAdminEmail env email,
           pi_upstreamIssuer = loginIssuerOf env, pi_upstreamSubject = subject,
           pi_groups = stringArrayClaim (jget claims ''groups''),
           pi_preferredUsername = stringClaim (jget claims ''preferred_username'')\<rparr>
     | _ \<Rightarrow> if developmentEnabled env then Inr (developmentIdentity env)
         else Inl (AuthError ''identity_incomplete'' 401))"

definition linkedConsoleIdentity :: "identityEnv \<Rightarrow> linkedIdentity \<Rightarrow> platformIdentity" where
  "linkedConsoleIdentity env linked = \<lparr>ci_principalIssuer = li_principalIssuer linked,
     ci_principalSubject = li_principalSubject linked, ci_email = js_lower (li_email linked),
     ci_name = li_name linked, ci_admin = isConsoleAdminEmail env (li_email linked),
     pi_upstreamIssuer = li_principalIssuer linked, pi_upstreamSubject = li_principalSubject linked,
     pi_groups = [], pi_preferredUsername = None\<rparr>"

fun sessionMessage :: "sessionError \<Rightarrow> string" where
  "sessionMessage SessionInvalid = ''session_invalid''"
| "sessionMessage SessionKeyMissing = ''session_key_missing''"
| "sessionMessage SessionExpired = ''session_expired''"

definition sessionIdentityOf :: "identityEnv \<Rightarrow> string \<Rightarrow> int \<Rightarrow> db \<Rightarrow> appError + platformIdentity" where
  "sessionIdentityOf env token now d =
    (case verifyWeComConsoleSession (idn_crypto env) (idn_sessionSecret env) token now of
       Inl e \<Rightarrow> Inl (AuthError (sessionMessage e) 401)
     | Inr claims \<Rightarrow>
         bindE (getWeComLinkedPlatformIdentity (si_principalIssuer claims) (si_principalSubject claims)
             (sc_linkId claims) d) (\<lambda>linked.
           case linked of None \<Rightarrow> Inl (AuthError ''link_removed'' 401)
           | Some l \<Rightarrow> Inr (linkedConsoleIdentity env l)))"

definition configuredAudiences :: "identityEnv \<Rightarrow> string list" where
  "configuredAudiences env = filter (\<lambda>a. a \<noteq> []) (map js_trim
     (js_split (CHR '','') (or_default (idn_jwtAudience env) [])))"

text \<open>The expected audiences: the option of the caller, else the configured ones, else none.\<close>

definition expectedAudience :: "identityEnv \<Rightarrow> string list option \<Rightarrow> string list option" where
  "expectedAudience env option_audience = (case option_audience of Some a \<Rightarrow> Some a
     | None \<Rightarrow> if configuredAudiences env = [] then None else Some (configuredAudiences env))"

definition getConsoleIdentity ::
    "identityEnv \<Rightarrow> string list option \<Rightarrow> headers \<Rightarrow> int \<Rightarrow> db \<Rightarrow> appError + platformIdentity" where
  "getConsoleIdentity env option_audience input now d =
    (if developmentEnabled env then consoleIdentityFromHeaders env input
     else case or_default (input ''x-pomerium-jwt-assertion'') [] of
       (c # cs) \<Rightarrow>
         (case or_default (map_option js_trim (idn_publicKeyPath env)) [] of [] \<Rightarrow> Inl (AuthError ''public_key_missing'' 503)
          | (p # ps) \<Rightarrow> (case idn_readFile env (p # ps) of None \<Rightarrow> Inl (AuthError ''public_key_unreadable'' 503)
              | Some publicKey \<Rightarrow>
                  bindE (verifyPomeriumAssertion env (c # cs) publicKey (expectedAudience env option_audience)
                    (map_option js_trim (idn_jwtIssuer env)) now) (\<lambda>_. consoleIdentityFromHeaders env input)))
     | [] \<Rightarrow> (case or_default (readWeComConsoleSessionCookie (input ''cookie'')) [] of
           [] \<Rightarrow> Inl (AuthError ''no_session'' 401)
         | (t # ts) \<Rightarrow> sessionIdentityOf env (t # ts) now d))"

definition requireConsoleAdmin :: "identityEnv \<Rightarrow> headers \<Rightarrow> int \<Rightarrow> db \<Rightarrow> appError + platformIdentity" where
  "requireConsoleAdmin env input now d = bindE (getConsoleIdentity env None input now d) (\<lambda>identity.
     if ci_admin identity then Inr identity else Inl (AuthError ''admins_only'' 403))"

section \<open>The middleware\<close>

datatype proxyResponse = PassOn | JsonError string int bool | RedirectTo string bool

definition assertionEmail :: "headers \<Rightarrow> string" where
  "assertionEmail input =
    (let direct = js_lower (js_trim (or_default (input ''x-pomerium-claim-email'') [])) in
     if direct \<noteq> [] then direct
     else case js_split (CHR ''.'') (or_default (input ''x-pomerium-jwt-assertion'') []) of
       header # payload # rest \<Rightarrow>
         if payload = [] then []
         else (case decodePart payload of Some v \<Rightarrow>
             if is_string (jget v ''email'') then js_lower (js_trim (the_string (jget v ''email''))) else []
           | None \<Rightarrow> [])
     | _ \<Rightarrow> [])"

definition proxyIsAdmin :: "identityEnv \<Rightarrow> string \<Rightarrow> bool" where
  "proxyIsAdmin env email \<longleftrightarrow> email \<in> set (filter (\<lambda>e. e \<noteq> []) (map (\<lambda>e. js_lower (js_trim e))
     (js_split (CHR '','') (or_default (idn_adminEmails env) ''admin@example.com''))))"

definition publicPath :: "string \<Rightarrow> bool" where
  "publicPath p \<longleftrightarrow> p = ''/api/services'' \<or> starts_with p ''/api/internal/'' \<or> starts_with p ''/_next/''
     \<or> p = ''/favicon.ico'' \<or> starts_with p ''/auth/wework/launch/'' \<or> p = ''/auth/wework/status''"

definition accountPath :: "string \<Rightarrow> bool" where
  "accountPath p \<longleftrightarrow> p = ''/account'' \<or> p = ''/client-setup'' \<or> p = ''/auth/wework/link''
     \<or> starts_with p ''/api/account/''"

definition proxySession :: "identityEnv \<Rightarrow> headers \<Rightarrow> int \<Rightarrow> sessionError + string" where
  "proxySession env input now = (case or_default (readWeComConsoleSessionCookie (input ''cookie'')) [] of
     [] \<Rightarrow> Inr []
   | (t # ts) \<Rightarrow> bindE (verifyWeComConsoleSession (idn_crypto env) (idn_sessionSecret env) (t # ts) now)
       (\<lambda>claims. Inr (si_email claims)))"

text \<open>The flag of an answer says that it clears the session cookie.\<close>

definition proxy :: "identityEnv \<Rightarrow> headers \<Rightarrow> int \<Rightarrow> string \<Rightarrow> proxyResponse" where
  "proxy env input now pathname =
    (if publicPath pathname then PassOn
     else case proxySession env input now of
       Inl e \<Rightarrow> if starts_with pathname ''/api/'' then JsonError ''session_invalid'' 401 True
         else RedirectTo pathname True
     | Inr sessionEmail \<Rightarrow>
         let email = (if assertionEmail input \<noteq> [] then assertionEmail input else sessionEmail) in
         if email = [] \<and> \<not> developmentEnabled env then JsonError ''unauthenticated'' 401 False
         else if accountPath pathname then PassOn
         else if \<not> developmentEnabled env \<and> \<not> proxyIsAdmin env email
         then (if starts_with pathname ''/api/'' then JsonError ''admins_only'' 403 False
               else RedirectTo ''/account'' False)
         else PassOn)"

section \<open>Administrators\<close>

lemma lower_char_idem [simp]: "lower_char (lower_char c) = lower_char c"
  by (auto simp: lower_char_def Let_def)

lemma is_space_lower [simp]: "is_space (lower_char c) \<longleftrightarrow> is_space c"
  by (auto simp: lower_char_def is_space_def Let_def)

lemma js_lower_idem [simp]: "js_lower (js_lower s) = js_lower s"
  by (simp add: js_lower_def)

lemma dropWhile_lower: "dropWhile is_space (map lower_char s) = map lower_char (dropWhile is_space s)"
  by (induction s) auto

lemma js_trim_lower: "js_trim (js_lower s) = js_lower (js_trim s)"
  by (simp add: js_trim_def js_lower_def dropWhile_lower rev_map)

lemma isConsoleAdminEmail_lower [simp]: "isConsoleAdminEmail env (js_lower e) = isConsoleAdminEmail env e"
  by (simp add: isConsoleAdminEmail_def js_trim_lower)

lemma proxyIsAdmin_eq: "proxyIsAdmin env e \<longleftrightarrow> e \<in> set (configuredAdminEmails env)"
  by (simp add: proxyIsAdmin_def configuredAdminEmails_def)

section \<open>Where an identity comes from\<close>

text \<open>An assertion in force: signed by the configured key, within its validity (with the half minute
  of tolerance on either side), for the expected audience.\<close>

definition withinValidity :: "json \<Rightarrow> int \<Rightarrow> bool" where
  "withinValidity claims now \<longleftrightarrow>
     (\<exists>until. numericClaim (jget claims ''exp'') = Some until \<and> of_int now < until + 30)
   \<and> (\<forall>from_time. numericClaim (jget claims ''nbf'') = Some from_time \<longrightarrow> from_time \<le> of_int now + 30)"

lemma outsideValidity_within: "\<not> outsideValidity claims now \<Longrightarrow> withinValidity claims now"
  by (auto simp: outsideValidity_def withinValidity_def split: option.split_asm)

definition assertionInForce :: "identityEnv \<Rightarrow> string list option \<Rightarrow> string \<Rightarrow> int \<Rightarrow> bool" where
  "assertionInForce env option_audience assertion now \<longleftrightarrow>
     (\<exists>path key header payload signature. map_option js_trim (idn_publicKeyPath env) = Some path
       \<and> idn_readFile env path = Some key \<and> js_split (CHR ''.'') assertion = [header, payload, signature]
       \<and> signedByKey env key header payload signature)
   \<and> withinValidity (decodePomeriumAssertion (Some assertion)) now
   \<and> (case expectedAudience env option_audience of None \<Rightarrow> True
      | Some as \<Rightarrow> list_ex (\<lambda>a. a \<in> set (audienceClaim (jget (decodePomeriumAssertion (Some assertion)) ''aud''))) as)"

lemma verifyPomeriumAssertion_Inr:
  assumes "verifyPomeriumAssertion env assertion key audience issuer now = Inr claims"
  obtains header payload signature where "js_split (CHR ''.'') assertion = [header, payload, signature]"
    "signedByKey env key header payload signature" "claims = decodePomeriumAssertion (Some assertion)"
    "withinValidity claims now"
    "case audience of None \<Rightarrow> True | Some as \<Rightarrow> list_ex (\<lambda>a. a \<in> set (audienceClaim (jget claims ''aud''))) as"
  using assms
  by (auto simp: verifyPomeriumAssertion_def Let_def simp del: jget.simps intro: that
      dest: outsideValidity_within split: list.split_asm if_split_asm option.split_asm)

lemma headers_identity:
  assumes "consoleIdentityFromHeaders env input = Inr identity" "\<not> developmentEnabled env"
  shows "ci_email identity = headerEmail (decodePomeriumAssertion (input ''x-pomerium-jwt-assertion'')) input
    \<and> headerSubject (decodePomeriumAssertion (input ''x-pomerium-jwt-assertion'')) input = Some (pi_upstreamSubject identity)
    \<and> ci_email identity \<noteq> []
    \<and> ci_principalIssuer identity = principalIssuerOf env
    \<and> ci_principalSubject identity = brokerSubject env (loginIssuerOf env) (pi_upstreamSubject identity)
    \<and> ci_admin identity = isConsoleAdminEmail env (ci_email identity)"
  using assms
  by (auto simp: consoleIdentityFromHeaders_def Let_def split: list.split_asm option.split_asm)

lemma or_default_Cons: "or_default v [] = c # cs \<Longrightarrow> v = Some (c # cs)"
  by (auto simp: or_default_def split: option.split_asm if_split_asm)

lemma session_identity:
  assumes "sessionIdentityOf env token now d = Inr identity"
  obtains claims row where "verifyWeComConsoleSession (idn_crypto env) (idn_sessionSecret env) token now = Inr claims"
    "row \<in> set (links d)" "lk_id row = sc_linkId claims"
    "lk_principal_issuer row = si_principalIssuer claims" "lk_principal_subject row = si_principalSubject claims"
    "ci_principalIssuer identity = lk_principal_issuer row" "ci_principalSubject identity = lk_principal_subject row"
    "ci_email identity = js_lower (lk_principal_email row)"
    "ci_admin identity = isConsoleAdminEmail env (lk_principal_email row)"
proof -
  obtain claims where c: "verifyWeComConsoleSession (idn_crypto env) (idn_sessionSecret env) token now = Inr claims"
    using assms by (auto simp: sessionIdentityOf_def split: sum.split_asm)
  with assms obtain l where l: "getWeComLinkedPlatformIdentity (si_principalIssuer claims) (si_principalSubject claims)
      (sc_linkId claims) d = Inr (Some l)" "identity = linkedConsoleIdentity env l"
    by (auto simp: sessionIdentityOf_def split: option.split_asm)
  then obtain row where row: "List.find (\<lambda>l. ownLink (si_principalIssuer claims) (si_principalSubject claims) l
      \<and> lk_id l = sc_linkId claims) (links d) = Some row" "linkedPlatformIdentity row = Inr l"
    by (auto simp: getWeComLinkedPlatformIdentity_def split: option.split_asm)
  from row(2) l(2) have "ci_principalIssuer identity = lk_principal_issuer row"
    "ci_principalSubject identity = lk_principal_subject row" "ci_email identity = js_lower (lk_principal_email row)"
    "ci_admin identity = isConsoleAdminEmail env (lk_principal_email row)"
    by (auto simp: linkedPlatformIdentity_def linkedConsoleIdentity_def split: if_split_asm)
  moreover from row(1) have "row \<in> set (links d)" "lk_id row = sc_linkId claims"
    "lk_principal_issuer row = si_principalIssuer claims" "lk_principal_subject row = si_principalSubject claims"
    by (auto simp: find_Some_iff ownLink_def)
  ultimately show ?thesis using that c by blast
qed

lemma console_identity_cases:
  assumes "getConsoleIdentity env option_audience input now d = Inr identity" "\<not> developmentEnabled env"
  obtains (assertion) assertion where "input ''x-pomerium-jwt-assertion'' = Some assertion" "assertion \<noteq> []"
      "assertionInForce env option_audience assertion now" "consoleIdentityFromHeaders env input = Inr identity"
  | (session) token where "or_default (input ''x-pomerium-jwt-assertion'') [] = []"
      "readWeComConsoleSessionCookie (input ''cookie'') = Some token" "token \<noteq> []"
      "sessionIdentityOf env token now d = Inr identity"
proof (cases "or_default (input ''x-pomerium-jwt-assertion'') []")
  case (Cons c cs)
  obtain path key where k: "map_option js_trim (idn_publicKeyPath env) = Some path" "idn_readFile env path = Some key"
    "\<exists>claims. verifyPomeriumAssertion env (c # cs) key (expectedAudience env option_audience)
      (map_option js_trim (idn_jwtIssuer env)) now = Inr claims" "consoleIdentityFromHeaders env input = Inr identity"
    using assms Cons
    by (auto simp: getConsoleIdentity_def dest!: or_default_Cons split: list.split_asm option.split_asm)
  obtain claims where "verifyPomeriumAssertion env (c # cs) key (expectedAudience env option_audience)
      (map_option js_trim (idn_jwtIssuer env)) now = Inr claims"
    using k(3) by blast
  then have "assertionInForce env option_audience (c # cs) now"
  proof (rule verifyPomeriumAssertion_Inr)
    fix header payload signature
    assume a: "js_split (CHR ''.'') (c # cs) = [header, payload, signature]" "signedByKey env key header payload signature"
      "claims = decodePomeriumAssertion (Some (c # cs))" "withinValidity claims now"
      "case expectedAudience env option_audience of None \<Rightarrow> True
        | Some as \<Rightarrow> list_ex (\<lambda>a. a \<in> set (audienceClaim (jget claims ''aud''))) as"
    then have "\<exists>path key header payload signature. map_option js_trim (idn_publicKeyPath env) = Some path
       \<and> idn_readFile env path = Some key \<and> js_split (CHR ''.'') (c # cs) = [header, payload, signature]
       \<and> signedByKey env key header payload signature" using k(1,2) by blast
    with a(3-5) show ?thesis unfolding assertionInForce_def by blast
  qed
  with assertion or_default_Cons[OF Cons] k(4) show ?thesis by blast
next
  case Nil
  then obtain c cs where "or_default (readWeComConsoleSessionCookie (input ''cookie'')) [] = c # cs"
    "sessionIdentityOf env (c # cs) now d = Inr identity"
    using assms by (auto simp: getConsoleIdentity_def split: list.split_asm)
  with session Nil or_default_Cons show ?thesis by blast
qed

text \<open>C5: Outside development mode the identity of a caller has one of two sources. Either the request
  carries a Pomerium assertion that the configured key signed with ES256, that is within its
  validity and meant for the expected audience; then the principal is the broker's subject of the
  login and the email is the signed one whenever the assertion carries an email. Or it carries no
  assertion but a console session that verifies and whose link still exists in the store for the
  session's principal; then principal and email are the link's. In both cases the caller is an
  administrator exactly if that email is configured.\<close>

theorem console_identity_sound:
  assumes "getConsoleIdentity env option_audience input now d = Inr identity" "\<not> developmentEnabled env"
  shows "ci_admin identity = isConsoleAdminEmail env (ci_email identity)
    \<and> ((\<exists>assertion. input ''x-pomerium-jwt-assertion'' = Some assertion \<and> assertionInForce env option_audience assertion now
         \<and> ci_principalSubject identity = brokerSubject env (loginIssuerOf env) (pi_upstreamSubject identity)
         \<and> (case stringClaim (jget (decodePomeriumAssertion (Some assertion)) ''email'') of None \<Rightarrow> True
            | Some e \<Rightarrow> ci_email identity = js_lower e)
         \<and> (case stringClaim (jget (decodePomeriumAssertion (Some assertion)) ''sub'') of None \<Rightarrow> True
            | Some u \<Rightarrow> pi_upstreamSubject identity = u))
      \<or> (\<exists>token claims row. readWeComConsoleSessionCookie (input ''cookie'') = Some token
         \<and> verifyWeComConsoleSession (idn_crypto env) (idn_sessionSecret env) token now = Inr claims
         \<and> row \<in> set (links d) \<and> lk_id row = sc_linkId claims
         \<and> ci_principalIssuer identity = lk_principal_issuer row \<and> lk_principal_issuer row = si_principalIssuer claims
         \<and> ci_principalSubject identity = lk_principal_subject row \<and> lk_principal_subject row = si_principalSubject claims
         \<and> ci_email identity = js_lower (lk_principal_email row)))"
  using assms
proof (rule console_identity_cases)
  fix assertion
  assume a: "input ''x-pomerium-jwt-assertion'' = Some assertion" "assertionInForce env option_audience assertion now"
    "consoleIdentityFromHeaders env input = Inr identity"
  from headers_identity[OF a(3) assms(2)] a(1,2) show ?thesis
    by (auto simp: headerEmail_def headerSubject_def first_claim_def split: option.split)
next
  fix token
  assume t: "readWeComConsoleSessionCookie (input ''cookie'') = Some token" "sessionIdentityOf env token now d = Inr identity"
  from t(2) show ?thesis
  proof (rule session_identity)
    fix claims row
    assume "verifyWeComConsoleSession (idn_crypto env) (idn_sessionSecret env) token now = Inr claims"
      "row \<in> set (links d)" "lk_id row = sc_linkId claims"
      "lk_principal_issuer row = si_principalIssuer claims" "lk_principal_subject row = si_principalSubject claims"
      "ci_principalIssuer identity = lk_principal_issuer row" "ci_principalSubject identity = lk_principal_subject row"
      "ci_email identity = js_lower (lk_principal_email row)"
      "ci_admin identity = isConsoleAdminEmail env (lk_principal_email row)"
    with t(1) show ?thesis by (intro conjI disjI2) auto
  qed
qed


section \<open>The cookie carries an issued session\<close>

definition tokenChar :: "char \<Rightarrow> bool" where
  "tokenChar c \<longleftrightarrow> base64url_char c \<or> c = CHR ''.''"

lemma tokenChar_not: "tokenChar c \<Longrightarrow> c \<noteq> CHR '';'' \<and> c \<noteq> CHR ''='' \<and> c \<noteq> CHR ''%'' \<and> \<not> is_space c"
  by (auto simp: tokenChar_def base64url_char_def is_alnum_def is_digit_def is_lower_def is_upper_def code_unit_def is_space_def)

lemma issued_token_chars:
  assumes "issueWeComConsoleSession cr secret identity linkId now = Inr token"
  shows "list_all tokenChar token \<and> token \<noteq> []"
proof -
  have "list_all tokenChar (base64url_encode s)" for s
    using base64url_encode_chars by (auto simp: list_all_iff tokenChar_def)
  moreover have "list_all tokenChar SESSION_VERSION" "tokenChar (CHR ''.'')"
    by (simp_all add: SESSION_VERSION_def tokenChar_def base64url_char_def is_alnum_def is_lower_def is_digit_def code_unit_def)
  ultimately show ?thesis
    by - (rule issue_Inr[OF assms], simp add: SESSION_VERSION_def)
qed

lemma decode_plain: "list_all tokenChar s \<Longrightarrow> decodeURIComponent s = Some s"
  by (induction s) (auto dest: tokenChar_not)

lemma token_trim: "list_all tokenChar s \<Longrightarrow> js_trim s = s"
proof (rule js_trim_id)
  assume a: "list_all tokenChar s"
  show "s = [] \<or> \<not> is_space (hd s) \<and> \<not> is_space (last s)"
  proof (cases "s = []")
    case False
    with a have "tokenChar (hd s)" "tokenChar (last s)" by (simp_all add: list_all_iff)
    then show ?thesis using tokenChar_not by blast
  qed simp
qed

lemma cookie_carries:
  assumes "list_all tokenChar token" "token \<noteq> []"
  shows "readWeComConsoleSessionCookie (Some (WECOM_CONSOLE_SESSION_COOKIE @ CHR ''='' # token)) = Some token"
proof -
  define h where "h = WECOM_CONSOLE_SESSION_COOKIE @ CHR ''='' # token"
  have name: "\<forall>c \<in> set WECOM_CONSOLE_SESSION_COOKIE. c \<noteq> CHR '';'' \<and> c \<noteq> CHR ''=''"
    "js_trim WECOM_CONSOLE_SESSION_COOKIE = WECOM_CONSOLE_SESSION_COOKIE"
    by (simp_all add: WECOM_CONSOLE_SESSION_COOKIE_def js_trim_def is_space_def code_unit_def)
  have "CHR '';'' \<notin> set h"
    using assms(1) name(1) tokenChar_not by (auto simp: h_def list_all_iff)
  then have split: "js_split (CHR '';'') h = [h]" by (rule js_split_word)
  have "takeWhile (\<lambda>c. c \<noteq> CHR ''='') h = WECOM_CONSOLE_SESSION_COOKIE"
    "tl (dropWhile (\<lambda>c. c \<noteq> CHR ''='') h) = token" "CHR ''='' \<in> set h" "h \<noteq> []"
    using name(1) by (simp_all add: h_def takeWhile_append2 dropWhile_append2)
  with name(2) have "cookieValue [h] = (if js_trim token = [] then None else decodeURIComponent (js_trim token))"
    by (simp add: Let_def)
  also have "\<dots> = Some token" using assms by (simp add: token_trim decode_plain)
  finally have "cookieValue (js_split (CHR '';'') h) = Some token" unfolding split .
  with \<open>h \<noteq> []\<close> have "readWeComConsoleSessionCookie (Some h) = Some token" by (simp add: readWeComConsoleSessionCookie_def)
  then show ?thesis unfolding h_def .
qed

section \<open>Concrete callers\<close>

definition demo_assertion_claims :: json where
  "demo_assertion_claims = JObj [(''sub'', JStr ''u1''), (''email'', JStr ''Ann@Example.com''), (''exp'', JNum (Fin (of_int 5000)))]"

definition demo_assertion :: string where
  "demo_assertion = js_join ''.'' (map (\<lambda>v. base64url_encode (utf8_encode (the (jsonText v))))
     [JObj [(''alg'', JStr ''ES256'')], demo_assertion_claims, JNull])"

definition demo_identity_env :: identityEnv where
  "demo_identity_env = \<lparr>idn_crypto = demo_crypto, idn_verify = (\<lambda>k t s. Some True), idn_readFile = (\<lambda>p. Some ''key''),
     idn_publicKeyPath = Some ''/key'', idn_jwtAudience = None, idn_jwtIssuer = None,
     idn_adminEmails = Some ''ann@example.com'', idn_devEnabled = None, idn_devEmail = None, idn_devSubject = None,
     idn_devName = None, idn_loginIssuer = None, idn_issuer = None, idn_sessionSecret = demo_session_key,
     idn_unnamed = ''x'', idn_devUnnamed = ''y''\<rparr>"

lemma demo_identity_env_facts:
  "\<not> developmentEnabled demo_identity_env" "idn_readFile demo_identity_env path = Some ''key''"
  "or_default (map_option js_trim (idn_publicKeyPath demo_identity_env)) [] = ''/key''"
  "idn_jwtIssuer demo_identity_env = None" "expectedAudience demo_identity_env None = None"
  by (simp_all add: demo_identity_env_def developmentEnabled_def or_default_def expectedAudience_def
      configuredAudiences_def js_trim_def is_space_def code_unit_def)

lemma decodePart_text:
  assumes "json_ok v" "jsonText v = Some t"
  shows "decodePart (base64url_encode (utf8_encode t)) = Some v"
  using json_round_trip[OF assms] by (simp add: decodePart_def)

lemma demo_texts: "\<exists>t. jsonText (JObj [(''alg'', JStr ''ES256'')]) = Some t"
  "\<exists>t. jsonText demo_assertion_claims = Some t" "\<exists>t. jsonText JNull = Some t"
  by (simp_all add: demo_assertion_claims_def writable_def del: of_int_numeral)

lemma demo_assertion_parts:
  obtains h p g where "js_split (CHR ''.'') demo_assertion = [h, p, g]" "h \<noteq> []" "p \<noteq> []" "g \<noteq> []"
    "decodePart h = Some (JObj [(''alg'', JStr ''ES256'')])" "decodePart p = Some demo_assertion_claims"
proof -
  obtain a b c where t: "jsonText (JObj [(''alg'', JStr ''ES256'')]) = Some a" "jsonText demo_assertion_claims = Some b"
    "jsonText JNull = Some c" using demo_texts by blast
  have ok: "json_ok (JObj [(''alg'', JStr ''ES256'')])" "json_ok demo_assertion_claims"
    by (simp_all add: demo_assertion_claims_def writable_def del: of_int_numeral)
  have "utf8_encode s \<noteq> []" if "jsonText v = Some s" for v s
    using jsonText_start[OF that] by (cases s) (auto simp: value_start_def utf8_encode_def utf8_char_def Let_def)
  note ne = this[OF t(1)] this[OF t(2)] this[OF t(3)]
  show ?thesis
    by (rule that[of "base64url_encode (utf8_encode a)" "base64url_encode (utf8_encode b)" "base64url_encode (utf8_encode c)"])
      (use ne in \<open>simp_all add: demo_assertion_def t decodePart_text[OF ok(1) t(1)] decodePart_text[OF ok(2) t(2)]
        js_split_append js_split_word base64url_no_dot del: jsonText.simps json_ok.simps\<close>)
qed

definition demo_assertion_headers :: headers where
  "demo_assertion_headers name = (if name = ''x-pomerium-jwt-assertion'' then Some demo_assertion else None)"

lemma demo_assertion_ne: "demo_assertion \<noteq> []"
proof (rule demo_assertion_parts)
  fix h p g
  assume "js_split (CHR ''.'') demo_assertion = [h, p, g]"
  then show ?thesis by (cases "demo_assertion = []") simp_all
qed

lemma demo_identity: "\<exists>identity. getConsoleIdentity demo_identity_env None demo_assertion_headers 1000 empty_db = Inr identity"
proof (rule demo_assertion_parts)
  fix h p g
  assume parts: "js_split (CHR ''.'') demo_assertion = [h, p, g]" "h \<noteq> []" "p \<noteq> []" "g \<noteq> []"
    "decodePart h = Some (JObj [(''alg'', JStr ''ES256'')])" "decodePart p = Some demo_assertion_claims"
  have claims: "decodePomeriumAssertion (Some demo_assertion) = demo_assertion_claims"
    using parts by (simp add: decodePomeriumAssertion_def) (simp add: demo_assertion_claims_def)
  have "\<not> outsideValidity demo_assertion_claims 1000"
    by (simp add: outsideValidity_def numericClaim_def demo_assertion_claims_def del: of_int_numeral)
  with parts claims have v: "verifyPomeriumAssertion demo_identity_env demo_assertion ''key'' None None 1000 = Inr demo_assertion_claims"
    by (simp add: verifyPomeriumAssertion_def signedByKey_def) (simp add: demo_identity_env_def)
  have "headerEmail demo_assertion_claims demo_assertion_headers \<noteq> []"
    by (simp add: headerEmail_def first_claim_def stringClaim_def demo_assertion_claims_def js_trim_def is_space_def
        js_lower_def code_unit_def)
  moreover have "headerSubject demo_assertion_claims demo_assertion_headers = Some ''u1''"
    by (simp add: headerSubject_def first_claim_def stringClaim_def demo_assertion_claims_def js_trim_def is_space_def code_unit_def)
  moreover have "demo_assertion_headers ''x-pomerium-jwt-assertion'' = Some demo_assertion"
    by (simp add: demo_assertion_headers_def)
  ultimately have "\<exists>identity. consoleIdentityFromHeaders demo_identity_env demo_assertion_headers = Inr identity"
    by (auto simp: consoleIdentityFromHeaders_def claims Let_def neq_Nil_conv)
  then obtain identity where i: "consoleIdentityFromHeaders demo_identity_env demo_assertion_headers = Inr identity" ..
  obtain c cs where a: "demo_assertion = c # cs" using demo_assertion_ne by (cases demo_assertion) auto
  have "or_default (demo_assertion_headers ''x-pomerium-jwt-assertion'') [] = c # cs"
    by (simp add: demo_assertion_headers_def or_default_def a)
  then show ?thesis
    using v[unfolded a] i by (simp add: getConsoleIdentity_def demo_identity_env_facts)
qed

theorem console_identity_sound_witness:
  "\<exists>identity. getConsoleIdentity demo_identity_env None demo_assertion_headers 1000 empty_db = Inr identity
    \<and> ci_admin identity = isConsoleAdminEmail demo_identity_env (ci_email identity)"
proof -
  obtain identity where i: "getConsoleIdentity demo_identity_env None demo_assertion_headers 1000 empty_db = Inr identity"
    using demo_identity by blast
  have "\<not> developmentEnabled demo_identity_env" by (rule demo_identity_env_facts)
  from console_identity_sound[OF i this] i show ?thesis by blast
qed

definition demo_email_headers :: headers where
  "demo_email_headers name = (if name = ''x-pomerium-claim-email'' then Some ''ann@example.com'' else None)"


section \<open>A removed link\<close>

text \<open>The middleware does not look the link of a session up: an administrator's session passes every
  route until it expires, although reading the identity refuses it as soon as its link is removed.
  Routes that do not read the identity themselves stay open to it.\<close>

theorem removed_link_passes_proxy:
  assumes "\<not> developmentEnabled env" "input ''x-pomerium-jwt-assertion'' = None" "input ''x-pomerium-claim-email'' = None"
    and "readWeComConsoleSessionCookie (input ''cookie'') = Some token" "token \<noteq> []"
    and "verifyWeComConsoleSession (idn_crypto env) (idn_sessionSecret env) token now = Inr claims"
    and "si_email claims \<noteq> []" "si_email claims \<in> set (configuredAdminEmails env)"
    and "list_all (\<lambda>l. lk_id l \<noteq> sc_linkId claims) (links d)"
  shows "proxy env input now pathname = PassOn
    \<and> getConsoleIdentity env option_audience input now d = Inl (AuthError ''link_removed'' 401)"
proof -
  obtain c cs where t: "token = c # cs" using assms(5) by (cases token) auto
  have "assertionEmail input = []" using assms(2,3) by (simp add: assertionEmail_def or_default_def js_trim_def js_lower_def)
  then have "proxy env input now pathname = PassOn"
    using assms(1,4-8) t by (simp add: proxy_def proxySession_def or_default_def proxyIsAdmin_eq)
  moreover have "List.find (\<lambda>l. ownLink (si_principalIssuer claims) (si_principalSubject claims) l \<and> lk_id l = sc_linkId claims)
      (links d) = None"
    using assms(9) by (auto simp: find_None_iff list_all_iff)
  then have "sessionIdentityOf env token now d = Inl (AuthError ''link_removed'' 401)"
    using assms(6) by (simp add: sessionIdentityOf_def getWeComLinkedPlatformIdentity_def)
  then have "getConsoleIdentity env option_audience input now d = Inl (AuthError ''link_removed'' 401)"
    using assms(1,2,4) t by (simp add: getConsoleIdentity_def or_default_def)
  ultimately show ?thesis by blast
qed

theorem removed_link_passes_proxy_witness:
  "\<exists>token. proxy demo_identity_env (\<lambda>name. if name = ''cookie'' then Some (WECOM_CONSOLE_SESSION_COOKIE @ CHR ''='' # token) else None)
      2000 ''/api/config'' = PassOn"
proof -
  obtain token where i: "issueWeComConsoleSession demo_crypto demo_session_key demo_employee demo_link_id 1000 = Inr token"
    using demo_issued by (auto simp: is_ok_iff)
  have v: "verifyWeComConsoleSession demo_crypto demo_session_key token 2000 = Inr (issuedClaims demo_employee demo_link_id 1000)"
    using demo_verified_token[OF i] .
  define input where "input = (\<lambda>name. if name = ''cookie'' then Some (WECOM_CONSOLE_SESSION_COOKIE @ CHR ''='' # token) else None)"
  have c: "readWeComConsoleSessionCookie (input ''cookie'') = Some token"
    using cookie_carries issued_token_chars[OF i] by (simp add: input_def)
  have e: "si_email (issuedClaims demo_employee demo_link_id 1000) = ''ann@example.com''"
    by (simp add: issuedClaims_def demo_employee_def js_trim_def is_space_def js_lower_def lower_char_def code_unit_def) code_simp
  have "proxy demo_identity_env input 2000 ''/api/config'' = PassOn
      \<and> getConsoleIdentity demo_identity_env None input 2000 empty_db = Inl (AuthError ''link_removed'' 401)"
  proof (rule removed_link_passes_proxy)
    show "readWeComConsoleSessionCookie (input ''cookie'') = Some token" by (rule c)
    show "verifyWeComConsoleSession (idn_crypto demo_identity_env) (idn_sessionSecret demo_identity_env) token 2000
        = Inr (issuedClaims demo_employee demo_link_id 1000)"
      using v by (simp add: demo_identity_env_def)
    show "si_email (issuedClaims demo_employee demo_link_id 1000) \<in> set (configuredAdminEmails demo_identity_env)"
      by (simp add: e configuredAdminEmails_def demo_identity_env_def or_default_def js_trim_def is_space_def js_lower_def
          lower_char_def code_unit_def)
    show "list_all (\<lambda>l. lk_id l \<noteq> sc_linkId (issuedClaims demo_employee demo_link_id 1000)) (links empty_db)"
      by (simp add: empty_db_def)
  qed (use issued_token_chars[OF i] e in \<open>simp_all add: demo_identity_env_facts input_def\<close>)
  then show ?thesis unfolding input_def by blast
qed

end
