(* ===== verification/Wecom_Launch.thy ===== *)
theory Wecom_Launch
  imports Wecom_Authentication Console_Identity
begin

text \<open>
  The two routes that end a WeCom login (src/ai-console/src/app/auth/wework/launch/[ticket]/route.ts
  and src/ai-console/src/app/auth/wework/link/route.ts): the relay's ticket opens a session for an
  employee whose identity is linked, or starts the linking; the platform login completes it. The
  clock is in milliseconds here; the tokens and the relay's answer are parameters.
\<close>

record launchEnv =
  ln_relay :: relayEnv
  ln_identity :: identityEnv
  ln_fetch :: relayFetch

definition linkEnvOf :: "launchEnv \<Rightarrow> linkEnv" where
  "linkEnvOf env = \<lparr>le_crypto = idn_crypto (ln_identity env),
     le_url = (\<lambda>s. map_option parsedUrl.truncate (re_url (ln_relay env) s))\<rparr>"

datatype launchError = RelayFailure relayErrorCode | StoreFailure appError | OtherFailure

text \<open>A redirect sets the two cookies: the session, and the link cookie with its value and age. Without
  one the handler throws, and the server answers 500.\<close>

record launchResponse =
  lx_location :: string
  lx_session :: "string option"
  lx_link :: "(string \<times> int) option"

definition wecomIdentityLinkCookieOptions :: "int \<Rightarrow> cookieOptions" where
  "wecomIdentityLinkCookieOptions maxAge = \<lparr>co_httpOnly = True, co_maxAge = maxAge, co_path = ''/auth/wework'',
     co_sameSite = ''lax'', co_secure = True\<rparr>"

definition storeResult :: "appError \<Rightarrow> string" where
  "storeResult e = (case e of StoreError r \<Rightarrow>
       (if se_code r = Some ''expired_wecom_link_request'' then ''expired''
        else if se_code r = Some ''wecom_identity_conflict'' then ''conflict''
        else if se_code r = Some ''invalid_wecom_identity'' \<or> se_code r = Some ''invalid_wecom_link_request'' then ''invalid''
        else ''failed'')
     | _ \<Rightarrow> ''failed'')"

fun resultFor :: "launchError \<Rightarrow> string" where
  "resultFor (RelayFailure c) = (if c = AccessDenied then ''denied'' else if c = InvalidRelayResult then ''invalid'' else ''failed'')"
| "resultFor (StoreFailure e) = storeResult e"
| "resultFor OtherFailure = ''failed''"

fun liftError :: "('e \<Rightarrow> launchError) \<Rightarrow> 'e + 'a \<Rightarrow> launchError + 'a" where
  "liftError f (Inl e) = Inl (f e)"
| "liftError f (Inr v) = Inr v"

lemma liftError_eq [simp]: "liftError f r = Inr v \<longleftrightarrow> r = Inr v"
  by (cases r) auto

definition failedLaunchResponse :: "launchEnv \<Rightarrow> string \<Rightarrow> launchResponse option" where
  "failedLaunchResponse env result = map_option (\<lambda>u. \<lparr>lx_location = u, lx_session = None, lx_link = None\<rparr>)
     (wecomIdentityStatusUrl (ln_relay env) result)"

definition sessionOf :: "linkedIdentity \<Rightarrow> sessionIdentity" where
  "sessionOf i = \<lparr>si_principalIssuer = li_principalIssuer i, si_principalSubject = li_principalSubject i,
     si_email = li_email i, si_name = li_name i\<rparr>"

definition issueSession :: "launchEnv \<Rightarrow> sessionIdentity \<Rightarrow> string \<Rightarrow> int \<Rightarrow> launchError + string" where
  "issueSession env identity linkId now = liftError (\<lambda>_. OtherFailure)
     (issueWeComConsoleSession (idn_crypto (ln_identity env)) (idn_sessionSecret (ln_identity env)) identity linkId (now div 1000))"

definition orFail :: "string option \<Rightarrow> launchError + string" where
  "orFail v = (case v of None \<Rightarrow> Inl OtherFailure | Some s \<Rightarrow> Inr s)"

definition launchAnswer :: "launchEnv \<Rightarrow> int \<Rightarrow> string \<Rightarrow> string \<Rightarrow> resolveResult \<Rightarrow> launchError + launchResponse" where
  "launchAnswer env now requestToken browserNonce resolution = (case resolution of
     Linked identity \<Rightarrow>
       bindE (orFail (wecomIdentityLinkResultUrl (ln_relay env) ''restored'')) (\<lambda>url.
       bindE (issueSession env (sessionOf identity) (li_linkId identity) now) (\<lambda>token.
         Inr \<lparr>lx_location = url, lx_session = Some token, lx_link = Some ([], 0)\<rparr>))
   | LoginRequired \<Rightarrow>
       bindE (orFail (wecomIdentityLinkLoginUrl (ln_relay env) requestToken)) (\<lambda>url.
         Inr \<lparr>lx_location = url, lx_session = None, lx_link = Some (browserNonce, 30 * 60)\<rparr>))"

definition launchIdentity :: "launchEnv \<Rightarrow> string \<Rightarrow> int \<Rightarrow> db \<Rightarrow> launchError + (string \<times> relayIdentity)" where
  "launchIdentity env ticket now d =
    bindE (liftError RelayFailure (readWeComRelayResultHandoff (ln_relay env) ticket (now div 1000))) (\<lambda>callback.
    bindE (liftError StoreFailure (getWeComOrganizationIdForRelay callback d)) (\<lambda>organizationId.
    bindE (liftError RelayFailure (consumeWeComRelayIdentity (ln_relay env) (ln_fetch env) ticket callback)) (\<lambda>identity.
      Inr (organizationId, identity))))"

definition launchRun :: "launchEnv \<Rightarrow> string \<Rightarrow> int \<Rightarrow> string \<Rightarrow> string \<Rightarrow> db \<Rightarrow> (launchError + launchResponse) \<times> db" where
  "launchRun env ticket now requestToken browserNonce d =
    (case launchIdentity env ticket now d of Inl e \<Rightarrow> (Inl e, d)
     | Inr (organizationId, identity) \<Rightarrow>
       (case createWeComIdentityLoginRequest (linkEnvOf env) now requestToken browserNonce organizationId d of
          (Inl e, d1) \<Rightarrow> (Inl (StoreFailure e), d1)
        | (Inr tokens, d1) \<Rightarrow>
          (case resolveWeComIdentityLoginRequest (linkEnvOf env) now (fst tokens) (snd tokens) identity d1 of
             (Inl e, d2) \<Rightarrow> (Inl (StoreFailure e), d2)
           | (Inr resolution, d2) \<Rightarrow> (launchAnswer env now (fst tokens) (snd tokens) resolution, d2))))"

definition launchGet ::
    "launchEnv \<Rightarrow> string \<Rightarrow> string \<Rightarrow> int \<Rightarrow> string \<Rightarrow> string \<Rightarrow> db \<Rightarrow> launchResponse option \<times> db" where
  "launchGet env search ticket now requestToken browserNonce d =
    (if search \<noteq> [] then (failedLaunchResponse env ''failed'', d)
     else case launchRun env ticket now requestToken browserNonce d of
       (Inl e, d') \<Rightarrow> (failedLaunchResponse env (resultFor e), d')
     | (Inr response, d') \<Rightarrow> (Some response, d'))"

section \<open>Completing the link after the platform login\<close>

definition linkResult :: "launchError \<Rightarrow> string" where
  "linkResult e = (case e of StoreFailure r \<Rightarrow> storeResult r | _ \<Rightarrow> ''failed'')"

definition completeLink ::
    "launchEnv \<Rightarrow> headers \<Rightarrow> int \<Rightarrow> string \<Rightarrow> string \<Rightarrow> string \<Rightarrow> db \<Rightarrow> (launchError + string) \<times> db" where
  "completeLink env input now uuid requestToken browserNonce d =
    (case bindE (orFail (aiConsoleAudience (ln_relay env))) (\<lambda>audience.
        liftError StoreFailure (getConsoleIdentity (ln_identity env) (if audience = [] then None else Some [audience])
          input (now div 1000) d)) of
       Inl e \<Rightarrow> (Inl e, d)
     | Inr identity \<Rightarrow>
       (case completeVerifiedWeComIdentityLinkRequest (linkEnvOf env) now uuid requestToken browserNonce
            (consoleIdentity.truncate identity) d of
          (Inl e, d') \<Rightarrow> (Inl (StoreFailure e), d')
        | (Inr linkId, d') \<Rightarrow>
            (issueSession env \<lparr>si_principalIssuer = ci_principalIssuer identity, si_principalSubject = ci_principalSubject identity,
               si_email = ci_email identity, si_name = ci_name identity\<rparr> linkId now, d')))"

definition linkGet :: "launchEnv \<Rightarrow> headers \<Rightarrow> int \<Rightarrow> string \<Rightarrow> string \<Rightarrow> string \<Rightarrow> db \<Rightarrow> launchResponse option \<times> db" where
  "linkGet env input now uuid requestToken browserNonce d =
    (case completeLink env input now uuid requestToken browserNonce d of (r, d') \<Rightarrow>
      (map_option (\<lambda>url. \<lparr>lx_location = url,
          lx_session = (case r of Inl e \<Rightarrow> None | Inr token \<Rightarrow> Some token), lx_link = Some ([], 0)\<rparr>)
        (wecomIdentityLinkResultUrl (ln_relay env) (case r of Inl e \<Rightarrow> linkResult e | Inr token \<Rightarrow> ''linked'')), d'))"

section \<open>Whom a launch logs in\<close>

lemma createBody_Inr:
  assumes "createBody env now t n g d = Inr (tokens, d')"
  shows "tokens = (t, n) \<and> db_ok d' \<and> organizations d' = organizations d \<and> links d' = links d
    \<and> newLoginRow (sha256hex (le_crypto env) t) (sha256hex (le_crypto env) n) g now \<in> set (logins d')"
  using assms by (auto simp: createBody_def)

lemma create_Inr:
  assumes "createWeComIdentityLoginRequest env now t n g d = (Inr tokens, d')"
  shows "tokens = (t, n) \<and> db_ok d' \<and> organizations d' = organizations d \<and> links d' = links d
    \<and> newLoginRow (sha256hex (le_crypto env) t) (sha256hex (le_crypto env) n) g now \<in> set (logins d')"
  using assms by (intro createBody_Inr) (simp add: createWeComIdentityLoginRequest_def transaction_result)

lemma failed_no_session: "failedLaunchResponse env result = Some r \<Longrightarrow> lx_session r = None"
  by (auto simp: failedLaunchResponse_def)

lemma launchGet_session:
  assumes "launchGet env search ticket now t n d = (Some r, d')" "lx_session r = Some token"
  shows "launchRun env ticket now t n d = (Inr r, d')"
  using assms failed_no_session
  by (force simp: launchGet_def split: if_split_asm prod.split_asm sum.split_asm)

lemma launchAnswer_session:
  assumes "launchAnswer env now t n resolution = Inr r" "lx_session r = Some token"
  obtains identity where "resolution = Linked identity"
    "issueSession env (sessionOf identity) (li_linkId identity) now = Inr token"
  using assms by (auto simp: launchAnswer_def split: resolveResult.split_asm intro: that)

lemma launchIdentity_Inr:
  assumes "launchIdentity env ticket now d = Inr (organizationId, identity)"
  obtains callback where "readWeComRelayResultHandoff (ln_relay env) ticket (now div 1000) = Inr callback"
    "getWeComOrganizationIdForRelay callback d = Inr organizationId"
    "consumeWeComRelayIdentity (ln_relay env) (ln_fetch env) ticket callback = Inr identity"
  using assms by (auto simp: launchIdentity_def intro: that)

lemma launchRun_session:
  assumes "launchRun env ticket now t n d = (Inr r, d')" "lx_session r = Some token"
  obtains organizationId relay d1 identity where "launchIdentity env ticket now d = Inr (organizationId, relay)"
    "createWeComIdentityLoginRequest (linkEnvOf env) now t n organizationId d = (Inr (t, n), d1)"
    "resolveWeComIdentityLoginRequest (linkEnvOf env) now t n relay d1 = (Inr (Linked identity), d')"
    "issueSession env (sessionOf identity) (li_linkId identity) now = Inr token"
proof -
  obtain g relay where l: "launchIdentity env ticket now d = Inr (g, relay)"
    using assms(1) by (auto simp: launchRun_def split: sum.split_asm)
  with assms(1) obtain tokens d1 where c: "createWeComIdentityLoginRequest (linkEnvOf env) now t n g d = (Inr tokens, d1)"
    by (auto simp: launchRun_def split: prod.split_asm sum.split_asm)
  then have tokens: "tokens = (t, n)" using create_Inr by blast
  with assms(1) l c obtain resolution where
    r: "resolveWeComIdentityLoginRequest (linkEnvOf env) now t n relay d1 = (Inr resolution, d')"
    "launchAnswer env now t n resolution = Inr r"
    by (auto simp: launchRun_def split: prod.split_asm sum.split_asm)
  from r(2) assms(2) show ?thesis
  proof (rule launchAnswer_session)
    fix identity
    assume "resolution = Linked identity" "issueSession env (sessionOf identity) (li_linkId identity) now = Inr token"
    with that l c r(1) tokens show ?thesis by blast
  qed
qed

lemma linkEnvOf_crypto [simp]: "le_crypto (linkEnvOf env) = idn_crypto (ln_identity env)"
  by (simp add: linkEnvOf_def)

text \<open>The session of a link: issued for its principal under its identifier.\<close>

definition sessionForLink :: "launchEnv \<Rightarrow> linkRow \<Rightarrow> int \<Rightarrow> string \<Rightarrow> bool" where
  "sessionForLink env l seconds token \<longleftrightarrow>
     issueWeComConsoleSession (idn_crypto (ln_identity env)) (idn_sessionSecret (ln_identity env))
       \<lparr>si_principalIssuer = lk_principal_issuer l, si_principalSubject = lk_principal_subject l,
        si_email = lk_principal_email l, si_name = lk_principal_name l\<rparr> (lk_id l) seconds = Inr token"

lemma launch_session:
  assumes "db_ok d" "launchGet env search ticket now t n d = (Some r, d')" "lx_session r = Some token"
  shows "\<exists>callback (g::organizationRow) relay w (l::linkRow). readWeComRelayResultHandoff (ln_relay env) ticket (now div 1000) = Inr callback
    \<and> g \<in> set (organizations d) \<and> og_active g \<and> og_relay_callback_url g = Some callback
    \<and> consumeWeComRelayIdentity (ln_relay env) (ln_fetch env) ticket callback = Inr relay
    \<and> js_trim (ri_corpId relay) = js_trim (og_corp_id g)
    \<and> deriveTrustedWeComRelayIdentity (linkEnvOf env) relay (og_corp_id g) = Inr w
    \<and> filter (linkMatches w) (links d) = [l] \<and> sessionForLink env l (now div 1000) token
    \<and> links d' = links d \<and> spent (sha256hex (idn_crypto (ln_identity env)) t) d'"
  using launchGet_session[OF assms(2,3)] assms(3)
proof (rule launchRun_session)
  fix gid relay d1 identity
  assume l: "launchIdentity env ticket now d = Inr (gid, relay)"
    and c: "createWeComIdentityLoginRequest (linkEnvOf env) now t n gid d = (Inr (t, n), d1)"
    and res: "resolveWeComIdentityLoginRequest (linkEnvOf env) now t n relay d1 = (Inr (Linked identity), d')"
    and token: "issueSession env (sessionOf identity) (li_linkId identity) now = Inr token"
  obtain callback where cb: "readWeComRelayResultHandoff (ln_relay env) ticket (now div 1000) = Inr callback"
    "getWeComOrganizationIdForRelay callback d = Inr gid"
    "consumeWeComRelayIdentity (ln_relay env) (ln_fetch env) ticket callback = Inr relay"
    using l by (rule launchIdentity_Inr)
  obtain g where g: "g \<in> set (organizations d)" "relayCandidate callback g" "og_id g = gid"
    using cb(2) organization_for_relay[OF assms(1)] by blast
  from create_Inr[OF c] have d1: "db_ok d1" "organizations d1 = organizations d" "links d1 = links d"
    and new: "newLoginRow (sha256hex (le_crypto (linkEnvOf env)) t) (sha256hex (le_crypto (linkEnvOf env)) n) gid now \<in> set (logins d1)"
    by auto
  from resolve_linked[OF d1(1) res] obtain req g' w l where q: "List.find (openLogin (linkEnvOf env) t n) (logins d1) = Some req"
    "g' \<in> set (organizations d1)" "Some (og_id g') = lr_organization_id req" "js_trim (ri_corpId relay) = js_trim (og_corp_id g')"
    "deriveTrustedWeComRelayIdentity (linkEnvOf env) relay (og_corp_id g') = Inr w"
    "filter (linkMatches w) (links d1) = [l]" "linkedPlatformIdentity l = Inr identity" "links d' = links d1"
    "spent (sha256hex (le_crypto (linkEnvOf env)) t) d'"
    by blast
  have "lr_request_hash req = sha256hex (le_crypto (linkEnvOf env)) t" using find_open[OF q(1)] by blast
  then have "newLoginRow (sha256hex (le_crypto (linkEnvOf env)) t) (sha256hex (le_crypto (linkEnvOf env)) n) gid now = req"
    by (intro open_unique[OF d1(1) q(1) new]) (simp add: newLoginRow_def)
  then have "og_id g' = gid" using q(3) by (auto simp: newLoginRow_def)
  moreover have "unique_by og_id (organizations d)"
    using assms(1) by (simp add: db_ok_def uniques_ok_def organizations_unique_def)
  ultimately have "g' = g" using unique_by_eq g(1,3) q(2) d1(2) by metis
  moreover have "sessionForLink env l (now div 1000) token"
    using token q(7) by (auto simp: issueSession_def sessionForLink_def sessionOf_def linkedPlatformIdentity_def split: if_split_asm)
  ultimately show ?thesis
    using cb(1,3) g(1,2) q(4-6,8,9) d1(3) by (auto simp: relayCandidate_def)
qed

text \<open>C6: A launch gives a session only to the employee the relay vouched for. The ticket is a fresh hand-off
  sealed under the relay key; its relay address names exactly one active organisation; the identity
  is the one that relay answered for this very ticket; its corporation is the organisation's; and
  exactly one link matches it. The session is issued for that link's account, the link table is
  left as it was, and the request the launch made is used up.\<close>

theorem launch_session_sound:
  assumes "db_ok d" "launchGet env search ticket now t n d = (Some r, d')" "lx_session r = Some token"
  shows "\<exists>callback (g::organizationRow) relay w (l::linkRow). readWeComRelayResultHandoff (ln_relay env) ticket (now div 1000) = Inr callback
    \<and> g \<in> set (organizations d) \<and> og_active g \<and> og_relay_callback_url g = Some callback
    \<and> consumeWeComRelayIdentity (ln_relay env) (ln_fetch env) ticket callback = Inr relay
    \<and> js_trim (ri_corpId relay) = js_trim (og_corp_id g)
    \<and> deriveTrustedWeComRelayIdentity (linkEnvOf env) relay (og_corp_id g) = Inr w
    \<and> filter (linkMatches w) (links d) = [l] \<and> sessionForLink env l (now div 1000) token
    \<and> links d' = links d \<and> spent (sha256hex (idn_crypto (ln_identity env)) t) d'"
  using assms by (rule launch_session)

section \<open>A launched session identifies the employee\<close>

definition linkedOf :: "linkRow \<Rightarrow> linkedIdentity" where
  "linkedOf l = \<lparr>li_linkId = lk_id l, li_organizationId = lk_organization_id l, li_principalIssuer = lk_principal_issuer l,
     li_principalSubject = lk_principal_subject l, li_email = lk_principal_email l, li_name = lk_principal_name l\<rparr>"

lemma trim_ne: "js_trim s \<noteq> [] \<Longrightarrow> s \<noteq> []"
  by auto

lemma issued_texts:
  assumes "parsePayload (sessionPayload identity linkId now) = Inr (issuedClaims identity linkId now)"
  shows "si_email identity \<noteq> [] \<and> si_name identity \<noteq> []"
proof -
  have "jget (sessionPayload identity linkId now) ''email'' = JStr (js_lower (js_trim (si_email identity)))"
    "jget (sessionPayload identity linkId now) ''name'' = JStr (js_trim (si_name identity))"
    by (simp_all add: sessionPayload_def)
  with assms have "js_trim (js_lower (js_trim (si_email identity))) \<noteq> []" "js_trim (js_trim (si_name identity)) \<noteq> []"
    by (auto simp: parsePayload_def requiredString_def simp del: jget.simps split: if_split_asm)
  then show ?thesis by (auto simp: js_trim_lower js_lower_def)
qed

text \<open>The principal and the identifier of a link that its session carries unchanged.\<close>

definition carried :: "linkRow \<Rightarrow> bool" where
  "carried l \<longleftrightarrow> js_trim (lk_principal_issuer l) = lk_principal_issuer l
     \<and> js_trim (lk_principal_subject l) = lk_principal_subject l \<and> js_trim (lk_id l) = lk_id l"

lemma linked_session:
  assumes "crypto_laws (idn_crypto (ln_identity env))" "\<bar>seconds\<bar> < 10 ^ 15" "sessionForLink env l seconds token"
    and "length token \<le> 4096" "db_ok d" "l \<in> set (links d)" "carried l"
  shows "sessionIdentityOf (ln_identity env) token later d
    = (if later < seconds - 30 \<or> seconds + 43200 + 30 \<le> later then Inl (AuthError ''session_expired'' 401)
       else Inr (linkedConsoleIdentity (ln_identity env) (linkedOf l)))"
proof -
  define i where "i = \<lparr>si_principalIssuer = lk_principal_issuer l, si_principalSubject = lk_principal_subject l,
        si_email = lk_principal_email l, si_name = lk_principal_name l\<rparr>"
  have issued: "issueWeComConsoleSession (idn_crypto (ln_identity env)) (idn_sessionSecret (ln_identity env)) i (lk_id l) seconds = Inr token"
    using assms(3) by (simp add: sessionForLink_def i_def)
  have "parsePayload (sessionPayload i (lk_id l) seconds) = Inr (issuedClaims i (lk_id l) seconds)"
    using issued by (rule issue_Inr)
  from issued_texts[OF this] have ne: "lk_principal_email l \<noteq> []" "lk_principal_name l \<noteq> []" by (simp_all add: i_def)
  have claims: "si_principalIssuer (issuedClaims i (lk_id l) seconds) = lk_principal_issuer l"
    "si_principalSubject (issuedClaims i (lk_id l) seconds) = lk_principal_subject l"
    "sc_linkId (issuedClaims i (lk_id l) seconds) = lk_id l"
    using assms(7) by (simp_all add: issuedClaims_def i_def carried_def)
  have u: "unique_by lk_id (links d)" using assms(5) by (simp add: db_ok_def uniques_ok_def links_unique_def)
  have "List.find (\<lambda>k. ownLink (lk_principal_issuer l) (lk_principal_subject l) k \<and> lk_id k = lk_id l) (links d) = Some l"
  proof (cases "List.find (\<lambda>k. ownLink (lk_principal_issuer l) (lk_principal_subject l) k \<and> lk_id k = lk_id l) (links d)")
    case None
    with assms(6) show ?thesis by (auto simp: find_None_iff ownLink_def)
  next
    case (Some k)
    then have "k \<in> set (links d)" "lk_id k = lk_id l" by (auto simp: find_Some_iff)
    with unique_by_eq[OF u] assms(6) Some show ?thesis by metis
  qed
  moreover have "linkedPlatformIdentity l = Inr (linkedOf l)" using ne by (simp add: linkedPlatformIdentity_def linkedOf_def)
  ultimately show ?thesis
    using issued_verifies[OF assms(1,2) issued, of later] assms(4)
    by (simp add: sessionIdentityOf_def claims getWeComLinkedPlatformIdentity_def)
qed

lemma launch_keeps_ok:
  assumes "db_ok d"
  shows "db_ok (snd (launchGet env search ticket now t n d))"
proof -
  have "db_ok d1" if "createWeComIdentityLoginRequest e now t n g d = (r, d1)" for e g r d1
    using create_keeps_ok[OF assms, of e now t n g] that by simp
  moreover have "db_ok d2" if "db_ok d1" "resolveWeComIdentityLoginRequest e now u v i d1 = (r, d2)" for e u v i d1 r d2
    using resolve_keeps_ok[OF that(1), of e now u v i] that(2) by simp
  ultimately have "db_ok (snd (launchRun env ticket now t n d))"
    using assms by (fastforce simp: launchRun_def split: sum.split prod.split)
  then show ?thesis using assms by (auto simp: launchGet_def split: sum.split prod.split)
qed


section \<open>A launch that succeeds\<close>

definition demo_launch_env :: launchEnv where
  "demo_launch_env = \<lparr>ln_relay = demo_relay_env, ln_identity = demo_identity_env, ln_fetch = demo_relay_answer\<rparr>"

definition demo_launch_trusted :: trustedIdentity where
  "demo_launch_trusted = \<lparr>ti_issuer = ''https://relay/wecom'', ti_subject = ''wecom_'' @ base64url_encode (replicate 32 (CHR ''h'')),
     ti_corpHash = demo_digest, ti_userHash = demo_digest\<rparr>"

definition demo_launch_link :: linkRow where
  "demo_launch_link = \<lparr>lk_id = demo_link_id, lk_organization_id = demo_link_id, lk_principal_issuer = ''https://iss'',
     lk_principal_subject = ''usr_1'', lk_principal_email = ''ann@example.com'', lk_principal_name = ''Ann'',
     lk_wecom_issuer = ti_issuer demo_launch_trusted, lk_wecom_subject = ti_subject demo_launch_trusted,
     lk_corp_hash = demo_digest, lk_user_hash = demo_digest, lk_linked_at = 0, lk_updated_at = 0\<rparr>"

definition demo_launch_db :: db where
  "demo_launch_db = demo_organization_db\<lparr>links := [demo_launch_link]\<rparr>"

definition demo_launch_login :: loginRow where
  "demo_launch_login = newLoginRow demo_digest demo_digest demo_link_id 1100000"

lemma launch_db_ok:
  assumes "\<forall>r \<in> set ls. login_verified_consistent r \<and> lr_request_hash r = demo_digest \<and> lr_nonce_hash r = demo_digest
      \<and> lr_organization_id r = Some demo_link_id \<and> hash_or_null (lr_corp_hash r) \<and> hash_or_null (lr_user_hash r)"
    and "length ls \<le> 1"
  shows "db_ok (demo_launch_db\<lparr>logins := ls\<rparr>)"
proof -
  have "unique_by lr_request_hash ls" using assms(2) by (cases ls) auto
  with assms(1) demo_organization_db_ok show ?thesis
    by (auto simp: demo_launch_db_def demo_organization_db_def empty_db_def db_ok_defs applications_unique_def bindings_unique_def
      organizations_unique_def links_unique_def resources_unique_def bindings_check_def organizations_check_def
      links_check_def logins_check_def botRequests_check_def resources_check_def grants_check_def newOrganization_def
      demo_settings_def btrim_blank_def demo_launch_link_def list_all_iff ref_ok_def)
qed

lemma demo_launch_db_ok: "db_ok demo_launch_db"
  using launch_db_ok[of "[]"] by (simp add: demo_launch_db_def demo_organization_db_def empty_db_def)

lemma demo_launch_derive:
  "deriveTrustedWeComRelayIdentity (linkEnvOf demo_launch_env)
     \<lparr>ri_corpId = ''corp'', ri_userId = ''ann'', ri_relayIssuer = ''https://relay/wecom''\<rparr> ''corp'' = Inr demo_launch_trusted"
proof -
  have "js_trim ''corp'' = ''corp''" "js_trim ''ann'' = ''ann''" by code_simp+
  then show ?thesis
    by (simp add: deriveTrustedWeComRelayIdentity_def relayIssuerOf_def linkEnvOf_def demo_launch_env_def demo_relay_env_def
        demo_url_def demo_relay_url_def parsedUrl.truncate_def strip_slash_def demo_launch_trusted_def demo_identity_env_def
        demo_crypto_def[THEN arg_cong, of cr_sha256] Let_def)
qed

lemma demo_launch_identity:
  "launchIdentity demo_launch_env demo_ticket 1100000 demo_launch_db
    = Inr (demo_link_id, \<lparr>ri_corpId = ''corp'', ri_userId = ''ann'', ri_relayIssuer = ''https://relay/wecom''\<rparr>)"
proof -
  have "getWeComOrganizationIdForRelay ''https://relay/callbacks/wecom'' demo_launch_db = Inr demo_link_id"
    by (simp add: getWeComOrganizationIdForRelay_def demo_launch_db_def demo_organization_db_def relayCandidate_def
        newOrganization_def demo_settings_def)
  then show ?thesis
    using demo_read demo_consumed by (simp add: launchIdentity_def demo_launch_env_def)
qed

lemma demo_launch_created:
  "createWeComIdentityLoginRequest (linkEnvOf demo_launch_env) 1100000 demo_token demo_token demo_link_id demo_launch_db
    = (Inr (demo_token, demo_token), demo_launch_db\<lparr>logins := [demo_launch_login]\<rparr>)"
proof -
  have "is_ok (configuredWeComOrganization demo_launch_db demo_link_id)"
    by (simp add: configuredWeComOrganization_def organizationConfigured_def demo_launch_db_def demo_organization_db_def
        newOrganization_def demo_settings_def)
  then obtain g where "configuredWeComOrganization demo_launch_db demo_link_id = Inr g" by (auto simp: is_ok_iff)
  moreover have "logins demo_launch_db = []" by (simp add: demo_launch_db_def demo_organization_db_def empty_db_def)
  moreover have "db_ok (demo_launch_db\<lparr>logins := []\<rparr>)" "db_ok (demo_launch_db\<lparr>logins := [demo_launch_login]\<rparr>)"
    by (rule launch_db_ok; simp add: demo_launch_login_def newLoginRow_def login_verified_consistent_def hash_or_null_def)+
  ultimately show ?thesis
    by (simp add: createWeComIdentityLoginRequest_def createBody_def transaction_def checked_ok databaseStep_def demo_launch_env_def
        demo_identity_env_def demo_launch_login_def)
qed

lemma demo_launch_resolved:
  "\<exists>d'. resolveWeComIdentityLoginRequest (linkEnvOf demo_launch_env) 1100000 demo_token demo_token
      \<lparr>ri_corpId = ''corp'', ri_userId = ''ann'', ri_relayIssuer = ''https://relay/wecom''\<rparr>
      (demo_launch_db\<lparr>logins := [demo_launch_login]\<rparr>) = (Inr (Linked (linkedOf demo_launch_link)), d')"
proof -
  let ?d = "demo_launch_db\<lparr>logins := [demo_launch_login]\<rparr>"
  let ?w = demo_launch_trusted
  let ?d' = "updateLogins demo_digest (verifiedLogin ?w 1100000 True) ?d"
  have "?d' = demo_launch_db\<lparr>logins := [verifiedLogin ?w 1100000 True demo_launch_login]\<rparr>"
    by (simp add: updateLogins_def demo_launch_login_def newLoginRow_def)
  moreover have "db_ok (demo_launch_db\<lparr>logins := [verifiedLogin ?w 1100000 True demo_launch_login]\<rparr>)"
    by (rule launch_db_ok) (simp_all add: demo_launch_login_def newLoginRow_def verifiedLogin_def login_verified_consistent_def
        hash_or_null_def demo_launch_trusted_def)
  ultimately have "db_ok ?d'" by simp
  moreover have "openLogin (linkEnvOf demo_launch_env) demo_token demo_token demo_launch_login"
    by (simp add: openLogin_def demo_launch_env_def demo_identity_env_def demo_launch_login_def newLoginRow_def)
  moreover obtain g where "configuredWeComOrganization ?d demo_link_id = Inr g" "og_corp_id g = ''corp''"
    by (simp add: configuredWeComOrganization_def organizationConfigured_def demo_launch_db_def demo_organization_db_def
        newOrganization_def demo_settings_def)
  moreover have "matchingLinks (ti_issuer ?w) (ti_subject ?w) (ti_corpHash ?w) (ti_userHash ?w) ?d = [demo_launch_link]"
    by (simp add: matchingLinks_def demo_launch_db_def demo_launch_link_def)
  moreover have "lr_expires_at demo_launch_login = 2900000" "lr_organization_id demo_launch_login = Some demo_link_id"
    "lr_request_hash demo_launch_login = demo_digest"
    by (simp_all add: demo_launch_login_def newLoginRow_def WECOM_IDENTITY_LOGIN_LIFETIME_MS_def)
  ultimately have "resolveBody (linkEnvOf demo_launch_env) 1100000 demo_token demo_token
      \<lparr>ri_corpId = ''corp'', ri_userId = ''ann'', ri_relayIssuer = ''https://relay/wecom''\<rparr> ?d = Inr (Some demo_launch_link, ?d')"
    by (simp add: resolveBody_def demo_launch_derive Let_def checked_ok)
  moreover have "linkedPlatformIdentity demo_launch_link = Inr (linkedOf demo_launch_link)"
    by (simp add: linkedPlatformIdentity_def demo_launch_link_def linkedOf_def)
  ultimately show ?thesis
    by (simp add: resolveWeComIdentityLoginRequest_def transaction_def validateWeComIdentityLoginSecrets_def)
qed

definition demo_launch_account :: sessionIdentity where
  "demo_launch_account = \<lparr>si_principalIssuer = ''https://iss'', si_principalSubject = ''usr_1'', si_email = ''ann@example.com'',
     si_name = ''Ann''\<rparr>"

lemma demo_launch_account: "sessionOf (linkedOf demo_launch_link) = demo_launch_account" "li_linkId (linkedOf demo_launch_link) = demo_link_id"
  by (simp_all add: sessionOf_def linkedOf_def demo_launch_link_def demo_launch_account_def)

lemma demo_launch_payload: "is_ok (parsePayload (sessionPayload demo_launch_account demo_link_id 1100))"
proof -
  have "js_trim demo_link_id = demo_link_id"
    by (simp add: demo_link_id_def js_trim_def is_space_def code_unit_def)
  with demo_link_valid show ?thesis
    by (simp add: parsePayload_def sessionPayload_def requiredString_def integerOf_def demo_launch_account_def
        sessionKeys_def js_trim_def is_space_def js_lower_def lower_char_def code_unit_def Let_def)
qed

lemma demo_launch_text: "jsonText (sessionPayload demo_launch_account demo_link_id 1100) = Some t \<Longrightarrow> length t \<le> 1000"
  by (auto simp: sessionPayload_def demo_launch_account_def demo_link_id_def quoted_def jsonChar_def writable_def
      WECOM_CONSOLE_SESSION_LIFETIME_SECONDS_def SESSION_ISSUER_def decInt_def dec.simps js_trim_def is_space_def
      js_lower_def lower_char_def code_unit_def Let_def)

lemma demo_launch_issued:
  obtains token where "issueSession demo_launch_env demo_launch_account demo_link_id 1100000 = Inr token" "length token \<le> 4096"
proof -
  obtain token where i: "issueWeComConsoleSession demo_crypto demo_session_key demo_launch_account demo_link_id 1100 = Inr token"
    using issue_ok[OF _ demo_launch_payload demo_key] by (auto simp: is_ok_iff)
  from issue_Inr[OF i] obtain t signature where t: "jsonText (sessionPayload demo_launch_account demo_link_id 1100) = Some t"
    and g: "sessionSignature demo_crypto demo_session_key (base64url_encode (utf8_encode t)) = Inr signature"
    and token: "token = js_join ''.'' [SESSION_VERSION, base64url_encode (utf8_encode t), base64url_encode signature]" .
  have "length signature = 32" using g demo_key by (auto simp: sessionSignature_def demo_crypto_def)
  then have "length token \<le> 4096" using session_token_length[OF demo_launch_text[OF t]] by (simp add: token)
  moreover have "issueSession demo_launch_env demo_launch_account demo_link_id 1100000 = Inr token"
    using i by (simp add: issueSession_def demo_launch_env_def demo_identity_env_def)
  ultimately show ?thesis using that by blast
qed

lemma demo_launch:
  obtains r d' token where "launchGet demo_launch_env [] demo_ticket 1100000 demo_token demo_token demo_launch_db = (Some r, d')"
    "lx_session r = Some token" "length token \<le> 4096"
proof -
  obtain token where token: "issueSession demo_launch_env demo_launch_account demo_link_id 1100000 = Inr token" "length token \<le> 4096"
    by (rule demo_launch_issued)
  obtain d' where d': "resolveWeComIdentityLoginRequest (linkEnvOf demo_launch_env) 1100000 demo_token demo_token
      \<lparr>ri_corpId = ''corp'', ri_userId = ''ann'', ri_relayIssuer = ''https://relay/wecom''\<rparr>
      (demo_launch_db\<lparr>logins := [demo_launch_login]\<rparr>) = (Inr (Linked (linkedOf demo_launch_link)), d')"
    using demo_launch_resolved by blast
  have "\<exists>url. wecomIdentityLinkResultUrl (ln_relay demo_launch_env) ''restored'' = Some url"
    by (simp add: wecomIdentityLinkResultUrl_def configuredConsoleOrigin_def demo_launch_env_def demo_relay_env_def demo_url_def
        DEFAULT_CONSOLE_URL_def demo_relay_url_def)
  then obtain url where "wecomIdentityLinkResultUrl (ln_relay demo_launch_env) ''restored'' = Some url" ..
  with token(1) have "launchAnswer demo_launch_env 1100000 demo_token demo_token (Linked (linkedOf demo_launch_link))
      = Inr \<lparr>lx_location = url, lx_session = Some token, lx_link = Some ([], 0)\<rparr>"
    by (simp add: launchAnswer_def orFail_def demo_launch_account)
  then have "launchGet demo_launch_env [] demo_ticket 1100000 demo_token demo_token demo_launch_db
      = (Some \<lparr>lx_location = url, lx_session = Some token, lx_link = Some ([], 0)\<rparr>, d')"
    by (simp add: launchGet_def launchRun_def demo_launch_identity demo_launch_created d')
  with token(2) that show ?thesis by simp
qed

theorem launch_session_sound_witness:
  "\<exists>r d' token l. launchGet demo_launch_env [] demo_ticket 1100000 demo_token demo_token demo_launch_db = (Some r, d')
    \<and> lx_session r = Some token \<and> sessionForLink demo_launch_env l 1100 token"
proof -
  obtain r d' token where r: "launchGet demo_launch_env [] demo_ticket 1100000 demo_token demo_token demo_launch_db = (Some r, d')"
    "lx_session r = Some token" by (rule demo_launch)
  from launch_session_sound[OF demo_launch_db_ok r] r show ?thesis by auto
qed


end
