(* ===== verification/Observability.thy ===== *)
theory Observability
  imports Json_Text Ttl_Cache
begin

text \<open>
  The diagnostics of the console (src/ai-console/src/lib/server/observability.ts): the calls and
  traces read from Jaeger with an allowlist of attributes, the metrics read from Prometheus, the
  validation of queries and the caches in front of both. \<open>Date.parse\<close>, the text of a number, the URL
  parser and the two services are parameters. Durations and times are exact; a time in an answer is
  its milliseconds, the sort of ISO texts is the sort of the times.
\<close>

definition CACHE_TTL_MS :: int where "CACHE_TTL_MS = 10000"
definition MAX_TRACE_SEARCH_WINDOW_MS :: int where "MAX_TRACE_SEARCH_WINDOW_MS = 24 * 60 * 60 * 1000"
definition MAX_TRACE_SEARCH_RESULTS :: int where "MAX_TRACE_SEARCH_RESULTS = 100"

datatype observabilityRange = R15m | R1h | R24h | R7d
datatype observabilityKind = ModelCall | McpCall
datatype observabilityStatus = StatusOk | StatusError | StatusDenied

record observabilityEnv =
  ob_date :: "string \<Rightarrow> rat option"
  ob_number :: "jsnum \<Rightarrow> string"
  ob_publicUrl :: "string option"
  ob_url :: "string \<Rightarrow> (string \<times> string \<times> (string \<Rightarrow> string)) option"

section \<open>Reading values\<close>

definition objectOf :: "json \<Rightarrow> json" where
  "objectOf v = (if is_object v then v else JUndef)"

definition textOf :: "json \<Rightarrow> string option" where
  "textOf v = (if is_string v \<and> js_trim (the_string v) \<noteq> [] then Some (js_trim (the_string v)) else None)"

text \<open>\<open>a ?? b ?? c\<close>.\<close>

fun coalesce :: "json list \<Rightarrow> json" where
  "coalesce [] = JUndef"
| "coalesce [v] = v"
| "coalesce (v # vs) = (if nullish v then coalesce vs else v)"

definition fieldOf :: "json \<Rightarrow> string list \<Rightarrow> json" where
  "fieldOf v ks = coalesce (map (jget v) ks)"

text \<open>\<open>Number(s)\<close> of a text: decimal with sign, fraction and exponent, or a hexadecimal, octal or binary
  integer; a blank text is zero, every other text NaN.\<close>

definition radixValue :: "nat \<Rightarrow> string \<Rightarrow> nat option" where
  "radixValue base s = (if s = [] then None else
     foldl (\<lambda>n c. case (n, hexValue c) of (Some m, Some v) \<Rightarrow> if v < base then Some (base * m + v) else None | _ \<Rightarrow> None) (Some 0) s)"

definition decimalNumber :: "string \<Rightarrow> rat option" where
  "decimalNumber s =
    (let whole = takeWhile is_digit s; r = dropWhile is_digit s; dot = (r \<noteq> [] \<and> hd r = CHR ''.'');
         fraction = (if dot then takeWhile is_digit (tl r) else []);
         r1 = (if dot then dropWhile is_digit (tl r) else r) in
     if whole @ fraction = [] then None
     else case readExponent r1 of Some (e, []) \<Rightarrow> Some (scaled (natOf (whole @ fraction)) (e - int (length fraction))) | _ \<Rightarrow> None)"

definition js_Number :: "string \<Rightarrow> jsnum" where
  "js_Number s0 = (let s = js_trim s0; p = js_lower (take 2 s); unsigned = (if s \<noteq> [] \<and> hd s \<in> {CHR ''+'', CHR ''-''} then tl s else s);
       negative = (s \<noteq> [] \<and> hd s = CHR ''-'') in
     if s = [] then Fin 0
     else if p \<in> {''0x'', ''0o'', ''0b''}
     then (case radixValue (if p = ''0x'' then 16 else if p = ''0o'' then 8 else 2) (drop 2 s) of
             Some n \<Rightarrow> Fin (of_nat n) | None \<Rightarrow> NaN)
     else if unsigned = ''Infinity'' then (if negative then NegInf else PosInf)
     else case decimalNumber unsigned of Some q \<Rightarrow> Fin (if negative then - q else q) | None \<Rightarrow> NaN)"

definition finiteOf :: "json \<Rightarrow> rat option" where
  "finiteOf v = (case (case v of JNum n \<Rightarrow> n | JStr s \<Rightarrow> js_Number s | _ \<Rightarrow> NaN) of Fin q \<Rightarrow> Some q | _ \<Rightarrow> None)"

definition scalarOf :: "json \<Rightarrow> json option" where
  "scalarOf v = (case v of JStr s \<Rightarrow> Some v | JNum n \<Rightarrow> Some v | JBool b \<Rightarrow> Some v
     | JObj kvs \<Rightarrow> (case textOf (fieldOf v [''stringValue'', ''string_value'']) of Some s \<Rightarrow> Some (JStr s)
         | None \<Rightarrow> (case finiteOf (fieldOf v [''intValue'', ''int_value'', ''doubleValue'', ''double_value'']) of
             Some q \<Rightarrow> Some (JNum (Fin q))
           | None \<Rightarrow> (case fieldOf v [''boolValue'', ''bool_value''] of JBool b \<Rightarrow> Some (JBool b) | _ \<Rightarrow> None)))
     | _ \<Rightarrow> None)"

section \<open>Attributes\<close>

type_synonym attrs = "(string \<times> json) list"

definition attributes :: "json \<Rightarrow> attrs" where
  "attributes v = js_map (concat (if is_array v
     then map (\<lambda>i. case (textOf (jget i ''key''), scalarOf (jget i ''value'')) of
         (Some k, Some d) \<Rightarrow> [(k, d)] | _ \<Rightarrow> []) (the_array v)
     else map (\<lambda>(k, raw). case scalarOf raw of Some d \<Rightarrow> [(k, d)] | None \<Rightarrow> []) (members v)))"

fun firstAttribute :: "attrs \<Rightarrow> string list \<Rightarrow> json option" where
  "firstAttribute a [] = None"
| "firstAttribute a (k # ks) = (case map_of a k of Some v \<Rightarrow> Some v | None \<Rightarrow> firstAttribute a ks)"

definition scalarText :: "observabilityEnv \<Rightarrow> json \<Rightarrow> string" where
  "scalarText env v = (case v of JStr s \<Rightarrow> s | JBool b \<Rightarrow> if b then ''true'' else ''false'' | JNum n \<Rightarrow> ob_number env n | _ \<Rightarrow> [])"

definition attrText :: "observabilityEnv \<Rightarrow> attrs \<Rightarrow> string list \<Rightarrow> string option" where
  "attrText env a ks = map_option (scalarText env) (firstAttribute a ks)"

definition attrNumber :: "attrs \<Rightarrow> string list \<Rightarrow> rat option" where
  "attrNumber a ks = (case firstAttribute a ks of None \<Rightarrow> None | Some v \<Rightarrow> finiteOf v)"

section \<open>Times and status of a span\<close>

definition timestampMicros :: "observabilityEnv \<Rightarrow> json \<Rightarrow> rat option" where
  "timestampMicros env v =
    (if is_string v \<and> CHR ''T'' \<in> set (the_string v) then map_option (\<lambda>ms. ms * 1000) (ob_date env (the_string v))
     else map_option (\<lambda>n. if n > 10 ^ 17 then n / 1000 else if n > 10 ^ 14 then n
         else if n > 10 ^ 11 then n * 1000 else n * 1000000) (finiteOf v))"

definition startFields :: "string list" where
  "startFields = [''startTime'', ''start_time'', ''startTimeUnixNano'', ''start_time_unix_nano'']"

definition endFields :: "string list" where
  "endFields = [''endTime'', ''end_time'', ''endTimeUnixNano'', ''end_time_unix_nano'']"

definition durationMicros :: "observabilityEnv \<Rightarrow> json \<Rightarrow> rat" where
  "durationMicros env sn = (case finiteOf (fieldOf sn [''duration'', ''durationMicros'', ''duration_micros'']) of
     Some d \<Rightarrow> max 0 d
   | None \<Rightarrow> (case (timestampMicros env (fieldOf sn startFields), timestampMicros env (fieldOf sn endFields)) of
       (Some s, Some e) \<Rightarrow> max 0 (e - s) | _ \<Rightarrow> 0))"

definition upper_char :: "char \<Rightarrow> char" where
  "upper_char c = (if is_lower c then char_of (code_unit c - 32) else c)"

definition decisionKeys :: "string list" where
  "decisionKeys = [''mcp.authorization.decision'', ''authorization.decision'', ''mcp.decision'']"

definition statusCodeError :: "json \<Rightarrow> bool" where
  "statusCodeError code = (case textOf code of
     Some t \<Rightarrow> map upper_char t \<in> {''STATUS_CODE_ERROR'', ''ERROR''} | None \<Rightarrow> finiteOf code = Some 2)"

definition statusFromSpan :: "observabilityEnv \<Rightarrow> json \<Rightarrow> attrs \<Rightarrow> observabilityStatus" where
  "statusFromSpan env sn a =
    (if attrText env a decisionKeys = Some ''deny'' then StatusDenied
     else if statusCodeError (jget (objectOf (jget sn ''status'')) ''code'')
       \<or> (case attrNumber a [''http.response.status_code'', ''http.status_code''] of None \<Rightarrow> False | Some n \<Rightarrow> n \<ge> 400)
       \<or> (case attrText env a [''error.type''] of None \<Rightarrow> False | Some t \<Rightarrow> t \<noteq> [])
     then StatusError else StatusOk)"

definition serviceName :: "observabilityEnv \<Rightarrow> json \<Rightarrow> json \<Rightarrow> string" where
  "serviceName env sn trace =
    (let resource = objectOf (jget sn ''resource'');
         direct = attrText env (attributes (coalesce [jget resource ''attributes'', jget sn ''resourceAttributes'',
           jget sn ''resource_attributes''])) [''service.name''];
         process = (case textOf (fieldOf sn [''processID'', ''processId'', ''process_id'']) of None \<Rightarrow> JUndef
           | Some p \<Rightarrow> objectOf (jget (objectOf (jget trace ''processes'')) p)) in
     case direct of Some (c # cs) \<Rightarrow> c # cs
     | _ \<Rightarrow> (case textOf (fieldOf process [''serviceName'', ''service_name'']) of Some n \<Rightarrow> n | None \<Rightarrow> ''unknown''))"

record parsedSpan =
  ps_traceId :: string
  ps_spanId :: string
  ps_parentSpanId :: "string option"
  ps_name :: string
  ps_startMicros :: rat
  ps_durationMicros :: rat
  ps_attrs :: attrs
  ps_service :: string
  ps_status :: observabilityStatus

definition parsedSpan :: "observabilityEnv \<Rightarrow> json \<Rightarrow> json \<Rightarrow> parsedSpan option" where
  "parsedSpan env trace sn =
    (if \<not> is_object sn then None
     else case (textOf (coalesce (map (jget sn) [''traceID'', ''traceId'', ''trace_id''] @ map (jget trace) [''traceID'', ''traceId'', ''trace_id''])),
         textOf (fieldOf sn [''spanID'', ''spanId'', ''span_id'']), textOf (fieldOf sn [''operationName'', ''operation_name'', ''name'']),
         timestampMicros env (fieldOf sn startFields)) of
       (Some traceId, Some spanId, Some name, Some start) \<Rightarrow>
         let a = attributes (fieldOf sn [''attributes'', ''tags'']) in
         Some \<lparr>ps_traceId = traceId, ps_spanId = spanId,
           ps_parentSpanId = textOf (fieldOf sn [''parentSpanID'', ''parentSpanId'', ''parent_span_id'']),
           ps_name = name, ps_startMicros = start, ps_durationMicros = durationMicros env sn, ps_attrs = a,
           ps_service = serviceName env sn trace, ps_status = statusFromSpan env sn a\<rparr>
     | _ \<Rightarrow> None)"

definition parsedSpans :: "observabilityEnv \<Rightarrow> json \<Rightarrow> parsedSpan list" where
  "parsedSpans env trace = List.map_filter (parsedSpan env trace) (the_array (jget trace ''spans''))"

section \<open>Safe calls\<close>

record observabilityCall =
  oc_traceId :: string
  oc_spanId :: string
  oc_kind :: observabilityKind
  oc_startedAt :: int
  oc_durationMs :: int
  oc_status :: observabilityStatus
  oc_source :: string
  oc_target :: string
  oc_operation :: string
  oc_errorType :: "string option"
  oc_requestModel :: "string option"
  oc_responseModel :: "string option"
  oc_provider :: "string option"
  oc_inputTokens :: "rat option"
  oc_outputTokens :: "rat option"
  oc_totalTokens :: "rat option"
  oc_method :: "string option"
  oc_server :: "string option"
  oc_tool :: "string option"
  oc_action :: "string option"
  oc_decision :: "string option"
  oc_reason :: "string option"
  oc_principalFingerprint :: "string option"
  oc_oauthClient :: "string option"
  oc_connection :: "string option"

definition methodKeys :: "string list" where "methodKeys = [''mcp.method.name'', ''rpc.method'']"

definition classifyCall :: "observabilityEnv \<Rightarrow> parsedSpan \<Rightarrow> observabilityKind option" where
  "classifyCall env p =
    (if ps_name p = ''mcp.server.message'' then Some McpCall
     else if ps_service p = ''ai-base-llm-gateway'' \<and> attrText env (ps_attrs p) [''traffic.origin''] = Some ''internal_envoy''
       \<and> (case attrText env (ps_attrs p) methodKeys of None \<Rightarrow> False | Some m \<Rightarrow> m \<noteq> []) then Some McpCall
     else if ps_service p = ''ai-base-llm-gateway'' \<and> ps_name p = ''ChatCompletion'' then Some ModelCall else None)"

text \<open>\<open>new Date(ms).toISOString()\<close>: None where the time is outside the range of dates and it throws.\<close>

definition isoTime :: "rat \<Rightarrow> int option" where
  "isoTime ms = (let t = (if ms < 0 then \<lceil>ms\<rceil> else \<lfloor>ms\<rfloor>) in if \<bar>ms\<bar> > 8640000000000000 then None else Some t)"

definition roundMs :: "rat \<Rightarrow> int" where "roundMs q = \<lfloor>q + 1 / 2\<rfloor>"

definition either :: "'a option \<Rightarrow> 'a option \<Rightarrow> 'a option" where
  "either a b = (case a of None \<Rightarrow> b | Some v \<Rightarrow> Some v)"

definition orUnknown :: "string option \<Rightarrow> string" where
  "orUnknown a = (case a of None \<Rightarrow> ''unknown'' | Some s \<Rightarrow> s)"

definition safeDecision :: "observabilityEnv \<Rightarrow> attrs \<Rightarrow> string option" where
  "safeDecision env a = (case attrText env a decisionKeys of
     Some d \<Rightarrow> if d \<in> {''allow'', ''deny''} then Some d else None | None \<Rightarrow> None)"

datatype dateError = InvalidDate

definition safeCall :: "observabilityEnv \<Rightarrow> parsedSpan \<Rightarrow> dateError + observabilityCall option" where
  "safeCall env p = (case classifyCall env p of None \<Rightarrow> Inr None
   | Some kind \<Rightarrow>
     (let a = ps_attrs p; attr = attrText env a;
          requestModel = attr [''gen_ai.request.model'', ''llm.request.model''];
          responseModel = attr [''gen_ai.response.model'', ''llm.response.model'', ''llm.model_name''];
          call_method = attr methodKeys; server = attr [''mcp.server.name'', ''server.namespace''];
          tool = attr [''mcp.tool.name'', ''gen_ai.tool.name''] in
      case isoTime (ps_startMicros p / 1000) of None \<Rightarrow> Inl InvalidDate
      | Some startedAt \<Rightarrow> Inr (Some
        \<lparr>oc_traceId = ps_traceId p, oc_spanId = ps_spanId p, oc_kind = kind, oc_startedAt = startedAt,
         oc_durationMs = roundMs (ps_durationMicros p / 1000),
         oc_status = (if safeDecision env a = Some ''deny'' then StatusDenied else ps_status p), oc_source = ps_service p,
         oc_target = orUnknown (if kind = ModelCall then either responseModel requestModel else either tool server),
         oc_operation = (case either (attr [''gen_ai.operation.name'']) call_method of None \<Rightarrow> ps_name p | Some s \<Rightarrow> s),
         oc_errorType = attr [''error.type''], oc_requestModel = requestModel, oc_responseModel = responseModel,
         oc_provider = attr [''gen_ai.provider.name'', ''gen_ai.system'', ''llm.system''],
         oc_inputTokens = attrNumber a [''gen_ai.usage.input_tokens'', ''llm.token_count.prompt''],
         oc_outputTokens = attrNumber a [''gen_ai.usage.output_tokens'', ''llm.token_count.completion''],
         oc_totalTokens = attrNumber a [''gen_ai.usage.total_tokens'', ''llm.token_count.total''],
         oc_method = call_method, oc_server = server, oc_tool = tool,
         oc_action = attr [''mcp.action.name'', ''mcp.action'', ''action.name''], oc_decision = safeDecision env a,
         oc_reason = attr [''mcp.authorization.reason'', ''authorization.reason''],
         oc_principalFingerprint = attr [''enduser.id'', ''mcp.principal.fingerprint''],
         oc_oauthClient = attr [''mcp.oauth.client_id'', ''oauth.client.id'', ''mcp.oauth.client''],
         oc_connection = attr [''mcp.connection.name'', ''connection.name'']\<rparr>)))"

section \<open>Traces\<close>

definition traceIdFields :: "string list" where "traceIdFields = [''traceID'', ''traceId'', ''trace_id'']"

text \<open>The spans of one group of an OTLP answer, with their trace and the resource of the group.\<close>

definition resourceSpans :: "json \<Rightarrow> (string \<times> json) list" where
  "resourceSpans r = concat (map (\<lambda>scope. concat (map (\<lambda>sn.
       if \<not> is_object sn then [] else case textOf (fieldOf sn [''traceId'', ''trace_id'']) of None \<Rightarrow> []
       | Some traceId \<Rightarrow> [(traceId, spread sn (JObj [(''resource'', jget r ''resource'')]))])
     (the_array (jget (objectOf scope) ''spans'')))) (the_array (fieldOf r [''scopeSpans'', ''scope_spans''])))"

fun groupSpans :: "(string \<times> json) list \<Rightarrow> (string \<times> json list) list \<Rightarrow> (string \<times> json list) list" where
  "groupSpans [] groups = groups"
| "groupSpans ((t, s) # ss) groups = groupSpans ss
     (AList.update t ((case map_of groups t of None \<Rightarrow> [] | Some l \<Rightarrow> l) @ [s]) groups)"

definition parseJaegerTraces :: "json \<Rightarrow> json list" where
  "parseJaegerTraces payload =
    (let root = objectOf payload;
         direct = filter is_object (the_array (fieldOf root [''traces'', ''data'']));
         groups = concat (map (\<lambda>r. if is_object r then resourceSpans r else [])
           (the_array (fieldOf (objectOf (jget root ''result'')) [''resourceSpans'', ''resource_spans'']))) in
     if direct \<noteq> [] then direct
     else map (\<lambda>(t, ss). JObj [(''traceId'', JStr t), (''spans'', JArr ss)]) (groupSpans groups []))"

definition extractSafeCalls :: "observabilityEnv \<Rightarrow> json \<Rightarrow> dateError + observabilityCall list" where
  "extractSafeCalls env payload = bindE (mapE (safeCall env) (concat (map (parsedSpans env) (parseJaegerTraces payload))))
     (\<lambda>calls. Inr (List.map_filter (\<lambda>c. c) calls))"

record observabilitySpan =
  sp_spanId :: string
  sp_parentSpanId :: "string option"
  sp_name :: string
  sp_serviceName :: string
  sp_startedAt :: int
  sp_durationMs :: int
  sp_status :: observabilityStatus
  sp_call :: "(observabilityKind \<times> string \<times> string \<times> string option \<times> string option \<times> string option) option"

record traceDetail =
  td_traceId :: string
  td_startedAt :: int
  td_durationMs :: int
  td_status :: observabilityStatus
  td_spans :: "observabilitySpan list"
  td_calls :: "observabilityCall list"
  td_jaegerUrl :: "string option"

definition spanView :: "observabilityEnv \<Rightarrow> parsedSpan \<Rightarrow> dateError + observabilitySpan" where
  "spanView env p = bindE (safeCall env p) (\<lambda>call. case isoTime (ps_startMicros p / 1000) of None \<Rightarrow> Inl InvalidDate
     | Some startedAt \<Rightarrow> Inr \<lparr>sp_spanId = ps_spanId p, sp_parentSpanId = ps_parentSpanId p, sp_name = ps_name p,
         sp_serviceName = ps_service p, sp_startedAt = startedAt, sp_durationMs = roundMs (ps_durationMicros p / 1000),
         sp_status = ps_status p,
         sp_call = map_option (\<lambda>c. (oc_kind c, oc_target c, oc_operation c, oc_errorType c, oc_decision c, oc_reason c)) call\<rparr>)"

definition protectedJaegerTraceUrl :: "observabilityEnv \<Rightarrow> string \<Rightarrow> string option" where
  "protectedJaegerTraceUrl env traceId = (case map_option js_trim (ob_publicUrl env) of None \<Rightarrow> None | Some [] \<Rightarrow> None
     | Some configured \<Rightarrow> (case ob_url env configured of None \<Rightarrow> None
         | Some (protocol, pathname, href) \<Rightarrow> if protocol \<noteq> ''https:'' then None
             else Some (href ((if pathname \<noteq> [] \<and> last pathname = CHR ''/'' then butlast pathname else pathname)
               @ ''/trace/'' @ traceId))))"

definition overallStatus :: "observabilitySpan list \<Rightarrow> observabilityStatus" where
  "overallStatus spans = (if list_ex (\<lambda>s. sp_status s = StatusError) spans then StatusError
     else if list_ex (\<lambda>s. sp_status s = StatusDenied) spans then StatusDenied else StatusOk)"

definition traceOf :: "observabilityEnv \<Rightarrow> string \<Rightarrow> parsedSpan list \<Rightarrow> dateError + traceDetail" where
  "traceOf env traceId parsed =
    (let starts = map ps_startMicros parsed; ends = map (\<lambda>p. ps_startMicros p + ps_durationMicros p) parsed in
     bindE (mapE (safeCall env) parsed) (\<lambda>calls. bindE (mapE (spanView env) parsed) (\<lambda>views.
       let spans = sort_by (\<lambda>a b. sp_startedAt a \<le> sp_startedAt b) views in
       case isoTime (Min (set starts) / 1000) of None \<Rightarrow> Inl InvalidDate
       | Some startedAt \<Rightarrow> Inr \<lparr>td_traceId = traceId, td_startedAt = startedAt,
           td_durationMs = roundMs ((Max (set ends) - Min (set starts)) / 1000), td_status = overallStatus spans,
           td_spans = spans, td_calls = List.map_filter (\<lambda>c. c) calls, td_jaegerUrl = protectedJaegerTraceUrl env traceId\<rparr>)))"

definition extractSafeTrace :: "observabilityEnv \<Rightarrow> json \<Rightarrow> string \<Rightarrow> dateError + traceDetail option" where
  "extractSafeTrace env payload traceId =
    (let traces = parseJaegerTraces payload in
     case (case List.find (\<lambda>t. textOf (fieldOf t traceIdFields) = Some traceId) traces of Some t \<Rightarrow> [t] | None \<Rightarrow> take 1 traces) of
       [] \<Rightarrow> Inr None
     | trace # rest \<Rightarrow> if parsedSpans env trace = [] then Inr None
         else bindE (traceOf env traceId (parsedSpans env trace)) (\<lambda>d. Inr (Some d)))"

section \<open>The allowlist\<close>

definition allowedAttributes :: "string list" where
  "allowedAttributes = decisionKeys @ methodKeys @
    [''http.response.status_code'', ''http.status_code'', ''error.type'', ''traffic.origin'', ''gen_ai.request.model'',
     ''llm.request.model'', ''gen_ai.response.model'', ''llm.response.model'', ''llm.model_name'', ''mcp.server.name'',
     ''server.namespace'', ''mcp.tool.name'', ''gen_ai.tool.name'', ''gen_ai.operation.name'', ''gen_ai.provider.name'',
     ''gen_ai.system'', ''llm.system'', ''gen_ai.usage.input_tokens'', ''llm.token_count.prompt'', ''gen_ai.usage.output_tokens'',
     ''llm.token_count.completion'', ''gen_ai.usage.total_tokens'', ''llm.token_count.total'', ''mcp.action.name'', ''mcp.action'',
     ''action.name'', ''mcp.authorization.reason'', ''authorization.reason'', ''enduser.id'', ''mcp.principal.fingerprint'',
     ''mcp.oauth.client_id'', ''oauth.client.id'', ''mcp.oauth.client'', ''mcp.connection.name'', ''connection.name'']"

text \<open>Two attribute lists that agree on the allowed names.\<close>

definition sameAllowed :: "attrs \<Rightarrow> attrs \<Rightarrow> bool" where
  "sameAllowed a b \<longleftrightarrow> list_all (\<lambda>k. map_of a k = map_of b k) allowedAttributes"

lemma firstAttribute_same:
  "sameAllowed a b \<Longrightarrow> set ks \<subseteq> set allowedAttributes \<Longrightarrow> firstAttribute a ks = firstAttribute b ks"
  by (induction ks) (auto simp: sameAllowed_def list_all_iff split: option.split)

lemma attrText_same: "sameAllowed a b \<Longrightarrow> set ks \<subseteq> set allowedAttributes \<Longrightarrow> attrText env a ks = attrText env b ks"
  by (simp add: attrText_def firstAttribute_same)

lemma attrNumber_same: "sameAllowed a b \<Longrightarrow> set ks \<subseteq> set allowedAttributes \<Longrightarrow> attrNumber a ks = attrNumber b ks"
  by (simp add: attrNumber_def firstAttribute_same)

lemma allowed_keys: "set decisionKeys \<subseteq> set allowedAttributes" "set methodKeys \<subseteq> set allowedAttributes"
  by (auto simp: allowedAttributes_def)

lemma classifyCall_same: "sameAllowed a b \<Longrightarrow> classifyCall env (p\<lparr>ps_attrs := a\<rparr>) = classifyCall env (p\<lparr>ps_attrs := b\<rparr>)"
  by (simp add: classifyCall_def attrText_same[of a b] allowed_keys) (simp add: attrText_same[of a b] allowedAttributes_def)

lemma safeDecision_same: "sameAllowed a b \<Longrightarrow> safeDecision env a = safeDecision env b"
  by (simp add: safeDecision_def attrText_same[of a b] allowed_keys)

lemma statusFromSpan_same: "sameAllowed a b \<Longrightarrow> statusFromSpan env v a = statusFromSpan env v b"
  by (simp add: statusFromSpan_def attrText_same[of a b] attrNumber_same[of a b] allowed_keys)
    (simp add: attrText_same[of a b] attrNumber_same[of a b] allowedAttributes_def)

text \<open>The texts and numbers a call takes from the attributes.\<close>

definition callAttributes :: "observabilityEnv \<Rightarrow> attrs \<Rightarrow> string option list \<times> rat option list" where
  "callAttributes env a = (map (attrText env a)
     [[''gen_ai.request.model'', ''llm.request.model''], [''gen_ai.response.model'', ''llm.response.model'', ''llm.model_name''],
      methodKeys, [''mcp.server.name'', ''server.namespace''], [''mcp.tool.name'', ''gen_ai.tool.name''], [''gen_ai.operation.name''],
      [''error.type''], [''gen_ai.provider.name'', ''gen_ai.system'', ''llm.system''],
      [''mcp.action.name'', ''mcp.action'', ''action.name''], [''mcp.authorization.reason'', ''authorization.reason''],
      [''enduser.id'', ''mcp.principal.fingerprint''], [''mcp.oauth.client_id'', ''oauth.client.id'', ''mcp.oauth.client''],
      [''mcp.connection.name'', ''connection.name'']],
     map (attrNumber a) [[''gen_ai.usage.input_tokens'', ''llm.token_count.prompt''],
      [''gen_ai.usage.output_tokens'', ''llm.token_count.completion''], [''gen_ai.usage.total_tokens'', ''llm.token_count.total'']])"

lemma callAttributes_same:
  assumes "sameAllowed a b"
  shows "callAttributes env a = callAttributes env b"
proof -
  note same = attrText_same[OF assms] attrNumber_same[OF assms]
  show ?thesis
    by (simp add: callAttributes_def same[of methodKeys] allowed_keys) (simp add: same allowedAttributes_def)
qed

lemma safeCall_same:
  assumes "sameAllowed a b"
  shows "safeCall env (p\<lparr>ps_attrs := a\<rparr>) = safeCall env (p\<lparr>ps_attrs := b\<rparr>)"
  using callAttributes_same[OF assms, of env]
  by (cases "classifyCall env (p\<lparr>ps_attrs := b\<rparr>)"; cases "isoTime (ps_startMicros p / 1000)")
    (simp_all add: safeCall_def classifyCall_same[OF assms] safeDecision_same[OF assms] callAttributes_def Let_def split: option.split)

text \<open>C29: What the diagnostics show of a call depends on the attributes of its span through the allowed names
  only: spans that differ in any other attribute, such as prompts, answers, credentials or
  headers, give the same call, the same view and the same status.\<close>

theorem diagnostics_allowlist:
  assumes "sameAllowed a b"
  shows "safeCall env (p\<lparr>ps_attrs := a\<rparr>) = safeCall env (p\<lparr>ps_attrs := b\<rparr>)
    \<and> spanView env (p\<lparr>ps_attrs := a\<rparr>) = spanView env (p\<lparr>ps_attrs := b\<rparr>)
    \<and> statusFromSpan env v a = statusFromSpan env v b"
  using safeCall_same[OF assms] statusFromSpan_same[OF assms]
  by (cases "isoTime (ps_startMicros p / 1000)") (simp_all add: spanView_def)

definition demo_observability_env :: observabilityEnv where
  "demo_observability_env = \<lparr>ob_date = (\<lambda>s. None), ob_number = (\<lambda>n. ''1''), ob_publicUrl = None, ob_url = (\<lambda>s. None)\<rparr>"

definition demo_span :: parsedSpan where
  "demo_span = \<lparr>ps_traceId = ''t'', ps_spanId = ''s'', ps_parentSpanId = None, ps_name = ''ChatCompletion'', ps_startMicros = 1000000,
     ps_durationMicros = 5000, ps_attrs = [], ps_service = ''ai-base-llm-gateway'', ps_status = StatusOk\<rparr>"

theorem diagnostics_allowlist_witness:
  "safeCall demo_observability_env (demo_span\<lparr>ps_attrs := [(''gen_ai.request.model'', JStr ''m''), (''gen_ai.prompt'', JStr ''secret'')]\<rparr>)
    = safeCall demo_observability_env (demo_span\<lparr>ps_attrs := [(''gen_ai.request.model'', JStr ''m'')]\<rparr>)"
proof -
  have "sameAllowed [(''gen_ai.request.model'', JStr ''m''), (''gen_ai.prompt'', JStr ''secret'')] [(''gen_ai.request.model'', JStr ''m'')]"
    by (simp add: sameAllowed_def allowedAttributes_def decisionKeys_def methodKeys_def)
  from diagnostics_allowlist[OF this] show ?thesis by blast
qed

end
