(* ===== verification/Diagnostics.thy ===== *)
theory Diagnostics
  imports Observability
begin

text \<open>
  The queries of the diagnostics pages (src/ai-console/src/lib/server/observability.ts): the metrics
  summary, the search of calls and the lookup of one trace, each behind a cache of ten seconds.
  Prometheus and Jaeger are functions from the request to the JSON answer, None where the request
  fails, times out or is refused.
\<close>

section \<open>Metrics\<close>

record metricValue =
  mv_value :: "rat option"
  mv_available :: bool
  mv_reason :: "string option"

record summary =
  su_generatedAt :: int
  su_range :: observabilityRange
  su_partial :: bool
  su_metricsSource :: string
  su_metrics :: "(string \<times> metricValue) list"

fun rangeSeconds :: "observabilityRange \<Rightarrow> int" where
  "rangeSeconds R15m = 900" | "rangeSeconds R1h = 3600" | "rangeSeconds R24h = 86400" | "rangeSeconds R7d = 604800"

definition parseRange :: "string option \<Rightarrow> observabilityRange" where
  "parseRange v = (if v = Some ''15m'' then R15m else if v = Some ''24h'' then R24h else if v = Some ''7d'' then R7d else R1h)"

definition metricUnavailable :: "string \<Rightarrow> metricValue" where
  "metricUnavailable reason = \<lparr>mv_value = None, mv_available = False, mv_reason = Some reason\<rparr>"

definition prometheusValue :: "json \<Rightarrow> rat option" where
  "prometheusValue payload =
    (let result = the_array (jget (objectOf (jget (objectOf payload) ''data'')) ''result'');
         pair = (case result of [] \<Rightarrow> [] | r # rs \<Rightarrow> the_array (jget (objectOf r) ''value'')) in
     if length pair < 2 then None else finiteOf (pair ! 1))"

text \<open>The eight queries, as \<open>PromQL\<close> over a range such as 900s.\<close>

definition modelFilter :: string where
  \<open>modelFilter = ''otel_scope_name="envoyproxy/ai-gateway",traffic_origin!="management_probe"''\<close>

definition mcpFilter :: string where
  \<open>mcpFilter = ''span_name="mcp.server.message",traffic_origin!="management_probe"''\<close>

definition mcpCount :: "string \<Rightarrow> string \<Rightarrow> string" where
  "mcpCount filters rng = ''sum(increase(mcp_duration_milliseconds_count{'' @ filters @ ''}['' @ rng @ '']))''"

definition mcpRate :: "string \<Rightarrow> string \<Rightarrow> string" where
  "mcpRate filters rng = mcpCount filters rng @ '' / clamp_min('' @ mcpCount mcpFilter rng @ '',1)''"

definition metricQueries :: "string \<Rightarrow> (string \<times> string) list" where
  \<open>metricQueries rng =
    [(''modelCalls'', ''sum(increase(gen_ai_server_request_duration_seconds_count{'' @ modelFilter @ ''}['' @ rng @ '']))''),
     (''modelP95'', ''histogram_quantile(0.95,sum by (le) (rate(gen_ai_server_request_duration_seconds_bucket{'' @ modelFilter
        @ ''}['' @ rng @ '']))) * 1000''),
     (''modelInputTokens'', ''sum(increase(gen_ai_client_token_usage_sum{'' @ modelFilter @ '',gen_ai_token_type="input"}['' @ rng @ '']))''),
     (''modelOutputTokens'', ''sum(increase(gen_ai_client_token_usage_sum{'' @ modelFilter @ '',gen_ai_token_type="output"}['' @ rng @ '']))''),
     (''mcpCalls'', mcpCount mcpFilter rng),
     (''mcpDenied'', mcpRate (mcpFilter @ '',mcp_decision="deny"'') rng),
     (''mcpErrors'', mcpRate (mcpFilter @ '',mcp_result=~"error|upstream_unavailable|http_error"'') rng),
     (''mcpP95'', ''histogram_quantile(0.95,sum by (le) (rate(mcp_duration_milliseconds_bucket{'' @ mcpFilter @ ''}['' @ rng @ ''])))'')]\<close>

type_synonym prometheus = "string \<Rightarrow> json option"

definition readMetric :: "prometheus \<Rightarrow> string \<Rightarrow> metricValue" where
  "readMetric fetch query = (case fetch query of None \<Rightarrow> metricUnavailable ''query_failed''
     | Some payload \<Rightarrow> (case prometheusValue payload of None \<Rightarrow> metricUnavailable ''no_data''
         | Some v \<Rightarrow> \<lparr>mv_value = Some v, mv_available = True, mv_reason = None\<rparr>))"

text \<open>The summary shows the eight metrics and two that are never available.\<close>

definition freshSummary :: "prometheus \<Rightarrow> int \<Rightarrow> observabilityRange \<Rightarrow> summary" where
  "freshSummary fetch now rng =
    (let entries = map (\<lambda>(name, query). (name, readMetric fetch query)) (metricQueries (decInt (rangeSeconds rng) @ ''s''));
         available = length (filter (\<lambda>(name, m). mv_available m) entries); partly = (available \<noteq> length entries) in
     \<lparr>su_generatedAt = now, su_range = rng, su_partial = partly,
      su_metricsSource = (if available = 0 then ''offline'' else if partly then ''partial'' else ''healthy''),
      su_metrics = entries @ [(''modelErrorRate'', metricUnavailable ''not_probed''), (''modelTtftP95'', metricUnavailable ''not_probed'')]\<rparr>)"

type_synonym summaryCache = "observabilityRange \<Rightarrow> (int \<times> summary) option"

definition getObservabilitySummary ::
    "prometheus \<Rightarrow> int \<Rightarrow> int \<Rightarrow> observabilityRange \<Rightarrow> summaryCache \<Rightarrow> summary \<times> summaryCache" where
  "getObservabilitySummary fetch now stored rng cache =
    (case cache rng of
       Some (expiresAt, v) \<Rightarrow> if now < expiresAt then (v, cache)
         else (freshSummary fetch stored rng, cache(rng \<mapsto> (stored + CACHE_TTL_MS, freshSummary fetch stored rng)))
     | None \<Rightarrow> (freshSummary fetch stored rng, cache(rng \<mapsto> (stored + CACHE_TTL_MS, freshSummary fetch stored rng))))"

section \<open>The query of a search\<close>

type_synonym params = "string \<Rightarrow> string option"

datatype requestError = TimeInvalid | KindInvalid | WindowInvalid | StatusInvalid | TargetTooLong | TraceIdInvalid

record callQuery =
  cq_kind :: observabilityKind
  cq_from :: int
  cq_to :: int
  cq_limit :: int
  cq_status :: "observabilityStatus option"
  cq_target :: string

text \<open>\<open>Date.parse\<close> gives whole milliseconds.\<close>

definition parseDate :: "observabilityEnv \<Rightarrow> string option \<Rightarrow> int \<Rightarrow> requestError + int" where
  "parseDate env v fallback = (case v of None \<Rightarrow> Inr fallback | Some s \<Rightarrow> if s = [] then Inr fallback
     else case ob_date env s of None \<Rightarrow> Inl TimeInvalid | Some ms \<Rightarrow> Inr \<lfloor>ms\<rfloor>)"

fun statusName :: "observabilityStatus \<Rightarrow> string" where
  "statusName StatusOk = ''ok''" | "statusName StatusError = ''error''" | "statusName StatusDenied = ''denied''"

fun kindName :: "observabilityKind \<Rightarrow> string" where
  "kindName ModelCall = ''model''" | "kindName McpCall = ''mcp''"

definition parseStatus :: "string option \<Rightarrow> requestError + observabilityStatus option" where
  "parseStatus v = (case v of None \<Rightarrow> Inr None | Some s \<Rightarrow> if s = [] then Inr None
     else (case List.find (\<lambda>t. statusName t = s) [StatusOk, StatusError, StatusDenied] of
       None \<Rightarrow> Inl StatusInvalid | Some t \<Rightarrow> Inr (Some t)))"

definition clampLimit :: "string option \<Rightarrow> int" where
  "clampLimit v = (let requested = (case (case v of None \<Rightarrow> None | Some s \<Rightarrow> finiteOf (JStr s)) of None \<Rightarrow> 50 | Some q \<Rightarrow> q) in
     max 1 (min MAX_TRACE_SEARCH_RESULTS \<lfloor>requested\<rfloor>))"

definition parseCallQuery :: "observabilityEnv \<Rightarrow> params \<Rightarrow> int \<Rightarrow> requestError + callQuery" where
  "parseCallQuery env params now =
    (case (if params ''kind'' = Some ''model'' then Some ModelCall else if params ''kind'' = Some ''mcp'' then Some McpCall else None) of
       None \<Rightarrow> Inl KindInvalid
     | Some kind \<Rightarrow>
       bindE (parseDate env (params ''to'') now) (\<lambda>until.
       bindE (parseDate env (params ''from'') (until - 60 * 60 * 1000)) (\<lambda>since.
       bindE (guardE (since < until \<and> until - since \<le> MAX_TRACE_SEARCH_WINDOW_MS) WindowInvalid) (\<lambda>_.
       bindE (parseStatus (params ''status'')) (\<lambda>status.
       let target = (case params ''target'' of None \<Rightarrow> [] | Some s \<Rightarrow> js_trim s) in
       bindE (guardE (length target \<le> 128) TargetTooLong) (\<lambda>_.
         Inr \<lparr>cq_kind = kind, cq_from = since, cq_to = until, cq_limit = clampLimit (params ''limit''),
           cq_status = status, cq_target = target\<rparr>))))))"

section \<open>Searching calls\<close>

record callsResult =
  cr_items :: "observabilityCall list"
  cr_kind :: observabilityKind
  cr_scannedTraces :: nat
  cr_truncated :: bool
  cr_window :: "int \<times> int"
  cr_healthy :: bool

text \<open>Jaeger is asked for the window and at most a hundred traces.\<close>

type_synonym jaeger = "int \<times> int \<times> int \<Rightarrow> json option"

definition matchesQuery :: "callQuery \<Rightarrow> observabilityCall \<Rightarrow> bool" where
  "matchesQuery q c \<longleftrightarrow> oc_kind c = cq_kind q \<and> (case cq_status q of None \<Rightarrow> True | Some s \<Rightarrow> oc_status c = s)
     \<and> (cq_target q = [] \<or> oc_target c = cq_target q)"

datatype searchFailure = SearchFailed

definition searchCalls :: "observabilityEnv \<Rightarrow> jaeger \<Rightarrow> callQuery \<Rightarrow> searchFailure + callsResult" where
  "searchCalls env fetch q = (case fetch (cq_from q, cq_to q, MAX_TRACE_SEARCH_RESULTS) of None \<Rightarrow> Inl SearchFailed
     | Some payload \<Rightarrow> (case extractSafeCalls env payload of Inl e \<Rightarrow> Inl SearchFailed
       | Inr calls \<Rightarrow>
           let matching = sort_by (\<lambda>a b. oc_startedAt b \<le> oc_startedAt a) (filter (matchesQuery q) calls);
               scanned = length (parseJaegerTraces payload) in
           Inr \<lparr>cr_items = take (nat (cq_limit q)) matching, cr_kind = cq_kind q, cr_scannedTraces = scanned,
             cr_truncated = (int scanned \<ge> MAX_TRACE_SEARCH_RESULTS \<or> int (length matching) > cq_limit q),
             cr_window = (cq_from q, cq_to q), cr_healthy = True\<rparr>))"

definition callsKey :: "callQuery \<Rightarrow> string" where
  "callsKey q = js_join '':'' [kindName (cq_kind q), decInt (cq_from q), decInt (cq_to q), decInt (cq_limit q),
     (case cq_status q of None \<Rightarrow> [] | Some s \<Rightarrow> statusName s), cq_target q]"

type_synonym callsCache = "string \<Rightarrow> (int \<times> callsResult) option"

definition cachedCalls :: "observabilityEnv \<times> jaeger \<Rightarrow> int \<Rightarrow> int \<Rightarrow> callQuery \<Rightarrow> callsCache
    \<Rightarrow> (searchFailure + callsResult) \<times> callsCache" where
  "cachedCalls w now stored q cache =
    (case cache (callsKey q) of
       Some (expiresAt, r) \<Rightarrow> if now < expiresAt then (Inr r, cache)
         else (case searchCalls (fst w) (snd w) q of Inl e \<Rightarrow> (Inl e, cache)
           | Inr r \<Rightarrow> (Inr r, cache(callsKey q \<mapsto> (stored + CACHE_TTL_MS, r))))
     | None \<Rightarrow> (case searchCalls (fst w) (snd w) q of Inl e \<Rightarrow> (Inl e, cache)
           | Inr r \<Rightarrow> (Inr r, cache(callsKey q \<mapsto> (stored + CACHE_TTL_MS, r)))))"

definition offlineResult :: "callQuery \<Rightarrow> callsResult" where
  "offlineResult q = \<lparr>cr_items = [], cr_kind = cq_kind q, cr_scannedTraces = 0, cr_truncated = False,
     cr_window = (cq_from q, cq_to q), cr_healthy = False\<rparr>"

definition getObservabilityCalls :: "observabilityEnv \<times> jaeger \<Rightarrow> params \<Rightarrow> int \<Rightarrow> int \<Rightarrow> callsCache
    \<Rightarrow> (requestError + callsResult) \<times> callsCache" where
  "getObservabilityCalls w params now stored cache = (case parseCallQuery (fst w) params now of
     Inl e \<Rightarrow> (Inl e, cache)
   | Inr q \<Rightarrow> (case cachedCalls w now stored q cache of
       (Inl e, c) \<Rightarrow> (Inr (offlineResult q), c) | (Inr r, c) \<Rightarrow> (Inr r, c)))"

section \<open>One trace\<close>

definition validateTraceId :: "string \<Rightarrow> requestError + string" where
  "validateTraceId v = (if 16 \<le> length v \<and> length v \<le> 32 \<and> list_all (\<lambda>c. hexValue c \<noteq> None) v
     then Inr (js_lower v) else Inl TraceIdInvalid)"

datatype traceFailure = BadTraceRequest requestError | TraceUnavailable

type_synonym traceCache = "string \<Rightarrow> (int \<times> traceDetail option) option"

definition lookupTrace :: "observabilityEnv \<times> (string \<Rightarrow> json option) \<Rightarrow> string \<Rightarrow> traceFailure + traceDetail option" where
  "lookupTrace w traceId = (case snd w traceId of None \<Rightarrow> Inl TraceUnavailable
     | Some payload \<Rightarrow> (case extractSafeTrace (fst w) payload traceId of Inl e \<Rightarrow> Inl TraceUnavailable | Inr d \<Rightarrow> Inr d))"

definition cachedTrace :: "observabilityEnv \<times> (string \<Rightarrow> json option) \<Rightarrow> int \<Rightarrow> int \<Rightarrow> string \<Rightarrow> traceCache
    \<Rightarrow> (traceFailure + traceDetail option) \<times> traceCache" where
  "cachedTrace w now stored traceId cache =
    (case cache traceId of
       Some (expiresAt, d) \<Rightarrow> if now < expiresAt then (Inr d, cache)
         else (case lookupTrace w traceId of Inl e \<Rightarrow> (Inl e, cache)
           | Inr d \<Rightarrow> (Inr d, cache(traceId \<mapsto> (stored + CACHE_TTL_MS, d))))
     | None \<Rightarrow> (case lookupTrace w traceId of Inl e \<Rightarrow> (Inl e, cache)
           | Inr d \<Rightarrow> (Inr d, cache(traceId \<mapsto> (stored + CACHE_TTL_MS, d)))))"

definition getObservabilityTrace :: "observabilityEnv \<times> (string \<Rightarrow> json option) \<Rightarrow> string \<Rightarrow> int \<Rightarrow> int \<Rightarrow> traceCache
    \<Rightarrow> (traceFailure + traceDetail option) \<times> traceCache" where
  "getObservabilityTrace w traceIdInput now stored cache = (case validateTraceId traceIdInput of
     Inl e \<Rightarrow> (Inl (BadTraceRequest e), cache) | Inr traceId \<Rightarrow> cachedTrace w now stored traceId cache)"

definition resetObservabilityCacheForTests ::
    "summaryCache \<times> callsCache \<times> traceCache \<Rightarrow> summaryCache \<times> callsCache \<times> traceCache" where
  "resetObservabilityCacheForTests caches = (\<lambda>_. None, \<lambda>_. None, \<lambda>_. None)"

section \<open>The caches\<close>

interpretation trace_cache: ttl_cache cachedTrace lookupTrace "\<lambda>c k. c k" CACHE_TTL_MS
  by unfold_locales (auto simp: cachedTrace_def split: option.split sum.split)

lemma key_prefix: "c \<notin> set a \<Longrightarrow> c \<notin> set b \<Longrightarrow> a @ c # r = b @ c # t \<longleftrightarrow> a = b \<and> r = t"
proof (induction a arbitrary: b)
  case Nil
  then show ?case by (cases b) auto
next
  case (Cons x a)
  then show ?case by (cases b) auto
qed

lemma decInt_inject: "decInt i = decInt j \<Longrightarrow> i = j"
  using readNumber_decInt[of "[]" i] readNumber_decInt[of "[]" j] by (simp add: ends_value_def)

lemma decInt_no_colon: "CHR '':'' \<notin> set (decInt i)"
proof -
  have "is_digit c" if "c \<in> set (dec n)" for c n
    using dec_digits[of n] that by (simp add: list_all_iff)
  moreover have "\<not> is_digit (CHR '':'')" by (simp add: is_digit_def code_unit_def)
  ultimately show ?thesis by (auto simp: decInt_parts)
qed

lemma statusName_inject: "statusName s = statusName t \<longleftrightarrow> s = t"
  by (cases s; cases t) simp_all

lemma statusName_ne [simp]: "statusName s \<noteq> []" "[] \<noteq> statusName s"
  by (cases s; simp)+

lemma kindName_inject: "kindName s = kindName t \<longleftrightarrow> s = t"
  by (cases s; cases t) simp_all

lemma callsKey_inject: "callsKey q = callsKey r \<Longrightarrow> q = (r :: callQuery)"
proof -
  assume eq: "callsKey q = callsKey r"
  let ?s = "\<lambda>q::callQuery. case cq_status q of None \<Rightarrow> [] | Some s \<Rightarrow> statusName s"
  have k: "CHR '':'' \<notin> set (kindName (cq_kind q))" for q :: callQuery by (cases "cq_kind q") simp_all
  have s: "CHR '':'' \<notin> set (?s q)" for q
  proof (cases "cq_status q")
    case (Some t)
    then show ?thesis by (cases t) simp_all
  qed simp
  have "kindName (cq_kind q) = kindName (cq_kind r) \<and> decInt (cq_from q) = decInt (cq_from r) \<and> decInt (cq_to q) = decInt (cq_to r)
      \<and> decInt (cq_limit q) = decInt (cq_limit r) \<and> ?s q = ?s r \<and> cq_target q = cq_target r"
    using eq k s decInt_no_colon by (simp add: callsKey_def key_prefix)
  then have "cq_kind q = cq_kind r" "cq_from q = cq_from r" "cq_to q = cq_to r" "cq_limit q = cq_limit r" "?s q = ?s r"
    "cq_target q = cq_target r"
    by (auto simp: kindName_inject decInt_inject)
  moreover from this(5) have "cq_status q = cq_status r"
  proof (cases "cq_status q")
    case None
    with \<open>?s q = ?s r\<close> show ?thesis by (cases "cq_status r") auto
  next
    case (Some t)
    with Some \<open>?s q = ?s r\<close> show ?thesis by (cases "cq_status r") (auto simp: statusName_inject)
  qed
  ultimately show ?thesis by simp
qed

interpretation calls_cache: ttl_cache cachedCalls "\<lambda>w. searchCalls (fst w) (snd w)" "\<lambda>c q. c (callsKey q)" CACHE_TTL_MS
  by unfold_locales (auto simp: cachedCalls_def dest: callsKey_inject split: option.split sum.split)

section \<open>Answers of a search\<close>

interpretation newest: comparator "\<lambda>a b. oc_startedAt (b :: observabilityCall) \<le> oc_startedAt a"
  by unfold_locales auto

lemma searchCalls_sound:
  assumes "searchCalls env fetch q = Inr r" "1 \<le> cq_limit q"
  shows "int (length (cr_items r)) \<le> cq_limit q \<and> list_all (matchesQuery q) (cr_items r)
    \<and> sorted_wrt (\<lambda>a b. oc_startedAt b \<le> oc_startedAt a) (cr_items r)
    \<and> (cr_truncated r \<or> (\<exists>payload calls. fetch (cq_from q, cq_to q, MAX_TRACE_SEARCH_RESULTS) = Some payload
        \<and> extractSafeCalls env payload = Inr calls \<and> mset (cr_items r) = mset (filter (matchesQuery q) calls)))"
proof -
  obtain payload calls where p: "fetch (cq_from q, cq_to q, MAX_TRACE_SEARCH_RESULTS) = Some payload"
    "extractSafeCalls env payload = Inr calls"
    using assms(1) by (auto simp: searchCalls_def split: option.split_asm sum.split_asm)
  let ?m = "sort_by (\<lambda>a b. oc_startedAt b \<le> oc_startedAt a) (filter (matchesQuery q) calls)"
  have items: "cr_items r = take (nat (cq_limit q)) ?m"
    and tr: "\<not> cr_truncated r \<Longrightarrow> int (length ?m) \<le> cq_limit q"
    using assms(1) p by (auto simp: searchCalls_def Let_def)
  have "\<not> cr_truncated r \<Longrightarrow> cr_items r = ?m" using items tr by simp
  then have "\<not> cr_truncated r \<Longrightarrow> mset (cr_items r) = mset (filter (matchesQuery q) calls)" by simp
  moreover have "int (length (cr_items r)) \<le> cq_limit q" using items assms(2) by simp
  moreover have "list_all (matchesQuery q) (cr_items r)"
    using items by (auto simp: list_all_iff dest: in_set_takeD)
  moreover have "sorted_wrt (\<lambda>a b. oc_startedAt b \<le> oc_startedAt a) (cr_items r)"
    unfolding items by (rule sorted_wrt_take[OF newest.sorted_sort_by])
  ultimately show ?thesis using p by blast
qed

lemma parseCallQuery_bounds:
  assumes "parseCallQuery env params now = Inr q"
  shows "1 \<le> cq_limit q \<and> cq_limit q \<le> 100 \<and> cq_from q < cq_to q \<and> cq_to q - cq_from q \<le> 86400000
    \<and> length (cq_target q) \<le> 128"
proof -
  have "1 \<le> clampLimit v \<and> clampLimit v \<le> 100" for v
    by (simp add: clampLimit_def Let_def MAX_TRACE_SEARCH_RESULTS_def)
  with assms show ?thesis
    by (auto simp: parseCallQuery_def Let_def MAX_TRACE_SEARCH_WINDOW_MS_def split: option.split_asm if_split_asm)
qed

text \<open>C30: Over any sequence of searches from an empty cache, every list of calls that is answered is bounded and
  belongs to the query asked: at most the limit, which is between 1 and 100, each of the kind,
  status and target asked for, newest first, for a window of at most a day; when it is not marked
  truncated nothing that matches is missing; and it is what Jaeger answered to this search, or to
  an equal one less than ten seconds ago.\<close>

theorem diagnostics_search_sound:
  assumes "fst (run_reads cachedCalls (\<lambda>_. None) (es @ [e])) = rs @ [Inr r]"
    and "parseCallQuery env params t = Inr (ev_key e)"
  shows "int (length (cr_items r)) \<le> cq_limit (ev_key e) \<and> cq_limit (ev_key e) \<le> 100
    \<and> list_all (matchesQuery (ev_key e)) (cr_items r)
    \<and> sorted_wrt (\<lambda>a b. oc_startedAt b \<le> oc_startedAt a) (cr_items r)
    \<and> cq_from (ev_key e) < cq_to (ev_key e) \<and> cq_to (ev_key e) - cq_from (ev_key e) \<le> 86400000
    \<and> (\<exists>d. (d = e \<or> d \<in> set es \<and> ev_key d = ev_key e \<and> ev_now e < ev_stored d + 10000)
        \<and> searchCalls (fst (ev_world d)) (snd (ev_world d)) (ev_key e) = Inr r
        \<and> (cr_truncated r \<or> (\<exists>payload calls.
             snd (ev_world d) (cq_from (ev_key e), cq_to (ev_key e), MAX_TRACE_SEARCH_RESULTS) = Some payload
             \<and> extractSafeCalls (fst (ev_world d)) payload = Inr calls
             \<and> mset (cr_items r) = mset (filter (matchesQuery (ev_key e)) calls))))"
proof -
  obtain d where d: "d = e \<or> d \<in> set es \<and> ev_key d = ev_key e \<and> ev_now e < ev_stored d + 10000"
    "searchCalls (fst (ev_world d)) (snd (ev_world d)) (ev_key e) = Inr r"
    using calls_cache.run_bounded_staleness[OF _ assms(1)] by (auto simp: CACHE_TTL_MS_def)
  from parseCallQuery_bounds[OF assms(2)] searchCalls_sound[OF d(2)] d show ?thesis by auto
qed

lemma expired_event_hides_all:
  assumes "fetch (cq_from q, cq_to q, MAX_TRACE_SEARCH_RESULTS) = Some payload"
    and "p \<in> set (concat (map (parsedSpans env) (parseJaegerTraces payload)))"
    and "classifyCall env p \<noteq> None" "isoTime (ps_startMicros p / 1000) = None"
  shows "searchCalls env fetch q = Inl SearchFailed"
proof -
  have "safeCall env p = Inl InvalidDate" using assms(3,4) by (auto simp: safeCall_def Let_def)
  then have "\<nexists>calls. mapE (safeCall env) (concat (map (parsedSpans env) (parseJaegerTraces payload))) = Inr calls"
    using assms(2) by (auto simp: mapE_list_all2 list_all2_conv_all_nth in_set_conv_nth simp del: set_concat)
  then have "\<nexists>calls. extractSafeCalls env payload = Inr calls" by (auto simp: extractSafeCalls_def)
  then show ?thesis using assms(1) by (cases "extractSafeCalls env payload") (auto simp: searchCalls_def)
qed

definition demo_params :: params where
  "demo_params name = (if name = ''kind'' then Some ''model'' else None)"

definition demo_query :: callQuery where
  "demo_query = \<lparr>cq_kind = ModelCall, cq_from = 400000, cq_to = 4000000, cq_limit = 50, cq_status = None, cq_target = []\<rparr>"

lemma demo_query_parsed: "parseCallQuery demo_observability_env demo_params 4000000 = Inr demo_query"
  by (simp add: parseCallQuery_def demo_params_def parseDate_def parseStatus_def clampLimit_def MAX_TRACE_SEARCH_RESULTS_def
      MAX_TRACE_SEARCH_WINDOW_MS_def demo_query_def)

definition demo_search :: "(observabilityEnv \<times> jaeger, callQuery) readEvent" where
  "demo_search = \<lparr>ev_world = (demo_observability_env, \<lambda>_. Some (JObj [])), ev_key = demo_query, ev_now = 4000000, ev_stored = 4000100\<rparr>"

theorem diagnostics_search_sound_witness:
  "\<exists>r. fst (run_reads cachedCalls (\<lambda>_. None) [demo_search]) = [Inr r] \<and> int (length (cr_items r)) \<le> 50"
proof -
  obtain r where r: "fst (run_reads cachedCalls (\<lambda>_. None) ([] @ [demo_search])) = [] @ [Inr r]"
    by (simp add: demo_search_def cachedCalls_def searchCalls_def extractSafeCalls_def parseJaegerTraces_def objectOf_def fieldOf_def
        nullish_def)
  have "parseCallQuery demo_observability_env demo_params 4000000 = Inr (ev_key demo_search)"
    using demo_query_parsed by (simp add: demo_search_def)
  from diagnostics_search_sound[OF r this] r show ?thesis by (auto simp: demo_search_def demo_query_def)
qed

end
