(* ===== verification/Diagnostics_Routes.thy ===== *)
theory Diagnostics_Routes
  imports Diagnostics Console_Identity
begin

text \<open>
  The routes of the diagnostics (app/api/observability: summary, calls and traces/[traceId]). The
  three caches are the state. Each route admits administrators only, and a caller it turns away
  neither reads nor changes a cache.
\<close>

type_synonym diagnosticsCaches = "summaryCache \<times> callsCache \<times> traceCache"

record diagnosticsEnv =
  de_identity :: identityEnv
  de_view :: observabilityEnv
  de_prometheus :: prometheus
  de_search :: jaeger
  de_trace :: "string \<Rightarrow> json option"

text \<open>Who asks, when the request arrives, and when an answer that is fetched for it is stored.\<close>

record diagnosticsCall =
  dq_headers :: headers
  dq_now :: int
  dq_stored :: int

datatype diagnosticsRequest = SummaryAsked "string option" | CallsAsked params | TraceAsked string

datatype diagnosticsAnswer = SummaryShown summary | CallsShown callsResult | TraceShown traceDetail
  | DiagnosticsRefused int

fun refusal :: "int \<Rightarrow> appError \<Rightarrow> int" where
  "refusal other (AuthError m status) = status"
| "refusal other e = other"

definition summaryGet :: "diagnosticsEnv \<Rightarrow> diagnosticsCall \<Rightarrow> (appError + platformIdentity) \<Rightarrow> string option
    \<Rightarrow> diagnosticsCaches \<Rightarrow> diagnosticsAnswer \<times> diagnosticsCaches" where
  "summaryGet env q auth rng caches = (case auth of
     Inl e \<Rightarrow> (DiagnosticsRefused (refusal 500 e), caches)
   | Inr _ \<Rightarrow> (case caches of (s, c, t) \<Rightarrow>
       (case getObservabilitySummary (de_prometheus env) (dq_now q) (dq_stored q) (parseRange rng) s of
         (r, s') \<Rightarrow> (SummaryShown r, s', c, t))))"

definition callsGet :: "diagnosticsEnv \<Rightarrow> diagnosticsCall \<Rightarrow> (appError + platformIdentity) \<Rightarrow> params
    \<Rightarrow> diagnosticsCaches \<Rightarrow> diagnosticsAnswer \<times> diagnosticsCaches" where
  "callsGet env q auth params caches = (case auth of
     Inl e \<Rightarrow> (DiagnosticsRefused (refusal 500 e), caches)
   | Inr _ \<Rightarrow> (case caches of (s, c, t) \<Rightarrow>
       (case getObservabilityCalls (de_view env, de_search env) params (dq_now q) (dq_stored q) c of
         (Inl e, c') \<Rightarrow> (DiagnosticsRefused 400, s, c', t)
       | (Inr r, c') \<Rightarrow> (CallsShown r, s, c', t))))"

definition traceGet :: "diagnosticsEnv \<Rightarrow> diagnosticsCall \<Rightarrow> (appError + platformIdentity) \<Rightarrow> string
    \<Rightarrow> diagnosticsCaches \<Rightarrow> diagnosticsAnswer \<times> diagnosticsCaches" where
  "traceGet env q auth traceId caches = (case auth of
     Inl e \<Rightarrow> (DiagnosticsRefused (refusal 503 e), caches)
   | Inr _ \<Rightarrow> (case caches of (s, c, t) \<Rightarrow>
       (case getObservabilityTrace (de_view env, de_trace env) traceId (dq_now q) (dq_stored q) t of
         (Inl (BadTraceRequest e), t') \<Rightarrow> (DiagnosticsRefused 400, s, c, t')
       | (Inl TraceUnavailable, t') \<Rightarrow> (DiagnosticsRefused 503, s, c, t')
       | (Inr None, t') \<Rightarrow> (DiagnosticsRefused 404, s, c, t')
       | (Inr (Some r), t') \<Rightarrow> (TraceShown r, s, c, t'))))"

text \<open>A request to one of the routes, over the store the identity is looked up in.\<close>

definition diagnosticsStep :: "diagnosticsEnv \<Rightarrow> db \<Rightarrow> diagnosticsCall \<times> diagnosticsRequest
    \<Rightarrow> diagnosticsCaches \<Rightarrow> diagnosticsAnswer \<times> diagnosticsCaches" where
  "diagnosticsStep env d qr caches = (case qr of (q, r) \<Rightarrow>
     (let auth = requireConsoleAdmin (de_identity env) (dq_headers q) (dq_now q) d in
      case r of SummaryAsked rng \<Rightarrow> summaryGet env q auth rng caches
        | CallsAsked params \<Rightarrow> callsGet env q auth params caches
        | TraceAsked traceId \<Rightarrow> traceGet env q auth traceId caches))"

fun diagnosticsRun :: "diagnosticsEnv \<Rightarrow> db \<Rightarrow> (diagnosticsCall \<times> diagnosticsRequest) list
    \<Rightarrow> diagnosticsCaches \<Rightarrow> diagnosticsAnswer list \<times> diagnosticsCaches" where
  "diagnosticsRun env d [] caches = ([], caches)"
| "diagnosticsRun env d (x # xs) caches = (case diagnosticsStep env d x caches of (a, caches') \<Rightarrow>
     (case diagnosticsRun env d xs caches' of (as, caches'') \<Rightarrow> (a # as, caches'')))"

definition administrators :: "diagnosticsEnv \<Rightarrow> db \<Rightarrow> diagnosticsCall \<times> diagnosticsRequest \<Rightarrow> bool" where
  "administrators env d x = is_ok (requireConsoleAdmin (de_identity env) (dq_headers (fst x)) (dq_now (fst x)) d)"

lemma turned_away:
  "\<not> administrators env d x \<Longrightarrow> \<exists>status. diagnosticsStep env d x caches = (DiagnosticsRefused status, caches)"
  by (cases x) (auto simp: administrators_def diagnosticsStep_def summaryGet_def callsGet_def traceGet_def is_ok_iff
      Let_def split: diagnosticsRequest.split sum.split)

text \<open>Callers who are no administrators do not influence what administrators see, and leave the caches as
  the administrators' requests alone would leave them.\<close>

theorem diagnostics_unaffected_by_others:
  "snd (diagnosticsRun env d xs caches) = snd (diagnosticsRun env d (filter (administrators env d) xs) caches)
   \<and> map snd (filter (\<lambda>p. administrators env d (fst p)) (zip xs (fst (diagnosticsRun env d xs caches))))
      = fst (diagnosticsRun env d (filter (administrators env d) xs) caches)"
proof (induction xs arbitrary: caches)
  case Nil
  then show ?case by simp
next
  case (Cons x xs)
  show ?case
  proof (cases "administrators env d x")
    case True
    then show ?thesis using Cons[of "snd (diagnosticsStep env d x caches)"] by (auto split: prod.split)
  next
    case False
    then obtain status where "diagnosticsStep env d x caches = (DiagnosticsRefused status, caches)"
      using turned_away by blast
    then show ?thesis using False Cons[of caches] by (auto split: prod.split)
  qed
qed

end
