(* ===== verification/Catalog.thy ===== *)
theory Catalog
  imports Js_Data
begin

text \<open>
  The catalogue of the platform's services (lib/control-plane/catalog.ts, the types of
  lib/control-plane/types.ts): the services the console configures and checks, in their order. The
  display name, the description and the capabilities of a service are texts for the pages and
  are left out.
\<close>

datatype serviceGroup = GatewayGroup | RuntimeGroup | ModelGroup | ConnectionGroup | KnowledgeGroup | DataGroup | QualityGroup
  | ObservabilityGroup

datatype probeConfig = HttpProbe string "string option" "string option" | TcpProbe string string | ManualProbe

record serviceDefinition =
  sv_id :: string
  sv_product :: string
  sv_group :: serviceGroup
  sv_endpointEnv :: "string option"
  sv_defaultEndpoint :: "string option"
  sv_version :: string
  sv_probe :: probeConfig
  sv_docsUrl :: string

definition serviceCatalog :: "serviceDefinition list" where
  "serviceCatalog =
   [
    \<lparr>sv_id = ''global-gateway'', sv_product = ''Caddy'', sv_group = GatewayGroup, sv_endpointEnv = Some ''GLOBAL_GATEWAY_URL'',
     sv_defaultEndpoint = Some ''http://localhost:8080'', sv_version = ''2.11.4'',
     sv_probe = HttpProbe ''/health'' (None) (None),
     sv_docsUrl = ''https://caddyserver.com/docs/''\<rparr>,
    \<lparr>sv_id = ''agent-runtime'', sv_product = ''PydanticAI + FastAPI'', sv_group = RuntimeGroup, sv_endpointEnv = Some ''AGENT_RUNTIME_URL'',
     sv_defaultEndpoint = Some ''http://runtime.localhost:8080'', sv_version = ''2.12.x'',
     sv_probe = HttpProbe ''/health'' (None) (None),
     sv_docsUrl = ''https://ai.pydantic.dev/''\<rparr>,
    \<lparr>sv_id = ''mcp-access-gateway'', sv_product = ''Go + OIDC'', sv_group = GatewayGroup, sv_endpointEnv = Some ''MCP_PUBLIC_RESOURCE_URL'',
     sv_defaultEndpoint = Some ''http://localhost:8080/mcp'', sv_version = ''0.1.0'',
     sv_probe = HttpProbe ''/ready'' (Some ''MCP_ACCESS_GATEWAY_URL'') (Some ''http://mcp-access-gateway:8081''),
     sv_docsUrl = ''https://modelcontextprotocol.io/specification/2025-06-18/basic/authorization''\<rparr>,
    \<lparr>sv_id = ''llm-gateway'', sv_product = ''Envoy AI Gateway'', sv_group = ModelGroup, sv_endpointEnv = Some ''LLM_GATEWAY_URL'',
     sv_defaultEndpoint = Some ''http://localhost:8080/v1'', sv_version = ''1.0.0'',
     sv_probe = HttpProbe ''health'' (Some ''LLM_GATEWAY_ADMIN_URL'') (Some ''http://localhost:8080/llm-admin''),
     sv_docsUrl = ''https://github.com/envoyproxy/ai-gateway''\<rparr>,
    \<lparr>sv_id = ''open-connector'', sv_product = ''Open Connector'', sv_group = ConnectionGroup, sv_endpointEnv = Some ''OPEN_CONNECTOR_URL'',
     sv_defaultEndpoint = Some ''http://localhost:8080/connector'', sv_version = ''1.2.0'',
     sv_probe = HttpProbe ''health'' (None) (None),
     sv_docsUrl = ''https://github.com/oomol-lab/open-connector''\<rparr>,
    \<lparr>sv_id = ''lightrag'', sv_product = ''LightRAG'', sv_group = KnowledgeGroup, sv_endpointEnv = Some ''LIGHTRAG_URL'',
     sv_defaultEndpoint = Some ''http://localhost:8080/rag'', sv_version = ''1.4.16'',
     sv_probe = HttpProbe ''health'' (None) (None),
     sv_docsUrl = ''https://github.com/HKUDS/LightRAG''\<rparr>,
    \<lparr>sv_id = ''rag-mcp'', sv_product = ''Python MCP Adapter'', sv_group = KnowledgeGroup, sv_endpointEnv = Some ''RAG_MCP_URL'',
     sv_defaultEndpoint = Some ''http://rag-mcp:8080/mcp'', sv_version = ''1.0.0'',
     sv_probe = HttpProbe ''/health'' (Some ''RAG_MCP_HEALTH_URL'') (Some ''http://rag-mcp:8080''),
     sv_docsUrl = ''https://modelcontextprotocol.io/specification/2025-06-18/server/tools''\<rparr>,
    \<lparr>sv_id = ''postgres'', sv_product = ''PostgreSQL + pgvector + AGE'', sv_group = DataGroup, sv_endpointEnv = None,
     sv_defaultEndpoint = None, sv_version = ''17 + 0.8.5 + 1.7.0'',
     sv_probe = TcpProbe ''POSTGRES_HOST'' ''POSTGRES_PORT'',
     sv_docsUrl = ''https://github.com/pgvector/pgvector''\<rparr>,
    \<lparr>sv_id = ''promptfoo'', sv_product = ''Promptfoo'', sv_group = QualityGroup, sv_endpointEnv = None,
     sv_defaultEndpoint = None, sv_version = ''0.121.19'',
     sv_probe = ManualProbe,
     sv_docsUrl = ''https://github.com/promptfoo/promptfoo''\<rparr>,
    \<lparr>sv_id = ''jaeger'', sv_product = ''OpenTelemetry + Jaeger'', sv_group = ObservabilityGroup, sv_endpointEnv = Some ''JAEGER_URL'',
     sv_defaultEndpoint = Some ''http://jaeger:16686'', sv_version = ''2.19.0'',
     sv_probe = HttpProbe ''api/services'' (None) (None),
     sv_docsUrl = ''https://www.jaegertracing.io/docs/''\<rparr>]"

definition getServiceDefinition :: "string \<Rightarrow> serviceDefinition option" where
  "getServiceDefinition i = List.find (\<lambda>s. sv_id s = i) serviceCatalog"

text \<open>The object serviceById, by its keys.\<close>

definition serviceById :: "string \<Rightarrow> serviceDefinition option" where
  "serviceById = map_of (rev (map (\<lambda>s. (sv_id s, s)) serviceCatalog))"

lemma find_map_of: "List.find (\<lambda>s. f s = i) xs = map_of (map (\<lambda>s. (f s, s)) xs) i"
  by (induction xs) auto

lemma map_of_rev: "distinct (map fst xs) \<Longrightarrow> map_of (rev xs) k = map_of xs k"
proof (induction xs)
  case (Cons x xs)
  then have "map_of xs (fst x) = None" by (simp add: map_of_eq_None_iff)
  with Cons show ?case by (cases x) (auto simp: map_add_def split: option.split)
qed simp

lemma catalog_ids_distinct: "distinct (map sv_id serviceCatalog)"
  by (simp add: serviceCatalog_def)

lemma getServiceDefinition_serviceById: "getServiceDefinition i = serviceById i"
  using catalog_ids_distinct by (simp add: getServiceDefinition_def serviceById_def find_map_of map_of_rev comp_def)

end
