(* ===== verification/Console_Config.thy ===== *)
theory Console_Config
  imports Json_Text Catalog
begin

text \<open>
  The settings file of the console (src/ai-console/src/lib/server/config.ts): the validation of a
  patch, its application, the migration of older files and the file itself. A configuration is the
  JSON value it is stored as; the file is replaced atomically, so its content is that value. Times
  are ISO texts. Spreading a stored string or array into an object is not modelled.
\<close>

definition MAX_MONTHLY_BUDGET :: int where "MAX_MONTHLY_BUDGET = 1000000000"
definition MAX_DISPLAY_NAME_LENGTH :: nat where "MAX_DISPLAY_NAME_LENGTH = 100"
definition MAX_NOTES_LENGTH :: nat where "MAX_NOTES_LENGTH = 2000"

definition serviceIds :: "string list" where
  "serviceIds = map sv_id serviceCatalog"

lemma serviceIds_list: "serviceIds = [''global-gateway'', ''agent-runtime'', ''mcp-access-gateway'', ''llm-gateway'',
    ''open-connector'', ''lightrag'', ''rag-mcp'', ''postgres'', ''promptfoo'', ''jaeger'']"
  by (simp add: serviceIds_def serviceCatalog_def)

section \<open>Objects\<close>

definition enabledService :: json where
  "enabledService = JObj [(''enabled'', JBool True)]"

text \<open>\<open>String(v)\<close>, None where it throws: an own \<open>toString\<close> of a parsed object is no function. A
  number is compared with words only, so the text of one outside the written range does not matter.\<close>

fun js_String :: "json \<Rightarrow> string option" and js_Strings :: "json list \<Rightarrow> string list option" where
  "js_String JUndef = Some ''undefined''"
| "js_String JNull = Some ''null''"
| "js_String (JBool b) = Some (if b then ''true'' else ''false'')"
| "js_String (JNum n) = Some (case numText n of Some t \<Rightarrow> t | None \<Rightarrow> ''0'')"
| "js_String (JStr s) = Some s"
| "js_String (JArr vs) = map_option (js_join '','') (js_Strings vs)"
| "js_String (JObj kvs) = (if map_of kvs ''toString'' = None then Some ''[object Object]'' else None)"
| "js_Strings [] = Some []"
| "js_Strings (v # vs) = (case (if nullish v then Some [] else js_String v) of None \<Rightarrow> None
     | Some s \<Rightarrow> map_option (\<lambda>ss. s # ss) (js_Strings vs))"

section \<open>Validation\<close>

datatype patchResult = PatchThrows | PatchErrors "string list" | PatchOk json

definition unknownKeys :: "json \<Rightarrow> string list \<Rightarrow> string list" where
  "unknownKeys v allowed = filter (\<lambda>k. k \<notin> set allowed) (objectKeys v)"

definition validateOptionalString :: "json \<Rightarrow> string \<Rightarrow> nat \<Rightarrow> string list" where
  "validateOptionalString v field maxLength =
    (if v \<noteq> JUndef \<and> (\<not> is_string v \<or> length (the_string v) > maxLength)
     then [field @ '' must be a string of at most '' @ dec maxLength @ '' characters''] else [])"

definition servicePatchErrors :: "string \<Rightarrow> json \<Rightarrow> string list" where
  "servicePatchErrors serviceId p =
    (if serviceId \<notin> set serviceIds then [''unknown service: '' @ serviceId]
     else if \<not> is_object p then [''services.'' @ serviceId @ '' must be a JSON object'']
     else map (\<lambda>k. ''unsupported field: services.'' @ serviceId @ ''.'' @ k)
         (unknownKeys p [''enabled'', ''endpoint'', ''displayName'', ''notes''])
       @ (case jget p ''enabled'' of JUndef \<Rightarrow> [] | JBool b \<Rightarrow> []
          | _ \<Rightarrow> [''services.'' @ serviceId @ ''.enabled must be a boolean''])
       @ (if jget p ''endpoint'' \<noteq> JUndef \<and> (\<not> is_string (jget p ''endpoint'') \<or> the_string (jget p ''endpoint'') = []
            \<or> length (the_string (jget p ''endpoint'')) > 2048)
          then [''services.'' @ serviceId @ ''.endpoint must be a non-empty string''] else [])
       @ validateOptionalString (jget p ''displayName'') (''services.'' @ serviceId @ ''.displayName'') MAX_DISPLAY_NAME_LENGTH
       @ validateOptionalString (jget p ''notes'') (''services.'' @ serviceId @ ''.notes'') MAX_NOTES_LENGTH)"

definition servicesErrors :: "json \<Rightarrow> string list" where
  "servicesErrors v = (if v = JUndef then [] else if \<not> is_object v then [''services must be a JSON object'']
     else concat (map (\<lambda>(i, p). servicePatchErrors i p) (members v)))"

definition budgetErrors :: "json \<Rightarrow> string list" where
  "budgetErrors v = (case v of JUndef \<Rightarrow> []
     | JNum (Fin q) \<Rightarrow> if q < 0 \<or> q > of_int MAX_MONTHLY_BUDGET
         then [''monthlyBudget must be between 0 and '' @ decInt MAX_MONTHLY_BUDGET] else []
     | _ \<Rightarrow> [''monthlyBudget must be between 0 and '' @ decInt MAX_MONTHLY_BUDGET])"

text \<open>A choice among words; None where the conversion throws.\<close>

definition choiceErrors :: "json \<Rightarrow> string list \<Rightarrow> string \<Rightarrow> string list option" where
  "choiceErrors v choices message = (if v = JUndef then Some []
     else map_option (\<lambda>s. if s \<in> set choices then [] else [message]) (js_String v))"

definition validateConfigPatch :: "json \<Rightarrow> patchResult" where
  "validateConfigPatch input =
    (if \<not> is_object input then PatchErrors [''request body must be a JSON object'']
     else case choiceErrors (jget input ''environment'') [''development'', ''staging'', ''production'']
         ''environment must be development, staging, or production'' of None \<Rightarrow> PatchThrows
       | Some environment \<Rightarrow>
         (case choiceErrors (jget input ''currency'') [''CNY'', ''USD''] ''currency must be CNY or USD'' of None \<Rightarrow> PatchThrows
          | Some currency \<Rightarrow>
              let errors = map (\<lambda>k. ''unsupported field: '' @ k)
                    (unknownKeys input [''environment'', ''currency'', ''monthlyBudget'', ''services''])
                  @ environment @ currency @ budgetErrors (jget input ''monthlyBudget'') @ servicesErrors (jget input ''services'') in
              if errors = [] then PatchOk input else PatchErrors errors))"

section \<open>The configuration\<close>

definition createDefaultConfig :: "string \<Rightarrow> json" where
  "createDefaultConfig now = JObj [(''environment'', JStr ''development''), (''currency'', JStr ''CNY''),
     (''monthlyBudget'', JNum (Fin 20000)), (''services'', JObj (map (\<lambda>i. (i, enabledService)) serviceIds)),
     (''updatedAt'', JStr now)]"

fun patchServices :: "(string \<times> json) list \<Rightarrow> (string \<times> json) list \<Rightarrow> (string \<times> json) list" where
  "patchServices [] services = services"
| "patchServices ((i, p) # ps) services = patchServices ps (AList.update i
     (spread (if nullish (jget (JObj services) i) then enabledService else jget (JObj services) i) p) services)"

definition applyConfigPatch :: "json \<Rightarrow> json \<Rightarrow> string \<Rightarrow> json" where
  "applyConfigPatch current patch now =
    spread (spread current patch)
      (JObj [(''services'', JObj (patchServices (members (jget patch ''services'')) (members (jget current ''services'')))),
             (''updatedAt'', JStr now)])"

definition renameService :: "string \<Rightarrow> string \<Rightarrow> (string \<times> json) list \<Rightarrow> (string \<times> json) list" where
  "renameService old new services = AList.delete old
    (if \<not> jtruthy (jget (JObj services) new) \<and> jtruthy (jget (JObj services) old)
     then AList.update new (jget (JObj services) old) services else services)"

definition completeServices :: "(string \<times> json) list \<Rightarrow> (string \<times> json) list" where
  "completeServices services =
    fold (\<lambda>i m. if nullish (jget (JObj m) i) then AList.update i enabledService m else m) serviceIds services"

definition migrateLegacyConfig :: "json \<Rightarrow> json" where
  "migrateLegacyConfig config = spread config (JObj [(''services'', JObj (completeServices
     (renameService ''silverbullet'' ''lightrag'' (renameService ''bifrost'' ''llm-gateway'' (members (jget config ''services''))))))])"

section \<open>The file\<close>

datatype configFile = NoConfig | UnreadableConfig | ConfigFile json

text \<open>A read returns the configuration and the file as it leaves it; None where it throws: another
  error than a missing file, or a stored null.\<close>

definition readConsoleConfig :: "string \<Rightarrow> configFile \<Rightarrow> json option \<times> configFile" where
  "readConsoleConfig now f = (case f of
     NoConfig \<Rightarrow> (Some (createDefaultConfig now), ConfigFile (createDefaultConfig now))
   | UnreadableConfig \<Rightarrow> (None, f)
   | ConfigFile stored \<Rightarrow> if nullish stored then (None, f)
       else (Some (migrateLegacyConfig stored),
         if stored \<noteq> migrateLegacyConfig stored then ConfigFile (migrateLegacyConfig stored) else f))"

definition updateConfig :: "json \<Rightarrow> string \<Rightarrow> configFile \<Rightarrow> json option \<times> configFile" where
  "updateConfig patch now f = (case readConsoleConfig now f of
     (None, f') \<Rightarrow> (None, f')
   | (Some current, f') \<Rightarrow> (Some (applyConfigPatch current patch now), ConfigFile (applyConfigPatch current patch now)))"

definition removeLegacyWeComAuthenticationSettings :: "string \<Rightarrow> configFile \<Rightarrow> configFile" where
  "removeLegacyWeComAuthenticationSettings now f = (case readConsoleConfig now f of
     (None, f') \<Rightarrow> f'
   | (Some config, f') \<Rightarrow> if jtruthy (jget config ''authentication'')
       then ConfigFile (JObj (AList.delete ''authentication'' (members config))) else f')"

section \<open>The routes\<close>

datatype configResponse = ConfigBody json | ConfigRejected "string list" | ConfigCrash

definition configGet :: "string \<Rightarrow> configFile \<Rightarrow> configResponse \<times> configFile" where
  "configGet now f = (case readConsoleConfig now f of (None, f') \<Rightarrow> (ConfigCrash, f') | (Some c, f') \<Rightarrow> (ConfigBody c, f'))"

text \<open>The body is None where it is no JSON text.\<close>

definition configPatch :: "json option \<Rightarrow> string \<Rightarrow> configFile \<Rightarrow> configResponse \<times> configFile" where
  "configPatch body now f = (case body of None \<Rightarrow> (ConfigRejected [''invalid JSON body''], f)
     | Some v \<Rightarrow> (case validateConfigPatch v of
         PatchThrows \<Rightarrow> (ConfigCrash, f)
       | PatchErrors errors \<Rightarrow> (ConfigRejected errors, f)
       | PatchOk patch \<Rightarrow> (case updateConfig patch now f of
           (None, f') \<Rightarrow> (ConfigCrash, f') | (Some c, f') \<Rightarrow> (ConfigBody c, f'))))"

section \<open>Objects as maps\<close>

lemma jget_members: "jget v k = (case map_of (members v) k of None \<Rightarrow> JUndef | Some w \<Rightarrow> w)"
  by (cases v) auto

lemma members_spread [simp]:
  "members (spread a b) = fold (\<lambda>(k, v) m. AList.update k v m) (members b) (members a)"
  by (simp add: spread_def)

lemma update_same: "map_of m k = Some v \<Longrightarrow> AList.update k v m = m"
  by (induction m) (auto split: if_splits)

lemma delete_absent: "map_of m k = None \<Longrightarrow> AList.delete k m = m"
  by (induction m) (auto simp: AList.delete_eq split: if_splits)

lemma map_of_spread:
  "map_of (members (spread a b)) k = (case map_of (rev (members b)) k of None \<Rightarrow> map_of (members a) k | Some v \<Rightarrow> Some v)"
  by (simp add: map_of_js_map_aux)

lemma jget_spread:
  assumes "distinct (map fst (members b))"
  shows "jget (spread a b) k = (if k \<in> set (map fst (members b)) then jget b k else jget a k)"
proof -
  have "map_of (members (spread a b)) k = (case map_of (members b) k of None \<Rightarrow> map_of (members a) k | Some v \<Rightarrow> Some v)"
    by (simp only: map_of_spread map_of_rev[OF assms])
  moreover have "k \<in> set (map fst (members b)) \<longleftrightarrow> map_of (members b) k \<noteq> None"
    by (simp add: map_of_eq_None_iff)
  ultimately show ?thesis
    by (simp add: jget_members del: members_spread split: option.split)
qed

lemma jget_update: "jget (JObj (AList.update k v m)) j = (if j = k then v else jget (JObj m) j)"
  by (simp add: update_conv')

lemma jget_delete: "jget (JObj (AList.delete k m)) j = (if j = k then JUndef else jget (JObj m) j)"
  by (simp add: delete_conv')

section \<open>Migration\<close>

text \<open>What every configuration in use satisfies: the services are an object that names every service of the
  catalogue and none of the old ones.\<close>

definition current_services :: "(string \<times> json) list \<Rightarrow> bool" where
  "current_services m \<longleftrightarrow> map_of m ''bifrost'' = None \<and> map_of m ''silverbullet'' = None
     \<and> list_all (\<lambda>i. \<not> nullish (jget (JObj m) i)) serviceIds"

definition current_config :: "json \<Rightarrow> bool" where
  "current_config c \<longleftrightarrow> is_object c \<and> is_object (jget c ''services'') \<and> current_services (members (jget c ''services''))"

definition addMissing :: "string \<Rightarrow> (string \<times> json) list \<Rightarrow> (string \<times> json) list" where
  "addMissing i m = (if nullish (jget (JObj m) i) then AList.update i enabledService m else m)"

lemma completeServices_fold: "completeServices m = fold addMissing serviceIds m"
  by (simp add: completeServices_def addMissing_def[abs_def])

lemma enabledService_some [simp]: "\<not> nullish enabledService" "\<not> nullish (JObj kvs)" "nullish JUndef"
  by (simp_all add: nullish_def enabledService_def)

lemma addMissing_get: "jget (JObj (addMissing i m)) k
    = (if k = i \<and> nullish (jget (JObj m) i) then enabledService else jget (JObj m) k)"
  by (simp add: addMissing_def jget_update del: jget.simps)

lemma complete_get: "jget (JObj (fold addMissing is m)) k
    = (if k \<in> set is \<and> nullish (jget (JObj m) k) then enabledService else jget (JObj m) k)"
  by (induction "is" arbitrary: m) (auto simp: addMissing_get simp del: jget.simps)

lemma complete_same: "list_all (\<lambda>i. \<not> nullish (jget (JObj m) i)) is \<Longrightarrow> fold addMissing is m = m"
  by (induction "is") (simp_all add: addMissing_def del: jget.simps)

lemma complete_absent: "k \<notin> set is \<Longrightarrow> map_of (fold addMissing is m) k = map_of m k"
  by (induction "is" arbitrary: m) (auto simp: addMissing_def update_conv' simp del: jget.simps)

lemma rename_same: "map_of m old = None \<Longrightarrow> renameService old new m = m"
  by (simp add: renameService_def delete_absent)

lemma rename_removes: "map_of (renameService old new m) old = None"
  by (simp add: renameService_def delete_conv' del: jget.simps)

lemma rename_absent: "map_of m k = None \<Longrightarrow> k \<noteq> new \<Longrightarrow> map_of (renameService old new m) k = None"
  by (simp add: renameService_def delete_conv' update_conv' del: jget.simps)

lemma migrated_services: "current_services (completeServices
    (renameService ''silverbullet'' ''lightrag'' (renameService ''bifrost'' ''llm-gateway'' m)))"
proof -
  let ?m = "renameService ''silverbullet'' ''lightrag'' (renameService ''bifrost'' ''llm-gateway'' m)"
  have "map_of ?m ''bifrost'' = None" by (rule rename_absent[OF rename_removes]) simp
  moreover have "map_of ?m ''silverbullet'' = None" by (rule rename_removes)
  moreover have "''bifrost'' \<notin> set serviceIds" "''silverbullet'' \<notin> set serviceIds" by (simp_all add: serviceIds_list)
  ultimately show ?thesis
    by (auto simp: current_services_def completeServices_fold complete_absent complete_get list_all_iff simp del: jget.simps)
qed

lemma spread_one: "spread c (JObj [(k, v)]) = JObj (AList.update k v (members c))"
  by (simp add: spread_def)

lemma migrate_current: "current_config (migrateLegacyConfig c)"
  using migrated_services by (simp add: migrateLegacyConfig_def spread_one current_config_def update_conv')

lemma migrate_same:
  assumes "current_config c"
  shows "migrateLegacyConfig c = c"
proof -
  obtain kvs ss where c: "c = JObj kvs" "map_of kvs ''services'' = Some (JObj ss)"
    using assms by (auto simp: current_config_def is_object_iff split: option.split_asm)
  then have ss: "current_services ss" using assms by (simp add: current_config_def)
  then have "completeServices (renameService ''silverbullet'' ''lightrag'' (renameService ''bifrost'' ''llm-gateway'' ss)) = ss"
    by (simp add: current_services_def rename_same completeServices_fold complete_same del: jget.simps)
  with c show ?thesis by (simp add: migrateLegacyConfig_def spread_one update_same)
qed

lemma default_current: "current_config (createDefaultConfig now)"
  by (simp add: current_config_def createDefaultConfig_def current_services_def serviceIds_list)

lemma read_current:
  assumes "readConsoleConfig now f = (Some c, f')"
  shows "current_config c \<and> f' = ConfigFile c"
  using assms default_current
  by (auto simp: readConsoleConfig_def migrate_current split: configFile.split_asm if_split_asm) (metis migrate_current)

lemma read_stored: "current_config c \<Longrightarrow> readConsoleConfig now (ConfigFile c) = (Some c, ConfigFile c)"
  by (auto simp: readConsoleConfig_def migrate_same current_config_def nullish_def)

text \<open>Reading the settings converges: the first successful read leaves the file holding exactly what it
  returned, with every service of the catalogue and no renamed one, and every later read returns
  the same and writes nothing.\<close>

theorem config_read_converges:
  assumes "readConsoleConfig now f = (Some c, f')"
  shows "f' = ConfigFile c \<and> current_config c \<and> readConsoleConfig later f' = (Some c, f')"
  using read_current[OF assms] read_stored by simp

section \<open>Patches\<close>

lemma patch_ok:
  assumes "validateConfigPatch input = PatchOk patch"
  shows "patch = input \<and> is_object input
    \<and> list_all (\<lambda>k. k \<in> set [''environment'', ''currency'', ''monthlyBudget'', ''services'']) (objectKeys input)
    \<and> budgetErrors (jget input ''monthlyBudget'') = [] \<and> servicesErrors (jget input ''services'') = []"
proof -
  obtain e c where "choiceErrors (jget input ''environment'') [''development'', ''staging'', ''production'']
         ''environment must be development, staging, or production'' = Some e"
    "choiceErrors (jget input ''currency'') [''CNY'', ''USD''] ''currency must be CNY or USD'' = Some c"
    using assms by (auto simp: validateConfigPatch_def simp del: jget.simps split: if_split_asm option.split_asm)
  with assms show ?thesis
    by (auto simp: validateConfigPatch_def Let_def unknownKeys_def filter_empty_conv list_all_iff simp del: jget.simps
        split: if_split_asm)
qed

lemma services_ok:
  assumes "servicesErrors v = []" "(i, p) \<in> set (members v)"
  shows "i \<in> set serviceIds \<and> is_object p"
proof -
  have "is_object v" using assms by (cases v) auto
  then have "v \<noteq> JUndef" by auto
  with assms \<open>is_object v\<close> have "servicePatchErrors i p = []"
    by (auto simp: servicesErrors_def split: if_split_asm)
  then show ?thesis by (auto simp: servicePatchErrors_def split: if_split_asm)
qed

lemma spread_object: "is_object (spread a b)" by (simp add: spread_def)

lemma spread_some [simp]: "\<not> nullish (spread a b)" by (simp add: spread_def)

lemma patchServices_absent: "k \<notin> fst ` set ps \<Longrightarrow> map_of (patchServices ps m) k = map_of m k"
proof (induction ps arbitrary: m)
  case (Cons q ps)
  obtain i p where q: "q = (i, p)" by fastforce
  with Cons show ?case by (auto simp: update_conv' simp del: jget.simps)
qed simp

lemma patchServices_get:
  assumes "distinct (map fst ps)"
  shows "jget (JObj (patchServices ps m)) k = (case map_of ps k of None \<Rightarrow> jget (JObj m) k
     | Some p \<Rightarrow> spread (if nullish (jget (JObj m) k) then enabledService else jget (JObj m) k) p)"
  using assms
proof (induction ps arbitrary: m)
  case (Cons q ps)
  obtain i p where q: "q = (i, p)" by fastforce
  let ?m = "AList.update i (spread (if nullish (jget (JObj m) i) then enabledService else jget (JObj m) i) p) m"
  have "map_of ps i = None" using Cons.prems q by (auto simp: map_of_eq_None_iff)
  then show ?case
    using Cons.IH[of ?m] Cons.prems q by (simp add: jget_update del: jget.simps split: option.split)
qed simp

lemma patched_services:
  assumes "current_services m" "distinct (map fst ps)" "\<forall>(i, p) \<in> set ps. i \<in> set serviceIds"
  shows "current_services (patchServices ps m)"
proof -
  have "''bifrost'' \<notin> set serviceIds" "''silverbullet'' \<notin> set serviceIds" by (simp_all add: serviceIds_list)
  with assms(3) have "''bifrost'' \<notin> fst ` set ps" "''silverbullet'' \<notin> fst ` set ps" by auto
  with assms(1) show ?thesis
    by (auto simp: current_services_def patchServices_absent patchServices_get[OF assms(2)] list_all_iff
        simp del: jget.simps split: option.split)
qed

text \<open>A patch as \<open>JSON.parse\<close> gives it: its objects name no key twice.\<close>

definition parsed_patch :: "json \<Rightarrow> bool" where
  "parsed_patch p \<longleftrightarrow> distinct (objectKeys p) \<and> distinct (map fst (members (jget p ''services'')))"

lemma applied_get:
  assumes "distinct (map fst (members p))"
  shows "jget (applyConfigPatch c p now) k = (if k = ''updatedAt'' then JStr now
    else if k = ''services'' then JObj (patchServices (members (jget p ''services'')) (members (jget c ''services'')))
    else if k \<in> set (map fst (members p)) then jget p k else jget c k)"
proof -
  let ?l = "JObj [(''services'', JObj (patchServices (members (jget p ''services'')) (members (jget c ''services'')))),
             (''updatedAt'', JStr now)]"
  have "distinct (map fst (members ?l))" by simp
  from jget_spread[OF this, of "spread c p" k] jget_spread[OF assms, of c k] show ?thesis
    by (auto simp: applyConfigPatch_def)
qed

lemma objectKeys_members: "objectKeys v = map fst (members v)"
  by (cases v) auto

lemma applied_current:
  assumes "current_config c" "validateConfigPatch p = PatchOk p" "parsed_patch p"
  shows "current_config (applyConfigPatch c p now)"
proof -
  have keys: "distinct (map fst (members p))" using assms(3) by (simp add: parsed_patch_def objectKeys_members)
  have "current_services (patchServices (members (jget p ''services'')) (members (jget c ''services'')))"
    using assms(1,3) services_ok patch_ok[OF assms(2)] by (intro patched_services) (auto simp: current_config_def parsed_patch_def)
  then show ?thesis
    by (simp add: current_config_def applied_get[OF keys]) (simp add: applyConfigPatch_def spread_def)
qed


section \<open>Concrete settings\<close>

theorem config_read_converges_witness:
  "readConsoleConfig ''t1'' (ConfigFile (createDefaultConfig ''t0'')) = (Some (createDefaultConfig ''t0''), ConfigFile (createDefaultConfig ''t0''))"
proof -
  have "readConsoleConfig ''t0'' NoConfig = (Some (createDefaultConfig ''t0''), ConfigFile (createDefaultConfig ''t0''))"
    by (simp add: readConsoleConfig_def)
  from config_read_converges[OF this, of "''t1''"] show ?thesis by simp
qed

definition demo_patch :: json where
  "demo_patch = JObj [(''environment'', JStr ''staging''), (''services'', JObj [(''jaeger'', JObj [(''notes'', JStr ''n'')])])]"

lemma demo_patch_valid: "validateConfigPatch demo_patch = PatchOk demo_patch"
  by (simp add: validateConfigPatch_def demo_patch_def choiceErrors_def unknownKeys_def budgetErrors_def servicesErrors_def
      servicePatchErrors_def serviceIds_list validateOptionalString_def MAX_NOTES_LENGTH_def)

lemma demo_patch_parsed: "parsed_patch demo_patch"
  by (simp add: parsed_patch_def demo_patch_def)


text \<open>The choices are compared as texts, so a list of one word passes and is stored as a list.\<close>

definition listPatch :: json where
  "listPatch = JObj [(''environment'', JArr [JStr ''staging''])]"

theorem list_environment_stored:
  "\<exists>c. configPatch (Some listPatch) now NoConfig = (ConfigBody c, ConfigFile c)
    \<and> jget c ''environment'' = JArr [JStr ''staging'']"
proof -
  have v: "validateConfigPatch listPatch = PatchOk listPatch"
    by (simp add: validateConfigPatch_def listPatch_def choiceErrors_def unknownKeys_def budgetErrors_def servicesErrors_def nullish_def)
  have "distinct (map fst (members listPatch))" by (simp add: listPatch_def)
  from applied_get[OF this, of "createDefaultConfig now" now "''environment''"]
  have "jget (applyConfigPatch (createDefaultConfig now) listPatch now) ''environment'' = JArr [JStr ''staging'']"
    by (simp add: listPatch_def)
  then show ?thesis by (simp add: configPatch_def v updateConfig_def readConsoleConfig_def)
qed

end
