(* ===== verification/Services.thy ===== *)
theory Services
  imports Console_Config Gateway_Store Observability Identity_Link
begin

text \<open>
  The health of the services (src/ai-console/src/lib/server/services.ts) and the console's actions
  (lib/server/actions.ts, app/api/actions and app/api/services). The environment, the URL parser, the
  HTTP client and the TCP probe are parameters; an operation returns what it contacts, in order,
  beside its result. Of a stored service entry the model reads the flag and a text endpoint; a
  stored endpoint that is no text counts as absent. The moments a check starts, measures and ends
  are parameters. The texts shown to people are constructors.
\<close>

record serviceConfig =
  sg_enabled :: bool
  sg_endpoint :: "string option"

definition serviceConfigOf :: "json \<Rightarrow> serviceConfig" where
  "serviceConfigOf v = \<lparr>sg_enabled = jtruthy (jget v ''enabled''), sg_endpoint = as_string (jget v ''endpoint'')\<rparr>"

datatype fetchOutcome = Responded int | TimedOut | Unconnected

record tcpTarget =
  tt_host :: string
  tt_port :: int

record serviceEnv =
  sx_env :: "string \<Rightarrow> string option"
  sx_url :: urlParser
  sx_join :: "string \<Rightarrow> string \<Rightarrow> string option"
  sx_fetch :: "string \<Rightarrow> fetchOutcome"
  sx_tcp :: "tcpTarget \<Rightarrow> int option"
  sx_startedAt :: int
  sx_measuredAt :: int
  sx_checkedAt :: int

datatype serviceStatus = Healthy | Degraded | Offline | Unconfigured | Idle

datatype serviceDetail = NoHealthAddress | HealthAddressInvalid | HttpStatus int | HttpBadStatus int | HealthTimeout
  | NotConnected | TcpAddressInvalid | TcpConnected | TcpNotConnected | ServiceDisabled | RunByCi

record serviceSnapshot =
  sy_definition :: serviceDefinition
  sy_endpoint :: "string option"
  sy_configured :: bool
  sy_status :: serviceStatus
  sy_latencyMs :: "int option"
  sy_checkedAt :: int
  sy_detail :: serviceDetail

datatype contact = HttpGet string | TcpConnect tcpTarget | HttpPost string

section \<open>Addresses\<close>

definition configuredService :: "serviceDefinition \<Rightarrow> json \<Rightarrow> serviceConfig" where
  "configuredService definition config = (let v = jget (jget config ''services'') (sv_id definition) in
     if nullish v then \<lparr>sg_enabled = True, sg_endpoint = None\<rparr> else serviceConfigOf v)"

text \<open>\<open>a || b\<close> on optional texts.\<close>

definition orText :: "string option \<Rightarrow> string option \<Rightarrow> string option" where
  "orText a b = (case a of None \<Rightarrow> b | Some s \<Rightarrow> if s = [] then b else a)"

definition resolveHttpEndpoint :: "serviceDefinition \<Rightarrow> serviceConfig \<Rightarrow> (string \<Rightarrow> string option) \<Rightarrow> string option" where
  "resolveHttpEndpoint definition cfg environment = orText (sg_endpoint cfg)
     (orText (case sv_endpointEnv definition of None \<Rightarrow> None | Some k \<Rightarrow> if k = [] then None else environment k)
       (sv_defaultEndpoint definition))"

definition tcpPort :: "jsnum \<Rightarrow> int option" where
  "tcpPort n = (case n of Fin q \<Rightarrow> if q = of_int \<lfloor>q\<rfloor> \<and> 0 < q \<and> q \<le> 65535 then Some \<lfloor>q\<rfloor> else None | _ \<Rightarrow> None)"

definition endpointTarget :: "urlParser \<Rightarrow> string \<Rightarrow> tcpTarget option option" where
  "endpointTarget parse endpoint =
    (case parse (if js_includes endpoint ''://'' then endpoint else ''tcp://'' @ endpoint) of None \<Rightarrow> Some None
     | Some u \<Rightarrow>
       (case tcpPort (if gu_port u \<noteq> [] then js_Number (gu_port u)
               else if starts_with (gu_protocol u) ''postgres'' then Fin 5432 else Fin 0) of
          Some p \<Rightarrow> if gu_hostname u \<noteq> [] then Some (Some \<lparr>tt_host = gu_hostname u, tt_port = p\<rparr>) else None
        | None \<Rightarrow> None))"

definition environmentTarget :: "serviceDefinition \<Rightarrow> (string \<Rightarrow> string option) \<Rightarrow> tcpTarget option" where
  "environmentTarget definition environment = (case sv_probe definition of
     TcpProbe hostEnv portEnv \<Rightarrow>
       map_option (\<lambda>p. \<lparr>tt_host = the (orText (environment hostEnv) (Some ''localhost'')), tt_port = p\<rparr>)
         (tcpPort (js_Number (the (orText (environment portEnv) (Some ''5432'')))))
   | _ \<Rightarrow> None)"

definition resolveTcpTarget :: "urlParser \<Rightarrow> serviceDefinition \<Rightarrow> serviceConfig \<Rightarrow> (string \<Rightarrow> string option) \<Rightarrow> tcpTarget option" where
  "resolveTcpTarget parse definition cfg environment =
    (case (case orText (sg_endpoint cfg) None of None \<Rightarrow> None | Some endpoint \<Rightarrow> endpointTarget parse endpoint) of
       Some r \<Rightarrow> r | None \<Rightarrow> environmentTarget definition environment)"

section \<open>Checks\<close>

definition snapshotOf :: "serviceEnv \<Rightarrow> serviceDefinition \<Rightarrow> string option \<Rightarrow> bool \<Rightarrow> serviceStatus \<Rightarrow> int option
    \<Rightarrow> serviceDetail \<Rightarrow> serviceSnapshot" where
  "snapshotOf env definition endpoint configured status latency detail =
    \<lparr>sy_definition = definition, sy_endpoint = endpoint, sy_configured = configured, sy_status = status,
     sy_latencyMs = latency, sy_checkedAt = sx_checkedAt env, sy_detail = detail\<rparr>"

definition elapsed :: "serviceEnv \<Rightarrow> int option" where
  "elapsed env = Some (sx_measuredAt env - sx_startedAt env)"

definition offlineSnapshot :: "serviceEnv \<Rightarrow> serviceDefinition \<Rightarrow> string option \<Rightarrow> serviceDetail \<Rightarrow> serviceSnapshot" where
  "offlineSnapshot env definition endpoint detail = snapshotOf env definition endpoint
     (case endpoint of None \<Rightarrow> False | Some s \<Rightarrow> s \<noteq> []) Offline (elapsed env) detail"

text \<open>The address asked for the health of an HTTP service.\<close>

definition healthUrl :: "serviceEnv \<Rightarrow> serviceDefinition \<Rightarrow> string \<Rightarrow> string option" where
  "healthUrl env definition baseEndpoint = (case sv_probe definition of
     HttpProbe path endpointEnv defaultEndpoint \<Rightarrow>
       (case orText (case orText endpointEnv None of Some k \<Rightarrow> orText (sx_env env k) defaultEndpoint | None \<Rightarrow> Some baseEndpoint) None of
          None \<Rightarrow> None | Some probeEndpoint \<Rightarrow> sx_join env path (strip_slash probeEndpoint @ ''/''))
   | _ \<Rightarrow> None)"

definition checkHttpService :: "serviceEnv \<Rightarrow> serviceDefinition \<Rightarrow> serviceConfig \<Rightarrow> contact list \<times> serviceSnapshot" where
  "checkHttpService env definition cfg =
    (case orText (resolveHttpEndpoint definition cfg (sx_env env)) None of
       None \<Rightarrow> ([], offlineSnapshot env definition (resolveHttpEndpoint definition cfg (sx_env env)) NoHealthAddress)
     | Some baseEndpoint \<Rightarrow>
       (case sv_probe definition of HttpProbe path endpointEnv defaultEndpoint \<Rightarrow>
          (case healthUrl env definition baseEndpoint of
             None \<Rightarrow> ([], offlineSnapshot env definition (Some baseEndpoint) HealthAddressInvalid)
           | Some url \<Rightarrow> ([HttpGet url], case sx_fetch env url of
               Responded status \<Rightarrow> if 200 \<le> status \<and> status \<le> 299
                 then snapshotOf env definition (Some baseEndpoint) True Healthy (elapsed env) (HttpStatus status)
                 else snapshotOf env definition (Some baseEndpoint) True Degraded (elapsed env) (HttpBadStatus status)
             | TimedOut \<Rightarrow> offlineSnapshot env definition (Some baseEndpoint) HealthTimeout
             | Unconnected \<Rightarrow> offlineSnapshot env definition (Some baseEndpoint) NotConnected))
        | _ \<Rightarrow> ([], offlineSnapshot env definition (Some baseEndpoint) NoHealthAddress)))"

definition checkTcpService :: "serviceEnv \<Rightarrow> serviceDefinition \<Rightarrow> serviceConfig \<Rightarrow> contact list \<times> serviceSnapshot" where
  "checkTcpService env definition cfg =
    (case resolveTcpTarget (sx_url env) definition cfg (sx_env env) of
       None \<Rightarrow> ([], offlineSnapshot env definition (sg_endpoint cfg) TcpAddressInvalid)
     | Some target \<Rightarrow>
         let endpoint = Some (tt_host target @ '':'' @ decInt (tt_port target)) in
         ([TcpConnect target], case sx_tcp env target of
            Some latency \<Rightarrow> snapshotOf env definition endpoint True Healthy (Some latency) TcpConnected
          | None \<Rightarrow> offlineSnapshot env definition endpoint TcpNotConnected))"

definition checkService :: "serviceEnv \<Rightarrow> serviceDefinition \<Rightarrow> json \<Rightarrow> contact list \<times> serviceSnapshot" where
  "checkService env definition config = (let cfg = configuredService definition config in
     if \<not> sg_enabled cfg then ([], snapshotOf env definition (sg_endpoint cfg) False Unconfigured None ServiceDisabled)
     else case sv_probe definition of
       ManualProbe \<Rightarrow> ([], snapshotOf env definition (sg_endpoint cfg) True Idle None RunByCi)
     | HttpProbe path endpointEnv defaultEndpoint \<Rightarrow> checkHttpService env definition cfg
     | TcpProbe hostEnv portEnv \<Rightarrow> checkTcpService env definition cfg)"

definition checkServices :: "serviceEnv \<Rightarrow> json \<Rightarrow> contact list \<times> serviceSnapshot list" where
  "checkServices env config = (let rs = map (\<lambda>s. checkService env s config) serviceCatalog in
     (concat (map fst rs), map snd rs))"

section \<open>Actions\<close>

datatype supportedAction = CheckHealth | SyncKnowledge | RunEvaluation

fun actionName :: "supportedAction \<Rightarrow> string" where
  "actionName CheckHealth = ''check-health''"
| "actionName SyncKnowledge = ''sync-knowledge''"
| "actionName RunEvaluation = ''run-evaluation''"

definition SUPPORTED_ACTIONS :: "supportedAction list" where
  "SUPPORTED_ACTIONS = [CheckHealth, SyncKnowledge, RunEvaluation]"

definition parseActionRequest :: "json \<Rightarrow> string + supportedAction" where
  "parseActionRequest input =
    (if \<not> is_object input then Inl ''request body must be a JSON object''
     else case List.find (\<lambda>a. jget input ''action'' = JStr (actionName a)) SUPPORTED_ACTIONS of
       Some a \<Rightarrow> Inr a
     | None \<Rightarrow> Inl (''action must be one of: '' @ js_join '', '' (map actionName SUPPORTED_ACTIONS)))"

datatype actionStatus = Completed | Accepted | Skipped

datatype actionMessage = HealthChecked | ScanStarted | RequestRecorded | TargetDisabled

datatype actionData = ServicesData "serviceSnapshot list" | TriggeredData string json | PlaceholderData string

record actionResult =
  an_action :: supportedAction
  an_status :: actionStatus
  an_message :: actionMessage
  an_startedAt :: int
  an_completedAt :: int
  an_data :: actionData

datatype actionError = ScanUnreachable | ScanRefused int | ScanUnreadable

text \<open>The client that starts a scan: the status and the JSON body, if it is one.\<close>

type_synonym scanClient = "string \<Rightarrow> (int \<times> json option) option"

definition serviceEnabled :: "json \<Rightarrow> string \<Rightarrow> bool" where
  "serviceEnabled config i \<longleftrightarrow> jget (jget (jget config ''services'') i) ''enabled'' \<noteq> JBool False"

definition actionResultOf :: "serviceEnv \<Rightarrow> supportedAction \<Rightarrow> actionStatus \<Rightarrow> actionMessage \<Rightarrow> actionData \<Rightarrow> actionResult" where
  "actionResultOf env a status message data = \<lparr>an_action = a, an_status = status, an_message = message,
     an_startedAt = sx_startedAt env, an_completedAt = sx_checkedAt env, an_data = data\<rparr>"

definition runAction :: "serviceEnv \<Rightarrow> scanClient \<Rightarrow> supportedAction \<Rightarrow> json \<Rightarrow> contact list \<times> (actionError + actionResult)" where
  "runAction env post a config =
    (if a = CheckHealth then (case checkServices env config of (l, services) \<Rightarrow>
       (l, Inr (actionResultOf env a Completed HealthChecked (ServicesData services))))
     else let target = (if a = SyncKnowledge then ''lightrag'' else ''promptfoo''); isEnabled = serviceEnabled config target in
       if a = SyncKnowledge \<and> isEnabled then
         (let url = the (orText (sx_env env ''LIGHTRAG_URL'') (Some ''http://localhost:8080/rag'')) @ ''/documents/scan'' in
          ([HttpPost url], case post url of None \<Rightarrow> Inl ScanUnreachable
           | Some (status, body) \<Rightarrow> if \<not> (200 \<le> status \<and> status \<le> 299) then Inl (ScanRefused status)
             else (case body of None \<Rightarrow> Inl ScanUnreadable
               | Some payload \<Rightarrow> if nullish payload then Inl ScanUnreadable
                   else Inr (actionResultOf env a Accepted ScanStarted (TriggeredData target (jget payload ''track_id''))))))
       else ([], Inr (if isEnabled then actionResultOf env a Accepted RequestRecorded (PlaceholderData target)
         else actionResultOf env a Skipped TargetDisabled (PlaceholderData target))))"

section \<open>Routes\<close>

datatype 'a plainResponse = PlainOk 'a | PlainRejected string | PlainCrash

definition actionPost :: "serviceEnv \<Rightarrow> scanClient \<Rightarrow> string \<Rightarrow> json option \<Rightarrow> configFile
    \<Rightarrow> (contact list \<times> actionResult plainResponse) \<times> configFile" where
  "actionPost env post now body stored = (case body of None \<Rightarrow> (([], PlainRejected ''invalid JSON body''), stored)
   | Some v \<Rightarrow> (case parseActionRequest v of Inl e \<Rightarrow> (([], PlainRejected e), stored)
     | Inr a \<Rightarrow> (case readConsoleConfig now stored of (None, stored') \<Rightarrow> (([], PlainCrash), stored')
       | (Some config, stored') \<Rightarrow>
           (case runAction env post a config of (l, Inl e) \<Rightarrow> ((l, PlainCrash), stored') | (l, Inr r) \<Rightarrow> ((l, PlainOk r), stored')))))"

definition servicesGet :: "serviceEnv \<Rightarrow> gatewayEnv \<Rightarrow> string \<Rightarrow> string \<Rightarrow> configFile \<times> gatewayFiles
    \<Rightarrow> (contact list \<times> serviceSnapshot list plainResponse) \<times> configFile \<times> gatewayFiles" where
  "servicesGet env genv uuid now st = (case readGatewayMcpServers genv uuid (snd st) of
     (Inl e, fs) \<Rightarrow> (([], PlainCrash), fst st, fs)
   | (Inr r, fs) \<Rightarrow> (case readConsoleConfig now (fst st) of (None, stored) \<Rightarrow> (([], PlainCrash), stored, fs)
     | (Some config, stored) \<Rightarrow> (case checkServices env config of (l, services) \<Rightarrow> ((l, PlainOk services), stored, fs))))"

section \<open>What a check means\<close>

definition probed :: "serviceEnv \<Rightarrow> json \<Rightarrow> serviceDefinition \<Rightarrow> contact list \<Rightarrow> bool" where
  "probed env config sv contacts \<longleftrightarrow>
    (\<exists>url base status. contacts = [HttpGet url] \<and> healthUrl env sv base = Some url
       \<and> resolveHttpEndpoint sv (configuredService sv config) (sx_env env) = Some base
       \<and> sx_fetch env url = Responded status \<and> 200 \<le> status \<and> status \<le> 299)
    \<or> (\<exists>target latency. contacts = [TcpConnect target] \<and> sx_tcp env target = Some latency
       \<and> resolveTcpTarget (sx_url env) sv (configuredService sv config) (sx_env env) = Some target)"

lemma orText_truthy: "orText a None = Some s \<longleftrightarrow> a = Some s \<and> s \<noteq> []"
  by (auto simp: orText_def split: option.splits if_splits)

lemma orText_some [simp]: "s \<noteq> [] \<Longrightarrow> orText (Some s) b = Some s"
  by (simp add: orText_def)

lemma snapshotOf_simps [simp]: "sy_definition (snapshotOf env d e c s l t) = d" "sy_status (snapshotOf env d e c s l t) = s"
  "sy_definition (offlineSnapshot env d e t) = d" "sy_status (offlineSnapshot env d e t) = Offline"
  by (simp_all add: snapshotOf_def offlineSnapshot_def)

lemma check_definition: "sy_definition (snd (checkService env sv config)) = sv"
  by (simp add: checkService_def checkHttpService_def checkTcpService_def Let_def
      split: probeConfig.split option.split fetchOutcome.split)

lemma check_healthy:
  assumes "sy_status (snd (checkService env sv config)) = Healthy"
  shows "sg_enabled (configuredService sv config) \<and> probed env config sv (fst (checkService env sv config))"
proof -
  have enabled: "sg_enabled (configuredService sv config)"
    using assms by (auto simp: checkService_def Let_def split: if_split_asm)
  show ?thesis
  proof (cases "sv_probe sv")
    case (HttpProbe path endpointEnv defaultEndpoint)
    then show ?thesis
      using assms enabled
      by (auto simp: checkService_def checkHttpService_def probed_def orText_truthy Let_def
          split: option.split_asm fetchOutcome.split_asm if_split_asm)
  next
    case (TcpProbe hostEnv portEnv)
    then show ?thesis
      using assms enabled
      by (auto simp: checkService_def checkTcpService_def probed_def Let_def split: option.split_asm)
  next
    case ManualProbe
    then show ?thesis using assms enabled by (simp add: checkService_def)
  qed
qed

lemma check_disabled:
  "\<not> sg_enabled (configuredService sv config) \<Longrightarrow>
    fst (checkService env sv config) = [] \<and> sy_status (snd (checkService env sv config)) = Unconfigured"
  by (simp add: checkService_def)

lemma checkServices_parts: "checkServices env config =
    (concat (map (\<lambda>s. fst (checkService env s config)) serviceCatalog), map (\<lambda>s. snd (checkService env s config)) serviceCatalog)"
  by (simp add: checkServices_def comp_def)

text \<open>A health check answers one snapshot per service of the catalogue, in its order. A service is reported
  healthy only if it is enabled and this check contacted it at its own address and was answered with
  a success; a disabled service is reported as unconfigured; everything that is contacted is
  contacted for an enabled service.\<close>

theorem service_health_sound:
  assumes "checkServices env config = (contacts, snapshots)"
  shows "map sy_definition snapshots = serviceCatalog
    \<and> (\<forall>s \<in> set snapshots. (sy_status s = Healthy \<longrightarrow> sg_enabled (configuredService (sy_definition s) config)
          \<and> (\<exists>own. set own \<subseteq> set contacts \<and> probed env config (sy_definition s) own))
        \<and> (\<not> sg_enabled (configuredService (sy_definition s) config) \<longrightarrow> sy_status s = Unconfigured))
    \<and> (\<forall>c \<in> set contacts. \<exists>sv \<in> set serviceCatalog. sg_enabled (configuredService sv config)
        \<and> fst (checkService env sv config) = [c])"
proof -
  have contacts: "contacts = concat (map (\<lambda>s. fst (checkService env s config)) serviceCatalog)"
    and snapshots: "snapshots = map (\<lambda>s. snd (checkService env s config)) serviceCatalog"
    using assms by (auto simp: checkServices_parts)
  have one: "fst (checkService env sv config) = [c]" if "c \<in> set (fst (checkService env sv config))" for c sv
    using that by (auto simp: checkService_def checkHttpService_def checkTcpService_def Let_def
        split: probeConfig.split_asm option.split_asm fetchOutcome.split_asm if_split_asm)
  have definitions: "map sy_definition snapshots = serviceCatalog"
    by (simp add: snapshots check_definition comp_def)
  have "sy_status s = Healthy \<longrightarrow> sg_enabled (configuredService (sy_definition s) config)
          \<and> (\<exists>own. set own \<subseteq> set contacts \<and> probed env config (sy_definition s) own)" if "s \<in> set snapshots" for s
    using that check_healthy by (fastforce simp: snapshots contacts check_definition)
  moreover have "\<not> sg_enabled (configuredService (sy_definition s) config) \<longrightarrow> sy_status s = Unconfigured" if "s \<in> set snapshots" for s
    using that check_disabled by (auto simp: snapshots check_definition)
  moreover have "\<exists>sv \<in> set serviceCatalog. sg_enabled (configuredService sv config)
      \<and> fst (checkService env sv config) = [c]" if c: "c \<in> set contacts" for c
  proof -
    obtain sv where d: "sv \<in> set serviceCatalog" "c \<in> set (fst (checkService env sv config))"
      using c contacts by auto
    with one[OF d(2)] check_disabled[of sv config env] show ?thesis by auto
  qed
  ultimately show ?thesis using definitions by blast
qed

definition demo_service_env :: serviceEnv where
  "demo_service_env = \<lparr>sx_env = (\<lambda>k. None), sx_url = (\<lambda>s. None), sx_join = (\<lambda>p b. Some (b @ p)), sx_fetch = (\<lambda>u. Responded 200),
     sx_tcp = (\<lambda>t. None), sx_startedAt = 0, sx_measuredAt = 5, sx_checkedAt = 5\<rparr>"

lemma demo_gateway_healthy: "\<exists>s \<in> set (snd (checkServices demo_service_env (JObj []))). sy_status s = Healthy"
proof -
  let ?sv = "hd serviceCatalog"
  have "?sv \<in> set serviceCatalog" by (simp add: serviceCatalog_def)
  moreover have "sy_status (snd (checkService demo_service_env ?sv (JObj []))) = Healthy"
    by (simp add: serviceCatalog_def checkService_def configuredService_def nullish_def checkHttpService_def
        resolveHttpEndpoint_def healthUrl_def demo_service_env_def orText_def Let_def)
  ultimately show ?thesis by (auto simp: checkServices_parts)
qed

theorem service_health_sound_witness:
  "\<exists>s \<in> set (snd (checkServices demo_service_env (JObj []))). sy_status s = Healthy
    \<and> (\<exists>own. set own \<subseteq> set (fst (checkServices demo_service_env (JObj []))) \<and> probed demo_service_env (JObj []) (sy_definition s) own)"
  using service_health_sound[OF surjective_pairing] demo_gateway_healthy by blast

text \<open>The actions: only a scan of an enabled knowledge service sends anything but health checks, and only it
  can fail.\<close>

lemma action_effects:
  "(\<exists>url. HttpPost url \<in> set (fst (runAction env post a config))) \<longleftrightarrow> a = SyncKnowledge \<and> serviceEnabled config ''lightrag''"
  "a = RunEvaluation \<Longrightarrow> fst (runAction env post a config) = []"
  "snd (runAction env post a config) = Inl e \<Longrightarrow> a = SyncKnowledge \<and> serviceEnabled config ''lightrag''"
proof -
  have "HttpPost url \<notin> set (fst (checkServices env config))" for url
    by (auto simp: checkServices_parts checkService_def checkHttpService_def checkTcpService_def Let_def
        split: probeConfig.split_asm option.split_asm fetchOutcome.split_asm if_split_asm)
  then show "(\<exists>url. HttpPost url \<in> set (fst (runAction env post a config))) \<longleftrightarrow> a = SyncKnowledge \<and> serviceEnabled config ''lightrag''"
    by (cases a) (auto simp: runAction_def Let_def split: prod.split)
  show "a = RunEvaluation \<Longrightarrow> fst (runAction env post a config) = []"
    by (simp add: runAction_def Let_def)
  show "snd (runAction env post a config) = Inl e \<Longrightarrow> a = SyncKnowledge \<and> serviceEnabled config ''lightrag''"
    by (cases a) (auto simp: runAction_def Let_def split: prod.split_asm if_split_asm)
qed

text \<open>An endpoint without a port, configured for a TCP service, is passed over: the check contacts the
  address of the environment instead.\<close>

theorem tcp_endpoint_without_port:
  assumes "sg_endpoint cfg = Some e" "e \<noteq> []" "\<not> js_includes e ''://''" "parse (''tcp://'' @ e) = Some u" "gu_port u = []"
    "\<not> starts_with (gu_protocol u) ''postgres''"
  shows "resolveTcpTarget parse sv cfg environment = environmentTarget sv environment"
  using assms by (simp add: resolveTcpTarget_def endpointTarget_def tcpPort_def)

definition demo_tcp_parse :: urlParser where
  "demo_tcp_parse s = Some \<lparr>gu_protocol = ''tcp:'', gu_username = [], gu_password = [], gu_hostname = ''db'', gu_port = [],
     gu_pathname = [], gu_search = [], gu_hash = [], gu_withPath = (\<lambda>p. p)\<rparr>"

theorem tcp_endpoint_without_port_witness:
  "resolveTcpTarget demo_tcp_parse sv \<lparr>sg_enabled = True, sg_endpoint = Some ''db''\<rparr> e = environmentTarget sv e"
  by (rule tcp_endpoint_without_port[where e = "''db''" and u = "the (demo_tcp_parse [])"])
    (simp_all add: demo_tcp_parse_def starts_with_def)

end
