(* ===== verification/Client_Config.thy ===== *)
theory Client_Config
  imports Gateway_Input Json_Text
begin

text \<open>
  The settings an MCP client is given (src/ai-console/src/lib/control-plane/mcp-client-config.ts):
  the check of the public address, the JSON configurations and the shell commands that carry it. The
  URL parser is a parameter. A reader of POSIX shell words, for the characters these commands
  use, says what a command means.
\<close>

datatype resourceUrlError = ResourceUrlEmpty | ResourceUrlSpaces | ResourceUrlInvalid | ResourceUrlScheme
  | ResourceUrlCredentials | ResourceUrlUnconfigured

definition normalizeMcpResourceUrl :: "urlParser \<Rightarrow> string \<Rightarrow> resourceUrlError + string" where
  "normalizeMcpResourceUrl parse resourceUrl =
    (if resourceUrl = [] then Inl ResourceUrlEmpty
     else if resourceUrl \<noteq> js_trim resourceUrl then Inl ResourceUrlSpaces
     else let value = strip_slashes resourceUrl in
     case parse value of None \<Rightarrow> Inl ResourceUrlInvalid
     | Some u \<Rightarrow> if gu_protocol u \<noteq> ''http:'' \<and> gu_protocol u \<noteq> ''https:'' then Inl ResourceUrlScheme
         else if gu_username u \<noteq> [] \<or> gu_password u \<noteq> [] \<or> gu_hash u \<noteq> [] then Inl ResourceUrlCredentials
         else Inr value)"

definition resolveMcpPublicResourceUrl :: "urlParser \<Rightarrow> string option \<Rightarrow> resourceUrlError + string" where
  "resolveMcpPublicResourceUrl parse configuredUrl = (case configuredUrl of None \<Rightarrow> Inl ResourceUrlUnconfigured
     | Some s \<Rightarrow> if js_trim s = [] then Inl ResourceUrlUnconfigured else normalizeMcpResourceUrl parse s)"

section \<open>Configurations\<close>

text \<open>\<open>JSON.stringify(v, null, 2)\<close>.\<close>

definition nl :: string where "nl = [CHR 0x0A]"

fun jsonIndented :: "string \<Rightarrow> json \<Rightarrow> string option"
  and elementLines :: "string \<Rightarrow> json list \<Rightarrow> string list option"
  and memberLines :: "string \<Rightarrow> (string \<times> json) list \<Rightarrow> string list option" where
  "jsonIndented ind (JObj kvs) = (if kvs = [] then Some ''{}''
     else map_option (\<lambda>ts. ''{'' @ nl @ js_join ('','' @ nl) ts @ nl @ ind @ ''}'') (memberLines (ind @ ''  '') kvs))"
| "jsonIndented ind (JArr vs) = (if vs = [] then Some ''[]''
     else map_option (\<lambda>ts. ''['' @ nl @ js_join ('','' @ nl) ts @ nl @ ind @ '']'') (elementLines (ind @ ''  '') vs))"
| "jsonIndented ind v = jsonText v"
| "elementLines ind [] = Some []"
| "elementLines ind (v # vs) = (case jsonIndented ind v of None \<Rightarrow> None
     | Some t \<Rightarrow> map_option (\<lambda>ts. (ind @ t) # ts) (elementLines ind vs))"
| "memberLines ind [] = Some []"
| "memberLines ind ((k, v) # kvs) = (case jsonIndented ind v of None \<Rightarrow> None
     | Some t \<Rightarrow> map_option (\<lambda>ts. (ind @ quoted k @ '': '' @ t) # ts) (memberLines ind kvs))"

definition createMcpClientConfig :: "urlParser \<Rightarrow> string \<Rightarrow> resourceUrlError + json" where
  "createMcpClientConfig parse resourceUrl = bindE (normalizeMcpResourceUrl parse resourceUrl) (\<lambda>u.
     Inr (JObj [(''mcpServers'', JObj [(''ai-base'', JObj [(''url'', JStr u)])])]))"

definition formatMcpClientConfig :: "urlParser \<Rightarrow> string \<Rightarrow> resourceUrlError + string" where
  "formatMcpClientConfig parse resourceUrl = bindE (createMcpClientConfig parse resourceUrl) (\<lambda>c.
     Inr (the (jsonIndented [] c) @ nl))"

definition createWorkBuddyMcpServerConfig :: "urlParser \<Rightarrow> string \<Rightarrow> resourceUrlError + json" where
  "createWorkBuddyMcpServerConfig parse resourceUrl = bindE (normalizeMcpResourceUrl parse resourceUrl) (\<lambda>u.
     Inr (JObj [(''type'', JStr ''http''), (''url'', JStr u)]))"

text \<open>\<open>value.replaceAll\<close> on the quote character.\<close>

definition shellQuoteChar :: "char \<Rightarrow> string" where
  "shellQuoteChar c = (if c = CHR 0x27 then [CHR 0x27, CHR 0x5C, CHR 0x27, CHR 0x27] else [c])"

definition quotePosixShellArgument :: "string \<Rightarrow> string" where
  "quotePosixShellArgument s = CHR 0x27 # concat (map shellQuoteChar s) @ [CHR 0x27]"

definition formatWorkBuddyCliCommand :: "urlParser \<Rightarrow> string \<Rightarrow> resourceUrlError + string" where
  "formatWorkBuddyCliCommand parse resourceUrl = bindE (createWorkBuddyMcpServerConfig parse resourceUrl) (\<lambda>c.
     Inr (''codebuddy mcp add-json --scope user ai-base '' @ quotePosixShellArgument (the (jsonText c))))"

definition createCursorMcpClientConfig :: "urlParser \<Rightarrow> string \<Rightarrow> resourceUrlError + json" where
  "createCursorMcpClientConfig parse resourceUrl = bindE (createWorkBuddyMcpServerConfig parse resourceUrl) (\<lambda>c.
     Inr (JObj [(''mcpServers'', JObj [(''ai-base'', c)])]))"

definition formatCursorMcpClientConfig :: "urlParser \<Rightarrow> string \<Rightarrow> resourceUrlError + string" where
  "formatCursorMcpClientConfig parse resourceUrl = bindE (createCursorMcpClientConfig parse resourceUrl) (\<lambda>c.
     Inr (the (jsonIndented [] c) @ nl))"

definition formatCodexCliCommands :: "urlParser \<Rightarrow> string \<Rightarrow> resourceUrlError + string" where
  "formatCodexCliCommands parse resourceUrl = bindE (normalizeMcpResourceUrl parse resourceUrl) (\<lambda>u.
     Inr (js_join nl [''codex mcp add ai-base --url '' @ quotePosixShellArgument u, ''codex mcp login ai-base'']))"

section \<open>Shell words\<close>

text \<open>The commands a POSIX shell reads from a text, each the list of its words. A character that is active
  outside quotes is not read at all, so a text that is read starts nothing else.\<close>

definition shellActive :: "char \<Rightarrow> bool" where
  "shellActive c \<longleftrightarrow> c \<in> set (CHR 0x22 # CHR 0x60 # ''|&;<>()$*?[]#~=%!{}'') \<or> code_unit c < 32 \<or> 126 < code_unit c"

definition addChar :: "string option \<Rightarrow> char \<Rightarrow> string option" where
  "addChar w c = Some ((case w of None \<Rightarrow> [] | Some x \<Rightarrow> x) @ [c])"

definition endWord :: "string option \<Rightarrow> string list \<Rightarrow> string list" where
  "endWord w ws = (case w of None \<Rightarrow> ws | Some x \<Rightarrow> ws @ [x])"

fun shellRead :: "bool \<Rightarrow> string option \<Rightarrow> string list \<Rightarrow> string \<Rightarrow> string list list option" where
  "shellRead True w ws [] = None"
| "shellRead True w ws (c # s) = (if c = CHR 0x27 then shellRead False w ws s else shellRead True (addChar w c) ws s)"
| "shellRead False w ws [] = Some [endWord w ws]"
| "shellRead False w ws (c # s) =
    (if c = CHR '' '' then shellRead False None (endWord w ws) s
     else if c = CHR 0x0A then map_option (\<lambda>cs. endWord w ws # cs) (shellRead False None [] s)
     else if c = CHR 0x27 then shellRead True (Some (case w of None \<Rightarrow> [] | Some x \<Rightarrow> x)) ws s
     else if c = CHR 0x5C then (case s of [] \<Rightarrow> None | d # s' \<Rightarrow> shellRead False (addChar w d) ws s')
     else if shellActive c then None else shellRead False (addChar w c) ws s)"

definition shellCommands :: "string \<Rightarrow> string list list option" where
  "shellCommands s = shellRead False None [] s"

lemma shellRead_quoted:
  "shellRead True (Some x) ws (concat (map shellQuoteChar s) @ CHR 0x27 # r) = shellRead False (Some (x @ s)) ws r"
  by (induction s arbitrary: x) (simp_all add: shellQuoteChar_def addChar_def)

lemma shellRead_argument:
  "shellRead False None ws (quotePosixShellArgument s @ r) = shellRead False (Some s) ws r"
  using shellRead_quoted[of "[]" ws s r] by (simp add: quotePosixShellArgument_def)

definition plainChar :: "char \<Rightarrow> bool" where
  "plainChar c \<longleftrightarrow> c \<noteq> CHR '' '' \<and> c \<noteq> CHR 0x0A \<and> c \<noteq> CHR 0x27 \<and> c \<noteq> CHR 0x5C \<and> \<not> shellActive c"

lemma shellRead_plain:
  "list_all plainChar p \<Longrightarrow> shellRead False (Some x) ws (p @ r) = shellRead False (Some (x @ p)) ws r"
  by (induction p arbitrary: x) (auto simp: plainChar_def addChar_def)

definition plainWord :: "string \<Rightarrow> bool" where
  "plainWord w \<longleftrightarrow> list_all plainChar w \<and> w \<noteq> []"

lemma plain_words [simp]: "plainWord ''codex''" "plainWord ''mcp''" "plainWord ''add''" "plainWord ''ai-base''" "plainWord ''--url''"
  "plainWord ''login''" "plainWord ''codebuddy''" "plainWord ''add-json''" "plainWord ''--scope''" "plainWord ''user''"
  by (simp_all add: plainWord_def plainChar_def shellActive_def code_unit_def)

lemma shellRead_first:
  assumes "plainWord p"
  shows "shellRead False None ws (p @ r) = shellRead False (Some p) ws r"
proof -
  obtain c q where p: "p = c # q" using assms by (cases p) (auto simp: plainWord_def)
  have "shellRead False None ws (p @ r) = shellRead False (Some [c]) ws (q @ r)"
    using assms by (simp add: p plainWord_def plainChar_def addChar_def)
  also have "\<dots> = shellRead False (Some ([c] @ q)) ws r"
    by (rule shellRead_plain) (use assms p in \<open>simp add: plainWord_def\<close>)
  finally show ?thesis by (simp add: p)
qed

lemma shellRead_word:
  "plainWord p \<Longrightarrow> shellRead False None ws (p @ CHR '' '' # r) = shellRead False None (ws @ [p]) r"
  using shellRead_first[of p ws "CHR '' '' # r"] by (simp add: endWord_def)

definition commandWords :: "string list \<Rightarrow> string" where
  "commandWords ws = concat (map (\<lambda>w. w @ '' '') ws)"

lemma shellRead_words:
  "list_all plainWord vs \<Longrightarrow>
    shellRead False None ws (commandWords vs @ r) = shellRead False None (ws @ vs) r"
  by (induction vs arbitrary: ws) (simp_all add: commandWords_def shellRead_word)

lemma codex_commands:
  "shellCommands (js_join nl [''codex mcp add ai-base --url '' @ quotePosixShellArgument u, ''codex mcp login ai-base''])
    = Some [[''codex'', ''mcp'', ''add'', ''ai-base'', ''--url'', u], [''codex'', ''mcp'', ''login'', ''ai-base'']]"
proof -
  have parts: "js_join nl [''codex mcp add ai-base --url '' @ quotePosixShellArgument u, ''codex mcp login ai-base'']
      = commandWords [''codex'', ''mcp'', ''add'', ''ai-base'', ''--url''] @ quotePosixShellArgument u
        @ CHR 0x0A # commandWords [''codex'', ''mcp'', ''login''] @ ''ai-base'' @ []"
    by (simp add: commandWords_def nl_def)
  show ?thesis
    unfolding parts shellCommands_def
    by (simp add: endWord_def shellRead_words shellRead_argument addChar_def shellActive_def code_unit_def)
qed

lemma workbuddy_command:
  "shellCommands (''codebuddy mcp add-json --scope user ai-base '' @ quotePosixShellArgument t)
    = Some [[''codebuddy'', ''mcp'', ''add-json'', ''--scope'', ''user'', ''ai-base'', t]]"
proof -
  have parts: "''codebuddy mcp add-json --scope user ai-base '' @ quotePosixShellArgument t
      = commandWords [''codebuddy'', ''mcp'', ''add-json'', ''--scope'', ''user'', ''ai-base''] @ quotePosixShellArgument t @ []"
    by (simp add: commandWords_def)
  show ?thesis
    unfolding parts shellCommands_def
    by (simp add: endWord_def shellRead_words shellRead_argument[of _ _ "[]", simplified])
qed

section \<open>Indented texts are read back\<close>

definition pad :: "nat \<Rightarrow> string" where "pad n = replicate n (CHR '' '')"

lemma skip_pad: "skipSpace (nl @ pad n @ s) = skipSpace s"
  by (induction n) (simp_all add: skipSpace_def json_space_def nl_def pad_def)

lemma skip_quoted: "skipSpace (quoted k @ s) = quoted k @ s" "skipSpace (CHR ''}'' # s) = CHR ''}'' # s"
  "skipSpace (CHR ''{'' # s) = CHR ''{'' # s" "skipSpace (CHR '' '' # s) = skipSpace s" "skipSpace (CHR '','' # s) = CHR '','' # s"
  by (simp_all add: quoted_def skipSpace_def json_space_def)

lemma readValue_space: "readValue n (CHR '' '' # s) = readValue n s"
  by (cases n) (simp_all add: skip_quoted)

lemma readValue_string: "readValue (Suc n) (quoted s @ r) = Some (JStr s, r)"
  by (simp add: quoted_def skipSpace_def json_space_def readQuoted_chars)

lemma readMembers_last:
  assumes "readValue n t = Some (w, nl @ pad j @ CHR ''}'' # r)"
  shows "readMembers (Suc n) (nl @ pad i @ quoted k @ CHR '':'' # CHR '' '' # t) = Some ([(k, w)], r)"
proof -
  have "skipSpace (nl @ pad i @ quoted k @ CHR '':'' # CHR '' '' # t) = CHR 0x22 # concat (map jsonChar k) @ CHR 0x22 # CHR '':'' # CHR '' '' # t"
    by (simp add: skip_pad skip_quoted(1)) (simp add: quoted_def)
  moreover have "skipSpace (CHR '':'' # CHR '' '' # t) = CHR '':'' # CHR '' '' # t" by (simp add: skipSpace_def json_space_def)
  ultimately show ?thesis
    using assms by (simp add: readQuoted_chars readValue_space skip_pad skip_quoted(2) del: append_Cons)
qed

lemma readMembers_more:
  assumes "readValue n t = Some (w, CHR '','' # u)" "readMembers n u = Some (kvs, r)"
  shows "readMembers (Suc n) (nl @ pad i @ quoted k @ CHR '':'' # CHR '' '' # t) = Some ((k, w) # kvs, r)"
proof -
  have "skipSpace (nl @ pad i @ quoted k @ CHR '':'' # CHR '' '' # t) = CHR 0x22 # concat (map jsonChar k) @ CHR 0x22 # CHR '':'' # CHR '' '' # t"
    by (simp add: skip_pad skip_quoted(1)) (simp add: quoted_def)
  moreover have "skipSpace (CHR '':'' # CHR '' '' # t) = CHR '':'' # CHR '' '' # t" by (simp add: skipSpace_def json_space_def)
  ultimately show ?thesis
    using assms by (simp add: readQuoted_chars readValue_space skip_quoted(5) del: append_Cons)
qed

lemma readValue_object:
  assumes "readMembers n (nl @ pad i @ quoted k @ x) = Some (kvs, r)" "distinct (map fst kvs)"
  shows "readValue (Suc n) (CHR ''{'' # nl @ pad i @ quoted k @ x) = Some (JObj kvs, r)"
proof -
  have "skipSpace (nl @ pad i @ quoted k @ x) = CHR 0x22 # tl (quoted k @ x)"
    by (simp add: skip_pad skip_quoted(1)) (simp add: quoted_def)
  then show ?thesis using assms by (simp add: skip_quoted(3) js_map_distinct)
qed

text \<open>The object one level down, as both configurations hold it.\<close>

definition configText :: "string \<Rightarrow> string" where
  "configText t = CHR ''{'' # nl @ pad 2 @ quoted ''mcpServers'' @ CHR '':'' # CHR '' '' # CHR ''{'' # nl @ pad 4 @ quoted ''ai-base'' @ CHR '':'' # CHR '' '' # t
     @ nl @ pad 2 @ CHR ''}'' # nl @ pad 0 @ CHR ''}'' # nl"

lemma read_config:
  assumes "readValue n (t @ nl @ pad 2 @ CHR ''}'' # nl @ pad 0 @ CHR ''}'' # nl) = Some (inner, nl @ pad 2 @ CHR ''}'' # nl @ pad 0 @ CHR ''}'' # nl)"
  shows "readValue (Suc (Suc (Suc (Suc n)))) (configText t) = Some (JObj [(''mcpServers'', JObj [(''ai-base'', inner)])], nl)"
  unfolding configText_def
  by (rule readValue_object, rule readMembers_last[where j = 0], rule readValue_object, rule readMembers_last, rule assms) simp_all

lemma fuel: "8 \<le> length s \<Longrightarrow> \<exists>n. 2 * length s + 2 = Suc (Suc (Suc (Suc (Suc (Suc (Suc (Suc n)))))))"
  by (rule exI[of _ "2 * length s - 6"]) simp

lemma config_parsed:
  assumes "\<And>n r. readValue (Suc (Suc (Suc (Suc n)))) (t @ nl @ pad 2 @ r) = Some (inner, nl @ pad 2 @ r)"
  shows "jsonParse (configText t) = Some (JObj [(''mcpServers'', JObj [(''ai-base'', inner)])])"
proof -
  have "8 \<le> length (configText t)" by (simp add: configText_def nl_def quoted_def)
  then obtain n where n: "2 * length (configText t) + 2 = Suc (Suc (Suc (Suc (Suc (Suc (Suc (Suc n)))))))"
    using fuel by blast
  have "readValue (2 * length (configText t) + 2) (configText t) = Some (JObj [(''mcpServers'', JObj [(''ai-base'', inner)])], nl)"
    unfolding n by (rule read_config[OF assms])
  then show ?thesis by (simp add: jsonParse_def) (simp add: nl_def skipSpace_def json_space_def)
qed

definition urlText :: "string \<Rightarrow> string" where
  "urlText u = CHR ''{'' # nl @ pad 6 @ quoted ''url'' @ CHR '':'' # CHR '' '' # quoted u @ nl @ pad 4 @ CHR ''}'' # []"

definition serverText :: "string \<Rightarrow> string" where
  "serverText u = CHR ''{'' # nl @ pad 6 @ quoted ''type'' @ CHR '':'' # CHR '' '' # quoted ''http'' @ CHR '','' # nl @ pad 6 @ quoted ''url'' @ '': ''
     @ quoted u @ nl @ pad 4 @ CHR ''}'' # []"

lemma read_url: "readValue (Suc (Suc (Suc n))) (urlText u @ r) = Some (JObj [(''url'', JStr u)], r)"
  unfolding urlText_def append_Cons append_assoc append_Nil
  by (rule readValue_object, rule readMembers_last, rule readValue_string) simp

lemma read_server: "readValue (Suc (Suc (Suc (Suc n)))) (serverText u @ r) = Some (JObj [(''type'', JStr ''http''), (''url'', JStr u)], r)"
  unfolding serverText_def append_Cons append_assoc append_Nil
  by (rule readValue_object, rule readMembers_more, rule readValue_string, rule readMembers_last, rule readValue_string) simp

lemma pad_text: "pad 2 = ''  ''" "pad 4 = ''    ''" "pad 6 = ''      ''" "pad 0 = []"
  by (simp_all add: pad_def numeral_eq_Suc)

lemma indented_url: "the (jsonIndented [] (JObj [(''mcpServers'', JObj [(''ai-base'', JObj [(''url'', JStr u)])])])) @ nl = configText (urlText u)"
  by (simp add: configText_def urlText_def pad_text)

lemma indented_server:
  "the (jsonIndented [] (JObj [(''mcpServers'', JObj [(''ai-base'', JObj [(''type'', JStr ''http''), (''url'', JStr u)])])])) @ nl
    = configText (serverText u)"
  by (simp add: configText_def serverText_def pad_text)

section \<open>What a client receives\<close>

lemma server_text:
  "\<exists>t. jsonText (JObj [(''type'', JStr ''http''), (''url'', JStr u)]) = Some t
    \<and> jsonParse t = Some (JObj [(''type'', JStr ''http''), (''url'', JStr u)])"
  using json_round_trip[of "JObj [(''type'', JStr ''http''), (''url'', JStr u)]"] by fastforce

lemma formatted_configs:
  assumes "normalizeMcpResourceUrl parse url = Inr u"
  shows "formatMcpClientConfig parse url = Inr (configText (urlText u))"
    "formatCursorMcpClientConfig parse url = Inr (configText (serverText u))"
  using assms indented_url[of u] indented_server[of u]
  by (simp_all add: formatMcpClientConfig_def createMcpClientConfig_def formatCursorMcpClientConfig_def
      createCursorMcpClientConfig_def createWorkBuddyMcpServerConfig_def del: jsonIndented.simps)

lemma parsed_configs:
  "jsonParse (configText (urlText u)) = Some (JObj [(''mcpServers'', JObj [(''ai-base'', JObj [(''url'', JStr u)])])])"
  "jsonParse (configText (serverText u))
      = Some (JObj [(''mcpServers'', JObj [(''ai-base'', JObj [(''type'', JStr ''http''), (''url'', JStr u)])])])"
  by (rule config_parsed, rule read_url) (rule config_parsed, rule read_server)

lemma formatted_codex:
  assumes "normalizeMcpResourceUrl parse url = Inr u"
  shows "\<exists>c. formatCodexCliCommands parse url = Inr c \<and> shellCommands c
    = Some [[''codex'', ''mcp'', ''add'', ''ai-base'', ''--url'', u], [''codex'', ''mcp'', ''login'', ''ai-base'']]"
  unfolding formatCodexCliCommands_def assms bindE.simps using codex_commands by blast

lemma formatted_workbuddy:
  assumes "normalizeMcpResourceUrl parse url = Inr u"
  shows "\<exists>w t. formatWorkBuddyCliCommand parse url = Inr w
        \<and> shellCommands w = Some [[''codebuddy'', ''mcp'', ''add-json'', ''--scope'', ''user'', ''ai-base'', t]]
        \<and> jsonParse t = Some (JObj [(''type'', JStr ''http''), (''url'', JStr u)])"
proof -
  obtain t where t: "jsonText (JObj [(''type'', JStr ''http''), (''url'', JStr u)]) = Some t"
    "jsonParse t = Some (JObj [(''type'', JStr ''http''), (''url'', JStr u)])" using server_text by blast
  have "formatWorkBuddyCliCommand parse url = Inr (''codebuddy mcp add-json --scope user ai-base '' @ quotePosixShellArgument t)"
    unfolding formatWorkBuddyCliCommand_def createWorkBuddyMcpServerConfig_def assms bindE.simps t(1) option.sel ..
  with workbuddy_command t(2) show ?thesis by blast
qed

text \<open>C32: The settings handed to MCP clients carry exactly the checked address, whatever characters it holds: the
  configuration files parse to the intended objects, the shell commands are read by a POSIX shell as
  the two or one intended commands with the address or the configuration as one word, and nothing
  is produced for an address that does not pass the check.\<close>

theorem client_settings_faithful:
  "(\<forall>u. normalizeMcpResourceUrl parse url = Inr u \<longrightarrow>
      (\<exists>a. formatMcpClientConfig parse url = Inr a
        \<and> jsonParse a = Some (JObj [(''mcpServers'', JObj [(''ai-base'', JObj [(''url'', JStr u)])])]))
    \<and> (\<exists>b. formatCursorMcpClientConfig parse url = Inr b
        \<and> jsonParse b = Some (JObj [(''mcpServers'', JObj [(''ai-base'', JObj [(''type'', JStr ''http''), (''url'', JStr u)])])]))
    \<and> (\<exists>c. formatCodexCliCommands parse url = Inr c
        \<and> shellCommands c = Some [[''codex'', ''mcp'', ''add'', ''ai-base'', ''--url'', u], [''codex'', ''mcp'', ''login'', ''ai-base'']])
    \<and> (\<exists>w t. formatWorkBuddyCliCommand parse url = Inr w
        \<and> shellCommands w = Some [[''codebuddy'', ''mcp'', ''add-json'', ''--scope'', ''user'', ''ai-base'', t]]
        \<and> jsonParse t = Some (JObj [(''type'', JStr ''http''), (''url'', JStr u)])))
   \<and> (\<forall>e. normalizeMcpResourceUrl parse url = Inl e \<longrightarrow>
      formatMcpClientConfig parse url = Inl e \<and> formatCursorMcpClientConfig parse url = Inl e
      \<and> formatCodexCliCommands parse url = Inl e \<and> formatWorkBuddyCliCommand parse url = Inl e)"
proof (cases "normalizeMcpResourceUrl parse url")
  case (Inl e)
  then show ?thesis
    by (simp add: formatMcpClientConfig_def createMcpClientConfig_def formatCursorMcpClientConfig_def
      createCursorMcpClientConfig_def createWorkBuddyMcpServerConfig_def formatCodexCliCommands_def formatWorkBuddyCliCommand_def)
next
  case (Inr u)
  have "\<exists>a. formatMcpClientConfig parse url = Inr a
      \<and> jsonParse a = Some (JObj [(''mcpServers'', JObj [(''ai-base'', JObj [(''url'', JStr u)])])])"
    using formatted_configs(1)[OF Inr] parsed_configs(1) by blast
  moreover have "\<exists>b. formatCursorMcpClientConfig parse url = Inr b
      \<and> jsonParse b = Some (JObj [(''mcpServers'', JObj [(''ai-base'', JObj [(''type'', JStr ''http''), (''url'', JStr u)])])])"
    using formatted_configs(2)[OF Inr] parsed_configs(2) by blast
  ultimately show ?thesis using formatted_codex[OF Inr] formatted_workbuddy[OF Inr] Inr by simp
qed

definition demo_resource_parse :: urlParser where
  "demo_resource_parse s = Some \<lparr>gu_protocol = ''https:'', gu_username = [], gu_password = [], gu_hostname = ''h'', gu_port = [],
     gu_pathname = ''/mcp'', gu_search = [], gu_hash = [], gu_withPath = (\<lambda>p. p)\<rparr>"

theorem client_settings_faithful_witness:
  "\<exists>c. formatCodexCliCommands demo_resource_parse ''https://h/o'' = Inr c \<and> shellCommands c
    = Some [[''codex'', ''mcp'', ''add'', ''ai-base'', ''--url'', ''https://h/o''], [''codex'', ''mcp'', ''login'', ''ai-base'']]"
proof -
  have "normalizeMcpResourceUrl demo_resource_parse ''https://h/o'' = Inr ''https://h/o''"
    by (simp add: normalizeMcpResourceUrl_def demo_resource_parse_def strip_slashes_def js_trim_def is_space_def code_unit_def)
  with client_settings_faithful[of demo_resource_parse "''https://h/o''"] show ?thesis by blast
qed

end
