(* ===== verification/Permission_Import.thy ===== *)
theory Permission_Import
  imports Integration_Core Json_Text Catalog
begin

text \<open>
  The import of permissions exported from Feishu (the functions of
  src/ai-console/src/lib/control-plane/integrations.ts): reading the pasted text, choosing the
  actions that the imported permissions cover, and dropping the actions that need a permission.
\<close>

datatype permissionImportError = NothingPasted | PermissionsNotJson | ScopesMissing | ScopesInvalid
  | ScopeListInvalid string | NoPermissions

record importedPermissions =
  im_tenantScopes :: "string list"
  im_userScopes :: "string list"
  im_scopes :: "string list"

record importedSelection =
  im_actionIds :: "string list"
  im_matchedScopes :: "string list"
  im_unmatchedScopes :: "string list"

definition uniqueStrings :: "json \<Rightarrow> string \<Rightarrow> permissionImportError + string list" where
  "uniqueStrings values field = (case values of JUndef \<Rightarrow> Inr []
     | JArr vs \<Rightarrow> if list_all is_string vs
         then Inr (dedup (filter (\<lambda>s. s \<noteq> []) (map (\<lambda>v. js_trim (the_string v)) vs))) else Inl (ScopeListInvalid field)
     | _ \<Rightarrow> Inl (ScopeListInvalid field))"

text \<open>The fence of a Markdown code block, when the text was copied with it.\<close>

definition fence :: string where "fence = replicate 3 CHR 0x60"

definition dropFence :: "string \<Rightarrow> string" where
  "dropFence s = (if starts_with s fence
     then dropWhile is_space (if js_lower (take 4 (drop 3 s)) = ''json'' then drop 7 s else drop 3 s) else s)"

definition dropEndFence :: "string \<Rightarrow> string" where
  "dropEndFence s = (if ends_with s fence then rev (dropWhile is_space (drop 3 (rev s))) else s)"

definition parseFeishuPermissionExport :: "string \<Rightarrow> permissionImportError + importedPermissions" where
  "parseFeishuPermissionExport input =
    (let normalized = dropEndFence (dropFence (js_trim input)) in
     if normalized = [] then Inl NothingPasted
     else case jsonParse normalized of None \<Rightarrow> Inl PermissionsNotJson
     | Some payload \<Rightarrow>
       if \<not> is_object payload \<or> ''scopes'' \<notin> set (objectKeys payload) then Inl ScopesMissing
       else let scopes = jget payload ''scopes'' in
       if \<not> is_object scopes then Inl ScopesInvalid
       else bindE (uniqueStrings (jget scopes ''tenant'') ''scopes.tenant'') (\<lambda>tenantScopes.
         bindE (uniqueStrings (jget scopes ''user'') ''scopes.user'') (\<lambda>userScopes.
           let combinedScopes = dedup (tenantScopes @ userScopes) in
           if combinedScopes = [] then Inl NoPermissions
           else Inr \<lparr>im_tenantScopes = tenantScopes, im_userScopes = userScopes, im_scopes = combinedScopes\<rparr>)))"

definition covered :: "string list \<Rightarrow> actionOption \<Rightarrow> bool" where
  "covered imported a \<longleftrightarrow> ao_providerPermissions a \<noteq> [] \<and> list_all (\<lambda>p. p \<in> set imported) (ao_providerPermissions a)"

definition selectActionsForImportedPermissions :: "actionOption list \<Rightarrow> string list \<Rightarrow> string list \<Rightarrow> importedSelection" where
  "selectActionsForImportedPermissions actions importedScopes baseScopes =
    (let actionIds = map ao_id (filter (covered importedScopes) actions);
         matchedScopes = filter (\<lambda>s. s \<in> set importedScopes)
           (dedup (concat (map ao_providerPermissions (filter (\<lambda>a. ao_id a \<in> set actionIds) actions)))) in
     \<lparr>im_actionIds = actionIds, im_matchedScopes = matchedScopes,
      im_unmatchedScopes = filter (\<lambda>s. s \<notin> set (matchedScopes @ baseScopes)) importedScopes\<rparr>)"

definition removeActionsRequiringPermission :: "actionOption list \<Rightarrow> string list \<Rightarrow> string \<Rightarrow> string list" where
  "removeActionsRequiringPermission actions selectedActionIds permission =
    filter (\<lambda>i. case map_of (js_map (map (\<lambda>a. (ao_id a, a)) actions)) i of None \<Rightarrow> True
      | Some a \<Rightarrow> permission \<notin> set (ao_providerPermissions a)) selectedActionIds"

section \<open>The pasted text\<close>

lemma ends_with_append: "ends_with (s @ p) p"
  by (simp add: ends_with_def starts_with_def)

lemma dropEndFence_fenced:
  assumes "t \<noteq> []" "\<not> is_space (last t)" "list_all is_space sp"
  shows "dropEndFence (t @ sp @ fence) = t"
proof -
  have "ends_with (t @ sp @ fence) fence" using ends_with_append[of "t @ sp" fence] by simp
  moreover have "drop 3 (rev (t @ sp @ fence)) = rev sp @ rev t" by (simp add: fence_def)
  moreover have "dropWhile is_space (rev sp @ rev t) = rev t"
    using assms dropWhile_append2[of "rev sp" is_space "rev t"] by (simp add: dropWhile_eq_self_iff hd_rev list_all_iff)
  ultimately show ?thesis by (simp add: dropEndFence_def)
qed

lemma dropFence_fenced:
  assumes "t \<noteq> []" "\<not> is_space (hd t)" "list_all is_space sp"
  shows "dropFence (fence @ ''json'' @ sp @ t) = t"
proof -
  have "dropWhile is_space (sp @ t) = t"
    using assms dropWhile_append2[of sp is_space t] by (simp add: dropWhile_eq_self_iff list_all_iff)
  then show ?thesis
    by (simp add: dropFence_def starts_with_def fence_def numeral_eq_Suc js_lower_def lower_char_def code_unit_def Let_def)
qed

lemma fence_not_space: "\<not> is_space (CHR 0x60)" "\<not> is_space (CHR ''{'')" "\<not> is_space (CHR ''}'')"
  by (simp_all add: is_space_def code_unit_def)

lemma fenced_normal:
  assumes "t \<noteq> []" "hd t = CHR ''{''" "last t = CHR ''}''" "list_all is_space sp" "list_all is_space sp'"
  shows "dropEndFence (dropFence (js_trim (fence @ ''json'' @ sp @ t @ sp' @ fence))) = t" "dropEndFence (dropFence (js_trim t)) = t"
proof -
  have "hd (fence @ ''json'' @ sp @ t @ sp' @ fence) = CHR 0x60" "last (fence @ ''json'' @ sp @ t @ sp' @ fence) = CHR 0x60"
    by (simp_all add: fence_def numeral_eq_Suc)
  then have "js_trim (fence @ ''json'' @ sp @ t @ sp' @ fence) = fence @ ''json'' @ sp @ t @ sp' @ fence"
    using fence_not_space by (intro js_trim_id) metis
  moreover have "dropFence (fence @ ''json'' @ sp @ (t @ sp' @ fence)) = t @ sp' @ fence"
    by (rule dropFence_fenced) (use assms fence_not_space in \<open>auto simp: hd_append\<close>)
  moreover have "dropEndFence (t @ sp' @ fence) = t"
    by (rule dropEndFence_fenced) (use assms fence_not_space in auto)
  ultimately show "dropEndFence (dropFence (js_trim (fence @ ''json'' @ sp @ t @ sp' @ fence))) = t" by simp
  have trim: "js_trim t = t" using assms fence_not_space by (intro js_trim_id) auto
  have "\<not> starts_with t fence" using assms by (cases t) (simp_all add: starts_with_def fence_def numeral_eq_Suc)
  moreover have "\<not> ends_with t fence"
    using assms(1,3) by (cases "rev t") (auto simp: ends_with_def starts_with_def fence_def numeral_eq_Suc last_rev hd_rev[symmetric])
  ultimately show "dropEndFence (dropFence (js_trim t)) = t" by (simp add: trim dropFence_def dropEndFence_def)
qed

text \<open>The export of two lists of permissions.\<close>

definition exportOf :: "string list \<Rightarrow> string list \<Rightarrow> json" where
  "exportOf tenant user = JObj [(''scopes'', JObj [(''tenant'', JArr (map JStr tenant)), (''user'', JArr (map JStr user))])]"

lemma exportOf_ok: "json_ok (exportOf tenant user)"
  by (simp add: exportOf_def list_all_iff)

lemma object_text: "jsonText (JObj kvs) = Some t \<Longrightarrow> t \<noteq> [] \<and> hd t = CHR ''{'' \<and> last t = CHR ''}''"
  by (auto split: option.split_asm if_split_asm)

definition cleaned :: "string list \<Rightarrow> string list" where
  "cleaned ss = dedup (filter (\<lambda>s. s \<noteq> []) (map js_trim ss))"

lemma uniqueStrings_texts: "uniqueStrings (JArr (map JStr ss)) f = Inr (cleaned ss)"
  by (simp add: uniqueStrings_def cleaned_def comp_def list_all_iff)

lemma parse_export:
  assumes "jsonText (exportOf tenant user) = Some t" "cleaned tenant \<noteq> [] \<or> cleaned user \<noteq> []" "dropEndFence (dropFence (js_trim s)) = t"
  shows "parseFeishuPermissionExport s = Inr \<lparr>im_tenantScopes = cleaned tenant, im_userScopes = cleaned user,
    im_scopes = dedup (cleaned tenant @ cleaned user)\<rparr>"
proof -
  have "t \<noteq> []" using object_text assms(1) unfolding exportOf_def by blast
  moreover have "jsonParse t = Some (exportOf tenant user)" using json_round_trip[OF exportOf_ok assms(1)] .
  moreover have "dedup (cleaned tenant @ cleaned user) \<noteq> []" using assms(2) by simp
  ultimately show ?thesis
    by (simp add: parseFeishuPermissionExport_def assms(3)) (simp add: exportOf_def uniqueStrings_texts)
qed

text \<open>Permissions exported from Feishu are read back whole: the text of an export, pasted as it is or inside
  the fence of a code block, gives the trimmed tenant and user permissions without repetitions and
  their union in the order of the export.\<close>

theorem permission_export_round_trip:
  assumes "jsonText (exportOf tenant user) = Some t" "cleaned tenant \<noteq> [] \<or> cleaned user \<noteq> []"
    and "list_all is_space sp" "list_all is_space sp'"
  shows "\<forall>s \<in> {t, fence @ ''json'' @ sp @ t @ sp' @ fence}.
    parseFeishuPermissionExport s = Inr \<lparr>im_tenantScopes = cleaned tenant, im_userScopes = cleaned user,
      im_scopes = dedup (cleaned tenant @ cleaned user)\<rparr>"
proof -
  have t: "t \<noteq> []" "hd t = CHR ''{''" "last t = CHR ''}''" using object_text assms(1) unfolding exportOf_def by blast+
  have "dropEndFence (dropFence (js_trim s)) = t" if "s \<in> {t, fence @ ''json'' @ sp @ t @ sp' @ fence}" for s
    using that fenced_normal[OF t assms(3,4)] by auto
  with parse_export[OF assms(1,2)] show ?thesis by blast
qed

theorem permission_export_round_trip_witness:
  "\<exists>t. jsonText (exportOf [''a''] []) = Some t \<and> parseFeishuPermissionExport (fence @ ''json'' @ [] @ t @ [] @ fence)
    = Inr \<lparr>im_tenantScopes = cleaned [''a''], im_userScopes = cleaned [], im_scopes = dedup (cleaned [''a''] @ cleaned [])\<rparr>"
proof -
  obtain t where t: "jsonText (exportOf [''a''] []) = Some t" by (simp add: exportOf_def)
  moreover have "cleaned [''a''] \<noteq> []" by (simp add: cleaned_def js_trim_def is_space_def code_unit_def)
  ultimately show ?thesis using permission_export_round_trip[OF t, of "[]" "[]"] by simp
qed

section \<open>The selection\<close>

lemma lookup_action:
  assumes "distinct (map ao_id actions)" "a \<in> set actions"
  shows "map_of (js_map (map (\<lambda>a. (ao_id a, a)) actions)) (ao_id a) = Some (a :: actionOption)"
  using assms
  by (auto simp: map_of_js_map map_of_rev comp_def map_of_eq_Some_iff image_iff distinct_map)

lemma covered_less:
  "covered (filter (\<lambda>s. s \<noteq> p) imported) = (\<lambda>a. covered imported a \<and> p \<notin> set (ao_providerPermissions a))"
  by (rule ext) (auto simp: covered_def list_all_iff)

text \<open>The actions chosen for imported permissions are exactly those that need a permission and need none
  that was not imported; the matched permissions are the ones they need, and an imported permission
  is reported as unmatched unless it is one of these or a base permission. Dropping the actions
  that need a permission leaves what an import without that permission would have chosen.\<close>

theorem permission_selection_sound:
  assumes "distinct (map ao_id actions)"
  shows "(\<forall>a \<in> set actions. ao_id a \<in> set (im_actionIds (selectActionsForImportedPermissions actions imported base)) \<longleftrightarrow> covered imported a)
    \<and> set (im_matchedScopes (selectActionsForImportedPermissions actions imported base))
        = (\<Union>a \<in> {a \<in> set actions. covered imported a}. set (ao_providerPermissions a))
    \<and> set (im_unmatchedScopes (selectActionsForImportedPermissions actions imported base))
        = set imported - set base - (\<Union>a \<in> {a \<in> set actions. covered imported a}. set (ao_providerPermissions a))
    \<and> removeActionsRequiringPermission actions (im_actionIds (selectActionsForImportedPermissions actions imported base)) p
        = im_actionIds (selectActionsForImportedPermissions actions (filter (\<lambda>s. s \<noteq> p) imported) base)"
proof -
  have ids: "a = b" if "a \<in> set actions" "b \<in> set actions" "ao_id a = ao_id b" for a b
    using assms that by (auto simp: distinct_map inj_on_def)
  have chosen: "ao_id a \<in> ao_id ` {b \<in> set actions. covered imported b} \<longleftrightarrow> covered imported a" if "a \<in> set actions" for a
    using ids that by (auto dest: ids)
  have matched: "set (im_matchedScopes (selectActionsForImportedPermissions actions imported base))
      = (\<Union>a \<in> {a \<in> set actions. covered imported a}. set (ao_providerPermissions a))"
    using chosen by (auto simp: selectActionsForImportedPermissions_def Let_def covered_def list_all_iff)
  have unmatched: "set (im_unmatchedScopes (selectActionsForImportedPermissions actions imported base))
      = set imported - set base - set (im_matchedScopes (selectActionsForImportedPermissions actions imported base))"
    by (auto simp: selectActionsForImportedPermissions_def Let_def)
  have removed: "removeActionsRequiringPermission actions (map ao_id xs) p
      = map ao_id (filter (\<lambda>a. p \<notin> set (ao_providerPermissions a)) xs)" if "set xs \<subseteq> set actions" for xs
    using that by (induction xs) (simp_all add: removeActionsRequiringPermission_def lookup_action[OF assms])
  have "removeActionsRequiringPermission actions (im_actionIds (selectActionsForImportedPermissions actions imported base)) p
        = im_actionIds (selectActionsForImportedPermissions actions (filter (\<lambda>s. s \<noteq> p) imported) base)"
    using removed[OF filter_is_subset[of "covered imported" actions]]
    by (simp add: selectActionsForImportedPermissions_def Let_def covered_less conj_commute)
  moreover have "\<forall>a \<in> set actions. ao_id a \<in> set (im_actionIds (selectActionsForImportedPermissions actions imported base)) \<longleftrightarrow> covered imported a"
    using chosen by (simp add: selectActionsForImportedPermissions_def Let_def)
  ultimately show ?thesis using matched unmatched by simp
qed

definition demo_options :: "actionOption list" where
  "demo_options = [\<lparr>ao_id = ''list'', ao_name = ''list'', ao_description = None, ao_providerPermissions = [''read'']\<rparr>,
    \<lparr>ao_id = ''copy'', ao_name = ''copy'', ao_description = None, ao_providerPermissions = [''read'', ''copy'']\<rparr>]"

theorem permission_selection_sound_witness:
  "removeActionsRequiringPermission demo_options (im_actionIds (selectActionsForImportedPermissions demo_options [''read'', ''copy''] [])) ''copy''
    = im_actionIds (selectActionsForImportedPermissions demo_options [''read''] [])"
proof -
  have "distinct (map ao_id demo_options)" by (simp add: demo_options_def)
  from permission_selection_sound[OF this, of "[''read'', ''copy'']" "[]" "''copy''"] show ?thesis by simp
qed

end
