(* ===== verification/Wecom_Qr.thy ===== *)
theory Wecom_Qr
  imports Integration_Core
begin

text \<open>
  The QR-code protocol that hands a WeCom bot's credentials to the console
  (src/ai-console/src/lib/server/wecom-bot-qr.ts): opening a scan session, polling it, checking the
  scanned credential, and the redaction of what is logged on the way. The HTTP client, the URL
  parser and SHA-256 are parameters; messages are short tags.
\<close>

definition WECOM_QR_SOURCE :: string where "WECOM_QR_SOURCE = ''ai_base_external''"
definition WECOM_QR_GENERATE_URL :: string where
  "WECOM_QR_GENERATE_URL = ''https://work.weixin.qq.com/ai/qc/generate''"
definition WECOM_QR_QUERY_URL :: string where
  "WECOM_QR_QUERY_URL = ''https://work.weixin.qq.com/ai/qc/query_result''"
definition WECOM_QR_PAGE_URL :: string where
  "WECOM_QR_PAGE_URL = ''https://work.weixin.qq.com/ai/qc/gen''"
definition WECOM_QR_BOOTSTRAP_URL :: string where
  "WECOM_QR_BOOTSTRAP_URL = ''https://qyapi.weixin.qq.com/cgi-bin/aibot/cli/get_cli_config''"
definition WECOM_QR_TIMEOUT_MS :: int where "WECOM_QR_TIMEOUT_MS = 5 * 60 * 1000"
definition WECOM_QR_DIAGNOSTIC_MAX_DEPTH :: nat where "WECOM_QR_DIAGNOSTIC_MAX_DEPTH = 5"

text \<open>A request is its URL with query and its body; None is a request without an answer and JUndef
  a body that is not JSON.\<close>

record qrEnv =
  qr_fetch :: "string \<Rightarrow> json option \<Rightarrow> (int \<times> json) option"
  qr_url :: "string \<Rightarrow> (string \<times> string) option"
  qr_crypto :: crypto

record qrSession =
  qs_scode :: string
  qs_pageUrl :: string
  qs_expiresAt :: int

datatype qrPoll = QrPending | QrConnected (qr_botId: string) (qr_secret: string) (qr_botName: "string option")

definition valid_scode :: "string \<Rightarrow> bool" where
  "valid_scode s \<longleftrightarrow> 8 \<le> length s \<and> length s \<le> 128 \<and> list_all base64url_char s"

section \<open>Diagnostics without secrets\<close>

definition sensitiveKey :: "string \<Rightarrow> bool" where
  "sensitiveKey key \<longleftrightarrow> list_ex (js_includes (js_lower key))
     [''secret'', ''token'', ''credential'', ''scode'', ''auth_url'', ''botid'', ''bot_id'']"

definition nameKey :: "string \<Rightarrow> bool" where
  "nameKey key \<longleftrightarrow> list_ex (js_includes (js_lower key)) [''name'', ''title'', ''label'', ''alias'']"

definition lengthTag :: "string \<Rightarrow> string" where
  "lengthTag s = ''[string:'' @ dec (length s) @ '']''"

fun diagnosticScalar :: "string \<Rightarrow> json \<Rightarrow> json" where
  "diagnosticScalar key (JStr s) = JStr (if nameKey key then take 120 s else lengthTag s)"
| "diagnosticScalar key JUndef = JStr ''[undefined]''"
| "diagnosticScalar key v = v"

function diagnosticValue :: "json \<Rightarrow> string \<Rightarrow> nat \<Rightarrow> json" where
  "diagnosticValue v key depth =
    (if sensitiveKey key then JStr ''[redacted]''
     else if depth \<ge> WECOM_QR_DIAGNOSTIC_MAX_DEPTH then JStr ''[max-depth]''
     else case v of
       JArr items \<Rightarrow> JArr (map (\<lambda>item. diagnosticValue item key (Suc depth)) (take 10 items))
     | JObj kvs \<Rightarrow> JObj (map (\<lambda>childKey. (childKey,
           diagnosticValue (jget (JObj kvs) childKey) childKey (Suc depth)))
         (sort_by str_le (dedup (map fst kvs))))
     | _ \<Rightarrow> diagnosticScalar key v)"
  by pat_completeness auto
termination by (relation "measure (\<lambda>(v, key, depth). 5 - depth)")
  (auto simp: WECOM_QR_DIAGNOSTIC_MAX_DEPTH_def)

declare diagnosticValue.simps [simp del]

section \<open>Trusted answers\<close>

definition assertTrustedWeComUrl :: "qrEnv \<Rightarrow> json \<Rightarrow> appError + unit" where
  "assertTrustedWeComUrl env v = (case optionalString v of
     None \<Rightarrow> Inl (QrError ''url_invalid'' 502)
   | Some text \<Rightarrow> (case qr_url env text of
       None \<Rightarrow> Inl (QrError ''url_invalid'' 502)
     | Some (protocol, hostname) \<Rightarrow>
         if protocol \<noteq> ''https:'' \<or> hostname \<noteq> ''work.weixin.qq.com''
         then Inl (QrError ''url_untrusted'' 502) else Inr ()))"

text \<open>JUndef stands for the undefined of an answer that is no object.\<close>

definition fetchWeComQrJson :: "qrEnv \<Rightarrow> string \<Rightarrow> json option \<Rightarrow> appError + json" where
  "fetchWeComQrJson env url body = (case qr_fetch env url body of
     None \<Rightarrow> Inl (QrError ''qr_unavailable'' 502)
   | Some (status, payload) \<Rightarrow>
       if \<not> response_ok status then Inl (QrError ''qr_failed'' 502)
       else Inr (if is_object payload then payload else JUndef))"

section \<open>The protocol\<close>

definition scanSession :: "qrEnv \<Rightarrow> int \<Rightarrow> json \<Rightarrow> appError + qrSession" where
  "scanSession env now data = (case optionalString (jget data ''scode'') of
     None \<Rightarrow> Inl (QrError ''session_invalid'' 502)
   | Some scode \<Rightarrow>
       if \<not> valid_scode scode then Inl (QrError ''session_invalid'' 502)
       else bindE (assertTrustedWeComUrl env (jget data ''auth_url'')) (\<lambda>_.
         Inr \<lparr>qs_scode = scode,
           qs_pageUrl = WECOM_QR_PAGE_URL @ ''?source='' @ WECOM_QR_SOURCE @ ''&scode='' @ scode,
           qs_expiresAt = now + WECOM_QR_TIMEOUT_MS\<rparr>))"

definition createWeComBotQrSession :: "qrEnv \<Rightarrow> int \<Rightarrow> appError + qrSession" where
  "createWeComBotQrSession env now =
    bindE (fetchWeComQrJson env (WECOM_QR_GENERATE_URL @ ''?source='' @ WECOM_QR_SOURCE @ ''&plat=3'') None)
     (\<lambda>payload. scanSession env now (jget payload ''data''))"

fun first_some :: "'a option list \<Rightarrow> 'a option" where
  "first_some [] = None"
| "first_some (None # xs) = first_some xs"
| "first_some (Some x # xs) = Some x"

definition pollWeComBotQrSession :: "qrEnv \<Rightarrow> string \<Rightarrow> appError + qrPoll" where
  "pollWeComBotQrSession env scode =
    (if \<not> valid_scode scode then Inl (QrError ''session_invalid'' 400)
     else bindE (fetchWeComQrJson env (WECOM_QR_QUERY_URL @ ''?scode='' @ scode) None) (\<lambda>payload.
       let data = jget payload ''data''; botInfo = jget data ''bot_info'' in
       if jget data ''status'' \<noteq> JStr ''success'' then Inr QrPending
       else let botName = first_some [optionalString (jget botInfo ''name''),
                  optionalString (jget botInfo ''bot_name''), optionalString (jget botInfo ''botname'')]
         in case (optionalString (jget botInfo ''botid''), optionalString (jget botInfo ''secret'')) of
           (Some botId, Some secret) \<Rightarrow>
             if (case botName of Some n \<Rightarrow> length n > 120 | None \<Rightarrow> False)
             then Inl (QrError ''bot_name_invalid'' 502)
             else Inr (QrConnected botId secret botName)
         | _ \<Rightarrow> Inl (QrError ''credential_incomplete'' 502)))"

definition bootstrapNonce :: "nat \<Rightarrow> string \<Rightarrow> string" where
  "bootstrapNonce now uuid = ''cli_'' @ dec now @ ''_'' @ take 8 (filter (\<lambda>c. c \<noteq> CHR ''-'') uuid)"

definition bootstrapBody :: "qrEnv \<Rightarrow> string \<Rightarrow> string \<Rightarrow> nat \<Rightarrow> string \<Rightarrow> json" where
  "bootstrapBody env botId secret now uuid =
    (let time = now div 1000; nonce = bootstrapNonce now uuid in JObj [
       (''bot_id'', JStr botId), (''time'', JNum (Fin (of_nat time))), (''nonce'', JStr nonce),
       (''signature'', JStr (sha256hex (qr_crypto env) (secret @ botId @ dec time @ nonce))),
       (''bind_source'', JNum (Fin 2))])"

fun errcodeOf :: "json \<Rightarrow> jsnum" where
  "errcodeOf (JNum n) = n"
| "errcodeOf v = Fin 0"

definition bootstrapWeComBotQrCredential ::
    "qrEnv \<Rightarrow> string \<Rightarrow> string \<Rightarrow> nat \<Rightarrow> string \<Rightarrow> appError + unit" where
  "bootstrapWeComBotQrCredential env botId secret now uuid =
    (if js_trim botId = [] \<or> js_trim secret = [] then Inl (QrError ''credential_incomplete'' 400)
     else bindE (fetchWeComQrJson env WECOM_QR_BOOTSTRAP_URL
         (Some (bootstrapBody env (js_trim botId) (js_trim secret) now uuid))) (\<lambda>payload.
       if errcodeOf (jget payload ''errcode'') \<noteq> Fin 0
          \<or> optionalString (jget payload ''token'') = None
       then Inl (QrError ''credential_rejected'' 502) else Inr ()))"

section \<open>What the log may contain\<close>

text \<open>The scalars of a value, each with the key it stands under.\<close>

fun leaves :: "string \<Rightarrow> json \<Rightarrow> (string \<times> json) list" where
  "leaves key (JArr xs) = concat (map (leaves key) xs)"
| "leaves key (JObj kvs) = concat (map (\<lambda>(k, v). leaves k v) kvs)"
| "leaves key v = [(key, v)]"

definition safeLeaf :: "string \<Rightarrow> json \<Rightarrow> bool" where
  "safeLeaf key v \<longleftrightarrow> (if sensitiveKey key then v = JStr ''[redacted]''
     else case v of
       JStr s \<Rightarrow> s \<in> {''[max-depth]'', ''[undefined]''} \<or> (\<exists>t. s = lengthTag t)
         \<or> nameKey key \<and> length s \<le> 120
     | _ \<Rightarrow> True)"

lemma diagnosticScalar_safe:
  "\<not> sensitiveKey key \<Longrightarrow> safeLeaf key (diagnosticScalar key v)"
  by (cases v) (auto simp: safeLeaf_def)

lemma leaves_scalar:
  "leaves key (diagnosticScalar key v) = [(key, diagnosticScalar key v)]"
  if "\<not> is_array v" "\<not> is_object v"
  using that by (cases v) auto

lemma diagnosticValue_leaves:
  "(k, w) \<in> set (leaves key (diagnosticValue v key depth)) \<Longrightarrow> safeLeaf k w"
proof (induction v key depth rule: diagnosticValue.induct)
  case (1 v key depth)
  note unfold = diagnosticValue.simps[of v key depth]
  show ?case
  proof (cases "sensitiveKey key \<or> WECOM_QR_DIAGNOSTIC_MAX_DEPTH \<le> depth")
    case True
    then show ?thesis using 1(3) unfold by (auto simp: safeLeaf_def split: if_splits)
  next
    case False
    show ?thesis
    proof (cases "is_array v \<or> is_object v")
      case True
      then show ?thesis
        using 1(3) 1(1,2) False unfold
        by (auto simp: is_array_iff is_object_iff simp del: jget.simps)
          (metis fst_conv image_eqI)
    next
      case scalar: False
      then have "diagnosticValue v key depth = diagnosticScalar key v"
        using False unfold by (cases v) auto
      then show ?thesis
        using 1(3) scalar False by (auto simp: leaves_scalar diagnosticScalar_safe)
    qed
  qed
qed

lemma optionalString_trimmed: "optionalString v = Some s \<Longrightarrow> s \<noteq> [] \<and> js_trim s = s"
  by (auto simp: optionalString_def split: json.splits if_splits)

lemma fetchQr_Inr:
  "fetchWeComQrJson env url body = Inr p \<Longrightarrow> \<exists>status payload.
     qr_fetch env url body = Some (status, payload) \<and> response_ok status
     \<and> p = (if is_object payload then payload else JUndef)"
proof -
  assume a: "fetchWeComQrJson env url body = Inr p"
  then obtain status payload where q: "qr_fetch env url body = Some (status, payload)"
    by (cases "qr_fetch env url body") (auto simp: fetchWeComQrJson_def)
  with a show ?thesis
    by (intro exI[of _ status] exI[of _ payload]) (auto simp: fetchWeComQrJson_def split: if_split_asm)
qed

lemma assertTrusted_Inr:
  "assertTrustedWeComUrl env v = Inr u \<longleftrightarrow> (\<exists>url. optionalString v = Some url
     \<and> qr_url env url = Some (''https:'', ''work.weixin.qq.com''))"
  unfolding assertTrustedWeComUrl_def
  by (cases "optionalString v") (auto split: option.split)

lemma scanSession_Inr:
  "scanSession env now data = Inr session \<Longrightarrow> valid_scode (qs_scode session)
    \<and> qs_pageUrl session = WECOM_QR_PAGE_URL @ ''?source='' @ WECOM_QR_SOURCE @ ''&scode=''
        @ qs_scode session
    \<and> qs_expiresAt session = now + WECOM_QR_TIMEOUT_MS
    \<and> (\<exists>url. optionalString (jget data ''auth_url'') = Some url
        \<and> qr_url env url = Some (''https:'', ''work.weixin.qq.com''))"
  unfolding scanSession_def
  by (cases "optionalString (jget data ''scode'')")
    (auto simp: assertTrusted_Inr split: if_split_asm)

lemma first_some_in: "first_some xs = Some x \<Longrightarrow> Some x \<in> set xs"
  by (induction xs rule: first_some.induct) auto

text \<open>Nothing secret reaches the log of a bot scan: whatever a service answers, every scalar of
  the logged value standing under a key that mentions a secret, a token, a credential, a scan code
  or a bot identifier is the redaction mark; any other string is a mark, a length, or at most 120
  characters of a name.\<close>

theorem diagnostic_redacts:
  "list_all (\<lambda>(k, w). safeLeaf k w) (leaves [] (diagnosticValue payload [] 0))"
  using diagnosticValue_leaves by (auto simp: list_all_iff)

text \<open>A scan session is opened only on a trusted answer: a well-formed scan code and an
  authorisation address on work.weixin.qq.com over https; the page the employee is sent to is the
  console's own, and the session ends five minutes later.\<close>

theorem qr_session_sound:
  assumes "createWeComBotQrSession env now = Inr session"
  shows "valid_scode (qs_scode session)
    \<and> qs_pageUrl session = ''https://work.weixin.qq.com/ai/qc/gen?source=ai_base_external&scode=''
        @ qs_scode session
    \<and> qs_expiresAt session = now + 300000
    \<and> (\<exists>status kvs url. qr_fetch env
          ''https://work.weixin.qq.com/ai/qc/generate?source=ai_base_external&plat=3'' None
          = Some (status, JObj kvs) \<and> response_ok status
        \<and> optionalString (jget (jget (JObj kvs) ''data'') ''auth_url'') = Some url
        \<and> qr_url env url = Some (''https:'', ''work.weixin.qq.com''))"
proof -
  from assms obtain payload where p: "fetchWeComQrJson env (WECOM_QR_GENERATE_URL @ ''?source=''
      @ WECOM_QR_SOURCE @ ''&plat=3'') None = Inr payload"
    and r: "createWeComBotQrSession env now = Inr session"
    by (auto simp: createWeComBotQrSession_def)
  have s: "scanSession env now (jget payload ''data'') = Inr session"
    using r p by (simp add: createWeComBotQrSession_def)
  from scanSession_Inr[OF s] obtain url where u: "valid_scode (qs_scode session)"
    "qs_pageUrl session = WECOM_QR_PAGE_URL @ ''?source='' @ WECOM_QR_SOURCE @ ''&scode=''
        @ qs_scode session" "qs_expiresAt session = now + WECOM_QR_TIMEOUT_MS"
    "optionalString (jget (jget payload ''data'') ''auth_url'') = Some url"
    "qr_url env url = Some (''https:'', ''work.weixin.qq.com'')"
    by blast
  then have "jget payload ''data'' \<noteq> JUndef" by (auto simp: optionalString_def)
  then have "is_object payload" by (cases payload) auto
  with fetchQr_Inr[OF p] obtain status kvs where "payload = JObj kvs" "response_ok status"
    "qr_fetch env (WECOM_QR_GENERATE_URL @ ''?source='' @ WECOM_QR_SOURCE @ ''&plat=3'') None
      = Some (status, JObj kvs)"
    by (auto simp: is_object_iff split: if_split_asm)
  with u show ?thesis
    unfolding WECOM_QR_GENERATE_URL_def WECOM_QR_SOURCE_def WECOM_QR_PAGE_URL_def
      WECOM_QR_TIMEOUT_MS_def
    by (intro conjI exI[of _ status] exI[of _ kvs] exI[of _ url]) simp_all
qed

definition demo_qr :: qrEnv where
  "demo_qr = \<lparr>qr_fetch = (\<lambda>url body. Some (200, JObj [(''data'', JObj [
       (''scode'', JStr ''scan-0001''), (''auth_url'', JStr ''u''), (''status'', JStr ''success''),
       (''bot_info'', JObj [(''botid'', JStr ''bot-1''), (''secret'', JStr ''s'')])]),
       (''token'', JStr ''t'')])),
     qr_url = (\<lambda>s. Some (''https:'', ''work.weixin.qq.com'')), qr_crypto = demo_crypto\<rparr>"

lemma demo_session:
  "createWeComBotQrSession demo_qr 7 = Inr \<lparr>qs_scode = ''scan-0001'',
     qs_pageUrl = ''https://work.weixin.qq.com/ai/qc/gen?source=ai_base_external&scode=scan-0001'',
     qs_expiresAt = 300007\<rparr>"
  by code_simp

theorem qr_session_sound_witness: "valid_scode ''scan-0001''"
  using qr_session_sound[OF demo_session] by simp

end
