(* ===== verification/Bot_Authorization.thy ===== *)
theory Bot_Authorization
  imports Employee_Bindings Resolver Wecom_Qr
begin

text \<open>
  Personal WeCom bots (src/ai-console/src/lib/server/integrations.ts): the scan requests with their
  45-second lease, the connection of a scanned bot to an employee's account, its renaming and
  removal. The OpenConnector service may answer differently at every call, so the environment has
  one service per call site; what is saved and deleted there is a log. The two Chinese fragments of
  a default connection name are parameters, error messages are short tags.
\<close>

section \<open>Reading the visible users with retries\<close>

definition WECOM_BOT_VISIBILITY_RETRY_DELAYS_MS :: "int list" where
  "WECOM_BOT_VISIBILITY_RETRY_DELAYS_MS = [0, 750, 1500, 3000, 5000]"

definition WECOM_BOT_TRANSIENT_VISIBILITY_STATUSES :: "int list" where
  "WECOM_BOT_TRANSIENT_VISIBILITY_STATUSES = [403, 409]"

fun transientError :: "appError \<Rightarrow> bool" where
  "transientError (ConnectorError e) = (oe_status e \<in> set WECOM_BOT_TRANSIENT_VISIBILITY_STATUSES)"
| "transientError e = False"

text \<open>Attempt k of the loop; the result, and the time spent waiting. An empty list of delays throws
  the undefined lastError, here None.\<close>

fun retryVisibleUsers ::
    "crypto \<Rightarrow> (nat \<Rightarrow> openConnectorError + json) \<Rightarrow> nat \<Rightarrow> int list \<Rightarrow> appError option
      \<Rightarrow> (appError option + visibleUser list) \<times> int list" where
  "retryVisibleUsers cr run k [] lastError = (Inl lastError, [])"
| "retryVisibleUsers cr run k (delayMs # delays) lastError =
    (let waited = (if delayMs > 0 then [delayMs] else []) in
     case bindE (liftConnector (run k)) (parseWeComVisibleUsers cr) of
       Inr users \<Rightarrow> (Inr users, waited)
     | Inl e \<Rightarrow>
         if \<not> transientError e then (Inl (Some e), waited)
         else (case retryVisibleUsers cr run (Suc k) delays (Some e) of
             (r, ws) \<Rightarrow> (r, waited @ ws)))"

definition readWeComBotVisibleUsersWithRetry ::
    "crypto \<Rightarrow> (nat \<Rightarrow> openConnectorError + json) \<Rightarrow> int list
      \<Rightarrow> (appError option + visibleUser list) \<times> int list" where
  "readWeComBotVisibleUsersWithRetry cr run delays = retryVisibleUsers cr run 0 delays None"

definition readWeComBotVisibleUserIdsWithRetry ::
    "crypto \<Rightarrow> (nat \<Rightarrow> openConnectorError + json) \<Rightarrow> int list
      \<Rightarrow> (appError option + string list) \<times> int list" where
  "readWeComBotVisibleUserIdsWithRetry cr run delays =
    (case readWeComBotVisibleUsersWithRetry cr run delays of
       (Inl e, ws) \<Rightarrow> (Inl e, ws)
     | (Inr users, ws) \<Rightarrow> (Inr (dedup (map vu_userIdHash users)), ws))"

section \<open>The name and the actions of a personal bot\<close>

record botTexts =
  bt_ending :: string
  bt_currentUser :: string

definition last_n :: "nat \<Rightarrow> string \<Rightarrow> string" where
  "last_n n s = drop (length s - n) s"

definition personalWeComBotDisplayName :: "botTexts \<Rightarrow> string option \<Rightarrow> string \<Rightarrow> string" where
  "personalWeComBotDisplayName texts binderName connectionName =
    (let ending = bt_ending texts @ last_n 4 connectionName;
         trimmed = trimmed_or_empty binderName;
         name = (if trimmed \<noteq> [] then trimmed else bt_currentUser texts)
     in take (max 1 (120 - length ending)) name @ ending)"

definition WECOM_BOT_PERSONAL_READ_ACTION_NAMES :: "string list" where
  "WECOM_BOT_PERSONAL_READ_ACTION_NAMES = [
    ''list_tools'', ''get_userlist'', ''get_msg_chat_list'', ''get_message'',
    ''download_message_media'', ''search_todo_userid'', ''get_todo_list'', ''get_todo_detail'',
    ''list_user_meetings'', ''get_meeting_info'', ''get_schedule_list_by_range'',
    ''get_schedule_detail'', ''check_availability'', ''get_doc_content'', ''sheet_get_info'',
    ''smartsheet_get_sheet'', ''smartsheet_get_fields'', ''smartsheet_get_records'']"

definition WECOM_BOT_TOOL_CATEGORIES :: "string list" where
  "WECOM_BOT_TOOL_CATEGORIES = [''contact'', ''doc'', ''meeting'', ''msg'', ''schedule'', ''todo'']"

definition toolNamesOf :: "json \<Rightarrow> string list" where
  "toolNamesOf payload = concat (map (\<lambda>category. List.map_filter (\<lambda>tool.
       let name = js_trim (the_string (jget tool ''name'')) in if name \<noteq> [] then Some name else None)
     (the_array (jget category ''tools''))) (the_array (jget payload ''categories'')))"

definition actionNameOf :: "connectorActionDefinition \<Rightarrow> string" where
  "actionNameOf action = (let part = last (js_split (CHR ''.'') (ca_id action)) in
     if part \<noteq> [] then part else ca_name action)"

definition personalAction :: "string list \<Rightarrow> connectorActionDefinition \<Rightarrow> bool" where
  "personalAction toolNames action \<longleftrightarrow>
     \<not> catalog_only action \<and> ca_id action \<notin> set WECOM_BOT_SYSTEM_ONLY_ACTION_IDS
   \<and> actionNameOf action \<in> set WECOM_BOT_PERSONAL_READ_ACTION_NAMES
   \<and> (actionNameOf action = ''list_tools''
      \<or> (if actionNameOf action = ''download_message_media'' then ''get_msg_media''
         else actionNameOf action) \<in> set toolNames)"

definition parseWeComBotPersonalActionIds ::
    "json \<Rightarrow> connectorActionDefinition list \<Rightarrow> string list" where
  "parseWeComBotPersonalActionIds v actions =
    sort_by str_le (map ca_id (filter (personalAction (toolNamesOf v)) actions))"

section \<open>Connecting a scanned bot\<close>

datatype botCall = CallProvider | CallList | CallSaveValidation | CallUserlist nat
  | CallTools string | CallSave | CallDelete

text \<open>Save and delete requests issued to the service.\<close>

datatype botEffect = SaveIssued string | DeleteIssued string

record botEnv =
  be_oc :: "botCall \<Rightarrow> ocEnv"
  be_qr :: qrEnv
  be_crypto :: crypto
  be_texts :: botTexts

text \<open>What one run draws from the system: the random identifiers and the clock.\<close>

record botDraw =
  bd_bindingId :: string
  bd_validation :: string
  bd_nonceUuid :: string
  bd_now :: int

definition weComBotCredentialFingerprint :: "crypto \<Rightarrow> string \<Rightarrow> string" where
  "weComBotCredentialFingerprint cr botId = sha256hex cr (''wecom_bot'' @ [CHR 0x00] @ botId)"

definition ownedBy :: "consoleIdentity \<Rightarrow> bindingRow \<Rightarrow> bool" where
  "ownedBy identity b \<longleftrightarrow>
     bi_issuer b = ci_principalIssuer identity \<and> bi_subject b = ci_principalSubject identity"

record botPlan =
  bp_linked :: "identityClaim list"
  bp_fingerprint :: string
  bp_connectionName :: string

definition botClaims :: "consoleIdentity \<Rightarrow> db \<Rightarrow> identityClaim list" where
  "botClaims identity d = getLinkedWeComIdentityClaims (ci_principalIssuer identity)
     (ci_principalSubject identity) d"

text \<open>The reads before anything is done upstream.\<close>

definition planBot :: "botEnv \<Rightarrow> consoleIdentity \<Rightarrow> string \<Rightarrow> db \<Rightarrow> appError + botPlan" where
  "planBot env identity botId d =
    (let linked = botClaims identity d;
         fingerprint = weComBotCredentialFingerprint (be_crypto env) botId;
         owner = List.find (\<lambda>b. bi_fingerprint b = Some fingerprint \<and> bi_status b \<noteq> Revoked) (bindings d);
         connectionName = (case owner of
             Some b \<Rightarrow> if bi_connection_name b \<noteq> [] then bi_connection_name b
               else employeeConnectionName (be_crypto env) identity ''wecom_bot'' fingerprint
           | None \<Rightarrow> employeeConnectionName (be_crypto env) identity ''wecom_bot'' fingerprint);
         connectionOwner = List.find (\<lambda>b. bi_service b = ''wecom_bot''
             \<and> bi_connection_name b = connectionName) (bindings d)
     in if linked = [] then Inl (storeError (StoreMsg ''bot_identity_expired'') 409)
        else if (case owner of Some b \<Rightarrow> \<not> ownedBy identity b | None \<Rightarrow> False)
        then Inl (storeError (StoreMsg ''bot_owned_by_other'') 409)
        else if (case connectionOwner of Some b \<Rightarrow> \<not> ownedBy identity b | None \<Rightarrow> False)
        then Inl (storeError (StoreMsg ''bot_name_taken'') 409)
        else Inr \<lparr>bp_linked = linked, bp_fingerprint = fingerprint,
               bp_connectionName = connectionName\<rparr>)"

definition botCredential :: "string \<Rightarrow> string \<Rightarrow> string \<Rightarrow> json" where
  "botCredential connectionName botId secret = JObj [(''connectionName'', JStr connectionName),
     (''authType'', JStr ''custom_credential''),
     (''values'', JObj [(''botId'', JStr botId), (''secret'', JStr secret)])]"

text \<open>A save that did not answer with a configured connection fails; None is the undefined answer.\<close>

definition saveBot ::
    "ocEnv \<Rightarrow> string \<Rightarrow> string \<Rightarrow> string \<Rightarrow> string \<Rightarrow> appError + connectorConnection" where
  "saveBot oc tag connectionName botId secret =
    bindE (liftConnector (saveConnectorConnection oc ''wecom_bot''
        (botCredential connectionName botId secret))) (\<lambda>connection.
      case connection of
        None \<Rightarrow> Inl (storeError (StoreMsg tag) 502)
      | Some c \<Rightarrow> if cc_configured c then Inr c else Inl (storeError (StoreMsg tag) 502))"

definition toolCatalogs :: "botEnv \<Rightarrow> string \<Rightarrow> json" where
  "toolCatalogs env validationName = JObj [(''categories'', JArr (
     concat (map (\<lambda>category.
       case runConnectorAction (be_oc env (CallTools category)) ''wecom_bot.list_tools'' validationName
           (JObj [(''category'', JStr category)]) of
         Inl e \<Rightarrow> [] | Inr catalog \<Rightarrow> the_array (jget catalog ''categories''))
       WECOM_BOT_TOOL_CATEGORIES)
     @ [JObj [(''category'', JStr ''contact''),
         (''tools'', JArr [JObj [(''name'', JStr ''get_userlist'')]])]]))]"

fun retryFailure :: "appError option + 'a \<Rightarrow> appError + 'a" where
  "retryFailure (Inr v) = Inr v"
| "retryFailure (Inl None) = Inl TypeFailure"
| "retryFailure (Inl (Some e)) = Inl e"

text \<open>Up to the point where the bot's own connection is saved: the visible user it belongs to and
  its actions.\<close>

definition validateBot ::
    "botEnv \<Rightarrow> botDraw \<Rightarrow> botPlan \<Rightarrow> connectorProviderDetail \<Rightarrow> string \<Rightarrow> string
      \<Rightarrow> appError + visibleUser \<times> string list" where
  "validateBot env draw plan provider botId secret =
    bindE (bootstrapWeComBotQrCredential (be_qr env) botId secret (nat (bd_now draw))
        (bd_nonceUuid draw)) (\<lambda>_.
    bindE (saveBot (be_oc env CallSaveValidation) ''bot_validation_failed'' (bd_validation draw)
        botId secret) (\<lambda>_.
    bindE (retryFailure (fst (readWeComBotVisibleUsersWithRetry (be_crypto env)
        (\<lambda>k. runConnectorAction (be_oc env (CallUserlist k)) ''wecom_bot.get_userlist''
           (bd_validation draw) (JObj [])) WECOM_BOT_VISIBILITY_RETRY_DELAYS_MS))) (\<lambda>visibleUsers.
    case List.find (\<lambda>u. vu_userIdHash u \<in> set (map ic_userIdHash (bp_linked plan))) visibleUsers of
      None \<Rightarrow> Inl (storeError (StoreMsg ''bot_user_not_visible'') 403)
    | Some bindingUser \<Rightarrow>
        let actionIds = parseWeComBotPersonalActionIds (toolCatalogs env (bd_validation draw))
              (cp_actions provider)
        in if ''wecom_bot.get_userlist'' \<notin> set actionIds
           then Inl (storeError (StoreMsg ''bot_without_directory'') 409)
           else Inr (bindingUser, actionIds))))"

definition newBotRow ::
    "botEnv \<Rightarrow> consoleIdentity \<Rightarrow> botDraw \<Rightarrow> botPlan \<Rightarrow> visibleUser \<Rightarrow> string list
      \<Rightarrow> connectorConnection \<Rightarrow> bindingRow" where
  "newBotRow env identity draw plan user actionIds connection =
    \<lparr>bi_id = bd_bindingId draw, bi_application_id = None,
     bi_issuer = ci_principalIssuer identity, bi_subject = ci_principalSubject identity,
     bi_email = ci_email identity, bi_name = ci_name identity,
     bi_platform = WecomBot, bi_service = ''wecom_bot'', bi_connection_name = bp_connectionName plan,
     bi_status = Connected,
     bi_display_name = Some (personalWeComBotDisplayName (be_texts env)
       (case vu_name user of Some n \<Rightarrow> Some n | None \<Rightarrow> Some (ci_name identity))
       (bp_connectionName plan)),
     bi_account_id = Some (cc_accountId connection), bi_error_message = MsgNone,
     bi_action_ids = Some (JArr (map JStr actionIds)),
     bi_fingerprint = Some (bp_fingerprint plan), bi_connected_at = Some (bd_now draw),
     bi_created_at = bd_now draw, bi_updated_at = bd_now draw\<rparr>"

definition mergeBotRow :: "bindingRow \<Rightarrow> bindingRow \<Rightarrow> bindingRow" where
  "mergeBotRow new old = old\<lparr>bi_email := bi_email new, bi_name := bi_name new,
     bi_status := Connected, bi_display_name := bi_display_name new,
     bi_account_id := bi_account_id new, bi_action_ids := bi_action_ids new,
     bi_fingerprint := bi_fingerprint new, bi_error_message := MsgNone,
     bi_connected_at := (case bi_connected_at old of Some t \<Rightarrow> Some t
        | None \<Rightarrow> bi_connected_at new),
     bi_updated_at := bi_updated_at new\<rparr>"

definition sameConnection :: "bindingRow \<Rightarrow> bindingRow \<Rightarrow> bool" where
  "sameConnection new old \<longleftrightarrow> bi_service old = bi_service new
     \<and> bi_connection_name old = bi_connection_name new"

definition sameOwner :: "bindingRow \<Rightarrow> bindingRow \<Rightarrow> bool" where
  "sameOwner new old \<longleftrightarrow> bi_issuer old = bi_issuer new \<and> bi_subject old = bi_subject new"

text \<open>INSERT ... ON CONFLICT (service, connection_name) DO UPDATE ... WHERE the owner is the same;
  the flag is rowCount > 0.\<close>

definition upsertBot :: "bindingRow \<Rightarrow> db \<Rightarrow> appError + bool \<times> db" where
  "upsertBot new d =
    (if list_ex (sameConnection new) (bindings d)
     then bindE (liftDatabase (checked (updateBindings
            (\<lambda>b. sameConnection new b \<and> sameOwner new b) (mergeBotRow new) d)))
            (\<lambda>d'. Inr (list_ex (\<lambda>b. sameConnection new b \<and> sameOwner new b) (bindings d), d'))
     else bindE (liftDatabase (checked (d\<lparr>bindings := bindings d @ [new]\<rparr>))) (\<lambda>d'. Inr (True, d')))"

fun rethrown :: "appError \<Rightarrow> appError" where
  "rethrown (DatabaseError UniqueViolation) = storeError (StoreMsg ''bot_owned_by_other'') 409"
| "rethrown (ConnectorError e) = storeError (StoreMsg ''bot_validation_failed'') 502"
| "rethrown e = e"

text \<open>The whole try block: the requests issued, the result, whether canonicalConnectionSaved was set,
  and the store.\<close>

definition connectAttempt ::
    "botEnv \<Rightarrow> consoleIdentity \<Rightarrow> botDraw \<Rightarrow> botPlan \<Rightarrow> connectorProviderDetail \<Rightarrow> string \<Rightarrow> string
      \<Rightarrow> db \<Rightarrow> (appError + string) \<times> bool \<times> db" where
  "connectAttempt env identity draw plan provider botId secret d =
    (case validateBot env draw plan provider botId secret of
       Inl e \<Rightarrow> (Inl e, False, d)
     | Inr (user, actionIds) \<Rightarrow>
         (case saveBot (be_oc env CallSave) ''bot_connection_failed'' (bp_connectionName plan)
              botId secret of
            Inl e \<Rightarrow> (Inl e, False, d)
          | Inr connection \<Rightarrow>
              (case upsertBot (newBotRow env identity draw plan user actionIds connection) d of
                 Inl e \<Rightarrow> (Inl e, True, d)
               | Inr (stored, d') \<Rightarrow>
                   if stored then (Inr (bp_connectionName plan), True, d')
                   else (Inl (storeError (StoreMsg ''bot_ownership_conflict'') 409), True, d'))))"

definition savesIssued ::
    "botEnv \<Rightarrow> botDraw \<Rightarrow> botPlan \<Rightarrow> connectorProviderDetail \<Rightarrow> string \<Rightarrow> string \<Rightarrow> botEffect list" where
  "savesIssued env draw plan provider botId secret =
    (if is_ok (bootstrapWeComBotQrCredential (be_qr env) botId secret (nat (bd_now draw))
         (bd_nonceUuid draw)) then [SaveIssued (bd_validation draw)] else [])
    @ (if is_ok (validateBot env draw plan provider botId secret)
       then [SaveIssued (bp_connectionName plan)] else [])"

definition botCatalog :: "botEnv \<Rightarrow> appError + connectorProviderDetail \<times> connectorConnection list" where
  "botCatalog env = bindE (liftConnector (getConnectorProvider (be_oc env CallProvider) ''wecom_bot''))
     (\<lambda>provider. bindE (liftConnector (listConnectorConnections (be_oc env CallList)))
       (\<lambda>snapshot. Inr (provider, snapshot)))"

definition connectEmployeeWeComBot ::
    "botEnv \<Rightarrow> consoleIdentity \<Rightarrow> botDraw \<Rightarrow> string \<Rightarrow> string \<Rightarrow> db
      \<Rightarrow> (appError + string) \<times> botEffect list \<times> db" where
  "connectEmployeeWeComBot env identity draw botId secret d =
    (case bindE (planBot env identity botId d) (\<lambda>plan.
        bindE (botCatalog env) (\<lambda>catalog. Inr (plan, catalog))) of
       Inl e \<Rightarrow> (Inl e, [], d)
     | Inr (plan, provider, snapshot) \<Rightarrow>
         (let existed = list_ex (\<lambda>c. cc_service c = ''wecom_bot''
                \<and> cc_connectionName c = bp_connectionName plan) snapshot;
              saves = savesIssued env draw plan provider botId secret;
              cleanup = [DeleteIssued (bd_validation draw)]
          in case connectAttempt env identity draw plan provider botId secret d of
            (Inr name, saved, d') \<Rightarrow> (Inr name, saves @ cleanup, d')
          | (Inl e, saved, d') \<Rightarrow> (Inl (rethrown e),
              saves @ (if saved \<and> \<not> existed then [DeleteIssued (bp_connectionName plan)] else [])
                @ cleanup, d')))"

section \<open>Scan requests\<close>

definition valid_bot_request :: "string \<Rightarrow> bool" where
  "valid_bot_request s \<longleftrightarrow> length s = 43 \<and> list_all base64url_char s"

definition LEASE_MS :: int where "LEASE_MS = 45000"

definition updateRequests ::
    "(botRequestRow \<Rightarrow> bool) \<Rightarrow> (botRequestRow \<Rightarrow> botRequestRow) \<Rightarrow> db \<Rightarrow> db" where
  "updateRequests P f d = d\<lparr>botRequests := map (\<lambda>r. if P r then f r else r) (botRequests d)\<rparr>"

definition newBotRequest :: "crypto \<Rightarrow> consoleIdentity \<Rightarrow> string \<Rightarrow> qrSession \<Rightarrow> botRequestRow" where
  "newBotRequest cr identity request session =
    \<lparr>br_request_hash = sha256hex cr request, br_scode = Some (qs_scode session),
     br_issuer = ci_principalIssuer identity, br_subject = ci_principalSubject identity,
     br_expires_at = qs_expiresAt session, br_processing_at = None, br_completed_at = None,
     br_connection_name = None\<rparr>"

text \<open>The random bytes of the request token are an argument.\<close>

definition startEmployeeWeComBotAuthorization ::
    "qrEnv \<Rightarrow> crypto \<Rightarrow> consoleIdentity \<Rightarrow> string \<Rightarrow> int \<Rightarrow> db
      \<Rightarrow> (appError + string \<times> string \<times> int) \<times> db" where
  "startEmployeeWeComBotAuthorization qr cr identity bytes now d =
    (if botClaims identity d = [] then (Inl (storeError (StoreMsg ''bot_identity_required'') 409), d)
     else case createWeComBotQrSession qr now of
       Inl e \<Rightarrow> (Inl e, d)
     | Inr session \<Rightarrow>
         (let request = base64url_encode bytes;
              d1 = d\<lparr>botRequests := filter (\<lambda>r. \<not> br_expires_at r < now - DAY_MS) (botRequests d)\<rparr>
          in case liftDatabase (checked (d1\<lparr>botRequests := botRequests d1
                @ [newBotRequest cr identity request session]\<rparr>)) of
            Inl e \<Rightarrow> (Inl e, d1)
          | Inr d2 \<Rightarrow> (Inr (request, qs_pageUrl session, qs_expiresAt session), d2)))"

datatype botPollStart = AlreadyConnected string | Scanning string string

definition beginPoll ::
    "crypto \<Rightarrow> consoleIdentity \<Rightarrow> string \<Rightarrow> int \<Rightarrow> db \<Rightarrow> (appError + botPollStart) \<times> db" where
  "beginPoll cr identity request now d =
    (if \<not> valid_bot_request request then (Inl (storeError (StoreMsg ''bot_request_invalid'') 400), d)
     else let requestHash = sha256hex cr request in
       case List.find (\<lambda>r. br_request_hash r = requestHash
           \<and> br_issuer r = ci_principalIssuer identity
           \<and> br_subject r = ci_principalSubject identity) (botRequests d) of
         None \<Rightarrow> (Inl (storeError (StoreMsg ''bot_request_missing'') 404), d)
       | Some row \<Rightarrow>
           (case (br_completed_at row, br_connection_name row) of
              (Some t, Some (c # name)) \<Rightarrow> (Inr (AlreadyConnected (c # name)), d)
            | _ \<Rightarrow>
                if br_expires_at row \<le> now
                then (Inl (storeError (StoreMsg ''bot_request_expired'') 410),
                  updateRequests (\<lambda>r. br_request_hash r = requestHash \<and> br_completed_at r = None)
                    (\<lambda>r. r\<lparr>br_scode := None, br_processing_at := None\<rparr>) d)
                else (case br_scode row of
                    Some (c # scode) \<Rightarrow> (Inr (Scanning requestHash (c # scode)), d)
                  | _ \<Rightarrow> (Inl (storeError (StoreMsg ''bot_request_void'') 410), d))))"

definition claimable :: "string \<Rightarrow> int \<Rightarrow> botRequestRow \<Rightarrow> bool" where
  "claimable requestHash now r \<longleftrightarrow> br_request_hash r = requestHash \<and> br_completed_at r = None
     \<and> (case br_processing_at r of None \<Rightarrow> True | Some t \<Rightarrow> t < now - LEASE_MS)"

definition claimPoll :: "string \<Rightarrow> int \<Rightarrow> db \<Rightarrow> bool \<times> db" where
  "claimPoll requestHash now d =
    (list_ex (claimable requestHash now) (botRequests d),
     updateRequests (claimable requestHash now) (\<lambda>r. r\<lparr>br_processing_at := Some now\<rparr>) d)"

definition completePoll :: "string \<Rightarrow> string \<Rightarrow> int \<Rightarrow> db \<Rightarrow> db" where
  "completePoll requestHash connectionName now =
    updateRequests (\<lambda>r. br_request_hash r = requestHash)
      (\<lambda>r. r\<lparr>br_completed_at := Some now, br_connection_name := Some connectionName,
        br_processing_at := None, br_scode := None\<rparr>)"

definition releasePoll :: "string \<Rightarrow> db \<Rightarrow> db" where
  "releasePoll requestHash =
    updateRequests (\<lambda>r. br_request_hash r = requestHash \<and> br_completed_at r = None)
      (\<lambda>r. r\<lparr>br_processing_at := None\<rparr>)"

datatype botPollResult = PollPending | PollConnected string

text \<open>The polls' clocks: at the request, at the claim, at the end.\<close>

definition pollEmployeeWeComBotAuthorization ::
    "botEnv \<Rightarrow> consoleIdentity \<Rightarrow> botDraw \<Rightarrow> string \<Rightarrow> int \<Rightarrow> int \<Rightarrow> int \<Rightarrow> db
      \<Rightarrow> (appError + botPollResult) \<times> botEffect list \<times> db" where
  "pollEmployeeWeComBotAuthorization env identity draw request now now' now'' d =
    (case beginPoll (be_crypto env) identity request now d of
       (Inl e, d1) \<Rightarrow> (Inl e, [], d1)
     | (Inr (AlreadyConnected name), d1) \<Rightarrow> (Inr (PollConnected name), [], d1)
     | (Inr (Scanning requestHash scode), d1) \<Rightarrow>
         (case pollWeComBotQrSession (be_qr env) scode of
            Inl e \<Rightarrow> (Inl e, [], d1)
          | Inr QrPending \<Rightarrow> (Inr PollPending, [], d1)
          | Inr (QrConnected botId secret botName) \<Rightarrow>
              (case claimPoll requestHash now' d1 of
                 (False, d2) \<Rightarrow> (Inr PollPending, [], d2)
               | (True, d2) \<Rightarrow>
                   (case connectEmployeeWeComBot env identity draw botId secret d2 of
                      (Inr name, effects, d3) \<Rightarrow>
                        (Inr (PollConnected name), effects, completePoll requestHash name now'' d3)
                    | (Inl e, effects, d3) \<Rightarrow> (Inl e, effects, releasePoll requestHash d3)))))"

section \<open>Removing and renaming a personal bot\<close>

definition personalBot :: "consoleIdentity \<Rightarrow> string \<Rightarrow> bindingRow \<Rightarrow> bool" where
  "personalBot identity connectionName b \<longleftrightarrow> ownedBy identity b \<and> bi_platform b = WecomBot
     \<and> bi_service b = ''wecom_bot'' \<and> bi_application_id b = None
     \<and> bi_connection_name b = connectionName"

definition disconnectEmployeeWeComBot ::
    "ocEnv \<Rightarrow> consoleIdentity \<Rightarrow> string \<Rightarrow> int \<Rightarrow> db \<Rightarrow> (appError + unit) \<times> db" where
  "disconnectEmployeeWeComBot oc identity connectionName now d =
    (let name = js_trim connectionName in
     if \<not> valid_connection_name name then (Inl (storeError (StoreMsg ''bot_name_invalid'') 400), d)
     else case List.find (\<lambda>b. personalBot identity name b \<and> bi_status b \<noteq> Revoked) (bindings d) of
       None \<Rightarrow> (Inl (storeError (StoreMsg ''bot_missing'') 404), d)
     | Some binding \<Rightarrow>
         (let revoke = updateBindings (\<lambda>b. bi_id b = bi_id binding \<and> ownedBy identity b
                \<and> bi_status b \<noteq> Revoked)
              (\<lambda>b. b\<lparr>bi_status := Revoked, bi_error_message := MsgNone, bi_updated_at := now\<rparr>) d
          in case deleteConnectorConnection oc ''wecom_bot'' name of
            Inl e \<Rightarrow> if oe_status e \<noteq> 404 then (Inl (ConnectorError e), d) else (Inr (), revoke)
          | Inr v \<Rightarrow> (Inr (), revoke)))"

definition renameEmployeeWeComBot ::
    "consoleIdentity \<Rightarrow> string \<Rightarrow> json \<Rightarrow> int \<Rightarrow> db \<Rightarrow> (appError + string) \<times> db" where
  "renameEmployeeWeComBot identity connectionName displayName now d =
    (let name = js_trim connectionName; label = js_trim (the_string displayName);
         selected = (\<lambda>b. personalBot identity name b \<and> bi_status b = Connected) in
     if \<not> valid_connection_name name then (Inl (storeError (StoreMsg ''bot_name_invalid'') 400), d)
     else if label = [] then (Inl (storeError (StoreMsg ''bot_label_required'') 400), d)
     else if length label > 120 then (Inl (storeError (StoreMsg ''bot_label_too_long'') 400), d)
     else if \<not> list_ex selected (bindings d)
       then (Inl (storeError (StoreMsg ''bot_missing'') 404), d)
     else (Inr label, updateBindings selected
       (\<lambda>b. b\<lparr>bi_display_name := Some label, bi_updated_at := now\<rparr>) d))"

end
