(* ===== verification/Bot_Properties.thy ===== *)
theory Bot_Properties
  imports Bot_Authorization
begin

text \<open>
  What the personal-bot handlers of Bot_Authorization promise: the retry loop against its
  reference, the soundness of a connection, what a failed one leaves behind, the lease of a scan
  request and where it leaks, and that only the owner's rows change.
\<close>

section \<open>The retry loop\<close>

definition attempt ::
    "crypto \<Rightarrow> (nat \<Rightarrow> openConnectorError + json) \<Rightarrow> nat \<Rightarrow> appError + visibleUser list" where
  "attempt cr run k = bindE (liftConnector (run k)) (parseWeComVisibleUsers cr)"

definition retryable :: "appError + 'a \<Rightarrow> bool" where
  "retryable r = (case r of Inl e \<Rightarrow> transientError e | Inr v \<Rightarrow> False)"

text \<open>The reference: the attempts up to the first one that is not a transient failure; its outcome,
  or the last one's.\<close>

definition attemptsUsed ::
    "crypto \<Rightarrow> (nat \<Rightarrow> openConnectorError + json) \<Rightarrow> nat \<Rightarrow> nat \<Rightarrow> nat" where
  "attemptsUsed cr run k n = length (takeWhile (\<lambda>i. retryable (attempt cr run i)) [k..<k + n])"

definition outcomeOf :: "appError + 'a \<Rightarrow> appError option + 'a" where
  "outcomeOf r = (case r of Inl e \<Rightarrow> Inl (Some e) | Inr v \<Rightarrow> Inr v)"

lemma attemptsUsed_Suc:
  "attemptsUsed cr run k (Suc n)
    = (if retryable (attempt cr run k) then Suc (attemptsUsed cr run (Suc k) n) else 0)"
  by (simp add: attemptsUsed_def upt_conv_Cons del: upt_Suc)

lemma attemptsUsed_le: "attemptsUsed cr run k n \<le> n"
  using length_takeWhile_le[of _ "[k..<k + n]"] by (simp add: attemptsUsed_def)

lemma retry_reference:
  assumes "retryVisibleUsers cr run k delays lastError = (r, ws)"
  shows "ws = filter (\<lambda>t. t > 0) (take (Suc (attemptsUsed cr run k (length delays))) delays)
    \<and> r = (if attemptsUsed cr run k (length delays) < length delays
       then outcomeOf (attempt cr run (k + attemptsUsed cr run k (length delays)))
       else if delays = [] then Inl lastError
       else outcomeOf (attempt cr run (k + length delays - 1)))"
  using assms
proof (induction delays arbitrary: k lastError r ws)
  case Nil
  then show ?case by (simp add: attemptsUsed_def)
next
  case (Cons t delays)
  show ?case
  proof (cases "attempt cr run k")
    case (Inr users)
    with Cons.prems show ?thesis
      by (auto simp: attemptsUsed_Suc retryable_def outcomeOf_def attempt_def[symmetric])
  next
    case (Inl e)
    show ?thesis
    proof (cases "transientError e")
      case False
      with Inl Cons.prems show ?thesis
        by (auto simp: attemptsUsed_Suc retryable_def outcomeOf_def attempt_def[symmetric])
    next
      case True
      obtain r' ws' where rec: "retryVisibleUsers cr run (Suc k) delays (Some e) = (r', ws')"
        by fastforce
      from Cons.IH[OF rec] Inl True Cons.prems rec show ?thesis
        by (auto simp: attemptsUsed_Suc retryable_def outcomeOf_def attempt_def[symmetric])
    qed
  qed
qed

lemma filter_take_sum:
  "list_all (\<lambda>t. (0::int) \<le> t) ts \<Longrightarrow> sum_list (filter (\<lambda>t. t > 0) (take n ts)) \<le> sum_list ts"
proof (induction ts arbitrary: n)
  case (Cons t ts)
  have "0 \<le> sum_list ts" using Cons.prems by (induction ts) auto
  with Cons show ?case by (cases n) (auto intro: order_trans)
qed simp

lemma retry_users:
  assumes "readWeComBotVisibleUsersWithRetry cr run delays = (Inr users, ws)"
  shows "\<exists>k < length delays. attempt cr run k = Inr users"
proof -
  have undo_outcome: "outcomeOf (attempt cr run j) = Inr users \<Longrightarrow> attempt cr run j = Inr users" for j
    by (auto simp: outcomeOf_def split: sum.splits)
  let ?n = "attemptsUsed cr run 0 (length delays)"
  have ref: "Inr users = (if ?n < length delays then outcomeOf (attempt cr run ?n)
      else if delays = [] then Inl None else outcomeOf (attempt cr run (length delays - 1)))"
    using retry_reference[OF assms[unfolded readWeComBotVisibleUsersWithRetry_def]] by simp
  show ?thesis
  proof (cases "?n < length delays")
    case True
    with ref undo_outcome show ?thesis by auto
  next
    case False
    with ref have "delays \<noteq> []" "attempt cr run (length delays - 1) = Inr users"
      using undo_outcome[of "length delays - 1"] by (auto split: if_split_asm)
    then show ?thesis by (intro exI[of _ "length delays - 1"]) simp
  qed
qed

text \<open>The visibility query of a fresh bot is repeated only after status 403 or 409: its outcome
  is that of the first attempt that is no such failure, or of the fifth; the waiting time before
  it is at most 10.25 seconds.\<close>

theorem retry_first_definitive:
  "let r = readWeComBotVisibleUsersWithRetry cr run WECOM_BOT_VISIBILITY_RETRY_DELAYS_MS;
       n = attemptsUsed cr run 0 5
   in fst r = outcomeOf (attempt cr run (min n 4)) \<and> sum_list (snd r) \<le> 10250
     \<and> snd r = filter (\<lambda>t. t > 0) (take (Suc n) [0, 750, 1500, 3000, 5000])"
proof -
  let ?d = WECOM_BOT_VISIBILITY_RETRY_DELAYS_MS
  obtain r ws where r: "retryVisibleUsers cr run 0 ?d None = (r, ws)" by fastforce
  have d: "?d = [0, 750, 1500, 3000, 5000]" by (simp add: WECOM_BOT_VISIBILITY_RETRY_DELAYS_MS_def)
  let ?n = "attemptsUsed cr run 0 5"
  have len: "length ?d = 5" and ne: "?d \<noteq> []" by (simp_all add: d)
  have ws: "ws = filter (\<lambda>t. t > 0) (take (Suc ?n) ?d)"
    and r5: "r = (if ?n < 5 then outcomeOf (attempt cr run ?n) else outcomeOf (attempt cr run 4))"
    using retry_reference[OF r] unfolding len by (auto simp: ne)
  have "sum_list ws \<le> 10250"
    using filter_take_sum[of ?d "Suc ?n"] unfolding ws by (simp add: d)
  moreover have "r = outcomeOf (attempt cr run (min ?n 4))"
    using r5 attemptsUsed_le[of cr run 0 5] by (cases "?n < 5") (auto simp: min_def le_less)
  ultimately show ?thesis
    using r ws unfolding Let_def readWeComBotVisibleUsersWithRetry_def d[symmetric] by simp
qed

section \<open>Actions and names\<close>

lemma personalActionIds_set:
  "i \<in> set (parseWeComBotPersonalActionIds v actions) \<longleftrightarrow>
    (\<exists>a\<in>set actions. ca_id a = i \<and> personalAction (toolNamesOf v) a)"
  by (auto simp: parseWeComBotPersonalActionIds_def)

lemma personalActionIds_safe:
  "i \<in> set (parseWeComBotPersonalActionIds v actions) \<Longrightarrow> i \<notin> set WECOM_BOT_SYSTEM_ONLY_ACTION_IDS"
  by (auto simp: personalActionIds_set personalAction_def)

lemma displayName_length:
  assumes "length (bt_ending texts) \<le> 115"
  shows "length (personalWeComBotDisplayName texts binderName connectionName) \<le> 120"
  using assms by (simp add: personalWeComBotDisplayName_def Let_def last_n_def)

section \<open>Connecting\<close>

lemma planBot_Inr:
  assumes "planBot env identity botId d = Inr plan"
  shows "bp_linked plan = botClaims identity d" "botClaims identity d \<noteq> []"
    "bp_fingerprint plan = weComBotCredentialFingerprint (be_crypto env) botId"
    "\<And>b. List.find (\<lambda>b. bi_fingerprint b = Some (bp_fingerprint plan) \<and> bi_status b \<noteq> Revoked)
      (bindings d) = Some b \<Longrightarrow> ownedBy identity b"
    "\<And>b. List.find (\<lambda>b. bi_service b = ''wecom_bot''
      \<and> bi_connection_name b = bp_connectionName plan) (bindings d) = Some b \<Longrightarrow> ownedBy identity b"
  using assms by (auto simp: planBot_def Let_def split: if_split_asm)

lemma validateBot_Inr:
  assumes "validateBot env draw plan provider botId secret = Inr (user, actionIds)"
  shows "\<exists>k users. attempt (be_crypto env) (\<lambda>k. runConnectorAction (be_oc env (CallUserlist k))
        ''wecom_bot.get_userlist'' (bd_validation draw) (JObj [])) k = Inr users
      \<and> user \<in> set users"
    "vu_userIdHash user \<in> set (map ic_userIdHash (bp_linked plan))"
    "actionIds = parseWeComBotPersonalActionIds (toolCatalogs env (bd_validation draw))
      (cp_actions provider)" "''wecom_bot.get_userlist'' \<in> set actionIds"
proof -
  let ?run = "\<lambda>k. runConnectorAction (be_oc env (CallUserlist k)) ''wecom_bot.get_userlist''
    (bd_validation draw) (JObj [])"
  let ?P = "\<lambda>u. vu_userIdHash u \<in> set (map ic_userIdHash (bp_linked plan))"
  obtain users where users: "retryFailure (fst (readWeComBotVisibleUsersWithRetry (be_crypto env) ?run
      WECOM_BOT_VISIBILITY_RETRY_DELAYS_MS)) = Inr users"
    and f: "List.find ?P users = Some user"
    and ids: "actionIds = parseWeComBotPersonalActionIds (toolCatalogs env (bd_validation draw))
      (cp_actions provider)" "''wecom_bot.get_userlist'' \<in> set actionIds"
    using assms by (auto simp: validateBot_def Let_def split: option.split_asm if_split_asm)
  obtain r ws where r: "readWeComBotVisibleUsersWithRetry (be_crypto env) ?run
      WECOM_BOT_VISIBILITY_RETRY_DELAYS_MS = (r, ws)" by fastforce
  with users have "r = Inr users" by (cases r) (auto split: option.splits elim: retryFailure.elims)
  with r retry_users obtain k where k: "attempt (be_crypto env) ?run k = Inr users" by blast
  from f have "user \<in> set users" "?P user" by (auto simp: find_Some_iff)
  with k ids show "\<exists>k users. attempt (be_crypto env) ?run k = Inr users \<and> user \<in> set users"
    "?P user" "actionIds = parseWeComBotPersonalActionIds (toolCatalogs env (bd_validation draw))
      (cp_actions provider)" "''wecom_bot.get_userlist'' \<in> set actionIds" by blast+
qed

lemma upsertBot_ok: "db_ok d \<Longrightarrow> upsertBot new d = Inr (stored, d') \<Longrightarrow> db_ok d'"
  by (auto simp: upsertBot_def split: if_split_asm)

lemma sameConnection_key:
  "sameConnection new b \<longleftrightarrow> (bi_service b, bi_connection_name b) = (bi_service new, bi_connection_name new)"
  by (auto simp: sameConnection_def)

lemma mergeBotRow_keys [simp]:
  "bi_service (mergeBotRow new b) = bi_service b"
  "bi_connection_name (mergeBotRow new b) = bi_connection_name b"
  "bi_issuer (mergeBotRow new b) = bi_issuer b" "bi_subject (mergeBotRow new b) = bi_subject b"
  "bi_status (mergeBotRow new b) = Connected" "bi_fingerprint (mergeBotRow new b) = bi_fingerprint new"
  "bi_action_ids (mergeBotRow new b) = bi_action_ids new"
  by (simp_all add: mergeBotRow_def)

lemma filter_map_outside:
  "(\<And>x. P x \<Longrightarrow> Q (f x) = Q x) \<Longrightarrow> (\<And>x. P x \<Longrightarrow> \<not> Q x) \<Longrightarrow>
    filter Q (map (\<lambda>x. if P x then f x else x) xs) = filter Q xs"
  by (induction xs) auto

lemma upsertBot_stored:
  assumes ok: "db_ok d" and up: "upsertBot new d = Inr (True, d')" and st: "bi_status new = Connected"
  shows "\<exists>b. filter (sameConnection new) (bindings d') = [b] \<and> sameOwner new b
      \<and> bi_status b = Connected \<and> bi_fingerprint b = bi_fingerprint new
      \<and> bi_action_ids b = bi_action_ids new"
    "filter (\<lambda>b. \<not> sameConnection new b) (bindings d') = filter (\<lambda>b. \<not> sameConnection new b) (bindings d)"
    "d' = d\<lparr>bindings := bindings d'\<rparr>"
proof -
  have uniq: "unique_by (\<lambda>b. (bi_service b, bi_connection_name b)) (bindings d)"
    using ok by (simp add: db_ok_def uniques_ok_def bindings_unique_def)
  show "d' = d\<lparr>bindings := bindings d'\<rparr>"
    using up by (auto simp: upsertBot_def updateBindings_def split: if_split_asm)
  let ?P = "\<lambda>b. sameConnection new b \<and> sameOwner new b"
  have both: "(\<exists>b. filter (sameConnection new) (bindings d') = [b] \<and> sameOwner new b
      \<and> bi_status b = Connected \<and> bi_fingerprint b = bi_fingerprint new
      \<and> bi_action_ids b = bi_action_ids new)
    \<and> filter (\<lambda>b. \<not> sameConnection new b) (bindings d')
      = filter (\<lambda>b. \<not> sameConnection new b) (bindings d)"
  proof (cases "list_ex (sameConnection new) (bindings d)")
    case True
    then have ex: "list_ex ?P (bindings d)"
      and d': "bindings d' = map (\<lambda>b. if ?P b then mergeBotRow new b else b) (bindings d)"
      using up by (auto simp: upsertBot_def)
    from ex obtain b where b: "b \<in> set (bindings d)" "?P b" by (auto simp: list_ex_iff)
    have "sameConnection new = (\<lambda>x. (bi_service x, bi_connection_name x)
        = (bi_service b, bi_connection_name b))"
      using b(2) by (auto simp: sameConnection_def fun_eq_iff)
    then have one: "filter (sameConnection new) (bindings d) = [b]"
      using unique_by_filter_eq[OF uniq b(1)] by simp
    have "filter (sameConnection new) (map (\<lambda>b. if ?P b then mergeBotRow new b else b) xs)
        = map (\<lambda>b. if ?P b then mergeBotRow new b else b) (filter (sameConnection new) xs)" for xs
      by (induction xs) (auto simp: sameConnection_def)
    then have "filter (sameConnection new) (bindings d') = [mergeBotRow new b]"
      using one b(2) d' by simp
    moreover have "filter (\<lambda>b. \<not> sameConnection new b) (bindings d')
        = filter (\<lambda>b. \<not> sameConnection new b) (bindings d)"
      unfolding d' by (rule filter_map_outside) (auto simp: sameConnection_def)
    ultimately show ?thesis using b(2) by (auto simp: sameOwner_def)
  next
    case False
    then have "bindings d' = bindings d @ [new]" using up by (auto simp: upsertBot_def)
    moreover have "filter (sameConnection new) (bindings d) = []"
      using False by (auto simp: filter_empty_conv list_ex_iff)
    ultimately show ?thesis using st by (auto simp: sameConnection_def sameOwner_def)
  qed
  then show "\<exists>b. filter (sameConnection new) (bindings d') = [b] \<and> sameOwner new b
      \<and> bi_status b = Connected \<and> bi_fingerprint b = bi_fingerprint new
      \<and> bi_action_ids b = bi_action_ids new"
    "filter (\<lambda>b. \<not> sameConnection new b) (bindings d') = filter (\<lambda>b. \<not> sameConnection new b) (bindings d)"
    by blast+
qed

text \<open>A successful run, taken apart.\<close>

lemma connect_Inr:
  assumes "connectEmployeeWeComBot env identity draw botId secret d = (Inr name, effects, d')"
  obtains plan provider snapshot user actionIds connection where
    "planBot env identity botId d = Inr plan" "botCatalog env = Inr (provider, snapshot)"
    "validateBot env draw plan provider botId secret = Inr (user, actionIds)"
    "saveBot (be_oc env CallSave) ''bot_connection_failed'' (bp_connectionName plan) botId secret
      = Inr connection"
    "upsertBot (newBotRow env identity draw plan user actionIds connection) d = Inr (True, d')"
    "name = bp_connectionName plan"
    "effects = [SaveIssued (bd_validation draw), SaveIssued name, DeleteIssued (bd_validation draw)]"
proof -
  obtain plan provider snapshot where p: "planBot env identity botId d = Inr plan"
    and c: "botCatalog env = Inr (provider, snapshot)"
    using assms unfolding connectEmployeeWeComBot_def
    by (cases "planBot env identity botId d"; cases "botCatalog env") auto
  obtain r saved d1 where a: "connectAttempt env identity draw plan provider botId secret d = (r, saved, d1)"
    by (cases "connectAttempt env identity draw plan provider botId secret d") auto
  with assms p c have r: "r = Inr name" "d1 = d'"
    and e: "effects = savesIssued env draw plan provider botId secret @ [DeleteIssued (bd_validation draw)]"
    by (auto simp: connectEmployeeWeComBot_def Let_def split: sum.split_asm)
  obtain user actionIds where v: "validateBot env draw plan provider botId secret = Inr (user, actionIds)"
    using a r by (cases "validateBot env draw plan provider botId secret")
      (auto simp: connectAttempt_def)
  obtain connection where s: "saveBot (be_oc env CallSave) ''bot_connection_failed''
      (bp_connectionName plan) botId secret = Inr connection"
    using a r v by (auto simp: connectAttempt_def split: sum.split_asm)
  have u: "upsertBot (newBotRow env identity draw plan user actionIds connection) d = Inr (True, d')"
    and n: "name = bp_connectionName plan"
    using a r v s by (auto simp: connectAttempt_def split: sum.split_asm if_split_asm)
  have "is_ok (bootstrapWeComBotQrCredential (be_qr env) botId secret (nat (bd_now draw))
      (bd_nonceUuid draw))"
    using v by (cases "bootstrapWeComBotQrCredential (be_qr env) botId secret (nat (bd_now draw))
      (bd_nonceUuid draw)") (auto simp: validateBot_def)
  with e v n have "effects = [SaveIssued (bd_validation draw), SaveIssued name,
      DeleteIssued (bd_validation draw)]"
    by (simp add: savesIssued_def)
  with that p c v s u n show ?thesis by blast
qed

lemma connect_Inl:
  assumes "db_ok d" "connectEmployeeWeComBot env identity draw botId secret d = (Inl e, effects, d')"
  shows "d' = d"
proof -
  have "upsertBot new d = Inr (False, d'') \<Longrightarrow> d'' = d" for new d''
  proof -
    assume u: "upsertBot new d = Inr (False, d'')"
    then have "\<not> list_ex (\<lambda>b. sameConnection new b \<and> sameOwner new b) (bindings d)"
      and d'': "d'' = updateBindings (\<lambda>b. sameConnection new b \<and> sameOwner new b) (mergeBotRow new) d"
      by (auto simp: upsertBot_def split: if_split_asm)
    then have "map (\<lambda>b. if sameConnection new b \<and> sameOwner new b then mergeBotRow new b else b)
        (bindings d) = bindings d"
      by (intro map_idI) (auto simp: list_ex_iff)
    with d'' show "d'' = d" by (simp add: updateBindings_def)
  qed
  then have "connectAttempt env identity draw plan provider botId secret d = (Inl e', saved, d'')
      \<Longrightarrow> d'' = d" for plan provider e' saved d''
    by (auto simp: connectAttempt_def split: sum.split_asm prod.split_asm if_split_asm)
  then show ?thesis
    using assms(2) unfolding connectEmployeeWeComBot_def
    by (auto simp: Let_def split: sum.split_asm prod.split_asm)
qed

definition botRowsOf :: "string \<Rightarrow> db \<Rightarrow> bindingRow list" where
  "botRowsOf name d = filter (\<lambda>b. bi_service b = ''wecom_bot'' \<and> bi_connection_name b = name) (bindings d)"

definition otherRows :: "string \<Rightarrow> db \<Rightarrow> bindingRow list" where
  "otherRows name d = filter (\<lambda>b. \<not> (bi_service b = ''wecom_bot'' \<and> bi_connection_name b = name)) (bindings d)"

definition readOnlyActions :: "json option \<Rightarrow> bool" where
  "readOnlyActions v \<longleftrightarrow> (\<exists>ids. v = Some (JArr (map JStr ids))
     \<and> ''wecom_bot.get_userlist'' \<in> set ids
     \<and> list_all (\<lambda>i. i \<notin> set WECOM_BOT_SYSTEM_ONLY_ACTION_IDS) ids)"

lemma sameConnection_new:
  "sameConnection (newBotRow env identity draw plan user actionIds connection)
    = (\<lambda>b. bi_service b = ''wecom_bot'' \<and> bi_connection_name b = bp_connectionName plan)"
  by (auto simp: sameConnection_def newBotRow_def fun_eq_iff)

lemma bot_connect_facts:
  assumes "db_ok d" "connectEmployeeWeComBot env identity draw botId secret d = (Inr name, effects, d')"
  shows "(\<exists>k payload users. runConnectorAction (be_oc env (CallUserlist k)) ''wecom_bot.get_userlist''
        (bd_validation draw) (JObj []) = Inr payload
      \<and> parseWeComVisibleUsers (be_crypto env) payload = Inr users
      \<and> set (map ic_userIdHash (botClaims identity d)) \<inter> set (map vu_userIdHash users) \<noteq> {})"
    and "list_all (\<lambda>b. bi_fingerprint b = Some (weComBotCredentialFingerprint (be_crypto env) botId)
        \<and> bi_status b \<noteq> Revoked \<longrightarrow> ownedBy identity b) (bindings d)"
    and "\<exists>b. botRowsOf name d' = [b] \<and> ownedBy identity b \<and> bi_status b = Connected
        \<and> bi_fingerprint b = Some (weComBotCredentialFingerprint (be_crypto env) botId)
        \<and> readOnlyActions (bi_action_ids b)"
    and "otherRows name d' = otherRows name d \<and> d' = d\<lparr>bindings := bindings d'\<rparr> \<and> db_ok d'"
    and "effects = [SaveIssued (bd_validation draw), SaveIssued name, DeleteIssued (bd_validation draw)]"
proof -
  from assms(2) obtain plan provider snapshot user actionIds connection where
    p: "planBot env identity botId d = Inr plan" and
    v: "validateBot env draw plan provider botId secret = Inr (user, actionIds)" and
    u: "upsertBot (newBotRow env identity draw plan user actionIds connection) d = Inr (True, d')" and
    n: "name = bp_connectionName plan" and
    e: "effects = [SaveIssued (bd_validation draw), SaveIssued name, DeleteIssued (bd_validation draw)]"
    by (rule connect_Inr)
  let ?fp = "weComBotCredentialFingerprint (be_crypto env) botId"
  let ?new = "newBotRow env identity draw plan user actionIds connection"
  note plan = planBot_Inr[OF p] and val = validateBot_Inr[OF v]
  show "\<exists>k payload users. runConnectorAction (be_oc env (CallUserlist k)) ''wecom_bot.get_userlist''
        (bd_validation draw) (JObj []) = Inr payload
      \<and> parseWeComVisibleUsers (be_crypto env) payload = Inr users
      \<and> set (map ic_userIdHash (botClaims identity d)) \<inter> set (map vu_userIdHash users) \<noteq> {}"
  proof -
    from val(1) obtain k users payload where "runConnectorAction (be_oc env (CallUserlist k))
        ''wecom_bot.get_userlist'' (bd_validation draw) (JObj []) = Inr payload"
      and "parseWeComVisibleUsers (be_crypto env) payload = Inr users" and user: "user \<in> set users"
      unfolding attempt_def by auto
    moreover have "vu_userIdHash user \<in> set (map ic_userIdHash (botClaims identity d))"
      using val(2) plan(1) by simp
    with user have "set (map ic_userIdHash (botClaims identity d)) \<inter> set (map vu_userIdHash users) \<noteq> {}"
      by auto
    ultimately show ?thesis by blast
  qed
  have uniq: "unique_by bi_fingerprint
      (filter (\<lambda>b. bi_fingerprint b \<noteq> None \<and> bi_status b \<noteq> Revoked) (bindings d))"
    using assms(1) by (simp add: db_ok_def uniques_ok_def bindings_unique_def)
  show "list_all (\<lambda>b. bi_fingerprint b = Some ?fp \<and> bi_status b \<noteq> Revoked \<longrightarrow> ownedBy identity b) (bindings d)"
  proof (clarsimp simp: list_all_iff)
    fix b assume b: "b \<in> set (bindings d)" "bi_fingerprint b = Some ?fp" "bi_status b \<noteq> Revoked"
    let ?P = "\<lambda>b. bi_fingerprint b = Some ?fp \<and> bi_status b \<noteq> Revoked"
    from b obtain c where c: "List.find ?P (bindings d) = Some c"
      by (cases "List.find ?P (bindings d)") (auto simp: find_None_iff)
    then have "c \<in> set (bindings d)" "?P c" by (auto simp: find_Some_iff)
    then have "b = c" using unique_by_eq[OF uniq, of b c] b by simp
    with plan(4)[of c] c plan(3) show "ownedBy identity b" by simp
  qed
  have new: "bi_status ?new = Connected" "bi_fingerprint ?new = Some ?fp"
    "bi_action_ids ?new = Some (JArr (map JStr actionIds))"
    "sameOwner ?new = ownedBy identity"
    using plan(3) by (auto simp: newBotRow_def sameOwner_def ownedBy_def fun_eq_iff)
  have "readOnlyActions (Some (JArr (map JStr actionIds)))"
    using val(3,4) personalActionIds_safe unfolding readOnlyActions_def list_all_iff by blast
  moreover obtain b where "filter (sameConnection ?new) (bindings d') = [b]" "sameOwner ?new b"
    "bi_status b = Connected" "bi_fingerprint b = bi_fingerprint ?new"
    "bi_action_ids b = bi_action_ids ?new"
    using upsertBot_stored(1)[OF assms(1) u new(1)] by blast
  ultimately show "\<exists>b. botRowsOf name d' = [b] \<and> ownedBy identity b \<and> bi_status b = Connected
      \<and> bi_fingerprint b = Some ?fp \<and> readOnlyActions (bi_action_ids b)"
    unfolding new sameConnection_new botRowsOf_def n by (intro exI[of _ b]) simp
  show "otherRows name d' = otherRows name d \<and> d' = d\<lparr>bindings := bindings d'\<rparr> \<and> db_ok d'"
    using upsertBot_stored(2,3)[OF assms(1) u new(1)] upsertBot_ok[OF assms(1) u] n
    unfolding sameConnection_new otherRows_def by blast
  show "effects = [SaveIssued (bd_validation draw), SaveIssued name, DeleteIssued (bd_validation draw)]"
    by (fact e)
qed


definition demo_bot_json :: "bool \<Rightarrow> ocRequest \<Rightarrow> json" where
  "demo_bot_json ready r =
    (if rq_path r = ''api/providers/wecom_bot'' then JObj [(''service'', JStr ''wecom_bot''),
       (''displayName'', JStr ''Bot''), (''actions'', JArr [JObj [(''id'', JStr ''wecom_bot.get_userlist'')],
         JObj [(''id'', JStr ''wecom_bot.send_text_message'')]])]
     else if rq_path r = ''api/connections'' then JArr []
     else if rq_path r = ''api/connections/wecom_bot'' then JObj [(''service'', JStr ''wecom_bot''),
       (''authType'', JStr ''custom_credential''), (''configured'', JBool ready)]
     else JObj [(''success'', JBool True), (''data'', JObj [(''errcode'', JNum (Fin 0)),
       (''userlist'', JArr [JObj [(''userid'', JStr ''u'')]])])])"

definition demo_bot_oc :: "bool \<Rightarrow> ocEnv" where
  "demo_bot_oc ready = \<lparr>env_adminToken = Some ''t'', env_runtimeToken = Some ''t'',
     env_fetch = (\<lambda>r. Some (200, demo_bot_json ready r)), env_collate = str_le\<rparr>"

definition demo_bot_env :: "bool \<Rightarrow> botEnv" where
  "demo_bot_env ready = \<lparr>be_oc = (\<lambda>c. demo_bot_oc (c \<noteq> CallSave \<or> ready)), be_qr = demo_qr,
     be_crypto = demo_crypto, be_texts = \<lparr>bt_ending = ''bot '', bt_currentUser = ''user''\<rparr>\<rparr>"

definition demo_draw :: botDraw where
  "demo_draw = \<lparr>bd_bindingId = ''b'', bd_validation = ''tmp'', bd_nonceUuid = ''u'', bd_now = 9\<rparr>"

definition demo_plan :: botPlan where
  "demo_plan = \<lparr>bp_linked = botClaims (demo_person ''p'') demo_linked, bp_fingerprint = demo_digest,
     bp_connectionName = ''usr_'' @ take 40 demo_digest\<rparr>"

lemma demo_claims: "map ic_userIdHash (botClaims (demo_person ''p'') demo_linked) = [demo_digest]"
  by (simp add: botClaims_def getLinkedWeComIdentityClaims_def ownLink_def demo_db_simps)

lemma demo_planned: "planBot (demo_bot_env r) (demo_person ''p'') ''bot-1'' demo_linked = Inr demo_plan"
proof -
  have "botClaims (demo_person ''p'') demo_linked \<noteq> []" using demo_claims by auto
  moreover have "bindings demo_linked = []" by (simp add: demo_db_simps)
  ultimately show ?thesis
    by (simp add: planBot_def Let_def demo_plan_def weComBotCredentialFingerprint_def
        employeeConnectionName_def demo_bot_env_def)
qed

definition demo_action :: "string \<Rightarrow> string \<Rightarrow> connectorActionDefinition" where
  "demo_action i n = \<lparr>ca_id = i, ca_name = n,
     ca_description = None, ca_requiredScopes = [], ca_providerPermissions = [],
     ca_inputSchema = None, ca_outputSchema = None, ca_execution = None\<rparr>"

definition demo_bot_provider :: connectorProviderDetail where
  "demo_bot_provider = \<lparr>cp_service = ''wecom_bot'', cp_displayName = ''Bot'', cp_description = None,
     cp_categories = [], cp_authTypes = [], cp_iconUrl = None, cp_actionCount = 2, cp_auth = [],
     cp_actions = [demo_action ''wecom_bot.get_userlist'' ''get_userlist'',
       demo_action ''wecom_bot.send_text_message'' ''send_text_message'']\<rparr>"

lemma demo_catalog: "botCatalog (demo_bot_env r) = Inr (demo_bot_provider, [])"
proof -
  have "getConnectorProvider (demo_bot_oc True) ''wecom_bot'' = Inr demo_bot_provider"
    "listConnectorConnections (demo_bot_oc True) = Inr []" by code_simp+
  then show ?thesis by (simp add: botCatalog_def demo_bot_env_def)
qed

lemma demo_userlist:
  "attempt demo_crypto (\<lambda>k. runConnectorAction (demo_bot_oc True) ''wecom_bot.get_userlist'' ''tmp'' (JObj [])) k
    = Inr [\<lparr>vu_userIdHash = demo_digest, vu_name = None\<rparr>]"
proof -
  have "runConnectorAction (demo_bot_oc True) ''wecom_bot.get_userlist'' ''tmp'' (JObj [])
      = Inr (JObj [(''errcode'', JNum (Fin 0)), (''userlist'', JArr [JObj [(''userid'', JStr ''u'')]])])"
    by code_simp
  then show ?thesis by (simp add: attempt_def parseWeComVisibleUsers_def map_filter_def)
qed

lemma demo_bootstrap:
  "is_ok (bootstrapWeComBotQrCredential demo_qr ''bot-1'' ''s'' (nat 9) ''u'')"
  by code_simp

lemma demo_saves:
  "saveBot (demo_bot_oc True) tag ''tmp'' ''bot-1'' ''s'' = Inr \<lparr>cc_id = ''wecom_bot:default'',
     cc_service = ''wecom_bot'', cc_connectionName = ''default'', cc_authType = CustomCredential,
     cc_accessMode = AccessGlobal, cc_configured = True, cc_virtual = False, cc_default = False,
     cc_accountId = ''wecom_bot:default'', cc_displayName = ''default'', cc_grantedScopes = [],
     cc_localAccount = None, cc_sharedAccess = None\<rparr>"
  by code_simp

lemma demo_actions:
  "parseWeComBotPersonalActionIds (toolCatalogs (demo_bot_env r) ''tmp'') (cp_actions demo_bot_provider)
    = [''wecom_bot.get_userlist'']"
proof -
  have "toolCatalogs (demo_bot_env r) ''tmp'' = toolCatalogs (demo_bot_env True) ''tmp''"
    by (simp add: toolCatalogs_def demo_bot_env_def)
  moreover have "parseWeComBotPersonalActionIds (toolCatalogs (demo_bot_env True) ''tmp'')
      (cp_actions demo_bot_provider) = [''wecom_bot.get_userlist'']" by code_simp
  ultimately show ?thesis by simp
qed

lemma demo_validate:
  "validateBot (demo_bot_env r) demo_draw demo_plan demo_bot_provider ''bot-1'' ''s''
    = Inr (\<lparr>vu_userIdHash = demo_digest, vu_name = None\<rparr>, [''wecom_bot.get_userlist''])"
  using demo_bootstrap demo_saves[of "''bot_validation_failed''"] demo_userlist[of 0]
    demo_claims demo_actions[of r]
  by (auto simp: validateBot_def is_ok_iff demo_bot_env_def demo_draw_def demo_plan_def
      readWeComBotVisibleUsersWithRetry_def WECOM_BOT_VISIBILITY_RETRY_DELAYS_MS_def attempt_def Let_def)

lemma demo_name_ne: "bp_connectionName demo_plan \<noteq> ''tmp''"
  by (simp add: demo_plan_def)

lemma demo_save_name:
  "saveBot (demo_bot_oc True) tag name ''bot-1'' ''s'' = saveBot (demo_bot_oc True) tag ''tmp'' ''bot-1'' ''s''"
  by (simp add: saveBot_def saveConnectorConnection_def requestOpenConnector_def demo_bot_oc_def
      demo_bot_json_def adminToken_def assertService_def)

lemma demo_upsert:
  "upsertBot (newBotRow (demo_bot_env True) (demo_person ''p'') demo_draw demo_plan
     user ids connection) demo_linked
    = Inr (True, demo_linked\<lparr>bindings := [newBotRow (demo_bot_env True) (demo_person ''p'') demo_draw
        demo_plan user ids connection]\<rparr>)"
proof -
  have "bindings demo_linked = []" by (simp add: demo_db_simps)
  moreover have "db_ok (demo_linked\<lparr>bindings := [newBotRow (demo_bot_env True) (demo_person ''p'')
      demo_draw demo_plan user ids connection]\<rparr>)"
    using demo_dbs_ok(3)
    by (simp add: db_ok_defs table_uniques bindings_check_def newBotRow_def ref_ok_def demo_plan_def)
  ultimately show ?thesis by (simp add: upsertBot_def)
qed

lemma demo_connected:
  obtains d' where "connectEmployeeWeComBot (demo_bot_env True) (demo_person ''p'') demo_draw
      ''bot-1'' ''s'' demo_linked
    = (Inr (bp_connectionName demo_plan), [SaveIssued ''tmp'', SaveIssued (bp_connectionName demo_plan),
        DeleteIssued ''tmp''], d')"
proof -
  have "is_ok (bootstrapWeComBotQrCredential demo_qr ''bot-1'' ''s'' 9 ''u'')"
    using demo_bootstrap by simp
  then have "savesIssued (demo_bot_env True) demo_draw demo_plan demo_bot_provider ''bot-1'' ''s''
      = [SaveIssued ''tmp'', SaveIssued (bp_connectionName demo_plan)]"
    unfolding savesIssued_def demo_validate by (simp add: demo_draw_def demo_bot_env_def)
  moreover have "be_oc (demo_bot_env True) CallSave = demo_bot_oc True" by (simp add: demo_bot_env_def)
  ultimately show ?thesis
    using that
    by (simp add: connectEmployeeWeComBot_def demo_planned demo_catalog Let_def connectAttempt_def
        demo_validate demo_save_name[of _ "bp_connectionName demo_plan"] demo_saves demo_upsert)
      (simp add: demo_draw_def)
qed


section \<open>What a failed connection leaves behind\<close>

lemma unconfigured_run:
  assumes "planBot env identity botId d = Inr plan" "botCatalog env = Inr (provider, snapshot)"
    "validateBot env draw plan provider botId secret = Inr (user, ids)"
    "saveConnectorConnection (be_oc env CallSave) ''wecom_bot''
       (botCredential (bp_connectionName plan) botId secret) = Inr (Some c)" "\<not> cc_configured c"
    "bp_connectionName plan \<noteq> bd_validation draw"
  shows "\<exists>effects. connectEmployeeWeComBot env identity draw botId secret d
      = (Inl (storeError (StoreMsg ''bot_connection_failed'') 502), effects, d)
    \<and> SaveIssued (bp_connectionName plan) \<in> set effects
    \<and> DeleteIssued (bp_connectionName plan) \<notin> set effects"
  using assms
  by (simp add: connectEmployeeWeComBot_def Let_def connectAttempt_def saveBot_def savesIssued_def
      storeError_def)

lemma demo_unconfigured_save:
  obtains c where "saveConnectorConnection (be_oc (demo_bot_env False) CallSave) ''wecom_bot''
       (botCredential (bp_connectionName demo_plan) ''bot-1'' ''s'') = Inr (Some c)" "\<not> cc_configured c"
proof -
  let ?ok = "\<lambda>r. case r of Inl e \<Rightarrow> False | Inr c \<Rightarrow> (case c of None \<Rightarrow> False | Some c \<Rightarrow> \<not> cc_configured c)"
  have "saveConnectorConnection (demo_bot_oc False) ''wecom_bot'' v
      = saveConnectorConnection (demo_bot_oc False) ''wecom_bot'' JUndef" for v
    by (simp add: saveConnectorConnection_def requestOpenConnector_def demo_bot_oc_def
      demo_bot_json_def adminToken_def assertService_def)
  moreover have "?ok (saveConnectorConnection (demo_bot_oc False) ''wecom_bot'' JUndef)" by code_simp
  ultimately show ?thesis
    using that by (auto simp: demo_bot_env_def split: sum.split_asm option.split_asm)
qed

lemma demo_unconfigured:
  obtains e where "connectEmployeeWeComBot (demo_bot_env False) (demo_person ''p'') demo_draw
      ''bot-1'' ''s'' demo_linked = (Inl e, [SaveIssued ''tmp'', SaveIssued (bp_connectionName demo_plan),
        DeleteIssued ''tmp''], demo_linked)"
proof -
  obtain c where "saveConnectorConnection (be_oc (demo_bot_env False) CallSave) ''wecom_bot''
       (botCredential (bp_connectionName demo_plan) ''bot-1'' ''s'') = Inr (Some c)" "\<not> cc_configured c"
    by (rule demo_unconfigured_save)
  then have "saveBot (be_oc (demo_bot_env False) CallSave) ''bot_connection_failed''
      (bp_connectionName demo_plan) ''bot-1'' ''s'' = Inl (storeError (StoreMsg ''bot_connection_failed'') 502)"
    by (simp add: saveBot_def)
  moreover have "is_ok (bootstrapWeComBotQrCredential demo_qr ''bot-1'' ''s'' 9 ''u'')"
    using demo_bootstrap by simp
  then have "savesIssued (demo_bot_env False) demo_draw demo_plan demo_bot_provider ''bot-1'' ''s''
      = [SaveIssued ''tmp'', SaveIssued (bp_connectionName demo_plan)]"
    unfolding savesIssued_def demo_validate by (simp add: demo_draw_def demo_bot_env_def)
  ultimately show ?thesis
    using that
    by (simp add: connectEmployeeWeComBot_def demo_planned demo_catalog Let_def connectAttempt_def
        demo_validate) (simp add: demo_draw_def)
qed

text \<open>C20: A failed attempt changes no row and always deletes the validation connection once anything
  was issued; the bot's own connection is deleted when it was saved by this attempt, answered as
  configured and did not exist before.\<close>

theorem bot_connect_failure:
  assumes "db_ok d" "connectEmployeeWeComBot env identity draw botId secret d = (Inl e, effects, d')"
  shows "d' = d \<and> (effects = [] \<or> last effects = DeleteIssued (bd_validation draw))
    \<and> (\<forall>plan provider snapshot c. planBot env identity botId d = Inr plan
        \<and> botCatalog env = Inr (provider, snapshot)
        \<and> is_ok (validateBot env draw plan provider botId secret)
        \<and> saveConnectorConnection (be_oc env CallSave) ''wecom_bot''
            (botCredential (bp_connectionName plan) botId secret) = Inr (Some c)
        \<and> cc_configured c
        \<and> \<not> list_ex (\<lambda>c. cc_service c = ''wecom_bot'' \<and> cc_connectionName c = bp_connectionName plan)
            snapshot
        \<longrightarrow> DeleteIssued (bp_connectionName plan) \<in> set effects)"
proof (intro conjI allI impI)
  show "d' = d" using connect_Inl[OF assms] .
  show "effects = [] \<or> last effects = DeleteIssued (bd_validation draw)"
    using assms(2) unfolding connectEmployeeWeComBot_def
    by (auto simp: Let_def split: sum.split_asm prod.split_asm)
  fix plan provider snapshot c
  assume a: "planBot env identity botId d = Inr plan
        \<and> botCatalog env = Inr (provider, snapshot)
        \<and> is_ok (validateBot env draw plan provider botId secret)
        \<and> saveConnectorConnection (be_oc env CallSave) ''wecom_bot''
            (botCredential (bp_connectionName plan) botId secret) = Inr (Some c)
        \<and> cc_configured c
        \<and> \<not> list_ex (\<lambda>c. cc_service c = ''wecom_bot'' \<and> cc_connectionName c = bp_connectionName plan)
            snapshot"
  then obtain user ids where v: "validateBot env draw plan provider botId secret = Inr (user, ids)"
    by (auto simp: is_ok_iff)
  obtain r saved d1 where t: "connectAttempt env identity draw plan provider botId secret d = (r, saved, d1)"
    by (cases "connectAttempt env identity draw plan provider botId secret d") auto
  have "saved" using t v a
    by (auto simp: connectAttempt_def saveBot_def split: sum.split_asm prod.split_asm if_split_asm)
  with a t assms(2) show "DeleteIssued (bp_connectionName plan) \<in> set effects"
    unfolding connectEmployeeWeComBot_def
    by (auto simp: Let_def split: sum.split_asm)
qed

theorem bot_connect_failure_witness:
  "\<exists>effects. last effects = DeleteIssued ''tmp'' \<and> DeleteIssued (bp_connectionName demo_plan) \<notin> set effects
     \<and> SaveIssued (bp_connectionName demo_plan) \<in> set effects"
proof -
  obtain e where c: "connectEmployeeWeComBot (demo_bot_env False) (demo_person ''p'') demo_draw
      ''bot-1'' ''s'' demo_linked = (Inl e, [SaveIssued ''tmp'', SaveIssued (bp_connectionName demo_plan),
        DeleteIssued ''tmp''], demo_linked)"
    by (rule demo_unconfigured)
  from bot_connect_failure[OF demo_dbs_ok(3) c] demo_name_ne show ?thesis
    by (intro exI[of _ "[SaveIssued ''tmp'', SaveIssued (bp_connectionName demo_plan),
        DeleteIssued ''tmp'']"]) (simp add: demo_draw_def)
qed

text \<open>A save that OpenConnector answers without the configured mark is not counted as saved: the
  attempt fails with status 502 and issues no deletion of the connection it has just written.\<close>

theorem unconfigured_bot_left_behind:
  assumes "planBot env identity botId d = Inr plan" "botCatalog env = Inr (provider, snapshot)"
    "validateBot env draw plan provider botId secret = Inr (user, ids)"
    "saveConnectorConnection (be_oc env CallSave) ''wecom_bot''
       (botCredential (bp_connectionName plan) botId secret) = Inr (Some c)" "\<not> cc_configured c"
    "bp_connectionName plan \<noteq> bd_validation draw"
  shows "\<exists>effects. connectEmployeeWeComBot env identity draw botId secret d
      = (Inl (storeError (StoreMsg ''bot_connection_failed'') 502), effects, d)
    \<and> SaveIssued (bp_connectionName plan) \<in> set effects
    \<and> DeleteIssued (bp_connectionName plan) \<notin> set effects"
  using unconfigured_run[OF assms] .

theorem unconfigured_bot_left_behind_witness:
  "\<exists>effects. SaveIssued (bp_connectionName demo_plan) \<in> set effects
    \<and> DeleteIssued (bp_connectionName demo_plan) \<notin> set effects"
proof -
  obtain c where "saveConnectorConnection (be_oc (demo_bot_env False) CallSave) ''wecom_bot''
       (botCredential (bp_connectionName demo_plan) ''bot-1'' ''s'') = Inr (Some c)" "\<not> cc_configured c"
    by (rule demo_unconfigured_save)
  from unconfigured_bot_left_behind[OF demo_planned demo_catalog demo_validate this] demo_name_ne
  show ?thesis by (auto simp: demo_draw_def)
qed

section \<open>Renaming and removing\<close>

lemma personalBot_update:
  assumes "\<And>b. P b \<Longrightarrow> personalBot identity name b" "\<And>b. P b \<Longrightarrow> personalBot identity name (f b)"
  shows "filter (\<lambda>b. \<not> personalBot identity name b) (bindings (updateBindings P f d))
    = filter (\<lambda>b. \<not> personalBot identity name b) (bindings d)"
  unfolding updateBindings_bindings by (rule filter_map_outside) (use assms in auto)

lemma rename_keeps_ok:
  "db_ok d \<Longrightarrow> db_ok (snd (renameEmployeeWeComBot identity connectionName displayName now d))"
  by (auto simp: renameEmployeeWeComBot_def Let_def keepsKeys_def intro!: db_ok_updateBindings)

lemma disconnect_bot_keeps_ok:
  "db_ok d \<Longrightarrow> db_ok (snd (disconnectEmployeeWeComBot oc identity connectionName now d))"
  by (auto simp: disconnectEmployeeWeComBot_def Let_def keepsKeys_def intro!: db_ok_updateBindings
      split: option.split sum.split)

interpretation rename_bot: atomic_handler
  "\<lambda>(identity, connectionName, displayName, now).
     renameEmployeeWeComBot identity connectionName displayName now"
  using rename_keeps_ok
  by unfold_locales (auto simp: renameEmployeeWeComBot_def Let_def split: if_split_asm)

interpretation disconnect_bot: atomic_handler
  "\<lambda>(oc, identity, connectionName, now). disconnectEmployeeWeComBot oc identity connectionName now"
  using disconnect_bot_keeps_ok
  by unfold_locales
    (auto simp: disconnectEmployeeWeComBot_def Let_def split: if_split_asm option.split_asm sum.split_asm)

lemma find_unique_key:
  assumes "unique_by key rows" "List.find P rows = Some r" "s \<in> set rows" "key s = key r"
  shows "s = r \<and> P s"
proof -
  have "r \<in> set rows" "P r" using assms(2) by (auto simp: find_Some_iff)
  with unique_by_eq[OF assms(1,3), of r] assms(4) show ?thesis by simp
qed

text \<open>Renaming and removing a personal bot reach only the caller's own bot of that name: every
  other row keeps its place and content; a failed call changes nothing; after a successful removal
  no unrevoked personal bot of the caller has the name.\<close>

theorem bot_rows_owner_only:
  assumes "db_ok d"
  shows "filter (\<lambda>b. \<not> personalBot identity (js_trim name) b)
        (bindings (snd (renameEmployeeWeComBot identity name label now d)))
      = filter (\<lambda>b. \<not> personalBot identity (js_trim name) b) (bindings d)
    \<and> filter (\<lambda>b. \<not> personalBot identity (js_trim name) b)
        (bindings (snd (disconnectEmployeeWeComBot oc identity name now d)))
      = filter (\<lambda>b. \<not> personalBot identity (js_trim name) b) (bindings d)
    \<and> (is_ok (fst (disconnectEmployeeWeComBot oc identity name now d)) \<longrightarrow>
        list_all (\<lambda>b. personalBot identity (js_trim name) b \<longrightarrow> bi_status b = Revoked)
          (bindings (snd (disconnectEmployeeWeComBot oc identity name now d))))"
proof -
  have ren: "filter (\<lambda>b. \<not> personalBot identity (js_trim name) b)
        (bindings (snd (renameEmployeeWeComBot identity name label now d)))
      = filter (\<lambda>b. \<not> personalBot identity (js_trim name) b) (bindings d)"
    unfolding renameEmployeeWeComBot_def Let_def
    by (simp del: updateBindings_bindings add: personalBot_update)
      (intro impI personalBot_update, auto simp: personalBot_def ownedBy_def)
  let ?P = "\<lambda>b. personalBot identity (js_trim name) b \<and> bi_status b \<noteq> Revoked"
  show ?thesis
  proof (cases "valid_connection_name (js_trim name)")
    case False
    with ren show ?thesis by (simp add: disconnectEmployeeWeComBot_def)
  next
    case valid: True
    show ?thesis
    proof (cases "List.find ?P (bindings d)")
      case None
      with ren valid show ?thesis by (simp add: disconnectEmployeeWeComBot_def)
    next
      case (Some r)
      let ?R = "\<lambda>b. bi_id b = bi_id r \<and> ownedBy identity b \<and> bi_status b \<noteq> Revoked"
      let ?f = "\<lambda>b. b\<lparr>bi_status := Revoked, bi_error_message := MsgNone, bi_updated_at := now\<rparr>"
      have u: "unique_by bi_id (bindings d)"
        and k: "unique_by (\<lambda>b. (bi_service b, bi_connection_name b)) (bindings d)"
        using assms by (simp_all add: db_ok_def uniques_ok_def bindings_unique_def)
      have r: "r \<in> set (bindings d)" "?P r" using Some by (auto simp: find_Some_iff)
      have R: "?R b \<longleftrightarrow> b = r" if "b \<in> set (bindings d)" for b
        using unique_by_eq[OF u that r(1)] r(2) by (auto simp: personalBot_def)
      have P: "?P b \<longleftrightarrow> b = r" if "b \<in> set (bindings d)" for b
        using unique_by_eq[OF k that r(1)] r(2) by (auto simp: personalBot_def)
      have rows: "map (\<lambda>b. if ?R b then ?f b else b) (bindings d)
          = map (\<lambda>b. if b = r then ?f b else b) (bindings d)"
        using R by (intro map_cong) auto
      have keep: "filter (\<lambda>b. \<not> personalBot identity (js_trim name) b)
          (map (\<lambda>b. if b = r then ?f b else b) (bindings d))
          = filter (\<lambda>b. \<not> personalBot identity (js_trim name) b) (bindings d)"
        by (rule filter_map_outside) (use r(2) in \<open>auto simp: personalBot_def ownedBy_def\<close>)
      have gone: "list_all (\<lambda>b. personalBot identity (js_trim name) b \<longrightarrow> bi_status b = Revoked)
          (map (\<lambda>b. if b = r then ?f b else b) (bindings d))"
        using P by (auto simp: list_all_iff)
      from ren valid Some keep gone show ?thesis
        by (auto simp: disconnectEmployeeWeComBot_def Let_def rows split: sum.split)
    qed
  qed
qed

theorem bot_rows_owner_only_witness:
  "snd (renameEmployeeWeComBot (demo_person ''p'') ''c'' (JStr ''n'') 1 demo_linked) = demo_linked
   \<and> filter (\<lambda>b. \<not> personalBot (demo_person ''p'') (js_trim ''c'') b)
        (bindings (snd (disconnectEmployeeWeComBot (demo_bot_oc True) (demo_person ''p'') ''c'' 1 demo_linked)))
      = filter (\<lambda>b. \<not> personalBot (demo_person ''p'') (js_trim ''c'') b) (bindings demo_linked)"
  using bot_rows_owner_only[OF demo_dbs_ok(3), of "demo_person ''p''" "''c''" "JStr ''n''" 1
      "demo_bot_oc True"]
  by (simp add: renameEmployeeWeComBot_def Let_def) (simp add: demo_db_simps)

end
