(* ===== verification/Connector_Access.thy ===== *)
theory Connector_Access
  imports Resolver
begin

text \<open>
  Controlled sharing of connections (src/ai-console/src/lib/server/connector-access.ts) and the
  routes that drive it (app/api/connector-access/shared-resources, app/api/open-connector/
  connections/[service], open-connector-route.ts): validation of a shared resource and of its
  grants, their replacement in one transaction, deletion, and the snapshot administrators read.
  The Date parser, the input syntax of the UUID type and the collation are parameters.
\<close>

definition MAX_GRANTS :: nat where "MAX_GRANTS = 500"
definition MAX_ACTIONS :: nat where "MAX_ACTIONS = 1000"

definition hardDeniedConnectorActionIds :: "string list" where
  "hardDeniedConnectorActionIds = [
    ''wecom_bot.call_tool'', ''wecom_bot.send_text_message'', ''wecom_bot.send_markdown_message'',
    ''wecom_bot.send_markdown_v2_message'', ''wecom_bot.send_image_message'',
    ''wecom_bot.send_news_message'']"

record accessEnv =
  ae_oc :: ocEnv
  ae_date :: "string \<Rightarrow> int option"
  ae_uuid :: "string \<Rightarrow> string option"
  ae_collate :: "string \<Rightarrow> string \<Rightarrow> bool"

text \<open>The random identifiers of one request and its clock.\<close>

record accessDraw =
  ad_resourceId :: string
  ad_grantId :: "nat \<Rightarrow> string"
  ad_now :: int

section \<open>Fields\<close>

definition requiredText :: "json \<Rightarrow> fieldLabel \<Rightarrow> nat \<Rightarrow> appError + string" where
  "requiredText v label maxLength =
    (if \<not> is_string v \<or> js_trim (the_string v) = [] then Inl (storeError (FieldRequired label) 400)
     else if length (js_trim (the_string v)) > maxLength
     then Inl (storeError (FieldTooLong label maxLength) 400)
     else Inr (js_trim (the_string v)))"

definition optionalTimestamp :: "accessEnv \<Rightarrow> json \<Rightarrow> appError + int option" where
  "optionalTimestamp env v =
    (if v = JUndef \<or> v = JNull \<or> v = JStr [] then Inr None
     else case v of
       JStr s \<Rightarrow> (case ae_date env s of
           None \<Rightarrow> Inl (storeError (StoreMsg ''timestamp_invalid'') 400)
         | Some t \<Rightarrow> Inr (Some t))
     | _ \<Rightarrow> Inl (storeError (StoreMsg ''timestamp_invalid'') 400))"

text \<open>The loop over the requested actions stops at the first that is unknown or denied.\<close>

fun checkActions :: "string list \<Rightarrow> string list \<Rightarrow> appError + unit" where
  "checkActions known [] = Inr ()"
| "checkActions known (a # as) =
    (if \<not> valid_action_id a \<or> a \<notin> set known then Inl (storeError (StoreMsg ''action_unknown'') 400)
     else if a \<in> set hardDeniedConnectorActionIds then Inl (storeError (StoreMsg ''action_denied'') 409)
     else checkActions known as)"

section \<open>Grants\<close>

record normalizedGrant =
  ng_id :: string
  ng_type :: principalType
  ng_issuer :: string
  ng_subject :: "string option"
  ng_email :: "string option"
  ng_group :: "string option"
  ng_actions :: "string list"
  ng_starts :: "int option"
  ng_expires :: "int option"
  ng_enabled :: bool

definition optionalText :: "bool \<Rightarrow> json \<Rightarrow> fieldLabel \<Rightarrow> nat \<Rightarrow> appError + string option" where
  "optionalText wanted v label maxLength =
    (if wanted \<and> jtruthy v then bindE (requiredText v label maxLength) (\<lambda>s. Inr (Some s)) else Inr None)"

definition principalTypeOf :: "json \<Rightarrow> principalType option" where
  "principalTypeOf v = (if v = JStr ''user'' then Some UserPrincipal
     else if v = JStr ''group'' then Some GroupPrincipal else None)"

definition laterThan :: "int option \<Rightarrow> int option \<Rightarrow> bool" where
  "laterThan startsAt expiresAt = (case (startsAt, expiresAt) of
     (Some s, Some e) \<Rightarrow> s < e | _ \<Rightarrow> True)"

text \<open>The people and groups a grant names.\<close>

definition grantPrincipal ::
    "principalType \<Rightarrow> json \<Rightarrow> appError + string option \<times> string option \<times> string option" where
  "grantPrincipal kind grant =
    bindE (optionalText (kind = UserPrincipal) (jget grant ''principalSubject'') LabelSubject 512) (\<lambda>subject.
    bindE (optionalText (kind = UserPrincipal) (jget grant ''principalEmail'') LabelEmail 320) (\<lambda>email.
    bindE (if kind = GroupPrincipal
        then bindE (requiredText (jget grant ''groupName'') LabelGroup 255) (\<lambda>n. Inr (Some (js_lower n)))
        else Inr None) (\<lambda>group.
      if kind = UserPrincipal \<and> subject = None \<and> email = None
      then Inl (storeError (StoreMsg ''grant_without_principal'') 400)
      else Inr (subject, map_option js_lower email, group))))"

definition normalizeGrant ::
    "accessEnv \<Rightarrow> string \<Rightarrow> string list \<Rightarrow> string \<times> json \<Rightarrow> appError + normalizedGrant" where
  "normalizeGrant env issuer known ig =
    (let grant = snd ig; actionIds = dedup (stringArray (jget grant ''actionIds'')) in
     if \<not> (is_object grant \<or> is_array grant) then Inl (storeError (StoreMsg ''grant_invalid'') 400)
     else case principalTypeOf (jget grant ''principalType'') of
       None \<Rightarrow> Inl (storeError (StoreMsg ''grant_type_invalid'') 400)
     | Some kind \<Rightarrow>
         if actionIds = [] then Inl (storeError NoAction 400)
         else if length actionIds > MAX_ACTIONS then Inl (storeError TooManyActions 400)
         else bindE (checkActions known actionIds) (\<lambda>_.
           bindE (optionalTimestamp env (jget grant ''startsAt'')) (\<lambda>startsAt.
           bindE (optionalTimestamp env (jget grant ''expiresAt'')) (\<lambda>expiresAt.
             if \<not> laterThan startsAt expiresAt
             then Inl (storeError (StoreMsg ''grant_period_empty'') 400)
             else bindE (grantPrincipal kind grant) (\<lambda>(subject, email, group).
               Inr \<lparr>ng_id = fst ig, ng_type = kind, ng_issuer = issuer, ng_subject = subject,
                 ng_email = email, ng_group = group, ng_actions = actionIds,
                 ng_starts = startsAt, ng_expires = expiresAt,
                 ng_enabled = (jget grant ''enabled'' \<noteq> JBool False)\<rparr>)))))"

definition knownActions :: "accessEnv \<Rightarrow> string \<Rightarrow> appError + string list" where
  "knownActions env service =
    bindE (liftConnector (getConnectorProvider (ae_oc env) service))
      (\<lambda>provider. Inr (map ca_id (cp_actions provider)))"

definition normalizeGrants ::
    "accessEnv \<Rightarrow> accessDraw \<Rightarrow> consoleIdentity \<Rightarrow> string \<Rightarrow> json \<Rightarrow> appError + normalizedGrant list" where
  "normalizeGrants env draw identity service v =
    (case v of
       JArr items \<Rightarrow>
         if length items > MAX_GRANTS then Inl (storeError (StoreMsg ''too_many_grants'') 400)
         else bindE (knownActions env service) (\<lambda>known.
           mapE (normalizeGrant env (ci_principalIssuer identity) known)
             (zip (map (ad_grantId draw) [0..<length items]) items))
     | _ \<Rightarrow> Inl (storeError (StoreMsg ''too_many_grants'') 400))"

definition validateSharedConnectorActionIds :: "accessEnv \<Rightarrow> string \<Rightarrow> json \<Rightarrow> appError + string list" where
  "validateSharedConnectorActionIds env service v =
    (let actionIds = dedup (stringArray v) in
     if actionIds = [] then Inl (storeError NoAction 400)
     else if length actionIds > MAX_ACTIONS then Inl (storeError TooManyActions 400)
     else bindE (knownActions env service) (\<lambda>known.
       bindE (checkActions known actionIds) (\<lambda>_. Inr actionIds)))"

section \<open>The shared connection\<close>

definition shareable :: "string \<Rightarrow> string \<Rightarrow> connectorConnection \<Rightarrow> bool" where
  "shareable service connectionName c \<longleftrightarrow> cc_service c = service \<and> cc_connectionName c = connectionName
     \<and> cc_configured c \<and> cc_authType c \<noteq> NoAuth"

definition validateConnection ::
    "accessEnv \<Rightarrow> string \<Rightarrow> string \<Rightarrow> db \<Rightarrow> appError + connectorConnection" where
  "validateConnection env service connectionName d =
    (if \<not> valid_service service then Inl (storeError (StoreMsg ''service_invalid'') 400)
     else if \<not> valid_connection_name connectionName \<or> js_lower connectionName = ''default''
     then Inl (storeError (StoreMsg ''connection_not_named'') 400)
     else bindE (liftConnector (listConnectorConnections (ae_oc env))) (\<lambda>snapshot.
       case List.find (shareable service connectionName) snapshot of
         None \<Rightarrow> Inl (storeError (StoreMsg ''connection_missing'') 409)
       | Some c \<Rightarrow>
           if list_ex (\<lambda>b. bi_service b = service \<and> bi_connection_name b = connectionName
                \<and> bi_status b \<noteq> Revoked) (bindings d)
           then Inl (storeError (StoreMsg ''connection_personal'') 409) else Inr c))"

record sharedPlan =
  sp_service :: string
  sp_connectionName :: string
  sp_displayName :: string
  sp_securityDomain :: string
  sp_mode :: resourceMode
  sp_organizationId :: "string option"
  sp_actions :: "string list"
  sp_enabled :: bool
  sp_grants :: "normalizedGrant list"

text \<open>The organisation a WeCom resource belongs to; its identifier is compared as a UUID.\<close>

definition sharedOrganization :: "accessEnv \<Rightarrow> resourceMode \<Rightarrow> json \<Rightarrow> db \<Rightarrow> appError + string option" where
  "sharedOrganization env mode v d =
    (if mode = Manual then Inr None
     else bindE (requiredText v LabelOrganization 64) (\<lambda>text.
       case ae_uuid env text of
         None \<Rightarrow> Inl (DatabaseError InvalidInput)
       | Some organizationId \<Rightarrow>
           if list_ex (\<lambda>g. og_id g = organizationId \<and> organizationConfigured g) (organizations d)
           then Inr (Some organizationId)
           else Inl (storeError OrganizationUnavailable 409)))"

definition requestedMode :: "json \<Rightarrow> resourceMode" where
  "requestedMode v = (if v = JStr ''wecom_visibility'' then WecomVisibility else Manual)"

definition modeAllowed :: "string \<Rightarrow> resourceMode \<Rightarrow> appError + unit" where
  "modeAllowed service mode =
    (if service = ''wecom_bot'' \<and> mode \<noteq> WecomVisibility
     then Inl (storeError (StoreMsg ''bot_needs_visibility'') 409)
     else if service \<noteq> ''wecom_bot'' \<and> mode \<noteq> Manual
     then Inl (storeError (StoreMsg ''visibility_unsupported'') 409)
     else Inr ())"

definition planShared ::
    "accessEnv \<Rightarrow> accessDraw \<Rightarrow> consoleIdentity \<Rightarrow> json \<Rightarrow> db \<Rightarrow> appError + sharedPlan" where
  "planShared env draw identity input d =
    bindE (requiredText (jget input ''service'') LabelService 128) (\<lambda>service.
    bindE (requiredText (jget input ''connectionName'') LabelConnection 128) (\<lambda>connectionName.
    bindE (validateConnection env service connectionName d) (\<lambda>connection.
    bindE (if jtruthy (jget input ''displayName'')
        then requiredText (jget input ''displayName'') LabelResourceName 120
        else Inr (cc_displayName connection)) (\<lambda>displayName.
    bindE (if jtruthy (jget input ''securityDomain'')
        then bindE (requiredText (jget input ''securityDomain'') LabelDomain 64) (\<lambda>s. Inr (js_lower s))
        else Inr ''general'') (\<lambda>securityDomain.
    bindE (modeAllowed service (requestedMode (jget input ''authorizationMode''))) (\<lambda>_.
    bindE (sharedOrganization env (requestedMode (jget input ''authorizationMode''))
        (jget input ''wecomOrganizationId'') d) (\<lambda>organizationId.
    bindE (if requestedMode (jget input ''authorizationMode'') = WecomVisibility
        then validateSharedConnectorActionIds env service (jget input ''actionIds'')
        else Inr []) (\<lambda>actionIds.
    bindE (if requestedMode (jget input ''authorizationMode'') = Manual
        then normalizeGrants env draw identity service
          (if jtruthy (jget input ''grants'') then jget input ''grants'' else JArr [])
        else Inr []) (\<lambda>grantList.
      Inr \<lparr>sp_service = service, sp_connectionName = connectionName, sp_displayName = displayName,
        sp_securityDomain = securityDomain,
        sp_mode = requestedMode (jget input ''authorizationMode''),
        sp_organizationId = organizationId, sp_actions = actionIds,
        sp_enabled = (jget input ''enabled'' \<noteq> JBool False), sp_grants = grantList\<rparr>)))))))))"

section \<open>Writing\<close>

definition insertedResource :: "string \<Rightarrow> accessDraw \<Rightarrow> sharedPlan \<Rightarrow> resourceRow" where
  "insertedResource actor draw plan =
    \<lparr>rs_id = ad_resourceId draw, rs_service = sp_service plan,
     rs_connection_name = sp_connectionName plan, rs_display_name = sp_displayName plan,
     rs_security_domain = sp_securityDomain plan, rs_mode = sp_mode plan,
     rs_action_ids = JArr (map JStr (sp_actions plan)), rs_enabled = sp_enabled plan,
     rs_created_by = actor, rs_updated_by = actor, rs_created_at = ad_now draw,
     rs_updated_at = ad_now draw, rs_organization_id = sp_organizationId plan\<rparr>"

definition mergeResource :: "resourceRow \<Rightarrow> resourceRow \<Rightarrow> resourceRow" where
  "mergeResource new old = old\<lparr>rs_display_name := rs_display_name new,
     rs_security_domain := rs_security_domain new, rs_mode := rs_mode new,
     rs_organization_id := rs_organization_id new, rs_action_ids := rs_action_ids new,
     rs_enabled := rs_enabled new, rs_updated_by := rs_updated_by new,
     rs_updated_at := rs_updated_at new\<rparr>"

text \<open>INSERT ... ON CONFLICT (service, connection_name) DO UPDATE ... RETURNING id.\<close>

definition upsertResource :: "resourceRow \<Rightarrow> db \<Rightarrow> appError + string \<times> db" where
  "upsertResource new d =
    (case List.find (\<lambda>r. resourceKey r = resourceKey new) (resources d) of
       None \<Rightarrow> bindE (liftDatabase (checked (d\<lparr>resources := resources d @ [new]\<rparr>)))
         (\<lambda>d'. Inr (rs_id new, d'))
     | Some old \<Rightarrow> bindE (liftDatabase (checked (d\<lparr>resources :=
           map (\<lambda>r. if resourceKey r = resourceKey new then mergeResource new r else r) (resources d)\<rparr>)))
         (\<lambda>d'. Inr (rs_id old, d')))"

definition grantRowOf :: "string \<Rightarrow> string \<Rightarrow> int \<Rightarrow> normalizedGrant \<Rightarrow> grantRow" where
  "grantRowOf resourceId actor now g =
    \<lparr>gr_id = ng_id g, gr_resource_id = resourceId, gr_type = ng_type g, gr_issuer = ng_issuer g,
     gr_subject = ng_subject g, gr_email = ng_email g, gr_group = ng_group g,
     gr_action_ids = JArr (map JStr (ng_actions g)), gr_starts_at = ng_starts g,
     gr_expires_at = ng_expires g, gr_enabled = ng_enabled g, gr_created_by = actor,
     gr_updated_by = actor, gr_created_at = now\<rparr>"

fun insertGrants :: "grantRow list \<Rightarrow> db \<Rightarrow> appError + db" where
  "insertGrants [] d = Inr d"
| "insertGrants (g # gs) d =
    bindE (liftDatabase (checked (d\<lparr>grants := grants d @ [g]\<rparr>))) (insertGrants gs)"

definition replaceGrants :: "string \<Rightarrow> string \<Rightarrow> int \<Rightarrow> normalizedGrant list \<Rightarrow> db \<Rightarrow> appError + db" where
  "replaceGrants resourceId actor now gs d =
    insertGrants (map (grantRowOf resourceId actor now) gs)
      (d\<lparr>grants := filter (\<lambda>g. gr_resource_id g \<noteq> resourceId) (grants d)\<rparr>)"

definition saveBody :: "string \<Rightarrow> accessDraw \<Rightarrow> sharedPlan \<Rightarrow> db \<Rightarrow> appError + string \<times> db" where
  "saveBody actor draw plan d =
    bindE (upsertResource (insertedResource actor draw plan) d) (\<lambda>(resourceId, d1).
    bindE (replaceGrants resourceId actor (ad_now draw) (sp_grants plan) d1) (\<lambda>d2.
      Inr (resourceId, d2)))"

section \<open>Reading\<close>

record sharedGrant =
  sg_id :: string
  sg_type :: principalType
  sg_issuer :: string
  sg_subject :: "string option"
  sg_email :: "string option"
  sg_group :: "string option"
  sg_actions :: "string list"
  sg_starts :: "int option"
  sg_expires :: "int option"
  sg_enabled :: bool

record sharedResource =
  sr_id :: string
  sr_service :: string
  sr_connectionName :: string
  sr_displayName :: string
  sr_securityDomain :: string
  sr_mode :: resourceMode
  sr_organizationId :: "string option"
  sr_organizationName :: "string option"
  sr_actions :: "string list"
  sr_enabled :: bool
  sr_grants :: "sharedGrant list"
  sr_updatedAt :: int

definition serializeGrant :: "grantRow \<Rightarrow> sharedGrant" where
  "serializeGrant g = \<lparr>sg_id = gr_id g, sg_type = gr_type g, sg_issuer = gr_issuer g,
     sg_subject = gr_subject g, sg_email = gr_email g, sg_group = gr_group g,
     sg_actions = stringArray (gr_action_ids g), sg_starts = gr_starts_at g,
     sg_expires = gr_expires_at g, sg_enabled = gr_enabled g\<rparr>"

definition organizationNameOf :: "db \<Rightarrow> string option \<Rightarrow> string option" where
  "organizationNameOf d i = (case i of None \<Rightarrow> None
     | Some i \<Rightarrow> map_option og_name (List.find (\<lambda>g. og_id g = i) (organizations d)))"

definition serializeResource :: "db \<Rightarrow> sharedGrant list \<Rightarrow> resourceRow \<Rightarrow> sharedResource" where
  "serializeResource d gs r = \<lparr>sr_id = rs_id r, sr_service = rs_service r,
     sr_connectionName = rs_connection_name r, sr_displayName = rs_display_name r,
     sr_securityDomain = rs_security_domain r, sr_mode = rs_mode r,
     sr_organizationId = rs_organization_id r,
     sr_organizationName = organizationNameOf d (rs_organization_id r),
     sr_actions = stringArray (rs_action_ids r), sr_enabled = rs_enabled r, sr_grants = gs,
     sr_updatedAt = rs_updated_at r\<rparr>"

definition grantOrder :: "grantRow \<Rightarrow> grantRow \<Rightarrow> bool" where
  "grantOrder g h = (if gr_created_at g \<noteq> gr_created_at h then gr_created_at g < gr_created_at h
     else str_le (gr_id g) (gr_id h))"

text \<open>The grants of a resource are collected in the order of the query.\<close>

definition readResources :: "accessEnv \<Rightarrow> db \<Rightarrow> sharedResource list" where
  "readResources env d =
    (let ordered = sort_by grantOrder (grants d) in
     map (\<lambda>r. serializeResource d
         (map serializeGrant (filter (\<lambda>g. gr_resource_id g = rs_id r) ordered)) r)
       (sort_by (\<lambda>r s. row_order (ae_collate env) (resourceKey r) (resourceKey s)) (resources d)))"

record accessSnapshot =
  sa_resources :: "sharedResource list"
  sa_organizations :: "(string \<times> string \<times> bool) list"
  sa_hardDenied :: "string list"
  sa_updatedAt :: int

definition getSharedConnectorAccess :: "accessEnv \<Rightarrow> int \<Rightarrow> db \<Rightarrow> accessSnapshot" where
  "getSharedConnectorAccess env now d = \<lparr>sa_resources = readResources env d,
     sa_organizations = map (\<lambda>g. (og_id g, og_name g,
         og_active g \<and> og_corp_id g \<noteq> []
         \<and> (case og_relay_callback_url g of None \<Rightarrow> False | Some u \<Rightarrow> u \<noteq> [])))
       (sort_by (\<lambda>g h. if og_name g \<noteq> og_name h then ae_collate env (og_name g) (og_name h)
           else str_le (og_id g) (og_id h)) (organizations d)),
     sa_hardDenied = hardDeniedConnectorActionIds, sa_updatedAt = now\<rparr>"

section \<open>Handlers\<close>

type_synonym accessState = "db \<times> visibilityCache"

definition saveSharedConnectorResource ::
    "accessEnv \<Rightarrow> accessDraw \<Rightarrow> consoleIdentity \<Rightarrow> json \<Rightarrow> accessState
      \<Rightarrow> (appError + sharedResource option) \<times> accessState" where
  "saveSharedConnectorResource env draw identity input st =
    (case planShared env draw identity input (fst st) of
       Inl e \<Rightarrow> (Inl e, st)
     | Inr plan \<Rightarrow>
         (case transaction (saveBody (ci_email identity) draw plan) (fst st) of
            (Inl e, d') \<Rightarrow> (Inl e, d', snd st)
          | (Inr resourceId, d') \<Rightarrow>
              (Inr (List.find (\<lambda>r. sr_id r = resourceId) (readResources env d')), d',
               if sp_service plan = ''wecom_bot'' then resetWeComVisibilityCache (snd st) else snd st)))"

text \<open>The grants of a deleted resource go with it (ON DELETE CASCADE).\<close>

definition deleteResources :: "(resourceRow \<Rightarrow> bool) \<Rightarrow> db \<Rightarrow> db" where
  "deleteResources P d = d\<lparr>resources := filter (\<lambda>r. \<not> P r) (resources d),
     grants := filter (\<lambda>g. gr_resource_id g \<notin> rs_id ` set (filter P (resources d))) (grants d)\<rparr>"

definition deleteSharedConnectorResource ::
    "accessEnv \<Rightarrow> json \<Rightarrow> accessState \<Rightarrow> (appError + unit) \<times> accessState" where
  "deleteSharedConnectorResource env v st =
    (case requiredText v LabelResourceId 64 of
       Inl e \<Rightarrow> (Inl e, st)
     | Inr text \<Rightarrow> (case ae_uuid env text of
         None \<Rightarrow> (Inl (DatabaseError InvalidInput), st)
       | Some resourceId \<Rightarrow>
           if \<not> list_ex (\<lambda>r. rs_id r = resourceId) (resources (fst st))
           then (Inl (storeError (StoreMsg ''resource_missing'') 404), st)
           else (Inr (), deleteResources (\<lambda>r. rs_id r = resourceId) (fst st),
             resetWeComVisibilityCache (snd st))))"

definition deleteSharedConnectorResourceByConnection :: "string \<Rightarrow> string \<Rightarrow> accessState \<Rightarrow> accessState" where
  "deleteSharedConnectorResourceByConnection service connectionName st =
    (deleteResources (\<lambda>r. rs_service r = service \<and> rs_connection_name r = connectionName) (fst st),
     if service = ''wecom_bot'' then resetWeComVisibilityCache (snd st) else snd st)"

section \<open>Routes\<close>

text \<open>A request body that is not an object is refused.\<close>

definition readJsonRecord :: "json \<Rightarrow> appError + json" where
  "readJsonRecord payload = (if is_object payload then Inr payload
     else Inl (ConnectorError \<lparr>oe_message = Upstream ''body_not_object'', oe_status = 400\<rparr>))"

definition badRequest :: "string \<Rightarrow> appError" where
  "badRequest tag = ConnectorError \<lparr>oe_message = Upstream tag, oe_status = 400\<rparr>"

definition readStringRecord :: "json \<Rightarrow> appError + json" where
  "readStringRecord v = (case v of
     JUndef \<Rightarrow> Inr (JObj [])
   | JObj kvs \<Rightarrow> if list_all (\<lambda>kv. is_string (snd kv)) kvs then Inr (JObj kvs)
       else Inl (badRequest ''value_not_string'')
   | _ \<Rightarrow> Inl (badRequest ''values_not_object''))"

text \<open>The statuses the two kinds of route answer an error with.\<close>

fun routeStatus :: "int \<Rightarrow> appError \<Rightarrow> int" where
  "routeStatus other (StoreError e) = se_status e"
| "routeStatus other (ConnectorError e) = (if oe_message e = NetworkFailure \<or> oe_message e = PayloadTypeError
     then other else oe_status e)"
| "routeStatus other (AuthError m s) = s"
| "routeStatus other e = other"

definition string_field :: "json \<Rightarrow> string \<Rightarrow> string \<Rightarrow> json" where
  "string_field body key fallback =
    (if is_string (jget body key) then jget body key else JStr fallback)"

definition optional_field :: "json \<Rightarrow> string \<Rightarrow> json" where
  "optional_field body key = (if is_string (jget body key) then jget body key else JUndef)"

definition strings_of :: "json \<Rightarrow> json" where
  "strings_of v = JArr (filter is_string (the_array v))"

definition grantInputs :: "json \<Rightarrow> appError + json" where
  "grantInputs v = (case v of
     JArr items \<Rightarrow> bindE (mapE (\<lambda>item.
         if \<not> is_object item then Inl (storeError (StoreMsg ''grant_not_object'') 400)
         else Inr (JObj [
           (''principalType'', JStr (if jget item ''principalType'' = JStr ''group'' then ''group'' else ''user'')),
           (''principalSubject'', optional_field item ''principalSubject''),
           (''principalEmail'', optional_field item ''principalEmail''),
           (''groupName'', optional_field item ''groupName''),
           (''actionIds'', strings_of (jget item ''actionIds'')),
           (''startsAt'', optional_field item ''startsAt''),
           (''expiresAt'', optional_field item ''expiresAt''),
           (''enabled'', JBool (jget item ''enabled'' \<noteq> JBool False))])) items)
       (\<lambda>gs. Inr (JArr gs))
   | _ \<Rightarrow> Inl (storeError (StoreMsg ''grants_not_array'') 400))"

definition sharedResourceBody :: "json \<Rightarrow> appError + json" where
  "sharedResourceBody body = bindE (grantInputs (jget body ''grants'')) (\<lambda>gs. Inr (JObj [
     (''service'', string_field body ''service'' []),
     (''connectionName'', string_field body ''connectionName'' []),
     (''displayName'', string_field body ''displayName'' []),
     (''securityDomain'', optional_field body ''securityDomain''),
     (''authorizationMode'', JStr (if jget body ''authorizationMode'' = JStr ''wecom_visibility''
        then ''wecom_visibility'' else ''manual'')),
     (''wecomOrganizationId'', optional_field body ''wecomOrganizationId''),
     (''actionIds'', strings_of (jget body ''actionIds'')),
     (''enabled'', JBool (jget body ''enabled'' \<noteq> JBool False)),
     (''grants'', gs)]))"

definition putSharedResourceRoute ::
    "accessEnv \<Rightarrow> accessDraw \<Rightarrow> (appError + consoleIdentity) \<Rightarrow> json \<Rightarrow> accessState
      \<Rightarrow> (int + sharedResource option) \<times> accessState" where
  "putSharedResourceRoute env draw auth payload st =
    (case bindE auth (\<lambda>identity. bindE (readJsonRecord payload) (\<lambda>body.
        bindE (sharedResourceBody body) (\<lambda>input. Inr (identity, input)))) of
       Inl e \<Rightarrow> (Inl (routeStatus 500 e), st)
     | Inr (identity, input) \<Rightarrow>
         (case saveSharedConnectorResource env draw identity input st of
            (Inl e, st') \<Rightarrow> (Inl (routeStatus 500 e), st')
          | (Inr r, st') \<Rightarrow> (Inr r, st')))"

text \<open>The connection routes talk to OpenConnector at several moments; its answers may differ. Where
  both the body and the caller are refused the answer may be either, here it is the caller's.\<close>

record connectionEnv = accessEnv +
  ce_previous :: ocEnv
  ce_save :: ocEnv
  ce_delete :: ocEnv

datatype connectionEffect = ConnectionSaved string string | ConnectionDeleted string string

definition connectionBody ::
    "connectionEnv \<Rightarrow> string \<Rightarrow> json \<Rightarrow> appError + string \<times> connectorAuthType \<times> json \<times> bool \<times> json" where
  "connectionBody env service body =
    (let connectionName = js_trim (the_string (jget body ''connectionName''));
         authType = normalizeAuthType (jget body ''authType'');
         actionIds = strings_of (jget body ''actionIds'') in
     if connectionName = [] \<or> length connectionName > 128 then Inl (badRequest ''connection_name'')
     else case authType of
       None \<Rightarrow> Inl (badRequest ''auth_type'')
     | Some t \<Rightarrow>
         if t = OAuth2 then Inl (badRequest ''auth_type'')
         else bindE (if service = ''wecom_bot''
               then validateSharedConnectorActionIds (accessEnv.truncate env) service actionIds
               else Inr []) (\<lambda>_.
           bindE (if service = ''wecom_bot''
               then bindE (liftConnector (listConnectorConnections (ce_previous env))) (\<lambda>snapshot.
                 Inr (list_ex (\<lambda>c. cc_service c = service \<and> cc_connectionName c = connectionName) snapshot))
               else Inr True) (\<lambda>previous.
           bindE (readStringRecord (jget body ''values'')) (\<lambda>vals.
             Inr (connectionName, t, actionIds, previous, vals)))))"

definition sharedBotInput :: "string \<Rightarrow> json \<Rightarrow> json \<Rightarrow> connectorConnection \<Rightarrow> json" where
  "sharedBotInput connectionName actionIds body connection =
    (let label = js_trim (the_string (jget body ''displayName'')) in JObj [
       (''service'', JStr ''wecom_bot''), (''connectionName'', JStr connectionName),
       (''displayName'', JStr (if label \<noteq> [] then label else cc_displayName connection)),
       (''securityDomain'', JStr ''wecom''), (''authorizationMode'', JStr ''wecom_visibility''),
       (''actionIds'', actionIds), (''enabled'', JBool True), (''grants'', JArr [])])"

definition putConnectionRoute ::
    "connectionEnv \<Rightarrow> accessDraw \<Rightarrow> (appError + consoleIdentity) \<Rightarrow> string \<Rightarrow> json \<Rightarrow> accessState
      \<Rightarrow> (int + connectorConnection) \<times> connectionEffect list \<times> accessState" where
  "putConnectionRoute env draw auth service payload st =
    (case bindE auth (\<lambda>identity. bindE (readJsonRecord payload) (\<lambda>body.
        bindE (connectionBody env service body) (\<lambda>parsed. Inr (identity, body, parsed)))) of
       Inl e \<Rightarrow> (Inl (routeStatus 502 e), [], st)
     | Inr (identity, body, connectionName, authType, actionIds, previous, vals) \<Rightarrow>
         (case saveConnectorConnection (ce_save env) service (JObj [
              (''connectionName'', JStr connectionName), (''authType'', JStr (authTypeName authType)),
              (''values'', vals)]) of
            Inl e \<Rightarrow> (Inl (routeStatus 502 (ConnectorError e)), [], st)
          | Inr None \<Rightarrow> (Inl 502, [ConnectionSaved service connectionName], st)
          | Inr (Some connection) \<Rightarrow>
              if service = ''wecom_bot''
              then (case saveSharedConnectorResource (accessEnv.truncate env) draw identity
                  (sharedBotInput connectionName actionIds body connection) st of
                    (Inr r, st') \<Rightarrow> (Inr connection, [ConnectionSaved service connectionName], st')
                  | (Inl e, st') \<Rightarrow> (Inl (routeStatus 502 e),
                      ConnectionSaved service connectionName
                        # (if previous then [] else [ConnectionDeleted service connectionName]), st'))
              else (Inr connection, [ConnectionSaved service connectionName], st)))"

definition deleteConnectionRoute ::
    "connectionEnv \<Rightarrow> (appError + consoleIdentity) \<Rightarrow> string \<Rightarrow> json \<Rightarrow> accessState
      \<Rightarrow> (int + unit) \<times> accessState" where
  "deleteConnectionRoute env auth service payload st =
    (case bindE auth (\<lambda>identity. bindE (readJsonRecord payload) (\<lambda>body.
        let connectionName = js_trim (the_string (jget body ''connectionName'')) in
        if connectionName = [] then Inl (badRequest ''connection_name'')
        else bindE (liftConnector (deleteConnectorConnection (ce_delete env) service connectionName))
          (\<lambda>_. Inr connectionName))) of
       Inl e \<Rightarrow> (Inl (routeStatus 502 e), st)
     | Inr connectionName \<Rightarrow>
         (Inr (), deleteSharedConnectorResourceByConnection service connectionName st))"

section \<open>What a plan guarantees\<close>

definition allowedAction :: "string list \<Rightarrow> string \<Rightarrow> bool" where
  "allowedAction known a \<longleftrightarrow> valid_action_id a \<and> a \<in> set known
     \<and> a \<notin> set hardDeniedConnectorActionIds"

lemma checkActions_Inr [simp]: "checkActions known as = Inr u \<longleftrightarrow> list_all (allowedAction known) as"
  by (induction as) (auto simp: allowedAction_def)

lemma requiredText_eq: "requiredText v label n = requiredValue v label n"
  by (cases v) (auto simp: requiredText_def requiredValue_def Let_def)

definition grantOk :: "string list \<Rightarrow> string \<Rightarrow> normalizedGrant \<Rightarrow> bool" where
  "grantOk known issuer g \<longleftrightarrow> ng_issuer g = issuer \<and> ng_actions g \<noteq> [] \<and> distinct (ng_actions g)
     \<and> length (ng_actions g) \<le> MAX_ACTIONS \<and> list_all (allowedAction known) (ng_actions g)
     \<and> laterThan (ng_starts g) (ng_expires g)
     \<and> (case ng_type g of
          UserPrincipal \<Rightarrow> (ng_subject g \<noteq> None \<or> ng_email g \<noteq> None) \<and> ng_group g = None
        | GroupPrincipal \<Rightarrow> ng_subject g = None \<and> ng_email g = None \<and> ng_group g \<noteq> None)"

lemma optionalText_unwanted [simp]: "optionalText False v l n = Inr None"
  by (simp add: optionalText_def)

lemma grantPrincipal_Inr:
  assumes "grantPrincipal kind grant = Inr (subject, email, gname)"
  shows "case kind of
      UserPrincipal \<Rightarrow> (subject \<noteq> None \<or> email \<noteq> None) \<and> gname = None
    | GroupPrincipal \<Rightarrow> subject = None \<and> email = None \<and> gname \<noteq> None"
  using assms by (cases kind) (auto simp: grantPrincipal_def split: if_split_asm)

lemma normalizeGrant_Inr:
  assumes "normalizeGrant env issuer known ig = Inr g"
  shows "grantOk known issuer g" "ng_id g = fst ig"
proof -
  obtain kind where k: "principalTypeOf (jget (snd ig) ''principalType'') = Some kind"
    using assms by (auto simp: normalizeGrant_def Let_def split: if_split_asm option.split_asm)
  let ?ids = "dedup (stringArray (jget (snd ig) ''actionIds''))"
  from assms k obtain startsAt expiresAt subject email gname where
    ids: "?ids \<noteq> []" "length ?ids \<le> MAX_ACTIONS" "list_all (allowedAction known) ?ids"
    and p: "grantPrincipal kind (snd ig) = Inr (subject, email, gname)"
    and l: "laterThan startsAt expiresAt"
    and g: "g = \<lparr>ng_id = fst ig, ng_type = kind, ng_issuer = issuer, ng_subject = subject,
       ng_email = email, ng_group = gname, ng_actions = ?ids, ng_starts = startsAt,
       ng_expires = expiresAt, ng_enabled = (jget (snd ig) ''enabled'' \<noteq> JBool False)\<rparr>"
    unfolding normalizeGrant_def Let_def by (auto split: if_split_asm)
  from g ids l grantPrincipal_Inr[OF p] show "grantOk known issuer g" "ng_id g = fst ig"
    by (cases kind; simp add: grantOk_def)+
qed

lemma normalizeGrants_Inr:
  assumes "normalizeGrants env draw identity service v = Inr gs"
  shows "\<exists>known. knownActions env service = Inr known
      \<and> list_all (grantOk known (ci_principalIssuer identity)) gs"
    "length gs \<le> MAX_GRANTS" "map ng_id gs = map (ad_grantId draw) [0..<length gs]"
proof -
  obtain items known where v: "v = JArr items" "length items \<le> MAX_GRANTS"
    and k: "knownActions env service = Inr known"
    and m: "mapE (normalizeGrant env (ci_principalIssuer identity) known)
      (zip (map (ad_grantId draw) [0..<length items]) items) = Inr gs"
    using assms by (auto simp: normalizeGrants_def split: json.split_asm if_split_asm)
  have len: "length gs = length items" using mapE_length[OF m] by simp
  have nth: "normalizeGrant env (ci_principalIssuer identity) known (ad_grantId draw i, items ! i) = Inr (gs ! i)"
    if "i < length items" for i
    using mapE_nth[OF m, of i] that by simp
  show "\<exists>known. knownActions env service = Inr known
      \<and> list_all (grantOk known (ci_principalIssuer identity)) gs"
    using k normalizeGrant_Inr(1) mapE_set[OF m] by (fastforce simp: list_all_iff)
  show "length gs \<le> MAX_GRANTS" using v len by simp
  show "map ng_id gs = map (ad_grantId draw) [0..<length gs]"
    by (rule nth_equalityI) (use len normalizeGrant_Inr(2)[OF nth] in auto)
qed

lemma validateActions_Inr:
  "validateSharedConnectorActionIds env service v = Inr ids \<Longrightarrow> ids \<noteq> [] \<and> distinct ids
    \<and> length ids \<le> MAX_ACTIONS
    \<and> (\<exists>known. knownActions env service = Inr known \<and> list_all (allowedAction known) ids)"
  by (auto simp: validateSharedConnectorActionIds_def Let_def split: if_split_asm)

definition planOk ::
    "accessEnv \<Rightarrow> consoleIdentity \<Rightarrow> db \<Rightarrow> sharedPlan \<Rightarrow> bool" where
  "planOk env identity d plan \<longleftrightarrow>
     valid_service (sp_service plan) \<and> valid_connection_name (sp_connectionName plan)
   \<and> js_lower (sp_connectionName plan) \<noteq> ''default''
   \<and> (\<exists>snapshot. listConnectorConnections (ae_oc env) = Inr snapshot
        \<and> list_ex (shareable (sp_service plan) (sp_connectionName plan)) snapshot)
   \<and> list_all (\<lambda>b. bindingKey b = (sp_service plan, sp_connectionName plan) \<longrightarrow> bi_status b = Revoked)
        (bindings d)
   \<and> (case sp_mode plan of
        Manual \<Rightarrow> sp_service plan \<noteq> ''wecom_bot'' \<and> sp_organizationId plan = None \<and> sp_actions plan = []
          \<and> length (sp_grants plan) \<le> MAX_GRANTS
          \<and> (\<exists>known. knownActions env (sp_service plan) = Inr known
               \<and> list_all (grantOk known (ci_principalIssuer identity)) (sp_grants plan))
      | WecomVisibility \<Rightarrow> sp_service plan = ''wecom_bot'' \<and> sp_grants plan = []
          \<and> (\<exists>g\<in>set (organizations d). sp_organizationId plan = Some (og_id g) \<and> organizationConfigured g)
          \<and> sp_actions plan \<noteq> [] \<and> distinct (sp_actions plan)
          \<and> (\<exists>known. knownActions env (sp_service plan) = Inr known
               \<and> list_all (allowedAction known) (sp_actions plan)))"

lemma validateConnection_Inr:
  assumes "validateConnection env service connectionName d = Inr c"
  shows "valid_service service \<and> valid_connection_name connectionName
    \<and> js_lower connectionName \<noteq> ''default''
    \<and> (\<exists>snapshot. listConnectorConnections (ae_oc env) = Inr snapshot
        \<and> list_ex (shareable service connectionName) snapshot)
    \<and> list_all (\<lambda>b. bindingKey b = (service, connectionName) \<longrightarrow> bi_status b = Revoked) (bindings d)"
proof -
  obtain snapshot where s: "listConnectorConnections (ae_oc env) = Inr snapshot"
    "List.find (shareable service connectionName) snapshot = Some c"
    "\<not> list_ex (\<lambda>b. bi_service b = service \<and> bi_connection_name b = connectionName
       \<and> bi_status b \<noteq> Revoked) (bindings d)"
    and v: "valid_service service" "valid_connection_name connectionName" "js_lower connectionName \<noteq> ''default''"
    using assms by (auto simp: validateConnection_def split: if_split_asm option.split_asm)
  have "list_ex (shareable service connectionName) snapshot"
    using s(2) by (auto simp: find_Some_iff list_ex_iff)
  with s v show ?thesis by (auto simp: list_ex_iff list_all_iff bindingKey_def)
qed

lemma sharedOrganization_Inr:
  "sharedOrganization env mode v d = Inr i \<Longrightarrow> (case mode of Manual \<Rightarrow> i = None
    | WecomVisibility \<Rightarrow> \<exists>g\<in>set (organizations d). i = Some (og_id g) \<and> organizationConfigured g)"
  by (cases mode) (auto simp: sharedOrganization_def list_ex_iff split: option.split_asm if_split_asm)

lemma planShared_ok:
  assumes "planShared env draw identity input d = Inr plan"
  shows "planOk env identity d plan \<and> map ng_id (sp_grants plan) = map (ad_grantId draw) [0..<length (sp_grants plan)]"
proof -
  let ?mode = "requestedMode (jget input ''authorizationMode'')"
  obtain service connectionName connection displayName domain u organizationId actionIds gs where
    c: "validateConnection env service connectionName d = Inr connection" and
    m: "modeAllowed service ?mode = Inr u" and
    oi: "sharedOrganization env ?mode (jget input ''wecomOrganizationId'') d = Inr organizationId" and
    a: "(if ?mode = WecomVisibility then validateSharedConnectorActionIds env service (jget input ''actionIds'')
        else Inr []) = Inr actionIds" and
    g: "(if ?mode = Manual then normalizeGrants env draw identity service
          (if jtruthy (jget input ''grants'') then jget input ''grants'' else JArr []) else Inr []) = Inr gs" and
    p: "plan = \<lparr>sp_service = service, sp_connectionName = connectionName, sp_displayName = displayName,
        sp_securityDomain = domain, sp_mode = ?mode,
        sp_organizationId = organizationId, sp_actions = actionIds,
        sp_enabled = (jget input ''enabled'' \<noteq> JBool False), sp_grants = gs\<rparr>"
    using assms unfolding planShared_def bindE_eq_Inr
    by (elim exE conjE) (rule that, assumption+, erule sum.inject(2)[THEN iffD1, symmetric])
  note conn = validateConnection_Inr[OF c] and org = sharedOrganization_Inr[OF oi]
  show ?thesis
  proof (cases ?mode)
    case Manual
    then have gs: "normalizeGrants env draw identity service
        (if jtruthy (jget input ''grants'') then jget input ''grants'' else JArr []) = Inr gs"
      and as: "actionIds = []" and s: "service \<noteq> ''wecom_bot''"
      using a g m by (auto simp: modeAllowed_def split: if_split_asm)
    from normalizeGrants_Inr[OF gs] conn org Manual as s show ?thesis
      unfolding p by (simp add: planOk_def)
  next
    case WecomVisibility
    then have as: "validateSharedConnectorActionIds env service (jget input ''actionIds'') = Inr actionIds"
      and gs: "gs = []" and s: "service = ''wecom_bot''"
      using a g m by (auto simp: modeAllowed_def split: if_split_asm)
    from validateActions_Inr[OF as] conn org WecomVisibility gs s show ?thesis
      unfolding p by (simp add: planOk_def)
  qed
qed

section \<open>What a save writes\<close>

lemma insertGrants_Inr:
  "insertGrants gs d = Inr d' \<Longrightarrow> db_ok d \<or> gs \<noteq> [] \<Longrightarrow> d' = d\<lparr>grants := grants d @ gs\<rparr> \<and> db_ok d'"
proof (induction gs arbitrary: d)
  case (Cons g gs)
  then have ok: "db_ok (d\<lparr>grants := grants d @ [g]\<rparr>)"
    and rest: "insertGrants gs (d\<lparr>grants := grants d @ [g]\<rparr>) = Inr d'" by auto
  from Cons.IH[OF rest] ok show ?case by auto
qed simp

lemma db_ok_fewer_grants:
  "db_ok d \<Longrightarrow> db_ok (d\<lparr>grants := filter P (grants d)\<rparr>)"
  by (auto simp: db_ok_defs table_checks list_all_iff unique_by_filter)

definition savedResource :: "sharedPlan \<Rightarrow> resourceRow \<Rightarrow> bool" where
  "savedResource plan r \<longleftrightarrow> rs_display_name r = sp_displayName plan
     \<and> rs_security_domain r = sp_securityDomain plan \<and> rs_mode r = sp_mode plan
     \<and> rs_organization_id r = sp_organizationId plan
     \<and> rs_action_ids r = JArr (map JStr (sp_actions plan)) \<and> rs_enabled r = sp_enabled plan"

definition planKey :: "sharedPlan \<Rightarrow> string \<times> string" where
  "planKey plan = (sp_service plan, sp_connectionName plan)"

lemma insertedResource_key [simp]: "resourceKey (insertedResource actor draw plan) = planKey plan"
  by (simp add: resourceKey_def insertedResource_def planKey_def)

lemma inserted_saved [simp]: "savedResource plan (insertedResource actor draw plan)"
  by (simp add: savedResource_def insertedResource_def)

lemma merged_saved [simp]: "savedResource plan (mergeResource (insertedResource actor draw plan) r)"
  by (simp add: savedResource_def mergeResource_def insertedResource_def)

lemma mergeResource_keys [simp]:
  "rs_id (mergeResource new r) = rs_id r" "resourceKey (mergeResource new r) = resourceKey r"
  by (simp_all add: mergeResource_def resourceKey_def)

definition keyed :: "string \<times> string \<Rightarrow> db \<Rightarrow> resourceRow list" where
  "keyed k d = filter (\<lambda>r. resourceKey r = k) (resources d)"

definition unkeyed :: "string \<times> string \<Rightarrow> db \<Rightarrow> resourceRow list" where
  "unkeyed k d = filter (\<lambda>r. resourceKey r \<noteq> k) (resources d)"

lemma resource_uniques:
  assumes "db_ok d"
  shows "unique_by rs_id (resources d)" "unique_by resourceKey (resources d)"
proof -
  have "(\<lambda>r. (rs_service r, rs_connection_name r)) = resourceKey"
    by (simp add: resourceKey_def fun_eq_iff)
  then show "unique_by rs_id (resources d)" "unique_by resourceKey (resources d)"
    using assms by (simp_all add: db_ok_def uniques_ok_def resources_unique_def)
qed

lemma upsertResource_Inr:
  assumes "db_ok d" "upsertResource (insertedResource actor draw plan) d = Inr (i, d')"
  shows "db_ok d' \<and> (\<exists>r. keyed (planKey plan) d' = [r] \<and> rs_id r = i \<and> savedResource plan r)
    \<and> unkeyed (planKey plan) d' = unkeyed (planKey plan) d
    \<and> d' = d\<lparr>resources := resources d'\<rparr>"
proof -
  let ?new = "insertedResource actor draw plan"
  let ?k = "\<lambda>r. resourceKey r = planKey plan"
  show ?thesis
  proof (cases "List.find ?k (resources d)")
    case None
    then have d': "d' = d\<lparr>resources := resources d @ [?new]\<rparr>" "db_ok d'" "i = rs_id ?new"
      using assms(2) by (auto simp: upsertResource_def)
    have "filter ?k (resources d) = []" using None by (auto simp: find_None_iff filter_empty_conv)
    with d' show ?thesis by (simp add: keyed_def unkeyed_def)
  next
    case (Some old)
    then have d': "d' = d\<lparr>resources := map (\<lambda>r. if ?k r then mergeResource ?new r else r) (resources d)\<rparr>"
        "db_ok d'" "i = rs_id old"
      using assms(2) by (auto simp: upsertResource_def)
    have old: "old \<in> set (resources d)" "?k old" using Some by (auto simp: find_Some_iff)
    have one: "filter ?k (resources d) = [old]"
      using unique_by_filter_eq[OF resource_uniques(2)[OF assms(1)] old(1)] old(2) by simp
    have "filter ?k (map (\<lambda>r. if ?k r then mergeResource ?new r else r) rs)
        = map (mergeResource ?new) (filter ?k rs)" for rs
      by (induction rs) auto
    moreover have "filter (\<lambda>r. \<not> ?k r) (map (\<lambda>r. if ?k r then mergeResource ?new r else r) rs)
        = filter (\<lambda>r. \<not> ?k r) rs" for rs
      by (induction rs) auto
    ultimately show ?thesis using d' one by (simp add: keyed_def unkeyed_def)
  qed
qed

definition grantsOf :: "string \<Rightarrow> db \<Rightarrow> grantRow list" where
  "grantsOf i d = filter (\<lambda>g. gr_resource_id g = i) (grants d)"

definition grantsElsewhere :: "string \<Rightarrow> db \<Rightarrow> grantRow list" where
  "grantsElsewhere i d = filter (\<lambda>g. gr_resource_id g \<noteq> i) (grants d)"

lemma grantRowOf_resource [simp]: "gr_resource_id (grantRowOf i actor now g) = i"
  by (simp add: grantRowOf_def)

lemma saveBody_Inr:
  assumes "db_ok d" "saveBody actor draw plan d = Inr (i, d')"
  shows "db_ok d' \<and> (\<exists>r. keyed (planKey plan) d' = [r] \<and> rs_id r = i \<and> savedResource plan r)
    \<and> unkeyed (planKey plan) d' = unkeyed (planKey plan) d
    \<and> grantsOf i d' = map (grantRowOf i actor (ad_now draw)) (sp_grants plan)
    \<and> grantsElsewhere i d' = grantsElsewhere i d
    \<and> d' = d\<lparr>resources := resources d', grants := grants d'\<rparr>"
proof -
  obtain d1 where u: "upsertResource (insertedResource actor draw plan) d = Inr (i, d1)"
    and r: "replaceGrants i actor (ad_now draw) (sp_grants plan) d1 = Inr d'"
    using assms(2) by (auto simp: saveBody_def)
  note up = upsertResource_Inr[OF assms(1) u]
  let ?d = "d1\<lparr>grants := filter (\<lambda>g. gr_resource_id g \<noteq> i) (grants d1)\<rparr>"
  let ?gs = "map (grantRowOf i actor (ad_now draw)) (sp_grants plan)"
  have "db_ok ?d" using up db_ok_fewer_grants by blast
  then have "db_ok ?d \<or> ?gs \<noteq> []" by (rule disjI1)
  note both = insertGrants_Inr[OF r[unfolded replaceGrants_def] this]
  have d': "d' = ?d\<lparr>grants := grants ?d @ ?gs\<rparr>" using both by (rule conjunct1)
  have ok: "db_ok d'" using both by (rule conjunct2)
  have res: "resources d' = resources d1" by (simp add: d')
  have d1: "d1 = d\<lparr>resources := resources d1\<rparr>" using up by blast
  have g1: "grants d1 = grants d" by (subst d1) simp
  have of_i: "grantsOf i d' = ?gs" and elsewhere: "grantsElsewhere i d' = grantsElsewhere i d"
    by (simp_all add: d' grantsOf_def grantsElsewhere_def g1 filter_map comp_def)
  have rest: "d' = d\<lparr>resources := resources d', grants := grants d'\<rparr>"
  proof -
    obtain rs where rs: "d1 = d\<lparr>resources := rs\<rparr>" using d1 by blast
    show ?thesis unfolding d' rs by simp
  qed
  from up ok of_i elsewhere rest res show ?thesis by (simp add: keyed_def unkeyed_def)
qed

interpretation save_shared: transactional "\<lambda>(actor, draw, plan). saveBody actor draw plan"
  by unfold_locales (auto dest: saveBody_Inr)

lemma db_ok_deleted:
  assumes "db_ok d" "\<And>g. g \<in> set (grants d) \<Longrightarrow> Q g \<Longrightarrow> gr_resource_id g \<in> rs_id ` set (filter P (resources d))"
  shows "db_ok (d\<lparr>resources := filter P (resources d), grants := filter Q (grants d)\<rparr>)"
proof -
  have "resources_unique (filter P (resources d))" "unique_by gr_id (filter Q (grants d))"
    "resources_check (filter P (resources d))" "grants_check (filter Q (grants d))"
    using assms(1)
    by (simp_all add: db_ok_defs resources_unique_def unique_by_filter resources_check_def
        grants_check_def list_all_iff)
  moreover have "list_all (\<lambda>g. gr_resource_id g \<in> set (map rs_id (filter P (resources d)))) (filter Q (grants d))"
    using assms(2) by (auto simp: list_all_iff)
  moreover have "list_all (\<lambda>r. ref_ok (rs_organization_id r) (map og_id (organizations d))) (filter P (resources d))"
    using assms(1) by (simp add: db_ok_def foreign_keys_ok_def list_all_iff)
  ultimately show ?thesis
    using assms(1) by (simp add: db_ok_def uniques_ok_def foreign_keys_ok_def checks_ok_def)
qed

lemma deleteResources_ok:
  assumes "db_ok d"
  shows "db_ok (deleteResources P d)"
  unfolding deleteResources_def
proof (rule db_ok_deleted[OF assms])
  fix g
  assume g: "g \<in> set (grants d)" "gr_resource_id g \<notin> rs_id ` set (filter P (resources d))"
  have "gr_resource_id g \<in> rs_id ` set (resources d)"
    using assms g(1) by (simp add: db_ok_def foreign_keys_ok_def list_all_iff)
  with g(2) show "gr_resource_id g \<in> rs_id ` set (filter (\<lambda>r. \<not> P r) (resources d))" by auto
qed

interpretation delete_shared: store_handler "\<lambda>P d. (Inr () :: appError + unit, deleteResources P d)"
  by unfold_locales (simp add: deleteResources_ok)

lemma readResources_find:
  assumes "db_ok d" "r \<in> set (resources d)"
  shows "\<exists>s. List.find (\<lambda>s. sr_id s = rs_id r) (readResources env d) = Some s
    \<and> s = serializeResource d (sr_grants s) r
    \<and> mset (sr_grants s) = mset (map serializeGrant (grantsOf (rs_id r) d))"
proof -
  let ?rows = "sort_by (\<lambda>r s. row_order (ae_collate env) (resourceKey r) (resourceKey s)) (resources d)"
  let ?gs = "\<lambda>r. map serializeGrant (filter (\<lambda>g. gr_resource_id g = rs_id r) (sort_by grantOrder (grants d)))"
  have "r \<in> set ?rows" using assms(2) by simp
  then have ex: "\<exists>x\<in>set (readResources env d). sr_id x = rs_id r"
    by (auto simp: readResources_def Let_def serializeResource_def)
  then obtain s where s: "List.find (\<lambda>s. sr_id s = rs_id r) (readResources env d) = Some s"
    by (cases "List.find (\<lambda>s. sr_id s = rs_id r) (readResources env d)") (auto simp: find_None_iff)
  then have "s \<in> set (readResources env d)" "sr_id s = rs_id r" by (auto simp: find_Some_iff)
  then obtain r' where r': "r' \<in> set (resources d)" "s = serializeResource d (?gs r') r'"
    "rs_id r' = rs_id r"
    by (auto simp: readResources_def Let_def serializeResource_def)
  then have "r' = r" using unique_by_eq[OF resource_uniques(1)[OF assms(1)]] assms(2) by blast
  with r' have "s = serializeResource d (?gs r) r" by simp
  moreover have "mset (?gs r) = mset (map serializeGrant (grantsOf (rs_id r) d))"
    by (simp add: grantsOf_def mset_filter)
  ultimately show ?thesis using s by (auto simp: serializeResource_def)
qed


definition demo_docs_json :: "ocRequest \<Rightarrow> json" where
  "demo_docs_json r =
    (if rq_path r = ''api/providers/docs'' then JObj [(''service'', JStr ''docs''),
       (''displayName'', JStr ''Docs''), (''actions'', JArr [JObj [(''id'', JStr ''docs.read'')]])]
     else JArr [JObj [(''service'', JStr ''docs''), (''connectionName'', JStr ''c1''),
       (''authType'', JStr ''api_key''), (''configured'', JBool True)]])"

definition demo_docs_oc :: ocEnv where
  "demo_docs_oc = \<lparr>env_adminToken = Some ''t'', env_runtimeToken = Some ''t'',
     env_fetch = (\<lambda>r. Some (200, demo_docs_json r)), env_collate = str_le\<rparr>"

definition demo_access_env :: accessEnv where
  "demo_access_env = \<lparr>ae_oc = demo_docs_oc, ae_date = (\<lambda>s. None), ae_uuid = Some, ae_collate = str_le\<rparr>"

definition demo_access_draw :: accessDraw where
  "demo_access_draw = \<lparr>ad_resourceId = ''r1'', ad_grantId = dec, ad_now = 3\<rparr>"

definition demo_shared_input :: json where
  "demo_shared_input = JObj [(''service'', JStr ''docs''), (''connectionName'', JStr ''c1''),
     (''grants'', JArr [JObj [(''principalType'', JStr ''user''), (''principalEmail'', JStr ''A@b''),
        (''actionIds'', JArr [JStr ''docs.read''])]])]"

definition demo_shared_plan :: sharedPlan where
  "demo_shared_plan = \<lparr>sp_service = ''docs'', sp_connectionName = ''c1'', sp_displayName = ''c1'',
     sp_securityDomain = ''general'', sp_mode = Manual, sp_organizationId = None, sp_actions = [],
     sp_enabled = True, sp_grants = [\<lparr>ng_id = ''0'', ng_type = UserPrincipal, ng_issuer = ''iss'',
       ng_subject = None, ng_email = Some ''a@b'', ng_group = None, ng_actions = [''docs.read''],
       ng_starts = None, ng_expires = None, ng_enabled = True\<rparr>]\<rparr>"

lemma demo_shared_planned:
  "planShared demo_access_env demo_access_draw (demo_person ''p'') demo_shared_input empty_db
    = Inr demo_shared_plan"
  by code_simp

lemma demo_shared_saved:
  "\<exists>d'. saveBody actor demo_access_draw demo_shared_plan empty_db = Inr (''r1'', d')"
  by (simp add: saveBody_def upsertResource_def replaceGrants_def empty_db_def insertedResource_def
      demo_shared_plan_def demo_access_draw_def grantRowOf_def db_ok_defs table_uniques table_checks
      ref_ok_def resourceKey_def)

lemma demo_now: "ad_now demo_access_draw = 3"
  by (simp add: demo_access_draw_def)

lemma demo_email: "ci_email (demo_person s) = ''a@b''"
  by (simp add: demo_person_def)


section \<open>Deletion\<close>

text \<open>Deleting a shared connection by its connection removes the resource with all its grants,
  keeps every other resource and every grant of another resource, and leaves a consistent store;
  for a WeCom bot the cached visibility answers are dropped.\<close>

theorem shared_delete_complete:
  assumes "db_ok (fst st)"
  shows "let st' = deleteSharedConnectorResourceByConnection service connectionName st in
     keyed (service, connectionName) (fst st') = []
   \<and> unkeyed (service, connectionName) (fst st') = unkeyed (service, connectionName) (fst st)
   \<and> grants (fst st') = filter (\<lambda>g. gr_resource_id g
        \<in> rs_id ` set (unkeyed (service, connectionName) (fst st))) (grants (fst st))
   \<and> db_ok (fst st') \<and> (service = ''wecom_bot'' \<longrightarrow> snd st' = [])"
proof -
  let ?P = "\<lambda>r. rs_service r = service \<and> rs_connection_name r = connectionName"
  have P: "?P r \<longleftrightarrow> resourceKey r = (service, connectionName)" for r by (auto simp: resourceKey_def)
  have ids: "gr_resource_id g \<notin> rs_id ` set (filter ?P (resources (fst st)))
      \<longleftrightarrow> gr_resource_id g \<in> rs_id ` set (unkeyed (service, connectionName) (fst st))"
    if "g \<in> set (grants (fst st))" for g
  proof -
    have "gr_resource_id g \<in> rs_id ` set (resources (fst st))"
      using assms that by (simp add: db_ok_def foreign_keys_ok_def list_all_iff)
    moreover have "r = s" if "r \<in> set (resources (fst st))" "s \<in> set (resources (fst st))" "rs_id r = rs_id s"
      for r s using unique_by_eq[OF resource_uniques(1)[OF assms]] that by blast
    ultimately show ?thesis unfolding unkeyed_def P by (auto simp: image_iff) (metis (full_types))+
  qed
  have "filter (\<lambda>g. gr_resource_id g \<notin> rs_id ` set (filter ?P (resources (fst st)))) (grants (fst st))
      = filter (\<lambda>g. gr_resource_id g \<in> rs_id ` set (unkeyed (service, connectionName) (fst st)))
          (grants (fst st))"
    by (rule filter_cong[OF refl ids])
  with deleteResources_ok[OF assms, of ?P] show ?thesis
    by (simp add: deleteSharedConnectorResourceByConnection_def deleteResources_def Let_def keyed_def
        unkeyed_def P filter_empty_conv resetWeComVisibilityCache_def)
qed

theorem shared_delete_complete_witness:
  "resources (fst (deleteSharedConnectorResourceByConnection ''docs'' ''c1'' (empty_db, []))) = []"
proof -
  have "db_ok (fst (empty_db, []))" by (simp add: empty_db_ok)
  from shared_delete_complete[OF this, of "''docs''" "''c1''"] show ?thesis
    by (simp add: Let_def unkeyed_def empty_db_def deleteSharedConnectorResourceByConnection_def
        deleteResources_def)
qed

section \<open>The connection route\<close>

lemma planShared_without_organization:
  assumes "jget input ''authorizationMode'' = JStr ''wecom_visibility''"
    "jget input ''wecomOrganizationId'' = JUndef"
  shows "\<not> is_ok (planShared env draw identity input d)"
  using assms
  by (auto simp: is_ok_iff planShared_def requestedMode_def sharedOrganization_def requiredText_def)

text \<open>The connection route cannot save a WeCom bot: it asks for sharing by visibility and never
  passes the organisation, so whatever the request, the answer is an error, the store and the
  cache are unchanged, and a connection that did not exist before is deleted again.\<close>

theorem put_bot_connection_never_succeeds:
  "\<exists>status effects. putConnectionRoute env draw auth ''wecom_bot'' payload st = (Inl status, effects, st)"
proof -
  have fails: "\<exists>e. saveSharedConnectorResource (accessEnv.truncate env) draw identity
      (sharedBotInput connectionName actionIds body connection) st = (Inl e, st)"
    for identity connectionName actionIds body connection
  proof -
    let ?in = "sharedBotInput connectionName actionIds body connection"
    have "\<not> is_ok (planShared (accessEnv.truncate env) draw identity ?in (fst st))"
      by (rule planShared_without_organization) (simp_all add: sharedBotInput_def Let_def)
    then show ?thesis
      by (cases "planShared (accessEnv.truncate env) draw identity ?in (fst st)")
        (auto simp: saveSharedConnectorResource_def)
  qed
  show ?thesis
  proof (cases "bindE auth (\<lambda>identity. bindE (readJsonRecord payload) (\<lambda>body.
      bindE (connectionBody env ''wecom_bot'' body) (\<lambda>parsed. Inr (identity, body, parsed))))")
    case (Inl e)
    then show ?thesis by (simp add: putConnectionRoute_def)
  next
    case (Inr v)
    obtain identity body connectionName authType actionIds previous vals where
      v: "v = (identity, body, connectionName, authType, actionIds, previous, vals)" by (cases v) auto
    let ?save = "saveConnectorConnection (ce_save env) ''wecom_bot'' (JObj [
        (''connectionName'', JStr connectionName), (''authType'', JStr (authTypeName authType)),
        (''values'', vals)])"
    show ?thesis
    proof (cases ?save)
      case (Inl e)
      with Inr v show ?thesis by (simp add: putConnectionRoute_def)
    next
      case saved: (Inr c)
      show ?thesis
      proof (cases c)
        case None
        with saved Inr v show ?thesis by (simp add: putConnectionRoute_def)
      next
        case (Some connection)
        from fails[of identity connectionName actionIds body connection] obtain e where
          "saveSharedConnectorResource (accessEnv.truncate env) draw identity
            (sharedBotInput connectionName actionIds body connection) st = (Inl e, st)" by blast
        with Some saved Inr v show ?thesis by (simp add: putConnectionRoute_def)
      qed
    qed
  qed
qed

end
