(* ===== verification/Bot_Migration.thy ===== *)
theory Bot_Migration
  imports Bot_Properties Connector_Access
begin

text \<open>
  The one-off migration of the WeCom bots that earlier releases stored as applications
  (migrateLegacyWeComBotIntegrations of src/ai-console/src/lib/server/integrations.ts). Every such
  row, oldest first, is saved as a connection of the OpenConnector service and turned, in one
  transaction, into a shared resource open to the users the organisation makes visible; a failure
  stops the loop and the next caller starts again with the rows that are left. The service may
  answer differently at every call, so the environment has one service per call site.
\<close>

section \<open>Definitions\<close>

datatype migrationCall = MigrationProvider | MigrationSave string | MigrationDelete string string

record migrationEnv =
  mg_oc :: "migrationCall \<Rightarrow> ocEnv"
  mg_crypto :: crypto
  mg_key :: "string option"

definition migratedWeComBotConnectionName :: "string \<Rightarrow> string" where
  "migratedWeComBotConnectionName applicationId =
    ''wecom_bot_'' @ filter (\<lambda>c. c \<noteq> CHR ''-'') applicationId"

definition created_before :: "int \<times> string \<Rightarrow> int \<times> string \<Rightarrow> bool" where
  "created_before x y \<longleftrightarrow> fst x < fst y \<or> fst x = fst y \<and> str_le (snd x) (snd y)"

definition legacyBots :: "db \<Rightarrow> applicationRow list" where
  "legacyBots d = sort_by
     (\<lambda>a b. created_before (ap_created_at a, ap_id a) (ap_created_at b, ap_id b))
     (filter (\<lambda>a. ap_platform a = WecomBot) (applications d))"

definition migrationOrganization :: "db \<Rightarrow> string option" where
  "migrationOrganization d = (case sort_by
       (\<lambda>g h. created_before (og_created_at g, og_id g) (og_created_at h, og_id h))
       (filter organizationConfigured (organizations d)) of
     [] \<Rightarrow> None | g # gs \<Rightarrow> Some (og_id g))"

definition migratedActions :: "string list \<Rightarrow> applicationRow \<Rightarrow> string list" where
  "migratedActions available row =
    filter (\<lambda>i. i \<in> set available \<and> i \<notin> set WECOM_BOT_SYSTEM_ONLY_ACTION_IDS)
      (storedActionIds (ap_action_ids row))"

definition migrationPlan :: "string list \<Rightarrow> string \<Rightarrow> applicationRow \<Rightarrow> sharedPlan" where
  "migrationPlan available organizationId row =
    \<lparr>sp_service = ''wecom_bot'', sp_connectionName = migratedWeComBotConnectionName (ap_id row),
     sp_displayName = ap_app_name row, sp_securityDomain = ''wecom'', sp_mode = WecomVisibility,
     sp_organizationId = Some organizationId, sp_actions = migratedActions available row,
     sp_enabled = (ap_active row \<and> migratedActions available row \<noteq> []), sp_grants = []\<rparr>"

definition migrationResource :: "string list \<Rightarrow> string \<Rightarrow> int \<Rightarrow> applicationRow \<Rightarrow> resourceRow" where
  "migrationResource available organizationId now row = insertedResource ''migration:wecom_bot''
     \<lparr>ad_resourceId = ap_id row, ad_grantId = (\<lambda>n. []), ad_now = now\<rparr>
     (migrationPlan available organizationId row)"

text \<open>The credential the row keeps, saved under the new name.\<close>

definition saveMigratedConnection :: "migrationEnv \<Rightarrow> applicationRow \<Rightarrow> appError + unit" where
  "saveMigratedConnection env row =
    (if ap_secret row = [] then Inl (storeError (StoreMsg ''bot_credential_incomplete'') 409)
     else bindE (decryptIntegrationSecret (mg_crypto env) (mg_key env) (ap_secret row)) (\<lambda>secret.
       bindE (liftConnector (saveConnectorConnection (mg_oc env (MigrationSave (ap_id row))) ''wecom_bot''
         (JObj [(''connectionName'', JStr (migratedWeComBotConnectionName (ap_id row))),
           (''authType'', JStr ''custom_credential''),
           (''values'', JObj [(''botId'', JStr (ap_app_id row)), (''secret'', JStr secret)])])))
       (\<lambda>connection. case connection of
          Some c \<Rightarrow> if cc_configured c then Inr ()
            else Inl (storeError (StoreMsg ''bot_not_migrated'') 502)
        | None \<Rightarrow> Inl (storeError (StoreMsg ''bot_not_migrated'') 502))))"

definition dropApplication :: "string \<Rightarrow> db \<Rightarrow> appError + db" where
  "dropApplication applicationId d =
    bindE (liftDatabase (checked (d\<lparr>bindings :=
        filter (\<lambda>b. bi_application_id b \<noteq> Some applicationId) (bindings d)\<rparr>))) (\<lambda>d1.
      liftDatabase (checked (d1\<lparr>applications :=
        filter (\<lambda>a. ap_id a \<noteq> applicationId) (applications d1)\<rparr>)))"

definition migrationBody :: "resourceRow \<Rightarrow> string \<Rightarrow> db \<Rightarrow> appError + unit \<times> db" where
  "migrationBody resource applicationId d =
    bindE (upsertResource resource d) (\<lambda>(_, d1).
    bindE (dropApplication applicationId d1) (\<lambda>d2. Inr ((), d2)))"

text \<open>The connections the row's employees had; a failing removal is ignored.\<close>

definition staleConnections :: "string \<Rightarrow> db \<Rightarrow> string list" where
  "staleConnections applicationId d = map bi_connection_name (filter (\<lambda>b.
     bi_application_id b = Some applicationId \<and> bi_service b = ''wecom_bot''
     \<and> bi_connection_name b \<noteq> migratedWeComBotConnectionName applicationId) (bindings d))"

definition migrateBot ::
    "migrationEnv \<Rightarrow> int \<Rightarrow> string list \<Rightarrow> string \<Rightarrow> applicationRow \<Rightarrow> db
      \<Rightarrow> (appError + unit) \<times> db \<times> botEffect list" where
  "migrateBot env now available organizationId row d =
    (case saveMigratedConnection env row of
       Inl e \<Rightarrow> (Inl e, d, [])
     | Inr u \<Rightarrow>
         (let saved = SaveIssued (migratedWeComBotConnectionName (ap_id row));
              stale = staleConnections (ap_id row) d in
          case transaction (migrationBody (migrationResource available organizationId now row)
              (ap_id row)) d of
            (Inl e, d') \<Rightarrow> (Inl e, d', [saved])
          | (Inr v, d') \<Rightarrow> (Inr (), d', saved # map DeleteIssued stale)))"

fun migrateBots ::
    "migrationEnv \<Rightarrow> int \<Rightarrow> string list \<Rightarrow> string \<Rightarrow> applicationRow list \<Rightarrow> db
      \<Rightarrow> (appError + unit) \<times> db \<times> botEffect list" where
  "migrateBots env now available organizationId [] d = (Inr (), d, [])"
| "migrateBots env now available organizationId (row # rows) d =
    (case migrateBot env now available organizationId row d of
       (Inl e, d', es) \<Rightarrow> (Inl e, d', es)
     | (Inr u, d', es) \<Rightarrow>
         (case migrateBots env now available organizationId rows d' of
            (r, d'', fs) \<Rightarrow> (r, d'', es @ fs)))"

definition availableBotActions :: "migrationEnv \<Rightarrow> appError + string list" where
  "availableBotActions env =
    bindE (liftConnector (getConnectorProvider (mg_oc env MigrationProvider) ''wecom_bot''))
      (\<lambda>provider. Inr (map ca_id (filter (\<lambda>a. \<not> catalog_only a) (cp_actions provider))))"

definition runBotMigration ::
    "migrationEnv \<Rightarrow> int \<Rightarrow> db \<Rightarrow> (appError + unit) \<times> db \<times> botEffect list" where
  "runBotMigration env now d =
    (if legacyBots d = [] then (Inr (), d, [])
     else case availableBotActions env of
       Inl e \<Rightarrow> (Inl e, d, [])
     | Inr available \<Rightarrow>
         (case migrationOrganization d of
            None \<Rightarrow> (Inl (storeError (StoreMsg ''organization_required_for_migration'') 409), d, [])
          | Some organizationId \<Rightarrow> migrateBots env now available organizationId (legacyBots d) d))"

text \<open>The process keeps the promise of the migration that succeeded; a failed one is forgotten.\<close>

definition migrateLegacyWeComBotIntegrations ::
    "migrationEnv \<Rightarrow> int \<Rightarrow> bool \<Rightarrow> db \<Rightarrow> (appError + unit) \<times> bool \<times> db \<times> botEffect list" where
  "migrateLegacyWeComBotIntegrations env now settled d =
    (if settled then (Inr (), True, d, [])
     else case runBotMigration env now d of
       (Inl e, d', es) \<Rightarrow> (Inl e, False, d', es)
     | (Inr u, d', es) \<Rightarrow> (Inr (), True, d', es))"

section \<open>The new names are distinct\<close>

definition uuid_shape :: "string \<Rightarrow> bool" where
  "uuid_shape s \<longleftrightarrow> map length (js_split (CHR ''-'') s) = [8, 4, 4, 4, 12]"

lemma concat_js_split: "concat (js_split d s) = filter (\<lambda>c. c \<noteq> d) s"
  by (induction s) (auto split: list.split)

lemma concat_lengths_inj:
  "map length xs = map length ys \<Longrightarrow> concat xs = concat ys \<Longrightarrow> xs = ys"
proof (induction xs arbitrary: ys)
  case (Cons x xs)
  then obtain y zs where "ys = y # zs" by (cases ys) auto
  with Cons show ?case by auto
qed simp

lemma migrated_name_inj:
  assumes "uuid_shape a" "uuid_shape b"
    and eq: "migratedWeComBotConnectionName a = migratedWeComBotConnectionName b"
  shows "a = b"
proof -
  have "map length (js_split (CHR ''-'') a) = map length (js_split (CHR ''-'') b)"
    using assms(1,2) by (simp add: uuid_shape_def)
  moreover have "concat (js_split (CHR ''-'') a) = concat (js_split (CHR ''-'') b)"
    using eq by (simp add: migratedWeComBotConnectionName_def concat_js_split)
  ultimately have "js_split (CHR ''-'') a = js_split (CHR ''-'') b" by (rule concat_lengths_inj)
  then show ?thesis by (metis js_join_split)
qed

lemma migrated_name_ok:
  assumes "uuid_shape a" "list_all hex_any (filter (\<lambda>c. c \<noteq> CHR ''-'') a)"
  shows "valid_connection_name (migratedWeComBotConnectionName a)"
proof -
  have "length (filter (\<lambda>c. c \<noteq> CHR ''-'') a) = sum_list (map length (js_split (CHR ''-'') a))"
    by (metis concat_js_split length_concat)
  then have "length (filter (\<lambda>c. c \<noteq> CHR ''-'') a) = 32"
    using assms(1) by (simp add: uuid_shape_def)
  moreover have "is_alnum c" if "hex_any c" for c
    using that by (auto simp: hex_any_def is_alnum_def)
  ultimately show ?thesis
    using assms(2) by (auto simp: valid_connection_name_def migratedWeComBotConnectionName_def
        list_all_iff is_alnum_def is_lower_def is_digit_def code_unit_def)
qed


section \<open>The order of the rows\<close>

context comparator
begin

lemma insert_front: "list_all (le x) ys \<Longrightarrow> insert_by le x ys = x # ys"
  by (cases ys) auto

lemma filter_insert_by:
  "sorted_wrt le ys \<Longrightarrow>
    filter P (insert_by le x ys) = (if P x then insert_by le x (filter P ys) else filter P ys)"
proof (induction ys)
  case (Cons y ys)
  have "le x y \<Longrightarrow> list_all (le x) (filter P ys)"
    using Cons.prems by (auto simp: list_all_iff intro: le_trans)
  with Cons show ?case by (auto simp: insert_front)
qed simp

lemma filter_sort_by: "filter P (sort_by le xs) = sort_by le (filter P xs)"
  by (induction xs) (simp_all add: filter_insert_by sorted_sort_by)

end

lemma created_before_total: "created_before x y \<or> created_before y x"
  using str_le_total[of "snd x" "snd y"] by (auto simp: created_before_def)

lemma created_before_trans: "created_before x y \<Longrightarrow> created_before y z \<Longrightarrow> created_before x z"
  using str_le_trans[of "snd x" "snd y" "snd z"] by (auto simp: created_before_def)

interpretation bot_order: comparator
  "\<lambda>a b. created_before (ap_created_at a, ap_id a) (ap_created_at b, ap_id b)"
  by unfold_locales (rule created_before_total, erule created_before_trans)

lemma set_legacyBots [simp]:
  "set (legacyBots d) = {a \<in> set (applications d). ap_platform a = WecomBot}"
  by (simp add: legacyBots_def)

lemma legacyBots_without:
  "legacyBots (d\<lparr>applications := filter P (applications d)\<rparr>) = filter P (legacyBots d)"
  by (simp add: legacyBots_def bot_order.filter_sort_by filter_filter conj_commute)

lemma distinct_legacy_ids:
  assumes "db_ok d"
  shows "distinct (map ap_id (legacyBots d))"
proof -
  have u: "unique_by ap_id (applications d)"
    using assms by (simp add: db_ok_def uniques_ok_def applications_unique_def)
  then have "distinct (applications d)" "inj_on ap_id (set (applications d))"
    by (simp_all add: unique_by_def distinct_map)
  then show ?thesis
    by (auto simp: distinct_map legacyBots_def intro: inj_on_subset)
qed

lemma filter_drop_keys:
  assumes "distinct (map f xs)"
  shows "filter (\<lambda>x. f x \<notin> f ` set (take k xs)) xs = drop k xs"
proof -
  have split: "xs = take k xs @ drop k xs" by simp
  have "f ` set (take k xs) \<inter> f ` set (drop k xs) = {}"
    using assms by (subst (asm) split) (simp only: map_append distinct_append set_map)
  then have "filter (\<lambda>x. f x \<notin> f ` set (take k xs)) (drop k xs) = drop k xs"
    by (auto simp: filter_id_conv)
  moreover have "filter (\<lambda>x. f x \<notin> f ` set (take k xs)) (take k xs) = []"
    by (auto simp: filter_empty_conv)
  ultimately show ?thesis by (subst (2) split) (simp only: filter_append append_Nil)
qed

section \<open>What the migration of some rows leaves\<close>

definition botKey :: "applicationRow \<Rightarrow> string \<times> string" where
  "botKey row = (''wecom_bot'', migratedWeComBotConnectionName (ap_id row))"

text \<open>The rows and their bindings are gone, each has its resource, nothing else changed.\<close>

definition migrated :: "string list \<Rightarrow> string \<Rightarrow> applicationRow list \<Rightarrow> db \<Rightarrow> db \<Rightarrow> bool" where
  "migrated available organizationId rows d d' \<longleftrightarrow> db_ok d'
     \<and> d' = d\<lparr>resources := resources d',
         bindings := filter (\<lambda>b. bi_application_id b \<notin> Some ` ap_id ` set rows) (bindings d),
         applications := filter (\<lambda>a. ap_id a \<notin> ap_id ` set rows) (applications d)\<rparr>
     \<and> list_all (\<lambda>row. \<exists>r. keyed (botKey row) d' = [r]
         \<and> savedResource (migrationPlan available organizationId row) r) rows
     \<and> filter (\<lambda>r. resourceKey r \<notin> botKey ` set rows) (resources d')
       = filter (\<lambda>r. resourceKey r \<notin> botKey ` set rows) (resources d)"

text \<open>What a settled row is: its name and its switch are kept, its users are those the organisation makes
  visible, its actions those of the row that the service offers and the system does not keep.\<close>

definition settledBot :: "string list \<Rightarrow> string \<Rightarrow> applicationRow \<Rightarrow> resourceRow \<Rightarrow> bool" where
  "settledBot available organizationId row r \<longleftrightarrow> rs_display_name r = ap_app_name row
     \<and> rs_mode r = WecomVisibility \<and> rs_organization_id r = Some organizationId
     \<and> set (storedActionIds (rs_action_ids r))
       = set (storedActionIds (ap_action_ids row)) \<inter> set available - set WECOM_BOT_SYSTEM_ONLY_ACTION_IDS
     \<and> (rs_enabled r \<longleftrightarrow> ap_active row \<and> storedActionIds (rs_action_ids r) \<noteq> [])"

lemma migrated_settled:
  assumes "migrated available organizationId rows d d'"
  shows "list_all (\<lambda>row. \<exists>r. keyed (botKey row) d' = [r] \<and> settledBot available organizationId row r) rows"
proof -
  have "settledBot available organizationId row r" if "savedResource (migrationPlan available organizationId row) r" for row r
  proof -
    have "storedActionIds (rs_action_ids r) = migratedActions available row"
    proof -
      have "storedActionIds (JArr (map JStr (migratedActions available row))) = dedup (migratedActions available row)"
        by (rule storedActionIds_strings) (auto simp: migratedActions_def dest: storedActionIds_trimmed)
      also have "\<dots> = migratedActions available row" by (simp add: migratedActions_def dedup_distinct)
      finally show ?thesis using that by (simp add: savedResource_def migrationPlan_def)
    qed
    with that show ?thesis
      by (auto simp: settledBot_def savedResource_def migrationPlan_def migratedActions_def)
  qed
  with assms show ?thesis unfolding migrated_def list_all_iff by blast
qed

lemma migrated_none: "db_ok d \<Longrightarrow> migrated available organizationId [] d d"
  by (simp add: migrated_def)

lemma migrated_tables:
  assumes "migrated available organizationId rows d d'"
  shows "bindings d' = filter (\<lambda>b. bi_application_id b \<notin> Some ` ap_id ` set rows) (bindings d)"
    "applications d' = filter (\<lambda>a. ap_id a \<notin> ap_id ` set rows) (applications d)"
proof -
  have e: "d' = d\<lparr>resources := resources d',
      bindings := filter (\<lambda>b. bi_application_id b \<notin> Some ` ap_id ` set rows) (bindings d),
      applications := filter (\<lambda>a. ap_id a \<notin> ap_id ` set rows) (applications d)\<rparr>"
    using assms unfolding migrated_def by (elim conjE)
  show "bindings d' = filter (\<lambda>b. bi_application_id b \<notin> Some ` ap_id ` set rows) (bindings d)"
    by (subst e) simp
  show "applications d' = filter (\<lambda>a. ap_id a \<notin> ap_id ` set rows) (applications d)"
    by (subst e) simp
qed

lemma migrationPlan_key [simp]: "planKey (migrationPlan available organizationId row) = botKey row"
  by (simp add: planKey_def migrationPlan_def botKey_def)

lemma dropApplication_Inr:
  "dropApplication i d = Inr d' \<longleftrightarrow>
    db_ok (d\<lparr>bindings := filter (\<lambda>b. bi_application_id b \<noteq> Some i) (bindings d)\<rparr>) \<and> db_ok d'
    \<and> d' = d\<lparr>bindings := filter (\<lambda>b. bi_application_id b \<noteq> Some i) (bindings d),
        applications := filter (\<lambda>a. ap_id a \<noteq> i) (applications d)\<rparr>"
  by (auto simp: dropApplication_def)

lemma keyed_resources: "resources d = resources d' \<Longrightarrow> keyed k d = keyed k d'"
  by (simp add: keyed_def)

lemma migrationBody_Inr:
  assumes "db_ok d"
    and "migrationBody (migrationResource available organizationId now row) (ap_id row) d = Inr (u, d')"
  shows "migrated available organizationId [row] d d'"
proof -
  obtain i d1 where up: "upsertResource (migrationResource available organizationId now row) d = Inr (i, d1)"
    and drop: "dropApplication (ap_id row) d1 = Inr d'"
    using assms(2) by (auto simp: migrationBody_def)
  note u = upsertResource_Inr[OF assms(1) up[unfolded migrationResource_def], simplified]
  then have d1: "d1 = d\<lparr>resources := resources d1\<rparr>" by simp
  then have tables: "bindings d1 = bindings d" "applications d1 = applications d"
    by (metis db.simps(1,2) db.surjective db.update_convs(7))+
  note dr = conjunct2[OF iffD1[OF dropApplication_Inr drop]]
  note d' = conjunct1[OF dr] conjunct2[OF dr]
  from d'(2) have res: "resources d' = resources d1" by simp
  have "d' = d\<lparr>resources := resources d',
      bindings := filter (\<lambda>b. bi_application_id b \<noteq> Some (ap_id row)) (bindings d),
      applications := filter (\<lambda>a. ap_id a \<noteq> ap_id row) (applications d)\<rparr>"
    using d' d1 tables res by (metis db.update_convs(1,2,7))
  with u d'(1) res keyed_resources[OF res] show ?thesis
    by (auto simp: migrated_def unkeyed_def)
qed

lemma migrateBot_Inl:
  "migrateBot env now available organizationId row d = (Inl e, d', es) \<Longrightarrow> d' = d"
  by (auto simp: migrateBot_def Let_def transaction_def split: sum.split_asm prod.split_asm)

lemma migrateBot_Inr:
  assumes "db_ok d" "migrateBot env now available organizationId row d = (Inr u, d', es)"
  shows "migrated available organizationId [row] d d'
    \<and> es = SaveIssued (snd (botKey row)) # map DeleteIssued (staleConnections (ap_id row) d)
    \<and> saveMigratedConnection env row = Inr ()"
  using assms
  by (auto simp: migrateBot_def Let_def botKey_def transaction_result dest: migrationBody_Inr
      split: sum.split_asm prod.split_asm)

lemma migrated_Cons:
  assumes one: "migrated available organizationId [row] d d1"
    and rest: "migrated available organizationId rows d1 d2"
    and new: "botKey row \<notin> botKey ` set rows"
  shows "migrated available organizationId (row # rows) d d2"
proof -
  have d1: "d1 = d\<lparr>resources := resources d1,
      bindings := filter (\<lambda>b. bi_application_id b \<noteq> Some (ap_id row)) (bindings d),
      applications := filter (\<lambda>a. ap_id a \<noteq> ap_id row) (applications d)\<rparr>"
    and d2: "d2 = d1\<lparr>resources := resources d2,
      bindings := filter (\<lambda>b. bi_application_id b \<notin> Some ` ap_id ` set rows) (bindings d1),
      applications := filter (\<lambda>a. ap_id a \<notin> ap_id ` set rows) (applications d1)\<rparr>"
    using one rest by (simp_all add: migrated_def)
  have same: "filter (\<lambda>r. resourceKey r \<notin> botKey ` set rows) (resources d2)
      = filter (\<lambda>r. resourceKey r \<notin> botKey ` set rows) (resources d1)"
    "filter (\<lambda>r. resourceKey r \<noteq> botKey row) (resources d1)
      = filter (\<lambda>r. resourceKey r \<noteq> botKey row) (resources d)"
    using one rest by (simp_all add: migrated_def)
  have both: "filter (\<lambda>r. resourceKey r \<notin> botKey ` set (row # rows)) xs
      = filter (\<lambda>r. resourceKey r \<noteq> botKey row) (filter (\<lambda>r. resourceKey r \<notin> botKey ` set rows) xs)" for xs
    by (induction xs) auto
  have swap: "filter (\<lambda>r. resourceKey r \<noteq> botKey row) (filter (\<lambda>r. resourceKey r \<notin> botKey ` set rows) xs)
      = filter (\<lambda>r. resourceKey r \<notin> botKey ` set rows) (filter (\<lambda>r. resourceKey r \<noteq> botKey row) xs)" for xs
    by (simp add: conj_commute)
  have others: "filter (\<lambda>r. resourceKey r \<notin> botKey ` set (row # rows)) (resources d2)
      = filter (\<lambda>r. resourceKey r \<notin> botKey ` set (row # rows)) (resources d)"
    unfolding both same(1) unfolding swap same(2) ..
  have kept: "keyed (botKey row) d2 = keyed (botKey row) d1"
  proof -
    have split: "keyed (botKey row) e = filter (\<lambda>r. resourceKey r = botKey row)
        (filter (\<lambda>r. resourceKey r \<notin> botKey ` set rows) (resources e))" for e
      unfolding keyed_def filter_filter using new by (intro filter_cong refl) metis
    show ?thesis unfolding split same(1) ..
  qed
  have "d2 = d\<lparr>resources := resources d2,
      bindings := filter (\<lambda>b. bi_application_id b \<notin> Some ` ap_id ` set (row # rows)) (bindings d),
      applications := filter (\<lambda>a. ap_id a \<notin> ap_id ` set (row # rows)) (applications d)\<rparr>"
    by (subst d2, subst (1 2 3) d1) (auto intro: filter_cong)
  with one rest kept others show ?thesis by (simp add: migrated_def)
qed

definition bot_log :: "applicationRow list \<Rightarrow> db \<Rightarrow> botEffect list \<Rightarrow> bool" where
  "bot_log rows d es \<longleftrightarrow> list_all (\<lambda>row. SaveIssued (snd (botKey row)) \<in> set es) rows
     \<and> list_all (\<lambda>e. case e of SaveIssued n \<Rightarrow> True
         | DeleteIssued n \<Rightarrow> list_ex (\<lambda>row. n \<in> set (staleConnections (ap_id row) d)) rows) es"

lemma bot_log_Cons:
  assumes "bot_log rows d1 es" "migrated available organizationId [row] d d1"
  shows "bot_log (row # rows) d
    (SaveIssued (snd (botKey row)) # map DeleteIssued (staleConnections (ap_id row) d) @ es)"
proof -
  have "set (staleConnections i d1) \<subseteq> set (staleConnections i d)" for i
    by (auto simp: staleConnections_def migrated_tables(1)[OF assms(2)])
  then have "list_all (\<lambda>e. case e of SaveIssued n \<Rightarrow> True
      | DeleteIssued n \<Rightarrow> list_ex (\<lambda>row. n \<in> set (staleConnections (ap_id row) d)) (row # rows)) es"
    using assms(1) by (fastforce simp: bot_log_def list_all_iff list_ex_iff split: botEffect.split)
  with assms(1) show ?thesis by (auto simp: bot_log_def list_all_iff)
qed

lemma migrateBots_prefix:
  assumes "db_ok d" "distinct (map botKey rows)"
    and "migrateBots env now available organizationId rows d = (r, d', es)"
  shows "\<exists>k\<le>length rows. (r = Inr () \<longleftrightarrow> k = length rows)
    \<and> migrated available organizationId (take k rows) d d' \<and> bot_log (take k rows) d es"
  using assms
proof (induction rows arbitrary: d d' es)
  case Nil
  then show ?case by (auto simp: migrated_none bot_log_def)
next
  case (Cons row rows)
  obtain r1 d1 es1 where one: "migrateBot env now available organizationId row d = (r1, d1, es1)"
    by (cases "migrateBot env now available organizationId row d")
  show ?case
  proof (cases r1)
    case (Inl e)
    with one Cons.prems(3) have out: "r = Inl e" "d' = d1" "es = es1" by simp_all
    have "d1 = d" using migrateBot_Inl one Inl by blast
    moreover have "bot_log [] d es1"
      using one Inl by (auto simp: bot_log_def migrateBot_def Let_def split: sum.split_asm prod.split_asm)
    ultimately show ?thesis
      using out Cons.prems(1) by (intro exI[of _ 0]) (simp add: migrated_none)
  next
    case (Inr u)
    note step = migrateBot_Inr[OF Cons.prems(1) one[unfolded Inr]]
    obtain d2 es2 where rest: "migrateBots env now available organizationId rows d1 = (r, d2, es2)"
      and out: "d' = d2" "es = es1 @ es2"
      using Cons.prems(3) one Inr by (auto split: prod.split_asm)
    have "db_ok d1" using step by (simp add: migrated_def)
    from Cons.IH[OF this _ rest] Cons.prems(2) obtain k where k: "k \<le> length rows"
      "r = Inr () \<longleftrightarrow> k = length rows" "migrated available organizationId (take k rows) d1 d2"
      "bot_log (take k rows) d1 es2" by auto
    have "botKey row \<notin> botKey ` set (take k rows)"
      using Cons.prems(2) by (auto dest: in_set_takeD)
    from migrated_Cons[OF conjunct1[OF step] k(3) this] bot_log_Cons[OF k(4) conjunct1[OF step]] k(1,2) out step
    show ?thesis by (intro exI[of _ "Suc k"]) simp
  qed
qed

section \<open>The whole migration\<close>

lemma migrationOrganization_Some:
  "migrationOrganization d = Some i \<Longrightarrow>
    \<exists>g\<in>set (organizations d). og_id g = i \<and> organizationConfigured g"
proof -
  let ?gs = "sort_by (\<lambda>g h. created_before (og_created_at g, og_id g) (og_created_at h, og_id h))
    (filter organizationConfigured (organizations d))"
  assume "migrationOrganization d = Some i"
  then obtain g gs where "?gs = g # gs" "og_id g = i"
    by (auto simp: migrationOrganization_def split: list.split_asm)
  then have "g \<in> set ?gs" "og_id g = i" by simp_all
  then show ?thesis unfolding set_sort_by by auto
qed

lemma distinct_bot_keys:
  assumes "db_ok d" "list_all (\<lambda>a. uuid_shape (ap_id a)) (legacyBots d)"
  shows "distinct (map botKey (legacyBots d))"
proof -
  have "inj_on ap_id (set (legacyBots d))" "distinct (legacyBots d)"
    using distinct_legacy_ids[OF assms(1)] by (simp_all only: distinct_map)
  moreover have "inj_on botKey (set (legacyBots d))"
  proof (rule inj_onI)
    fix a b assume ab: "a \<in> set (legacyBots d)" "b \<in> set (legacyBots d)" "botKey a = botKey b"
    then have "ap_id a = ap_id b"
      using assms(2) migrated_name_inj unfolding botKey_def list_all_iff by blast
    with ab \<open>inj_on ap_id (set (legacyBots d))\<close> show "a = b" by (simp only: inj_on_def)
  qed
  ultimately show ?thesis by (simp only: distinct_map)
qed

lemma migrated_legacy:
  assumes "db_ok d" "migrated available organizationId (take k (legacyBots d)) d d'"
  shows "legacyBots d' = drop k (legacyBots d)"
proof -
  have "legacyBots d' = filter (\<lambda>a. ap_id a \<notin> ap_id ` set (take k (legacyBots d))) (legacyBots d)"
    unfolding legacyBots_def[of d'] migrated_tables(2)[OF assms(2)] filter_filter
    by (subst (2) legacyBots_def) (simp add: bot_order.filter_sort_by conj_commute)
  also have "\<dots> = drop k (legacyBots d)"
    by (rule filter_drop_keys[OF distinct_legacy_ids[OF assms(1)]])
  finally show ?thesis .
qed

text \<open>C34: A run of the migration settles a prefix of the legacy bots, oldest first, and leaves the
  rest as it was: each settled row is gone with its bindings and has exactly one shared resource
  under its new name, open to the users a configured WeCom organisation makes visible, with those
  of its actions that the service offers and that are not reserved to the system; its connection
  was saved before and the only connections deleted are those its employees had. No other table
  and no other resource changes. The run succeeds exactly if no legacy bot is left, and a later run
  then does nothing.\<close>

theorem bot_migration_settles_prefix:
  assumes "db_ok d" "list_all (\<lambda>a. uuid_shape (ap_id a)) (legacyBots d)"
    and "runBotMigration env now d = (r, d', es)"
  shows "\<exists>k available organizationId.
      migrated available organizationId (take k (legacyBots d)) d d' \<and> bot_log (take k (legacyBots d)) d es
      \<and> legacyBots d' = drop k (legacyBots d)
      \<and> list_all (\<lambda>row. \<exists>r. keyed (botKey row) d' = [r] \<and> settledBot available organizationId row r) (take k (legacyBots d))
      \<and> (k = 0 \<or> availableBotActions env = Inr available
          \<and> (\<exists>g\<in>set (organizations d). og_id g = organizationId \<and> organizationConfigured g))
      \<and> (r = Inr () \<longleftrightarrow> legacyBots d' = [])
      \<and> list_all (\<lambda>(env', now'). legacyBots d' \<noteq> [] \<or> runBotMigration env' now' d' = (Inr (), d', [])) later"
proof -
  have again: "legacyBots d' \<noteq> [] \<or> runBotMigration env' now' d' = (Inr (), d', [])" for env' now'
    by (simp add: runBotMigration_def)
  show ?thesis
  proof (cases "legacyBots d = [] \<or> (\<exists>e. r = Inl e) \<and> d' = d \<and> es = []")
    case True
    then have "d' = d" "es = []" "r = Inr () \<longleftrightarrow> legacyBots d = []"
      using assms(3) by (auto simp: runBotMigration_def)
    with again assms(1) show ?thesis
      by (intro exI[of _ 0]) (auto simp: migrated_none bot_log_def list_all_iff)
  next
    case False
    then obtain available organizationId where p: "availableBotActions env = Inr available"
      "migrationOrganization d = Some organizationId"
      "migrateBots env now available organizationId (legacyBots d) d = (r, d', es)"
      using assms(3) by (auto simp: runBotMigration_def split: sum.split_asm option.split_asm)
    obtain k where k: "k \<le> length (legacyBots d)" "r = Inr () \<longleftrightarrow> k = length (legacyBots d)"
      "migrated available organizationId (take k (legacyBots d)) d d'" "bot_log (take k (legacyBots d)) d es"
      using migrateBots_prefix[OF assms(1) distinct_bot_keys[OF assms(1,2)] p(3)] by blast
    have left: "legacyBots d' = drop k (legacyBots d)" by (rule migrated_legacy[OF assms(1) k(3)])
    with k(1,2) have "r = Inr () \<longleftrightarrow> legacyBots d' = []" by auto
    with k left again p(1) migrationOrganization_Some[OF p(2)] migrated_settled[OF k(3)] show ?thesis
      by (intro exI[of _ k] exI[of _ available] exI[of _ organizationId]) (auto simp: list_all_iff)
  qed
qed

definition demo_migration_env :: migrationEnv where
  "demo_migration_env = \<lparr>mg_oc = (\<lambda>c. demo_bot_oc True), mg_crypto = demo_crypto,
     mg_key = Some (replicate 32 (CHR ''k''))\<rparr>"

definition demo_migration_db :: db where
  "demo_migration_db = empty_db\<lparr>organizations := [demo_org], applications :=
     [(demo_app (demo_uuid (CHR ''1'')) ''bot'' True)\<lparr>ap_platform := WecomBot, ap_secret := ''v1.AA.AA.AA'',
        ap_action_ids := JArr [JStr ''wecom_bot.get_userlist'', JStr ''wecom_bot.call_tool'']\<rparr>]\<rparr>"

lemma demo_migration:
  "is_ok (fst (runBotMigration demo_migration_env 9 demo_migration_db))"
  by code_simp

theorem bot_migration_settles_prefix_witness:
  "legacyBots (fst (snd (runBotMigration demo_migration_env 9 demo_migration_db))) = []"
proof -
  obtain r d' es where run: "runBotMigration demo_migration_env 9 demo_migration_db = (r, d', es)"
    by (cases "runBotMigration demo_migration_env 9 demo_migration_db")
  have "db_ok demo_migration_db" by code_simp
  moreover have "list_all (\<lambda>a. uuid_shape (ap_id a)) (legacyBots demo_migration_db)" by code_simp
  ultimately have "r = Inr () \<longleftrightarrow> legacyBots d' = []"
    using bot_migration_settles_prefix[OF _ _ run, of "[]"] by blast
  moreover have "r = Inr ()" using demo_migration run by (cases r) auto
  ultimately show ?thesis using run by simp
qed

end
