(* ===== verification/Employee_Views.thy ===== *)
theory Employee_Views
  imports Bot_Migration Console_Identity
begin

text \<open>
  What the console shows an employee and an administrator of the connections
  (src/ai-console/src/lib/server/integrations.ts): getEmployeeIntegrations with the snapshot it
  builds, the merge of the resolved connections into one entry per connection with the union of
  the actions, and the classified list of all connections. Each first runs the bot migration, so
  the store, the visibility cache and the migration's flag are threaded through. Two collations
  order names: the zh-CN one and the default one.
\<close>

section \<open>The available connections\<close>

datatype authorizationSource = PersonalSource | ManualSource | VisibilitySource

record employeeResolved =
  er_service :: string
  er_connectionName :: string
  er_displayName :: string
  er_accessMode :: connectorAccessMode
  er_allowed :: "string list option"
  er_policies :: "string list option"
  er_organization :: "string option"

record availableAction =
  aa_id :: string
  aa_name :: string
  aa_description :: "string option"

record availableConnection =
  vc_id :: string
  vc_service :: string
  vc_serviceDisplayName :: string
  vc_connectionName :: string
  vc_displayName :: string
  vc_accessMode :: connectorAccessMode
  vc_sources :: "authorizationSource list"
  vc_organizations :: "string list option"
  vc_actions :: "availableAction list"

text \<open>The entry of the map \<open>merged\<close>; its three sets are lists without repetitions.\<close>

record mergedAccess =
  ma_connection :: employeeResolved
  ma_actions :: "string list"
  ma_sources :: "authorizationSource list"
  ma_organizations :: "string list"

record viewEnv =
  vw_zh :: "string \<Rightarrow> string \<Rightarrow> bool"
  vw_default :: "string \<Rightarrow> string \<Rightarrow> bool"

definition or_empty :: "'a list option \<Rightarrow> 'a list" where
  "or_empty v = (case v of None \<Rightarrow> [] | Some xs \<Rightarrow> xs)"

definition sourcesOf :: "employeeResolved \<Rightarrow> authorizationSource list" where
  "sourcesOf c =
    (let policyIds = or_empty (er_policies c);
         visibility = (\<lambda>p. starts_with p ''wecom-visibility:'') in
     if er_accessMode c = AccountBound then [PersonalSource]
     else (if list_ex visibility policyIds then [VisibilitySource] else [])
        @ (if policyIds = [] \<or> list_ex (\<lambda>p. \<not> visibility p) policyIds then [ManualSource] else []))"

definition organizationsOf :: "employeeResolved \<Rightarrow> string list" where
  "organizationsOf c = (case er_organization c of None \<Rightarrow> [] | Some g \<Rightarrow> if g = [] then [] else [g])"

definition newAccess :: "employeeResolved \<Rightarrow> mergedAccess" where
  "newAccess c = \<lparr>ma_connection = c, ma_actions = [], ma_sources = [], ma_organizations = []\<rparr>"

definition addAccess :: "employeeResolved \<Rightarrow> mergedAccess \<Rightarrow> mergedAccess" where
  "addAccess c m = m\<lparr>ma_actions := dedup (ma_actions m @ or_empty (er_allowed c)),
     ma_sources := dedup (ma_sources m @ sourcesOf c),
     ma_organizations := dedup (ma_organizations m @ organizationsOf c)\<rparr>"

definition accessKey :: "employeeResolved \<Rightarrow> string" where
  "accessKey c = connectorConnectionKey (er_service c) (er_connectionName c)"

fun mergeAvailable ::
    "employeeResolved list \<Rightarrow> (string \<times> mergedAccess) list \<Rightarrow> (string \<times> mergedAccess) list" where
  "mergeAvailable [] merged = merged"
| "mergeAvailable (c # cs) merged =
    (let current = (case map_of merged (accessKey c) of None \<Rightarrow> newAccess c | Some m \<Rightarrow> m)
     in mergeAvailable cs (AList.update (accessKey c) (addAccess c current) merged))"

text \<open>\<open>a || b\<close> on texts.\<close>

definition or_text :: "string \<Rightarrow> string \<Rightarrow> string" where
  "or_text a b = (if a \<noteq> [] then a else b)"

definition actionView :: "connectorProviderDetail option \<Rightarrow> string \<Rightarrow> availableAction" where
  "actionView provider actionId =
    (let action = map_of (js_map (map (\<lambda>a. (ca_id a, a))
           (case provider of None \<Rightarrow> [] | Some p \<Rightarrow> cp_actions p))) actionId in
     \<lparr>aa_id = actionId,
      aa_name = or_text (case action of None \<Rightarrow> [] | Some a \<Rightarrow> ca_name a)
        (or_text (last (js_split (CHR ''.'') actionId)) actionId),
      aa_description = (case action of None \<Rightarrow> None
        | Some a \<Rightarrow> (case ca_description a of None \<Rightarrow> None
            | Some t \<Rightarrow> if t = [] then None else Some t))\<rparr>)"

definition availableView :: "connectorProviderDetail list \<Rightarrow> mergedAccess \<Rightarrow> availableConnection" where
  "availableView providers m =
    (let connection = ma_connection m; service = er_service connection;
         provider = map_of (js_map (map (\<lambda>p. (cp_service p, p)) providers)) service;
         title = (case provider of None \<Rightarrow> [] | Some p \<Rightarrow> cp_displayName p) in
     \<lparr>vc_id = service @ '':'' @ er_connectionName connection, vc_service = service,
      vc_serviceDisplayName = or_text title service,
      vc_connectionName = er_connectionName connection,
      vc_displayName = or_text (er_displayName connection)
        (or_text title (er_connectionName connection)),
      vc_accessMode = er_accessMode connection, vc_sources = ma_sources m,
      vc_organizations = (if ma_organizations m = [] then None
        else Some (sort_by str_le (ma_organizations m))),
      vc_actions = map (actionView provider) (sort_by str_le (ma_actions m))\<rparr>)"

definition then_by :: "('a \<Rightarrow> 'a \<Rightarrow> bool) \<Rightarrow> ('a \<Rightarrow> 'a \<Rightarrow> bool) \<Rightarrow> 'a \<Rightarrow> 'a \<Rightarrow> bool" where
  "then_by le le' x y = (if le x y \<and> le y x then le' x y else le x y)"

definition available_order :: "viewEnv \<Rightarrow> availableConnection \<Rightarrow> availableConnection \<Rightarrow> bool" where
  "available_order env =
    then_by (\<lambda>l r. vw_zh env (vc_displayName l) (vc_displayName r))
      (then_by (\<lambda>l r. vw_default env (vc_service l) (vc_service r))
        (\<lambda>l r. vw_default env (vc_connectionName l) (vc_connectionName r)))"

definition buildEmployeeAvailableConnections ::
    "viewEnv \<Rightarrow> employeeResolved list \<Rightarrow> connectorProviderDetail list \<Rightarrow> availableConnection list" where
  "buildEmployeeAvailableConnections env connections providers =
    sort_by (available_order env) (filter (\<lambda>c. vc_actions c \<noteq> [])
      (map (\<lambda>(k, m). availableView providers m) (mergeAvailable connections [])))"

section \<open>The employee's snapshot\<close>

record employeeBinding =
  eb_id :: string
  eb_applicationId :: "string option"
  eb_platform :: platform
  eb_service :: string
  eb_connectionName :: string
  eb_status :: bindingStatus
  eb_displayName :: "string option"
  eb_accountId :: "string option"
  eb_errorMessage :: bindingMessage
  eb_connectedAt :: "int option"
  eb_updatedAt :: int

definition nonempty :: "string option \<Rightarrow> string option" where
  "nonempty v = (case v of None \<Rightarrow> None | Some s \<Rightarrow> if s = [] then None else Some s)"

definition serializeBinding :: "bindingRow \<Rightarrow> employeeBinding" where
  "serializeBinding row = \<lparr>eb_id = bi_id row, eb_applicationId = nonempty (bi_application_id row),
     eb_platform = bi_platform row, eb_service = bi_service row,
     eb_connectionName = bi_connection_name row, eb_status = bi_status row,
     eb_displayName = nonempty (bi_display_name row), eb_accountId = nonempty (bi_account_id row),
     eb_errorMessage = bi_error_message row, eb_connectedAt = bi_connected_at row,
     eb_updatedAt = bi_updated_at row\<rparr>"

record employeeApplication =
  em_id :: string
  em_platform :: platform
  em_name :: string
  em_appId :: string
  em_remark :: string
  em_active :: bool
  em_bindingMode :: bindingMode
  em_binding :: "employeeBinding option"

record employeeOrganization =
  eo_id :: string
  eo_name :: string
  eo_active :: bool
  eo_configured :: bool

record employeeSnapshot =
  es_name :: string
  es_email :: string
  es_identities :: "(string \<times> string \<times> string \<times> int) list"
  es_organizations :: "employeeOrganization list"
  es_applications :: "employeeApplication list"
  es_available :: "availableConnection list"
  es_automaticBots :: nat
  es_updatedAt :: int

definition employeeApplications ::
    "applicationView list \<Rightarrow> employeeBinding list \<Rightarrow> employeeApplication list" where
  "employeeApplications apps rows =
    (let bindingByApplication = js_map (map (\<lambda>b. (eb_applicationId b, b)) rows) in
     concat (map (\<lambda>definition. map (\<lambda>a. \<lparr>em_id = av_id a, em_platform = av_platform a,
         em_name = av_name a, em_appId = av_appId a, em_remark = av_remark a,
         em_active = av_active a, em_bindingMode = pd_bindingMode definition,
         em_binding = map_of bindingByApplication (Some (av_id a))\<rparr>)
       (filter (\<lambda>a. av_platform a = pd_platform definition) apps)) platformDefinitions))"

definition buildEmployeeIntegrationsSnapshot ::
    "applicationView list \<Rightarrow> employeeBinding list \<Rightarrow> string \<times> string \<Rightarrow> int \<Rightarrow> nat
      \<Rightarrow> (string \<times> string \<times> string \<times> int) list \<Rightarrow> availableConnection list
      \<Rightarrow> employeeOrganization list \<Rightarrow> employeeSnapshot" where
  "buildEmployeeIntegrationsSnapshot apps rows identity updatedAt bots identities available orgs =
    \<lparr>es_name = fst identity, es_email = snd identity, es_identities = identities,
     es_organizations = orgs, es_applications = employeeApplications apps rows,
     es_available = available, es_automaticBots = bots, es_updatedAt = updatedAt\<rparr>"

definition identityScoped :: "resolvedConnection list \<Rightarrow> employeeResolved list" where
  "identityScoped cs = List.map_filter (\<lambda>c.
     if rc_accessMode c = AccountBound \<or> rc_accessMode c = ControlledShared
     then Some \<lparr>er_service = rc_service c, er_connectionName = rc_connectionName c,
       er_displayName = rc_displayName c, er_accessMode = rc_accessMode c,
       er_allowed = rc_allowedActionIds c,
       er_policies = (if rc_accessMode c = AccountBound then None else Some (rc_policyIds c)),
       er_organization = rc_organizationId c\<rparr>
     else None) cs"

definition employeeProviders :: "ocEnv \<Rightarrow> employeeResolved list \<Rightarrow> connectorProviderDetail list" where
  "employeeProviders env cs = List.map_filter (\<lambda>service.
     case getConnectorProvider env service of Inl e \<Rightarrow> None | Inr p \<Rightarrow> Some p)
     (dedup (map er_service cs))"

definition automaticBots :: "availableConnection list \<Rightarrow> nat" where
  "automaticBots available = length (filter (\<lambda>c. vc_service c = ''wecom_bot''
     \<and> VisibilitySource \<in> set (vc_sources c)) available)"

text \<open>One moment for each step that reads the clock.\<close>

record employeeEnv =
  ee_migration :: migrationEnv
  ee_reconcile :: ocEnv
  ee_resolver :: resolverEnv
  ee_providers :: ocEnv
  ee_view :: viewEnv
  ee_pg_collate :: "string \<Rightarrow> string \<Rightarrow> bool"

definition applicationOrder ::
    "(string \<Rightarrow> string \<Rightarrow> bool) \<Rightarrow> applicationRow \<Rightarrow> applicationRow \<Rightarrow> bool" where
  "applicationOrder collate a b =
    (if ap_created_at a \<noteq> ap_created_at b then ap_created_at a < ap_created_at b
     else then_by (\<lambda>a b. collate (ap_app_name a) (ap_app_name b))
       (\<lambda>a b. collate (ap_app_id a) (ap_app_id b)) a b)"

definition organizationOrder ::
    "(string \<Rightarrow> string \<Rightarrow> bool) \<Rightarrow> organizationRow \<Rightarrow> organizationRow \<Rightarrow> bool" where
  "organizationOrder collate = then_by (\<lambda>g h. collate (og_name g) (og_name h))
     (\<lambda>g h. created_before (og_created_at g, og_id g) (og_created_at h, og_id h))"

definition employeeOrganizations :: "(string \<Rightarrow> string \<Rightarrow> bool) \<Rightarrow> db \<Rightarrow> employeeOrganization list" where
  "employeeOrganizations collate d = map (\<lambda>g. \<lparr>eo_id = og_id g, eo_name = og_name g,
     eo_active = og_active g, eo_configured = organizationConfigured g\<rparr>)
     (sort_by (organizationOrder collate) (organizations d))"

definition identityInput :: "platformIdentity \<Rightarrow> resolveInput" where
  "identityInput identity = \<lparr>ri_issuer = ci_principalIssuer identity,
     ri_subject = ci_principalSubject identity, ri_email = Some (ci_email identity),
     ri_groups = map JStr (pi_groups identity), ri_wecomUserIdHash = None, ri_service = None,
     ri_requestedConnectionName = None, ri_actionId = None\<rparr>"

definition employeePage ::
    "employeeEnv \<Rightarrow> int \<Rightarrow> platformIdentity \<Rightarrow> bindingRow list \<Rightarrow> resolvedConnection list \<Rightarrow> db
      \<Rightarrow> employeeSnapshot" where
  "employeePage env now identity rows resolved d =
    (let scoped = identityScoped resolved;
         available = buildEmployeeAvailableConnections (ee_view env) scoped
           (employeeProviders (ee_providers env) scoped)
     in buildEmployeeIntegrationsSnapshot
          (map serializeApplication (sort_by (applicationOrder (ee_pg_collate env)) (applications d)))
          (map serializeBinding rows) (ci_name identity, ci_email identity) now
          (automaticBots available)
          (getWeComIdentityLinkSnapshot (ee_pg_collate env) (ci_principalIssuer identity)
             (ci_principalSubject identity) d)
          available (employeeOrganizations (ee_pg_collate env) d))"

definition getEmployeeIntegrations ::
    "employeeEnv \<Rightarrow> int \<Rightarrow> platformIdentity \<Rightarrow> bool \<times> db \<times> visibilityCache
      \<Rightarrow> (appError + employeeSnapshot) \<times> bool \<times> db \<times> visibilityCache" where
  "getEmployeeIntegrations env now identity s =
    (case s of (settled, d, cache) \<Rightarrow>
    (case migrateLegacyWeComBotIntegrations (ee_migration env) now settled d of
       (Inl e, settled', d1, es) \<Rightarrow> (Inl e, settled', d1, cache)
     | (Inr u, settled', d1, es) \<Rightarrow>
    (case reconcileEmployeeBindings (ee_reconcile env) now (consoleIdentity.truncate identity) d1 of
       (Inl e, d2) \<Rightarrow> (Inl e, settled', d2, cache)
     | (Inr rows, d2) \<Rightarrow>
    (case resolveEmployeeConnectorBindings (ee_resolver env) now now (identityInput identity) d2 cache of
       (Inl e, cache') \<Rightarrow> (Inl e, settled', d2, cache')
     | (Inr r, cache') \<Rightarrow>
         (Inr (employeePage env now identity rows
            (case r of AllConnections cs \<Rightarrow> cs | OneConnection c \<Rightarrow> []) d2), settled', d2, cache')))))"

section \<open>The administrators' lists\<close>

definition platformText :: "platform \<Rightarrow> string" where
  "platformText p = (case p of Feishu \<Rightarrow> ''feishu'' | Wecom \<Rightarrow> ''wecom''
     | WecomBot \<Rightarrow> ''wecom_bot'' | Dingtalk \<Rightarrow> ''dingtalk'')"

definition getEnterpriseIntegrations ::
    "migrationEnv \<Rightarrow> (platform \<Rightarrow> ocEnv) \<Rightarrow> (string \<Rightarrow> string \<Rightarrow> bool) \<Rightarrow> int \<Rightarrow> bool \<Rightarrow> db
      \<Rightarrow> (appError + integrationGroup list \<times> int) \<times> bool \<times> db" where
  "getEnterpriseIntegrations menv oc collate now settled d =
    (case migrateLegacyWeComBotIntegrations menv now settled d of
       (Inl e, settled', d', es) \<Rightarrow> (Inl e, settled', d')
     | (Inr u, settled', d', es) \<Rightarrow>
         (bindE (mapE (\<lambda>definition. bindE (integrationActionCatalog (oc (pd_platform definition)) (pd_platform definition))
              (\<lambda>c. Inr (pd_platform definition, c))) platformDefinitions) (\<lambda>catalogs.
            Inr (buildEnterpriseIntegrationsSnapshot
              (map serializeApplication (sort_by
                 (then_by (\<lambda>a b. collate (platformText (ap_platform a)) (platformText (ap_platform b)))
                   (applicationOrder collate)) (applications d')))
              (map_of catalogs), now)), settled', d'))"

definition localAccounts :: "db \<Rightarrow> (string \<times> connectorLocalAccount) list" where
  "localAccounts d = js_map (map (\<lambda>b. (connectorConnectionKey (bi_service b) (bi_connection_name b),
     \<lparr>la_name = bi_name b, la_email = bi_email b\<rparr>)) (filter (\<lambda>b. bi_status b \<noteq> Revoked) (bindings d)))"

definition personalDisplayNames :: "db \<Rightarrow> (string \<times> string) list" where
  "personalDisplayNames d = js_map (List.map_filter (\<lambda>b. case nonempty (bi_display_name b) of None \<Rightarrow> None
     | Some n \<Rightarrow> Some (connectorConnectionKey (bi_service b) (bi_connection_name b), n))
     (filter (\<lambda>b. bi_status b \<noteq> Revoked) (bindings d)))"

definition sharedAccessOf :: "db \<Rightarrow> resourceRow \<Rightarrow> connectorSharedAccess" where
  "sharedAccessOf d r = \<lparr>sa_resourceId = rs_id r, sa_displayName = rs_display_name r,
     sa_securityDomain = rs_security_domain r,
     sa_authorizationMode = (case rs_mode r of Manual \<Rightarrow> ModeManual | WecomVisibility \<Rightarrow> ModeWecomVisibility),
     sa_wecomOrganizationId = rs_organization_id r,
     sa_wecomOrganizationName = organizationNameOf d (rs_organization_id r),
     sa_actionCount = length (storedActionIds (rs_action_ids r)), sa_enabled = rs_enabled r,
     sa_grantCount = length (filter (\<lambda>g. gr_resource_id g = rs_id r \<and> gr_enabled g) (grants d))\<rparr>"

definition sharedAccesses :: "db \<Rightarrow> (string \<times> connectorSharedAccess) list" where
  "sharedAccesses d = js_map (map (\<lambda>r. (connectorConnectionKey (rs_service r) (rs_connection_name r),
     sharedAccessOf d r)) (resources d))"

definition showPersonalName :: "db \<Rightarrow> connectorConnection \<Rightarrow> connectorConnection" where
  "showPersonalName d c =
    (case (if cc_accessMode c = AccountBound then map_of (personalDisplayNames d)
        (connectorConnectionKey (cc_service c) (cc_connectionName c)) else None) of
       None \<Rightarrow> c | Some n \<Rightarrow> c\<lparr>cc_displayName := n\<rparr>)"

definition classifiedConnections :: "db \<Rightarrow> connectorConnection list \<Rightarrow> connectorConnection list" where
  "classifiedConnections d snapshot = map (showPersonalName d)
     (classifyConnectorConnections snapshot (map_of (localAccounts d)) (map_of (sharedAccesses d)))"

definition listClassifiedConnectorConnections ::
    "migrationEnv \<Rightarrow> ocEnv \<Rightarrow> int \<Rightarrow> bool \<Rightarrow> db
      \<Rightarrow> (appError + connectorConnection list) \<times> bool \<times> db" where
  "listClassifiedConnectorConnections menv oc now settled d =
    (case migrateLegacyWeComBotIntegrations menv now settled d of
       (Inl e, settled', d', es) \<Rightarrow> (Inl e, settled', d')
     | (Inr u, settled', d', es) \<Rightarrow>
         (bindE (liftConnector (listConnectorConnections oc)) (\<lambda>snapshot.
            Inr (classifiedConnections d' snapshot)), settled', d'))"

section \<open>Orders by several keys\<close>

lemma comparator_then:
  assumes "comparator le" "comparator le'"
  shows "comparator (then_by le le')"
proof
  note t = comparator.le_total[OF assms(1)] comparator.le_total[OF assms(2)]
    and tr = comparator.le_trans[OF assms(1)] comparator.le_trans[OF assms(2)]
  show "then_by le le' x y \<or> then_by le le' y x" for x y
    using t by (auto simp: then_by_def)
  show "then_by le le' x y \<Longrightarrow> then_by le le' y z \<Longrightarrow> then_by le le' x z" for x y z
    unfolding then_by_def using tr(1)[of x y z] tr(2)[of x y z] tr(1)[of z x y] tr(1)[of y z x] by argo
qed

lemma comparator_key: "comparator le \<Longrightarrow> comparator (\<lambda>x y. le (f x) (f y))"
  by (auto simp: comparator_def)

lemma available_order_comparator:
  "comparator (vw_zh env) \<Longrightarrow> comparator (vw_default env) \<Longrightarrow> comparator (available_order env)"
  unfolding available_order_def
  by (intro comparator_then comparator_key[of "vw_zh env" vc_displayName]
      comparator_key[of "vw_default env" vc_service] comparator_key[of "vw_default env" vc_connectionName])

section \<open>The merge against its reference\<close>

lemma dedup_append: "dedup (xs @ ys) = dedup xs @ filter (\<lambda>y. y \<notin> set xs) (dedup ys)"
  by (induction xs) (simp_all add: conj_commute)

lemma dedup_step [simp]: "dedup (dedup xs @ ys) = dedup (xs @ ys)"
  by (simp add: dedup_append)

definition allowedOf :: "employeeResolved \<Rightarrow> string list" where
  "allowedOf c = or_empty (er_allowed c)"

lemma fold_access:
  assumes "distinct (ma_actions m)" "distinct (ma_sources m)" "distinct (ma_organizations m)"
  shows "fold addAccess cs m = \<lparr>ma_connection = ma_connection m,
    ma_actions = dedup (ma_actions m @ concat (map allowedOf cs)),
    ma_sources = dedup (ma_sources m @ concat (map sourcesOf cs)),
    ma_organizations = dedup (ma_organizations m @ concat (map organizationsOf cs))\<rparr>"
  using assms
proof (induction cs arbitrary: m)
  case Nil
  then show ?case by (simp add: dedup_distinct)
next
  case (Cons c cs)
  then show ?case by (simp add: addAccess_def allowedOf_def)
qed

definition mergedOf :: "employeeResolved list \<Rightarrow> mergedAccess" where
  "mergedOf cs = \<lparr>ma_connection = hd cs, ma_actions = dedup (concat (map allowedOf cs)),
     ma_sources = dedup (concat (map sourcesOf cs)),
     ma_organizations = dedup (concat (map organizationsOf cs))\<rparr>"

lemma fold_newAccess: "fold addAccess cs (newAccess c) = (mergedOf cs)\<lparr>ma_connection := c\<rparr>"
  by (subst fold_access) (simp_all add: newAccess_def mergedOf_def)

lemma map_of_mergeAvailable_aux:
  "map_of (mergeAvailable cs merged) k =
    (case filter (\<lambda>c. accessKey c = k) cs of
       [] \<Rightarrow> map_of merged k
     | c # rest \<Rightarrow> Some (fold addAccess (c # rest)
         (case map_of merged k of None \<Rightarrow> newAccess c | Some m \<Rightarrow> m)))"
proof (induction cs arbitrary: merged)
  case (Cons c cs)
  show ?case
  proof (cases "accessKey c = k")
    case True
    then show ?thesis
      by (cases "filter (\<lambda>c. accessKey c = k) cs") (simp_all add: Let_def Cons.IH update_conv')
  next
    case False
    then show ?thesis by (simp add: Let_def Cons.IH update_conv' split: list.split)
  qed
qed simp

lemma map_of_mergeAvailable:
  "map_of (mergeAvailable cs []) k = Some m \<longleftrightarrow>
    filter (\<lambda>c. accessKey c = k) cs \<noteq> [] \<and> m = mergedOf (filter (\<lambda>c. accessKey c = k) cs)"
proof (cases "filter (\<lambda>c. accessKey c = k) cs")
  case (Cons c rest)
  have "map_of (mergeAvailable cs []) k = Some (fold addAccess (c # rest) (newAccess c))"
    unfolding map_of_mergeAvailable_aux Cons by simp
  also have "fold addAccess (c # rest) (newAccess c) = mergedOf (c # rest)"
    unfolding fold_newAccess by (simp add: mergedOf_def)
  finally show ?thesis using Cons by auto
qed (simp add: map_of_mergeAvailable_aux)

lemma distinct_mergeAvailable:
  "distinct (map fst merged) \<Longrightarrow> distinct (map fst (mergeAvailable cs merged))"
  by (induction cs arbitrary: merged) (simp_all add: Let_def distinct_update)

lemma set_mergeAvailable:
  "(k, m) \<in> set (mergeAvailable cs []) \<longleftrightarrow>
    filter (\<lambda>c. accessKey c = k) cs \<noteq> [] \<and> m = mergedOf (filter (\<lambda>c. accessKey c = k) cs)"
  using map_of_mergeAvailable[of cs k m] distinct_mergeAvailable[of "[]" cs] by simp

definition viewKey :: "availableConnection \<Rightarrow> string" where
  "viewKey v = connectorConnectionKey (vc_service v) (vc_connectionName v)"

text \<open>The entry a group of connections with one key becomes.\<close>

definition availableOf :: "connectorProviderDetail list \<Rightarrow> employeeResolved list \<Rightarrow> availableConnection" where
  "availableOf providers cs = availableView providers (mergedOf cs)"

lemma availableView_key: "viewKey (availableView providers m) = accessKey (ma_connection m)"
  by (simp add: viewKey_def availableView_def accessKey_def Let_def)

lemma hd_filter: "filter P xs \<noteq> [] \<Longrightarrow> P (hd (filter P xs))"
  by (induction xs) auto

lemma merged_key:
  assumes "(k, m) \<in> set (mergeAvailable cs [])"
  shows "viewKey (availableView providers m) = k"
  using assms hd_filter[of "\<lambda>c. accessKey c = k" cs]
  by (simp add: set_mergeAvailable availableView_key mergedOf_def)

lemma availableView_actions:
  "map aa_id (vc_actions (availableView providers m)) = sort_by str_le (ma_actions m)"
  by (simp add: availableView_def Let_def actionView_def comp_def)

lemma availableView_no_actions: "vc_actions (availableView providers m) = [] \<longleftrightarrow> ma_actions m = []"
  by (metis availableView_actions map_is_Nil_conv sort_by_Nil_iff)

text \<open>C35: The employee's page shows every connection once: per connection, whatever the order and
  number of the grounds it was resolved with, one entry with exactly the union of their allowed
  actions in code-unit order, and all the sources and organisations of the authorisation;
  connections without an allowed action are left out, and the entries are in the order of their
  display names, services and names.\<close>

theorem available_connections_merge:
  assumes "comparator (vw_zh env)" "comparator (vw_default env)"
  shows "distinct (map viewKey (buildEmployeeAvailableConnections env cs providers))
    \<and> viewKey ` set (buildEmployeeAvailableConnections env cs providers)
      = accessKey ` set (filter (\<lambda>c. or_empty (er_allowed c) \<noteq> []) cs)
    \<and> list_all (\<lambda>v. v = availableOf providers (filter (\<lambda>c. accessKey c = viewKey v) cs)
        \<and> map aa_id (vc_actions v) = sort_by str_le
            (dedup (concat (map (\<lambda>c. or_empty (er_allowed c)) (filter (\<lambda>c. accessKey c = viewKey v) cs))))
        \<and> vc_sources v = dedup (concat (map sourcesOf (filter (\<lambda>c. accessKey c = viewKey v) cs))))
      (buildEmployeeAvailableConnections env cs providers)
    \<and> sorted_wrt (available_order env) (buildEmployeeAvailableConnections env cs providers)"
proof (intro conjI)
  let ?out = "buildEmployeeAvailableConnections env cs providers"
  let ?views = "map (\<lambda>(k, m). availableView providers m) (mergeAvailable cs [])"
  have keys: "map viewKey ?views = map fst (mergeAvailable cs [])"
    using merged_key by (auto simp: comp_def)
  have set_out: "set ?out = set (filter (\<lambda>c. vc_actions c \<noteq> []) ?views)"
    by (simp add: buildEmployeeAvailableConnections_def)
  have "distinct (map viewKey ?views)"
    unfolding keys by (rule distinct_mergeAvailable) simp
  then have "distinct (map viewKey (filter (\<lambda>c. vc_actions c \<noteq> []) ?views))"
    by (rule distinct_map_filter)
  moreover have "mset (map viewKey ?out) = mset (map viewKey (filter (\<lambda>c. vc_actions c \<noteq> []) ?views))"
    by (simp add: buildEmployeeAvailableConnections_def)
  ultimately show "distinct (map viewKey ?out)" by (metis mset_eq_imp_distinct_iff)
  have entry: "v \<in> set ?out \<longleftrightarrow> (\<exists>k. filter (\<lambda>c. accessKey c = k) cs \<noteq> []
      \<and> v = availableOf providers (filter (\<lambda>c. accessKey c = k) cs) \<and> viewKey v = k
      \<and> concat (map allowedOf (filter (\<lambda>c. accessKey c = k) cs)) \<noteq> [])" for v
  proof -
    have "v \<in> set ?out \<longleftrightarrow> (\<exists>k m. (k, m) \<in> set (mergeAvailable cs []) \<and> v = availableView providers m
        \<and> viewKey v = k \<and> ma_actions m \<noteq> [])"
      unfolding set_out using merged_key by (fastforce simp: availableView_no_actions)
    also have "\<dots> \<longleftrightarrow> (\<exists>k. filter (\<lambda>c. accessKey c = k) cs \<noteq> []
        \<and> v = availableOf providers (filter (\<lambda>c. accessKey c = k) cs) \<and> viewKey v = k
        \<and> concat (map allowedOf (filter (\<lambda>c. accessKey c = k) cs)) \<noteq> [])"
      by (simp add: set_mergeAvailable availableOf_def mergedOf_def del: concat_eq_Nil_conv)
    finally show ?thesis .
  qed
  have nonempty: "concat (map allowedOf (filter (\<lambda>c. accessKey c = k) cs)) \<noteq> []
      \<longleftrightarrow> k \<in> accessKey ` set (filter (\<lambda>c. or_empty (er_allowed c) \<noteq> []) cs)" for k
    by (auto simp: allowedOf_def)
  have viewed: "viewKey (availableOf providers (filter (\<lambda>c. accessKey c = k) cs)) = k"
    if "filter (\<lambda>c. accessKey c = k) cs \<noteq> []" for k
    using hd_filter[OF that] by (simp add: availableOf_def availableView_key mergedOf_def)
  show "viewKey ` set ?out = accessKey ` set (filter (\<lambda>c. or_empty (er_allowed c) \<noteq> []) cs)"
  proof (intro equalityI subsetI)
    fix k assume "k \<in> viewKey ` set ?out"
    then obtain v where "v \<in> set ?out" "viewKey v = k" by blast
    then show "k \<in> accessKey ` set (filter (\<lambda>c. or_empty (er_allowed c) \<noteq> []) cs)"
      unfolding entry nonempty by blast
  next
    fix k assume k: "k \<in> accessKey ` set (filter (\<lambda>c. or_empty (er_allowed c) \<noteq> []) cs)"
    then have "filter (\<lambda>c. accessKey c = k) cs \<noteq> []" by (auto simp: filter_empty_conv)
    then have "availableOf providers (filter (\<lambda>c. accessKey c = k) cs) \<in> set ?out"
      unfolding entry nonempty using k viewed by blast
    with viewed[OF \<open>filter (\<lambda>c. accessKey c = k) cs \<noteq> []\<close>] show "k \<in> viewKey ` set ?out" by force
  qed
  show "list_all (\<lambda>v. v = availableOf providers (filter (\<lambda>c. accessKey c = viewKey v) cs)
        \<and> map aa_id (vc_actions v) = sort_by str_le
            (dedup (concat (map (\<lambda>c. or_empty (er_allowed c)) (filter (\<lambda>c. accessKey c = viewKey v) cs))))
        \<and> vc_sources v = dedup (concat (map sourcesOf (filter (\<lambda>c. accessKey c = viewKey v) cs)))) ?out"
    unfolding list_all_iff
  proof
    fix v assume "v \<in> set ?out"
    then have v: "v = availableOf providers (filter (\<lambda>c. accessKey c = viewKey v) cs)"
      unfolding entry by metis
    have "map aa_id (vc_actions v) = sort_by str_le (ma_actions (mergedOf (filter (\<lambda>c. accessKey c = viewKey v) cs)))"
      by (subst v) (simp only: availableOf_def availableView_actions)
    moreover have "vc_sources v = ma_sources (mergedOf (filter (\<lambda>c. accessKey c = viewKey v) cs))"
      by (subst v) (simp add: availableOf_def availableView_def Let_def)
    ultimately show "v = availableOf providers (filter (\<lambda>c. accessKey c = viewKey v) cs)
        \<and> map aa_id (vc_actions v) = sort_by str_le
            (dedup (concat (map (\<lambda>c. or_empty (er_allowed c)) (filter (\<lambda>c. accessKey c = viewKey v) cs))))
        \<and> vc_sources v = dedup (concat (map sourcesOf (filter (\<lambda>c. accessKey c = viewKey v) cs)))"
      using v by (simp add: mergedOf_def allowedOf_def[abs_def])
  qed
  show "sorted_wrt (available_order env) ?out"
    unfolding buildEmployeeAvailableConnections_def
    by (rule comparator.sorted_sort_by[OF available_order_comparator[OF assms]])
qed

section \<open>The employee's page\<close>

lemma available_from:
  assumes "v \<in> set (buildEmployeeAvailableConnections env cs providers)" "a \<in> set (vc_actions v)"
  shows "\<exists>c\<in>set cs. accessKey c = viewKey v \<and> aa_id a \<in> set (or_empty (er_allowed c))"
proof -
  obtain k m where km: "(k, m) \<in> set (mergeAvailable cs [])" "v = availableView providers m"
    using assms(1) by (auto simp: buildEmployeeAvailableConnections_def)
  then have m: "m = mergedOf (filter (\<lambda>c. accessKey c = k) cs)" and k: "viewKey v = k"
    using merged_key by (auto simp: set_mergeAvailable)
  have "aa_id a \<in> set (map aa_id (vc_actions v))" using assms(2) by simp
  then have "aa_id a \<in> set (ma_actions m)" unfolding km(2) availableView_actions by simp
  then obtain c where "c \<in> set cs" "accessKey c = k" "aa_id a \<in> set (allowedOf c)"
    by (auto simp: m mergedOf_def)
  with k show ?thesis by (auto simp: allowedOf_def)
qed

lemma identityScoped_from:
  assumes "e \<in> set (identityScoped cs)"
  shows "\<exists>c\<in>set cs. (rc_accessMode c = AccountBound \<or> rc_accessMode c = ControlledShared)
    \<and> er_service e = rc_service c \<and> er_connectionName e = rc_connectionName c
    \<and> er_allowed e = rc_allowedActionIds c"
  using assms by (auto simp: identityScoped_def map_filter_def split: if_split_asm)

text \<open>A view's action rests on a connection the resolver answered with.\<close>

definition groundedAction ::
    "(resolvedConnection \<Rightarrow> bool) \<Rightarrow> availableConnection \<Rightarrow> string \<Rightarrow> bool" where
  "groundedAction ok v a \<longleftrightarrow> (\<exists>c ids. ok c
     \<and> (rc_accessMode c = AccountBound \<or> rc_accessMode c = ControlledShared)
     \<and> connectorConnectionKey (rc_service c) (rc_connectionName c) = viewKey v
     \<and> rc_allowedActionIds c = Some ids \<and> a \<in> set ids)"

lemma grounded_view:
  assumes "v \<in> set (buildEmployeeAvailableConnections env (identityScoped cs) providers)"
    "a \<in> set (vc_actions v)" "list_all ok cs"
  shows "groundedAction ok v (aa_id a)"
proof -
  obtain e where e: "e \<in> set (identityScoped cs)" "accessKey e = viewKey v"
    "aa_id a \<in> set (or_empty (er_allowed e))"
    using available_from[OF assms(1,2)] by blast
  obtain c where c: "c \<in> set cs" "rc_accessMode c = AccountBound \<or> rc_accessMode c = ControlledShared"
    "er_service e = rc_service c" "er_connectionName e = rc_connectionName c"
    "er_allowed e = rc_allowedActionIds c"
    using identityScoped_from[OF e(1)] by blast
  then obtain ids where "rc_allowedActionIds c = Some ids" "aa_id a \<in> set ids"
    using e(3) by (cases "rc_allowedActionIds c") (auto simp: or_empty_def)
  moreover have "ok c" using assms(3) c(1) by (simp add: list_all_iff)
  ultimately show ?thesis
    using c(2-4) e(2) unfolding groundedAction_def accessKey_def by metis
qed

lemma reconciled_rows:
  assumes "reconcileEmployeeBindings env now identity d = (Inr rows, d')" "b \<in> set rows"
  shows "b \<in> set (bindings d') \<and> ownBinding identity b"
  using assms
  by (auto simp: reconcileEmployeeBindings_def Let_def split: sum.split_asm if_split_asm prod.split_asm)

lemma application_binding:
  assumes "m \<in> set (employeeApplications apps (map serializeBinding rows))" "em_binding m = Some b"
  shows "\<exists>row\<in>set rows. b = serializeBinding row \<and> bi_application_id row = Some (em_id m)"
proof -
  have "map_of (js_map (map (\<lambda>b. (eb_applicationId b, b)) (map serializeBinding rows))) (Some (em_id m)) = Some b"
    using assms by (auto simp: employeeApplications_def Let_def)
  then have "(Some (em_id m), b) \<in> set (map (\<lambda>b. (eb_applicationId b, b)) (map serializeBinding rows))"
    unfolding map_of_js_map by (metis map_of_SomeD set_rev)
  then obtain row where "row \<in> set rows" "b = serializeBinding row" "eb_applicationId b = Some (em_id m)"
    by auto
  then show ?thesis
    by (auto simp: serializeBinding_def nonempty_def split: option.split_asm if_split_asm)
qed

lemma getEmployeeIntegrations_Inr:
  assumes "getEmployeeIntegrations env now identity (settled, d, cache) = (Inr snap, settled', d', cache')"
  obtains d1 rows r es where
    "migrateLegacyWeComBotIntegrations (ee_migration env) now settled d = (Inr (), settled', d1, es)"
    "reconcileEmployeeBindings (ee_reconcile env) now (consoleIdentity.truncate identity) d1 = (Inr rows, d')"
    "resolveEmployeeConnectorBindings (ee_resolver env) now now (identityInput identity) d' cache = (Inr r, cache')"
    "snap = employeePage env now identity rows (case r of AllConnections cs \<Rightarrow> cs | OneConnection c \<Rightarrow> []) d'"
  using assms
  by (auto simp: getEmployeeIntegrations_def intro: that split: prod.split_asm sum.split_asm)


section \<open>Concrete runs\<close>

definition demo_view :: viewEnv where
  "demo_view = \<lparr>vw_zh = str_le, vw_default = str_le\<rparr>"

definition demo_resolved_entry :: "string \<Rightarrow> string list \<Rightarrow> employeeResolved" where
  "demo_resolved_entry policy ids = \<lparr>er_service = ''feishu'', er_connectionName = ''c1'', er_displayName = ''C'',
     er_accessMode = ControlledShared, er_allowed = Some ids, er_policies = Some [policy], er_organization = None\<rparr>"

theorem available_connections_merge_witness:
  "distinct (map viewKey (buildEmployeeAvailableConnections demo_view
      [demo_resolved_entry ''p'' [''b''], demo_resolved_entry ''wecom-visibility:r'' [''a'', ''b'']] []))
    \<and> map (map aa_id \<circ> vc_actions) (buildEmployeeAvailableConnections demo_view
      [demo_resolved_entry ''p'' [''b''], demo_resolved_entry ''wecom-visibility:r'' [''a'', ''b'']] [])
      = [[''a'', ''b'']]"
proof
  have c: "comparator (vw_zh demo_view)" "comparator (vw_default demo_view)"
    by (simp_all add: demo_view_def code_units.comparator_axioms)
  show "distinct (map viewKey (buildEmployeeAvailableConnections demo_view
      [demo_resolved_entry ''p'' [''b''], demo_resolved_entry ''wecom-visibility:r'' [''a'', ''b'']] []))"
    using available_connections_merge[OF c] by blast
qed code_simp

definition demo_employee_env :: employeeEnv where
  "demo_employee_env = \<lparr>ee_migration = demo_migration_env, ee_reconcile = demo_connections,
     ee_resolver = demo_resolver, ee_providers = demo_connections, ee_view = demo_view,
     ee_pg_collate = str_le\<rparr>"

definition demo_employee_identity :: platformIdentity where
  "demo_employee_identity = \<lparr>ci_principalIssuer = ''iss'', ci_principalSubject = ''sub'',
     ci_email = ''a@b'', ci_name = ''A'', ci_admin = False, pi_upstreamIssuer = ''i'',
     pi_upstreamSubject = ''u'', pi_groups = [], pi_preferredUsername = None\<rparr>"

definition demo_employee_db :: db where
  "demo_employee_db = demo_connected\<lparr>applications :=
     map (\<lambda>a. a\<lparr>ap_action_ids := JArr [JStr ''feishu.get_document'']\<rparr>) (applications demo_connected)\<rparr>"

lemma demo_employee_page:
  "(case getEmployeeIntegrations demo_employee_env 5 demo_employee_identity (True, demo_employee_db, []) of
     (Inr snap, t) \<Rightarrow> map (map aa_id \<circ> vc_actions) (es_available snap) = [[''feishu.get_document'']]
   | _ \<Rightarrow> False)"
  by code_simp


end
