(* ===== verification/Bot_Lease.thy ===== *)
theory Bot_Lease
  imports Bot_Properties
begin

text \<open>
  The life of a scan request under concurrent polls: every statement the handlers of
  Bot_Authorization run on wecom_bot_authorization_requests is a labelled step, a run is any
  interleaving of them. The lease keeps a second claim out for 45 seconds, a completed request
  never changes back, and a claimant that outlives its lease frees its successor's.
\<close>

section \<open>Steps\<close>

datatype pollEvent = EvClaim string int | EvComplete string string int | EvRelease string
  | EvBegin string | EvStart string | EvOther

inductive poll_step :: "db \<Rightarrow> pollEvent \<Rightarrow> db \<Rightarrow> bool" where
  claim: "poll_step d (EvClaim h t) (snd (claimPoll h t d))"
| complete: "name \<noteq> [] \<Longrightarrow> poll_step d (EvComplete h name t) (completePoll h name t d)"
| release: "poll_step d (EvRelease h) (releasePoll h d)"
| begin_poll: "poll_step d (EvBegin (sha256hex cr request)) (snd (beginPoll cr identity request now d))"
| start: "poll_step d (EvStart (sha256hex cr (base64url_encode bytes)))
    (snd (startEmployeeWeComBotAuthorization qr cr identity bytes now d))"
| other: "botRequests d' = botRequests d \<Longrightarrow> poll_step d EvOther d'"

inductive poll_run :: "db \<Rightarrow> pollEvent list \<Rightarrow> db \<Rightarrow> bool" where
  stop: "poll_run d [] d"
| go: "poll_step d e d' \<Longrightarrow> poll_run d' es d'' \<Longrightarrow> poll_run d (e # es) d''"

inductive_simps poll_run_Nil [simp]: "poll_run d [] d'"
inductive_simps poll_run_Cons [simp]: "poll_run d (e # es) d''"

text \<open>An invariant of every step that is not excluded is one of every run.\<close>

lemma poll_run_invariant:
  assumes "poll_run d es d'" "I d" "list_all P es"
    and "\<And>d e d'. poll_step d e d' \<Longrightarrow> P e \<Longrightarrow> I d \<Longrightarrow> I d'"
  shows "I d'"
  using assms(1-3)
proof (induction rule: poll_run.induct)
  case (go d e d' es d'')
  from assms(4)[OF go.hyps(1)] go.prems go.IH show ?case by simp
qed simp

section \<open>Statements on the request table\<close>

lemma updateRequests_rows [simp]:
  "botRequests (updateRequests P f d) = map (\<lambda>r. if P r then f r else r) (botRequests d)"
  by (simp add: updateRequests_def)

definition aboutRequest :: "string \<Rightarrow> (botRequestRow \<Rightarrow> bool) \<Rightarrow> db \<Rightarrow> bool" where
  "aboutRequest h Q d \<longleftrightarrow> list_all (\<lambda>r. br_request_hash r = h \<longrightarrow> Q r) (botRequests d)"

lemma aboutRequest_update:
  assumes "aboutRequest h Q d" "\<And>r. br_request_hash r = h \<Longrightarrow> Q r \<Longrightarrow> P r \<Longrightarrow> Q (f r)"
    "\<And>r. br_request_hash (f r) = br_request_hash r"
  shows "aboutRequest h Q (updateRequests P f d)"
  using assms by (auto simp: aboutRequest_def list_all_iff)

lemma begin_rows:
  "botRequests (snd (beginPoll cr identity request now d)) = botRequests d
   \<or> snd (beginPoll cr identity request now d)
     = updateRequests (\<lambda>r. br_request_hash r = sha256hex cr request \<and> br_completed_at r = None)
        (\<lambda>r. r\<lparr>br_scode := None, br_processing_at := None\<rparr>) d"
  by (auto simp: beginPoll_def Let_def split: option.split list.split)

lemma start_rows:
  "set (botRequests (snd (startEmployeeWeComBotAuthorization qr cr identity bytes now d)))
     \<subseteq> set (botRequests d) \<union> {r. br_request_hash r = sha256hex cr (base64url_encode bytes)}"
  by (auto simp: startEmployeeWeComBotAuthorization_def Let_def newBotRequest_def
      split: sum.split)

lemma aboutRequest_start:
  assumes "aboutRequest h Q d" "h \<noteq> sha256hex cr (base64url_encode bytes)"
  shows "aboutRequest h Q (snd (startEmployeeWeComBotAuthorization qr cr identity bytes now d))"
  using assms start_rows[of qr cr identity bytes now d]
  unfolding aboutRequest_def list_all_iff by blast

section \<open>The lease\<close>

text \<open>Held at t: no row of the request can be claimed before t plus the lease.\<close>

definition held :: "int \<Rightarrow> botRequestRow \<Rightarrow> bool" where
  "held t r \<longleftrightarrow> br_completed_at r \<noteq> None \<or> (\<exists>p. br_processing_at r = Some p \<and> t \<le> p)"

text \<open>The events that may free the request h: a release, a poll of it after its end, and a new
  request with the same token.\<close>

fun keepsLease :: "string \<Rightarrow> pollEvent \<Rightarrow> bool" where
  "keepsLease h (EvRelease g) = (g \<noteq> h)"
| "keepsLease h (EvBegin g) = (g \<noteq> h)"
| "keepsLease h (EvStart g) = (g \<noteq> h)"
| "keepsLease h e = True"

lemma held_step:
  assumes "poll_step d e d'" "keepsLease h e" "aboutRequest h (held t) d"
  shows "aboutRequest h (held t) d'"
  using assms(1)
proof cases
  case (claim g s)
  have "held t (r\<lparr>br_processing_at := Some s\<rparr>)" if "held t r" "claimable g s r" for r
    using that by (auto simp: held_def claimable_def LEASE_MS_def split: option.splits)
  then show ?thesis
    unfolding claim claimPoll_def snd_conv by (intro aboutRequest_update assms(3)) auto
next
  case (complete name g s)
  then show ?thesis
    by (simp only: completePoll_def) (intro aboutRequest_update assms(3), auto simp: held_def)
next
  case (release g)
  then show ?thesis using assms(2)
    by (simp only: releasePoll_def) (intro aboutRequest_update assms(3), auto)
next
  case (begin_poll cr request identity now)
  then show ?thesis
    using begin_rows[of cr identity request now d] assms(2,3)
    by (auto simp: aboutRequest_def list_all_iff)
next
  case (start cr bytes qr identity now)
  then show ?thesis using aboutRequest_start assms(2,3) by auto
next
  case other
  then show ?thesis using assms(3) by (simp add: aboutRequest_def)
qed

lemma claim_holds:
  assumes "db_ok d" "claimPoll h t d = (True, d')"
  shows "aboutRequest h (held t) d'"
proof -
  have u: "unique_by br_request_hash (botRequests d)"
    using assms(1) by (simp add: db_ok_def uniques_ok_def)
  obtain r where r: "r \<in> set (botRequests d)" "claimable h t r"
    using assms(2) by (auto simp: claimPoll_def list_ex_iff)
  have "s = r" if "s \<in> set (botRequests d)" "br_request_hash s = h" for s
    using unique_by_eq[OF u that(1) r(1)] that(2) r(2) by (simp add: claimable_def)
  then have "held t (if claimable h t s then s\<lparr>br_processing_at := Some t\<rparr> else s)"
    if "s \<in> set (botRequests d)" "br_request_hash s = h" for s
    using that r(2) by (simp add: held_def)
  note each = this
  have "botRequests d' = map (\<lambda>s. if claimable h t s then s\<lparr>br_processing_at := Some t\<rparr> else s)
      (botRequests d)"
    using assms(2) by (auto simp: claimPoll_def)
  moreover have "br_request_hash (if claimable h t s then s\<lparr>br_processing_at := Some t\<rparr> else s)
      = br_request_hash s" for s by simp
  ultimately show ?thesis
    using each by (auto simp only: aboutRequest_def list_all_iff set_map)
qed

lemma held_not_claimable:
  assumes "aboutRequest h (held t) d" "t' \<le> t + LEASE_MS"
  shows "claimPoll h t' d = (False, d)"
proof -
  have no: "\<not> claimable h t' r" if "r \<in> set (botRequests d)" for r
    using assms that
    by (auto simp: aboutRequest_def list_all_iff claimable_def held_def split: option.split)
  then have "map (\<lambda>r. if claimable h t' r then r\<lparr>br_processing_at := Some t'\<rparr> else r) (botRequests d)
      = botRequests d" by (intro map_idI) auto
  with no show ?thesis by (auto simp: claimPoll_def updateRequests_def list_ex_iff)
qed


definition demo_request_row :: botRequestRow where
  "demo_request_row = \<lparr>br_request_hash = demo_digest, br_scode = Some ''scan-0001'', br_issuer = ''iss'',
     br_subject = ''p'', br_expires_at = 300000, br_processing_at = None, br_completed_at = None,
     br_connection_name = None\<rparr>"

definition demo_scanned :: db where
  "demo_scanned = empty_db\<lparr>botRequests := [demo_request_row]\<rparr>"

lemma demo_scanned_ok: "db_ok demo_scanned"
  using empty_db_ok
  by (simp add: demo_scanned_def demo_request_row_def db_ok_defs botRequests_check_def)

lemma demo_claim: "fst (claimPoll demo_digest 0 demo_scanned)"
  by (simp add: claimPoll_def demo_scanned_def demo_request_row_def claimable_def)


text \<open>The lease is not fenced: a claimant that outlived its 45 seconds and fails clears the
  mark of the poll that has claimed the request since, so a third poll is let in while the
  second is still running.\<close>

theorem stale_claimant_frees_lease:
  assumes "claimPoll h t d = (True, d1)" "t + 45000 < t'"
  shows "fst (claimPoll h t' d1)
    \<and> fst (claimPoll h t'' (releasePoll h (snd (claimPoll h t' d1))))"
proof -
  obtain r where r: "r \<in> set (botRequests d)" "claimable h t r"
    using assms(1) by (auto simp: claimPoll_def list_ex_iff)
  define r1 where "r1 = r\<lparr>br_processing_at := Some t\<rparr>"
  have r1: "r1 \<in> set (botRequests d1)" "claimable h t' r1"
    using r assms by (auto simp: claimPoll_def r1_def claimable_def LEASE_MS_def intro!: image_eqI[of _ _ r])
  define r2 where "r2 = r1\<lparr>br_processing_at := Some t'\<rparr>"
  have r2: "r2 \<in> set (botRequests (snd (claimPoll h t' d1)))"
    using r1 by (auto simp: claimPoll_def r2_def)
  have "r2\<lparr>br_processing_at := None\<rparr> \<in> set (botRequests (releasePoll h (snd (claimPoll h t' d1))))"
    using r2 r1(2) by (auto simp: releasePoll_def r2_def claimable_def intro!: image_eqI[of _ _ r2])
  moreover have "claimable h t'' (r2\<lparr>br_processing_at := None\<rparr>)"
    using r1(2) by (simp add: claimable_def r2_def)
  ultimately have "fst (claimPoll h t'' (releasePoll h (snd (claimPoll h t' d1))))"
    by (auto simp: claimPoll_def list_ex_iff)
  moreover have "fst (claimPoll h t' d1)" using r1 by (auto simp: claimPoll_def list_ex_iff)
  ultimately show ?thesis by simp
qed

theorem stale_claimant_frees_lease_witness:
  "\<exists>d1. claimPoll demo_digest 0 demo_scanned = (True, d1)
    \<and> fst (claimPoll demo_digest 46001 (releasePoll demo_digest (snd (claimPoll demo_digest 46000 d1))))"
proof -
  obtain d1 where d1: "claimPoll demo_digest 0 demo_scanned = (True, d1)"
    using demo_claim by (cases "claimPoll demo_digest 0 demo_scanned") auto
  from stale_claimant_frees_lease[OF d1, of 46000 46001] d1 show ?thesis by simp
qed

section \<open>Completed requests\<close>

definition doneRow :: "botRequestRow \<Rightarrow> bool" where
  "doneRow r \<longleftrightarrow> br_completed_at r \<noteq> None \<and> br_connection_name r \<noteq> None \<and> br_connection_name r \<noteq> Some []"

fun newToken :: "string \<Rightarrow> pollEvent \<Rightarrow> bool" where
  "newToken h (EvStart g) = (g \<noteq> h)"
| "newToken h e = True"

lemma done_step:
  assumes "poll_step d e d'" "newToken h e" "aboutRequest h doneRow d"
  shows "aboutRequest h doneRow d'"
  using assms(1)
proof cases
  case (claim g s)
  then show ?thesis
    by (simp only: claimPoll_def snd_conv) (intro aboutRequest_update assms(3), auto simp: doneRow_def)
next
  case (complete name g s)
  then show ?thesis
    by (simp only: completePoll_def) (intro aboutRequest_update assms(3), auto simp: doneRow_def)
next
  case (release g)
  then show ?thesis
    by (simp only: releasePoll_def) (intro aboutRequest_update assms(3), auto simp: doneRow_def)
next
  case (begin_poll cr request identity now)
  from begin_rows[of cr identity request now d] show ?thesis
  proof
    assume "botRequests (snd (beginPoll cr identity request now d)) = botRequests d"
    with begin_poll assms(3) show ?thesis by (simp add: aboutRequest_def)
  next
    assume *: "snd (beginPoll cr identity request now d) = updateRequests
      (\<lambda>r. br_request_hash r = sha256hex cr request \<and> br_completed_at r = None)
      (\<lambda>r. r\<lparr>br_scode := None, br_processing_at := None\<rparr>) d"
    show ?thesis unfolding begin_poll(2) *
      by (intro aboutRequest_update assms(3)) (auto simp: doneRow_def)
  qed
next
  case (start cr bytes qr identity now)
  then show ?thesis using aboutRequest_start assms(2,3) by auto
next
  case other
  then show ?thesis using assms(3) by (simp add: aboutRequest_def)
qed

lemma done_poll:
  assumes "aboutRequest (sha256hex (be_crypto env) request) doneRow d"
  shows "(\<exists>name. pollEmployeeWeComBotAuthorization env identity draw request now now' now'' d
        = (Inr (PollConnected name), [], d))
    \<or> (\<exists>e. pollEmployeeWeComBotAuthorization env identity draw request now now' now'' d = (Inl e, [], d)
        \<and> e \<in> {storeError (StoreMsg ''bot_request_invalid'') 400,
             storeError (StoreMsg ''bot_request_missing'') 404})"
proof -
  let ?h = "sha256hex (be_crypto env) request"
  let ?P = "\<lambda>r. br_request_hash r = ?h \<and> br_issuer r = ci_principalIssuer identity
      \<and> br_subject r = ci_principalSubject identity"
  show ?thesis
  proof (cases "valid_bot_request request")
    case False
    then show ?thesis
      by (simp add: pollEmployeeWeComBotAuthorization_def beginPoll_def)
  next
    case valid: True
    show ?thesis
    proof (cases "List.find ?P (botRequests d)")
      case None
      with valid show ?thesis
        by (simp add: pollEmployeeWeComBotAuthorization_def beginPoll_def Let_def)
    next
      case (Some row)
      then have "doneRow row" using assms
        by (auto simp: find_Some_iff aboutRequest_def list_all_iff)
      then obtain t c name where "br_completed_at row = Some t" "br_connection_name row = Some (c # name)"
        unfolding doneRow_def by (metis neq_Nil_conv not_None_eq)
      with valid Some show ?thesis
        by (simp add: pollEmployeeWeComBotAuthorization_def beginPoll_def Let_def)
    qed
  qed
qed


definition demo_bot_token :: string where "demo_bot_token = replicate 43 (CHR ''a'')"


end
