(* ===== verification/Lightrag.thy ===== *)
theory Lightrag
  imports Gateway_Store Console_Config Console_Identity
begin

text \<open>
  The LightRAG settings (src/ai-console/src/lib/server/lightrag-config.ts and the route
  app/api/settings/lightrag): the check of a draft, reading the running configuration through the
  control plane of LightRAG, and applying a draft. An operation returns the requests it sends, in
  their order, beside its result. The control plane and the gateway are one parameter, from a
  request to a status and a JSON body; of the two reads that run at the same time a parameter says
  which failure is reported when both fail.
\<close>

datatype summaryLanguage = ChineseSummary | EnglishSummary

record ragDraft =
  rd_llmModel :: string
  rd_embeddingModel :: string
  rd_embeddingTokenLimit :: int
  rd_summaryLanguage :: summaryLanguage
  rd_maxAsync :: int
  rd_maxParallelInsert :: int
  rd_chunkSize :: int
  rd_chunkOverlapSize :: int

section \<open>Validation\<close>

definition readInteger :: "json \<Rightarrow> string \<Rightarrow> int \<Rightarrow> int \<Rightarrow> int \<times> string list" where
  "readInteger v field minimum maximum =
    (case integerOf v of
       Some i \<Rightarrow> if i < minimum \<or> i > maximum
         then (minimum, [field @ '' must be between '' @ decInt minimum @ '' and '' @ decInt maximum]) else (i, [])
     | None \<Rightarrow> (minimum, [field @ '' must be between '' @ decInt minimum @ '' and '' @ decInt maximum]))"

definition validModel :: "string \<Rightarrow> bool" where
  "validModel m \<longleftrightarrow> m \<noteq> [] \<and> length m \<le> 200 \<and> list_all (\<lambda>c. \<not> is_space c) m"

definition readModel :: "json \<Rightarrow> string \<Rightarrow> string \<times> string list" where
  "readModel v field = (let m = (case v of JStr s \<Rightarrow> js_trim s | _ \<Rightarrow> []) in
     (m, if validModel m then [] else [field @ '' must be a configured gateway model without spaces'']))"

definition ragFields :: "string list" where
  "ragFields = [''llmModel'', ''embeddingModel'', ''embeddingTokenLimit'', ''summaryLanguage'', ''maxAsync'',
     ''maxParallelInsert'', ''chunkSize'', ''chunkOverlapSize'']"

definition validateLightRagConfigInput :: "json \<Rightarrow> string list + ragDraft" where
  "validateLightRagConfigInput input =
    (if \<not> is_object input then Inl [''request body must be an object'']
     else let unsupported = map (\<lambda>k. ''unsupported field: '' @ k) (unknownKeys input ragFields);
       (chunkSize, e1) = readInteger (jget input ''chunkSize'') ''chunkSize'' 256 8000;
       (chunkOverlapSize, e2) = readInteger (jget input ''chunkOverlapSize'') ''chunkOverlapSize'' 0 (min 2000 (chunkSize - 1));
       summaryLanguage = jget input ''summaryLanguage'';
       e3 = (if summaryLanguage \<noteq> JStr ''Chinese'' \<and> summaryLanguage \<noteq> JStr ''English''
             then [''summaryLanguage must be Chinese or English''] else []);
       (llmModel, e4) = readModel (jget input ''llmModel'') ''llmModel'';
       (embeddingModel, e5) = readModel (jget input ''embeddingModel'') ''embeddingModel'';
       (embeddingTokenLimit, e6) = readInteger (jget input ''embeddingTokenLimit'') ''embeddingTokenLimit'' 256 131072;
       (maxAsync, e7) = readInteger (jget input ''maxAsync'') ''maxAsync'' 1 32;
       (maxParallelInsert, e8) = readInteger (jget input ''maxParallelInsert'') ''maxParallelInsert'' 1 16;
       errors = unsupported @ e1 @ e2 @ e3 @ e4 @ e5 @ e6 @ e7 @ e8 in
     if errors \<noteq> [] then Inl errors
     else Inr \<lparr>rd_llmModel = llmModel, rd_embeddingModel = embeddingModel, rd_embeddingTokenLimit = embeddingTokenLimit,
       rd_summaryLanguage = (if summaryLanguage = JStr ''English'' then EnglishSummary else ChineseSummary),
       rd_maxAsync = maxAsync, rd_maxParallelInsert = maxParallelInsert, rd_chunkSize = chunkSize,
       rd_chunkOverlapSize = chunkOverlapSize\<rparr>)"

section \<open>Requests\<close>

record ragRequest =
  rw_url :: string
  rw_method :: string
  rw_authorization :: string
  rw_body :: "json option"
  rw_timeout :: int

datatype ragError = TokenUnconfigured | Unreachable | Refused json int | PayloadCrash | GatewayUnreadable gatewayError
  | NotPublished "string list" | NotEmbedding string json | NoVector string

record ragEnv =
  rg_adminUrl :: "string option"
  rg_adminToken :: "string option"
  rg_gatewayUrl :: "string option"
  rg_fetch :: "ragRequest \<Rightarrow> (int \<times> json option) option"
  rg_collate :: "string \<Rightarrow> string \<Rightarrow> bool"
  rg_filesFail :: bool

type_synonym 'a logged = "ragRequest list \<times> (ragError + 'a)"

definition bindL :: "'a logged \<Rightarrow> ('a \<Rightarrow> 'b logged) \<Rightarrow> 'b logged" where
  "bindL m f = (case m of (l, Inl e) \<Rightarrow> (l, Inl e) | (l, Inr x) \<Rightarrow> (l @ fst (f x), snd (f x)))"

definition adminBaseUrl :: "ragEnv \<Rightarrow> string" where
  "adminBaseUrl env = strip_slash (or_default (rg_adminUrl env) ''http://localhost:9622'')"

definition ragAdminToken :: "ragEnv \<Rightarrow> ragError + string" where
  "ragAdminToken env = (case map_option js_trim (rg_adminToken env) of None \<Rightarrow> Inl TokenUnconfigured
     | Some t \<Rightarrow> if t = [] then Inl TokenUnconfigured else Inr t)"

text \<open>The body of an answer; one that is no JSON counts as the empty object.\<close>

definition answerBody :: "json option \<Rightarrow> json" where
  "answerBody b = (case b of None \<Rightarrow> JObj [] | Some v \<Rightarrow> v)"

definition controlRequest :: "ragEnv \<Rightarrow> string \<Rightarrow> string \<Rightarrow> json option \<Rightarrow> int \<Rightarrow> json logged" where
  "controlRequest env path req_method body timeout = (case ragAdminToken env of Inl e \<Rightarrow> ([], Inl e)
   | Inr token \<Rightarrow>
     (let rq = \<lparr>rw_url = adminBaseUrl env @ path, rw_method = req_method, rw_authorization = ''Bearer '' @ token,
                rw_body = body, rw_timeout = timeout\<rparr> in
      ([rq], case rg_fetch env rq of None \<Rightarrow> Inl Unreachable
       | Some (status, b) \<Rightarrow> if 200 \<le> status \<and> status \<le> 299 then Inr (answerBody b)
           else if nullish (answerBody b) then Inl PayloadCrash else Inl (Refused (jget (answerBody b) ''error'') status))))"

definition readControlSnapshot :: "ragEnv \<Rightarrow> json logged" where
  "readControlSnapshot env = controlRequest env ''/config'' ''GET'' None 8000"

record ragModel =
  gm_name :: string
  gm_channelId :: string
  gm_channelName :: string
  gm_provider :: gatewayProvider

definition readLightRagGatewayModels :: "ragEnv \<Rightarrow> gatewayFiles \<Rightarrow> ragError + ragModel list" where
  "readLightRagGatewayModels env fs = (case readGatewayChannels fs of Inl e \<Rightarrow> Inl (GatewayUnreadable e)
   | Inr snapshot \<Rightarrow> Inr (sort_by (\<lambda>l r. rg_collate env (gm_name l) (gm_name r))
       (concat (map (\<lambda>c. map (\<lambda>m. \<lparr>gm_name = mr_publicName m, gm_channelId = gc_id c, gm_channelName = gc_name c,
          gm_provider = gc_provider c\<rparr>) (gc_models c)) (filter gc_enabled (cs_channels snapshot))))))"

text \<open>The two reads that run at the same time.\<close>

definition readBoth :: "ragEnv \<Rightarrow> gatewayFiles \<Rightarrow> (json \<times> ragModel list) logged" where
  "readBoth env fs = (case (readControlSnapshot env, readLightRagGatewayModels env fs) of
     ((l, Inr c), Inr m) \<Rightarrow> (l, Inr (c, m))
   | ((l, Inr c), Inl g) \<Rightarrow> (l, Inl g)
   | ((l, Inl e), Inr m) \<Rightarrow> (l, Inl e)
   | ((l, Inl e), Inl g) \<Rightarrow> (l, Inl (if rg_filesFail env then g else e)))"

definition readLightRagConfig :: "ragEnv \<Rightarrow> gatewayFiles \<Rightarrow> (json \<times> ragModel list) logged" where
  "readLightRagConfig env fs = readBoth env fs"

text \<open>\<open>v?.[0]\<close> and \<open>v?.length\<close>.\<close>

fun firstElement :: "json \<Rightarrow> json" where
  "firstElement (JArr (x # xs)) = x"
| "firstElement (JStr (c # s)) = JStr [c]"
| "firstElement (JObj kvs) = jget (JObj kvs) ''0''"
| "firstElement _ = JUndef"

fun lengthOf :: "json \<Rightarrow> json" where
  "lengthOf (JArr xs) = JNum (Fin (of_nat (length xs)))"
| "lengthOf (JStr s) = JNum (Fin (of_nat (length s)))"
| "lengthOf v = jget v ''length''"

definition probeEmbeddingDimension :: "ragEnv \<Rightarrow> string \<Rightarrow> json logged" where
  "probeEmbeddingDimension env model =
    (let rq = \<lparr>rw_url = strip_slash (or_default (rg_gatewayUrl env) ''http://localhost:8080'') @ ''/v1/embeddings'',
           rw_method = ''POST'', rw_authorization = ''Bearer ai-base-internal'',
           rw_body = Some (JObj [(''model'', JStr model), (''input'', JStr ''dimension probe'')]), rw_timeout = 30000\<rparr> in
     ([rq], case rg_fetch env rq of None \<Rightarrow> Inl Unreachable
      | Some (status, b) \<Rightarrow>
        (let payload = answerBody b; e = jget payload ''error'' in
         if nullish payload then Inl PayloadCrash
         else if \<not> (200 \<le> status \<and> status \<le> 299) then Inl (NotEmbedding model (if is_string e then e else jget e ''message''))
         else let dimension = lengthOf (jget (firstElement (jget payload ''data'')) ''embedding'') in
           if jtruthy dimension then Inr dimension else Inl (NoVector model))))"

section \<open>Applying a draft\<close>

fun languageName :: "summaryLanguage \<Rightarrow> string" where
  "languageName ChineseSummary = ''Chinese''" | "languageName EnglishSummary = ''English''"

definition jint :: "int \<Rightarrow> json" where "jint i = JNum (Fin (of_int i))"

definition draftMembers :: "ragDraft \<Rightarrow> (string \<times> json) list" where
  "draftMembers d = [(''llmModel'', JStr (rd_llmModel d)), (''embeddingModel'', JStr (rd_embeddingModel d)),
     (''embeddingTokenLimit'', jint (rd_embeddingTokenLimit d)), (''summaryLanguage'', JStr (languageName (rd_summaryLanguage d))),
     (''maxAsync'', jint (rd_maxAsync d)), (''maxParallelInsert'', jint (rd_maxParallelInsert d)),
     (''chunkSize'', jint (rd_chunkSize d)), (''chunkOverlapSize'', jint (rd_chunkOverlapSize d))]"

text \<open>\<open>!==\<close>: objects from two answers are never the same.\<close>

definition strictNeq :: "json \<Rightarrow> json \<Rightarrow> bool" where
  "strictNeq a b \<longleftrightarrow> a \<noteq> b \<or> is_object a \<or> is_array a"

record ragApplied =
  ra_applied :: json
  ra_availableModels :: "ragModel list"
  ra_embeddingChanged :: bool

definition missingModels :: "ragDraft \<Rightarrow> ragModel list \<Rightarrow> string list" where
  "missingModels draft available = filter (\<lambda>m. m \<notin> set (map gm_name available)) [rd_llmModel draft, rd_embeddingModel draft]"

definition applyLightRagConfig :: "ragEnv \<Rightarrow> gatewayFiles \<Rightarrow> ragDraft \<Rightarrow> ragApplied logged" where
  "applyLightRagConfig env fs draft = bindL (readBoth env fs) (\<lambda>(current, available).
     if missingModels draft available \<noteq> [] then ([], Inl (NotPublished (missingModels draft available)))
     else bindL (probeEmbeddingDimension env (rd_embeddingModel draft)) (\<lambda>dimension.
       if nullish (jget current ''config'') then ([], Inl PayloadCrash)
       else bindL (controlRequest env ''/config'' ''PUT''
           (Some (JObj (draftMembers draft @ [(''embeddingDimension'', dimension)]))) 120000) (\<lambda>applied.
         ([], Inr \<lparr>ra_applied = applied, ra_availableModels = available,
           ra_embeddingChanged = (strictNeq (jget (jget current ''config'') ''embeddingModel'') (JStr (rd_embeddingModel draft))
             \<or> strictNeq (jget (jget current ''config'') ''embeddingDimension'') dimension)\<rparr>))))"

section \<open>The route\<close>

datatype 'a ragResponse = RagBody 'a | RagRejected "string list" | RagNoJson | RagFailed "appError + ragError" int

definition ragErrorResponse :: "appError + ragError \<Rightarrow> 'a ragResponse" where
  "ragErrorResponse e = RagFailed e (case e of Inl (AuthError m status) \<Rightarrow> status | _ \<Rightarrow> 503)"

definition lightragGet :: "ragEnv \<Rightarrow> identityEnv \<Rightarrow> gatewayFiles \<Rightarrow> headers \<Rightarrow> int \<Rightarrow> db
    \<Rightarrow> ragRequest list \<times> (json \<times> ragModel list) ragResponse" where
  "lightragGet env ienv fs input now d = (case requireConsoleAdmin ienv input now d of
     Inl e \<Rightarrow> ([], ragErrorResponse (Inl e))
   | Inr _ \<Rightarrow> (case readLightRagConfig env fs of (l, Inl e) \<Rightarrow> (l, ragErrorResponse (Inr e)) | (l, Inr r) \<Rightarrow> (l, RagBody r)))"

definition lightragPut :: "ragEnv \<Rightarrow> identityEnv \<Rightarrow> gatewayFiles \<Rightarrow> headers \<Rightarrow> int \<Rightarrow> db \<Rightarrow> json option
    \<Rightarrow> ragRequest list \<times> ragApplied ragResponse" where
  "lightragPut env ienv fs input now d body = (case requireConsoleAdmin ienv input now d of
     Inl e \<Rightarrow> ([], ragErrorResponse (Inl e))
   | Inr _ \<Rightarrow> (case body of None \<Rightarrow> ([], RagNoJson)
     | Some v \<Rightarrow> (case validateLightRagConfigInput v of Inl errors \<Rightarrow> ([], RagRejected errors)
       | Inr draft \<Rightarrow> (case applyLightRagConfig env fs draft of
           (l, Inl e) \<Rightarrow> (l, ragErrorResponse (Inr e)) | (l, Inr r) \<Rightarrow> (l, RagBody r)))))"

section \<open>Drafts\<close>

definition draft_ok :: "ragDraft \<Rightarrow> bool" where
  "draft_ok d \<longleftrightarrow> validModel (rd_llmModel d) \<and> validModel (rd_embeddingModel d)
    \<and> 256 \<le> rd_embeddingTokenLimit d \<and> rd_embeddingTokenLimit d \<le> 131072
    \<and> 1 \<le> rd_maxAsync d \<and> rd_maxAsync d \<le> 32 \<and> 1 \<le> rd_maxParallelInsert d \<and> rd_maxParallelInsert d \<le> 16
    \<and> 256 \<le> rd_chunkSize d \<and> rd_chunkSize d \<le> 8000
    \<and> 0 \<le> rd_chunkOverlapSize d \<and> rd_chunkOverlapSize d \<le> 2000 \<and> rd_chunkOverlapSize d < rd_chunkSize d"

lemma readInteger_ok: "snd (readInteger v f a b) = [] \<longleftrightarrow> (\<exists>i. integerOf v = Some i \<and> a \<le> i \<and> i \<le> b)"
  by (auto simp: readInteger_def split: option.split)

lemma readInteger_value: "integerOf v = Some i \<Longrightarrow> a \<le> i \<Longrightarrow> i \<le> b \<Longrightarrow> readInteger v f a b = (i, [])"
  by (simp add: readInteger_def)

lemma integerOf_jint [simp]: "integerOf (jint i) = Some i"
  by (simp add: jint_def)

lemma readInteger_pair: "readInteger v f a b = (i, e) \<Longrightarrow> e = [] \<Longrightarrow> a \<le> i \<and> i \<le> b"
  by (auto simp: readInteger_def split: option.split_asm if_split_asm)

lemma readModel_pair: "readModel v f = (m, e) \<Longrightarrow> e = [] \<Longrightarrow> validModel m"
  by (auto simp: readModel_def Let_def split: if_split_asm)

lemma validated_ok: "validateLightRagConfigInput input = Inr d \<Longrightarrow> draft_ok d"
  by (auto simp: validateLightRagConfigInput_def Let_def draft_ok_def split: prod.split_asm if_split_asm
      dest: readInteger_pair readModel_pair)

lemma validModel_trim: "validModel m \<Longrightarrow> js_trim m = m"
  by (rule js_trim_id) (auto simp: validModel_def list_all_iff)

lemma draft_get:
  "jget (JObj (draftMembers d)) ''llmModel'' = JStr (rd_llmModel d)"
  "jget (JObj (draftMembers d)) ''embeddingModel'' = JStr (rd_embeddingModel d)"
  "jget (JObj (draftMembers d)) ''embeddingTokenLimit'' = jint (rd_embeddingTokenLimit d)"
  "jget (JObj (draftMembers d)) ''summaryLanguage'' = JStr (languageName (rd_summaryLanguage d))"
  "jget (JObj (draftMembers d)) ''maxAsync'' = jint (rd_maxAsync d)"
  "jget (JObj (draftMembers d)) ''maxParallelInsert'' = jint (rd_maxParallelInsert d)"
  "jget (JObj (draftMembers d)) ''chunkSize'' = jint (rd_chunkSize d)"
  "jget (JObj (draftMembers d)) ''chunkOverlapSize'' = jint (rd_chunkOverlapSize d)"
  by (simp_all add: draftMembers_def)

lemma ok_validated: "draft_ok d \<Longrightarrow> validateLightRagConfigInput (JObj (draftMembers d)) = Inr d"
proof -
  assume ok: "draft_ok d"
  have keys: "unknownKeys (JObj (draftMembers d)) ragFields = []"
    by (simp add: unknownKeys_def draftMembers_def ragFields_def)
  have model: "readModel (JStr m) f = (m, [])" if "validModel m" for m f
    using that by (simp add: readModel_def validModel_trim)
  show ?thesis
    using ok keys
    by (cases "rd_summaryLanguage d")
      (simp_all add: validateLightRagConfigInput_def draft_get draft_ok_def model readInteger_value del: jget.simps)
qed

text \<open>The check of LightRAG settings accepts exactly the drafts within their bounds: what it accepts has
  models without spaces, counts in their ranges and an overlap smaller than a chunk, whatever the
  input; every such draft is accepted as it is; and an accepted body names no other field.\<close>

theorem lightrag_draft_bounds:
  "(validateLightRagConfigInput input = Inr d \<longrightarrow>
      draft_ok d \<and> set (objectKeys input) \<subseteq> set ragFields)
   \<and> (draft_ok d \<longrightarrow> validateLightRagConfigInput (JObj (draftMembers d)) = Inr d)"
proof -
  have "set (objectKeys input) \<subseteq> set ragFields" if "validateLightRagConfigInput input = Inr d"
  proof -
    have "unknownKeys input ragFields = []"
      using that by (auto simp: validateLightRagConfigInput_def Let_def split: prod.split_asm if_split_asm)
    then show ?thesis by (auto simp: unknownKeys_def filter_empty_conv)
  qed
  then show ?thesis by (blast intro: validated_ok ok_validated)
qed

definition demo_rag_draft :: ragDraft where
  "demo_rag_draft = \<lparr>rd_llmModel = ''m'', rd_embeddingModel = ''e'', rd_embeddingTokenLimit = 8192,
     rd_summaryLanguage = EnglishSummary, rd_maxAsync = 4, rd_maxParallelInsert = 2, rd_chunkSize = 1200, rd_chunkOverlapSize = 100\<rparr>"

lemma demo_rag_draft_ok: "draft_ok demo_rag_draft"
  by (simp add: draft_ok_def demo_rag_draft_def validModel_def is_space_def code_unit_def)

theorem lightrag_draft_bounds_witness:
  "validateLightRagConfigInput (JObj (draftMembers demo_rag_draft)) = Inr demo_rag_draft \<and> draft_ok demo_rag_draft"
  using lightrag_draft_bounds[of "JObj (draftMembers demo_rag_draft)" demo_rag_draft] demo_rag_draft_ok by blast

section \<open>What is sent\<close>

lemma controlRequest_log: "fst (controlRequest env p m b t) = [] \<or>
    (\<exists>rq. fst (controlRequest env p m b t) = [rq] \<and> rw_method rq = m \<and> rw_url rq = adminBaseUrl env @ p \<and> rw_body rq = b)"
  by (simp add: controlRequest_def Let_def split: sum.split)

lemma controlRequest_sent: "snd (controlRequest env p m b t) = Inr v \<Longrightarrow>
    \<exists>rq. fst (controlRequest env p m b t) = [rq] \<and> rw_method rq = m \<and> rw_url rq = adminBaseUrl env @ p"
  by (auto simp: controlRequest_def Let_def split: sum.split_asm)

lemma readBoth_Inr:
  assumes "readBoth env fs = (l, Inr (c, m))"
  shows "readControlSnapshot env = (l, Inr c) \<and> readLightRagGatewayModels env fs = Inr m"
  using assms by (auto simp: readBoth_def split: prod.split_asm sum.split_asm)

lemma readBoth_log: "fst (readBoth env fs) = fst (readControlSnapshot env)"
  by (auto simp: readBoth_def split: prod.split sum.split)

lemma bindL_parts: "bindL m f = (case snd m of Inl e \<Rightarrow> (fst m, Inl e) | Inr x \<Rightarrow> (fst m @ fst (f x), snd (f x)))"
  by (simp add: bindL_def split: prod.split sum.split)

lemma probe_log: "\<exists>rq. fst (probeEmbeddingDimension env m) = [rq] \<and> rw_method rq = ''POST''
    \<and> rw_body rq = Some (JObj [(''model'', JStr m), (''input'', JStr ''dimension probe'')])"
  by (simp add: probeEmbeddingDimension_def Let_def)

lemma probe_Inr: "snd (probeEmbeddingDimension env m) = Inr v \<Longrightarrow> jtruthy v"
  by (auto simp: probeEmbeddingDimension_def Let_def split: option.split_asm if_split_asm)

lemma published_models:
  assumes "readLightRagGatewayModels env fs = Inr ms" "x \<in> set (map gm_name ms)"
  shows "\<exists>st c. readStoredChannels fs = Inr st \<and> c \<in> set (sc_channels st) \<and> gc_enabled c \<and> x \<in> mr_publicName ` set (gc_models c)"
  using assms
  by (auto simp: readLightRagGatewayModels_def readGatewayChannels_def bindE_eq_Inr withKey_def storedChannel.defs gatewayChannel.defs split: sum.split_asm) blast

text \<open>What an attempt to apply a draft tells when it went as far as the control plane's change.\<close>

lemma apply_put:
  assumes "rq \<in> set (fst (applyLightRagConfig env fs draft))" "rw_method rq = ''PUT''"
  shows "\<exists>available dimension. readLightRagGatewayModels env fs = Inr available \<and> missingModels draft available = []
    \<and> jtruthy dimension \<and> snd (probeEmbeddingDimension env (rd_embeddingModel draft)) = Inr dimension
    \<and> rw_url rq = adminBaseUrl env @ ''/config''
    \<and> rw_body rq = Some (JObj (draftMembers draft @ [(''embeddingDimension'', dimension)]))
    \<and> map rw_method (fst (applyLightRagConfig env fs draft)) = [''GET'', ''POST'', ''PUT'']"
proof -
  obtain l r where both: "readBoth env fs = (l, r)" by force
  have get: "rw_method q = ''GET''" if "q \<in> set l" for q
    using that readBoth_log[of env fs] controlRequest_log[of env "''/config''" "''GET''" None 8000] both
    by (auto simp: readControlSnapshot_def)
  show ?thesis
  proof (cases r)
    case (Inl e)
    then show ?thesis using assms get both by (auto simp: applyLightRagConfig_def bindL_parts)
  next
    case (Inr cm)
    obtain c available where cm: "cm = (c, available)" by force
    have l: "map rw_method l = [''GET'']" and models: "readLightRagGatewayModels env fs = Inr available"
      using readBoth_Inr[of env fs l c available] both Inr cm
        controlRequest_sent[of env "''/config''" "''GET''" None 8000 c] by (auto simp: readControlSnapshot_def)
    obtain p where p: "fst (probeEmbeddingDimension env (rd_embeddingModel draft)) = [p]" "rw_method p = ''POST''"
      using probe_log by blast
    have none: "missingModels draft available = []"
      using assms get both Inr cm by (auto simp: applyLightRagConfig_def bindL_parts split: if_split_asm)
    obtain dimension where dim: "snd (probeEmbeddingDimension env (rd_embeddingModel draft)) = Inr dimension"
      using assms get both Inr cm none p
      by (cases "snd (probeEmbeddingDimension env (rd_embeddingModel draft))") (auto simp: applyLightRagConfig_def bindL_parts)
    have config: "\<not> nullish (jget c ''config'')"
      using assms get both Inr cm none p dim by (auto simp: applyLightRagConfig_def bindL_parts split: if_split_asm)
    let ?put = "controlRequest env ''/config'' ''PUT'' (Some (JObj (draftMembers draft @ [(''embeddingDimension'', dimension)]))) 120000"
    have log: "fst (applyLightRagConfig env fs draft) = l @ [p] @ fst ?put"
      using both Inr cm none p dim config by (auto simp: applyLightRagConfig_def bindL_parts split: sum.split)
    have "rq \<in> set (fst ?put)" using assms get p log by auto
    with controlRequest_log[of env "''/config''" "''PUT''"] have "fst ?put = [rq] \<and> rw_url rq = adminBaseUrl env @ ''/config''
        \<and> rw_body rq = Some (JObj (draftMembers draft @ [(''embeddingDimension'', dimension)]))"
      by (metis empty_iff list.set(1) list.set(2) singletonD)
    with models none dim p l log assms(2) probe_Inr[OF dim] show ?thesis by auto
  qed
qed

text \<open>C31: The LightRAG configuration is changed only by an administrator and only to a sound draft: when the
  request that changes it is sent, the caller was an administrator, the body passed the check,
  both models are published by enabled channels of the gateway, and the embedding model had
  answered a vector, whose length is sent with the draft.\<close>

theorem lightrag_apply_sound:
  assumes "lightragPut env ienv fs input now d body = (requests, response)"
    and "rq \<in> set requests" "rw_method rq = ''PUT''"
  shows "\<exists>identity v draft dimension st. requireConsoleAdmin ienv input now d = Inr identity \<and> ci_admin identity
    \<and> body = Some v \<and> validateLightRagConfigInput v = Inr draft \<and> draft_ok draft
    \<and> readStoredChannels fs = Inr st
    \<and> (\<forall>m \<in> {rd_llmModel draft, rd_embeddingModel draft}. \<exists>c \<in> set (sc_channels st). gc_enabled c \<and> m \<in> mr_publicName ` set (gc_models c))
    \<and> snd (probeEmbeddingDimension env (rd_embeddingModel draft)) = Inr dimension \<and> jtruthy dimension
    \<and> rw_body rq = Some (JObj (draftMembers draft @ [(''embeddingDimension'', dimension)]))
    \<and> map rw_method requests = [''GET'', ''POST'', ''PUT'']"
proof -
  obtain identity where admin: "requireConsoleAdmin ienv input now d = Inr identity"
    using assms(1,2) by (cases "requireConsoleAdmin ienv input now d") (auto simp: lightragPut_def)
  then have ci: "ci_admin identity" by (auto simp: requireConsoleAdmin_def bindE_eq_Inr split: if_split_asm)
  obtain v draft where v: "body = Some v" "validateLightRagConfigInput v = Inr draft"
    and requests: "requests = fst (applyLightRagConfig env fs draft)"
    using assms(1,2) admin
    by (auto simp: lightragPut_def split: option.split_asm sum.split_asm prod.split_asm)
  obtain available dimension where
    put: "readLightRagGatewayModels env fs = Inr available" "missingModels draft available = []" "jtruthy dimension"
      "snd (probeEmbeddingDimension env (rd_embeddingModel draft)) = Inr dimension"
      "rw_body rq = Some (JObj (draftMembers draft @ [(''embeddingDimension'', dimension)]))"
      "map rw_method requests = [''GET'', ''POST'', ''PUT'']"
    using apply_put[OF assms(2)[unfolded requests] assms(3), folded requests] by (elim exE conjE) (rule that)
  have in_models: "m \<in> set (map gm_name available)" if "m \<in> {rd_llmModel draft, rd_embeddingModel draft}" for m
    using put(2) that by (auto simp: missingModels_def split: if_split_asm)
  obtain st where st: "readStoredChannels fs = Inr st"
    using published_models[OF put(1) in_models[of "rd_llmModel draft"]] by auto
  have published: "\<forall>m \<in> {rd_llmModel draft, rd_embeddingModel draft}.
      \<exists>c \<in> set (sc_channels st). gc_enabled c \<and> m \<in> mr_publicName ` set (gc_models c)"
    using published_models[OF put(1) in_models] st by fastforce
  show ?thesis
    using admin ci v put(3-6) st published validated_ok[OF v(2)]
    by (intro exI[of _ identity] exI[of _ v] exI[of _ draft] exI[of _ dimension] exI[of _ st] conjI) assumption+
qed

definition demo_admin_env :: identityEnv where
  "demo_admin_env = demo_identity_env\<lparr>idn_devEnabled := Some ''true''\<rparr>"

lemma demo_admin: "requireConsoleAdmin demo_admin_env (\<lambda>_. None) now d = Inr (developmentIdentity demo_admin_env)"
proof -
  have dev: "developmentEnabled demo_admin_env" by (simp add: developmentEnabled_def demo_admin_env_def)
  have "headerEmail (decodePomeriumAssertion None) (\<lambda>_. None) = []"
    by (simp add: headerEmail_def first_claim_def decodePomeriumAssertion_def stringClaim_def header_json_def js_lower_def)
  then have "consoleIdentityFromHeaders demo_admin_env (\<lambda>_. None) = Inr (developmentIdentity demo_admin_env)"
    by (simp add: consoleIdentityFromHeaders_def dev)
  then show ?thesis
    by (simp add: requireConsoleAdmin_def getConsoleIdentity_def dev) (simp add: developmentIdentity_def Let_def)
qed

definition demo_rag_fetch :: "ragRequest \<Rightarrow> (int \<times> json option) option" where
  "demo_rag_fetch rq = (if rw_method rq = ''POST''
     then Some (200, Some (JObj [(''data'', JArr [JObj [(''embedding'', JArr [JNull, JNull])]])]))
     else Some (200, Some (JObj [(''config'', JObj [])])))"

definition demo_rag_env :: ragEnv where
  "demo_rag_env = \<lparr>rg_adminUrl = None, rg_adminToken = Some ''t'', rg_gatewayUrl = None, rg_fetch = demo_rag_fetch,
     rg_collate = str_le, rg_filesFail = False\<rparr>"

definition demo_rag_files :: gatewayFiles where
  "demo_rag_files = \<lparr>gf_channels = File \<lparr>sc_channels = [\<lparr>gc_id = ''c'', gc_name = ''c'', gc_provider = OpenAI,
        gc_baseUrl = ''u'', gc_enabled = True, gc_models = [\<lparr>mr_publicName = ''m'', mr_upstreamName = ''m''\<rparr>,
          \<lparr>mr_publicName = ''e'', mr_upstreamName = ''e''\<rparr>], gc_createdAt = [], gc_updatedAt = []\<rparr>], sc_updatedAt = [], sc_revision = []\<rparr>,
     gf_mcpServers = Missing, gf_config = Missing, gf_revision = Missing, gf_secrets = (\<lambda>_. None), gf_mcpSecrets = (\<lambda>_. None)\<rparr>"

lemma demo_rag_models: "\<exists>ms. readLightRagGatewayModels demo_rag_env demo_rag_files = Inr ms \<and> set (map gm_name ms) = {''m'', ''e''}"
  by (simp add: readLightRagGatewayModels_def readGatewayChannels_def readStoredChannels_def demo_rag_files_def
      withKey_def storedChannel.defs gatewayChannel.defs) auto

theorem lightrag_apply_sound_witness:
  "\<exists>rq requests response. lightragPut demo_rag_env demo_admin_env demo_rag_files (\<lambda>_. None) 0 empty_db
      (Some (JObj (draftMembers demo_rag_draft))) = (requests, response)
    \<and> rq \<in> set requests \<and> (\<exists>dimension. rw_body rq = Some (JObj (draftMembers demo_rag_draft @ [(''embeddingDimension'', dimension)])))"
proof -
  let ?put = "lightragPut demo_rag_env demo_admin_env demo_rag_files (\<lambda>_. None) 0 empty_db (Some (JObj (draftMembers demo_rag_draft)))"
  obtain ms where ms: "readLightRagGatewayModels demo_rag_env demo_rag_files = Inr ms" "set (map gm_name ms) = {''m'', ''e''}"
    using demo_rag_models by blast
  have control: "controlRequest demo_rag_env p m b t = ([\<lparr>rw_url = adminBaseUrl demo_rag_env @ p, rw_method = m,
      rw_authorization = ''Bearer t'', rw_body = b, rw_timeout = t\<rparr>], Inr (JObj [(''config'', JObj [])]))"
    if "m \<noteq> ''POST''" for p m b t
    using that by (simp add: controlRequest_def ragAdminToken_def demo_rag_env_def demo_rag_fetch_def answerBody_def js_trim_def
        is_space_def code_unit_def)
  have probe: "\<exists>l. probeEmbeddingDimension demo_rag_env ''e'' = (l, Inr (JNum (Fin 2)))"
    by (simp add: probeEmbeddingDimension_def demo_rag_env_def demo_rag_fetch_def answerBody_def Let_def)
  have both: "\<exists>l. readBoth demo_rag_env demo_rag_files = (l, Inr (JObj [(''config'', JObj [])], ms))"
    by (simp add: readBoth_def readControlSnapshot_def control ms)
  have missing: "missingModels demo_rag_draft ms = []" using ms(2) by (auto simp: missingModels_def demo_rag_draft_def)
  have model: "rd_embeddingModel demo_rag_draft = ''e''" by (simp add: demo_rag_draft_def)
  have "\<exists>rq \<in> set (fst (applyLightRagConfig demo_rag_env demo_rag_files demo_rag_draft)). rw_method rq = ''PUT''"
    using both probe by (auto simp: applyLightRagConfig_def bindL_parts missing model control nullish_def)
  then have "\<exists>rq \<in> set (fst ?put). rw_method rq = ''PUT''"
    by (auto simp: lightragPut_def demo_admin ok_validated[OF demo_rag_draft_ok] split: prod.split sum.split)
  then obtain rq where rq: "rq \<in> set (fst ?put)" "rw_method rq = ''PUT''" by blast
  from lightrag_apply_sound[OF surjective_pairing rq]
  obtain v draft dimension where "Some (JObj (draftMembers demo_rag_draft)) = Some v" "validateLightRagConfigInput v = Inr draft"
    "rw_body rq = Some (JObj (draftMembers draft @ [(''embeddingDimension'', dimension)]))" by blast
  moreover from this have "draft = demo_rag_draft" using ok_validated[OF demo_rag_draft_ok] by simp
  ultimately show ?thesis
    using rq(1) by (intro exI[of _ rq] exI[of _ "fst ?put"] exI[of _ "snd ?put"] conjI exI[of _ dimension]) auto
qed

end
