(* ===== verification/Admin_Routes.thy ===== *)
theory Admin_Routes
  imports Lightrag Applications Connector_Access Wecom_Authentication
begin

text \<open>
  The routes of the administration that change the store: app/api/integrations,
  app/api/integrations/[id], its activation, app/api/integrations/wecom-authentication,
  app/api/connector-access/shared-resources and its [id]. Each checks that the caller is an
  administrator before anything else. A call holds the headers of its request, the moment it is
  served, the random draws and the request itself; the state is the store and the visibility
  cache. A locale holds what follows for every handler that refuses such callers unchanged.
\<close>

section \<open>Handlers that refuse\<close>

text \<open>The calls of a run, each with the state it met and the reply it got.\<close>

fun serveLog :: "('q \<Rightarrow> 'w \<Rightarrow> 'r \<times> 'w) \<Rightarrow> 'q list \<Rightarrow> 'w \<Rightarrow> ('q \<times> 'w \<times> 'r) list" where
  "serveLog h [] w = []"
| "serveLog h (q # qs) w = (q, w, fst (h q w)) # serveLog h qs (snd (h q w))"

lemma serveLog_reply: "x \<in> set (serveLog h qs w) \<Longrightarrow> snd (snd x) = fst (h (fst x) (fst (snd x)))"
  by (induction qs arbitrary: w) auto

definition serveAll :: "('q \<Rightarrow> 'w \<Rightarrow> 'r \<times> 'w) \<Rightarrow> 'q list \<Rightarrow> 'w \<Rightarrow> 'w" where
  "serveAll h qs w = fold (\<lambda>q w. snd (h q w)) qs w"

locale guarded_handler =
  fixes handle :: "'q \<Rightarrow> 'w \<Rightarrow> 'r \<times> 'w" and allowed :: "'q \<Rightarrow> 'w \<Rightarrow> bool"
  assumes refused_unchanged: "\<not> allowed q w \<Longrightarrow> snd (handle q w) = w"
begin

text \<open>A run without the refused calls: the others meet the same states and get the same replies.\<close>

lemma log_without_refused:
  "serveLog handle (map fst (filter (\<lambda>(q, w, r). allowed q w) (serveLog handle qs w))) w
    = filter (\<lambda>(q, w, r). allowed q w) (serveLog handle qs w)"
  by (induction qs arbitrary: w) (auto simp: refused_unchanged)

lemma state_without_refused:
  "serveAll handle (map fst (filter (\<lambda>(q, w, r). allowed q w) (serveLog handle qs w))) w = serveAll handle qs w"
  by (induction qs arbitrary: w) (auto simp: serveAll_def refused_unchanged)

lemma all_refused: "filter (\<lambda>(q, w, r). allowed q w) (serveLog handle qs w) = [] \<Longrightarrow> serveAll handle qs w = w"
  using state_without_refused[of qs w] by (simp add: serveAll_def)

end

section \<open>The routes\<close>

record adminEnv =
  am_identity :: identityEnv
  am_integration :: integrationEnv
  am_relay :: relayEnv
  am_access :: accessEnv

record adminDraw =
  dw_uuid :: string
  dw_iv :: string
  dw_access :: accessDraw

datatype adminBody = ApplicationBody applicationView | OrganizationBody organizationSnapshot | SharedBody "sharedResource option"
  | DeletedBody

datatype adminResponse = AdminOk int adminBody | AdminError int appError | AdminInvalid "settingProblem list" | AdminBadJson

type_synonym adminState = "db \<times> visibilityCache"

definition requestBody :: "json option \<Rightarrow> appError + json" where
  "requestBody body = (case body of Some v \<Rightarrow> if is_object v then Inr v else Inl (storeError (StoreMsg ''body_not_object'') 400)
     | None \<Rightarrow> Inl (storeError (StoreMsg ''body_not_object'') 400))"

definition adminFailure :: "int \<Rightarrow> appError \<Rightarrow> adminResponse" where
  "adminFailure other e = AdminError (routeStatus other e) e"

text \<open>A reply and the store it leaves.\<close>

definition answered :: "int \<Rightarrow> int \<Rightarrow> ('a \<Rightarrow> adminBody) \<Rightarrow> (appError + 'a) \<times> 'w \<Rightarrow> adminResponse \<times> 'w" where
  "answered other status f r = (case fst r of Inl e \<Rightarrow> (adminFailure other e, snd r) | Inr v \<Rightarrow> (AdminOk status (f v), snd r))"

definition onStore :: "adminResponse \<times> db \<Rightarrow> adminState \<Rightarrow> adminResponse \<times> adminState" where
  "onStore r w = (fst r, snd r, snd w)"

definition integrationsPost ::
    "adminEnv \<Rightarrow> adminDraw \<Rightarrow> int \<Rightarrow> (appError + platformIdentity) \<Rightarrow> json option \<Rightarrow> adminState \<Rightarrow> adminResponse \<times> adminState" where
  "integrationsPost env draw now auth body w = (case bindE auth (\<lambda>_. requestBody body) of
     Inl e \<Rightarrow> (adminFailure 500 e, w)
   | Inr v \<Rightarrow> onStore (answered 500 201 ApplicationBody (createIntegrationApplication (am_integration env) (dw_uuid draw) (dw_iv draw) now
       \<lparr>cr_platform = jget v ''platform'', cr_name = jget v ''name'', cr_appId = jget v ''appId'', cr_remark = jget v ''note'',
        cr_appSecret = jget v ''appSecret'', cr_actionIds = jget v ''actionIds''\<rparr> (fst w))) w)"

definition integrationPut ::
    "adminEnv \<Rightarrow> adminDraw \<Rightarrow> int \<Rightarrow> (appError + platformIdentity) \<Rightarrow> string \<Rightarrow> json option \<Rightarrow> adminState \<Rightarrow> adminResponse \<times> adminState" where
  "integrationPut env draw now auth i body w = (case bindE auth (\<lambda>_. requestBody body) of
     Inl e \<Rightarrow> (adminFailure 500 e, w)
   | Inr v \<Rightarrow> onStore (answered 500 200 ApplicationBody (updateIntegrationApplication (am_integration env) (dw_iv draw) now i
       \<lparr>up_name = jget v ''name'', up_appId = jget v ''appId'', up_remark = jget v ''note'',
        up_appSecret = jget v ''appSecret'', up_actionIds = jget v ''actionIds''\<rparr> (fst w))) w)"

definition integrationDelete :: "(appError + platformIdentity) \<Rightarrow> string \<Rightarrow> adminState \<Rightarrow> adminResponse \<times> adminState" where
  "integrationDelete auth i w = (case auth of Inl e \<Rightarrow> (adminFailure 500 e, w)
   | Inr _ \<Rightarrow> onStore (answered 500 200 (\<lambda>_. DeletedBody) (deleteIntegrationApplication i (fst w))) w)"

definition integrationActivate ::
    "adminEnv \<Rightarrow> int \<Rightarrow> (appError + platformIdentity) \<Rightarrow> string \<Rightarrow> adminState \<Rightarrow> adminResponse \<times> adminState" where
  "integrationActivate env now auth i w = (case auth of Inl e \<Rightarrow> (adminFailure 500 e, w)
   | Inr _ \<Rightarrow> onStore (answered 500 200 ApplicationBody (activateIntegrationApplication (am_integration env) now i (fst w))) w)"

definition organizationPut ::
    "adminEnv \<Rightarrow> int \<Rightarrow> (appError + platformIdentity) \<Rightarrow> json option \<Rightarrow> adminState \<Rightarrow> adminResponse \<times> adminState" where
  "organizationPut env now auth body w = (case auth of Inl e \<Rightarrow> (adminFailure 503 e, w)
   | Inr _ \<Rightarrow> (case body of None \<Rightarrow> (AdminBadJson, w)
     | Some v \<Rightarrow> (case validateWeComAuthenticationSettings (am_relay env) v of Inl problems \<Rightarrow> (AdminInvalid problems, w)
       | Inr settings \<Rightarrow> answered 503 200 OrganizationBody (updateWeComAuthenticationConfiguration (am_relay env) now settings w))))"

definition organizationPost ::
    "adminEnv \<Rightarrow> adminDraw \<Rightarrow> int \<Rightarrow> (appError + platformIdentity) \<Rightarrow> json option \<Rightarrow> adminState \<Rightarrow> adminResponse \<times> adminState" where
  "organizationPost env draw now auth body w = (case auth of Inl e \<Rightarrow> (adminFailure 503 e, w)
   | Inr _ \<Rightarrow> (case validateWeComAuthenticationSettings (am_relay env) (case body of None \<Rightarrow> JUndef | Some v \<Rightarrow> v) of
       Inl problems \<Rightarrow> (AdminInvalid problems, w)
     | Inr settings \<Rightarrow> answered 503 201 OrganizationBody
         (createWeComAuthenticationConfiguration (am_relay env) (dw_uuid draw) now settings w)))"

definition organizationDelete :: "int \<Rightarrow> (appError + platformIdentity) \<Rightarrow> string option \<Rightarrow> adminState \<Rightarrow> adminResponse \<times> adminState" where
  "organizationDelete now auth i w = (case auth of Inl e \<Rightarrow> (adminFailure 503 e, w)
   | Inr _ \<Rightarrow> answered 503 200 (\<lambda>_. DeletedBody) (deleteWeComAuthenticationConfiguration (case i of None \<Rightarrow> [] | Some s \<Rightarrow> s) now w))"

definition sharedResourcePut ::
    "adminEnv \<Rightarrow> adminDraw \<Rightarrow> (appError + platformIdentity) \<Rightarrow> json \<Rightarrow> adminState \<Rightarrow> adminResponse \<times> adminState" where
  "sharedResourcePut env draw auth payload w =
    (case bindE auth (\<lambda>identity. bindE (readJsonRecord payload) (\<lambda>body.
        bindE (sharedResourceBody body) (\<lambda>input. Inr (identity, input)))) of
       Inl e \<Rightarrow> (adminFailure 500 e, w)
     | Inr (identity, input) \<Rightarrow> answered 500 200 SharedBody
         (saveSharedConnectorResource (am_access env) (dw_access draw) (consoleIdentity.truncate identity) input w))"

definition sharedResourceDelete :: "adminEnv \<Rightarrow> (appError + platformIdentity) \<Rightarrow> string \<Rightarrow> adminState \<Rightarrow> adminResponse \<times> adminState" where
  "sharedResourceDelete env auth i w = (case auth of Inl e \<Rightarrow> (adminFailure 500 e, w)
   | Inr _ \<Rightarrow> answered 500 200 (\<lambda>_. DeletedBody) (deleteSharedConnectorResource (am_access env) (JStr i) w))"

datatype adminRequest = PostIntegration "json option" | PutIntegration string "json option" | DeleteIntegration string
  | ActivateIntegration string | PutOrganization "json option" | PostOrganization "json option"
  | DeleteOrganization "string option" | PutSharedResource json | DeleteSharedResource string

record adminCall =
  aq_headers :: headers
  aq_now :: int
  aq_draw :: adminDraw
  aq_request :: adminRequest

definition callerOf :: "adminEnv \<Rightarrow> adminCall \<Rightarrow> adminState \<Rightarrow> appError + platformIdentity" where
  "callerOf env q w = requireConsoleAdmin (am_identity env) (aq_headers q) (aq_now q) (fst w)"

definition administer :: "adminEnv \<Rightarrow> adminCall \<Rightarrow> adminState \<Rightarrow> adminResponse \<times> adminState" where
  "administer env q w = (let auth = callerOf env q w; now = aq_now q; draw = aq_draw q in case aq_request q of
     PostIntegration body \<Rightarrow> integrationsPost env draw now auth body w
   | PutIntegration i body \<Rightarrow> integrationPut env draw now auth i body w
   | DeleteIntegration i \<Rightarrow> integrationDelete auth i w
   | ActivateIntegration i \<Rightarrow> integrationActivate env now auth i w
   | PutOrganization body \<Rightarrow> organizationPut env now auth body w
   | PostOrganization body \<Rightarrow> organizationPost env draw now auth body w
   | DeleteOrganization i \<Rightarrow> organizationDelete now auth i w
   | PutSharedResource payload \<Rightarrow> sharedResourcePut env draw auth payload w
   | DeleteSharedResource i \<Rightarrow> sharedResourceDelete env auth i w)"

lemma administer_refused:
  "callerOf env q w = Inl e \<Longrightarrow> \<exists>other. administer env q w = (adminFailure other e, w)"
  by (cases "aq_request q") (auto simp: administer_def integrationsPost_def integrationPut_def integrationDelete_def
      integrationActivate_def organizationPut_def organizationPost_def organizationDelete_def sharedResourcePut_def sharedResourceDelete_def)

interpretation administration: guarded_handler "administer env" "\<lambda>q w. is_ok (callerOf env q w)" for env
proof unfold_locales
  fix q w
  assume "\<not> is_ok (callerOf env q w)"
  then obtain e where "callerOf env q w = Inl e" by (cases "callerOf env q w") auto
  then show "snd (administer env q w) = w" using administer_refused by fastforce
qed

lemma caller_admin:
  assumes "callerOf env q w = Inr identity" "\<not> developmentEnabled (am_identity env)"
  shows "isConsoleAdminEmail (am_identity env) (ci_email identity)"
proof -
  have got: "getConsoleIdentity (am_identity env) None (aq_headers q) (aq_now q) (fst w) = Inr identity" "ci_admin identity"
    using assms(1) by (auto simp: callerOf_def requireConsoleAdmin_def split: if_split_asm)
  show ?thesis
  proof (rule console_identity_cases[OF got(1) assms(2)])
    assume "consoleIdentityFromHeaders (am_identity env) (aq_headers q) = Inr identity"
    with headers_identity[OF this assms(2)] got(2) show ?thesis by blast
  next
    fix token
    assume "sessionIdentityOf (am_identity env) token (aq_now q) (fst w) = Inr identity"
    then show ?thesis
    proof (rule session_identity)
      fix row
      assume "ci_email identity = js_lower (lk_principal_email row)"
        "ci_admin identity = isConsoleAdminEmail (am_identity env) (lk_principal_email row)"
      with got(2) show ?thesis by (simp add: isConsoleAdminEmail_lower)
    qed
  qed
qed

text \<open>C33: Whoever sends what in whatever order, the store of the administration changes by administrators' calls
  only: leaving out of any run of calls those whose caller is no administrator at the moment of the
  call, the others meet the same states and get the same replies and the run ends in the same
  state; the refused ones are answered with an error; and outside development mode an admitted
  caller's email is a configured administrator's.\<close>

theorem administration_noninterference:
  fixes env calls w
  defines "run \<equiv> serveLog (administer env) calls w"
  defines "kept \<equiv> filter (\<lambda>(q, v, r). is_ok (callerOf env q v)) run"
  shows "serveLog (administer env) (map fst kept) w = kept
    \<and> serveAll (administer env) (map fst kept) w = serveAll (administer env) calls w
    \<and> (\<forall>(q, v, r) \<in> set run. case callerOf env q v of
         Inl e \<Rightarrow> \<exists>status. r = AdminError status e
       | Inr identity \<Rightarrow> developmentEnabled (am_identity env) \<or> isConsoleAdminEmail (am_identity env) (ci_email identity))"
proof -
  have "case callerOf env q v of Inl e \<Rightarrow> \<exists>status. r = AdminError status e
       | Inr identity \<Rightarrow> developmentEnabled (am_identity env) \<or> isConsoleAdminEmail (am_identity env) (ci_email identity)"
    if "(q, v, r) \<in> set (serveLog (administer env) calls w)" for q v r
  proof -
    have "r = fst (administer env q v)" using serveLog_reply[OF that] by simp
    then show ?thesis
      using administer_refused[of env q v] caller_admin[of env q v]
      by (cases "callerOf env q v") (auto simp: adminFailure_def)
  qed
  then show ?thesis
    using administration.log_without_refused[of env calls w] administration.state_without_refused[of env calls w]
    unfolding run_def kept_def by blast
qed

text \<open>A call of nobody and one of the development administrator.\<close>

definition demo_admin_world :: adminEnv where
  "demo_admin_world = \<lparr>am_identity = demo_identity_env, am_integration = undefined, am_relay = undefined, am_access = undefined\<rparr>"

definition demo_stranger_call :: adminCall where
  "demo_stranger_call = \<lparr>aq_headers = (\<lambda>_. None), aq_now = 0, aq_draw = \<lparr>dw_uuid = [], dw_iv = [], dw_access = demo_access_draw\<rparr>, aq_request = DeleteIntegration []\<rparr>"

theorem administration_noninterference_witness:
  "serveAll (administer demo_admin_world) [demo_stranger_call] (empty_db, []) = (empty_db, [])"
proof -
  have "callerOf demo_admin_world demo_stranger_call (empty_db, []) = Inl (AuthError ''no_session'' 401)"
    by (simp add: callerOf_def demo_admin_world_def demo_stranger_call_def requireConsoleAdmin_def getConsoleIdentity_def
        demo_identity_env_facts or_default_def readWeComConsoleSessionCookie_def)
  then show ?thesis
    using administration_noninterference[of demo_admin_world "[demo_stranger_call]" "(empty_db, [])"]
    by (simp add: serveAll_def)
qed

end
