(* ===== verification/Account_Routes.thy ===== *)
theory Account_Routes
  imports Employee_Views Bot_Lease Admin_Routes
begin

text \<open>
  The routes of the employee's own pages (app/api/account/...) and the route the MCP gateway asks
  for a connection (app/api/internal/connector-bindings/resolve). Every account route reads who
  calls and hands that identity to a handler of integrations.ts; a locale states what the routes
  owe the other employees: a call changes only the rows of its caller. An answer names an error
  only where the route lets its text through; otherwise it carries the route's own text.
\<close>

section \<open>The routes\<close>

record accountEnv =
  an_identity :: identityEnv
  an_employee :: employeeEnv
  an_integration :: integrationEnv
  an_disconnect :: ocEnv
  an_qr :: qrEnv
  an_bot :: botEnv

record accountDraw =
  dr_uuid :: string
  dr_bytes :: string
  dr_bot :: botDraw
  dr_claimed :: int
  dr_finished :: int

datatype accountBody = PageBody employeeSnapshot | AuthorizationBody "string \<times> string"
  | BotStartBody "string \<times> string \<times> int" | BotPollBody botPollResult | NameBody string | DoneBody

text \<open>None is the text of the route itself.\<close>

datatype accountResponse = AccountOk int accountBody | AccountError int "appError option"

type_synonym accountState = "bool \<times> db \<times> visibilityCache"

fun accountStatus :: "bool \<Rightarrow> appError \<Rightarrow> int" where
  "accountStatus qr (QrError m s) = (if qr then s else 500)"
| "accountStatus qr e = routeStatus 500 e"

fun shownError :: "bool \<Rightarrow> bool \<Rightarrow> appError \<Rightarrow> appError option" where
  "shownError qr masked (StoreError e) = Some (StoreError e)"
| "shownError qr masked (AuthError m s) = Some (AuthError m s)"
| "shownError qr masked (ConnectorError e) =
    (if masked \<or> oe_message e = NetworkFailure \<or> oe_message e = PayloadTypeError then None
     else Some (ConnectorError e))"
| "shownError qr masked (QrError m s) = (if qr then Some (QrError m s) else None)"
| "shownError qr masked e = None"

definition accountFailure :: "bool \<Rightarrow> bool \<Rightarrow> appError \<Rightarrow> accountResponse" where
  "accountFailure qr masked e = AccountError (accountStatus qr e) (shownError qr masked e)"

definition accountAnswer ::
    "bool \<Rightarrow> bool \<Rightarrow> int \<Rightarrow> ('a \<Rightarrow> accountBody) \<Rightarrow> appError + 'a \<Rightarrow> accountResponse" where
  "accountAnswer qr masked status f r =
    (case r of Inl e \<Rightarrow> accountFailure qr masked e | Inr v \<Rightarrow> AccountOk status (f v))"

text \<open>A handler that works on the store, run on the whole state.\<close>

definition onDb :: "('a \<times> db) \<Rightarrow> accountState \<Rightarrow> 'a \<times> accountState" where
  "onDb r w = (fst r, fst w, snd r, snd (snd w))"

definition integrationsPage ::
    "accountEnv \<Rightarrow> int \<Rightarrow> (appError + platformIdentity) \<Rightarrow> accountState \<Rightarrow> accountResponse \<times> accountState" where
  "integrationsPage env now auth w = (case auth of
     Inl e \<Rightarrow> (accountFailure False False e, w)
   | Inr identity \<Rightarrow> (case getEmployeeIntegrations (an_employee env) now identity w of
       (r, w') \<Rightarrow> (accountAnswer False False 200 PageBody r, w')))"

definition authorizePost ::
    "accountEnv \<Rightarrow> accountDraw \<Rightarrow> int \<Rightarrow> (appError + platformIdentity) \<Rightarrow> string \<Rightarrow> accountState
      \<Rightarrow> accountResponse \<times> accountState" where
  "authorizePost env draw now auth applicationId w = (case auth of
     Inl e \<Rightarrow> (accountFailure False False e, w)
   | Inr identity \<Rightarrow> (case startEmployeeIntegrationAuthorization (an_integration env) now (dr_uuid draw)
         (consoleIdentity.truncate identity) applicationId (fst (snd w)) of
       (r, d') \<Rightarrow> onDb (accountAnswer False False 201 AuthorizationBody r, d') w))"

definition authorizeDelete ::
    "accountEnv \<Rightarrow> int \<Rightarrow> (appError + platformIdentity) \<Rightarrow> string \<Rightarrow> accountState \<Rightarrow> accountResponse \<times> accountState" where
  "authorizeDelete env now auth applicationId w = (case auth of
     Inl e \<Rightarrow> (accountFailure False False e, w)
   | Inr identity \<Rightarrow> (case disconnectEmployeeIntegration (an_disconnect env) now
         (consoleIdentity.truncate identity) applicationId (fst (snd w)) of
       (r, d') \<Rightarrow> onDb (accountAnswer False False 200 (\<lambda>_. DoneBody) r, d') w))"

definition botStartPost ::
    "accountEnv \<Rightarrow> accountDraw \<Rightarrow> int \<Rightarrow> (appError + platformIdentity) \<Rightarrow> accountState \<Rightarrow> accountResponse \<times> accountState" where
  "botStartPost env draw now auth w = (case auth of
     Inl e \<Rightarrow> (accountFailure True True e, w)
   | Inr identity \<Rightarrow> (case startEmployeeWeComBotAuthorization (an_qr env) (be_crypto (an_bot env))
         (consoleIdentity.truncate identity) (dr_bytes draw) now (fst (snd w)) of
       (r, d') \<Rightarrow> onDb (accountAnswer True True 201 BotStartBody r, d') w))"

definition botPollGet ::
    "accountEnv \<Rightarrow> accountDraw \<Rightarrow> int \<Rightarrow> (appError + platformIdentity) \<Rightarrow> string option \<Rightarrow> accountState
      \<Rightarrow> accountResponse \<times> accountState" where
  "botPollGet env draw now auth request w = (case auth of
     Inl e \<Rightarrow> (accountFailure True True e, w)
   | Inr identity \<Rightarrow> (case pollEmployeeWeComBotAuthorization (an_bot env) (consoleIdentity.truncate identity)
         (dr_bot draw) (case request of None \<Rightarrow> [] | Some t \<Rightarrow> t) now (dr_claimed draw) (dr_finished draw)
         (fst (snd w)) of
       (r, es, d') \<Rightarrow> onDb (accountAnswer True True 200 BotPollBody r, d') w))"

definition botRenamePatch ::
    "int \<Rightarrow> (appError + platformIdentity) \<Rightarrow> string \<Rightarrow> json \<Rightarrow> accountState \<Rightarrow> accountResponse \<times> accountState" where
  "botRenamePatch now auth connectionName payload w = (case auth of
     Inl e \<Rightarrow> (accountFailure False True e, w)
   | Inr identity \<Rightarrow> (case renameEmployeeWeComBot (consoleIdentity.truncate identity) connectionName
         (string_field payload ''displayName'' []) now (fst (snd w)) of
       (r, d') \<Rightarrow> onDb (accountAnswer False True 200 NameBody r, d') w))"

definition botDelete ::
    "accountEnv \<Rightarrow> int \<Rightarrow> (appError + platformIdentity) \<Rightarrow> string \<Rightarrow> accountState \<Rightarrow> accountResponse \<times> accountState" where
  "botDelete env now auth connectionName w = (case auth of
     Inl e \<Rightarrow> (accountFailure False True e, w)
   | Inr identity \<Rightarrow> (case disconnectEmployeeWeComBot (an_disconnect env) (consoleIdentity.truncate identity)
         connectionName now (fst (snd w)) of
       (r, d') \<Rightarrow> onDb (accountAnswer False True 200 (\<lambda>_. DoneBody) r, d') w))"

definition identityDelete ::
    "(appError + platformIdentity) \<Rightarrow> string option \<Rightarrow> accountState \<Rightarrow> accountResponse \<times> accountState" where
  "identityDelete auth linkId w = (case auth of
     Inl e \<Rightarrow> (accountFailure False False e, w)
   | Inr identity \<Rightarrow> (case disconnectWeComIdentityLink (ci_principalIssuer identity)
         (ci_principalSubject identity) (case linkId of None \<Rightarrow> [] | Some i \<Rightarrow> i) (fst (snd w)) of
       (r, d') \<Rightarrow> onDb (accountAnswer False False 200 (\<lambda>_. DoneBody) r, d') w))"

datatype accountRequest = GetIntegrations | PostAuthorization string | DeleteAuthorization string
  | PostBot | GetBot "string option" | PatchBot string json | DeleteBot string | DeleteLink "string option"

record accountCall =
  cl_headers :: headers
  cl_now :: int
  cl_draw :: accountDraw
  cl_request :: accountRequest

text \<open>The clock of a call is in milliseconds, the identity reads it in seconds.\<close>

definition employeeOf :: "accountEnv \<Rightarrow> accountCall \<Rightarrow> accountState \<Rightarrow> appError + platformIdentity" where
  "employeeOf env q w = getConsoleIdentity (an_identity env) None (cl_headers q) (cl_now q div 1000) (fst (snd w))"

definition serveAccount :: "accountEnv \<Rightarrow> accountCall \<Rightarrow> accountState \<Rightarrow> accountResponse \<times> accountState" where
  "serveAccount env q w = (let auth = employeeOf env q w; now = cl_now q; draw = cl_draw q in
     case cl_request q of
       GetIntegrations \<Rightarrow> integrationsPage env now auth w
     | PostAuthorization i \<Rightarrow> authorizePost env draw now auth i w
     | DeleteAuthorization i \<Rightarrow> authorizeDelete env now auth i w
     | PostBot \<Rightarrow> botStartPost env draw now auth w
     | GetBot request \<Rightarrow> botPollGet env draw now auth request w
     | PatchBot n payload \<Rightarrow> botRenamePatch now auth n payload w
     | DeleteBot n \<Rightarrow> botDelete env now auth n w
     | DeleteLink i \<Rightarrow> identityDelete auth i w)"

section \<open>The resolver's route\<close>

definition bearerToken :: "string option \<Rightarrow> string" where
  "bearerToken authorization = (let a = (case authorization of None \<Rightarrow> [] | Some t \<Rightarrow> t) in
     if starts_with a ''Bearer '' then js_trim (drop 7 a) else [])"

definition resolverAuthorized :: "crypto \<Rightarrow> string option \<Rightarrow> string option \<Rightarrow> bool" where
  "resolverAuthorized cr token authorization =
    (let expected = trimmed_or_empty token; actual = bearerToken authorization in
     expected \<noteq> [] \<and> actual \<noteq> []
     \<and> cr_sha256 cr (utf8_encode expected) = cr_sha256 cr (utf8_encode actual))"

definition text_or :: "json \<Rightarrow> string" where
  "text_or v = (if is_string v then the_string v else [])"

definition resolverInput :: "json \<Rightarrow> resolveInput" where
  "resolverInput v = \<lparr>ri_issuer = text_or (jget v ''issuer''), ri_subject = text_or (jget v ''subject''),
     ri_email = as_string (jget v ''email''), ri_groups = filter is_string (the_array (jget v ''groups'')),
     ri_wecomUserIdHash = as_string (jget v ''wecomUserIdHash''), ri_service = as_string (jget v ''service''),
     ri_requestedConnectionName = as_string (jget v ''requestedConnectionName''),
     ri_actionId = as_string (jget v ''actionId'')\<rparr>"

datatype resolveReply = Unauthorized | Resolved resolved | ResolveError int "appError option" "string option"

text \<open>A body that is not JSON throws a SyntaxError, which the route does not know.\<close>

definition resolvePost ::
    "resolverEnv \<Rightarrow> string option \<Rightarrow> int \<Rightarrow> int \<Rightarrow> string option \<Rightarrow> json option \<Rightarrow> db \<Rightarrow> visibilityCache
      \<Rightarrow> resolveReply \<times> visibilityCache" where
  "resolvePost env token now now' authorization body d cache =
    (if \<not> resolverAuthorized (rv_crypto env) token authorization then (Unauthorized, cache)
     else case body of None \<Rightarrow> (ResolveError 500 None None, cache)
     | Some v \<Rightarrow>
         if \<not> is_object v then (ResolveError 400 (Some (storeError (StoreMsg ''body_not_object'') 400)) None, cache)
         else case resolveEmployeeConnectorBindings env now now' (resolverInput v) d cache of
             (Inr r, cache') \<Rightarrow> (Resolved r, cache')
           | (Inl e, cache') \<Rightarrow> (ResolveError (routeStatus 500 e) (shownError False False e)
               (case e of StoreError s \<Rightarrow> se_code s | _ \<Rightarrow> None), cache'))"

section \<open>A call reaches its caller's rows only\<close>

definition person :: "'a consoleIdentity_scheme \<Rightarrow> string \<times> string" where
  "person i = (ci_principalIssuer i, ci_principalSubject i)"

definition owner :: "bindingRow \<Rightarrow> string \<times> string" where
  "owner b = (bi_issuer b, bi_subject b)"

definition linkOwner :: "linkRow \<Rightarrow> string \<times> string" where
  "linkOwner l = (lk_principal_issuer l, lk_principal_subject l)"

definition rowsOf :: "string \<times> string \<Rightarrow> db \<Rightarrow> bindingRow list \<times> linkRow list" where
  "rowsOf p d = (filter (\<lambda>b. owner b = p) (bindings d), filter (\<lambda>l. linkOwner l = p) (links d))"

definition privateStep :: "string \<times> string \<Rightarrow> db \<Rightarrow> db \<Rightarrow> bool" where
  "privateStep q d d' \<longleftrightarrow> db_ok d' \<and> (\<forall>p. p \<noteq> q \<longrightarrow> rowsOf p d' = rowsOf p d)"

lemma person_truncate [simp]: "person (consoleIdentity.truncate i) = person i"
  by (simp add: person_def consoleIdentity.defs)

lemma private_refl: "db_ok d \<Longrightarrow> privateStep q d d"
  by (simp add: privateStep_def)

lemma private_trans: "privateStep q d d' \<Longrightarrow> privateStep q d' d'' \<Longrightarrow> privateStep q d d''"
  by (simp add: privateStep_def)

lemma rowsOf_update:
  assumes "\<And>b. b \<in> set (bindings d) \<Longrightarrow> P b \<Longrightarrow> owner b \<noteq> p \<and> owner (f b) \<noteq> p"
  shows "rowsOf p (updateBindings P f d) = rowsOf p d"
proof -
  have "filter (\<lambda>b. owner b = p) (map (\<lambda>b. if P b then f b else b) bs) = filter (\<lambda>b. owner b = p) bs"
    if "set bs \<subseteq> set (bindings d)" for bs
    using that assms by (induction bs) auto
  then show ?thesis by (simp add: rowsOf_def updateBindings_def)
qed

lemma private_update:
  assumes "db_ok (updateBindings P f d)"
    and "\<And>b. b \<in> set (bindings d) \<Longrightarrow> P b \<Longrightarrow> owner b = q \<and> owner (f b) = q"
  shows "privateStep q d (updateBindings P f d)"
  unfolding privateStep_def using assms by (metis rowsOf_update)

lemma private_insert:
  "db_ok (d\<lparr>bindings := bindings d @ [new]\<rparr>) \<Longrightarrow> owner new = q \<Longrightarrow>
    privateStep q d (d\<lparr>bindings := bindings d @ [new]\<rparr>)"
  by (auto simp: privateStep_def rowsOf_def)

lemma private_requests: "db_ok (d\<lparr>botRequests := rs\<rparr>) \<Longrightarrow> privateStep q d (d\<lparr>botRequests := rs\<rparr>)"
  by (simp add: privateStep_def rowsOf_def)

section \<open>The handlers\<close>

lemma upsertBinding_private:
  "upsertBinding new d = Inr d' \<Longrightarrow> privateStep (owner new) d d'"
  by (auto simp: upsertBinding_def sameApplicationSlot_def owner_def intro: private_insert
      intro!: private_update split: if_split_asm)

lemma authorize_private:
  assumes "db_ok d"
  shows "privateStep (person identity) d
    (snd (startEmployeeIntegrationAuthorization env now uuid identity applicationId d))"
proof (cases "startAuthorizationChecks env applicationId d")
  case (Inl e)
  with assms show ?thesis by (simp add: startEmployeeIntegrationAuthorization_def private_refl)
next
  case (Inr c)
  obtain row pdef service actionIds where c: "c = (row, pdef, service, actionIds)" by (cases c)
  let ?name = "employeeConnectionName (ie_crypto env) identity service []"
  let ?new = "pendingBinding identity pdef row service ?name uuid now"
  have own: "owner ?new = person identity" by (simp add: owner_def person_def pendingBinding_def)
  show ?thesis
  proof (cases "upsertBinding ?new d")
    case (Inl v)
    with Inr c assms show ?thesis
      by (simp add: startEmployeeIntegrationAuthorization_def Let_def private_refl)
  next
    case up: (Inr d1)
    have step: "privateStep (person identity) d d1"
      using upsertBinding_private[OF up] own by simp
    have fail: "privateStep (person identity) d1 d2"
      if "checked (failBindings identity service t now d1) = Inr d2" for t d2
    proof -
      have "d2 = failBindings identity service t now d1" "db_ok d2" using that by simp_all
      then show ?thesis
        unfolding failBindings_def by (auto simp: owner_def person_def intro!: private_update)
    qed
    show ?thesis
      using Inr c up step private_trans[OF step fail]
      by (auto simp: startEmployeeIntegrationAuthorization_def Let_def split: sum.split simp del: checked_Inr)
  qed
qed

lemma disconnect_private:
  assumes "db_ok d"
  shows "privateStep (person identity) d (snd (disconnectEmployeeIntegration env now identity applicationId d))"
proof -
  have "privateStep (person identity) d (updateBindings (\<lambda>c. bi_id c = bi_id b)
      (\<lambda>c. c\<lparr>bi_status := Revoked, bi_error_message := MsgNone, bi_updated_at := now\<rparr>) d)"
    if "List.find (\<lambda>b. ownBinding identity b \<and> P b) (bindings d) = Some b"
      "db_ok (updateBindings (\<lambda>c. bi_id c = bi_id b)
        (\<lambda>c. c\<lparr>bi_status := Revoked, bi_error_message := MsgNone, bi_updated_at := now\<rparr>) d)" for b P
  proof (rule private_update[OF that(2)])
    fix c assume c: "c \<in> set (bindings d)" "bi_id c = bi_id b"
    have b: "b \<in> set (bindings d)" "ownBinding identity b" using that(1) by (auto simp: find_Some_iff)
    have "unique_by bi_id (bindings d)"
      using assms by (simp add: db_ok_def uniques_ok_def bindings_unique_def)
    then have "c = b" using unique_by_eq c b(1) by metis
    with b(2) show "owner c = person identity
        \<and> owner (c\<lparr>bi_status := Revoked, bi_error_message := MsgNone, bi_updated_at := now\<rparr>) = person identity"
      by (simp add: owner_def person_def ownBinding_def)
  qed
  with assms show ?thesis
    by (auto simp: disconnectEmployeeIntegration_def private_refl split: sum.split option.split)
qed

lemma own_update:
  assumes "db_ok (updateBindings P f d)" "\<And>b. P b \<Longrightarrow> ownedBy identity b" "\<And>b. owner (f b) = owner b"
  shows "privateStep (person identity) d (updateBindings P f d)"
  using assms by (intro private_update) (auto simp: ownedBy_def owner_def person_def)

lemma rename_private:
  assumes "db_ok d"
  shows "privateStep (person identity) d (snd (renameEmployeeWeComBot identity connectionName displayName now d))"
  using assms rename_keeps_ok[OF assms, of identity connectionName displayName now]
  unfolding renameEmployeeWeComBot_def Let_def
  by (auto simp: private_refl personalBot_def owner_def intro!: own_update split: if_split_asm)

lemma disconnect_bot_private:
  assumes "db_ok d"
  shows "privateStep (person identity) d (snd (disconnectEmployeeWeComBot oc identity connectionName now d))"
  using assms disconnect_bot_keeps_ok[OF assms, of oc identity connectionName now]
  unfolding disconnectEmployeeWeComBot_def Let_def
  by (auto simp: private_refl owner_def intro!: own_update split: option.splits sum.splits if_splits)

lemma unlink_private:
  assumes "db_ok d"
  shows "privateStep (issuer, subject) d (snd (disconnectWeComIdentityLink issuer subject i d))"
  using assms
  by (auto simp: disconnectWeComIdentityLink_def privateStep_def rowsOf_def linkOwner_def ownLink_def
      split: sum.split intro!: filter_cong)

section \<open>Scan requests and bots\<close>

text \<open>A statement on the requests that keeps a row's hash and completes it with a name, or not at all.\<close>

lemma db_ok_requests:
  assumes "db_ok d" "\<And>r. r \<in> set (botRequests d) \<Longrightarrow> P r \<Longrightarrow> br_request_hash (f r) = br_request_hash r
    \<and> (br_completed_at (f r) = None \<longleftrightarrow> br_connection_name (f r) = None)"
  shows "db_ok (updateRequests P f d)"
proof -
  have "unique_by br_request_hash (map (\<lambda>r. if P r then f r else r) (botRequests d))
      = unique_by br_request_hash (botRequests d)"
    using assms(2) by (intro unique_by_map) auto
  moreover have "botRequests_check (map (\<lambda>r. if P r then f r else r) (botRequests d))"
    using assms by (auto simp: db_ok_defs botRequests_check_def list_all_iff)
  ultimately show ?thesis
    using assms(1) by (simp add: db_ok_defs updateRequests_def)
qed

lemma private_updateRequests:
  assumes "db_ok d" "\<And>r. r \<in> set (botRequests d) \<Longrightarrow> P r \<Longrightarrow> br_request_hash (f r) = br_request_hash r
    \<and> (br_completed_at (f r) = None \<longleftrightarrow> br_connection_name (f r) = None)"
  shows "privateStep q d (updateRequests P f d)"
  using db_ok_requests[OF assms] private_requests unfolding updateRequests_def by blast

lemma request_kept:
  "db_ok d \<Longrightarrow> r \<in> set (botRequests d) \<Longrightarrow> br_completed_at r = None \<longleftrightarrow> br_connection_name r = None"
  by (simp add: db_ok_defs botRequests_check_def list_all_iff)

lemma begin_private:
  assumes "db_ok d"
  shows "privateStep q d (snd (beginPoll cr identity request now d))"
proof -
  have "privateStep q d (updateRequests (\<lambda>r. br_request_hash r = h \<and> br_completed_at r = None)
      (\<lambda>r. r\<lparr>br_scode := None, br_processing_at := None\<rparr>) d)" for h
    using request_kept[OF assms] by (intro private_updateRequests[OF assms]) auto
  then show ?thesis
    using assms by (auto simp: beginPoll_def Let_def private_refl split: option.split list.split)
qed

lemma claim_private: "db_ok d \<Longrightarrow> privateStep q d (snd (claimPoll h now d))"
  by (auto simp: claimPoll_def claimable_def request_kept intro!: private_updateRequests)

lemma complete_private: "db_ok d \<Longrightarrow> privateStep q d (completePoll h n now d)"
  by (auto simp: completePoll_def intro!: private_updateRequests)

lemma release_private: "db_ok d \<Longrightarrow> privateStep q d (releasePoll h d)"
  by (auto simp: releasePoll_def request_kept intro!: private_updateRequests)

lemma start_private:
  assumes "db_ok d"
  shows "privateStep q d (snd (startEmployeeWeComBotAuthorization qr cr identity bytes now d))"
proof -
  have ok: "db_ok (d\<lparr>botRequests := filter P (botRequests d)\<rparr>)" for P
    using assms by (auto simp: db_ok_defs unique_by_filter botRequests_check_def list_all_iff)
  show ?thesis
    using assms ok private_requests[OF ok]
    by (auto simp: startEmployeeWeComBotAuthorization_def Let_def private_refl intro: private_requests
        split: sum.split)
qed

lemma upsertBot_private:
  "db_ok d \<Longrightarrow> upsertBot new d = Inr (stored, d') \<Longrightarrow> privateStep (owner new) d d'"
  by (auto simp: upsertBot_def sameOwner_def owner_def mergeBotRow_def intro: private_insert
      intro!: private_update split: if_split_asm)

lemma connectAttempt_private:
  assumes "db_ok d" "connectAttempt env identity draw plan provider botId secret d = (r, saved, d')"
  shows "privateStep (person identity) d d'"
proof (cases "validateBot env draw plan provider botId secret")
  case (Inl e)
  with assms show ?thesis by (simp add: connectAttempt_def private_refl)
next
  case (Inr v)
  obtain user actionIds where v: "v = (user, actionIds)" by (cases v)
  have own: "owner (newBotRow env identity draw plan user actionIds connection) = person identity" for connection
    by (simp add: owner_def person_def newBotRow_def)
  show ?thesis
    using assms Inr v upsertBot_private[OF assms(1)] own
    by (fastforce simp: connectAttempt_def private_refl split: sum.split_asm if_split_asm)
qed

lemma connect_private:
  assumes "db_ok d" "connectEmployeeWeComBot env identity draw botId secret d = (r, es, d')"
  shows "privateStep (person identity) d d'"
  using assms connectAttempt_private[OF assms(1)]
  by (auto simp: connectEmployeeWeComBot_def Let_def private_refl
      split: sum.split_asm prod.split_asm)

lemma poll_private:
  assumes "db_ok d" "pollEmployeeWeComBotAuthorization env identity draw request now now' now'' d = (r, es, d')"
  shows "privateStep (person identity) d d'"
proof -
  let ?q = "person identity"
  obtain b d1 where b: "beginPoll (be_crypto env) identity request now d = (b, d1)" by fastforce
  have s1: "privateStep ?q d d1" using begin_private[OF assms(1)] b by (metis snd_conv)
  have ok1: "db_ok d1" using s1 by (simp add: privateStep_def)
  show ?thesis
  proof (cases "d' = d1")
    case False
    then obtain h scode botId secret name where sc: "b = Inr (Scanning h scode)"
      "pollWeComBotQrSession (be_qr env) scode = Inr (QrConnected botId secret name)"
      using assms(2) b
      by (auto simp: pollEmployeeWeComBotAuthorization_def split: sum.split_asm botPollStart.split_asm
          qrPoll.split_asm)
    obtain c d2 where c: "claimPoll h now' d1 = (c, d2)" by fastforce
    have s2: "privateStep ?q d1 d2" using claim_private[OF ok1] c by (metis snd_conv)
    have ok2: "db_ok d2" using s2 by (simp add: privateStep_def)
    obtain r3 es3 d3 where con: "connectEmployeeWeComBot env identity draw botId secret d2 = (r3, es3, d3)"
      by (cases "connectEmployeeWeComBot env identity draw botId secret d2")
    have s3: "privateStep ?q d2 d3" by (rule connect_private[OF ok2 con])
    have ok3: "db_ok d3" using s3 by (simp add: privateStep_def)
    have "d' = d2 \<or> (\<exists>n. d' = completePoll h n now'' d3) \<or> d' = releasePoll h d3"
      using assms(2) b sc c con
      by (auto simp: pollEmployeeWeComBotAuthorization_def split: bool.split_asm sum.split_asm)
    then have "privateStep ?q d2 d'"
      using private_refl[OF ok2] private_trans[OF s3 complete_private[OF ok3]]
        private_trans[OF s3 release_private[OF ok3]] by blast
    then show ?thesis by (rule private_trans[OF private_trans[OF s1 s2]])
  qed (use s1 in simp)
qed

section \<open>The page\<close>

text \<open>The page takes over rows of the same issuer that carry the caller's email.\<close>

definition adoptable :: "'a consoleIdentity_scheme \<Rightarrow> string \<times> string \<Rightarrow> db \<Rightarrow> bool" where
  "adoptable i p d \<longleftrightarrow> list_ex (\<lambda>b. owner b = p \<and> bi_issuer b = ci_principalIssuer i
     \<and> js_lower (bi_email b) = ci_email i) (bindings d)"

lemma adopt_step:
  assumes "db_ok d" "adoptLegacyBindings now i d = Inr d1"
  shows "db_ok d1 \<and> (\<forall>p. p \<noteq> person i \<longrightarrow> \<not> adoptable i p d \<longrightarrow> rowsOf p d1 = rowsOf p d)"
proof
  show "db_ok d1" by (rule adoptLegacyBindings_ok[OF assms])
  have "d1 = d \<or> d1 = updateBindings (legacyBinding i) (\<lambda>b. b\<lparr>bi_subject := ci_principalSubject i,
      bi_email := ci_email i, bi_name := ci_name i, bi_updated_at := now\<rparr>) d"
    using assms(2) by (auto simp: adoptLegacyBindings_def Let_def split: if_split_asm)
  then show "\<forall>p. p \<noteq> person i \<longrightarrow> \<not> adoptable i p d \<longrightarrow> rowsOf p d1 = rowsOf p d"
    by (auto simp: owner_def person_def adoptable_def legacyBinding_def list_ex_iff intro!: rowsOf_update)
qed

lemma reconcile_private:
  assumes "db_ok d"
  shows "\<exists>d1. (d1 = d \<or> adoptLegacyBindings now i d = Inr d1)
    \<and> privateStep (person i) d1 (snd (reconcileEmployeeBindings env now i d))"
proof (cases "adoptLegacyBindings now i d")
  case (Inl e)
  with assms show ?thesis by (intro exI[of _ d]) (simp add: reconcileEmployeeBindings_def private_refl)
next
  case (Inr d1)
  have ok: "db_ok d1" by (rule adoptLegacyBindings_ok[OF assms Inr])
  let ?own = "filter (ownBinding i) (bindings d1)"
  have "unique_by bi_id ?own"
    using ok by (intro unique_by_filter) (simp add: db_ok_def uniques_ok_def bindings_unique_def)
  then have dist: "distinct (map bi_id ?own)" by (simp add: unique_by_def)
  have loop: "reconcileLoop now cs ?own d1 = (Inr (), updateBindings (\<lambda>b. b \<in> set ?own) (reconcileRow now cs) d1)" for cs
    by (rule reconcileLoop_map[OF ok _ dist]) (auto simp: ownBinding_def)
  have upd: "privateStep (person i) d1 (updateBindings (\<lambda>b. b \<in> set ?own) (reconcileRow now cs) d1)" for cs
    by (intro private_update db_ok_updateBindings ok keepsKeys_reconcileRow)
      (auto simp: ownBinding_def owner_def person_def)
  show ?thesis
    using Inr loop upd private_refl[OF ok]
    by (intro exI[of _ d1]) (auto simp: reconcileEmployeeBindings_def Let_def split: sum.split)
qed

lemma page_private:
  assumes "db_ok d" "getEmployeeIntegrations env now i (True, d, cache) = (r, settled, d', cache')"
  shows "settled \<and> db_ok d' \<and> (\<forall>p. p \<noteq> person i \<longrightarrow> \<not> adoptable i p d \<longrightarrow> rowsOf p d' = rowsOf p d)"
proof -
  obtain r2 d2 where rec: "reconcileEmployeeBindings (ee_reconcile env) now (consoleIdentity.truncate i) d = (r2, d2)"
    by fastforce
  have out: "settled \<and> d' = d2"
    using assms(2) rec
    by (auto simp: getEmployeeIntegrations_def migrateLegacyWeComBotIntegrations_def
        split: sum.split_asm prod.split_asm)
  obtain d1 where d1: "d1 = d \<or> adoptLegacyBindings now (consoleIdentity.truncate i) d = Inr d1"
    "privateStep (person i) d1 d2"
    using reconcile_private[OF assms(1), of now "consoleIdentity.truncate i" "ee_reconcile env"] rec by auto
  have same: "adoptable (consoleIdentity.truncate i) p d = adoptable i p d" for p
    by (simp add: adoptable_def consoleIdentity.defs)
  from d1 out show ?thesis
    using adopt_step[OF assms(1), of now "consoleIdentity.truncate i" d1] same
    by (auto simp: privateStep_def)
qed

section \<open>Runs of account calls\<close>

text \<open>A handler whose calls concern only some persons keeps the part of everybody else.\<close>

locale personal_handler =
  fixes handle :: "'q \<Rightarrow> 'w \<Rightarrow> 'r \<times> 'w" and good :: "'w \<Rightarrow> bool"
    and concerns :: "'q \<Rightarrow> 'w \<Rightarrow> 'p \<Rightarrow> bool" and part :: "'p \<Rightarrow> 'w \<Rightarrow> 'v"
  assumes keeps_good: "good w \<Longrightarrow> good (snd (handle q w))"
    and keeps_part: "good w \<Longrightarrow> \<not> concerns q w p \<Longrightarrow> part p (snd (handle q w)) = part p w"
begin

lemma run_good: "good w \<Longrightarrow> good (serveAll handle qs w)"
  by (induction qs arbitrary: w) (auto simp: serveAll_def keeps_good)

lemma run_part:
  "good w \<Longrightarrow> list_all (\<lambda>(q, v, r). \<not> concerns q v p) (serveLog handle qs w) \<Longrightarrow>
    part p (serveAll handle qs w) = part p w"
proof (induction qs arbitrary: w)
  case (Cons q qs)
  then show ?case
    using keeps_part[of w q p] keeps_good[of w q] by (simp add: serveAll_def)
qed (simp add: serveAll_def)

end

definition settledState :: "accountState \<Rightarrow> bool" where
  "settledState w \<longleftrightarrow> fst w \<and> db_ok (fst (snd w))"

text \<open>A call concerns its caller, and a page also those whose rows carry the caller's email.\<close>

definition concernsPerson :: "accountEnv \<Rightarrow> accountCall \<Rightarrow> accountState \<Rightarrow> string \<times> string \<Rightarrow> bool" where
  "concernsPerson env q w p = (case employeeOf env q w of Inl e \<Rightarrow> False
   | Inr i \<Rightarrow> person i = p \<or> cl_request q = GetIntegrations \<and> adoptable i p (fst (snd w)))"

definition personalPart :: "string \<times> string \<Rightarrow> accountState \<Rightarrow> bindingRow list \<times> linkRow list" where
  "personalPart p w = rowsOf p (fst (snd w))"

lemma account_refused:
  "employeeOf env q w = Inl e \<Longrightarrow> \<exists>qr masked. serveAccount env q w = (accountFailure qr masked e, w)"
  by (cases "cl_request q") (auto simp: serveAccount_def integrationsPage_def authorizePost_def authorizeDelete_def
      botStartPost_def botPollGet_def botRenamePatch_def botDelete_def identityDelete_def)

lemma account_admitted:
  assumes "employeeOf env q w = Inr i" "settledState w"
  shows "settledState (snd (serveAccount env q w))
    \<and> (\<forall>p. \<not> concernsPerson env q w p \<longrightarrow> personalPart p (snd (serveAccount env q w)) = personalPart p w)"
proof -
  obtain settled d cache where w: "w = (settled, d, cache)" by (cases w)
  have ok: "settled" "db_ok d" using assms(2) w by (simp_all add: settledState_def)
  have by_step: "settledState (snd (serveAccount env q w))
      \<and> (\<forall>p. \<not> concernsPerson env q w p \<longrightarrow> personalPart p (snd (serveAccount env q w)) = personalPart p w)"
    if "snd (serveAccount env q w) = (settled, d', cache)" "privateStep (person i) d d'" for d'
    using that ok(1) w assms(1)
    by (auto simp: settledState_def privateStep_def personalPart_def concernsPerson_def)
  show ?thesis
  proof (cases "cl_request q")
    case GetIntegrations
    obtain r settled' d' cache' where g: "getEmployeeIntegrations (an_employee env) (cl_now q) i (True, d, cache)
        = (r, settled', d', cache')"
      by (cases "getEmployeeIntegrations (an_employee env) (cl_now q) i (True, d, cache)")
    from page_private[OF ok(2) g] g GetIntegrations w ok(1) assms(1) show ?thesis
      by (auto simp: serveAccount_def integrationsPage_def settledState_def personalPart_def concernsPerson_def)
  next
    case (PostAuthorization applicationId)
    then show ?thesis using w assms(1) authorize_private[OF ok(2), of "consoleIdentity.truncate i"]
      by (intro by_step[of "snd (startEmployeeIntegrationAuthorization (an_integration env) (cl_now q)
          (dr_uuid (cl_draw q)) (consoleIdentity.truncate i) applicationId d)"])
        (auto simp: serveAccount_def authorizePost_def onDb_def split: prod.split)
  next
    case (DeleteAuthorization applicationId)
    then show ?thesis using w assms(1) disconnect_private[OF ok(2), of "consoleIdentity.truncate i"]
      by (intro by_step[of "snd (disconnectEmployeeIntegration (an_disconnect env) (cl_now q)
          (consoleIdentity.truncate i) applicationId d)"])
        (auto simp: serveAccount_def authorizeDelete_def onDb_def split: prod.split)
  next
    case PostBot
    then show ?thesis using w assms(1) start_private[OF ok(2), of "person i"]
      by (intro by_step[of "snd (startEmployeeWeComBotAuthorization (an_qr env) (be_crypto (an_bot env))
          (consoleIdentity.truncate i) (dr_bytes (cl_draw q)) (cl_now q) d)"])
        (auto simp: serveAccount_def botStartPost_def onDb_def split: prod.split)
  next
    case (GetBot request)
    obtain r es d' where g: "pollEmployeeWeComBotAuthorization (an_bot env) (consoleIdentity.truncate i)
        (dr_bot (cl_draw q)) (case request of None \<Rightarrow> [] | Some t \<Rightarrow> t) (cl_now q) (dr_claimed (cl_draw q))
        (dr_finished (cl_draw q)) d = (r, es, d')"
      by (metis prod_cases3)
    from poll_private[OF ok(2) g] g GetBot w assms(1) show ?thesis
      by (intro by_step[of d']) (auto simp: serveAccount_def botPollGet_def onDb_def)
  next
    case (PatchBot n payload)
    then show ?thesis using w assms(1) rename_private[OF ok(2), of "consoleIdentity.truncate i"]
      by (intro by_step[of "snd (renameEmployeeWeComBot (consoleIdentity.truncate i) n
          (string_field payload ''displayName'' []) (cl_now q) d)"])
        (auto simp: serveAccount_def botRenamePatch_def onDb_def split: prod.split)
  next
    case (DeleteBot n)
    then show ?thesis using w assms(1) disconnect_bot_private[OF ok(2), of "consoleIdentity.truncate i"]
      by (intro by_step[of "snd (disconnectEmployeeWeComBot (an_disconnect env) (consoleIdentity.truncate i)
          n (cl_now q) d)"])
        (auto simp: serveAccount_def botDelete_def onDb_def split: prod.split)
  next
    case (DeleteLink l)
    then show ?thesis using w assms(1) unlink_private[OF ok(2), of "ci_principalIssuer i" "ci_principalSubject i"]
      by (intro by_step[of "snd (disconnectWeComIdentityLink (ci_principalIssuer i) (ci_principalSubject i)
          (case l of None \<Rightarrow> [] | Some i \<Rightarrow> i) d)"])
        (auto simp: serveAccount_def identityDelete_def onDb_def person_def split: prod.split)
  qed
qed

interpretation account: personal_handler "serveAccount env" settledState "concernsPerson env" personalPart for env
proof unfold_locales
  fix q w p
  assume good: "settledState w"
  show "settledState (snd (serveAccount env q w))"
    using account_refused[of env q w] account_admitted[OF _ good, of env q] good
    by (cases "employeeOf env q w") fastforce+
  assume "\<not> concernsPerson env q w p"
  then show "personalPart p (snd (serveAccount env q w)) = personalPart p w"
    using account_refused[of env q w] account_admitted[OF _ good, of env q]
    by (cases "employeeOf env q w") fastforce+
qed

interpretation account_guard: guarded_handler "serveAccount env" "\<lambda>q w. is_ok (employeeOf env q w)" for env
proof unfold_locales
  fix q w
  assume "\<not> is_ok (employeeOf env q w)"
  then obtain e where "employeeOf env q w = Inl e" by (cases "employeeOf env q w") auto
  then show "snd (serveAccount env q w) = w" using account_refused by fastforce
qed

section \<open>Properties\<close>

text \<open>The routes of the bots, whose answers hide what OpenConnector said.\<close>

fun botRoute :: "accountRequest \<Rightarrow> bool" where
  "botRoute PostBot = True"
| "botRoute (GetBot request) = True"
| "botRoute (PatchBot n payload) = True"
| "botRoute (DeleteBot n) = True"
| "botRoute q = False"

definition discreet :: "accountRequest \<Rightarrow> accountResponse \<Rightarrow> bool" where
  "discreet q r \<longleftrightarrow> (case r of AccountError s (Some e) \<Rightarrow>
     (case e of ConnectorError c \<Rightarrow> \<not> botRoute q | DatabaseError v \<Rightarrow> False | TypeFailure \<Rightarrow> False | _ \<Rightarrow> True)
   | _ \<Rightarrow> True)"

lemma discreet_answer:
  "masked \<or> \<not> botRoute q \<Longrightarrow> discreet q (accountAnswer qr masked status f r)"
  by (cases r; cases "projl r") (auto simp: discreet_def accountAnswer_def accountFailure_def)

lemma discreet_failure: "masked \<or> \<not> botRoute q \<Longrightarrow> discreet q (accountFailure qr masked e)"
  by (cases e) (auto simp: discreet_def accountFailure_def)

lemma account_discreet: "discreet (cl_request q) (fst (serveAccount env q w))"
  by (cases "cl_request q"; cases "employeeOf env q w")
    (auto simp: serveAccount_def integrationsPage_def authorizePost_def authorizeDelete_def botStartPost_def
      botPollGet_def botRenamePatch_def botDelete_def identityDelete_def onDb_def Let_def
      intro!: discreet_answer discreet_failure split: prod.split)



section \<open>Concrete runs\<close>

definition demo_account_env :: accountEnv where
  "demo_account_env = \<lparr>an_identity = demo_identity_env, an_employee = demo_employee_env, an_integration = undefined,
     an_disconnect = demo_connections, an_qr = undefined, an_bot = undefined\<rparr>"

definition demo_account_call :: accountCall where
  "demo_account_call = \<lparr>cl_headers = demo_assertion_headers, cl_now = 1000000, cl_draw = undefined,
     cl_request = DeleteAuthorization (demo_uuid (CHR ''1''))\<rparr>"


definition demo_resolve_body :: json where
  "demo_resolve_body = JObj [(''issuer'', JStr ''iss''), (''subject'', JStr ''sub''), (''service'', JStr ''feishu'')]"


end
