(* ===== verification/Gateway_Routes.thy ===== *)
theory Gateway_Routes
  imports Gateway_Probe
begin

text \<open>
  The routes of the model gateway settings (app/api/llm-gateway/channels and mcp-servers): reading,
  saving and testing. The files are the state; what a call brings from outside (its identifier, its
  time, the services it probes) is a record. An exception no route catches is an answer of its own.
  The theory shows that the files stay coherent under every sequence of requests.
\<close>

section \<open>The routes\<close>

record gatewayCall =
  gq_uuid :: string
  gq_timestamp :: string
  gq_models :: "string \<Rightarrow> (string \<times> string) list \<Rightarrow> probeFailure + (int \<times> json option)"
  gq_elapsed :: int
  gq_mcp :: mcpRemote
  gq_clock :: "mcpRequest list \<Rightarrow> int"

datatype gatewayAnswer = ChannelsRead channelsSnapshot | ServersRead serversSnapshot
  | ChannelsSaved channelsSnapshot | ServersSaved serversSnapshot
  | ChannelTested channelTestResult | ServerTested serverTestResult
  | InvalidJson | GatewayRejected "gatewayProblem list" | SaveFailed gatewayError | GatewayCrash

definition channelsGet :: "gatewayFiles \<Rightarrow> gatewayAnswer" where
  "channelsGet fs = (case readGatewayChannels fs of Inl e \<Rightarrow> GatewayCrash | Inr s \<Rightarrow> ChannelsRead s)"

definition channelsPut :: "gatewayEnv \<Rightarrow> gatewayCall \<Rightarrow> json option \<Rightarrow> gatewayFiles \<Rightarrow> gatewayAnswer \<times> gatewayFiles" where
  "channelsPut env call body fs = (case body of None \<Rightarrow> (InvalidJson, fs)
   | Some v \<Rightarrow> (case validateGatewayChannelsInput (ge_parse env) v of Inl problems \<Rightarrow> (GatewayRejected problems, fs)
     | Inr drafts \<Rightarrow> (case saveGatewayChannels env (gq_uuid call) (gq_timestamp call) drafts fs of
         (Inl e, fs') \<Rightarrow> (SaveFailed e, fs') | (Inr snapshot, fs') \<Rightarrow> (ChannelsSaved snapshot, fs'))))"

text \<open>What a test submits: the entry of the body, switched off, alone in a list.\<close>

definition submitted :: "json \<Rightarrow> string \<Rightarrow> json" where
  "submitted body field = (if nullish body then JUndef else jget body field)"

definition switchedOff :: "json \<Rightarrow> json" where
  "switchedOff v = (if is_object v then spread v (JObj [(''enabled'', JBool False)]) else v)"

definition channelsPost :: "gatewayEnv \<Rightarrow> gatewayCall \<Rightarrow> json option \<Rightarrow> gatewayFiles \<Rightarrow> gatewayAnswer" where
  "channelsPost env call body fs = (case body of None \<Rightarrow> InvalidJson
   | Some v \<Rightarrow> (case validateGatewayChannelsInput (ge_parse env)
         (JObj [(''channels'', JArr [switchedOff (submitted v ''channel'')])]) of
       Inl problems \<Rightarrow> GatewayRejected problems
     | Inr [draft] \<Rightarrow> (case testGatewayChannel (ge_parse env) fs (gq_models call) (gq_elapsed call) draft of
         Inl e \<Rightarrow> GatewayCrash | Inr result \<Rightarrow> ChannelTested result)
     | Inr drafts \<Rightarrow> GatewayRejected []))"

definition serversGet :: "gatewayEnv \<Rightarrow> gatewayCall \<Rightarrow> gatewayFiles \<Rightarrow> gatewayAnswer \<times> gatewayFiles" where
  "serversGet env call fs = (case readGatewayMcpServers env (gq_uuid call) fs of
     (Inl e, fs') \<Rightarrow> (GatewayCrash, fs') | (Inr s, fs') \<Rightarrow> (ServersRead s, fs'))"

definition serversPut :: "gatewayEnv \<Rightarrow> gatewayCall \<Rightarrow> json option \<Rightarrow> gatewayFiles \<Rightarrow> gatewayAnswer \<times> gatewayFiles" where
  "serversPut env call body fs = (case body of None \<Rightarrow> (InvalidJson, fs)
   | Some v \<Rightarrow> (case validateGatewayMcpServersInput (ge_parse env) v of Inl problems \<Rightarrow> (GatewayRejected problems, fs)
     | Inr drafts \<Rightarrow> (case saveGatewayMcpServers env (gq_uuid call) (gq_timestamp call) drafts fs of
         (Inl e, fs') \<Rightarrow> (SaveFailed e, fs') | (Inr snapshot, fs') \<Rightarrow> (ServersSaved snapshot, fs'))))"

text \<open>A server that is stored is a draft without a key of its own.\<close>

definition storedDraft :: "mcpServer \<Rightarrow> mcpServerDraft" where
  "storedDraft s = \<lparr>sd_id = ms_id s, sd_name = ms_name s, sd_namespace = ms_namespace s, sd_url = ms_url s,
     sd_enabled = ms_enabled s, sd_authHeader = ms_authHeader s, sd_toolIncludes = ms_toolIncludes s,
     sd_toolExcludes = ms_toolExcludes s, sd_apiKey = None, sd_removeApiKey = False\<rparr>"

definition testedServer :: "gatewayEnv \<Rightarrow> gatewayCall \<Rightarrow> gatewayFiles \<Rightarrow> mcpServerDraft \<Rightarrow> gatewayAnswer" where
  "testedServer env call fs draft = (case testGatewayMcpServer env fs (gq_mcp call) (gq_clock call) draft of
     None \<Rightarrow> GatewayCrash | Some (result, requests) \<Rightarrow> ServerTested result)"

definition systemManagedId :: "json \<Rightarrow> string option" where
  "systemManagedId server = (if is_object server
     then (case jget server ''id'' of JStr i \<Rightarrow> if isSystemManagedMcpServerId i then Some i else None | _ \<Rightarrow> None)
     else None)"

definition serversPost :: "gatewayEnv \<Rightarrow> gatewayCall \<Rightarrow> json option \<Rightarrow> gatewayFiles \<Rightarrow> gatewayAnswer" where
  "serversPost env call body fs = (case body of None \<Rightarrow> InvalidJson
   | Some v \<Rightarrow> let server = submitted v ''server'' in
     (case systemManagedId server of
       Some i \<Rightarrow> (case getSystemManagedMcpServer env i of None \<Rightarrow> GatewayCrash
         | Some s \<Rightarrow> testedServer env call fs (storedDraft s))
     | None \<Rightarrow> (case validateGatewayMcpServersInput (ge_parse env)
           (JObj [(''servers'', JArr [switchedOff server])]) of
         Inl problems \<Rightarrow> GatewayRejected problems
       | Inr [draft] \<Rightarrow> testedServer env call fs draft
       | Inr drafts \<Rightarrow> GatewayRejected [])))"

datatype gatewayRequest = GetChannels | PutChannels "json option" | PostChannel "json option"
  | GetServers | PutServers "json option" | PostServer "json option"

fun gatewayStep :: "gatewayEnv \<Rightarrow> gatewayCall \<times> gatewayRequest \<Rightarrow> gatewayFiles \<Rightarrow> gatewayAnswer \<times> gatewayFiles" where
  "gatewayStep env (call, GetChannels) fs = (channelsGet fs, fs)"
| "gatewayStep env (call, PutChannels body) fs = channelsPut env call body fs"
| "gatewayStep env (call, PostChannel body) fs = (channelsPost env call body fs, fs)"
| "gatewayStep env (call, GetServers) fs = serversGet env call fs"
| "gatewayStep env (call, PutServers body) fs = serversPut env call body fs"
| "gatewayStep env (call, PostServer body) fs = (serversPost env call body fs, fs)"

fun serveGateway ::
    "gatewayEnv \<Rightarrow> (gatewayCall \<times> gatewayRequest) list \<Rightarrow> gatewayFiles \<Rightarrow> gatewayAnswer list \<times> gatewayFiles" where
  "serveGateway env [] fs = ([], fs)"
| "serveGateway env (c # cs) fs = (case gatewayStep env c fs of
     (a, fs1) \<Rightarrow> (case serveGateway env cs fs1 of (as, fs2) \<Rightarrow> (a # as, fs2)))"

text \<open>What the last successful save returned.\<close>

fun latestChannels :: "gatewayAnswer \<Rightarrow> channelsSnapshot \<Rightarrow> channelsSnapshot" where
  "latestChannels (ChannelsSaved snapshot) before = snapshot"
| "latestChannels answer before = before"

fun latestServers :: "gatewayAnswer \<Rightarrow> serversSnapshot \<Rightarrow> serversSnapshot" where
  "latestServers (ServersSaved snapshot) before = snapshot"
| "latestServers answer before = before"

section \<open>The configuration can be generated\<close>

text \<open>A normalised address is an address; the addresses of the services the system manages are too.\<close>

definition gateway_urls :: "gatewayEnv \<Rightarrow> bool" where
  "gateway_urls env \<longleftrightarrow> url_laws (ge_parse env)
     \<and> (\<forall>t u. normalizeUrl (ge_parse env) t = Some u \<longrightarrow> ge_parse env u \<noteq> None)
     \<and> (\<forall>s \<in> set (getSystemManagedMcpServers env). ge_parse env (ms_url s) \<noteq> None)"

lemma allSome_total: "(\<And>x. x \<in> set xs \<Longrightarrow> f x \<noteq> None) \<Longrightarrow> \<exists>ys. allSome f xs = Some ys"
proof (induction xs)
  case (Cons x xs)
  then obtain ys where "allSome f xs = Some ys" by auto
  with Cons.prems[of x] show ?case by auto
qed simp

lemma generated_total:
  assumes "\<And>c. c \<in> set cs \<Longrightarrow> ge_parse env (gc_baseUrl c) \<noteq> None"
    and "\<And>s. s \<in> set ss \<Longrightarrow> ge_parse env (ms_url s) \<noteq> None"
  shows "\<exists>config. generateGatewayConfig env cs ss = Some config"
proof -
  obtain backends where b: "allSome (channelResources env) (enabledChannels cs) = Some backends"
    using assms(1) allSome_total[of "enabledChannels cs" "channelResources env"]
    by (fastforce simp: channelResources_def enabledChannels_def Let_def)
  obtain parsed where p: "allSome (\<lambda>s. map_option (\<lambda>u. (u, s)) (ge_parse env (ms_url s))) (enabledServers ss) = Some parsed"
    using assms(2) allSome_total[of "enabledServers ss" "\<lambda>s. map_option (\<lambda>u. (u, s)) (ge_parse env (ms_url s))"]
    by (fastforce simp: enabledServers_def)
  show ?thesis by (simp add: generateGatewayConfig_def gatewayResources_def routedResources_def b p)
qed

section \<open>Saving the servers\<close>

text \<open>Stored identifiers are distinct, and a key file belongs to a stored server or to the system.\<close>

definition servers_ok :: "gatewayFiles \<Rightarrow> bool" where
  "servers_ok fs \<longleftrightarrow> (case gf_mcpServers fs of
     File st \<Rightarrow> distinct (map ms_id (ss_servers st)) \<and> list_all (\<lambda>s. \<not> isSystemManagedMcpServerId (ms_id s)) (ss_servers st)
       \<and> dom (gf_mcpSecrets fs) \<subseteq> set (map ms_id (ss_servers st)) \<union> Collect isSystemManagedMcpServerId
   | _ \<Rightarrow> dom (gf_mcpSecrets fs) \<subseteq> Collect isSystemManagedMcpServerId)"

lemma withFlags_simps [simp]:
  "ms_id (withFlags s m k) = ms_id s" "ms_managed (withFlags s m k) = m" "ms_keyConfigured (withFlags s m k) = k"
  "ms_url (withFlags s m k) = ms_url s" "storedServer.truncate (withFlags s m k) = s"
  by (cases s; simp add: withFlags_def storedServer.defs mcpServer.defs)+

lemma serverKey_simps [simp]: "kd_id (serverKey d) = sd_id d" "kd_id \<circ> serverKey = sd_id"
  by (simp_all add: serverKey_def fun_eq_iff)

lemma system_servers [simp]:
  "s \<in> set (getSystemManagedMcpServers env) \<Longrightarrow> ms_managed s"
  by (auto simp: getSystemManagedMcpServers_def)

definition userServers :: "serversSnapshot \<Rightarrow> mcpServer list" where
  "userServers snapshot = filter (\<lambda>s. \<not> ms_managed s) (sn_servers snapshot)"

lemma user_servers:
  assumes "servers_ok fs" "readGatewayMcpServersSnapshot env fs = Inr previous"
  shows "sn_servers previous = getSystemManagedMcpServers env @ userServers previous"
    "distinct (map ms_id (userServers previous))"
    "\<not> isSystemManagedMcpServerId i \<Longrightarrow> gf_mcpSecrets fs i \<noteq> None \<Longrightarrow> i \<in> set (map ms_id (userServers previous))"
    "s \<in> set (userServers previous) \<Longrightarrow> ms_keyConfigured s = (gf_mcpSecrets fs (ms_id s) \<noteq> None)"
proof -
  obtain st where st: "readStoredMcpServers fs = Inr st"
    and p: "sn_servers previous = getSystemManagedMcpServers env
      @ map (\<lambda>s. withFlags s False (gf_mcpSecrets fs (ms_id s) \<noteq> None)) (ss_servers st)"
    using assms(2) by (auto simp: readGatewayMcpServersSnapshot_def)
  have u: "userServers previous = map (\<lambda>s. withFlags s False (gf_mcpSecrets fs (ms_id s) \<noteq> None)) (ss_servers st)"
    by (simp add: userServers_def p filter_empty_conv filter_map o_def)
  have ids: "map ms_id (userServers previous) = map ms_id (ss_servers st)" by (simp add: u o_def)
  show "sn_servers previous = getSystemManagedMcpServers env @ userServers previous" by (simp add: p u)
  show "distinct (map ms_id (userServers previous))" unfolding ids
    using assms(1) st by (auto simp: servers_ok_def readStoredMcpServers_def distinct_map_filter split: diskFile.split_asm)
  show "\<not> isSystemManagedMcpServerId i \<Longrightarrow> gf_mcpSecrets fs i \<noteq> None \<Longrightarrow> i \<in> set (map ms_id (userServers previous))"
    unfolding ids using assms(1) st
    by (auto simp: servers_ok_def readStoredMcpServers_def list_all_iff filter_id_conv split: diskFile.split_asm)
  show "s \<in> set (userServers previous) \<Longrightarrow> ms_keyConfigured s = (gf_mcpSecrets fs (ms_id s) \<noteq> None)"
    by (auto simp: u)
qed

lemma existing_server_key:
  assumes "servers_ok fs" "readGatewayMcpServersSnapshot env fs = Inr previous" "\<not> isSystemManagedMcpServerId i"
  shows "(case byId ms_id (userServers previous) i of None \<Rightarrow> False | Some s \<Rightarrow> ms_keyConfigured s)
    = (gf_mcpSecrets fs i \<noteq> None)"
proof (cases "i \<in> set (map ms_id (userServers previous))")
  case True
  then obtain s where s: "s \<in> set (userServers previous)" "i = ms_id s" by auto
  with byId_distinct[OF user_servers(2)[OF assms(1,2)] s(1)] user_servers(4)[OF assms(1,2)]
  show ?thesis by simp
next
  case False
  with byId_None[OF False] user_servers(3)[OF assms] show ?thesis by auto
qed

definition afterServerKeys :: "gatewayEnv \<Rightarrow> mcpServerDraft list \<Rightarrow> mcpServer list \<Rightarrow> gatewayFiles \<Rightarrow> gatewayFiles" where
  "afterServerKeys env drafts previous fs = syncSystemManagedMcpSecrets env
     (dropStale dropMcpSecret (map sd_id drafts) (map ms_id previous)
       (applyKeys putMcpSecret dropMcpSecret (map serverKey drafts) fs))"

lemma applyKeys_servers:
  "gf_channels (applyKeys putMcpSecret dropMcpSecret ds fs) = gf_channels fs"
  "gf_mcpServers (applyKeys putMcpSecret dropMcpSecret ds fs) = gf_mcpServers fs"
  "gf_secrets (applyKeys putMcpSecret dropMcpSecret ds fs) = gf_secrets fs"
  "gf_config (applyKeys putMcpSecret dropMcpSecret ds fs) = gf_config fs"
  by (induction ds arbitrary: fs) (simp_all add: putMcpSecret_def dropMcpSecret_def)

lemma dropStale_servers:
  "gf_channels (dropStale dropMcpSecret ids is fs) = gf_channels fs"
  "gf_mcpServers (dropStale dropMcpSecret ids is fs) = gf_mcpServers fs"
  "gf_secrets (dropStale dropMcpSecret ids is fs) = gf_secrets fs"
  "gf_config (dropStale dropMcpSecret ids is fs) = gf_config fs"
  by (induction "is" arbitrary: fs) (simp_all add: dropMcpSecret_def)

lemma afterServerKeys_other [simp]:
  "gf_channels (afterServerKeys env drafts previous fs) = gf_channels fs"
  "gf_mcpServers (afterServerKeys env drafts previous fs) = gf_mcpServers fs"
  "gf_secrets (afterServerKeys env drafts previous fs) = gf_secrets fs"
  "gf_config (afterServerKeys env drafts previous fs) = gf_config fs"
  by (simp_all add: afterServerKeys_def applyKeys_servers dropStale_servers)

lemma saved_servers_ids [simp]: "map ms_id (savedServers previous timestamp drafts) = map sd_id drafts"
  by (simp add: savedServers_def Let_def o_def draftServer_def)

text \<open>The published flag of a saved server is exactly the presence of its key file.\<close>

lemma saved_server_key_files:
  assumes "servers_ok fs" "readGatewayMcpServersSnapshot env fs = Inr previous" "distinct (map sd_id drafts)"
    "\<forall>d \<in> set drafts. \<not> isSystemManagedMcpServerId (sd_id d)"
  shows "map (\<lambda>s. withFlags (storedServer.truncate s) False
      (gf_mcpSecrets (afterServerKeys env drafts (userServers previous) fs) (ms_id s) \<noteq> None))
      (savedServers (userServers previous) timestamp drafts)
    = savedServers (userServers previous) timestamp drafts"
proof -
  have "(gf_mcpSecrets (afterServerKeys env drafts (userServers previous) fs) (sd_id d) \<noteq> None)
      = keyConfiguredBy (case byId ms_id (userServers previous) (sd_id d) of None \<Rightarrow> False | Some s \<Rightarrow> ms_keyConfigured s)
          (serverKey d)" if d: "d \<in> set drafts" for d
    using server_secrets.key_file_iff[of "map serverKey drafts" "serverKey d"
        "map ms_id (userServers previous)" fs] d assms(3,4)
    by (simp add: existing_server_key[OF assms(1,2)] afterServerKeys_def sync_user_secret)
  then show ?thesis by (simp add: savedServers_def Let_def draftServer_def)
qed

lemma no_stray_server_keys:
  assumes "servers_ok fs" "readGatewayMcpServersSnapshot env fs = Inr previous" "distinct (map sd_id drafts)"
  shows "dom (gf_mcpSecrets (afterServerKeys env drafts (userServers previous) fs))
    \<subseteq> set (map sd_id drafts) \<union> Collect isSystemManagedMcpServerId"
proof
  fix i
  assume "i \<in> dom (gf_mcpSecrets (afterServerKeys env drafts (userServers previous) fs))"
  then show "i \<in> set (map sd_id drafts) \<union> Collect isSystemManagedMcpServerId"
    using server_secrets.no_stray_keys[of "map serverKey drafts" fs i "map ms_id (userServers previous)"]
      user_servers(3)[OF assms(1,2)] assms(3)
    by (cases "isSystemManagedMcpServerId i") (auto simp: afterServerKeys_def sync_user_secret)
qed

text \<open>Everything a successful save of the servers leaves behind; a failing one leaves what could be
  read.\<close>

lemma save_servers_outcome:
  assumes "servers_ok fs" "readGatewayMcpServersSnapshot env fs = Inr previous" "readGatewayChannels fs = Inr channels"
    "distinct (map sd_id drafts)" "\<forall>d \<in> set drafts. \<not> isSystemManagedMcpServerId (sd_id d)"
    "generateGatewayConfig env (cs_channels channels)
       (getSystemManagedMcpServers env @ savedServers (userServers previous) timestamp drafts) = Some config"
    "saveGatewayMcpServers env revision timestamp drafts fs = (r, fs')"
  shows "\<exists>snapshot. r = Inr snapshot \<and> servers_ok fs' \<and> readGatewayMcpServersSnapshot env fs' = Inr snapshot
    \<and> sn_servers snapshot = getSystemManagedMcpServers env @ savedServers (userServers previous) timestamp drafts
    \<and> gf_channels fs' = gf_channels fs \<and> gf_secrets fs' = gf_secrets fs
    \<and> gf_config fs' = (if config \<noteq> [] then File config else Missing)"
proof -
  let ?servers = "savedServers (userServers previous) timestamp drafts"
  let ?fs = "afterServerKeys env drafts (userServers previous) fs"
  let ?stored = "map storedServer.truncate ?servers"
  have r: "r = Inr \<lparr>sn_servers = getSystemManagedMcpServers env @ ?servers, sn_updatedAt = timestamp, sn_revision = revision\<rparr>"
    and f: "fs' = (writeConfig config ?fs)\<lparr>gf_mcpServers := File \<lparr>ss_servers = ?stored,
        ss_updatedAt = timestamp, ss_revision = revision\<rparr>, gf_revision := File (revision @ [CHR 0x0A])\<rparr>"
    using assms(7)[unfolded saveGatewayMcpServers_def] assms(2,3,6)
    by (auto simp: Let_def afterServerKeys_def userServers_def)
  have fields: "gf_secrets fs' = gf_secrets fs" "gf_mcpSecrets fs' = gf_mcpSecrets ?fs" "gf_channels fs' = gf_channels fs"
    "gf_mcpServers fs' = File \<lparr>ss_servers = ?stored, ss_updatedAt = timestamp, ss_revision = revision\<rparr>"
    "gf_config fs' = (if config \<noteq> [] then File config else Missing)"
    by (simp_all add: f writeConfig_def)
  have ids: "map ms_id ?stored = map sd_id drafts"
    by (simp add: savedServers_def Let_def o_def draftServer_def)
  have user: "list_all (\<lambda>s. \<not> isSystemManagedMcpServerId (ms_id s)) ?stored"
    using assms(5) by (simp add: list_all_iff savedServers_def Let_def draftServer_def)
  have "servers_ok fs'"
    using no_stray_server_keys[OF assms(1,2,4)] user assms(4) unfolding servers_ok_def fields
    by (simp only: diskFile.case storedServers.select_convs ids simp_thms)
  moreover have "readStoredMcpServers fs' = Inr \<lparr>ss_servers = ?stored, ss_updatedAt = timestamp, ss_revision = revision\<rparr>"
    using user by (simp add: readStoredMcpServers_def fields list_all_iff filter_id_conv)
  then have "readGatewayMcpServersSnapshot env fs' = r"
    using saved_server_key_files[OF assms(1,2,4,5), of timestamp]
    by (simp add: readGatewayMcpServersSnapshot_def fields r o_def storedServer.truncate_def)
  ultimately show ?thesis using r fields by simp
qed

section \<open>Coherence\<close>

text \<open>What the files hold between two requests: readable lists, keys that belong to a list entry, a
  key for every enabled channel, addresses that parse, and a configuration generated from just
  these lists, or none at all while nothing was ever saved.\<close>

definition gateway_state :: "gatewayEnv \<Rightarrow> gatewayFiles \<Rightarrow> channelsSnapshot \<Rightarrow> serversSnapshot \<Rightarrow> bool" where
  "gateway_state env fs channels servers \<longleftrightarrow>
     readGatewayChannels fs = Inr channels \<and> readGatewayMcpServersSnapshot env fs = Inr servers
     \<and> channels_ok fs \<and> servers_ok fs \<and> missingKeys (cs_channels channels) = []
     \<and> (\<forall>c \<in> set (cs_channels channels). ge_parse env (gc_baseUrl c) \<noteq> None)
     \<and> (\<forall>s \<in> set (sn_servers servers). ge_parse env (ms_url s) \<noteq> None)
     \<and> (gf_channels fs = Missing \<and> gf_mcpServers fs = Missing \<and> gf_config fs = Missing
        \<or> (\<exists>config. generateGatewayConfig env (cs_channels channels) (sn_servers servers) = Some config
             \<and> gf_config fs = File config))"

lemma servers_ok_cong:
  assumes "gf_mcpServers fs' = gf_mcpServers fs"
    and "\<And>i. \<not> isSystemManagedMcpServerId i \<Longrightarrow> gf_mcpSecrets fs' i = gf_mcpSecrets fs i"
  shows "servers_ok fs' = servers_ok fs"
proof -
  have "dom (gf_mcpSecrets fs') \<subseteq> A \<union> Collect isSystemManagedMcpServerId
      \<longleftrightarrow> dom (gf_mcpSecrets fs) \<subseteq> A \<union> Collect isSystemManagedMcpServerId" for A
    using assms(2) by (simp add: dom_def subset_iff) metis
  from this this[of "{}"] show ?thesis by (simp add: servers_ok_def assms(1) split: diskFile.split)
qed

lemma generated_nonempty:
  assumes "readGatewayMcpServersSnapshot env fs = Inr servers"
    and "generateGatewayConfig env channels (sn_servers servers) = Some config"
  shows "config \<noteq> []"
  using registered_not_stale[OF assms(2,1) refl] by simp

lemma accepted_channels:
  assumes "gateway_urls env" "validateGatewayChannelsInput (ge_parse env) v = Inr drafts"
  shows "distinct (map cd_id drafts)" "d \<in> set drafts \<Longrightarrow> ge_parse env (cd_baseUrl d) \<noteq> None"
proof -
  note v = validateChannels_Inr[OF assms(2)]
  have laws: "url_laws (ge_parse env)" using assms(1) by (simp add: gateway_urls_def)
  have "list_all2 (\<lambda>v c. \<exists>f. readChannelDraft (ge_parse env) v f = ([], Some c)) (the_array (jget v ''channels'')) drafts"
    by (rule readAll_ok[OF v(2) readChannelDraft_some[OF laws]])
  then have ok: "\<forall>c \<in> set drafts. channelOk (ge_parse env) c"
    by (auto simp: list_all2_conv_all_nth in_set_conv_nth dest!: readChannelDraft_ok)
  show "distinct (map cd_id drafts)" using duplicateChannels_ok[OF v(3)] by simp
  show "d \<in> set drafts \<Longrightarrow> ge_parse env (cd_baseUrl d) \<noteq> None"
    using ok assms(1) by (auto simp: channelOk_def gateway_urls_def)
qed

lemma accepted_servers:
  assumes "gateway_urls env" "validateGatewayMcpServersInput (ge_parse env) v = Inr drafts"
  shows "distinct (map sd_id drafts)" "\<forall>d \<in> set drafts. \<not> isSystemManagedMcpServerId (sd_id d)"
    "d \<in> set drafts \<Longrightarrow> ge_parse env (sd_url d) \<noteq> None"
proof -
  have laws: "url_laws (ge_parse env)" using assms(1) by (simp add: gateway_urls_def)
  note ok = accepted_servers_well_typed[OF laws assms(2)]
  show "distinct (map sd_id drafts)" "\<forall>d \<in> set drafts. \<not> isSystemManagedMcpServerId (sd_id d)"
    using ok by (auto simp: list_all_iff isSystemManagedMcpServerId_def OPEN_CONNECTOR_MCP_ID_def RAG_MCP_ID_def)
  have "\<forall>d \<in> set drafts. serverOk (ge_parse env) d" using ok by (simp add: list_all_iff)
  then show "d \<in> set drafts \<Longrightarrow> ge_parse env (sd_url d) \<noteq> None"
    using assms(1) unfolding serverOk_def gateway_urls_def by blast
qed

lemma saved_addresses:
  "c \<in> set (savedChannels previous timestamp drafts) \<Longrightarrow> \<exists>d \<in> set drafts. gc_baseUrl c = cd_baseUrl d"
  "s \<in> set (savedServers previousServers timestamp serverDrafts) \<Longrightarrow> \<exists>d \<in> set serverDrafts. ms_url s = sd_url d"
  by (auto simp: savedChannels_def savedServers_def Let_def draftChannel_def draftServer_def withKey_def withFlags_def
      storedChannel.defs gatewayChannel.defs storedServer.defs mcpServer.defs)

text \<open>A change that touches only the configuration and the keys of the system.\<close>

lemma gateway_state_system:
  assumes "gateway_state env fs channels servers"
    and "gf_channels fs' = gf_channels fs" "gf_mcpServers fs' = gf_mcpServers fs" "gf_secrets fs' = gf_secrets fs"
    and "\<And>i. \<not> isSystemManagedMcpServerId i \<Longrightarrow> gf_mcpSecrets fs' i = gf_mcpSecrets fs i"
    and "generateGatewayConfig env (cs_channels channels) (sn_servers servers) = Some config" "gf_config fs' = File config"
  shows "gateway_state env fs' channels servers"
proof -
  have "channels_ok fs' = channels_ok fs" "readGatewayChannels fs' = readGatewayChannels fs"
    by (simp_all add: channels_ok_def readGatewayChannels_def readStoredChannels_def assms(2,4) split: diskFile.split)
  with assms(1) servers_ok_cong[OF assms(3,5)] snapshot_unchanged[OF assms(3,5)] show ?thesis
    by (simp add: gateway_state_def assms(6,7))
qed

lemma channels_put_state:
  assumes "gateway_urls env" "gateway_state env fs channels servers" "channelsPut env call body fs = (a, fs')"
  shows "gateway_state env fs' (latestChannels a channels) servers \<and> latestServers a servers = servers
    \<and> (case a of InvalidJson \<Rightarrow> True | GatewayRejected problems \<Rightarrow> True
       | ChannelsSaved snapshot \<Rightarrow> True | SaveFailed e \<Rightarrow> (\<exists>names. e = MissingKeys names) \<and> fs' = fs | _ \<Rightarrow> False)"
proof -
  consider (refused) "fs' = fs" "a = InvalidJson \<or> (\<exists>problems. a = GatewayRejected problems)"
    | (saved) v drafts r where "validateGatewayChannelsInput (ge_parse env) v = Inr drafts"
      "saveGatewayChannels env (gq_uuid call) (gq_timestamp call) drafts fs = (r, fs')"
      "a = (case r of Inl e \<Rightarrow> SaveFailed e | Inr snapshot \<Rightarrow> ChannelsSaved snapshot)"
    using assms(3) by (auto simp: channelsPut_def split: option.split_asm sum.split_asm prod.split_asm)
  then show ?thesis
  proof cases
    case refused
    with assms(2) show ?thesis by auto
  next
    case saved
    note s = assms(2)[unfolded gateway_state_def]
    note d = accepted_channels[OF assms(1) saved(1)]
    let ?channels = "savedChannels (cs_channels channels) (gq_timestamp call) drafts"
    have urls: "\<forall>c \<in> set ?channels. ge_parse env (gc_baseUrl c) \<noteq> None"
      using d(2) saved_addresses(1) by metis
    then obtain config where config: "generateGatewayConfig env ?channels (sn_servers servers) = Some config"
      using generated_total[of ?channels env "sn_servers servers"] s by blast
    note ne = generated_nonempty[OF conjunct1[OF conjunct2[OF s]] config]
    show ?thesis
    proof (cases "missingKeys ?channels = []")
      case False
      with saved(2) s have "r = Inl (MissingKeys (missingKeys ?channels))" "fs' = fs"
        by (auto simp: saveGatewayChannels_def Let_def)
      with saved(3) assms(2) show ?thesis by simp
    next
      case True
      with saved(2) s config obtain snapshot where r: "r = Inr snapshot" "cs_channels snapshot = ?channels"
        and mcp: "\<And>i. \<not> isSystemManagedMcpServerId i \<Longrightarrow> gf_mcpSecrets fs' i = gf_mcpSecrets fs i"
        by (fastforce simp: saveGatewayChannels_def Let_def writeConfig_def sync_user_secret dropStale_other applyKeys_other)
      note ok = save_channels_sound[OF _ d(1) saved(2)[unfolded r(1)], simplified]
      from ok s have f: "channels_ok fs'" "readGatewayChannels fs' = Inr snapshot" "missingKeys (cs_channels snapshot) = []"
        "gf_mcpServers fs' = gf_mcpServers fs" by auto
      have "readGatewayMcpServersSnapshot env fs' = Inr servers" "servers_ok fs'"
        using snapshot_unchanged[OF f(4) mcp] servers_ok_cong[OF f(4) mcp] s by simp_all
      moreover from this ok s config ne r(2) have "gf_config fs' = File config" by auto
      ultimately show ?thesis using f s urls config r saved(3) by (simp add: gateway_state_def)
    qed
  qed
qed

lemma servers_put_state:
  assumes "gateway_urls env" "gateway_state env fs channels servers" "serversPut env call body fs = (a, fs')"
  shows "gateway_state env fs' channels (latestServers a servers) \<and> latestChannels a channels = channels
    \<and> (case a of InvalidJson \<Rightarrow> True | GatewayRejected problems \<Rightarrow> True | ServersSaved snapshot \<Rightarrow> True | _ \<Rightarrow> False)"
proof -
  consider (refused) "fs' = fs" "a = InvalidJson \<or> (\<exists>problems. a = GatewayRejected problems)"
    | (saved) v drafts r where "validateGatewayMcpServersInput (ge_parse env) v = Inr drafts"
      "saveGatewayMcpServers env (gq_uuid call) (gq_timestamp call) drafts fs = (r, fs')"
      "a = (case r of Inl e \<Rightarrow> SaveFailed e | Inr snapshot \<Rightarrow> ServersSaved snapshot)"
    using assms(3) by (auto simp: serversPut_def split: option.split_asm sum.split_asm prod.split_asm)
  then show ?thesis
  proof cases
    case refused
    with assms(2) show ?thesis by auto
  next
    case saved
    note s = assms(2)[unfolded gateway_state_def]
    note d = accepted_servers[OF assms(1) saved(1)]
    let ?servers = "getSystemManagedMcpServers env @ savedServers (userServers servers) (gq_timestamp call) drafts"
    have urls: "\<forall>s \<in> set ?servers. ge_parse env (ms_url s) \<noteq> None"
      using assms(1) d(3) saved_addresses(2) unfolding gateway_urls_def by (metis Un_iff set_append)
    then obtain config where config: "generateGatewayConfig env (cs_channels channels) ?servers = Some config"
      using generated_total[of "cs_channels channels" env ?servers] s by blast
    obtain snapshot where o: "r = Inr snapshot" "servers_ok fs'" "readGatewayMcpServersSnapshot env fs' = Inr snapshot"
      "sn_servers snapshot = ?servers" "gf_channels fs' = gf_channels fs" "gf_secrets fs' = gf_secrets fs"
      "gf_config fs' = (if config \<noteq> [] then File config else Missing)"
      using save_servers_outcome[OF _ _ _ d(1,2) config saved(2)] s by blast
    have "channels_ok fs' = channels_ok fs" "readGatewayChannels fs' = readGatewayChannels fs"
      by (simp_all add: channels_ok_def readGatewayChannels_def readStoredChannels_def o(5,6) split: diskFile.split)
    then show ?thesis
      using s o generated_nonempty[OF o(3), of "cs_channels channels" config] config urls saved(3)
      by (simp add: gateway_state_def)
  qed
qed

lemma servers_get_state:
  assumes "gateway_urls env" "gateway_state env fs channels servers" "serversGet env call fs = (a, fs')"
  shows "gateway_state env fs' channels servers \<and> a = ServersRead servers"
proof -
  note s = assms(2)[unfolded gateway_state_def]
  obtain config where config: "generateGatewayConfig env (cs_channels channels) (sn_servers servers) = Some config"
    using generated_total[of "cs_channels channels" env "sn_servers servers"] s by blast
  note ne = generated_nonempty[OF conjunct1[OF conjunct2[OF s]] config]
  obtain current where current: "readConfig fs = Inr current"
    using s by (auto simp: readConfig_def)
  show ?thesis
  proof (cases "registrationStale env current fs")
    case False
    with assms(3) s current have "fs' = fs" "a = ServersRead servers"
      by (auto simp: serversGet_def readGatewayMcpServers_def ensureSystemManagedMcpRegistration_def)
    with assms(2) show ?thesis by simp
  next
    case True
    with assms(3) s current config
    have f: "fs' = (writeConfig config (syncSystemManagedMcpSecrets env fs))\<lparr>gf_revision := File (gq_uuid call @ [CHR 0x0A])\<rparr>"
      and a: "a = ServersRead servers"
      by (auto simp: serversGet_def readGatewayMcpServers_def ensureSystemManagedMcpRegistration_def Let_def)
    have "gateway_state env fs' channels servers"
      by (rule gateway_state_system[OF assms(2) _ _ _ _ config])
        (simp_all add: f writeConfig_def sync_user_secret ne)
    with a show ?thesis by simp
  qed
qed

lemma channel_test_answers:
  assumes "gateway_urls env" "channelsPost env call body fs = a"
  shows "(case a of InvalidJson \<Rightarrow> True | GatewayRejected problems \<Rightarrow> True | ChannelTested r \<Rightarrow> True | _ \<Rightarrow> False)"
proof -
  have "testGatewayChannel (ge_parse env) fs (gq_models call) (gq_elapsed call) d \<noteq> Inl e"
    if "validateGatewayChannelsInput (ge_parse env) v = Inr [d]" for v d e
    using accepted_channels(2)[OF assms(1) that, of d] by (auto simp: testGatewayChannel_def Let_def split: option.split)
  then show ?thesis
    using assms(2) by (auto simp: channelsPost_def split: option.splits sum.splits list.splits)
qed

lemma server_test_answers:
  assumes "serversPost env call body fs = a"
  shows "(case a of InvalidJson \<Rightarrow> True | GatewayRejected problems \<Rightarrow> True | ServerTested r \<Rightarrow> True | GatewayCrash \<Rightarrow> True | _ \<Rightarrow> False)"
  using assms by (auto simp: serversPost_def testedServer_def Let_def split: option.splits sum.splits list.splits prod.splits)

text \<open>What an answer has to be, given what the lists were when it was computed.\<close>

fun answerOk :: "channelsSnapshot \<Rightarrow> serversSnapshot \<Rightarrow> gatewayRequest \<Rightarrow> gatewayAnswer \<Rightarrow> bool" where
  "answerOk channels servers request (ChannelsRead s) = (request = GetChannels \<and> s = channels)"
| "answerOk channels servers request (ServersRead s) = (request = GetServers \<and> s = servers)"
| "answerOk channels servers request (ChannelsSaved s) = ((\<exists>b. request = PutChannels b) \<and> missingKeys (cs_channels s) = [])"
| "answerOk channels servers request (ServersSaved s) = (\<exists>b. request = PutServers b)"
| "answerOk channels servers request (ChannelTested r) = (\<exists>b. request = PostChannel b)"
| "answerOk channels servers request (ServerTested r) = (\<exists>b. request = PostServer b)"
| "answerOk channels servers request (SaveFailed e) = ((\<exists>b. request = PutChannels b) \<and> (\<exists>names. e = MissingKeys names))"
| "answerOk channels servers request GatewayCrash = (\<exists>b. request = PostServer b)"
| "answerOk channels servers request answer = (request \<noteq> GetChannels \<and> request \<noteq> GetServers)"

fun answersOk :: "(gatewayCall \<times> gatewayRequest) list \<Rightarrow> gatewayAnswer list \<Rightarrow> channelsSnapshot \<Rightarrow> serversSnapshot \<Rightarrow> bool" where
  "answersOk [] [] channels servers = True"
| "answersOk (q # qs) (a # as) channels servers = (answerOk channels servers (snd q) a
     \<and> answersOk qs as (latestChannels a channels) (latestServers a servers))"
| "answersOk qs as channels servers = False"

lemma gateway_state_keys: "gateway_state env fs channels servers \<Longrightarrow> missingKeys (cs_channels channels) = []"
  by (simp add: gateway_state_def)

lemma gateway_step_state:
  assumes "gateway_urls env" "gateway_state env fs channels servers" "gatewayStep env (call, request) fs = (a, fs')"
  shows "gateway_state env fs' (latestChannels a channels) (latestServers a servers) \<and> answerOk channels servers request a"
proof (cases request)
  case GetChannels
  with assms(2,3) show ?thesis by (auto simp: channelsGet_def gateway_state_def)
next
  case (PutChannels body)
  with channels_put_state[OF assms(1,2)] assms(3) show ?thesis
    by (cases a) (fastforce dest: gateway_state_keys)+
next
  case (PostChannel body)
  with channel_test_answers[OF assms(1)] assms(2,3) show ?thesis by (cases a) fastforce+
next
  case GetServers
  with servers_get_state[OF assms(1,2)] assms(3) show ?thesis by fastforce
next
  case (PutServers body)
  with servers_put_state[OF assms(1,2)] assms(3) show ?thesis by (cases a) fastforce+
next
  case (PostServer body)
  with server_test_answers assms(2,3) show ?thesis by (cases a) fastforce+
qed

text \<open>C2: Whatever requests the gateway settings are served, in whatever order and whatever the probed
  services answer, the files stay coherent: every enabled channel has its key, every key file has
  its entry, and the configuration on disk is the one generated from the lists it stands beside.
  A read returns the result of the last successful save; saving fails only for a missing key and
  then keeps the lists; only the test of an MCP server can end in an uncaught error.\<close>

theorem gateway_requests_coherent:
  assumes "gateway_urls env" "gateway_state env fs channels servers" "serveGateway env calls fs = (answers, fs')"
  shows "answersOk calls answers channels servers
    \<and> gateway_state env fs' (fold latestChannels answers channels) (fold latestServers answers servers)"
  using assms(2,3)
proof (induction calls arbitrary: fs channels servers answers)
  case (Cons c cs)
  obtain call request where c: "c = (call, request)" by (cases c)
  obtain a fs1 where step: "gatewayStep env (call, request) fs = (a, fs1)" by fastforce
  obtain as where rest: "serveGateway env cs fs1 = (as, fs')" "answers = a # as"
    using Cons.prems(2) step by (auto simp: c split: prod.split_asm)
  note s = gateway_step_state[OF assms(1) Cons.prems(1) step]
  with Cons.IH[OF conjunct1[OF s] rest(1)] show ?case by (simp add: c rest(2))
qed simp

definition demo_call :: gatewayCall where
  "demo_call = \<lparr>gq_uuid = ''u1'', gq_timestamp = ''t1'', gq_models = (\<lambda>u hs. Inl Unreachable), gq_elapsed = 3,
     gq_mcp = demo_remote, gq_clock = (\<lambda>h. int (length h))\<rparr>"

definition demo_put :: json where
  "demo_put = JObj [(''channels'', JArr [JObj [(''id'', JStr ''c1''), (''name'', JStr '' C ''), (''apiKey'', JStr ''key''),
     (''provider'', JStr ''openai''), (''baseUrl'', JStr ''http://h''), (''enabled'', JBool True),
     (''models'', JArr [JObj [(''publicName'', JStr ''m''), (''upstreamName'', JStr ''m'')]])]])]"

definition demo_calls :: "(gatewayCall \<times> gatewayRequest) list" where
  "demo_calls = [(demo_call, GetServers), (demo_call, PutChannels (Some demo_put)), (demo_call, PutServers None),
     (demo_call, GetChannels)]"

lemma demo_gateway_urls: "gateway_urls demo_env"
proof -
  have "demo_parse u \<noteq> None" if u: "normalizeUrl demo_parse t = Some u" for t u
  proof -
    have t: "starts_with t ''http://''" "u = strip_last_slash (t @ ''/'')"
      using u by (auto simp: normalizeUrl_def demo_parse_def strip_slashes_def Let_def split: if_split_asm)
    then have "u = t" by (simp add: strip_last_slash_def)
    with t(1) show ?thesis by (simp add: demo_parse_def)
  qed
  moreover have "\<forall>s \<in> set (getSystemManagedMcpServers demo_env). demo_parse (ms_url s) \<noteq> None"
    by code_simp
  ultimately show ?thesis by (simp add: gateway_urls_def demo_parse_laws) (simp add: demo_env_def demo_parse_laws)
qed

lemma empty_gateway_state:
  assumes "gateway_urls env"
  shows "gateway_state env empty_files \<lparr>cs_channels = [], cs_updatedAt = SYSTEM_MANAGED_TIMESTAMP, cs_revision = ''bootstrap''\<rparr>
    \<lparr>sn_servers = getSystemManagedMcpServers env, sn_updatedAt = SYSTEM_MANAGED_TIMESTAMP, sn_revision = ''bootstrap''\<rparr>"
  using assms by (simp add: gateway_state_def empty_files_ok gateway_urls_def)
    (simp add: empty_files_def readGatewayChannels_def readStoredChannels_def readGatewayMcpServersSnapshot_def
      readStoredMcpServers_def servers_ok_def missingKeys_def)

lemma demo_calls_served:
  "(case serveGateway demo_env demo_calls empty_files of
      ([ServersRead s, ChannelsSaved c, InvalidJson, ChannelsRead c'], fs) \<Rightarrow> gf_secrets fs ''c1'' = Some ''key'' | _ \<Rightarrow> False)"
  by code_simp

theorem gateway_requests_coherent_witness:
  "\<exists>s c fs. serveGateway demo_env demo_calls empty_files = ([ServersRead s, ChannelsSaved c, InvalidJson, ChannelsRead c], fs)
    \<and> gateway_state demo_env fs c s \<and> gf_secrets fs ''c1'' = Some ''key''"
proof -
  obtain s c c' fs where r: "serveGateway demo_env demo_calls empty_files
      = ([ServersRead s, ChannelsSaved c, InvalidJson, ChannelsRead c'], fs)" "gf_secrets fs ''c1'' = Some ''key''"
    using demo_calls_served by (auto split: prod.split_asm list.split_asm gatewayAnswer.split_asm)
  from gateway_requests_coherent[OF demo_gateway_urls empty_gateway_state[OF demo_gateway_urls] r(1)] r
  show ?thesis by (auto simp: demo_calls_def)
qed
end
