(* ===== verification/Latest_Request.thy ===== *)
theory Latest_Request
  imports Prelude
begin

text \<open>
  The contract of a page that numbers its requests and shows only what the newest one brings: a new
  request takes the next number, an answer never takes the number back, and an answer with another
  number than the current one shows nothing. The locale derives that once a request was superseded
  none of the answers still under way can show.
\<close>

locale latest_request =
  fixes number :: "'s \<Rightarrow> nat"
    and shown :: "'s \<Rightarrow> 'v"
    and begin_request :: "'q \<Rightarrow> 's \<Rightarrow> 's"
    and answer :: "nat \<Rightarrow> 'a \<Rightarrow> 's \<Rightarrow> 's"
  assumes begin_next: "number (begin_request q s) = Suc (number s)"
    and answer_number: "number s \<le> number (answer n a s)"
    and stale_shown: "n \<noteq> number s \<Longrightarrow> shown (answer n a s) = shown s"
    and stale_number: "n \<noteq> number s \<Longrightarrow> number (answer n a s) = number s"
begin

fun answers :: "(nat \<times> 'a) list \<Rightarrow> 's \<Rightarrow> 's" where
  "answers [] s = s"
| "answers ((n, a) # as) s = answers as (answer n a s)"

lemma older_answers_ignored:
  "\<forall>(n, a) \<in> set as. n < number s \<Longrightarrow> shown (answers as s) = shown s \<and> number (answers as s) = number s"
proof (induction as arbitrary: s)
  case (Cons p as)
  obtain n a where p: "p = (n, a)" by fastforce
  with Cons.prems have n: "n \<noteq> number s" by auto
  have "\<forall>q \<in> set as. fst q < number (answer n a s)"
    using Cons.prems by (auto simp: stale_number[OF n])
  then have "\<forall>(m, b) \<in> set as. m < number (answer n a s)" by auto
  from Cons.IH[OF this] show ?case by (simp add: p stale_shown[OF n] stale_number[OF n])
qed simp

lemma superseded:
  assumes "\<forall>(n, a) \<in> set as. n \<le> number s"
  shows "shown (answers as (begin_request q s)) = shown (begin_request q s)"
  using older_answers_ignored[of as "begin_request q s"] assms by (auto simp: begin_next less_Suc_eq_le)

end

end
