(* ===== verification/Gateway_Editor.thy ===== *)
theory Gateway_Editor
  imports Gateway_Routes Latest_Request
begin

text \<open>
  The editors of the model gateway (components/gateway-channel-manager.tsx and
  gateway-mcp-manager.tsx): a channel and a server as the forms hold them, with lists as texts, the
  operations on the list behind the form, and what a save sends. The answer of the server is what
  the routes return. The texts of messages, the drawers and the focus of the keyboard are left out.
\<close>

section \<open>Forms\<close>

record editableChannel =
  ed_id :: string
  ed_name :: string
  ed_provider :: gatewayProvider
  ed_baseUrl :: string
  ed_enabled :: bool
  ed_createdAt :: string
  ed_updatedAt :: string
  ed_keyConfigured :: bool
  ed_modelsText :: string
  ed_apiKey :: string
  ed_removeApiKey :: bool

definition NEWLINE :: string where "NEWLINE = [CHR 0x0A]"

definition modelLine :: "modelRoute \<Rightarrow> string" where
  "modelLine m = (if mr_publicName m = mr_upstreamName m then mr_publicName m
     else mr_publicName m @ ''='' @ mr_upstreamName m)"

definition modelsToText :: "modelRoute list \<Rightarrow> string" where
  "modelsToText ms = js_join NEWLINE (map modelLine ms)"

definition channelForm :: "gatewayChannel \<Rightarrow> editableChannel" where
  "channelForm c = \<lparr>ed_id = gc_id c, ed_name = gc_name c, ed_provider = gc_provider c, ed_baseUrl = gc_baseUrl c,
     ed_enabled = gc_enabled c, ed_createdAt = gc_createdAt c, ed_updatedAt = gc_updatedAt c,
     ed_keyConfigured = gc_keyConfigured c, ed_modelsText = modelsToText (gc_models c), ed_apiKey = [],
     ed_removeApiKey = False\<rparr>"

text \<open>\<open>line.indexOf("=")\<close> and the two slices around it.\<close>

definition parseModelLine :: "string \<Rightarrow> modelRoute" where
  "parseModelLine line = (if CHR ''='' \<notin> set line then \<lparr>mr_publicName = line, mr_upstreamName = line\<rparr>
     else \<lparr>mr_publicName = js_trim (takeWhile (\<lambda>c. c \<noteq> CHR ''='') line),
       mr_upstreamName = js_trim (tl (dropWhile (\<lambda>c. c \<noteq> CHR ''='') line))\<rparr>)"

definition parseModels :: "string \<Rightarrow> modelRoute list" where
  "parseModels s = map parseModelLine (filter (\<lambda>l. l \<noteq> [])
     (map js_trim (concat (map (js_split (CHR '','')) (js_split (CHR 0x0A) s)))))"

definition formDraft :: "editableChannel \<Rightarrow> channelDraft" where
  "formDraft e = \<lparr>cd_id = ed_id e, cd_name = ed_name e, cd_provider = ed_provider e, cd_baseUrl = ed_baseUrl e,
     cd_enabled = ed_enabled e, cd_models = parseModels (ed_modelsText e),
     cd_apiKey = (if ed_apiKey e = [] then None else Some (ed_apiKey e)), cd_removeApiKey = ed_removeApiKey e\<rparr>"

record editableServer =
  es_id :: string
  es_name :: string
  es_namespace :: string
  es_url :: string
  es_enabled :: bool
  es_authHeader :: string
  es_managed :: bool
  es_keyConfigured :: bool
  es_createdAt :: string
  es_updatedAt :: string
  es_toolIncludesText :: string
  es_toolExcludesText :: string
  es_apiKey :: string
  es_removeApiKey :: bool

definition parseLines :: "string \<Rightarrow> string list" where
  "parseLines v = dedup (filter (\<lambda>l. l \<noteq> []) (map js_trim (js_split (CHR 0x0A) v)))"

definition serverForm :: "mcpServer \<Rightarrow> editableServer" where
  "serverForm s = \<lparr>es_id = ms_id s, es_name = ms_name s, es_namespace = ms_namespace s, es_url = ms_url s,
     es_enabled = ms_enabled s, es_authHeader = ms_authHeader s, es_managed = ms_managed s,
     es_keyConfigured = ms_keyConfigured s, es_createdAt = ms_createdAt s, es_updatedAt = ms_updatedAt s,
     es_toolIncludesText = js_join NEWLINE (ms_toolIncludes s), es_toolExcludesText = js_join NEWLINE (ms_toolExcludes s),
     es_apiKey = [], es_removeApiKey = False\<rparr>"

definition serverFormDraft :: "editableServer \<Rightarrow> mcpServerDraft" where
  "serverFormDraft e = \<lparr>sd_id = es_id e, sd_name = es_name e, sd_namespace = es_namespace e, sd_url = es_url e,
     sd_enabled = es_enabled e, sd_authHeader = es_authHeader e, sd_toolIncludes = parseLines (es_toolIncludesText e),
     sd_toolExcludes = parseLines (es_toolExcludesText e),
     sd_apiKey = (if es_apiKey e = [] then None else Some (es_apiKey e)), sd_removeApiKey = es_removeApiKey e\<rparr>"

section \<open>What a save sends\<close>

fun providerValue :: "gatewayProvider \<Rightarrow> string" where
  "providerValue OpenAI = ''openai''"
| "providerValue Anthropic = ''anthropic''"
| "providerValue OpenAICompatible = ''openai-compatible''"

text \<open>\<open>JSON.stringify\<close> leaves an undefined key out.\<close>

definition keyMember :: "string option \<Rightarrow> (string \<times> json) list" where
  "keyMember k = (case k of None \<Rightarrow> [] | Some s \<Rightarrow> [(''apiKey'', JStr s)])"

definition draftBody :: "channelDraft \<Rightarrow> json" where
  "draftBody d = JObj ([(''id'', JStr (cd_id d)), (''name'', JStr (cd_name d)),
     (''provider'', JStr (providerValue (cd_provider d))), (''baseUrl'', JStr (cd_baseUrl d)),
     (''enabled'', JBool (cd_enabled d)),
     (''models'', JArr (map (\<lambda>m. JObj [(''publicName'', JStr (mr_publicName m)), (''upstreamName'', JStr (mr_upstreamName m))])
        (cd_models d)))]
     @ keyMember (cd_apiKey d) @ [(''removeApiKey'', JBool (cd_removeApiKey d))])"

definition channelsBody :: "editableChannel list \<Rightarrow> json" where
  "channelsBody next = JObj [(''channels'', JArr (map (draftBody \<circ> formDraft) next))]"

definition serverDraftBody :: "mcpServerDraft \<Rightarrow> json" where
  "serverDraftBody d = JObj ([(''id'', JStr (sd_id d)), (''name'', JStr (sd_name d)), (''namespace'', JStr (sd_namespace d)),
     (''url'', JStr (sd_url d)), (''enabled'', JBool (sd_enabled d)), (''authHeader'', JStr (sd_authHeader d)),
     (''toolIncludes'', JArr (map JStr (sd_toolIncludes d))), (''toolExcludes'', JArr (map JStr (sd_toolExcludes d)))]
     @ keyMember (sd_apiKey d) @ [(''removeApiKey'', JBool (sd_removeApiKey d))])"

text \<open>A service the system manages is never sent.\<close>

definition serversBody :: "editableServer list \<Rightarrow> json" where
  "serversBody next = JObj [(''servers'', JArr (map (serverDraftBody \<circ> serverFormDraft)
     (filter (\<lambda>s. \<not> es_managed s) next)))]"

section \<open>The list of channels\<close>

datatype requestState = IdleRequest | Saving | Saved | FailedRequest

record providerOption =
  po_value :: gatewayProvider
  po_defaultName :: string
  po_defaultBaseUrl :: string

text \<open>The name of a custom channel is a Chinese text in the code.\<close>

definition gatewayProviderOptions :: "providerOption list" where
  "gatewayProviderOptions =
    [\<lparr>po_value = OpenAI, po_defaultName = ''OpenAI'', po_defaultBaseUrl = ''https://api.openai.com/v1''\<rparr>,
     \<lparr>po_value = Anthropic, po_defaultName = ''Anthropic'', po_defaultBaseUrl = ''https://api.anthropic.com/v1''\<rparr>,
     \<lparr>po_value = OpenAICompatible, po_defaultName = ''custom compatible channel'', po_defaultBaseUrl = ''https://api.deepseek.com/v1''\<rparr>]"

definition optionOf :: "gatewayProvider \<Rightarrow> providerOption" where
  "optionOf p = (case find (\<lambda>opt. po_value opt = p) gatewayProviderOptions of Some opt \<Rightarrow> opt | None \<Rightarrow> hd gatewayProviderOptions)"

record channelEditor =
  he_channels :: "editableChannel list"
  he_editing :: "editableChannel option"
  he_creating :: bool
  he_viewing :: "string option"
  he_state :: requestState

definition onId :: "string \<Rightarrow> (editableChannel \<Rightarrow> editableChannel) \<Rightarrow> editableChannel list \<Rightarrow> editableChannel list" where
  "onId i f cs = map (\<lambda>c. if ed_id c = i then f c else c) cs"

definition updateChannel :: "string \<Rightarrow> (editableChannel \<Rightarrow> editableChannel) \<Rightarrow> channelEditor \<Rightarrow> channelEditor" where
  "updateChannel i patch st = (case he_editing st of
     Some e \<Rightarrow> if ed_id e = i then st\<lparr>he_editing := Some (patch e), he_state := IdleRequest\<rparr>
       else st\<lparr>he_channels := onId i patch (he_channels st), he_state := IdleRequest\<rparr>
   | None \<Rightarrow> st\<lparr>he_channels := onId i patch (he_channels st), he_state := IdleRequest\<rparr>)"

definition changeProvider :: "editableChannel \<Rightarrow> gatewayProvider \<Rightarrow> channelEditor \<Rightarrow> channelEditor" where
  "changeProvider c p = (let previous = optionOf (ed_provider c); next = optionOf p in
     updateChannel (ed_id c) (\<lambda>e. e\<lparr>ed_provider := p,
       ed_name := (if ed_name c = po_defaultName previous then po_defaultName next else ed_name c),
       ed_baseUrl := (if ed_baseUrl c = [] \<or> ed_baseUrl c = po_defaultBaseUrl previous then po_defaultBaseUrl next
         else ed_baseUrl c)\<rparr>))"

definition addChannel :: "string \<Rightarrow> string \<Rightarrow> channelEditor \<Rightarrow> channelEditor" where
  "addChannel uuid now st = (let opt = hd gatewayProviderOptions in
     st\<lparr>he_editing := Some \<lparr>ed_id = ''channel-'' @ uuid, ed_name = po_defaultName opt, ed_provider = po_value opt,
          ed_baseUrl = po_defaultBaseUrl opt, ed_enabled = True, ed_createdAt = now, ed_updatedAt = now,
          ed_keyConfigured = False, ed_modelsText = ''gpt-4.1-mini'', ed_apiKey = [], ed_removeApiKey = False\<rparr>,
        he_creating := True, he_viewing := None, he_state := IdleRequest\<rparr>)"

text \<open>The lists the three saving operations send, and what is done with the answer.\<close>

definition saveChannels :: "channelEditor \<Rightarrow> editableChannel list" where
  "saveChannels st = (case he_editing st of None \<Rightarrow> he_channels st
   | Some e \<Rightarrow> if he_creating st then he_channels st @ [e] else onId (ed_id e) (\<lambda>_. e) (he_channels st))"

definition setChannelEnabled :: "string \<Rightarrow> bool \<Rightarrow> channelEditor \<Rightarrow> editableChannel list" where
  "setChannelEnabled i enabled st = onId i (\<lambda>c. c\<lparr>ed_enabled := enabled\<rparr>) (he_channels st)"

definition removeChannel :: "string \<Rightarrow> bool \<Rightarrow> channelEditor \<Rightarrow> editableChannel list option" where
  "removeChannel i confirmed st = (if find (\<lambda>c. ed_id c = i) (he_channels st) = None \<or> \<not> confirmed then None
     else Some (filter (\<lambda>c. ed_id c \<noteq> i) (he_channels st)))"

definition channelsAnswered :: "bool \<Rightarrow> gatewayAnswer \<Rightarrow> channelEditor \<Rightarrow> channelEditor" where
  "channelsAnswered closeEditor answer st = (case answer of
     ChannelsSaved snapshot \<Rightarrow>
       (let st1 = st\<lparr>he_channels := map channelForm (cs_channels snapshot), he_state := Saved\<rparr> in
        if closeEditor then st1\<lparr>he_editing := None, he_creating := False\<rparr> else st1)
   | _ \<Rightarrow> st\<lparr>he_state := FailedRequest\<rparr>)"

text \<open>The whole of one save: the request is sent and the answer taken.\<close>

definition persistChannels ::
    "gatewayEnv \<Rightarrow> gatewayCall \<Rightarrow> editableChannel list \<Rightarrow> bool \<Rightarrow> channelEditor \<times> gatewayFiles \<Rightarrow> channelEditor \<times> gatewayFiles" where
  "persistChannels env call next closeEditor st =
    (case channelsPut env call (Some (channelsBody next)) (snd st) of
       (answer, fs) \<Rightarrow> (channelsAnswered closeEditor answer (fst st), fs))"

text \<open>The models a successful test discovers replace the text of the channel; None when the test
  failed or found none.\<close>

definition syncModels :: "channelTestResult \<Rightarrow> editableChannel \<Rightarrow> channelEditor \<Rightarrow> channelEditor option" where
  "syncModels result c st =
    (let models = dedup (filter (\<lambda>m. m \<noteq> []) (map (\<lambda>m. js_trim (the_string m)) (ct_discoveredModels result))) in
     if \<not> ct_ok result \<or> \<not> list_all is_string (ct_discoveredModels result) \<or> models = [] then None
     else Some (updateChannel (ed_id c) (\<lambda>e. e\<lparr>ed_modelsText := js_join NEWLINE models\<rparr>) st))"

section \<open>The list of servers\<close>

record serverEditor =
  hs_servers :: "editableServer list"
  hs_editing :: "editableServer option"
  hs_creating :: bool
  hs_state :: requestState

definition onServer :: "string \<Rightarrow> (editableServer \<Rightarrow> editableServer) \<Rightarrow> editableServer list \<Rightarrow> editableServer list" where
  "onServer i f ss = map (\<lambda>s. if es_id s = i then f s else s) ss"

definition updateServer :: "string \<Rightarrow> (editableServer \<Rightarrow> editableServer) \<Rightarrow> serverEditor \<Rightarrow> serverEditor" where
  "updateServer i patch st = (case hs_editing st of
     Some e \<Rightarrow> if es_id e = i then st\<lparr>hs_editing := Some (patch e), hs_state := IdleRequest\<rparr>
       else st\<lparr>hs_servers := onServer i patch (hs_servers st), hs_state := IdleRequest\<rparr>
   | None \<Rightarrow> st\<lparr>hs_servers := onServer i patch (hs_servers st), hs_state := IdleRequest\<rparr>)"

text \<open>The default name is a Chinese text in the code; the two identifiers are drawn one after the other.\<close>

definition addServer :: "string \<Rightarrow> string \<Rightarrow> string \<Rightarrow> serverEditor \<Rightarrow> serverEditor" where
  "addServer suffixUuid uuid now st =
     st\<lparr>hs_editing := Some \<lparr>es_id = ''mcp-'' @ uuid, es_name = ''new MCP service'',
          es_namespace = ''server-'' @ take 8 suffixUuid, es_url = [], es_enabled = True, es_authHeader = ''Authorization'',
          es_managed = False, es_keyConfigured = False, es_createdAt = now, es_updatedAt = now, es_toolIncludesText = [],
          es_toolExcludesText = [], es_apiKey = [], es_removeApiKey = False\<rparr>,
        hs_creating := True, hs_state := IdleRequest\<rparr>"

definition currentServers :: "serverEditor \<Rightarrow> editableServer list" where
  "currentServers st = (case hs_editing st of None \<Rightarrow> hs_servers st
   | Some e \<Rightarrow> if hs_creating st then hs_servers st @ [e] else onServer (es_id e) (\<lambda>_. e) (hs_servers st))"

definition setServerEnabled :: "string \<Rightarrow> bool \<Rightarrow> serverEditor \<Rightarrow> editableServer list" where
  "setServerEnabled i enabled st = onServer i (\<lambda>s. s\<lparr>es_enabled := enabled\<rparr>) (hs_servers st)"

definition removeServer :: "string \<Rightarrow> bool \<Rightarrow> serverEditor \<Rightarrow> editableServer list option" where
  "removeServer i confirmed st = (case find (\<lambda>s. es_id s = i) (hs_servers st) of None \<Rightarrow> None
     | Some s \<Rightarrow> if es_managed s \<or> \<not> confirmed then None else Some (filter (\<lambda>s. es_id s \<noteq> i) (hs_servers st)))"

definition serversAnswered :: "bool \<Rightarrow> gatewayAnswer \<Rightarrow> serverEditor \<Rightarrow> serverEditor" where
  "serversAnswered closeEditor answer st = (case answer of
     ServersSaved snapshot \<Rightarrow>
       (let st1 = st\<lparr>hs_servers := map serverForm (sn_servers snapshot), hs_state := Saved\<rparr> in
        if closeEditor then st1\<lparr>hs_editing := None, hs_creating := False\<rparr> else st1)
   | _ \<Rightarrow> st\<lparr>hs_state := FailedRequest\<rparr>)"

definition persistServers ::
    "gatewayEnv \<Rightarrow> gatewayCall \<Rightarrow> editableServer list \<Rightarrow> bool \<Rightarrow> serverEditor \<times> gatewayFiles \<Rightarrow> serverEditor \<times> gatewayFiles" where
  "persistServers env call next closeEditor st =
    (case serversPut env call (Some (serversBody next)) (snd st) of
       (answer, fs) \<Rightarrow> (serversAnswered closeEditor answer (fst st), fs))"

section \<open>The tools of a server\<close>

text \<open>The panel shows what the newest request for tools brought; every answer is kept as the last test of
  its server.\<close>

record toolsPanel =
  tp_request :: nat
  tp_server :: "editableServer option"
  tp_result :: "serverTestResult option"
  tp_loading :: "string option"
  tp_results :: "string \<Rightarrow> serverTestResult option"

definition openTools :: "editableServer \<Rightarrow> toolsPanel \<Rightarrow> toolsPanel" where
  "openTools server st = st\<lparr>tp_request := Suc (tp_request st), tp_server := Some server, tp_result := None,
     tp_loading := Some (es_id server)\<rparr>"

definition closeTools :: "toolsPanel \<Rightarrow> toolsPanel" where
  "closeTools st = st\<lparr>tp_request := Suc (tp_request st), tp_server := None, tp_result := None, tp_loading := None\<rparr>"

text \<open>A request that fails is answered with a result that says so.\<close>

definition failedTools :: serverTestResult where
  "failedTools = \<lparr>st_ok = False, st_status = None, st_latencyMs = 0, st_message = CannotConnect, st_tools = []\<rparr>"

definition toolsAnswered :: "nat \<Rightarrow> string \<times> serverTestResult option \<Rightarrow> toolsPanel \<Rightarrow> toolsPanel" where
  "toolsAnswered n a st = (case a of (server, answer) \<Rightarrow>
     let result = (case answer of None \<Rightarrow> failedTools | Some r \<Rightarrow> r);
         st1 = st\<lparr>tp_results := (tp_results st)(server \<mapsto> result)\<rparr> in
     if tp_request st = n then st1\<lparr>tp_result := Some result, tp_loading := None\<rparr> else st1)"

interpretation tools: latest_request tp_request tp_result openTools toolsAnswered
  by unfold_locales (auto simp: openTools_def toolsAnswered_def Let_def split: prod.split)

text \<open>While a panel was closed or another opened, no answer under way shows in it.\<close>

lemma panel_shows_newest:
  assumes "\<forall>(n, a) \<in> set as. n \<le> tp_request st"
  shows "tp_result (tools.answers as (openTools server st)) = None" "tp_result (tools.answers as (closeTools st)) = None"
  using tools.superseded[OF assms, of server] tools.older_answers_ignored[of as "closeTools st"] assms
  by (auto simp: openTools_def closeTools_def less_Suc_eq_le)

section \<open>Lists as texts\<close>

lemma js_split_none: "d \<notin> set w \<Longrightarrow> js_split d w = [w]"
  by (induction w) auto

lemma js_split_at: "d \<notin> set w \<Longrightarrow> js_split d (w @ d # s) = w # js_split d s"
  by (induction w) auto

lemma js_split_join: "ws \<noteq> [] \<Longrightarrow> \<forall>w \<in> set ws. d \<notin> set w \<Longrightarrow> js_split d (js_join [d] ws) = ws"
proof (induction ws rule: induct_list012)
  case (3 w v ws)
  then show ?case using js_split_at[of d w "js_join [d] (v # ws)"] by simp
qed (simp_all add: js_split_none)

text \<open>A list of names becomes one line each and is read back, when no name is empty, has an outer
  space or holds the separator.\<close>

lemma parse_lines_join:
  assumes "distinct ts" "\<forall>t \<in> set ts. t \<noteq> [] \<and> js_trim t = t \<and> CHR 0x0A \<notin> set t"
  shows "parseLines (js_join NEWLINE ts) = ts"
proof (cases "ts = []")
  case False
  have "js_split (CHR 0x0A) (js_join NEWLINE ts) = ts"
    unfolding NEWLINE_def by (rule js_split_join) (use False assms(2) in auto)
  moreover have "map js_trim ts = ts" "filter (\<lambda>l. l \<noteq> []) ts = ts"
    using assms(2) by (auto simp: map_idI filter_id_conv)
  ultimately show ?thesis using assms(1) by (simp add: parseLines_def dedup_distinct)
qed (simp add: parseLines_def)

text \<open>The names a line can carry: no comma, and no equals sign in the public name.\<close>

definition line_safe :: "modelRoute \<Rightarrow> bool" where
  "line_safe m \<longleftrightarrow> CHR '','' \<notin> set (mr_publicName m) \<and> CHR '','' \<notin> set (mr_upstreamName m) \<and> CHR ''='' \<notin> set (mr_publicName m)"

lemma good_name: "\<not> bad_model_name s \<Longrightarrow> s \<noteq> [] \<and> js_trim s = s \<and> CHR 0x0A \<notin> set s \<and> \<not> is_space (hd s) \<and> \<not> is_space (last s)"
  by (auto simp: bad_model_name_def list_ex_iff is_space_def code_unit_def intro!: js_trim_id)

lemma model_line:
  assumes "modelOk m" "line_safe m"
  shows "modelLine m \<noteq> [] \<and> js_trim (modelLine m) = modelLine m \<and> CHR 0x0A \<notin> set (modelLine m)
    \<and> CHR '','' \<notin> set (modelLine m) \<and> parseModelLine (modelLine m) = m"
proof -
  note g = good_name[of "mr_publicName m"] good_name[of "mr_upstreamName m"]
  have t: "takeWhile (\<lambda>c. c \<noteq> CHR ''='') (mr_publicName m @ CHR ''='' # mr_upstreamName m) = mr_publicName m"
    "dropWhile (\<lambda>c. c \<noteq> CHR ''='') (mr_publicName m @ CHR ''='' # mr_upstreamName m) = CHR ''='' # mr_upstreamName m"
    using assms(2) by (auto simp: line_safe_def takeWhile_append dropWhile_append)
  show ?thesis
  proof (cases "mr_publicName m = mr_upstreamName m")
    case True
    with g assms show ?thesis by (simp add: modelOk_def modelLine_def parseModelLine_def line_safe_def)
  next
    case False
    have "js_trim (mr_publicName m @ CHR ''='' # mr_upstreamName m) = mr_publicName m @ CHR ''='' # mr_upstreamName m"
      using g assms by (intro js_trim_id) (auto simp: modelOk_def)
    with False g assms t show ?thesis by (auto simp: modelOk_def modelLine_def parseModelLine_def line_safe_def)
  qed
qed

lemma parse_models_text:
  assumes "list_all modelOk ms" "list_all line_safe ms"
  shows "parseModels (modelsToText ms) = ms"
proof (cases "ms = []")
  case False
  let ?lines = "map modelLine ms"
  have l: "\<forall>m \<in> set ms. modelLine m \<noteq> [] \<and> js_trim (modelLine m) = modelLine m \<and> CHR 0x0A \<notin> set (modelLine m)
      \<and> CHR '','' \<notin> set (modelLine m) \<and> parseModelLine (modelLine m) = m"
    using assms model_line by (simp add: list_all_iff)
  have "js_split (CHR 0x0A) (js_join NEWLINE ?lines) = ?lines"
    unfolding NEWLINE_def by (rule js_split_join) (use False l in auto)
  moreover have "map (js_split (CHR '','')) ?lines = map (\<lambda>l. [l]) ?lines"
    using l by (auto simp: js_split_none)
  moreover have "concat (map (\<lambda>l. [l]) ?lines) = ?lines" by (induction ms) auto
  moreover have "map js_trim ?lines = ?lines" "filter (\<lambda>l. l \<noteq> []) ?lines = ?lines" "map parseModelLine ?lines = ms"
    using l by (auto simp: filter_id_conv map_idI)
  ultimately show ?thesis by (simp only: parseModels_def modelsToText_def)
qed (simp add: parseModels_def modelsToText_def)

text \<open>A name with an equals sign does not survive: the editor reads another route than it was shown.\<close>

lemma equals_sign_lost:
  "parseModels (modelsToText [\<lparr>mr_publicName = ''a=b'', mr_upstreamName = ''a=b''\<rparr>])
    = [\<lparr>mr_publicName = ''a'', mr_upstreamName = ''b''\<rparr>]"
  by code_simp

section \<open>Switching a channel\<close>

text \<open>What validation leaves of a channel, and names the form can carry.\<close>

definition editable :: "gatewayEnv \<Rightarrow> gatewayChannel \<Rightarrow> bool" where
  "editable env c \<longleftrightarrow> valid_slug (gc_id c) \<and> gc_name c \<noteq> [] \<and> length (gc_name c) \<le> 100 \<and> js_trim (gc_name c) = gc_name c
     \<and> js_trim (gc_baseUrl c) = gc_baseUrl c \<and> normalizeUrl (ge_parse env) (gc_baseUrl c) = Some (gc_baseUrl c)
     \<and> list_all modelOk (gc_models c) \<and> list_all line_safe (gc_models c) \<and> length (gc_models c) \<le> MAX_MODELS
     \<and> (gc_enabled c \<longrightarrow> gc_models c \<noteq> []) \<and> gc_createdAt c \<noteq> []"

definition switched :: "string \<Rightarrow> bool \<Rightarrow> gatewayChannel \<Rightarrow> gatewayChannel" where
  "switched i enabled c = (if gc_id c = i then c\<lparr>gc_enabled := enabled\<rparr> else c)"

text \<open>The draft a form sends for a channel that was not edited.\<close>

definition untouched :: "gatewayChannel \<Rightarrow> channelDraft" where
  "untouched c = \<lparr>cd_id = gc_id c, cd_name = gc_name c, cd_provider = gc_provider c, cd_baseUrl = gc_baseUrl c,
     cd_enabled = gc_enabled c, cd_models = gc_models c, cd_apiKey = None, cd_removeApiKey = False\<rparr>"

lemma form_draft: "editable env c \<Longrightarrow> formDraft (channelForm c) = untouched c"
  by (simp add: formDraft_def channelForm_def untouched_def editable_def parse_models_text)

lemma switched_forms:
  "\<forall>c \<in> set cs. editable env c \<Longrightarrow>
    map formDraft (onId i (\<lambda>e. e\<lparr>ed_enabled := enabled\<rparr>) (map channelForm cs)) = map (\<lambda>c. untouched (switched i enabled c)) cs"
  using form_draft by (auto simp: onId_def switched_def formDraft_def channelForm_def untouched_def editable_def parse_models_text)

lemma slug_trimmed:
  assumes "valid_slug s"
  shows "js_trim s = s"
proof -
  have "\<not> is_space c" if "c \<in> set s" for c
    using assms that by (auto simp: valid_slug_def list_all_iff slug_char_def is_space_def is_lower_def is_digit_def
        code_unit_def Let_def split: list.split_asm)
  then show ?thesis by (intro js_trim_id) (metis hd_in_set last_in_set)
qed

lemma readAll_map:
  assumes "\<And>x f. x \<in> set xs \<Longrightarrow> snd (rd (g x) f) = Some x"
  shows "snd (readAll rd field (map g xs)) = xs"
proof -
  have "List.map_filter snd (map (\<lambda>(i, v). rd v (field @ ''['' @ dec i @ '']'')) (zip is (map g xs))) = xs"
    if "length is = length xs" "\<And>x f. x \<in> set xs \<Longrightarrow> snd (rd (g x) f) = Some x" for "is" xs
    using that
  proof (induction xs arbitrary: "is")
    case (Cons x xs)
    then obtain i js where "is = i # js" by (cases "is") auto
    with Cons show ?case by (simp add: map_filter_def)
  qed (simp add: map_filter_def)
  with assms show ?thesis by (simp add: readAll_def Let_def)
qed

lemma readAll_clean:
  assumes "\<And>x f. x \<in> set xs \<Longrightarrow> fst (rd x f) = []"
  shows "fst (readAll rd field xs) = []"
  using assms by (auto simp: readAll_def Let_def dest: set_zip_rightD)

lemma read_model: "modelOk m \<Longrightarrow>
    readModelRoute (JObj [(''publicName'', JStr (mr_publicName m)), (''upstreamName'', JStr (mr_upstreamName m))]) f = ([], Some m)"
  using good_name[of "mr_publicName m"] good_name[of "mr_upstreamName m"]
  by (simp add: readModelRoute_def modelOk_def trimmed_def Let_def)

lemma read_models:
  assumes "list_all modelOk ms" "length ms \<le> MAX_MODELS"
  shows "readModels (JArr (map (\<lambda>m. JObj [(''publicName'', JStr (mr_publicName m)), (''upstreamName'', JStr (mr_upstreamName m))]) ms)) f
    = ([], ms)"
proof (rule prod_eqI)
  let ?b = "\<lambda>m. JObj [(''publicName'', JStr (mr_publicName m)), (''upstreamName'', JStr (mr_upstreamName m))]"
  have ok: "\<forall>m \<in> set ms. modelOk m" using assms(1) by (simp add: list_all_iff)
  show "snd (readModels (JArr (map ?b ms)) f) = snd ([], ms)"
    using assms(2) readAll_map[of ms readModelRoute ?b "f @ ''.models''"] ok by (simp add: readModels_def read_model)
  show "fst (readModels (JArr (map ?b ms)) f) = fst ([], ms)"
    unfolding readModels_def using assms(2) by (simp, intro readAll_clean) (auto simp: read_model ok)
qed

lemma read_untouched:
  assumes "gateway_urls env" "editable env c"
  shows "readChannelDraft (ge_parse env) (draftBody (untouched (switched i enabled c))) f
    = (problem_if (gc_enabled (switched i enabled c) \<and> gc_models c = []) (f @ ''.models'') ''empty'',
       Some (untouched (switched i enabled c)))"
proof -
  have e: "valid_slug (gc_id c)" "gc_name c \<noteq> []" "length (gc_name c) \<le> 100" "js_trim (gc_name c) = gc_name c"
    "js_trim (gc_baseUrl c) = gc_baseUrl c" "normalizeUrl (ge_parse env) (gc_baseUrl c) = Some (gc_baseUrl c)"
    "list_all modelOk (gc_models c)" "length (gc_models c) \<le> MAX_MODELS"
    using assms(2) by (auto simp: editable_def)
  have p: "providerOf (JStr (providerValue p)) = Some p" for p by (cases p) (simp_all add: providerOf_def)
  have b: "gc_baseUrl c \<noteq> []" using normalizeUrl_ne[OF _ e(6)] assms(1) by (simp add: gateway_urls_def)
  show ?thesis
    using e b slug_trimmed[OF e(1)] valid_slug_ne[OF e(1)]
    by (cases "gc_id c = i"; auto simp: draftBody_def untouched_def switched_def keyMember_def readChannelDraft_def
        read_models p trimmed_def trimmedKey_def the_bool_def Let_def)
qed

text \<open>What the server makes of the list a switch sends: the drafts of the list, when it accepts them.\<close>

lemma validate_switched:
  assumes "gateway_urls env" "\<forall>c \<in> set cs. editable env c"
    and "body = JObj [(''channels'', JArr (map (draftBody \<circ> formDraft) (onId i (\<lambda>e. e\<lparr>ed_enabled := enabled\<rparr>) (map channelForm cs))))]"
    and "drafts = map (\<lambda>c. untouched (switched i enabled c)) cs"
  shows "validateGatewayChannelsInput (ge_parse env) body = Inr ds \<Longrightarrow> ds = drafts"
    and "\<not> enabled \<Longrightarrow> length cs \<le> 20 \<Longrightarrow> duplicateChannels 0 drafts [] [] = [] \<Longrightarrow>
      validateGatewayChannelsInput (ge_parse env) body = Inr drafts"
proof -
  let ?read = "readAll (readChannelDraft (ge_parse env)) ''channels'' (map draftBody drafts)"
  have list: "the_array (jget body ''channels'') = map draftBody drafts" "is_array (jget body ''channels'')"
    unfolding assms(3,4) switched_forms[OF assms(2), of i enabled, symmetric] by (simp_all del: map_map add: map_map[symmetric])
  have drafts: "snd ?read = drafts"
    by (rule readAll_map) (use assms(1,2) in \<open>auto simp: assms(4) read_untouched\<close>)
  show "validateGatewayChannelsInput (ge_parse env) body = Inr ds \<Longrightarrow> ds = drafts"
    using drafts by (auto simp: validateGatewayChannelsInput_def list Let_def split: if_split_asm prod.split_asm)
  assume off: "\<not> enabled" "length cs \<le> 20" "duplicateChannels 0 drafts [] [] = []"
  have "fst ?read = []"
  proof (rule readAll_clean)
    fix x f assume "x \<in> set (map draftBody drafts)"
    then obtain c where c: "c \<in> set cs" "x = draftBody (untouched (switched i enabled c))" by (auto simp: assms(4))
    with assms(2) have "gc_enabled (switched i enabled c) \<longrightarrow> gc_models c \<noteq> []"
      using off(1) by (auto simp: editable_def switched_def)
    with c assms(1,2) show "fst (readChannelDraft (ge_parse env) x f) = []" by (auto simp: read_untouched)
  qed
  then have "?read = ([], drafts)" using drafts by (metis prod.collapse)
  then show "validateGatewayChannelsInput (ge_parse env) body = Inr drafts"
    using off(2,3) by (simp add: validateGatewayChannelsInput_def list MAX_CHANNELS_def assms(4) Let_def)
qed

lemma no_duplicate_models:
  "distinct (map mr_publicName ms) \<Longrightarrow> set (map mr_publicName ms) \<inter> set published = {} \<Longrightarrow>
    \<exists>p. duplicateModels ms published = ([], p) \<and> set p = set published \<union> set (map mr_publicName ms)"
proof (induction ms arbitrary: published)
  case (Cons m ms)
  then have "distinct (map mr_publicName ms)" "set (map mr_publicName ms) \<inter> set (mr_publicName m # published) = {}"
    by auto
  from Cons.IH[OF this] obtain p where "duplicateModels ms (mr_publicName m # published) = ([], p)"
    "set p = set (mr_publicName m # published) \<union> set (map mr_publicName ms)" by blast
  with Cons.prems show ?case by auto
qed simp

lemma no_duplicate_channels:
  "distinct (map cd_id cs) \<Longrightarrow> set (map cd_id cs) \<inter> set ids = {} \<Longrightarrow> distinct (publishedNames cs) \<Longrightarrow>
    set (publishedNames cs) \<inter> set published = {} \<Longrightarrow> duplicateChannels n cs ids published = []"
proof (induction cs arbitrary: n ids published)
  case (Cons c cs)
  have i: "distinct (map cd_id cs)" "set (map cd_id cs) \<inter> set (cd_id c # ids) = {}" "cd_id c \<notin> set ids"
    using Cons.prems(1,2) by auto
  show ?case
  proof (cases "cd_enabled c")
    case True
    then have names: "publishedNames (c # cs) = map mr_publicName (cd_models c) @ publishedNames cs" by simp
    then have m: "distinct (map mr_publicName (cd_models c))" "set (map mr_publicName (cd_models c)) \<inter> set published = {}"
      and rest: "distinct (publishedNames cs)"
        "set (publishedNames cs) \<inter> (set published \<union> set (map mr_publicName (cd_models c))) = {}"
      using Cons.prems(3,4) unfolding names distinct_append set_append by blast+
    from no_duplicate_models[OF m] obtain p where p: "duplicateModels (cd_models c) published = ([], p)"
      "set p = set published \<union> set (map mr_publicName (cd_models c))" by blast
    from Cons.IH[OF i(1,2) rest(1), of p "Suc n"] rest(2) i(3) p True show ?thesis
      unfolding p(2) by simp
  next
    case False
    then have "publishedNames (c # cs) = publishedNames cs" by simp
    with Cons.IH[OF i(1,2), of published "Suc n"] Cons.prems(3,4) i(3) False show ?thesis by simp
  qed
qed simp

lemma switched_off_names:
  "set (publishedNames (map (\<lambda>c. untouched (switched i False c)) cs)) \<subseteq> set (publishedNames (map untouched cs))
    \<and> (distinct (publishedNames (map untouched cs)) \<longrightarrow> distinct (publishedNames (map (\<lambda>c. untouched (switched i False c)) cs)))"
  by (induction cs) (auto simp: untouched_def switched_def)

lemma switched_simps [simp]:
  "gc_id (switched i enabled c) = gc_id c" "gc_createdAt (switched i enabled c) = gc_createdAt c"
  "gc_keyConfigured (switched i enabled c) = gc_keyConfigured c" "cd_id (untouched c) = gc_id c"
  by (simp_all add: switched_def untouched_def)

text \<open>Saving drafts nobody edited changes the time of every channel and nothing else.\<close>

lemma saved_untouched:
  assumes "distinct (map gc_id cs)" "\<forall>c \<in> set cs. editable env c"
  shows "savedChannels cs timestamp (map (\<lambda>c. untouched (switched i enabled c)) cs)
    = map (\<lambda>c. (switched i enabled c)\<lparr>gc_updatedAt := timestamp\<rparr>) cs"
proof -
  have *: "withKey (draftChannel (untouched c) (gc_createdAt c) timestamp) (gc_keyConfigured c) = c\<lparr>gc_updatedAt := timestamp\<rparr>" for c
    by (cases c) (simp add: untouched_def draftChannel_def withKey_def storedChannel.defs gatewayChannel.defs)
  show ?thesis
  proof (unfold savedChannels_def Let_def map_map comp_def, rule map_cong[OF refl])
    fix c assume c: "c \<in> set cs"
    then have "byId gc_id cs (gc_id c) = Some c" by (rule byId_distinct[OF assms(1)])
    moreover have "gc_createdAt c \<noteq> []" using c assms(2) by (auto simp: editable_def)
    moreover have "keyConfiguredBy b (channelKey (untouched v)) = b" for b v
      by (simp add: keyConfiguredBy_def channelKey_def untouched_def keyText_def)
    ultimately show "withKey (draftChannel (untouched (switched i enabled c))
        (fieldOr gc_createdAt (byId gc_id cs (cd_id (untouched (switched i enabled c)))) timestamp) timestamp)
        (keyConfiguredBy (case byId gc_id cs (cd_id (untouched (switched i enabled c))) of None \<Rightarrow> False
           | Some c \<Rightarrow> gc_keyConfigured c) (channelKey (untouched (switched i enabled c))))
      = (switched i enabled c)\<lparr>gc_updatedAt := timestamp\<rparr>"
      using *[of "switched i enabled c"] by (simp add: fieldOr_def orElse_def)
  qed
qed


definition demo_saved :: channelsSnapshot where
  "demo_saved = \<lparr>cs_channels = [\<lparr>gc_id = ''c1'', gc_name = ''C'', gc_provider = OpenAI, gc_baseUrl = ''http://h'',
     gc_enabled = True, gc_models = [\<lparr>mr_publicName = ''m'', mr_upstreamName = ''m''\<rparr>], gc_createdAt = ''t1'',
     gc_updatedAt = ''t1'', gc_keyConfigured = True\<rparr>], cs_updatedAt = ''t1'', cs_revision = ''u1''\<rparr>"

definition demo_files :: gatewayFiles where
  "demo_files = snd (gatewayStep demo_env (demo_call, PutChannels (Some demo_put)) empty_files)"

definition demo_editor :: channelEditor where
  "demo_editor = \<lparr>he_channels = map channelForm (cs_channels demo_saved), he_editing = None, he_creating = False,
     he_viewing = None, he_state = IdleRequest\<rparr>"

lemma demo_put_saved: "fst (gatewayStep demo_env (demo_call, PutChannels (Some demo_put)) empty_files) = ChannelsSaved demo_saved"
  by code_simp

lemma demo_files_state: "\<exists>servers. gateway_state demo_env demo_files demo_saved servers"
proof -
  have "gatewayStep demo_env (demo_call, PutChannels (Some demo_put)) empty_files = (ChannelsSaved demo_saved, demo_files)"
    unfolding demo_files_def by (metis demo_put_saved prod.collapse)
  from gateway_step_state[OF demo_gateway_urls empty_gateway_state[OF demo_gateway_urls] this] show ?thesis by auto
qed

lemma demo_editable: "\<forall>c \<in> set (cs_channels demo_saved). editable demo_env c"
  by code_simp

end
