(* ===== verification/Component_Data.thy ===== *)
theory Component_Data
  imports Services Diagnostics
begin

text \<open>
  The overview of the platform (src/ai-console/src/lib/server/component-data.ts and the route
  app/api/overview): seven collectors that ask the components, each with a fallback for the case
  that it fails, and a cache of ten seconds. A remote service is a function from the address and
  the bearer token to its payload, which has the type the file declares for it; every request is
  recorded. Requests that run at the same time are listed in the order of the code, and of several
  failures the first in that order is reported. Texts of the date are their milliseconds.
\<close>

section \<open>Payloads\<close>

record readyPayload =
  yp_database :: "string option"
  yp_pgvector :: "string option"
  yp_apacheAge :: "string option"
  yp_databaseSizeBytes :: "rat option"
  yp_runtimeEvents :: "rat option"
  yp_runtimeEventTypes :: "(string \<times> rat) list option"

record connectionPayload =
  np_id :: "string option"
  np_service :: "string option"
  np_connectionName :: "string option"
  np_authType :: "string option"
  np_configured :: bool
  np_virtual :: bool
  np_default :: bool

record documentPayload =
  dp_content_summary :: "string option"
  dp_content_length :: "rat option"
  dp_status :: "string option"
  dp_updated_at :: "string option"
  dp_chunks_count :: "rat option"
  dp_error_msg :: "string option"
  dp_file_path :: "string option"

record documentsPayload =
  dp_documents :: "documentPayload list option"
  dp_total_count :: "rat option"
  dp_status_counts :: "(string \<times> rat) list option"

record jaegerTag =
  jt_key :: "string option"
  jt_value :: json

record jaegerSpan =
  js_operationName :: "string option"
  js_processID :: "string option"
  js_startTime :: "rat option"
  js_duration :: "rat option"
  js_tags :: "jaegerTag list option"

record jaegerTrace =
  je_traceID :: "string option"
  je_spans :: "jaegerSpan list option"
  je_processes :: "(string \<times> string option) list option"

record authenticatedClient =
  ac_id :: string
  ac_clientId :: string
  ac_requestCount :: rat
  ac_active :: bool

record clientsPayload =
  lp_retentionSeconds :: "rat option"
  lp_activeWindowSeconds :: "rat option"
  lp_clients :: "authenticatedClient list option"

datatype componentError = FetchError string | GatewayFileError gatewayError | TraceDateError

type_synonym 'p remote = "string \<Rightarrow> string option \<Rightarrow> string + 'p"

record componentEnv =
  ce_environment :: "string \<Rightarrow> string option"
  ce_services :: serviceEnv
  ce_ready :: "readyPayload remote"
  ce_agents :: "json list option remote"
  ce_events :: "json list option remote"
  ce_listing :: "json list option remote"
  ce_connections :: "connectionPayload list remote"
  ce_runs :: "json list option remote"
  ce_ragHealth :: "bool remote"
  ce_documents :: "documentsPayload remote"
  ce_jaegerServices :: "(json list option \<times> rat option) remote"
  ce_jaegerTraces :: "jaegerTrace list option remote"
  ce_clients :: "clientsPayload remote"
  ce_promptfoo :: "unit remote"
  ce_encode :: "string \<Rightarrow> string"
  ce_newer :: "int \<Rightarrow> int \<Rightarrow> bool"

text \<open>The address and the token of a request.\<close>

datatype serverCall = ServerCall string "string option"

definition fetchJson :: "'p remote \<Rightarrow> string \<Rightarrow> string option \<Rightarrow> componentError + 'p" where
  "fetchJson remote url token = (case remote url token of Inl e \<Rightarrow> Inl (FetchError e) | Inr p \<Rightarrow> Inr p)"

definition bearer :: "string option \<Rightarrow> string option" where
  "bearer token = orText token None"

definition baseOf :: "componentEnv \<Rightarrow> string \<Rightarrow> string \<Rightarrow> string" where
  "baseOf env name fallback = the (orText (ce_environment env name) (Some fallback))"

definition textOr :: "string option \<Rightarrow> string \<Rightarrow> string" where
  "textOr v d = the (orText v (Some d))"

definition numberOr0 :: "rat option \<Rightarrow> rat" where
  "numberOr0 v = (case v of None \<Rightarrow> 0 | Some n \<Rightarrow> n)"

definition itemsOf :: "'a list option \<Rightarrow> 'a list" where
  "itemsOf v = (case v of None \<Rightarrow> [] | Some xs \<Rightarrow> xs)"

section \<open>Runtime and gateway\<close>

record runtimeData =
  rd_database :: string
  rd_pgvector :: string
  rd_apacheAge :: string
  rd_databaseSizeBytes :: rat
  rd_eventCount :: rat
  rd_eventTypes :: "(string \<times> rat) list"
  rd_agents :: "json list"
  rd_recentEvents :: "json list"

definition runtimeBase :: "componentEnv \<Rightarrow> string" where
  "runtimeBase env = baseOf env ''AGENT_RUNTIME_URL'' ''http://runtime.localhost:8080''"

definition collectRuntime :: "componentEnv \<Rightarrow> serverCall list \<times> (componentError + runtimeData)" where
  "collectRuntime env = (let base = runtimeBase env in
     (map (\<lambda>p. ServerCall (base @ p) None) [''/ready'', ''/v1/agents'', ''/v1/runtime-events''],
      bindE (fetchJson (ce_ready env) (base @ ''/ready'') None) (\<lambda>ready.
      bindE (fetchJson (ce_agents env) (base @ ''/v1/agents'') None) (\<lambda>agents.
      bindE (fetchJson (ce_events env) (base @ ''/v1/runtime-events'') None) (\<lambda>events.
      Inr \<lparr>rd_database = textOr (yp_database ready) ''unknown'', rd_pgvector = textOr (yp_pgvector ready) ''missing'',
        rd_apacheAge = textOr (yp_apacheAge ready) ''missing'', rd_databaseSizeBytes = numberOr0 (yp_databaseSizeBytes ready),
        rd_eventCount = numberOr0 (yp_runtimeEvents ready), rd_eventTypes = itemsOf (yp_runtimeEventTypes ready),
        rd_agents = itemsOf agents, rd_recentEvents = itemsOf events\<rparr>)))))"

record modelGatewayData =
  mg_channelCount :: nat
  mg_modelCount :: nat
  mg_models :: "string list"

definition collectLlmGateway :: "gatewayFiles \<Rightarrow> componentError + modelGatewayData" where
  "collectLlmGateway fs = (case readGatewayChannels fs of Inl e \<Rightarrow> Inl (GatewayFileError e)
   | Inr snapshot \<Rightarrow>
       let enabled = filter (\<lambda>c. gc_enabled c \<and> gc_keyConfigured c) (cs_channels snapshot);
           models = concat (map (\<lambda>c. map mr_publicName (gc_models c)) enabled) in
       Inr \<lparr>mg_channelCount = length enabled, mg_modelCount = length models, mg_models = models\<rparr>)"

section \<open>Connections\<close>

record connectionView =
  nv_id :: string
  nv_service :: string
  nv_connectionName :: string
  nv_authType :: string
  nv_configured :: bool
  nv_isDefault :: bool

record connectorData =
  nd_providerCount :: nat
  nd_appCount :: nat
  nd_authenticatedAppCount :: nat
  nd_connectionCount :: nat
  nd_recentRunCount :: nat
  nd_connections :: "connectionView list"

definition connectionItem :: "connectionPayload \<Rightarrow> connectionView" where
  "connectionItem item = \<lparr>nv_id = textOr (np_id item) (textOr (np_service item) ''unknown'' @ '':''
       @ textOr (np_connectionName item) ''default''),
     nv_service = textOr (np_service item) ''unknown'', nv_connectionName = textOr (np_connectionName item) ''default'',
     nv_authType = textOr (np_authType item) ''unknown'', nv_configured = np_configured item, nv_isDefault = np_default item\<rparr>"

definition connectorBase :: "componentEnv \<Rightarrow> string" where
  "connectorBase env = baseOf env ''OPEN_CONNECTOR_URL'' ''http://localhost:8080/connector''"

definition connectorLists :: "string list" where
  "connectorLists = [''/v1/providers'', ''/v1/apps'', ''/v1/apps/authenticated'']"

text \<open>The three lists are asked for together; the two administrative ones after them, one by one and
  only with a token.\<close>

definition collectConnector :: "componentEnv \<Rightarrow> serverCall list \<times> (componentError + connectorData)" where
  "collectConnector env =
    (let base = connectorBase env; runtime = bearer (ce_environment env ''OPEN_CONNECTOR_RUNTIME_TOKEN'');
         admin = bearer (ce_environment env ''OPEN_CONNECTOR_ADMIN_TOKEN'');
         lists = map (\<lambda>p. ServerCall (base @ p) runtime) connectorLists in
     case bindE (fetchJson (ce_listing env) (base @ ''/v1/providers'') runtime) (\<lambda>providers.
        bindE (fetchJson (ce_listing env) (base @ ''/v1/apps'') runtime) (\<lambda>apps.
        bindE (fetchJson (ce_listing env) (base @ ''/v1/apps/authenticated'') runtime) (\<lambda>authenticated.
        Inr (length (itemsOf providers), length (itemsOf apps), length (itemsOf authenticated))))) of
       Inl e \<Rightarrow> (lists, Inl e)
     | Inr (providers, apps, authenticated) \<Rightarrow>
         (case admin of
            None \<Rightarrow> (lists, Inr \<lparr>nd_providerCount = providers, nd_appCount = apps, nd_authenticatedAppCount = authenticated,
              nd_connectionCount = 0, nd_recentRunCount = 0, nd_connections = []\<rparr>)
          | Some token \<Rightarrow> (let asked = lists @ [ServerCall (base @ ''/api/connections'') admin] in
             case fetchJson (ce_connections env) (base @ ''/api/connections'') admin of
               Inl e \<Rightarrow> (asked, Inl e)
             | Inr items \<Rightarrow> (asked @ [ServerCall (base @ ''/api/runs'') admin],
                 bindE (fetchJson (ce_runs env) (base @ ''/api/runs'') admin) (\<lambda>runs.
                 Inr \<lparr>nd_providerCount = providers, nd_appCount = apps, nd_authenticatedAppCount = authenticated,
                   nd_connectionCount = length (filter (\<lambda>i. \<not> np_virtual i) items),
                   nd_recentRunCount = length (itemsOf runs), nd_connections = map connectionItem items\<rparr>)))))"

section \<open>Knowledge\<close>

text \<open>The last fallback of a document's name is its number in words.\<close>

datatype documentName = DocumentName string | DocumentNumber nat

record documentView =
  dv_name :: documentName
  dv_relativePath :: string
  dv_sizeBytes :: rat
  dv_modifiedAt :: string
  dv_status :: string
  dv_chunksCount :: rat
  dv_errorMessage :: "string option"

record knowledgeData =
  kn_documentCount :: rat
  kn_totalBytes :: rat
  kn_latestModifiedAt :: "string option"
  kn_pipelineBusy :: bool
  kn_statusCounts :: "(string \<times> rat) list"
  kn_documents :: "documentView list"

text \<open>\<open>fileName.replace(/\.[^.]+$/, "")\<close>\<close>

definition stripExtension :: "string \<Rightarrow> string" where
  "stripExtension s = (case dropWhile (\<lambda>c. c \<noteq> CHR ''.'') (rev s) of [] \<Rightarrow> s
     | c # r \<Rightarrow> if last s = CHR ''.'' then s else rev r)"

definition fileNameOf :: "string \<Rightarrow> string" where
  "fileNameOf path = (let parts = filter (\<lambda>p. p \<noteq> []) (js_split (CHR ''/'') path) in
     if parts = [] then path else last parts)"

definition documentOf :: "nat \<Rightarrow> documentPayload \<Rightarrow> documentView" where
  "documentOf i d = (let path = textOr (dp_file_path d) (''document-'' @ dec (i + 1));
       name = orText (Some (stripExtension (fileNameOf path))) (orText (dp_content_summary d) None) in
     \<lparr>dv_name = (case name of None \<Rightarrow> DocumentNumber (i + 1) | Some n \<Rightarrow> DocumentName n), dv_relativePath = path,
      dv_sizeBytes = numberOr0 (dp_content_length d), dv_modifiedAt = textOr (dp_updated_at d) SYSTEM_MANAGED_TIMESTAMP,
      dv_status = textOr (dp_status d) ''UNKNOWN'', dv_chunksCount = numberOr0 (dp_chunks_count d),
      dv_errorMessage = orText (dp_error_msg d) None\<rparr>)"

definition collectKnowledge :: "componentEnv \<Rightarrow> serverCall list \<times> (componentError + knowledgeData)" where
  "collectKnowledge env = (let base = baseOf env ''LIGHTRAG_URL'' ''http://localhost:8080/rag'' in
     (map (\<lambda>p. ServerCall (base @ p) None) [''/health'', ''/documents/paginated''],
      bindE (fetchJson (ce_ragHealth env) (base @ ''/health'') None) (\<lambda>busy.
      bindE (fetchJson (ce_documents env) (base @ ''/documents/paginated'') None) (\<lambda>payload.
      let items = itemsOf (dp_documents payload);
          documents = map (\<lambda>(i, d). documentOf i d) (zip [0..<length items] items) in
      Inr \<lparr>kn_documentCount = (case dp_total_count payload of None \<Rightarrow> of_nat (length documents) | Some n \<Rightarrow> n),
        kn_totalBytes = sum_list (map dv_sizeBytes documents),
        kn_latestModifiedAt = (case documents of [] \<Rightarrow> None | d # ds \<Rightarrow> Some (dv_modifiedAt d)),
        kn_pipelineBusy = busy, kn_statusCounts = itemsOf (dp_status_counts payload), kn_documents = documents\<rparr>))))"

section \<open>Traces\<close>

record traceView =
  tv_traceId :: string
  tv_serviceName :: string
  tv_operationName :: string
  tv_spanCount :: nat
  tv_durationMs :: int
  tv_startedAt :: int
  tv_degraded :: bool

record tracingData =
  tr_serviceCount :: rat
  tr_recentTraceCount :: nat
  tr_spanCount :: nat
  tr_errorTraceCount :: nat
  tr_traces :: "traceView list"

definition spanStart :: "jaegerSpan \<Rightarrow> rat" where
  "spanStart s = numberOr0 (js_startTime s)"

definition spanEnd :: "jaegerSpan \<Rightarrow> rat" where
  "spanEnd s = spanStart s + numberOr0 (js_duration s)"

text \<open>\<open>spans.reduce\<close> keeps the first of the earliest spans.\<close>

fun earliestSpan :: "jaegerSpan \<Rightarrow> jaegerSpan list \<Rightarrow> jaegerSpan" where
  "earliestSpan earliest [] = earliest"
| "earliestSpan earliest (s # ss) = earliestSpan (if spanStart s < spanStart earliest then s else earliest) ss"

text \<open>\<open>Number(v)\<close>; the text of an array or an object is read like any other text, and where
  there is none the value is no number.\<close>

definition numberOf :: "json \<Rightarrow> jsnum" where
  "numberOf v = (case v of JUndef \<Rightarrow> NaN | JNull \<Rightarrow> Fin 0 | JBool b \<Rightarrow> Fin (if b then 1 else 0) | JNum n \<Rightarrow> n
     | JStr s \<Rightarrow> js_Number s | _ \<Rightarrow> (case js_String v of None \<Rightarrow> NaN | Some s \<Rightarrow> js_Number s))"

definition errorTag :: "jaegerTag \<Rightarrow> bool" where
  "errorTag t \<longleftrightarrow> (jt_key t = Some ''error'' \<and> jt_value t = JBool True)
     \<or> (jt_key t = Some ''http.status_code'' \<and> num_le (Fin 400) (numberOf (jt_value t)))"

definition errorSpan :: "jaegerSpan \<Rightarrow> bool" where
  "errorSpan s \<longleftrightarrow> list_ex errorTag (itemsOf (js_tags s))"

text \<open>Nothing for a trace without a name or without spans; an error where the date cannot be written.\<close>

definition summarizeJaegerTrace :: "jaegerTrace \<Rightarrow> componentError + traceView option" where
  "summarizeJaegerTrace trace = (case (orText (je_traceID trace) None, itemsOf (je_spans trace)) of
     (Some traceId, s # ss) \<Rightarrow>
       (let spans = s # ss; firstSpan = earliestSpan s ss;
            startTime = Min (set (map spanStart spans)); endTime = Max (set (map spanEnd spans)) in
        case isoTime (startTime / 1000) of None \<Rightarrow> Inl TraceDateError
        | Some startedAt \<Rightarrow> Inr (Some \<lparr>tv_traceId = traceId,
            tv_serviceName = textOr (case map_of (itemsOf (je_processes trace)) (textOr (js_processID firstSpan) []) of
                None \<Rightarrow> None | Some name \<Rightarrow> name) ''unknown'',
            tv_operationName = textOr (js_operationName firstSpan) ''unknown'', tv_spanCount = length spans,
            tv_durationMs = max 0 (roundMs ((endTime - startTime) / 1000)), tv_startedAt = startedAt,
            tv_degraded = list_ex errorSpan spans\<rparr>))
   | _ \<Rightarrow> Inr None)"

definition jaegerBase :: "componentEnv \<Rightarrow> string" where
  "jaegerBase env = baseOf env ''JAEGER_URL'' ''http://jaeger:16686''"

definition collectTracing :: "componentEnv \<Rightarrow> serverCall list \<times> (componentError + tracingData)" where
  "collectTracing env =
    (let base = jaegerBase env; service = baseOf env ''JAEGER_SERVICE_NAME'' ''ai-base-agent-runtime'';
         tracesUrl = base @ ''/api/traces?service='' @ ce_encode env service @ ''&limit=100'' in
     ([ServerCall (base @ ''/api/services'') None, ServerCall tracesUrl None],
      bindE (fetchJson (ce_jaegerServices env) (base @ ''/api/services'') None) (\<lambda>(services, total).
      bindE (fetchJson (ce_jaegerTraces env) tracesUrl None) (\<lambda>payload.
      bindE (mapE summarizeJaegerTrace (itemsOf payload)) (\<lambda>summaries.
      let traces = sort_by (\<lambda>a b. ce_newer env (tv_startedAt a) (tv_startedAt b)) (List.map_filter id summaries) in
      Inr \<lparr>tr_serviceCount = (case total of Some n \<Rightarrow> n | None \<Rightarrow> of_nat (length (itemsOf services))),
        tr_recentTraceCount = length traces, tr_spanCount = sum_list (map tv_spanCount traces),
        tr_errorTraceCount = length (filter tv_degraded traces), tr_traces = traces\<rparr>)))))"

section \<open>Clients and evaluation\<close>

record authenticationData =
  au_identityCount :: nat
  au_activeIdentityCount :: nat
  au_oauthClientCount :: nat
  au_requestCount :: rat
  au_retentionSeconds :: rat
  au_activeWindowSeconds :: rat
  au_clients :: "authenticatedClient list"

definition mcpGatewayBase :: "componentEnv \<Rightarrow> string" where
  "mcpGatewayBase env = baseOf env ''MCP_ACCESS_GATEWAY_URL'' ''http://mcp-access-gateway:8081''"

definition collectAuthentication :: "componentEnv \<Rightarrow> serverCall list \<times> (componentError + authenticationData)" where
  "collectAuthentication env =
    (let url = mcpGatewayBase env @ ''/internal/v1/authentication/mcp-clients'';
         token = bearer (ce_environment env ''MCP_ADMIN_TOKEN'') in
     ([ServerCall url token],
      bindE (fetchJson (ce_clients env) url token) (\<lambda>response. let clients = itemsOf (lp_clients response) in
      Inr \<lparr>au_identityCount = length clients, au_activeIdentityCount = length (filter ac_active clients),
        au_oauthClientCount = length (dedup (map ac_clientId clients)),
        au_requestCount = sum_list (map ac_requestCount clients),
        au_retentionSeconds = numberOr0 (lp_retentionSeconds response),
        au_activeWindowSeconds = numberOr0 (lp_activeWindowSeconds response), au_clients = clients\<rparr>)))"

text \<open>Whether Promptfoo runs.\<close>

definition collectEvaluation :: "componentEnv \<Rightarrow> serverCall list \<times> bool" where
  "collectEvaluation env = (let url = baseOf env ''PROMPTFOO_URL'' ''http://promptfoo.localhost:8080'' @ ''/health'' in
     ([ServerCall url None], is_ok (fetchJson (ce_promptfoo env) url None)))"

section \<open>The snapshot\<close>

record componentSnapshot =
  cp_generatedAt :: int
  cp_services :: "serviceSnapshot list"
  cp_runtime :: runtimeData
  cp_modelGateway :: modelGatewayData
  cp_connector :: connectorData
  cp_knowledge :: knowledgeData
  cp_tracing :: tracingData
  cp_authentication :: authenticationData
  cp_evaluation :: bool
  cp_errors :: "(string \<times> componentError) list"

definition noRuntime :: runtimeData where
  "noRuntime = \<lparr>rd_database = ''unknown'', rd_pgvector = ''missing'', rd_apacheAge = ''missing'', rd_databaseSizeBytes = 0,
     rd_eventCount = 0, rd_eventTypes = [], rd_agents = [], rd_recentEvents = []\<rparr>"

definition noModelGateway :: modelGatewayData where
  "noModelGateway = \<lparr>mg_channelCount = 0, mg_modelCount = 0, mg_models = []\<rparr>"

definition noConnector :: connectorData where
  "noConnector = \<lparr>nd_providerCount = 0, nd_appCount = 0, nd_authenticatedAppCount = 0, nd_connectionCount = 0,
     nd_recentRunCount = 0, nd_connections = []\<rparr>"

definition noKnowledge :: knowledgeData where
  "noKnowledge = \<lparr>kn_documentCount = 0, kn_totalBytes = 0, kn_latestModifiedAt = None, kn_pipelineBusy = False,
     kn_statusCounts = [], kn_documents = []\<rparr>"

definition noTracing :: tracingData where
  "noTracing = \<lparr>tr_serviceCount = 0, tr_recentTraceCount = 0, tr_spanCount = 0, tr_errorTraceCount = 0, tr_traces = []\<rparr>"

definition noAuthentication :: authenticationData where
  "noAuthentication = \<lparr>au_identityCount = 0, au_activeIdentityCount = 0, au_oauthClientCount = 0, au_requestCount = 0,
     au_retentionSeconds = 0, au_activeWindowSeconds = 0, au_clients = []\<rparr>"

text \<open>A collector that fails leaves its error under its name and the fallback as its value.\<close>

definition safe :: "string \<Rightarrow> componentError + 'a \<Rightarrow> 'a \<Rightarrow> (string \<times> componentError) list \<times> 'a" where
  "safe name outcome fallback = (case outcome of Inl e \<Rightarrow> ([(name, e)], fallback) | Inr v \<Rightarrow> ([], v))"

definition collectAll ::
    "componentEnv \<Rightarrow> gatewayFiles \<Rightarrow> json \<Rightarrow> int \<Rightarrow> (contact list \<times> serverCall list) \<times> componentSnapshot" where
  "collectAll env fs config now =
    (let checked = checkServices (ce_services env) config;
         runtime = safe ''runtime'' (snd (collectRuntime env)) noRuntime;
         gateway = safe ''llmGateway'' (collectLlmGateway fs) noModelGateway;
         connector = safe ''openConnector'' (snd (collectConnector env)) noConnector;
         knowledge = safe ''knowledge'' (snd (collectKnowledge env)) noKnowledge;
         tracing = safe ''jaeger'' (snd (collectTracing env)) noTracing;
         authentication = safe ''mcpAuthentication'' (snd (collectAuthentication env)) noAuthentication in
     ((fst checked, fst (collectRuntime env) @ fst (collectConnector env) @ fst (collectKnowledge env)
         @ fst (collectTracing env) @ fst (collectAuthentication env) @ fst (collectEvaluation env)),
      \<lparr>cp_generatedAt = now, cp_services = snd checked, cp_runtime = snd runtime, cp_modelGateway = snd gateway,
       cp_connector = snd connector, cp_knowledge = snd knowledge, cp_tracing = snd tracing,
       cp_authentication = snd authentication, cp_evaluation = snd (collectEvaluation env),
       cp_errors = fst runtime @ fst gateway @ fst connector @ fst knowledge @ fst tracing @ fst authentication\<rparr>))"

type_synonym overviewCache = "(int \<times> componentSnapshot) option"

text \<open>The time of the check of the cache and the time when all collectors are done.\<close>

definition getComponentData ::
    "componentEnv \<Rightarrow> gatewayFiles \<Rightarrow> json \<Rightarrow> bool \<Rightarrow> int \<Rightarrow> int \<Rightarrow> overviewCache
      \<Rightarrow> (contact list \<times> serverCall list) \<times> componentSnapshot \<times> overviewCache" where
  "getComponentData env fs config force now finished cache =
    (let collected = collectAll env fs config finished;
         fresh = (fst collected, snd collected, Some (finished + CACHE_TTL_MS, snd collected)) in
     case cache of Some (expiresAt, v) \<Rightarrow> if \<not> force \<and> now < expiresAt then (([], []), v, cache) else fresh
     | None \<Rightarrow> fresh)"

definition overviewGet ::
    "componentEnv \<Rightarrow> gatewayFiles \<Rightarrow> string \<Rightarrow> string option \<Rightarrow> int \<Rightarrow> int \<Rightarrow> configFile \<times> overviewCache
      \<Rightarrow> componentSnapshot plainResponse \<times> configFile \<times> overviewCache" where
  "overviewGet env fs timestamp refresh now finished st =
    (case readConsoleConfig timestamp (fst st) of (None, stored) \<Rightarrow> (PlainCrash, stored, snd st)
     | (Some config, stored) \<Rightarrow>
         (case getComponentData env fs config (refresh = Some ''1'') now finished (snd st) of
            (asked, v, cache) \<Rightarrow> (PlainOk v, stored, cache)))"

section \<open>Summaries of traces\<close>

lemma earliest_span:
  "earliestSpan s ss \<in> set (s # ss) \<and> (\<forall>x \<in> set (s # ss). spanStart (earliestSpan s ss) \<le> spanStart x)"
proof (induction ss arbitrary: s)
  case (Cons x xs)
  from Cons.IH[of x] Cons.IH[of s] show ?case by (auto 4 3)
qed simp

lemma max_round: "x \<le> y \<Longrightarrow> roundMs x \<le> max 0 (roundMs y)"
  by (metis add_le_cancel_right floor_mono max.coboundedI2 roundMs_def)

text \<open>The summary of a trace is right: it exists exactly for a trace with a name and spans whose date
  can be written; it is degraded exactly when some span carries an error flag or a status of 400
  and more; it starts no later than any span, its operation is that of an earliest span, and its
  duration covers every span.\<close>

theorem trace_summary_sound:
  assumes "summarizeJaegerTrace trace = Inr (Some v)"
  shows "je_traceID trace = Some (tv_traceId v) \<and> tv_traceId v \<noteq> []
    \<and> tv_spanCount v = length (itemsOf (je_spans trace)) \<and> 0 < tv_spanCount v
    \<and> tv_degraded v = (\<exists>s \<in> set (itemsOf (je_spans trace)). \<exists>t \<in> set (itemsOf (js_tags s)). errorTag t)
    \<and> (\<exists>first \<in> set (itemsOf (je_spans trace)). tv_operationName v = textOr (js_operationName first) ''unknown''
        \<and> isoTime (spanStart first / 1000) = Some (tv_startedAt v)
        \<and> (\<forall>s \<in> set (itemsOf (je_spans trace)). spanStart first \<le> spanStart s
             \<and> roundMs ((spanEnd s - spanStart first) / 1000) \<le> tv_durationMs v))
    \<and> 0 \<le> tv_durationMs v"
proof -
  obtain s ss startedAt where t: "orText (je_traceID trace) None = Some (tv_traceId v)" and sp: "itemsOf (je_spans trace) = s # ss"
    and d: "isoTime (Min (set (map spanStart (s # ss))) / 1000) = Some startedAt"
    and v: "tv_operationName v = textOr (js_operationName (earliestSpan s ss)) ''unknown''" "tv_spanCount v = length (s # ss)"
      "tv_durationMs v = max 0 (roundMs ((Max (set (map spanEnd (s # ss))) - Min (set (map spanStart (s # ss)))) / 1000))"
      "tv_startedAt v = startedAt" "tv_degraded v = list_ex errorSpan (s # ss)"
    using assms by (auto simp: summarizeJaegerTrace_def Let_def split: option.split_asm list.split_asm)
  let ?f = "earliestSpan s ss"
  have f: "?f \<in> set (s # ss)" "\<And>x. x \<in> set (s # ss) \<Longrightarrow> spanStart ?f \<le> spanStart x"
    using earliest_span[of s ss] by blast+
  have min: "Min (set (map spanStart (s # ss))) = spanStart ?f"
    unfolding set_map using f by (intro Min_eqI) blast+
  have dur: "roundMs ((spanEnd x - spanStart ?f) / 1000) \<le> tv_durationMs v" if "x \<in> set (s # ss)" for x
  proof -
    have "spanEnd x \<le> Max (set (map spanEnd (s # ss)))" using that by (intro Max_ge) auto
    then have "(spanEnd x - spanStart ?f) / 1000 \<le> (Max (set (map spanEnd (s # ss))) - spanStart ?f) / 1000"
      by (simp add: divide_right_mono)
    from max_round[OF this] show ?thesis unfolding v(3) min .
  qed
  have "tv_degraded v = (\<exists>x \<in> set (s # ss). \<exists>t \<in> set (itemsOf (js_tags x)). errorTag t)"
    unfolding v(5) errorSpan_def list_ex_iff ..
  moreover have "0 \<le> tv_durationMs v" unfolding v(3) by simp
  moreover have "\<exists>first \<in> set (s # ss). tv_operationName v = textOr (js_operationName first) ''unknown''
      \<and> isoTime (spanStart first / 1000) = Some (tv_startedAt v)
      \<and> (\<forall>x \<in> set (s # ss). spanStart first \<le> spanStart x
           \<and> roundMs ((spanEnd x - spanStart first) / 1000) \<le> tv_durationMs v)"
  proof (rule bexI[OF _ f(1)], intro conjI ballI)
    show "isoTime (spanStart ?f / 1000) = Some (tv_startedAt v)" using d unfolding min v(4) .
  qed (fact v(1), erule f(2), erule dur)
  moreover have "0 < tv_spanCount v" unfolding v(2) by simp
  ultimately show ?thesis
    using t v(2) unfolding sp orText_truthy by (intro conjI) simp_all
qed

section \<open>Answers of the overview\<close>

record overviewEvent =
  oe_env :: componentEnv
  oe_files :: gatewayFiles
  oe_config :: json
  oe_force :: bool
  oe_now :: int
  oe_finished :: int

definition collected :: "overviewEvent \<Rightarrow> (contact list \<times> serverCall list) \<times> componentSnapshot" where
  "collected e = collectAll (oe_env e) (oe_files e) (oe_config e) (oe_finished e)"

fun serveOverview ::
    "overviewEvent list \<Rightarrow> overviewCache \<Rightarrow> ((contact list \<times> serverCall list) \<times> componentSnapshot) list \<times> overviewCache" where
  "serveOverview [] c = ([], c)"
| "serveOverview (e # es) c =
    (case getComponentData (oe_env e) (oe_files e) (oe_config e) (oe_force e) (oe_now e) (oe_finished e) c of
       (asked, v, c1) \<Rightarrow> (case serveOverview es c1 of (as, c2) \<Rightarrow> ((asked, v) # as, c2)))"

text \<open>The answer to \<open>e\<close> is the collection of \<open>e'\<close>: of \<open>e\<close> itself, or of an event within the last ten
  seconds unless a fresh one was asked for.\<close>

fun answeredBy ::
    "overviewEvent \<Rightarrow> overviewEvent \<Rightarrow> (contact list \<times> serverCall list) \<times> componentSnapshot \<Rightarrow> bool" where
  "answeredBy e' e (asked, v) \<longleftrightarrow> v = snd (collected e')
     \<and> (e' = e \<and> asked = fst (collected e)
        \<or> asked = ([], []) \<and> \<not> oe_force e \<and> oe_now e < oe_finished e' + CACHE_TTL_MS)"

definition cacheExplained :: "overviewEvent set \<Rightarrow> overviewCache \<Rightarrow> bool" where
  "cacheExplained H c \<longleftrightarrow> (case c of None \<Rightarrow> True
     | Some (x, v) \<Rightarrow> \<exists>e \<in> H. v = snd (collected e) \<and> x = oe_finished e + CACHE_TTL_MS)"

lemma overview_step:
  assumes "cacheExplained H c"
    "getComponentData (oe_env e) (oe_files e) (oe_config e) (oe_force e) (oe_now e) (oe_finished e) c = (asked, v, c1)"
  shows "cacheExplained (insert e H) c1 \<and> (\<exists>e' \<in> insert e H. answeredBy e' e (asked, v))"
proof (cases "\<exists>x w. c = Some (x, w) \<and> \<not> oe_force e \<and> oe_now e < x")
  case True
  then obtain x w where c: "c = Some (x, w)" "\<not> oe_force e" "oe_now e < x" by blast
  with assms(1) obtain e' where e: "e' \<in> H" "w = snd (collected e')" "x = oe_finished e' + CACHE_TTL_MS"
    by (auto simp: cacheExplained_def)
  from c assms(2) have "asked = ([], []) \<and> v = w \<and> c1 = c" by (auto simp: getComponentData_def Let_def)
  with c e assms(1) show ?thesis by (auto simp: cacheExplained_def)
next
  case False
  with assms(2) have "asked = fst (collected e)" "v = snd (collected e)" "c1 = Some (oe_finished e + CACHE_TTL_MS, v)"
    by (auto simp: getComponentData_def Let_def collected_def split: option.split_asm if_split_asm)
  then have "answeredBy e e (asked, v)" "cacheExplained (insert e H) c1"
    by (simp_all only: answeredBy.simps simp_thms) (simp add: cacheExplained_def)
  then show ?thesis by blast
qed

lemma overview_answers:
  assumes "cacheExplained H c" "serveOverview es c = (as, c')" "i < length es"
  shows "\<exists>e' \<in> H \<union> set (take (Suc i) es). answeredBy e' (es ! i) (as ! i)"
  using assms
proof (induction es arbitrary: H c as i)
  case (Cons e es)
  obtain asked v c1 as' where step: "getComponentData (oe_env e) (oe_files e) (oe_config e) (oe_force e) (oe_now e)
      (oe_finished e) c = (asked, v, c1)" and rest: "serveOverview es c1 = (as', c')" and as: "as = (asked, v) # as'"
    using Cons.prems(2) by (auto split: prod.split_asm)
  note s = overview_step[OF Cons.prems(1) step]
  show ?case
  proof (cases i)
    case 0
    with s as show ?thesis by auto
  next
    case (Suc j)
    with Cons.IH[OF conjunct1[OF s] rest, of j] Cons.prems(3) as show ?thesis by auto
  qed
qed simp

text \<open>A token goes to its own component only.\<close>

definition tokenOwner :: "componentEnv \<Rightarrow> string \<Rightarrow> string \<Rightarrow> bool" where
  "tokenOwner env url token \<longleftrightarrow>
     (ce_environment env ''OPEN_CONNECTOR_RUNTIME_TOKEN'' = Some token \<and> url \<in> set (map ((@) (connectorBase env)) connectorLists))
     \<or> (ce_environment env ''OPEN_CONNECTOR_ADMIN_TOKEN'' = Some token
        \<and> url \<in> {connectorBase env @ ''/api/connections'', connectorBase env @ ''/api/runs''})
     \<or> (ce_environment env ''MCP_ADMIN_TOKEN'' = Some token
        \<and> url = mcpGatewayBase env @ ''/internal/v1/authentication/mcp-clients'')"

lemma bearer_Some: "bearer v = Some t \<longleftrightarrow> v = Some t \<and> t \<noteq> []" "Some t = bearer v \<longleftrightarrow> v = Some t \<and> t \<noteq> []"
  by (auto simp: bearer_def orText_truthy dest: sym)

lemma connector_tokens:
  "ServerCall url (Some t) \<in> set (fst (collectConnector env)) \<Longrightarrow> tokenOwner env url t"
  by (auto simp: collectConnector_def Let_def tokenOwner_def bearer_Some
      split: sum.split_asm option.split_asm prod.split_asm)

lemma collected_tokens:
  assumes "ServerCall url (Some t) \<in> set (snd (fst (collectAll env fs config now)))"
  shows "tokenOwner env url t"
proof -
  have "ServerCall url (Some t) \<in> set (fst (collectConnector env)) \<or> ServerCall url (Some t) \<in> set (fst (collectAuthentication env))"
    using assms by (auto simp: collectAll_def Let_def collectRuntime_def collectKnowledge_def collectTracing_def collectEvaluation_def)
  then show ?thesis
    using connector_tokens by (auto simp: collectAuthentication_def Let_def tokenOwner_def bearer_Some)
qed

lemma collected_errors:
  "cp_errors (snd (collectAll env fs config now)) = [] \<longleftrightarrow> is_ok (snd (collectRuntime env)) \<and> is_ok (collectLlmGateway fs)
    \<and> is_ok (snd (collectConnector env)) \<and> is_ok (snd (collectKnowledge env)) \<and> is_ok (snd (collectTracing env))
    \<and> is_ok (snd (collectAuthentication env))"
  by (auto simp: collectAll_def Let_def safe_def split: sum.split)

text \<open>C36: Whatever the components answer and however often the overview is asked for: every answer is one
  complete collection, made for this request or, unless a fresh one was asked for, less than ten
  seconds before it; the requests that carry a token go to the component the token belongs to; and
  an answer reports no error exactly when every collector of its collection succeeded.\<close>

theorem overview_answers_sound:
  assumes "serveOverview es None = (answers, cache)" "i < length es"
  shows "\<exists>e \<in> set (take (Suc i) es). answeredBy e (es ! i) (answers ! i)
    \<and> (\<forall>url token. ServerCall url (Some token) \<in> set (snd (fst (answers ! i))) \<longrightarrow> tokenOwner (oe_env (es ! i)) url token)
    \<and> (cp_errors (snd (answers ! i)) = []) = (is_ok (snd (collectRuntime (oe_env e))) \<and> is_ok (collectLlmGateway (oe_files e))
        \<and> is_ok (snd (collectConnector (oe_env e))) \<and> is_ok (snd (collectKnowledge (oe_env e)))
        \<and> is_ok (snd (collectTracing (oe_env e))) \<and> is_ok (snd (collectAuthentication (oe_env e))))"
proof -
  obtain e where e: "e \<in> set (take (Suc i) es)" "answeredBy e (es ! i) (answers ! i)"
    using overview_answers[of "{}" None es answers cache i] assms by (auto simp: cacheExplained_def)
  obtain asked v where a: "answers ! i = (asked, v)" by fastforce
  with e(2) have v: "v = snd (collected e)" and asked: "asked = fst (collected (es ! i)) \<or> asked = ([], [])" by auto
  have "tokenOwner (oe_env (es ! i)) url token" if "ServerCall url (Some token) \<in> set (snd asked)" for url token
    using asked that collected_tokens by (auto simp: collected_def)
  with e a show ?thesis
    by (intro bexI[OF _ e(1)]) (simp add: v collected_def collected_errors)
qed

definition demo_jaeger_span :: jaegerSpan where
  "demo_jaeger_span = \<lparr>js_operationName = Some ''run'', js_processID = Some ''p1'', js_startTime = Some 5000, js_duration = Some 3000,
     js_tags = Some [\<lparr>jt_key = Some ''http.status_code'', jt_value = JNum (Fin 502)\<rparr>]\<rparr>"

definition demo_jaeger_trace :: jaegerTrace where
  "demo_jaeger_trace = \<lparr>je_traceID = Some ''t1'', je_spans = Some [demo_jaeger_span\<lparr>js_startTime := Some 7000\<rparr>, demo_jaeger_span],
     je_processes = Some [(''p1'', Some ''runtime'')]\<rparr>"

definition demo_component_env :: componentEnv where
  "demo_component_env = \<lparr>ce_environment = (\<lambda>k. if k = ''MCP_ADMIN_TOKEN'' then Some ''secret'' else None),
     ce_services = demo_service_env, ce_ready = (\<lambda>u t. Inl ''offline''), ce_agents = (\<lambda>u t. Inr None), ce_events = (\<lambda>u t. Inr None),
     ce_listing = (\<lambda>u t. Inr None), ce_connections = (\<lambda>u t. Inr []), ce_runs = (\<lambda>u t. Inr None),
     ce_ragHealth = (\<lambda>u t. Inr False),
     ce_documents = (\<lambda>u t. Inr \<lparr>dp_documents = None, dp_total_count = None, dp_status_counts = None\<rparr>),
     ce_jaegerServices = (\<lambda>u t. Inr (None, None)), ce_jaegerTraces = (\<lambda>u t. Inr (Some [demo_jaeger_trace])),
     ce_clients = (\<lambda>u t. Inr \<lparr>lp_retentionSeconds = None, lp_activeWindowSeconds = None, lp_clients = None\<rparr>),
     ce_promptfoo = (\<lambda>u t. Inl ''offline''), ce_encode = (\<lambda>s. s), ce_newer = (\<lambda>a b. b \<le> a)\<rparr>"

definition demo_event :: overviewEvent where
  "demo_event = \<lparr>oe_env = demo_component_env, oe_files = empty_files, oe_config = JObj [], oe_force = False,
     oe_now = 1000, oe_finished = 1200\<rparr>"

definition demo_events :: "overviewEvent list" where
  "demo_events = [demo_event, demo_event\<lparr>oe_now := 11000, oe_finished := 11100\<rparr>, demo_event\<lparr>oe_now := 11300, oe_finished := 11400\<rparr>]"

theorem overview_answers_sound_witness:
  "\<exists>e \<in> set demo_events. answeredBy e (demo_events ! 2) (fst (serveOverview demo_events None) ! 2)"
proof -
  obtain answers cache where r: "serveOverview demo_events None = (answers, cache)" by fastforce
  have l: "2 < length demo_events" by (simp add: demo_events_def)
  from overview_answers_sound[OF r l] obtain e where "e \<in> set (take (Suc 2) demo_events)"
    "answeredBy e (demo_events ! 2) (answers ! 2)" by blast
  then show ?thesis unfolding r fst_conv by (meson in_set_takeD)
qed
end
