(* ===== verification/Account_Page.thy ===== *)
theory Account_Page
  imports Employee_Views Latest_Request
begin

text \<open>
  The page of an employee's connections (components/account-integration-manager.tsx): what it shows
  of the snapshot, the dialog that creates a personal bot with its numbered requests and its timer,
  and the check that waits for an authorization window. Drawing, texts and focus are left out; the
  answers of the server, the clicks and the clock are events.
\<close>

section \<open>What the page shows\<close>

datatype linkTone = LinkSuccess | LinkError

definition wecomLinkResultMessages :: "(string \<times> linkTone) list" where
  "wecomLinkResultMessages = [(''linked'', LinkSuccess), (''expired'', LinkError), (''conflict'', LinkError),
     (''invalid'', LinkError), (''denied'', LinkError), (''failed'', LinkError)]"

definition wecomLinkResultMessage :: "string option \<Rightarrow> linkTone option" where
  "wecomLinkResultMessage v = (case v of None \<Rightarrow> None | Some r \<Rightarrow> if r = [] then None else map_of wecomLinkResultMessages r)"

datatype bindingLabel = BoundLabel | PendingLabel | FaultLabel | UnboundLabel

definition bindingPresentation :: "employeeBinding option \<Rightarrow> bindingLabel" where
  "bindingPresentation b = (case b of None \<Rightarrow> UnboundLabel
     | Some v \<Rightarrow> (case eb_status v of Connected \<Rightarrow> BoundLabel | Pending \<Rightarrow> PendingLabel | Errored \<Rightarrow> FaultLabel | Revoked \<Rightarrow> UnboundLabel))"

definition wecomIntegrationPrefix :: string where "wecomIntegrationPrefix = ''wecom:''"

definition wecomOrganizationIntegrationId :: "string \<Rightarrow> string" where
  "wecomOrganizationIntegrationId i = wecomIntegrationPrefix @ i"

definition wecomOrganizationForIntegration :: "employeeSnapshot \<Rightarrow> string \<Rightarrow> employeeOrganization option" where
  "wecomOrganizationForIntegration snapshot i =
    (if \<not> starts_with i wecomIntegrationPrefix then None
     else find (\<lambda>g. eo_id g = drop (length wecomIntegrationPrefix) i) (es_organizations snapshot))"

datatype organizationLabel = StoppedLabel | UnavailableLabel | LinkedLabel | UnlinkedLabel

definition wecomOrganizationBindingPresentation :: "bool \<Rightarrow> bool \<Rightarrow> bool \<Rightarrow> organizationLabel" where
  "wecomOrganizationBindingPresentation active configured linked =
    (if \<not> active then StoppedLabel else if \<not> configured then UnavailableLabel
     else if linked then LinkedLabel else UnlinkedLabel)"

datatype accessLabel = PersonalAccess | VisibilityAccess | SharedAccess

definition connectionAccessLabel :: "availableConnection \<Rightarrow> accessLabel" where
  "connectionAccessLabel c = (if vc_accessMode c = AccountBound then PersonalAccess
     else if VisibilitySource \<in> set (vc_sources c) then VisibilityAccess else SharedAccess)"

definition isDisconnectablePersonalWeComBot :: "availableConnection \<Rightarrow> bool" where
  "isDisconnectablePersonalWeComBot c \<longleftrightarrow>
     vc_service c = ''wecom_bot'' \<and> vc_accessMode c = AccountBound \<and> PersonalSource \<in> set (vc_sources c)"

text \<open>The line above the title: a number among several bots, or the name of the service.\<close>

datatype eyebrow = BotNumber nat nat | ServiceName string

definition connectionDetailPresentation :: "availableConnection \<Rightarrow> nat \<Rightarrow> nat \<Rightarrow> string option \<Rightarrow> eyebrow \<times> string" where
  "connectionDetailPresentation c index amount i =
    (if (case i of None \<Rightarrow> False | Some t \<Rightarrow> starts_with t wecomIntegrationPrefix) \<and> vc_service c = ''wecom_bot'' \<and> 1 < amount
     then BotNumber (index + 1) amount else ServiceName (vc_serviceDisplayName c), vc_displayName c)"

definition organizationLinked :: "employeeSnapshot \<Rightarrow> string \<Rightarrow> bool" where
  "organizationLinked snapshot g \<longleftrightarrow> list_ex (\<lambda>(i, organization, name, linkedAt). organization = g) (es_identities snapshot)"

definition connectionsForIntegration :: "employeeSnapshot \<Rightarrow> string \<Rightarrow> availableConnection list" where
  "connectionsForIntegration snapshot i =
    (case wecomOrganizationForIntegration snapshot i of
       Some g \<Rightarrow> if \<not> organizationLinked snapshot (eo_id g) then []
         else filter (\<lambda>c. vc_service c = ''wecom_bot''
           \<and> (case vc_organizations c of None \<Rightarrow> True | Some gs \<Rightarrow> gs = [] \<or> eo_id g \<in> set gs)) (es_available snapshot)
     | None \<Rightarrow> (case bindE (case find (\<lambda>a. em_id a = i) (es_applications snapshot) of None \<Rightarrow> Inl () | Some a \<Rightarrow> Inr a)
           (\<lambda>a. case em_binding a of None \<Rightarrow> Inl () | Some b \<Rightarrow> Inr b) of
         Inl u \<Rightarrow> []
       | Inr b \<Rightarrow> if eb_status b \<noteq> Connected then []
           else filter (\<lambda>c. vc_service c = eb_service b \<and> vc_connectionName c = eb_connectionName b) (es_available snapshot)))"

section \<open>The dialog of a new bot\<close>

datatype dialogView = Starting | Waiting string | Failed

text \<open>A timer has a handle, the request it will ask about and the number of its dialog; the page holds
  the handle of the last one it set. Requests under way carry the number they were sent with.\<close>

record botDialog =
  bd_generation :: nat
  bd_view :: "dialogView option"
  bd_timers :: "(nat \<times> string \<times> nat) list"
  bd_handle :: "nat option"
  bd_next :: nat
  bd_starts :: "nat list"
  bd_polls :: "(string \<times> nat) list"
  bd_mounted :: bool

definition stopWeComBotPolling :: "botDialog \<Rightarrow> botDialog" where
  "stopWeComBotPolling s = s\<lparr>bd_timers := filter (\<lambda>(h, r, g). Some h \<noteq> bd_handle s) (bd_timers s), bd_handle := None\<rparr>"

definition setPollTimer :: "string \<Rightarrow> nat \<Rightarrow> botDialog \<Rightarrow> botDialog" where
  "setPollTimer r g s = s\<lparr>bd_timers := (bd_next s, r, g) # bd_timers s, bd_handle := Some (bd_next s), bd_next := Suc (bd_next s)\<rparr>"

definition closeWeComBotAuthorization :: "botDialog \<Rightarrow> botDialog" where
  "closeWeComBotAuthorization s = (stopWeComBotPolling s)\<lparr>bd_generation := Suc (bd_generation s), bd_view := None\<rparr>"

definition pollWeComBotAuthorization :: "string \<Rightarrow> nat \<Rightarrow> botDialog \<Rightarrow> botDialog" where
  "pollWeComBotAuthorization r g s = setPollTimer r g (stopWeComBotPolling s)"

definition startWeComBotAuthorization :: "botDialog \<Rightarrow> botDialog" where
  "startWeComBotAuthorization s = (stopWeComBotPolling s)\<lparr>bd_generation := Suc (bd_generation s),
     bd_view := Some Starting, bd_starts := Suc (bd_generation s) # bd_starts s\<rparr>"

text \<open>The button works for a configured organization the employee is linked to, unless a start is under way.\<close>

definition startAllowed :: "employeeOrganization \<Rightarrow> bool \<Rightarrow> botDialog \<Rightarrow> bool" where
  "startAllowed g linked s \<longleftrightarrow> bd_mounted s \<and> eo_active g \<and> eo_configured g \<and> linked \<and> bd_view s \<noteq> Some Starting"

definition currentAnswer :: "nat \<Rightarrow> botDialog \<Rightarrow> bool" where
  "currentAnswer g s \<longleftrightarrow> bd_mounted s \<and> bd_generation s = g"

text \<open>The answers: a session for a start, and the state of the authorization for a question about it.\<close>

datatype sessionAnswer = SessionOk string | SessionFailed

definition sessionAnswered :: "nat \<Rightarrow> sessionAnswer \<Rightarrow> botDialog \<Rightarrow> botDialog" where
  "sessionAnswered g a s = (if \<not> currentAnswer g s then s
     else case a of SessionOk r \<Rightarrow> pollWeComBotAuthorization r g (s\<lparr>bd_view := Some (Waiting r)\<rparr>)
       | SessionFailed \<Rightarrow> s\<lparr>bd_view := Some Failed\<rparr>)"

datatype pollAnswer = PollConnected | PollPending | PollFailed

definition pollAnswered :: "string \<Rightarrow> nat \<Rightarrow> pollAnswer \<Rightarrow> botDialog \<Rightarrow> botDialog" where
  "pollAnswered r g a s = (case a of
     PollConnected \<Rightarrow> if currentAnswer g s then closeWeComBotAuthorization s else s
   | PollPending \<Rightarrow> if currentAnswer g s then setPollTimer r g s else s
   | PollFailed \<Rightarrow> (let s1 = stopWeComBotPolling s in if currentAnswer g s then s1\<lparr>bd_view := Some Failed\<rparr> else s1))"

definition unmountPage :: "botDialog \<Rightarrow> botDialog" where
  "unmountPage s = (stopWeComBotPolling s)\<lparr>bd_mounted := False\<rparr>"

datatype dialogEvent = ClickStart | AnswerSession nat | FireTimer | AnswerPoll nat pollAnswer | ClickClose | Unmount

inductive dialog_step :: "botDialog \<Rightarrow> dialogEvent \<Rightarrow> botDialog \<Rightarrow> bool" where
  start: "startAllowed g linked s \<Longrightarrow> dialog_step s ClickStart (startWeComBotAuthorization s)"
| session: "g \<in> set (bd_starts s) \<Longrightarrow>
    dialog_step s (AnswerSession g) (sessionAnswered g a (s\<lparr>bd_starts := removeAll g (bd_starts s)\<rparr>))"
| fire: "(h, r, g) \<in> set (bd_timers s) \<Longrightarrow>
    dialog_step s FireTimer (s\<lparr>bd_timers := filter (\<lambda>t. fst t \<noteq> h) (bd_timers s), bd_polls := (r, g) # bd_polls s\<rparr>)"
| poll: "(r, g) \<in> set (bd_polls s) \<Longrightarrow>
    dialog_step s (AnswerPoll g a) (pollAnswered r g a (s\<lparr>bd_polls := remove1 (r, g) (bd_polls s)\<rparr>))"
| closing: "bd_mounted s \<Longrightarrow> dialog_step s ClickClose (closeWeComBotAuthorization s)"
| unmount: "dialog_step s Unmount (unmountPage s)"

definition newPage :: botDialog where
  "newPage = \<lparr>bd_generation = 0, bd_view = None, bd_timers = [], bd_handle = None, bd_next = 0, bd_starts = [],
     bd_polls = [], bd_mounted = True\<rparr>"

text \<open>A run, and whether a question of an earlier dialog failed in it.\<close>

inductive dialog_run :: "botDialog \<Rightarrow> bool \<Rightarrow> bool" where
  opened: "dialog_run newPage False"
| further: "dialog_run s late \<Longrightarrow> dialog_step s e s' \<Longrightarrow>
    dialog_run s' (late \<or> (\<exists>g. e = AnswerPoll g PollFailed \<and> g \<noteq> bd_generation s))"

section \<open>Waiting for an authorization window\<close>

definition maxPollingAttempts :: nat where "maxPollingAttempts = 200"

datatype bindingRead = BindingConnected | BindingError | BindingWaiting bool | ReadFailed

datatype pollOutcome = AccountConnected | BindingFailed | WindowClosed | TimedOut | CheckFailed

text \<open>One pass per tick that is not skipped, with what it reads; BindingWaiting says whether the window
  is closed. The result is the outcome with the number of passes, or None while it goes on.\<close>

fun pollBinding :: "nat \<Rightarrow> nat \<Rightarrow> bindingRead list \<Rightarrow> (pollOutcome \<times> nat) option" where
  "pollBinding n shut [] = None"
| "pollBinding n shut (r # rs) = (let tick = Suc n in case r of
     BindingConnected \<Rightarrow> Some (AccountConnected, tick)
   | BindingError \<Rightarrow> Some (BindingFailed, tick)
   | BindingWaiting popupClosed \<Rightarrow> (let shut1 = (if popupClosed then Suc shut else 0) in
       if maxPollingAttempts \<le> tick \<or> 2 \<le> shut1
       then Some (if popupClosed then WindowClosed else TimedOut, tick) else pollBinding tick shut1 rs)
   | ReadFailed \<Rightarrow> if maxPollingAttempts \<le> tick then Some (CheckFailed, tick) else pollBinding tick shut rs)"

section \<open>The dialog stays coherent\<close>

definition currentPolls :: "botDialog \<Rightarrow> (string \<times> nat) list" where
  "currentPolls s = filter (\<lambda>p. snd p = bd_generation s) (bd_polls s)"

definition timers_ok :: "botDialog \<Rightarrow> bool" where
  "timers_ok s \<longleftrightarrow> bd_timers s = [] \<or> (\<exists>h r. bd_timers s = [(h, r, bd_generation s)] \<and> bd_handle s = Some h
     \<and> bd_mounted s \<and> bd_view s = Some (Waiting r) \<and> currentPolls s = [])"

definition polls_ok :: "botDialog \<Rightarrow> bool" where
  "polls_ok s \<longleftrightarrow> currentPolls s = [] \<or> (\<exists>r. currentPolls s = [(r, bd_generation s)]
     \<and> (bd_mounted s \<longrightarrow> bd_view s = Some (Waiting r)))"

definition numbers_ok :: "botDialog \<Rightarrow> bool" where
  "numbers_ok s \<longleftrightarrow> (\<forall>g \<in> set (bd_starts s). g \<le> bd_generation s) \<and> (\<forall>p \<in> set (bd_polls s). snd p \<le> bd_generation s)
     \<and> (bd_mounted s \<longrightarrow> (bd_generation s \<in> set (bd_starts s)) = (bd_view s = Some Starting))"

definition asks_on :: "botDialog \<Rightarrow> bool" where
  "asks_on s \<longleftrightarrow> (\<forall>r. bd_mounted s \<and> bd_view s = Some (Waiting r) \<longrightarrow> bd_timers s \<noteq> [] \<or> currentPolls s = [(r, bd_generation s)])"

definition dialog_ok :: "botDialog \<Rightarrow> bool" where
  "dialog_ok s \<longleftrightarrow> timers_ok s \<and> polls_ok s \<and> numbers_ok s"

lemmas dialog_defs = dialog_ok_def timers_ok_def polls_ok_def numbers_ok_def asks_on_def currentPolls_def

lemma stop_clears: "timers_ok s \<Longrightarrow> bd_timers (stopWeComBotPolling s) = []"
  by (auto simp: timers_ok_def stopWeComBotPolling_def)

lemma stop_simps [simp]:
  "bd_generation (stopWeComBotPolling s) = bd_generation s" "bd_view (stopWeComBotPolling s) = bd_view s"
  "bd_starts (stopWeComBotPolling s) = bd_starts s" "bd_polls (stopWeComBotPolling s) = bd_polls s"
  "bd_mounted (stopWeComBotPolling s) = bd_mounted s" "bd_next (stopWeComBotPolling s) = bd_next s"
  by (simp_all add: stopWeComBotPolling_def)

lemma older_polls: "\<forall>p \<in> set (bd_polls s). snd p \<le> g \<Longrightarrow> filter (\<lambda>p. snd p = Suc g) (bd_polls s) = []"
  by (auto simp: filter_empty_conv)

lemma close_ok:
  assumes "dialog_ok s"
  shows "dialog_ok (closeWeComBotAuthorization s) \<and> asks_on (closeWeComBotAuthorization s)"
  using assms stop_clears[of s]
  by (auto simp: dialog_defs closeWeComBotAuthorization_def older_polls Suc_n_not_le_n intro: le_SucI)

lemma start_ok:
  assumes "dialog_ok s"
  shows "dialog_ok (startWeComBotAuthorization s) \<and> asks_on (startWeComBotAuthorization s)"
  using assms stop_clears[of s]
  by (auto simp: dialog_defs startWeComBotAuthorization_def older_polls intro: le_SucI)

lemma unmount_ok:
  assumes "dialog_ok s"
  shows "dialog_ok (unmountPage s) \<and> asks_on (unmountPage s)"
  using assms stop_clears[of s] by (auto simp: dialog_defs unmountPage_def)

lemma session_ok:
  assumes "dialog_ok s" "g \<in> set (bd_starts s)"
  shows "dialog_ok (sessionAnswered g a (s\<lparr>bd_starts := removeAll g (bd_starts s)\<rparr>))
    \<and> (asks_on s \<longrightarrow> asks_on (sessionAnswered g a (s\<lparr>bd_starts := removeAll g (bd_starts s)\<rparr>)))"
proof (cases "currentAnswer g s")
  case True
  then have v: "bd_view s = Some Starting" "bd_mounted s" "g = bd_generation s"
    using assms by (auto simp: currentAnswer_def dialog_ok_def numbers_ok_def)
  with assms have t: "bd_timers s = []" "currentPolls s = []" by (auto simp: dialog_ok_def timers_ok_def polls_ok_def)
  show ?thesis
    using assms v t True
    by (cases a) (auto simp: sessionAnswered_def currentAnswer_def pollWeComBotAuthorization_def setPollTimer_def
        stopWeComBotPolling_def dialog_defs)
next
  case False
  then have "\<not> currentAnswer g (s\<lparr>bd_starts := removeAll g (bd_starts s)\<rparr>)" by (simp add: currentAnswer_def)
  moreover have "g \<noteq> bd_generation s \<or> \<not> bd_mounted s" using False by (auto simp: currentAnswer_def)
  ultimately show ?thesis using assms by (auto simp: sessionAnswered_def dialog_defs)
qed

lemma fire_ok:
  assumes "dialog_ok s" "(h, r, g) \<in> set (bd_timers s)"
  shows "dialog_ok (s\<lparr>bd_timers := filter (\<lambda>t. fst t \<noteq> h) (bd_timers s), bd_polls := (r, g) # bd_polls s\<rparr>)
    \<and> asks_on (s\<lparr>bd_timers := filter (\<lambda>t. fst t \<noteq> h) (bd_timers s), bd_polls := (r, g) # bd_polls s\<rparr>)"
  using assms by (auto simp: dialog_defs)

lemma filter_remove1: "filter P (remove1 x xs) = (if P x then remove1 x (filter P xs) else filter P xs)"
  by (induction xs) auto

lemma remove_current_poll:
  assumes "dialog_ok s" "(r, g) \<in> set (bd_polls s)" "s' = s\<lparr>bd_polls := remove1 (r, g) (bd_polls s)\<rparr>"
  shows "dialog_ok s'" "currentPolls s' = (if g = bd_generation s then [] else currentPolls s)"
    "g = bd_generation s \<Longrightarrow> bd_timers s = [] \<and> currentPolls s = [(r, g)] \<and> (bd_mounted s \<longrightarrow> bd_view s = Some (Waiting r))"
proof -
  have mem: "g = bd_generation s \<Longrightarrow> (r, g) \<in> set (currentPolls s)" using assms(2) by (simp add: currentPolls_def)
  then show now: "g = bd_generation s \<Longrightarrow> bd_timers s = [] \<and> currentPolls s = [(r, g)] \<and> (bd_mounted s \<longrightarrow> bd_view s = Some (Waiting r))"
    using assms(1) by (auto simp: dialog_ok_def timers_ok_def polls_ok_def)
  show cur: "currentPolls s' = (if g = bd_generation s then [] else currentPolls s)"
    using now by (auto simp: currentPolls_def assms(3) filter_remove1)
  have "numbers_ok s'"
    using assms(1) set_remove1_subset[of "(r, g)" "bd_polls s"] by (auto simp: dialog_ok_def numbers_ok_def assms(3))
  with cur now assms(1) show "dialog_ok s'"
    by (auto simp: dialog_ok_def timers_ok_def polls_ok_def assms(3) split: if_split_asm)
qed

lemma poll_ok:
  assumes "dialog_ok s" "(r, g) \<in> set (bd_polls s)" "s' = pollAnswered r g a (s\<lparr>bd_polls := remove1 (r, g) (bd_polls s)\<rparr>)"
  shows "dialog_ok s' \<and> (asks_on s \<and> \<not> (a = PollFailed \<and> g \<noteq> bd_generation s) \<longrightarrow> asks_on s')"
proof -
  define s1 where "s1 = s\<lparr>bd_polls := remove1 (r, g) (bd_polls s)\<rparr>"
  note rest = remove_current_poll[OF assms(1,2) s1_def]
  have same: "bd_generation s1 = bd_generation s" "bd_view s1 = bd_view s" "bd_mounted s1 = bd_mounted s" "bd_timers s1 = bd_timers s"
    by (simp_all add: s1_def)
  show ?thesis
  proof (cases "g = bd_generation s \<and> bd_mounted s")
    case True
    then have cur: "currentAnswer g s1" "bd_timers s1 = []" "currentPolls s1 = []" "bd_view s1 = Some (Waiting r)" "g = bd_generation s1" "bd_mounted s1"
      using rest(2,3) same by (simp_all add: currentAnswer_def)
    have starts: "g \<notin> set (bd_starts s1)" using rest(1) cur by (auto simp: dialog_ok_def numbers_ok_def)
    show ?thesis
    proof (cases a)
      case PollConnected
      with close_ok[OF rest(1)] cur(1) show ?thesis by (simp add: assms(3) pollAnswered_def s1_def)
    next
      case PollPending
      then have "s' = setPollTimer r g s1" using cur(1) by (simp add: assms(3) pollAnswered_def s1_def)
      with rest(1) cur starts show ?thesis by (auto simp: setPollTimer_def dialog_defs)
    next
      case PollFailed
      then have "s' = (stopWeComBotPolling s1)\<lparr>bd_view := Some Failed\<rparr>"
        using cur(1) by (simp add: assms(3) pollAnswered_def s1_def Let_def)
      with rest(1) cur starts show ?thesis by (auto simp: stopWeComBotPolling_def dialog_defs)
    qed
  next
    case False
    then have late: "\<not> currentAnswer g s1" "s' = (if a = PollFailed then stopWeComBotPolling s1 else s1)"
      using same by (auto simp: currentAnswer_def assms(3) pollAnswered_def s1_def Let_def split: pollAnswer.split)
    have stopped: "dialog_ok (stopWeComBotPolling s1)"
      using rest(1) stop_clears[of s1] by (auto simp: dialog_defs)
    have "asks_on s1" if "asks_on s"
    proof (cases "bd_mounted s")
      case True
      with False have "g \<noteq> bd_generation s" by simp
      with that rest(2) same show ?thesis by (simp add: asks_on_def)
    qed (simp add: asks_on_def same)
    moreover have "asks_on (stopWeComBotPolling s1)" if "g = bd_generation s"
      using that False same by (simp add: asks_on_def)
    ultimately show ?thesis using rest(1) stopped late(2) by auto
  qed
qed

lemma dialog_invariant: "dialog_run s late \<Longrightarrow> dialog_ok s \<and> (late \<or> asks_on s)"
proof (induction rule: dialog_run.induct)
  case opened
  then show ?case by (auto simp: newPage_def dialog_defs)
next
  case (further s late e s')
  from further.hyps(2) further.IH show ?case
  proof (cases rule: dialog_step.cases)
    case (start g linked)
    with start_ok further.IH show ?thesis by blast
  next
    case (session g a)
    with session_ok further.IH show ?thesis by blast
  next
    case (fire h r g)
    with fire_ok further.IH show ?thesis by blast
  next
    case (poll r g a)
    with poll_ok[OF _ poll(3) poll(2)] further.IH show ?thesis by auto
  next
    case closing
    with close_ok further.IH show ?thesis by blast
  next
    case unmount
    with unmount_ok further.IH show ?thesis by blast
  qed
qed

text \<open>The answers to starts and to questions both keep to the contract of numbered requests.\<close>

lemma late_answers [simp]:
  "g \<noteq> bd_generation s \<Longrightarrow> sessionAnswered g a s = s"
  "g \<noteq> bd_generation s \<Longrightarrow> bd_view (pollAnswered r g b s) = bd_view s"
  "g \<noteq> bd_generation s \<Longrightarrow> bd_generation (pollAnswered r g b s) = bd_generation s"
  by (auto simp: sessionAnswered_def pollAnswered_def currentAnswer_def Let_def split: pollAnswer.split)

interpretation sessions: latest_request bd_generation bd_view "\<lambda>_::unit. startWeComBotAuthorization" sessionAnswered
  by unfold_locales (auto simp: startWeComBotAuthorization_def sessionAnswered_def pollWeComBotAuthorization_def setPollTimer_def
      currentAnswer_def split: sessionAnswer.split)

interpretation questions: latest_request bd_generation bd_view "\<lambda>_::unit. startWeComBotAuthorization"
    "\<lambda>g (r, a). pollAnswered r g a"
  by unfold_locales (auto simp: startWeComBotAuthorization_def pollAnswered_def setPollTimer_def closeWeComBotAuthorization_def
      currentAnswer_def Let_def split: pollAnswer.split)

text \<open>C15: The dialog of a new bot is coherent after any sequence of clicks, timers and answers, however late:
  at most one timer runs, it is the one the page can stop, and it belongs to the request the dialog
  shows; at most one question about that request is under way, and never beside the timer; while
  the dialog waits one of the two exists, unless a question of an earlier dialog failed; and no
  number of answers to earlier questions changes what a newly started dialog shows.\<close>

theorem bot_dialog_coherent:
  assumes "dialog_run s late"
  shows "length (bd_timers s) \<le> 1 \<and> length (currentPolls s) \<le> 1 \<and> (bd_timers s \<noteq> [] \<longrightarrow> currentPolls s = [])
    \<and> (\<forall>(h, r, g) \<in> set (bd_timers s). bd_handle s = Some h \<and> g = bd_generation s \<and> bd_view s = Some (Waiting r))
    \<and> (\<forall>r. bd_mounted s \<and> bd_view s = Some (Waiting r) \<and> \<not> late \<longrightarrow>
         bd_timers s \<noteq> [] \<or> (r, bd_generation s) \<in> set (bd_polls s))
    \<and> bd_view (questions.answers (map (\<lambda>(r, g). (g, r, f (r, g))) (bd_polls s)) (startWeComBotAuthorization s)) = Some Starting"
proof -
  have ok: "dialog_ok s" "late \<or> asks_on s" using dialog_invariant[OF assms] by blast+
  have "\<forall>(n, a) \<in> set (map (\<lambda>(r, g). (g, r, f (r, g))) (bd_polls s)). n \<le> bd_generation s"
    using ok(1) by (auto simp: dialog_ok_def numbers_ok_def)
  from questions.superseded[OF this] have "bd_view (questions.answers (map (\<lambda>(r, g). (g, r, f (r, g))) (bd_polls s))
      (startWeComBotAuthorization s)) = Some Starting"
    by (simp add: startWeComBotAuthorization_def)
  moreover have "\<forall>r. bd_mounted s \<and> bd_view s = Some (Waiting r) \<and> \<not> late \<longrightarrow>
      bd_timers s \<noteq> [] \<or> (r, bd_generation s) \<in> set (bd_polls s)"
    using ok(2) by (auto simp: asks_on_def currentPolls_def filter_eq_Cons_iff)
  moreover have "length (bd_timers s) \<le> 1" "length (currentPolls s) \<le> 1" "bd_timers s \<noteq> [] \<longrightarrow> currentPolls s = []"
    "\<forall>(h, r, g) \<in> set (bd_timers s). bd_handle s = Some h \<and> g = bd_generation s \<and> bd_view s = Some (Waiting r)"
    using ok(1) by (auto simp: dialog_ok_def timers_ok_def polls_ok_def)
  ultimately show ?thesis by blast
qed

definition demo_organization :: employeeOrganization where
  "demo_organization = \<lparr>eo_id = ''o1'', eo_name = ''O'', eo_active = True, eo_configured = True\<rparr>"

text \<open>The dialog opened twice: a question of the first dialog is still under way while the second waits.\<close>

definition firstWaiting :: botDialog where
  "firstWaiting = sessionAnswered 1 (SessionOk ''r1'') ((startWeComBotAuthorization newPage)\<lparr>bd_starts := []\<rparr>)"

definition secondWaiting :: botDialog where
  "secondWaiting = sessionAnswered 3 (SessionOk ''r2'') ((startWeComBotAuthorization (closeWeComBotAuthorization
     (firstWaiting\<lparr>bd_timers := [], bd_polls := [(''r1'', 1)]\<rparr>)))\<lparr>bd_starts := []\<rparr>)"

lemmas run_defs = newPage_def startWeComBotAuthorization_def closeWeComBotAuthorization_def stopWeComBotPolling_def
  sessionAnswered_def currentAnswer_def pollWeComBotAuthorization_def setPollTimer_def startAllowed_def demo_organization_def

lemma run_start: "dialog_run s False \<Longrightarrow> startAllowed demo_organization True s \<Longrightarrow> dialog_run (startWeComBotAuthorization s) False"
  using dialog_run.further[OF _ dialog_step.start] by fastforce

lemma run_session:
  "dialog_run s False \<Longrightarrow> bd_starts s = [g] \<Longrightarrow> dialog_run (sessionAnswered g a (s\<lparr>bd_starts := []\<rparr>)) False"
  using dialog_run.further[OF _ dialog_step.session, of s False g a] by fastforce

lemma firstWaiting_run: "dialog_run firstWaiting False"
  unfolding firstWaiting_def
  by (rule run_session[OF run_start[OF dialog_run.opened]]) (simp_all add: run_defs)

lemma secondWaiting_run: "dialog_run secondWaiting False"
proof -
  have "(0, ''r1'', 1) \<in> set (bd_timers firstWaiting)" by (simp add: firstWaiting_def run_defs)
  from dialog_run.further[OF firstWaiting_run dialog_step.fire[OF this]]
  have "dialog_run (firstWaiting\<lparr>bd_timers := [], bd_polls := [(''r1'', 1)]\<rparr>) False"
    by (simp add: firstWaiting_def run_defs)
  from dialog_run.further[OF this dialog_step.closing]
  have "dialog_run (closeWeComBotAuthorization (firstWaiting\<lparr>bd_timers := [], bd_polls := [(''r1'', 1)]\<rparr>)) False"
    by (simp add: firstWaiting_def run_defs)
  from run_session[OF run_start[OF this], of 3 "SessionOk ''r2''"] show ?thesis
    unfolding secondWaiting_def by (simp add: firstWaiting_def run_defs)
qed

theorem bot_dialog_coherent_witness:
  "length (bd_timers secondWaiting) \<le> 1 \<and> bd_view secondWaiting = Some (Waiting ''r2'') \<and> bd_timers secondWaiting \<noteq> []"
  using bot_dialog_coherent[OF secondWaiting_run] by (simp add: secondWaiting_def firstWaiting_def run_defs)

text \<open>A question of an earlier dialog that fails late stops the timer of the dialog that is open: the page
  reaches a state in which the dialog waits for a scan and nothing will ever ask for it again.\<close>

theorem late_failure_stops_polling:
  "\<exists>s. dialog_run s True \<and> bd_mounted s \<and> bd_view s = Some (Waiting ''r2'') \<and> bd_timers s = [] \<and> bd_polls s = [] \<and> bd_starts s = []"
proof -
  have p: "(''r1'', 1) \<in> set (bd_polls secondWaiting)" by (simp add: secondWaiting_def firstWaiting_def run_defs)
  have "dialog_run (pollAnswered ''r1'' 1 PollFailed (secondWaiting\<lparr>bd_polls := remove1 (''r1'', 1) (bd_polls secondWaiting)\<rparr>)) True"
    using dialog_run.further[OF secondWaiting_run dialog_step.poll[OF p, of PollFailed]]
    by (simp add: secondWaiting_def firstWaiting_def run_defs)
  then show ?thesis
    by (intro exI conjI) (assumption, simp_all add: pollAnswered_def secondWaiting_def firstWaiting_def run_defs Let_def)
qed

section \<open>The check of a binding ends\<close>

lemma pollBinding_outcome:
  "pollBinding n shut rs = Some (out, m) \<Longrightarrow> n < maxPollingAttempts \<Longrightarrow>
    n < m \<and> m \<le> maxPollingAttempts \<and> m \<le> n + length rs
    \<and> (case out of AccountConnected \<Rightarrow> rs ! (m - Suc n) = BindingConnected
       | BindingFailed \<Rightarrow> rs ! (m - Suc n) = BindingError
       | WindowClosed \<Rightarrow> rs ! (m - Suc n) = BindingWaiting True
       | TimedOut \<Rightarrow> m = maxPollingAttempts \<and> rs ! (m - Suc n) = BindingWaiting False
       | CheckFailed \<Rightarrow> m = maxPollingAttempts \<and> rs ! (m - Suc n) = ReadFailed)"
proof (induction rs arbitrary: n shut)
  case (Cons r rs)
  consider (further) shut' where "pollBinding (Suc n) shut' rs = Some (out, m)" "Suc n < maxPollingAttempts"
    | (ended) "m = Suc n" "case out of AccountConnected \<Rightarrow> r = BindingConnected | BindingFailed \<Rightarrow> r = BindingError
       | WindowClosed \<Rightarrow> r = BindingWaiting True | TimedOut \<Rightarrow> m = maxPollingAttempts \<and> r = BindingWaiting False
       | CheckFailed \<Rightarrow> m = maxPollingAttempts \<and> r = ReadFailed"
    using Cons.prems by (cases r) (auto simp: Let_def not_le split: if_split_asm)
  then show ?case
  proof cases
    case further
    from Cons.IH[OF further] have "(r # rs) ! (m - Suc n) = rs ! (m - Suc (Suc n))" by (simp add: nth_Cons')
    with Cons.IH[OF further] show ?thesis by (cases out) auto
  next
    case ended
    with Cons.prems(2) show ?thesis by (cases out) auto
  qed
qed simp

lemma pollBinding_ends:
  "n < maxPollingAttempts \<Longrightarrow> maxPollingAttempts \<le> n + length rs \<Longrightarrow> pollBinding n shut rs \<noteq> None"
proof (induction rs arbitrary: n shut)
  case (Cons r rs)
  have "pollBinding (Suc n) shut' rs \<noteq> None" if "\<not> maxPollingAttempts \<le> Suc n" for shut'
    using Cons.IH[of "Suc n" shut'] Cons.prems that by simp
  then show ?case by (auto simp: Let_def split: bindingRead.split)
qed simp

text \<open>Waiting for an authorization window ends: 200 reads always bring an outcome, no outcome needs more,
  and it is the one the last read calls for.\<close>

theorem binding_check_ends:
  "(length rs \<ge> 200 \<longrightarrow> pollBinding 0 0 rs \<noteq> None)
    \<and> (case pollBinding 0 0 rs of None \<Rightarrow> True | Some (out, m) \<Rightarrow> 0 < m \<and> m \<le> 200 \<and> m \<le> length rs
        \<and> (out = AccountConnected) = (rs ! (m - 1) = BindingConnected) \<and> (out = BindingFailed) = (rs ! (m - 1) = BindingError)
        \<and> (out = WindowClosed) = (rs ! (m - 1) = BindingWaiting True) \<and> (m < 200 \<longrightarrow> out \<noteq> TimedOut \<and> out \<noteq> CheckFailed))"
proof (cases "pollBinding 0 0 rs")
  case None
  with pollBinding_ends[of 0 rs 0] show ?thesis by (auto simp: maxPollingAttempts_def)
next
  case (Some p)
  then obtain out m where p: "pollBinding 0 0 rs = Some (out, m)" by (cases p) auto
  from pollBinding_outcome[OF p] show ?thesis
    unfolding p by (cases out) (auto simp: maxPollingAttempts_def)
qed

theorem binding_check_ends_witness:
  "\<exists>out m. pollBinding 0 0 [BindingWaiting True, ReadFailed, BindingWaiting True] = Some (out, m) \<and> out = WindowClosed"
  using binding_check_ends[of "[BindingWaiting True, ReadFailed, BindingWaiting True]"]
  by (auto simp: Let_def maxPollingAttempts_def)

section \<open>The connections of an integration\<close>

text \<open>What the page lists under an integration belongs to it: the connections of the bound account, or
  the bots of an organization the employee is linked to.\<close>

lemma connections_of_integration:
  assumes "c \<in> set (connectionsForIntegration snapshot i)"
  shows "c \<in> set (es_available snapshot)
    \<and> ((\<exists>g \<in> set (es_organizations snapshot). i = wecomOrganizationIntegrationId (eo_id g) \<and> organizationLinked snapshot (eo_id g)
          \<and> vc_service c = ''wecom_bot'')
       \<or> (\<exists>a \<in> set (es_applications snapshot). \<exists>b. em_id a = i \<and> em_binding a = Some b \<and> eb_status b = Connected
          \<and> vc_service c = eb_service b \<and> vc_connectionName c = eb_connectionName b))"
proof (cases "wecomOrganizationForIntegration snapshot i")
  case (Some g)
  then have "g \<in> set (es_organizations snapshot)" "i = wecomOrganizationIntegrationId (eo_id g)"
    by (auto simp: wecomOrganizationForIntegration_def wecomOrganizationIntegrationId_def starts_with_iff find_Some_iff
        in_set_conv_nth split: if_split_asm)
  with Some assms show ?thesis by (auto simp: connectionsForIntegration_def split: if_split_asm)
next
  case None
  with assms show ?thesis
    by (auto simp: connectionsForIntegration_def find_Some_iff split: option.split_asm if_split_asm)
qed
end
