(* ===== verification/Connector_Editor.thy ===== *)
theory Connector_Editor
  imports Admin_Routes Observability Employee_Views
begin

text \<open>
  The administrator's page of the connectors: the remaining routes of the connector catalogue
  (app/api/open-connector/providers, connections, oauth-configs, oauth-authorizations) and the
  editors of components/connector-manager.tsx. An editor is the state of its form, a save gives
  the requests it sends, in order, and the first request the server refuses ends it. Labels,
  drawers, the focus of the keyboard and the texts of messages are left out.
\<close>

section \<open>Routes\<close>

definition answerOf :: "int \<Rightarrow> appError + 'a \<Rightarrow> int + 'a" where
  "answerOf other r = (case r of Inl e \<Rightarrow> Inl (routeStatus other e) | Inr v \<Rightarrow> Inr v)"

record providersQuery =
  pq_query :: "string option"
  pq_category :: "string option"
  pq_authType :: "string option"
  pq_page :: "string option"
  pq_limit :: "string option"

text \<open>A search parameter that is absent or empty counts as absent.\<close>

definition given :: "string option \<Rightarrow> string option" where
  "given v = (if v = Some [] then None else v)"

definition queryNumber :: "int \<Rightarrow> string option \<Rightarrow> jsnum" where
  "queryNumber fallback v = (case given v of None \<Rightarrow> Fin (of_int fallback) | Some s \<Rightarrow> js_Number s)"

definition providersGet ::
    "ocEnv \<Rightarrow> int \<Rightarrow> int \<Rightarrow> providersQuery \<Rightarrow> providerCache \<Rightarrow> (int + connectorProvidersPage) \<times> providerCache" where
  "providersGet env now now' q cache =
    (case listConnectorProviders env now now' \<lparr>li_query = given (pq_query q), li_category = given (pq_category q),
        li_authType = given (pq_authType q), li_page = Some (queryNumber 1 (pq_page q)),
        li_limit = Some (queryNumber 24 (pq_limit q))\<rparr> cache of
       (r, cache') \<Rightarrow> (answerOf 502 (liftConnector r), cache'))"

definition providerGet :: "ocEnv \<Rightarrow> string \<Rightarrow> int + connectorProviderDetail" where
  "providerGet env service = answerOf 502 (liftConnector (getConnectorProvider env service))"

definition connectionsGet ::
    "migrationEnv \<Rightarrow> ocEnv \<Rightarrow> int \<Rightarrow> bool \<Rightarrow> db \<Rightarrow> (int + connectorConnection list) \<times> bool \<times> db" where
  "connectionsGet menv oc now settled d =
    (case listClassifiedConnectorConnections menv oc now settled d of (r, st) \<Rightarrow> (answerOf 500 r, st))"

definition oauthConfigGet :: "ocEnv \<Rightarrow> string \<Rightarrow> int + connectorOAuthConfig" where
  "oauthConfigGet env service = answerOf 502 (liftConnector (getConnectorOAuthConfig env service))"

definition oauthInput :: "json \<Rightarrow> appError + json" where
  "oauthInput payload = bindE (readJsonRecord payload) (\<lambda>body.
     let clientId = js_trim (the_string (jget body ''clientId''));
         clientSecret = js_trim (the_string (jget body ''clientSecret'')) in
     if clientId = [] then Inl (badRequest ''client_id'')
     else bindE (readStringRecord (jget body ''extra'')) (\<lambda>extra.
       bindE (readStringRecord (jget body ''secretExtra'')) (\<lambda>secretExtra. Inr (JObj [
         (''clientId'', JStr clientId), (''clientSecret'', JStr clientSecret),
         (''extra'', extra), (''secretExtra'', secretExtra)]))))"

definition oauthConfigPut :: "ocEnv \<Rightarrow> string \<Rightarrow> json \<Rightarrow> int + connectorOAuthConfig" where
  "oauthConfigPut env service payload = answerOf 502 (bindE (oauthInput payload) (\<lambda>input.
     liftConnector (saveConnectorOAuthConfig env service input)))"

definition oauthAuthorizationPost :: "ocEnv \<Rightarrow> json \<Rightarrow> int + (string \<times> string)" where
  "oauthAuthorizationPost env payload = answerOf 502 (bindE (readJsonRecord payload) (\<lambda>body.
     let service = js_trim (the_string (jget body ''service''));
         connectionName = js_trim (the_string (jget body ''connectionName'')) in
     if service = [] \<or> connectionName = [] then Inl (badRequest ''service_and_name'')
     else liftConnector (startConnectorOAuthAuthorization env service connectionName None)))"

section \<open>The sections of the page\<close>

definition visibleConnections :: "connectorManagerView \<Rightarrow> connectorConnection list \<Rightarrow> connectorConnection list" where
  "visibleConnections view connections = filter (\<lambda>c. connectorConnectionMatchesView c view) connections"

definition sectionOf ::
    "connectorAccessMode \<Rightarrow> connectorManagerView \<Rightarrow> connectorConnection list \<Rightarrow> connectorConnection list" where
  "sectionOf mode view connections = filter (\<lambda>c. cc_accessMode c = mode) (visibleConnections view connections)"

definition providerSummaryOf :: "connectorProviderDetail \<Rightarrow> connectorProviderSummary" where
  "providerSummaryOf provider = connectorProviderSummary.truncate provider"

definition byService :: "connectorProviderSummary list \<Rightarrow> connectorProviderSummary list" where
  "byService ps = map snd (js_map (map (\<lambda>p. (cp_service p, p)) ps))"

definition initialProviders ::
    "connectorProviderSummary list \<Rightarrow> connectorProviderSummary list \<Rightarrow> connectorProviderSummary list" where
  "initialProviders items connectionProviders = byService (items @ connectionProviders)"

definition rememberProvider ::
    "connectorProviderDetail \<Rightarrow> connectorProviderSummary list \<Rightarrow> connectorProviderSummary list" where
  "rememberProvider provider known =
    map snd (AList.update (cp_service provider) (providerSummaryOf provider)
      (js_map (map (\<lambda>p. (cp_service p, p)) known)))"

text \<open>What the drawer of a connection shows of its actions.\<close>

record connectorDetails =
  dt_connection :: connectorConnection
  dt_provider :: "connectorProviderDetail option"
  dt_loading :: bool
  dt_failed :: bool

definition viewConnector :: "connectorConnection \<Rightarrow> connectorDetails" where
  "viewConnector c = \<lparr>dt_connection = c, dt_provider = None, dt_loading = True, dt_failed = False\<rparr>"

definition detailsAnswered ::
    "connectorConnection \<Rightarrow> connectorProviderDetail option \<Rightarrow> connectorDetails option \<Rightarrow> connectorDetails option" where
  "detailsAnswered c reply current = (case current of None \<Rightarrow> None | Some dt \<Rightarrow>
     if cc_id (dt_connection dt) = cc_id c
     then Some \<lparr>dt_connection = c, dt_provider = reply, dt_loading = False, dt_failed = (reply = None)\<rparr>
     else Some dt)"

definition detailActions :: "bool \<Rightarrow> connectorDetails \<Rightarrow> connectorActionDefinition list" where
  "detailActions authorizedOnly dt =
    (let actions = (case dt_provider dt of None \<Rightarrow> [] | Some p \<Rightarrow> cp_actions p) in
     if authorizedOnly then filter (connectorActionIsAuthorized (dt_connection dt)) actions else actions)"

section \<open>The editor of a connection\<close>

datatype editorMode = CreateMode | EditMode

type_synonym fieldValues = "(string \<times> string) list"

record connectorEditor =
  ee_mode :: editorMode
  ee_original :: "connectorConnection option"
  ee_provider :: "connectorProviderDetail option"
  ee_authType :: "connectorAuthType option"
  ee_connectionName :: string
  ee_values :: fieldValues
  ee_oauthConfig :: "connectorOAuthConfig option"
  ee_clientId :: string
  ee_clientSecret :: string
  ee_oauthValues :: fieldValues
  ee_sharedActions :: "string list"
  ee_hardDenied :: "string list"
  ee_reconfigure :: bool
  ee_loading :: bool

fun definitionType :: "connectorAuthDefinition \<Rightarrow> connectorAuthType" where
  "definitionType DefNoAuth = NoAuth"
| "definitionType (DefApiKey _ _ _ _) = ApiKey"
| "definitionType (DefCustomCredential _) = CustomCredential"
| "definitionType (DefOAuth2 _ _) = OAuth2"

definition authDefinition ::
    "connectorProviderDetail option \<Rightarrow> connectorAuthType option \<Rightarrow> connectorAuthDefinition option" where
  "authDefinition provider authType = (case provider of None \<Rightarrow> None
     | Some p \<Rightarrow> List.find (\<lambda>auth. Some (definitionType auth) = authType) (cp_auth p))"

definition connectionFields :: "connectorAuthDefinition option \<Rightarrow> connectorCredentialField list" where
  "connectionFields auth = (case auth of
     Some (DefApiKey label placeholder description extraFields) \<Rightarrow>
       \<lparr>cf_key = ''apiKey'', cf_label = (case given label of None \<Rightarrow> ''API Key'' | Some l \<Rightarrow> l),
        cf_inputType = InPassword, cf_required = True, cf_secret = True,
        cf_placeholder = placeholder, cf_description = description\<rparr> # extraFields
   | Some (DefCustomCredential credentialFields) \<Rightarrow> credentialFields
   | _ \<Rightarrow> [])"

definition oauthFields :: "connectorAuthDefinition option \<Rightarrow> connectorOAuthClientField list" where
  "oauthFields auth = (case auth of Some (DefOAuth2 scopes clientFields) \<Rightarrow> clientFields | _ \<Rightarrow> [])"

definition initialValues :: "connectorCredentialField list \<Rightarrow> fieldValues" where
  "initialValues fs = js_map (map (\<lambda>f. (cf_key f, [])) fs)"

definition initialOAuthValues :: "connectorOAuthClientField list \<Rightarrow> fieldValues" where
  "initialOAuthValues fs = js_map (map (\<lambda>f.
     (cf_key f, case cf_defaultValue f of None \<Rightarrow> [] | Some v \<Rightarrow> v)) fs)"

definition addConnector :: connectorEditor where
  "addConnector = \<lparr>ee_mode = CreateMode, ee_original = None, ee_provider = None, ee_authType = None,
     ee_connectionName = ''default'', ee_values = [], ee_oauthConfig = None, ee_clientId = [], ee_clientSecret = [],
     ee_oauthValues = [], ee_sharedActions = [], ee_hardDenied = [], ee_reconfigure = False, ee_loading = False\<rparr>"

definition clientIdOf :: "connectorOAuthConfig option \<Rightarrow> string" where
  "clientIdOf config = (case Option.bind config oc_clientId of None \<Rightarrow> [] | Some i \<Rightarrow> i)"

definition isConfigured :: "connectorOAuthConfig option \<Rightarrow> bool" where
  "isConfigured config = (case config of None \<Rightarrow> False | Some c \<Rightarrow> oc_configured c)"

text \<open>The provider of a new connection has been read; \<open>stamp\<close> is the clock as text. For an OAuth
  provider its client configuration has been read, too.\<close>

definition providerSelected ::
    "string \<Rightarrow> connectorProviderDetail \<Rightarrow> connectorOAuthConfig option \<Rightarrow> connectorEditor \<Rightarrow> connectorEditor" where
  "providerSelected stamp provider config e =
    (let authType = (case cp_auth provider of [] \<Rightarrow> None | a # _ \<Rightarrow> Some (definitionType a));
         auth = authDefinition (Some provider) authType;
         oauthConfig = (if authType = Some OAuth2 then config else None) in
     e\<lparr>ee_provider := Some provider, ee_authType := authType,
       ee_values := initialValues (connectionFields auth), ee_oauthConfig := oauthConfig,
       ee_clientId := clientIdOf oauthConfig, ee_clientSecret := [],
       ee_oauthValues := initialOAuthValues (oauthFields auth),
       ee_connectionName := (if cp_service provider = ''wecom_bot'' \<and> ee_connectionName e = ''default''
         then ''wecom_bot_'' @ stamp else ee_connectionName e),
       ee_sharedActions := [], ee_hardDenied := [],
       ee_reconfigure := (authType = Some OAuth2 \<and> \<not> isConfigured oauthConfig), ee_loading := False\<rparr>)"

definition deniedLoaded :: "accessSnapshot \<Rightarrow> connectorEditor \<Rightarrow> connectorEditor" where
  "deniedLoaded access e =
    (if map_option cp_service (ee_provider e) = Some ''wecom_bot'' then e\<lparr>ee_hardDenied := sa_hardDenied access\<rparr> else e)"

definition editConnector :: "connectorConnection \<Rightarrow> connectorEditor" where
  "editConnector connection = addConnector\<lparr>ee_mode := EditMode, ee_original := Some connection,
     ee_authType := Some (cc_authType connection), ee_connectionName := cc_connectionName connection,
     ee_loading := True\<rparr>"

text \<open>The answers to an opened editor; those to an editor that was replaced meanwhile are dropped.\<close>

definition editLoaded ::
    "connectorConnection \<Rightarrow> connectorProviderDetail \<Rightarrow> accessSnapshot option \<Rightarrow> connectorOAuthConfig option
      \<Rightarrow> connectorEditor option \<Rightarrow> connectorEditor option" where
  "editLoaded connection provider access config current =
    (let auth = authDefinition (Some provider) (Some (cc_authType connection));
         oauthConfig = (if cc_authType connection = OAuth2 then config else None) in
     case current of None \<Rightarrow> None | Some e \<Rightarrow>
       if map_option cc_id (ee_original e) = Some (cc_id connection)
       then Some (e\<lparr>ee_provider := Some provider, ee_values := initialValues (connectionFields auth),
         ee_oauthConfig := oauthConfig, ee_clientId := clientIdOf oauthConfig,
         ee_oauthValues := initialOAuthValues (oauthFields auth),
         ee_sharedActions := (case Option.bind access (\<lambda>a. List.find (\<lambda>r. sr_service r = cc_service connection
             \<and> sr_connectionName r = cc_connectionName connection) (sa_resources a)) of
           None \<Rightarrow> [] | Some r \<Rightarrow> sr_actions r),
         ee_hardDenied := (case access of None \<Rightarrow> [] | Some a \<Rightarrow> sa_hardDenied a),
         ee_reconfigure := (cc_authType connection = OAuth2 \<and> \<not> isConfigured oauthConfig),
         ee_loading := False\<rparr>)
       else Some e)"

definition changeAuthType :: "connectorAuthType \<Rightarrow> connectorEditor \<Rightarrow> connectorEditor" where
  "changeAuthType t e =
    (if ee_provider e = None then e
     else let auth = authDefinition (ee_provider e) (Some t) in
       e\<lparr>ee_authType := Some t, ee_values := initialValues (connectionFields auth), ee_oauthConfig := None,
         ee_clientId := [], ee_clientSecret := [], ee_oauthValues := initialOAuthValues (oauthFields auth),
         ee_reconfigure := False, ee_sharedActions := (if t = OAuth2 then [] else ee_sharedActions e)\<rparr>)"

definition oauthConfigLoaded :: "connectorOAuthConfig \<Rightarrow> connectorEditor \<Rightarrow> connectorEditor" where
  "oauthConfigLoaded config e = e\<lparr>ee_oauthConfig := Some config, ee_clientId := clientIdOf (Some config),
     ee_reconfigure := (\<not> oc_configured config)\<rparr>"

text \<open>Selecting and clearing an action in an ordered set; a denied action is left as it is.\<close>

definition toggled :: "string list \<Rightarrow> string \<Rightarrow> string list \<Rightarrow> string list" where
  "toggled denied actionId selected =
    (if actionId \<in> set denied then selected
     else if actionId \<in> set selected then filter (\<lambda>a. a \<noteq> actionId) (dedup selected)
     else dedup selected @ [actionId])"

definition toggleEditorSharedAction :: "string \<Rightarrow> connectorEditor \<Rightarrow> connectorEditor" where
  "toggleEditorSharedAction actionId e =
    e\<lparr>ee_sharedActions := toggled (ee_hardDenied e) actionId (ee_sharedActions e)\<rparr>"

definition toggleAllEditorSharedActions :: "connectorEditor \<Rightarrow> connectorEditor" where
  "toggleAllEditorSharedActions e = (case ee_provider e of None \<Rightarrow> e
     | Some provider \<Rightarrow> e\<lparr>ee_sharedActions := nextConnectorActionSelection (map ca_id (cp_actions provider))
         (ee_hardDenied e) (ee_sharedActions e)\<rparr>)"

section \<open>Saving a connection\<close>

datatype editorError = FieldMissing string | FieldNotJson string | NoSharedAction | DefaultName | NameTaken
  | ClientIdMissing | ClientSecretMissing | NameMissing | PopupBlocked

datatype consoleRequest = PutConnection string json | PutOAuthConfig string json | PostAuthorization json
  | DeleteShared string | DeleteConnection string json | PutShared json | ListConnections

text \<open>Requests one after the other; the first that is refused is the last. Those that were sent, and
  whether all were served.\<close>

fun sendAll :: "('r \<Rightarrow> bool) \<Rightarrow> 'r list \<Rightarrow> 'r list \<times> bool" where
  "sendAll served [] = ([], True)"
| "sendAll served (r # rs) = (if served r then (case sendAll served rs of (sent, all) \<Rightarrow> (r # sent, all)) else ([r], False))"

definition valueOf :: "fieldValues \<Rightarrow> string \<Rightarrow> string" where
  "valueOf vals key = (case map_of vals key of None \<Rightarrow> [] | Some v \<Rightarrow> v)"

definition validateFields :: "'a connectorCredentialField_scheme list \<Rightarrow> fieldValues \<Rightarrow> editorError + unit" where
  "validateFields fs vals =
    (case List.find (\<lambda>f. cf_required f \<and> js_trim (valueOf vals (cf_key f)) = []) fs of
       Some f \<Rightarrow> Inl (FieldMissing (cf_label f))
     | None \<Rightarrow> (case List.find (\<lambda>f. cf_inputType f = InJson \<and> js_trim (valueOf vals (cf_key f)) \<noteq> []
           \<and> jsonParse (valueOf vals (cf_key f)) = None) fs of
         Some f \<Rightarrow> Inl (FieldNotJson (cf_label f))
       | None \<Rightarrow> Inr ()))"

definition stringRecord :: "fieldValues \<Rightarrow> json" where
  "stringRecord kvs = JObj (map (\<lambda>(k, v). (k, JStr v)) kvs)"

definition credentialRequest :: "connectorConnection list \<Rightarrow> connectorEditor \<Rightarrow> editorError + consoleRequest list" where
  "credentialRequest connections e = (case (ee_provider e, ee_authType e) of
     (Some provider, Some t) \<Rightarrow>
       if t = OAuth2 then Inr []
       else let fs = connectionFields (authDefinition (ee_provider e) (ee_authType e)); bot = (cp_service provider = ''wecom_bot'') in
         bindE (validateFields fs (ee_values e)) (\<lambda>_.
         bindE (guardE (\<not> (bot \<and> ee_sharedActions e = [])) NoSharedAction) (\<lambda>_.
         bindE (guardE (\<not> (bot \<and> js_lower (ee_connectionName e) = ''default'')) DefaultName) (\<lambda>_.
         bindE (guardE (\<not> (ee_mode e = CreateMode \<and> list_ex (\<lambda>c. cc_service c = cp_service provider
             \<and> cc_connectionName c = ee_connectionName e) connections)) NameTaken) (\<lambda>_.
         Inr [PutConnection (cp_service provider) (JObj ([(''connectionName'', JStr (ee_connectionName e)),
             (''authType'', JStr (authTypeName t)),
             (''values'', stringRecord (js_map (map (\<lambda>f. (cf_key f, valueOf (ee_values e) (cf_key f))) fs)))]
           @ (if bot then [(''actionIds'', JArr (map JStr (ee_sharedActions e)))] else [])
           @ [(''displayName'', JStr (case given (map_option sa_displayName (Option.bind (ee_original e) cc_sharedAccess)) of
               Some label \<Rightarrow> label | None \<Rightarrow> cp_displayName provider))]))]))))
   | _ \<Rightarrow> Inr [])"

definition toSecretExtra :: "connectorOAuthClientField \<Rightarrow> bool" where
  "toSecretExtra f \<longleftrightarrow> cf_location f = Some LocSecretExtra \<or> cf_secret f"

definition oauthRecord :: "fieldValues \<Rightarrow> connectorOAuthClientField list \<Rightarrow> json" where
  "oauthRecord vals fs = stringRecord (js_map (map (\<lambda>f. (cf_key f, valueOf vals (cf_key f))) fs))"

definition oauthConfigBody :: "connectorOAuthClientField list \<Rightarrow> connectorEditor \<Rightarrow> json" where
  "oauthConfigBody fs e = JObj [(''clientId'', JStr (ee_clientId e)), (''clientSecret'', JStr (ee_clientSecret e)),
     (''extra'', oauthRecord (ee_oauthValues e) (filter (\<lambda>f. \<not> toSecretExtra f) fs)),
     (''secretExtra'', oauthRecord (ee_oauthValues e) (filter toSecretExtra fs))]"

definition oauthRequests :: "bool \<Rightarrow> connectorEditor \<Rightarrow> editorError + consoleRequest list" where
  "oauthRequests popup e = (case ee_provider e of None \<Rightarrow> Inr []
     | Some provider \<Rightarrow>
         bindE (guardE popup PopupBlocked) (\<lambda>_.
         bindE (if \<not> isConfigured (ee_oauthConfig e) \<or> ee_reconfigure e
           then let fs = oauthFields (authDefinition (ee_provider e) (Some OAuth2)) in
             bindE (validateFields fs (ee_oauthValues e)) (\<lambda>_.
             bindE (guardE (js_trim (ee_clientId e) \<noteq> []) ClientIdMissing) (\<lambda>_.
             bindE (guardE (js_trim (ee_clientSecret e) \<noteq> []) ClientSecretMissing) (\<lambda>_.
             Inr [PutOAuthConfig (cp_service provider) (oauthConfigBody fs e)])))
           else Inr []) (\<lambda>config.
         Inr (config @ [PostAuthorization (JObj [(''service'', JStr (cp_service provider)),
           (''connectionName'', JStr (ee_connectionName e))])]))))"

definition saveEditor :: "bool \<Rightarrow> connectorConnection list \<Rightarrow> connectorEditor \<Rightarrow> editorError + consoleRequest list" where
  "saveEditor popup connections e =
    (if ee_provider e = None \<or> ee_authType e = None then Inr []
     else bindE (guardE (js_trim (ee_connectionName e) \<noteq> []) NameMissing) (\<lambda>_.
       if ee_authType e = Some OAuth2 then oauthRequests popup e else credentialRequest connections e))"

datatype saveOutcome = SaveRefused "editorError option" | ConnectionStored | AwaitingAuthorization connectorEditor | NothingToSave

text \<open>What the server serves decides, the new list of the connections included: a stored credential closes the editor, an OAuth connection waits for
  the authorization window, and the client secret leaves the form.\<close>

definition saveOutcomeOf ::
    "(consoleRequest \<Rightarrow> bool) \<Rightarrow> connectorOAuthConfig option \<Rightarrow> bool \<Rightarrow> connectorConnection list \<Rightarrow> connectorEditor
      \<Rightarrow> consoleRequest list \<times> saveOutcome" where
  "saveOutcomeOf served newConfig popup connections e =
    (case saveEditor popup connections e of
       Inl err \<Rightarrow> ([], SaveRefused (Some err))
     | Inr rs \<Rightarrow> if rs = [] then ([], NothingToSave)
         else (case sendAll served (rs @ (if ee_authType e = Some OAuth2 then [] else [ListConnections])) of
           (sent, False) \<Rightarrow> (sent, SaveRefused None)
         | (sent, True) \<Rightarrow> (sent, if ee_authType e = Some OAuth2
             then AwaitingAuthorization (e\<lparr>ee_oauthConfig := (if length rs = 2 then newConfig else ee_oauthConfig e),
               ee_clientSecret := [], ee_reconfigure := False\<rparr>)
             else ConnectionStored)))"

text \<open>Once the authorization window is closed the list of connections decides.\<close>

definition authorizationArrived :: "connectorEditor \<Rightarrow> connectorConnection list \<Rightarrow> bool" where
  "authorizationArrived e latest = list_ex (\<lambda>c. Some (cc_service c) = map_option cp_service (ee_provider e)
     \<and> cc_connectionName c = ee_connectionName e \<and> cc_configured c) latest"

definition disconnectRequests :: "bool \<Rightarrow> connectorConnection \<Rightarrow> consoleRequest list" where
  "disconnectRequests confirmed c =
    (if cc_virtual c \<or> \<not> confirmed then []
     else (case given (map_option sa_resourceId (cc_sharedAccess c)) of None \<Rightarrow> [] | Some i \<Rightarrow> [DeleteShared i])
       @ [DeleteConnection (cc_service c) (JObj [(''connectionName'', JStr (cc_connectionName c))]), ListConnections])"

section \<open>The editor of shared access\<close>

datatype accessProblem = NoActionChosen | NoOrganization | BadPrincipal string | ServerRefused

record accessEditor =
  ax_connection :: connectorConnection
  ax_resource :: "sharedResource option"
  ax_displayName :: string
  ax_securityDomain :: string
  ax_principals :: string
  ax_actions :: "string list"
  ax_provider :: "connectorProviderDetail option"
  ax_hardDenied :: "string list"
  ax_organizations :: "(string \<times> string \<times> bool) list"
  ax_organization :: string
  ax_loading :: bool
  ax_saving :: bool
  ax_problem :: "accessProblem option"

definition or_else :: "string option \<Rightarrow> string \<Rightarrow> string" where
  "or_else v fallback = (case given v of None \<Rightarrow> fallback | Some s \<Rightarrow> s)"

definition manageSharedAccess :: "connectorConnection \<Rightarrow> accessEditor" where
  "manageSharedAccess c = \<lparr>ax_connection = c, ax_resource = None,
     ax_displayName = or_else (map_option sa_displayName (cc_sharedAccess c)) (cc_displayName c),
     ax_securityDomain = or_else (map_option sa_securityDomain (cc_sharedAccess c)) ''general'',
     ax_principals = [], ax_actions = [], ax_provider = None, ax_hardDenied = [], ax_organizations = [],
     ax_organization = or_else (Option.bind (cc_sharedAccess c) sa_wecomOrganizationId) [],
     ax_loading = True, ax_saving = False, ax_problem = None\<rparr>"

definition grantLine :: "sharedGrant \<Rightarrow> string" where
  "grantLine g = (if sg_type g = GroupPrincipal then ''group:'' @ or_else (sg_group g) []
     else ''user:'' @ or_else (sg_email g) (or_else (sg_subject g) []))"

definition LINE_END :: string where "LINE_END = [CHR 0x0A]"

definition grantLines :: "sharedGrant list \<Rightarrow> string" where
  "grantLines gs = js_join LINE_END (filter (\<lambda>l. \<not> ends_with l '':'') (map grantLine gs))"

definition resourceActions :: "sharedResource \<Rightarrow> string list" where
  "resourceActions r = (if sr_mode r = WecomVisibility then sr_actions r else dedup (concat (map sg_actions (sr_grants r))))"

definition resourceFor :: "connectorConnection \<Rightarrow> accessSnapshot \<Rightarrow> sharedResource option" where
  "resourceFor c snapshot = List.find (\<lambda>r. sr_service r = cc_service c \<and> sr_connectionName r = cc_connectionName c)
     (sa_resources snapshot)"

definition accessLoaded ::
    "connectorConnection \<Rightarrow> (accessSnapshot \<times> connectorProviderDetail) option \<Rightarrow> accessEditor option \<Rightarrow> accessEditor option" where
  "accessLoaded c reply current = (case current of None \<Rightarrow> None | Some e \<Rightarrow>
     if cc_id (ax_connection e) \<noteq> cc_id c then Some e
     else (case reply of None \<Rightarrow> Some (e\<lparr>ax_loading := False, ax_problem := Some ServerRefused\<rparr>)
     | Some (snapshot, provider) \<Rightarrow> (let resource = resourceFor c snapshot in Some (e\<lparr>ax_resource := resource,
         ax_displayName := or_else (map_option sr_displayName resource) (ax_displayName e),
         ax_securityDomain := or_else (map_option sr_securityDomain resource) (ax_securityDomain e),
         ax_principals := (case resource of None \<Rightarrow> [] | Some r \<Rightarrow> grantLines (sr_grants r)),
         ax_actions := (case resource of None \<Rightarrow> [] | Some r \<Rightarrow> resourceActions r),
         ax_provider := Some provider, ax_hardDenied := sa_hardDenied snapshot,
         ax_organizations := sa_organizations snapshot,
         ax_organization := or_else (Option.bind resource sr_organizationId)
           (case List.find (\<lambda>(i, name, ready). ready) (sa_organizations snapshot) of None \<Rightarrow> [] | Some (i, _) \<Rightarrow> i),
         ax_loading := False\<rparr>))))"

definition patchAccessEditor :: "(accessEditor \<Rightarrow> accessEditor) \<Rightarrow> accessEditor \<Rightarrow> accessEditor" where
  "patchAccessEditor f e = (f e)\<lparr>ax_problem := None\<rparr>"

definition toggleSharedAction :: "string \<Rightarrow> accessEditor \<Rightarrow> accessEditor" where
  "toggleSharedAction actionId e = (if actionId \<in> set (ax_hardDenied e) then e
     else patchAccessEditor (\<lambda>e. e\<lparr>ax_actions := toggled (ax_hardDenied e) actionId (ax_actions e)\<rparr>) e)"

text \<open>\<open>split(/\r?\n|,/)\<close>.\<close>

fun splitPrincipals :: "string \<Rightarrow> string list" where
  "splitPrincipals [] = [[]]"
| "splitPrincipals (c # s) =
    (if c = CHR 0x0A \<or> c = CHR '','' then [] # splitPrincipals s
     else if c = CHR 0x0D \<and> s \<noteq> [] \<and> hd s = CHR 0x0A then [] # splitPrincipals (tl s)
     else (case splitPrincipals s of [] \<Rightarrow> [[c]] | w # ws \<Rightarrow> (c # w) # ws))"

definition principalLines :: "string \<Rightarrow> string list" where
  "principalLines s = filter (\<lambda>l. l \<noteq> []) (map js_trim (splitPrincipals s))"

definition grantOfLine :: "string list \<Rightarrow> string \<Rightarrow> accessProblem + json" where
  "grantOfLine actionIds line = (case js_split (CHR '':'') line of [] \<Rightarrow> Inl (BadPrincipal line) | p # rest \<Rightarrow>
     (let v = js_trim (js_join '':'' rest); actions = (''actionIds'', JArr (map JStr actionIds)) in
      if (p \<noteq> ''user'' \<and> p \<noteq> ''group'') \<or> v = [] then Inl (BadPrincipal line)
      else Inr (if p = ''group'' then JObj [(''principalType'', JStr ''group''), (''groupName'', JStr v), actions]
        else if CHR ''@'' \<in> set v then JObj [(''principalType'', JStr ''user''), (''principalEmail'', JStr v), actions]
        else JObj [(''principalType'', JStr ''user''), (''principalSubject'', JStr v), actions])))"

definition sharedAccessRequest :: "accessEditor \<Rightarrow> accessProblem + consoleRequest list" where
  "sharedAccessRequest e =
    (if ax_provider e = None then Inr []
     else let visibility = (cc_service (ax_connection e) = ''wecom_bot''); ls = principalLines (ax_principals e) in
       bindE (guardE (\<not> ((visibility \<or> ls \<noteq> []) \<and> ax_actions e = [])) NoActionChosen) (\<lambda>_.
       bindE (guardE (\<not> (visibility \<and> ax_organization e = [])) NoOrganization) (\<lambda>_.
       bindE (if visibility then Inr [] else mapE (grantOfLine (ax_actions e)) ls) (\<lambda>gs.
       Inr [PutShared (JObj ([(''service'', JStr (cc_service (ax_connection e))),
           (''connectionName'', JStr (cc_connectionName (ax_connection e))),
           (''displayName'', JStr (ax_displayName e)), (''securityDomain'', JStr (ax_securityDomain e)),
           (''authorizationMode'', JStr (if visibility then ''wecom_visibility'' else ''manual''))]
         @ (if visibility then [(''wecomOrganizationId'', JStr (ax_organization e))] else [])
         @ [(''actionIds'', JArr (if visibility then map JStr (ax_actions e) else [])),
           (''enabled'', JBool True), (''grants'', JArr gs)]))]))))"

text \<open>A save that is served closes the editor, any other leaves it open with its problem.\<close>

definition saveSharedAccess ::
    "(consoleRequest \<Rightarrow> bool) \<Rightarrow> accessEditor \<Rightarrow> consoleRequest list \<times> accessEditor option" where
  "saveSharedAccess served e = (case sharedAccessRequest e of
     Inl problem \<Rightarrow> ([], Some (e\<lparr>ax_problem := Some problem\<rparr>))
   | Inr rs \<Rightarrow> if rs = [] then ([], Some e)
       else (case sendAll served (rs @ [ListConnections]) of
         (sent, True) \<Rightarrow> (sent, None)
       | (sent, False) \<Rightarrow> (sent, Some (e\<lparr>ax_saving := False, ax_problem := Some ServerRefused\<rparr>))))"

definition removeSharedAccess ::
    "(consoleRequest \<Rightarrow> bool) \<Rightarrow> bool \<Rightarrow> accessEditor \<Rightarrow> consoleRequest list \<times> accessEditor option" where
  "removeSharedAccess served confirmed e = (case ax_resource e of
     None \<Rightarrow> ([], Some e)
   | Some r \<Rightarrow> if \<not> confirmed then ([], Some e)
       else (case sendAll served [DeleteShared (sr_id r), ListConnections] of
         (sent, True) \<Rightarrow> (sent, None)
       | (sent, False) \<Rightarrow> (sent, Some (e\<lparr>ax_saving := False, ax_problem := Some ServerRefused\<rparr>))))"

section \<open>Sections and selections\<close>

text \<open>The modes of access are an enumeration, so that sums over them compute.\<close>

instantiation connectorAccessMode :: enum
begin

definition enum_connectorAccessMode :: "connectorAccessMode list" where
  "enum_connectorAccessMode = [AccessNoAuth, AccountBound, ControlledShared, AccessGlobal]"

definition enum_all_connectorAccessMode :: "(connectorAccessMode \<Rightarrow> bool) \<Rightarrow> bool" where
  "enum_all_connectorAccessMode P \<longleftrightarrow> P AccessNoAuth \<and> P AccountBound \<and> P ControlledShared \<and> P AccessGlobal"

definition enum_ex_connectorAccessMode :: "(connectorAccessMode \<Rightarrow> bool) \<Rightarrow> bool" where
  "enum_ex_connectorAccessMode P \<longleftrightarrow> P AccessNoAuth \<or> P AccountBound \<or> P ControlledShared \<or> P AccessGlobal"

instance
proof
  have all: "P m" if "P AccessNoAuth" "P AccountBound" "P ControlledShared" "P AccessGlobal" for P and m :: connectorAccessMode
    using that by (cases m) auto
  show "(UNIV :: connectorAccessMode set) = set enum_class.enum"
    using all[of "\<lambda>m. m \<in> set enum_class.enum"] by (auto simp: enum_connectorAccessMode_def)
  show "distinct (enum_class.enum :: connectorAccessMode list)" by (simp add: enum_connectorAccessMode_def)
  show "enum_class.enum_all P \<longleftrightarrow> Ball UNIV P" for P :: "connectorAccessMode \<Rightarrow> bool"
    using all[of P] by (auto simp: enum_all_connectorAccessMode_def)
  show "enum_class.enum_ex P \<longleftrightarrow> Bex UNIV P" for P :: "connectorAccessMode \<Rightarrow> bool"
    using all[of "\<lambda>m. \<not> P m"] by (auto simp: enum_ex_connectorAccessMode_def)
qed

end

text \<open>The four sections show every visible connection once.\<close>

lemma sections_partition:
  "mset (visibleConnections view cs) = (\<Sum>mode\<in>UNIV. mset (sectionOf mode view cs))"
proof -
  have "mset xs = (\<Sum>mode\<in>UNIV. mset (filter (\<lambda>c. cc_accessMode c = mode) xs))" for xs :: "connectorConnection list"
  proof (induction xs)
    case (Cons x xs)
    then show ?case by (cases "cc_accessMode x") (simp_all add: UNIV_enum enum_connectorAccessMode_def)
  qed simp
  then show ?thesis by (simp add: sectionOf_def)
qed

lemma toggled_denied: "set (toggled denied a sel) \<inter> set denied = set sel \<inter> set denied"
  by (auto simp: toggled_def)

lemma toggled_twice:
  assumes "a \<notin> set denied"
  shows "set (toggled denied a (toggled denied a sel)) = set sel"
  using assms by (auto simp: toggled_def)

lemma sendAll_prefix: "sendAll served rs = (sent, all) \<Longrightarrow> \<exists>rest. rs = sent @ rest \<and> (all \<longrightarrow> rest = [])"
proof (induction rs arbitrary: sent all)
  case (Cons r rs)
  obtain s b where sb: "sendAll served rs = (s, b)" by (cases "sendAll served rs")
  from Cons.IH[OF this] obtain rest where "rs = s @ rest \<and> (b \<longrightarrow> rest = [])" by blast
  with Cons.prems sb show ?case by (auto split: if_splits)
qed simp

section \<open>What a save of an OAuth client sends\<close>

lemma jget_stringRecord [simp]:
  "jget (stringRecord kvs) k = (case map_of kvs k of None \<Rightarrow> JUndef | Some v \<Rightarrow> JStr v)"
proof -
  have "map_of (map (\<lambda>(k, v). (k, JStr v)) kvs) k = map_option JStr (map_of kvs k)"
    by (induction kvs) auto
  then show ?thesis by (simp add: stringRecord_def split: option.split)
qed

lemma readStringRecord_stringRecord [simp]: "readStringRecord (stringRecord kvs) = Inr (stringRecord kvs)"
  by (auto simp: readStringRecord_def stringRecord_def list_all_iff)

lemma map_of_keyed: "map_of (map (\<lambda>f. (cf_key f, v (cf_key f))) fs) k = (if k \<in> cf_key ` set fs then Some (v k) else None)"
  by (induction fs) auto

lemma jget_oauthRecord:
  "jget (oauthRecord vals fs) k = (if k \<in> cf_key ` set fs then JStr (valueOf vals k) else JUndef)"
proof -
  have "map_of (rev (map (\<lambda>f. (cf_key f, valueOf vals (cf_key f))) fs)) k
      = (if k \<in> cf_key ` set fs then Some (valueOf vals k) else None)"
    using map_of_keyed[of "valueOf vals" "rev fs" k] by (simp add: rev_map)
  then show ?thesis by (simp add: oauthRecord_def map_of_js_map split: if_splits)
qed

lemma saved_oauth_config:
  assumes "saveEditor popup connections e = Inr rs" "PutOAuthConfig service body \<in> set rs"
  shows "body = oauthConfigBody (oauthFields (authDefinition (ee_provider e) (Some OAuth2))) e
    \<and> map_option cp_service (ee_provider e) = Some service
    \<and> validateFields (oauthFields (authDefinition (ee_provider e) (Some OAuth2))) (ee_oauthValues e) = Inr ()
    \<and> js_trim (ee_clientId e) \<noteq> [] \<and> js_trim (ee_clientSecret e) \<noteq> []"
  using assms unfolding saveEditor_def oauthRequests_def credentialRequest_def
  by (auto simp: Let_def split: if_splits option.splits)

lemma validated_required:
  assumes "validateFields fs vals = Inr u" "f \<in> set fs" "cf_required f"
  shows "js_trim (valueOf vals (cf_key f)) \<noteq> []"
proof -
  from assms(1) have "List.find (\<lambda>f. cf_required f \<and> js_trim (valueOf vals (cf_key f)) = []) fs = None"
    by (auto simp: validateFields_def split: option.splits)
  with assms(2,3) show ?thesis by (auto simp: find_None_iff)
qed

lemma oauthInput_configBody:
  assumes "js_trim (ee_clientId e) \<noteq> []"
  shows "oauthInput (oauthConfigBody fs e) = Inr (JObj [(''clientId'', JStr (js_trim (ee_clientId e))),
    (''clientSecret'', JStr (js_trim (ee_clientSecret e))),
    (''extra'', oauthRecord (ee_oauthValues e) (filter (\<lambda>f. \<not> toSecretExtra f) fs)),
    (''secretExtra'', oauthRecord (ee_oauthValues e) (filter toSecretExtra fs))])"
  using assms by (simp add: oauthInput_def oauthConfigBody_def readJsonRecord_def oauthRecord_def)

lemma secrets_apart:
  assumes "distinct (map cf_key fs)" "f \<in> set fs"
  shows "cf_key f \<in> cf_key ` set (filter P fs) \<longleftrightarrow> P f"
  using assms by (auto simp: distinct_map inj_on_def)

section \<open>Reading the text of the grants\<close>

definition plainPrincipal :: "string \<Rightarrow> bool" where
  "plainPrincipal v \<longleftrightarrow> v \<noteq> [] \<and> js_trim v = v \<and> CHR 0x0A \<notin> set v \<and> CHR '','' \<notin> set v \<and> last v \<noteq> CHR '':''"

lemma splitPrincipals_ne [simp]: "splitPrincipals s \<noteq> []"
  by (induction s rule: splitPrincipals.induct) (auto split: list.splits)

lemma splitPrincipals_line:
  assumes "CHR 0x0A \<notin> set w" "CHR '','' \<notin> set w" "w = [] \<or> last w \<noteq> CHR 0x0D"
  shows "splitPrincipals w = [w]" "splitPrincipals (w @ CHR 0x0A # s) = w # splitPrincipals s"
proof -
  have "splitPrincipals w = [w] \<and> splitPrincipals (w @ CHR 0x0A # s) = w # splitPrincipals s"
    using assms
  proof (induction w)
    case (Cons c w)
    show ?case
    proof (cases w)
      case (Cons d u)
      have "c \<noteq> CHR 0x0A" "c \<noteq> CHR '',''" "d \<noteq> CHR 0x0A" using Cons.prems Cons by auto
      with Cons.prems Cons.IH Cons show ?thesis by simp
    qed (use Cons.prems in auto)
  qed simp
  then show "splitPrincipals w = [w]" "splitPrincipals (w @ CHR 0x0A # s) = w # splitPrincipals s" by auto
qed

lemma splitPrincipals_join:
  assumes "ws \<noteq> []" "\<forall>w \<in> set ws. CHR 0x0A \<notin> set w \<and> CHR '','' \<notin> set w \<and> (w = [] \<or> last w \<noteq> CHR 0x0D)"
  shows "splitPrincipals (js_join LINE_END ws) = ws"
  using assms
proof (induction ws rule: induct_list012)
  case (3 w v ws)
  then show ?case
    using splitPrincipals_line(2)[of w "js_join LINE_END (v # ws)"] by (simp add: LINE_END_def)
qed (simp_all add: splitPrincipals_line(1))

lemma principalLines_join:
  assumes "\<forall>w \<in> set ws. w \<noteq> [] \<and> js_trim w = w \<and> CHR 0x0A \<notin> set w \<and> CHR '','' \<notin> set w"
  shows "principalLines (js_join LINE_END ws) = ws"
proof (cases "ws = []")
  case False
  have "last w \<noteq> CHR 0x0D" if "w \<in> set ws" for w
  proof
    assume "last w = CHR 0x0D"
    then have "is_space (last w)" by (simp add: is_space_def code_unit_def)
    moreover have "\<not> is_space (last w)" using js_trim_no_space_last[of w] assms that by auto
    ultimately show False by simp
  qed
  then have "splitPrincipals (js_join LINE_END ws) = ws" using False assms by (intro splitPrincipals_join) auto
  moreover have "map js_trim ws = ws" "filter (\<lambda>l. l \<noteq> []) ws = ws"
    using assms by (auto simp: map_idI filter_id_conv)
  ultimately show ?thesis by (simp add: principalLines_def)
qed (simp add: principalLines_def)

section \<open>Reopening the shared access of a connection\<close>

definition grantName :: "sharedGrant \<Rightarrow> string" where
  "grantName g = (if sg_type g = GroupPrincipal then or_else (sg_group g) [] else or_else (sg_email g) (or_else (sg_subject g) []))"

text \<open>A grant whose principal the editor's text can carry: an address has an at sign, a subject has
  none.\<close>

definition writableGrant :: "sharedGrant \<Rightarrow> bool" where
  "writableGrant g \<longleftrightarrow> sg_actions g \<noteq> [] \<and> plainPrincipal (grantName g)
     \<and> (sg_type g = UserPrincipal \<longrightarrow> (CHR ''@'' \<in> set (grantName g) \<longleftrightarrow> given (sg_email g) \<noteq> None))"

definition principalMembers :: "sharedGrant \<Rightarrow> (string \<times> json) list" where
  "principalMembers g = (if sg_type g = GroupPrincipal
       then [(''principalType'', JStr ''group''), (''groupName'', JStr (grantName g))]
     else if given (sg_email g) \<noteq> None
       then [(''principalType'', JStr ''user''), (''principalEmail'', JStr (grantName g))]
     else [(''principalType'', JStr ''user''), (''principalSubject'', JStr (grantName g))])"

lemma grantLine_name:
  "grantLine g = (if sg_type g = GroupPrincipal then ''group:'' else ''user:'') @ grantName g"
  by (simp add: grantLine_def grantName_def)

lemma grantLine_writable:
  assumes "writableGrant g"
  shows "grantLine g \<noteq> []" "js_trim (grantLine g) = grantLine g" "CHR 0x0A \<notin> set (grantLine g)"
    "CHR '','' \<notin> set (grantLine g)" "\<not> ends_with (grantLine g) '':''"
proof -
  have v: "grantName g \<noteq> []" "js_trim (grantName g) = grantName g" "CHR 0x0A \<notin> set (grantName g)"
      "CHR '','' \<notin> set (grantName g)" "last (grantName g) \<noteq> CHR '':''"
    using assms by (auto simp: writableGrant_def plainPrincipal_def)
  show "grantLine g \<noteq> []" by (simp add: grantLine_name)
  have "\<not> is_space (last (grantName g))" using js_trim_no_space_last[of "grantName g"] v(1,2) by simp
  then show "js_trim (grantLine g) = grantLine g"
    using v(1) by (intro js_trim_id disjI2) (simp add: grantLine_name is_space_def code_unit_def)
  show "CHR 0x0A \<notin> set (grantLine g)" "CHR '','' \<notin> set (grantLine g)"
    using v(3,4) by (auto simp: grantLine_name)
  have "rev (grantLine g) = last (grantName g) # tl (rev (grantName g)) @ rev (if sg_type g = GroupPrincipal then ''group:'' else ''user:'')"
    using v(1) by (simp add: grantLine_name hd_rev[symmetric])
  then show "\<not> ends_with (grantLine g) '':''" using v(5) by (simp add: ends_with_def starts_with_def)
qed

lemma grantOfLine_grantLine:
  assumes "writableGrant g"
  shows "grantOfLine actions (grantLine g) = Inr (JObj (principalMembers g @ [(''actionIds'', JArr (map JStr actions))]))"
proof -
  have v: "grantName g \<noteq> []" "js_trim (grantName g) = grantName g"
      "sg_type g = UserPrincipal \<Longrightarrow> CHR ''@'' \<in> set (grantName g) \<longleftrightarrow> given (sg_email g) \<noteq> None"
    using assms by (auto simp: writableGrant_def plainPrincipal_def)
  have "js_split (CHR '':'') (grantLine g)
      = (if sg_type g = GroupPrincipal then ''group'' else ''user'') # js_split (CHR '':'') (grantName g)"
    by (simp add: grantLine_name)
  moreover have "js_join '':'' (js_split (CHR '':'') (grantName g)) = grantName g"
    using js_join_split[of "CHR '':''"] by simp
  ultimately show ?thesis
    using v by (cases "sg_type g") (simp_all add: grantOfLine_def principalMembers_def)
qed

lemma lines_of_writable:
  assumes "list_all writableGrant gs"
  shows "principalLines (grantLines gs) = map grantLine gs"
proof -
  have "filter (\<lambda>l. \<not> ends_with l '':'') (map grantLine gs) = map grantLine gs"
    using assms grantLine_writable(5) by (auto simp: list_all_iff filter_id_conv)
  then show ?thesis
    using assms grantLine_writable(1-4) by (simp add: grantLines_def list_all_iff principalLines_join)
qed

lemma mapE_Inr: "(\<And>x. x \<in> set xs \<Longrightarrow> f x = Inr (g x)) \<Longrightarrow> mapE f xs = Inr (map g xs)"
  by (induction xs) auto

lemma mapE_map_Inr: "(\<And>x. f (h x) = Inr (g x)) \<Longrightarrow> mapE f (map h xs) = Inr (map g xs)"
  by (induction xs) auto

lemma grants_of_writable:
  assumes "list_all writableGrant gs"
  shows "mapE (grantOfLine actions) (principalLines (grantLines gs))
    = Inr (map (\<lambda>g. JObj (principalMembers g @ [(''actionIds'', JArr (map JStr actions))])) gs)"
proof -
  have "mapE (grantOfLine actions) (map grantLine gs) = mapE (\<lambda>g. grantOfLine actions (grantLine g)) gs"
    by (induction gs) auto
  also have "\<dots> = Inr (map (\<lambda>g. JObj (principalMembers g @ [(''actionIds'', JArr (map JStr actions))])) gs)"
    using assms by (intro mapE_Inr grantOfLine_grantLine) (auto simp: list_all_iff)
  finally show ?thesis using assms by (simp add: lines_of_writable)
qed

text \<open>What the server reads of a grant of the editor: no times, and always enabled.\<close>

definition readGrant :: "string list \<Rightarrow> sharedGrant \<Rightarrow> json" where
  "readGrant actions g = (let member = (\<lambda>k. case map_of (principalMembers g) k of None \<Rightarrow> JUndef | Some v \<Rightarrow> v) in JObj [
     (''principalType'', member ''principalType''), (''principalSubject'', member ''principalSubject''),
     (''principalEmail'', member ''principalEmail''), (''groupName'', member ''groupName''),
     (''actionIds'', JArr (map JStr actions)), (''startsAt'', JUndef), (''expiresAt'', JUndef), (''enabled'', JBool True)])"

lemma strings_of_strings [simp]: "strings_of (JArr (map JStr xs)) = JArr (map JStr xs)"
  by (simp add: strings_of_def filter_map comp_def)

lemma grantInputs_editor:
  "grantInputs (JArr (map (\<lambda>g. JObj (principalMembers g @ [(''actionIds'', JArr (map JStr actions))])) gs))
    = Inr (JArr (map (readGrant actions) gs))"
proof -
  have item: "(if \<not> is_object item then Inl err else Inr (JObj [
           (''principalType'', JStr (if jget item ''principalType'' = JStr ''group'' then ''group'' else ''user'')),
           (''principalSubject'', optional_field item ''principalSubject''),
           (''principalEmail'', optional_field item ''principalEmail''),
           (''groupName'', optional_field item ''groupName''),
           (''actionIds'', strings_of (jget item ''actionIds'')),
           (''startsAt'', optional_field item ''startsAt''),
           (''expiresAt'', optional_field item ''expiresAt''),
           (''enabled'', JBool (jget item ''enabled'' \<noteq> JBool False))])) = Inr (readGrant actions g)"
    if "item = JObj (principalMembers g @ [(''actionIds'', JArr (map JStr actions))])" for item g and err :: appError
    using that by (cases "sg_type g = GroupPrincipal"; cases "given (sg_email g) = None")
      (simp_all add: principalMembers_def readGrant_def optional_field_def)
  show ?thesis
    unfolding grantInputs_def json.case
    by (subst mapE_map_Inr[where g = "readGrant actions"
        and h = "\<lambda>g. JObj (principalMembers g @ [(''actionIds'', JArr (map JStr actions))])"])
      (rule item[OF refl], simp)
qed

text \<open>The editor after its answers, for a connection shared by hand.\<close>

lemma reopened_editor:
  assumes "accessLoaded c (Some (snapshot, provider)) (Some (manageSharedAccess c)) = Some e"
    "resourceFor c snapshot = Some r" "sr_mode r = Manual"
  shows "ax_connection e = c" "ax_provider e = Some provider" "ax_principals e = grantLines (sr_grants r)"
    "ax_actions e = dedup (concat (map sg_actions (sr_grants r)))"
  using assms by (auto simp: accessLoaded_def manageSharedAccess_def resourceActions_def Let_def)

lemma writable_have_actions:
  assumes "list_all writableGrant gs" "gs \<noteq> []"
  shows "dedup (concat (map sg_actions gs)) \<noteq> []"
  using assms by (cases gs) (auto simp: writableGrant_def)

section \<open>Properties\<close>

text \<open>C37: Secrets of an OAuth client are kept apart: when a save of the editor sends a client configuration, the
  route accepts it, and in what it hands to OpenConnector every secret field stands under secretExtra only,
  every other field under extra only, each with the value of the form, and the client's identifier and secret
  and the required fields are not blank.\<close>

theorem oauth_secrets_separated:
  assumes "saveEditor popup connections e = Inr rs" "PutOAuthConfig service body \<in> set rs"
    "distinct (map cf_key (oauthFields (authDefinition (ee_provider e) (Some OAuth2))))"
  shows "\<exists>input. oauthInput body = Inr input
    \<and> (\<forall>f \<in> set (oauthFields (authDefinition (ee_provider e) (Some OAuth2))).
        (let v = JStr (valueOf (ee_oauthValues e) (cf_key f)) in
         (jget (jget input ''extra'') (cf_key f), jget (jget input ''secretExtra'') (cf_key f))
           = (if cf_location f = Some LocSecretExtra \<or> cf_secret f then (JUndef, v) else (v, JUndef)))
        \<and> (cf_required f \<longrightarrow> js_trim (valueOf (ee_oauthValues e) (cf_key f)) \<noteq> []))
    \<and> jget input ''clientId'' = JStr (js_trim (ee_clientId e)) \<and> js_trim (ee_clientId e) \<noteq> []
    \<and> jget input ''clientSecret'' = JStr (js_trim (ee_clientSecret e)) \<and> js_trim (ee_clientSecret e) \<noteq> []"
proof -
  let ?fs = "oauthFields (authDefinition (ee_provider e) (Some OAuth2))"
  note saved = saved_oauth_config[OF assms(1,2)]
  have input: "oauthInput body = Inr (JObj [(''clientId'', JStr (js_trim (ee_clientId e))),
    (''clientSecret'', JStr (js_trim (ee_clientSecret e))),
    (''extra'', oauthRecord (ee_oauthValues e) (filter (\<lambda>f. \<not> toSecretExtra f) ?fs)),
    (''secretExtra'', oauthRecord (ee_oauthValues e) (filter toSecretExtra ?fs))])"
    using saved oauthInput_configBody by blast
  show ?thesis
  proof (intro exI conjI ballI impI)
    fix f assume f: "f \<in> set ?fs"
    note apart = secrets_apart[OF assms(3) f, of toSecretExtra] secrets_apart[OF assms(3) f, of "\<lambda>f. \<not> toSecretExtra f"]
    show "let v = JStr (valueOf (ee_oauthValues e) (cf_key f)) in
      (jget (jget (JObj [(''clientId'', JStr (js_trim (ee_clientId e))),
        (''clientSecret'', JStr (js_trim (ee_clientSecret e))),
        (''extra'', oauthRecord (ee_oauthValues e) (filter (\<lambda>f. \<not> toSecretExtra f) ?fs)),
        (''secretExtra'', oauthRecord (ee_oauthValues e) (filter toSecretExtra ?fs))]) ''extra'') (cf_key f),
       jget (jget (JObj [(''clientId'', JStr (js_trim (ee_clientId e))),
        (''clientSecret'', JStr (js_trim (ee_clientSecret e))),
        (''extra'', oauthRecord (ee_oauthValues e) (filter (\<lambda>f. \<not> toSecretExtra f) ?fs)),
        (''secretExtra'', oauthRecord (ee_oauthValues e) (filter toSecretExtra ?fs))]) ''secretExtra'') (cf_key f))
      = (if cf_location f = Some LocSecretExtra \<or> cf_secret f then (JUndef, v) else (v, JUndef))"
      using apart by (simp add: jget_oauthRecord Let_def toSecretExtra_def)
    show "js_trim (valueOf (ee_oauthValues e) (cf_key f)) \<noteq> []" if "cf_required f"
      using saved validated_required f that by blast
  qed (use saved input in auto)
qed


section \<open>Examples\<close>

definition demo_field :: "string \<Rightarrow> bool \<Rightarrow> connectorOAuthClientField" where
  "demo_field key secret = \<lparr>cf_key = key, cf_label = key, cf_inputType = InText, cf_required = True, cf_secret = secret,
     cf_placeholder = None, cf_description = None, cf_location = None, cf_defaultValue = None\<rparr>"

definition demo_oauth_provider :: connectorProviderDetail where
  "demo_oauth_provider = \<lparr>cp_service = ''jira'', cp_displayName = ''Jira'', cp_description = None, cp_categories = [],
     cp_authTypes = [OAuth2], cp_iconUrl = None, cp_actionCount = 2,
     cp_auth = [DefOAuth2 [] [demo_field ''tenant'' False, demo_field ''signingKey'' True]], cp_actions = []\<rparr>"

definition demo_oauth_editor :: connectorEditor where
  "demo_oauth_editor = (providerSelected [] demo_oauth_provider None addConnector)
     \<lparr>ee_clientId := ''cid'', ee_clientSecret := ''cs'', ee_oauthValues := [(''tenant'', ''t1''), (''signingKey'', ''k1'')]\<rparr>"

lemma demo_oauth_saved:
  "saveEditor True [] demo_oauth_editor = Inr [PutOAuthConfig ''jira''
       (oauthConfigBody [demo_field ''tenant'' False, demo_field ''signingKey'' True] demo_oauth_editor),
     PostAuthorization (JObj [(''service'', JStr ''jira''), (''connectionName'', JStr ''default'')])]"
  by code_simp

lemma demo_oauth_fields:
  "oauthFields (authDefinition (ee_provider demo_oauth_editor) (Some OAuth2))
    = [demo_field ''tenant'' False, demo_field ''signingKey'' True]"
  by code_simp

theorem oauth_secrets_separated_witness:
  "\<exists>input. oauthInput (oauthConfigBody [demo_field ''tenant'' False, demo_field ''signingKey'' True] demo_oauth_editor) = Inr input
    \<and> jget (jget input ''extra'') ''signingKey'' = JUndef \<and> jget (jget input ''secretExtra'') ''signingKey'' = JStr ''k1''
    \<and> jget (jget input ''extra'') ''tenant'' = JStr ''t1'' \<and> jget (jget input ''secretExtra'') ''tenant'' = JUndef"
  using oauth_secrets_separated[OF demo_oauth_saved list.set_intros(1)]
  unfolding demo_oauth_fields
  by (simp add: demo_field_def Let_def demo_oauth_editor_def valueOf_def) blast

definition demo_grant :: "string \<Rightarrow> string list \<Rightarrow> sharedGrant" where
  "demo_grant address actions = \<lparr>sg_id = address, sg_type = UserPrincipal, sg_issuer = ''idp'', sg_subject = None,
     sg_email = Some address, sg_group = None, sg_actions = actions, sg_starts = None, sg_expires = Some 5, sg_enabled = False\<rparr>"

definition demo_shared_resource :: sharedResource where
  "demo_shared_resource = \<lparr>sr_id = ''r1'', sr_service = ''jira'', sr_connectionName = ''main'', sr_displayName = ''Jira'',
     sr_securityDomain = ''general'', sr_mode = Manual, sr_organizationId = None, sr_organizationName = None, sr_actions = [],
     sr_enabled = True, sr_grants = [demo_grant ''ann@x'' [''jira.read''], demo_grant ''bob@x'' [''jira.delete'']], sr_updatedAt = 0\<rparr>"

definition demo_access :: accessSnapshot where
  "demo_access = \<lparr>sa_resources = [demo_shared_resource], sa_organizations = [], sa_hardDenied = [], sa_updatedAt = 0\<rparr>"

definition demo_shared_connection :: connectorConnection where
  "demo_shared_connection = \<lparr>cc_id = ''c1'', cc_service = ''jira'', cc_connectionName = ''main'', cc_authType = ApiKey,
     cc_accessMode = AccessGlobal, cc_configured = True, cc_virtual = False, cc_default = False, cc_accountId = [],
     cc_displayName = ''Jira'', cc_grantedScopes = [], cc_localAccount = None, cc_sharedAccess = None\<rparr>"

definition demo_access_editor :: accessEditor where
  "demo_access_editor = the (accessLoaded demo_shared_connection (Some (demo_access, demo_oauth_provider))
     (Some (manageSharedAccess demo_shared_connection)))"


end
