(* ===== verification/Integration_Editor.thy ===== *)
theory Integration_Editor
  imports Connector_Editor Permission_Import
begin

text \<open>
  The administrator's page of the enterprise applications (components/integration-manager.tsx and
  GET of app/api/integrations): the form of an application, the choice of its actions with the
  search, the permissions it needs and the import of permissions, and the requests of the page.
  A request of the page and the reading of the new list count as one answer. Texts, the drawer and
  the focus of the keyboard are left out.
\<close>

section \<open>The form\<close>

record applicationEditor =
  ie_application :: "applicationView option"
  ie_platform :: platform
  ie_name :: string
  ie_appId :: string
  ie_remark :: string
  ie_appSecret :: string
  ie_actionIds :: "string list"

datatype integrationState = PageIdle | PageSaving | PageSaved | PageDeleting | PageActivating | PageFailed

record integrationPage =
  ip_groups :: "integrationGroup list"
  ip_editor :: "applicationEditor option"
  ip_state :: integrationState

definition platformGroup :: "integrationGroup list \<Rightarrow> platform \<Rightarrow> integrationGroup option" where
  "platformGroup groups p = List.find (\<lambda>g. ig_platform g = p) groups"

definition closeApplication :: "integrationPage \<Rightarrow> integrationPage" where
  "closeApplication pg = (if ip_state pg = PageSaving \<or> ip_state pg = PageDeleting then pg else pg\<lparr>ip_editor := None\<rparr>)"

definition addApplication :: "platform \<Rightarrow> integrationPage \<Rightarrow> integrationPage" where
  "addApplication p pg = pg\<lparr>ip_editor := Some \<lparr>ie_application = None, ie_platform = p, ie_name = [], ie_appId = [],
       ie_remark = [], ie_appSecret = [],
       ie_actionIds = (case platformGroup (ip_groups pg) p of None \<Rightarrow> [] | Some g \<Rightarrow> ig_defaultActionIds g)\<rparr>,
     ip_state := PageIdle\<rparr>"

definition applicationForm :: "applicationView \<Rightarrow> applicationEditor" where
  "applicationForm a = \<lparr>ie_application = Some a, ie_platform = av_platform a, ie_name = av_name a, ie_appId = av_appId a,
     ie_remark = av_remark a, ie_appSecret = [], ie_actionIds = av_actionIds a\<rparr>"

definition editApplication :: "applicationView \<Rightarrow> integrationPage \<Rightarrow> integrationPage" where
  "editApplication a pg = pg\<lparr>ip_editor := Some (applicationForm a), ip_state := PageIdle\<rparr>"

definition toggleAction :: "string \<Rightarrow> applicationEditor \<Rightarrow> applicationEditor" where
  "toggleAction actionId e = e\<lparr>ie_actionIds := toggled [] actionId (ie_actionIds e)\<rparr>"

definition setFilteredActions :: "string list \<Rightarrow> bool \<Rightarrow> applicationEditor \<Rightarrow> applicationEditor" where
  "setFilteredActions actionIds selected e = e\<lparr>ie_actionIds :=
     (if selected then dedup (ie_actionIds e @ actionIds)
      else filter (\<lambda>a. a \<notin> set actionIds) (dedup (ie_actionIds e)))\<rparr>"

definition replaceActions :: "string list \<Rightarrow> applicationEditor \<Rightarrow> applicationEditor" where
  "replaceActions actionIds e = e\<lparr>ie_actionIds := actionIds\<rparr>"

section \<open>The list of actions\<close>

definition actionMatches :: "string \<Rightarrow> actionOption \<Rightarrow> bool" where
  "actionMatches query a \<longleftrightarrow> (let q = js_lower (js_trim query) in q = []
     \<or> js_includes (js_lower (ao_name a)) q \<or> js_includes (js_lower (ao_id a)) q
     \<or> js_includes (js_lower (or_else (ao_description a) [])) q
     \<or> list_ex (\<lambda>permission. js_includes (js_lower permission) q) (ao_providerPermissions a))"

definition filteredIds :: "string \<Rightarrow> integrationGroup \<Rightarrow> string list" where
  "filteredIds query g = map ao_id (filter (actionMatches query) (ig_actions g))"

text \<open>The button beside the search selects the actions found, or clears them when all are selected.\<close>

definition pressFiltered :: "string \<Rightarrow> integrationGroup \<Rightarrow> applicationEditor \<Rightarrow> applicationEditor" where
  "pressFiltered query g e = (let found = filteredIds query g in
     if found = [] then e
     else setFilteredActions found (\<not> list_all (\<lambda>a. a \<in> set (ie_actionIds e)) found) e)"

definition scopesOf :: "integrationGroup \<Rightarrow> string list \<Rightarrow> string list" where
  "scopesOf g selectedActionIds = dedup (ig_oauthBaseScopes g
     @ concat (map ao_providerPermissions (filter (\<lambda>a. ao_id a \<in> set selectedActionIds) (ig_actions g))))"

definition removeScope :: "string \<Rightarrow> integrationGroup \<Rightarrow> applicationEditor \<Rightarrow> applicationEditor" where
  "removeScope permission g e = (if permission \<in> set (ig_oauthBaseScopes g) then e
     else replaceActions (removeActionsRequiringPermission (ig_actions g) (ie_actionIds e) permission) e)"

datatype importFeedback = ImportFailed permissionImportError | NothingCovered | ImportedAll nat nat | ImportedSome nat nat

definition importFeishuPermissions ::
    "string \<Rightarrow> integrationGroup \<Rightarrow> applicationEditor \<Rightarrow> importFeedback \<times> applicationEditor" where
  "importFeishuPermissions pasted g e = (case parseFeishuPermissionExport pasted of
     Inl problem \<Rightarrow> (ImportFailed problem, e)
   | Inr imported \<Rightarrow>
       (let selection = selectActionsForImportedPermissions (ig_actions g) (im_scopes imported) (ig_oauthBaseScopes g) in
        if im_actionIds selection = [] then (NothingCovered, e)
        else (if im_unmatchedScopes selection \<noteq> []
            then ImportedSome (length (im_actionIds selection)) (length (im_unmatchedScopes selection))
            else ImportedAll (length (im_scopes imported)) (length (im_actionIds selection)),
          replaceActions (im_actionIds selection) e)))"

section \<open>Requests\<close>

datatype applicationProblem = NameEmpty | AppIdEmpty | AppSecretEmpty | NoActionSelected

datatype applicationCall = PostApplication json | PutApplication string json
  | DeleteApplication string | ActivateApplication string

definition applicationBody :: "applicationEditor \<Rightarrow> json" where
  "applicationBody e = JObj ([(''platform'', JStr (platformText (ie_platform e))), (''name'', JStr (ie_name e)),
       (''appId'', JStr (ie_appId e)), (''note'', JStr (ie_remark e))]
     @ (if ie_appSecret e = [] then [] else [(''appSecret'', JStr (ie_appSecret e))])
     @ [(''actionIds'', JArr (map JStr (ie_actionIds e)))])"

definition applicationRequest :: "integrationGroup list \<Rightarrow> applicationEditor \<Rightarrow> applicationProblem + applicationCall" where
  "applicationRequest groups e =
     bindE (guardE (js_trim (ie_name e) \<noteq> []) NameEmpty) (\<lambda>_.
     bindE (guardE (js_trim (ie_appId e) \<noteq> []) AppIdEmpty) (\<lambda>_.
     bindE (guardE (\<not> (ie_application e = None \<and> js_trim (ie_appSecret e) = [])) AppSecretEmpty) (\<lambda>_.
     bindE (guardE (\<not> ((case platformGroup groups (ie_platform e) of None \<Rightarrow> [] | Some g \<Rightarrow> ig_actions g) \<noteq> []
         \<and> ie_actionIds e = [])) NoActionSelected) (\<lambda>_.
     Inr (case ie_application e of None \<Rightarrow> PostApplication (applicationBody e)
       | Some a \<Rightarrow> PutApplication (av_id a) (applicationBody e))))))"

definition saveApplication :: "integrationPage \<Rightarrow> applicationCall option \<times> integrationPage" where
  "saveApplication pg = (case ip_editor pg of None \<Rightarrow> (None, pg)
     | Some e \<Rightarrow> (case applicationRequest (ip_groups pg) e of
         Inl problem \<Rightarrow> (None, pg\<lparr>ip_state := PageFailed\<rparr>)
       | Inr r \<Rightarrow> (Some r, pg\<lparr>ip_state := PageSaving\<rparr>)))"

definition deleteApplication :: "bool \<Rightarrow> integrationPage \<Rightarrow> applicationCall option \<times> integrationPage" where
  "deleteApplication confirmed pg = (case Option.bind (ip_editor pg) ie_application of None \<Rightarrow> (None, pg)
     | Some a \<Rightarrow> if confirmed then (Some (DeleteApplication (av_id a)), pg\<lparr>ip_state := PageDeleting\<rparr>) else (None, pg))"

definition activateApplication :: "applicationView \<Rightarrow> integrationPage \<Rightarrow> applicationCall option \<times> integrationPage" where
  "activateApplication a pg = (if av_active a \<or> ip_state pg = PageActivating then (None, pg)
     else (Some (ActivateApplication (av_id a)), pg\<lparr>ip_state := PageActivating\<rparr>))"

text \<open>The answer: the new list when the request and the reading after it were served.\<close>

definition requestAnswered :: "bool \<Rightarrow> integrationGroup list option \<Rightarrow> integrationPage \<Rightarrow> integrationPage" where
  "requestAnswered closes reply pg = (case reply of None \<Rightarrow> pg\<lparr>ip_state := PageFailed\<rparr>
     | Some groups \<Rightarrow> pg\<lparr>ip_groups := groups, ip_editor := (if closes then None else ip_editor pg), ip_state := PageSaved\<rparr>)"

text \<open>The list is read by an administrator only.\<close>

definition integrationsGet ::
    "migrationEnv \<Rightarrow> (platform \<Rightarrow> ocEnv) \<Rightarrow> (string \<Rightarrow> string \<Rightarrow> bool) \<Rightarrow> int \<Rightarrow> bool \<Rightarrow> (appError + platformIdentity) \<Rightarrow> db
      \<Rightarrow> (int + integrationGroup list \<times> int) \<times> bool \<times> db" where
  "integrationsGet menv oc collate now settled auth d = (case auth of
     Inl err \<Rightarrow> (Inl (routeStatus 500 err), settled, d)
   | Inr _ \<Rightarrow> (case getEnterpriseIntegrations menv oc collate now settled d of (r, st) \<Rightarrow> (answerOf 500 r, st)))"

section \<open>Choosing actions\<close>

lemma setFiltered_selects: "set (ie_actionIds (setFilteredActions ids True e)) = set (ie_actionIds e) \<union> set ids"
  by (simp add: setFilteredActions_def)

lemma setFiltered_clears: "set (ie_actionIds (setFilteredActions ids False e)) = set (ie_actionIds e) - set ids"
  by (auto simp: setFilteredActions_def)

text \<open>A press selects all actions found, a press on the full selection clears them, no other action is
  touched.\<close>

lemma pressFiltered_set:
  "set (ie_actionIds (pressFiltered query g e))
    = (if set (filteredIds query g) \<subseteq> set (ie_actionIds e) then set (ie_actionIds e) - set (filteredIds query g)
       else set (ie_actionIds e) \<union> set (filteredIds query g))"
proof -
  have "list_all (\<lambda>a. a \<in> set (ie_actionIds e)) (filteredIds query g) \<longleftrightarrow> set (filteredIds query g) \<subseteq> set (ie_actionIds e)"
    by (auto simp: list_all_iff)
  then show ?thesis
    by (cases "set (filteredIds query g) \<subseteq> set (ie_actionIds e)")
      (simp_all add: pressFiltered_def Let_def setFiltered_selects setFiltered_clears)
qed

lemma removed_scope_gone:
  assumes "permission \<notin> set (ig_oauthBaseScopes g)" "distinct (map ao_id (ig_actions g))"
  shows "permission \<notin> set (scopesOf g (ie_actionIds (removeScope permission g e)))"
proof -
  have "permission \<notin> set (ao_providerPermissions a)"
    if "a \<in> set (ig_actions g)" "ao_id a \<in> set (removeActionsRequiringPermission (ig_actions g) (ie_actionIds e) permission)" for a
  proof -
    have "map_of (rev (map (\<lambda>a. (ao_id a, a)) (ig_actions g))) (ao_id a) = Some a"
      using that(1) assms(2) by (intro map_of_is_SomeI) (auto simp: comp_def rev_map distinct_map)
    then show ?thesis using that(2) by (auto simp: removeActionsRequiringPermission_def map_of_js_map)
  qed
  with assms(1) show ?thesis by (auto simp: scopesOf_def removeScope_def replaceActions_def)
qed

section \<open>What a save leaves\<close>

lemma body_members:
  "jget (applicationBody e) ''platform'' = JStr (platformText (ie_platform e))"
  "jget (applicationBody e) ''name'' = JStr (ie_name e)"
  "jget (applicationBody e) ''appId'' = JStr (ie_appId e)"
  "jget (applicationBody e) ''note'' = JStr (ie_remark e)"
  "jget (applicationBody e) ''appSecret'' = (if ie_appSecret e = [] then JUndef else JStr (ie_appSecret e))"
  "jget (applicationBody e) ''actionIds'' = JArr (map JStr (ie_actionIds e))"
  "is_object (applicationBody e)"
  by (simp_all add: applicationBody_def)

lemma requested_strings:
  "requestedActionIds (JArr (map JStr ids)) fallback = Some (dedup (filter (\<lambda>s. s \<noteq> []) (map js_trim ids)))"
  by (simp add: requestedActionIds_def comp_def)

lemma optionalSecret_blank: "js_trim s = [] \<Longrightarrow> optionalSecret (if s = [] then JUndef else JStr s) = Inr None"
  by (simp add: optionalSecret_def)

lemma optionalSecret_given:
  "js_trim s \<noteq> [] \<Longrightarrow> optionalSecret (if s = [] then JUndef else JStr s) = Inr x \<Longrightarrow> x = Some s"
  by (auto simp: optionalSecret_def requiredSecret_def split: if_splits)

text \<open>The row a form saves into: the name, the identifier and the remark without outer space, the
  actions once each, a new secret only when one was typed.\<close>

definition savedFrom :: "integrationEnv \<Rightarrow> applicationEditor \<Rightarrow> int \<Rightarrow> applicationRow \<Rightarrow> applicationRow \<Rightarrow> bool" where
  "savedFrom env e now old row \<longleftrightarrow> ap_id row = ap_id old \<and> ap_platform row = ap_platform old
     \<and> ap_active row = ap_active old \<and> ap_created_at row = ap_created_at old \<and> ap_updated_at row = now
     \<and> ap_app_name row = js_trim (ie_name e) \<and> ap_app_id row = js_trim (ie_appId e) \<and> ap_note row = js_trim (ie_remark e)
     \<and> ap_action_ids row = JArr (map JStr (dedup (filter (\<lambda>s. s \<noteq> []) (map js_trim (ie_actionIds e)))))
     \<and> (if js_trim (ie_appSecret e) = [] then ap_secret row = ap_secret old
        else decryptIntegrationSecret (ie_crypto env) (ie_key env) (ap_secret row) = Inr (ie_appSecret e))"

lemma applicationToUpdate_saved:
  assumes "crypto_laws (ie_crypto env)" "iv \<noteq> []"
    "applicationToUpdate env iv now i \<lparr>up_name = jget (applicationBody e) ''name'', up_appId = jget (applicationBody e) ''appId'',
      up_remark = jget (applicationBody e) ''note'', up_appSecret = jget (applicationBody e) ''appSecret'',
      up_actionIds = jget (applicationBody e) ''actionIds''\<rparr> d = Inr row"
  shows "\<exists>old. requiredUuid i = Inr (ap_id old) \<and> findApplication d (ap_id old) = Some old \<and> savedFrom env e now old row"
proof -
  obtain k old where k: "requiredUuid i = Inr k" "findApplication d k = Some old"
    using assms(3) unfolding applicationToUpdate_def by (auto split: option.split_asm)
  then obtain name appId remark secret ids sealed where u:
    "requiredValue (JStr (ie_name e)) LabelName APP_NAME_MAX_LENGTH = Inr name"
    "requiredValue (JStr (ie_appId e)) LabelAppId APP_ID_MAX_LENGTH = Inr appId"
    "optionalValue (JStr (ie_remark e)) LabelRemark APP_NOTE_MAX_LENGTH = Inr remark"
    "optionalSecret (if ie_appSecret e = [] then JUndef else JStr (ie_appSecret e)) = Inr secret"
    "normalizeIntegrationActionIds (ie_connector env) (ap_platform old) (JArr (map JStr (ie_actionIds e)))
       (storedActionIds (ap_action_ids old)) = Inr ids"
    "(case secret of None \<Rightarrow> Inr (ap_secret old) | Some s \<Rightarrow> encryptIntegrationSecret (ie_crypto env) (ie_key env) iv s) = Inr sealed"
    "old\<lparr>ap_app_name := name, ap_app_id := appId, ap_note := remark, ap_action_ids := JArr (map JStr ids),
      ap_secret := sealed, ap_updated_at := now\<rparr> = row"
    using assms(3) unfolding applicationToUpdate_def body_members updateInput.simps k bindE.simps option.case bindE_eq_Inr sum.inject
    by blast
  have texts: "name = js_trim (ie_name e)" "appId = js_trim (ie_appId e)" "remark = js_trim (ie_remark e)"
    using u(1-3) by (auto simp: requiredValue_def optionalValue_def Let_def split: if_splits)
  have ids: "ids = dedup (filter (\<lambda>s. s \<noteq> []) (map js_trim (ie_actionIds e)))"
    using u(5) by (auto elim!: normalizeIntegrationActionIds_ok simp: requested_strings)
  have "if js_trim (ie_appSecret e) = [] then sealed = ap_secret old
      else decryptIntegrationSecret (ie_crypto env) (ie_key env) sealed = Inr (ie_appSecret e)"
  proof (cases "js_trim (ie_appSecret e) = []")
    case True
    then show ?thesis using u(4,6) optionalSecret_blank by simp
  next
    case False
    then have "secret = Some (ie_appSecret e)" using u(4) optionalSecret_given by blast
    with False u(6) show ?thesis
      using decrypt_encrypt[OF assms(1) _ assms(2)] by (cases "ie_appSecret e") auto
  qed
  moreover have "ap_id old = k" using findApplication_Some[OF k(2)] by simp
  ultimately show ?thesis
    using k u(7) texts ids by (intro exI[of _ old]) (auto simp: savedFrom_def)
qed

lemma trimmed_ids_again:
  "dedup (filter (\<lambda>s. s \<noteq> []) (map js_trim (dedup (filter (\<lambda>s. s \<noteq> []) (map js_trim ids)))))
    = dedup (filter (\<lambda>s. s \<noteq> []) (map js_trim ids))"
proof -
  let ?t = "dedup (filter (\<lambda>s. s \<noteq> []) (map js_trim ids))"
  have "map js_trim ?t = ?t" by (rule map_idI) auto
  moreover have "filter (\<lambda>s. s \<noteq> []) ?t = ?t" by (auto simp: filter_id_conv)
  ultimately show ?thesis by (simp only: dedup_idem)
qed

lemma reopened_form:
  assumes "savedFrom env e now old row"
  shows "savedFrom env (applicationForm (serializeApplication row)) now' row row' \<Longrightarrow> row' = row\<lparr>ap_updated_at := now'\<rparr>"
proof -
  let ?ids = "dedup (filter (\<lambda>s. s \<noteq> []) (map js_trim (ie_actionIds e)))"
  have "storedActionIds (ap_action_ids row) = dedup ?ids"
    using assms unfolding savedFrom_def by (simp only:) (rule storedActionIds_strings, auto)
  then have ids: "storedActionIds (ap_action_ids row) = ?ids" by simp
  have "JArr (map JStr (dedup (filter (\<lambda>s. s \<noteq> []) (map js_trim (storedActionIds (ap_action_ids row)))))) = ap_action_ids row"
    unfolding ids trimmed_ids_again using assms by (simp add: savedFrom_def)
  moreover have "js_trim (ap_app_name row) = ap_app_name row" "js_trim (ap_app_id row) = ap_app_id row"
    "js_trim (ap_note row) = ap_note row"
    using assms by (simp_all only: savedFrom_def js_trim_idem)
  moreover assume "savedFrom env (applicationForm (serializeApplication row)) now' row row'"
  ultimately show ?thesis
    by (cases row; cases row') (simp add: savedFrom_def applicationForm_def serializeApplication_def)
qed

lemma applicationRequest_put:
  assumes "applicationRequest groups e = Inr (PutApplication i body)"
  shows "body = applicationBody e \<and> map_option av_id (ie_application e) = Some i"
  using assms by (auto simp: applicationRequest_def split: option.split_asm)

lemma integrationPut_form:
  "integrationPut env draw now (Inr admin) i (Some (applicationBody e)) w
    = onStore (answered 500 200 ApplicationBody (updateIntegrationApplication (am_integration env) (dw_iv draw) now i
       \<lparr>up_name = jget (applicationBody e) ''name'', up_appId = jget (applicationBody e) ''appId'',
        up_remark = jget (applicationBody e) ''note'', up_appSecret = jget (applicationBody e) ''appSecret'',
        up_actionIds = jget (applicationBody e) ''actionIds''\<rparr> (fst w))) w"
  by (simp add: integrationPut_def requestBody_def body_members)

section \<open>Properties\<close>


text \<open>The choices the page offers: the box of an action, the button beside the search, the cross at a
  permission.\<close>

datatype actionChoice = ChooseAction string | ChooseFound string | ChooseWithoutScope string

fun pick :: "integrationGroup \<Rightarrow> actionChoice \<Rightarrow> applicationEditor \<Rightarrow> applicationEditor" where
  "pick g (ChooseAction i) e = (if i \<in> set (map ao_id (ig_actions g)) then toggleAction i e else e)"
| "pick g (ChooseFound query) e = pressFiltered query g e"
| "pick g (ChooseWithoutScope scope) e = removeScope scope g e"

lemma choose_keeps_obsolete:
  assumes "obsolete \<notin> set (map ao_id (ig_actions g))" "obsolete \<in> set (ie_actionIds e)"
  shows "obsolete \<in> set (ie_actionIds (pick g c e))"
proof (cases c)
  case (ChooseAction i)
  with assms show ?thesis by (auto simp: toggleAction_def toggled_def)
next
  case (ChooseFound query)
  have "obsolete \<notin> set (filteredIds query g)" using assms(1) by (auto simp: filteredIds_def)
  with assms(2) ChooseFound show ?thesis by (simp add: pressFiltered_set)
next
  case (ChooseWithoutScope scope)
  have "map_of (rev (map (\<lambda>a. (ao_id a, a)) (ig_actions g))) obsolete = None"
    using assms(1) by (auto simp: map_of_eq_None_iff)
  with assms(2) ChooseWithoutScope show ?thesis
    by (auto simp: removeScope_def replaceActions_def removeActionsRequiringPermission_def map_of_js_map)
qed

text \<open>An action of an application that the connector no longer offers blocks every edit: no choice of the page
  takes it off the selection, and the route refuses each save that carries it and changes nothing.\<close>

theorem obsolete_action_blocks_edit:
  assumes "obsolete \<notin> set (map ao_id (ig_actions g))" "obsolete \<in> set (ie_actionIds e)"
    "js_trim obsolete = obsolete" "obsolete \<noteq> []"
    "\<forall>p c. integrationActionCatalog (ie_connector (am_integration env)) p = Inr c \<longrightarrow> obsolete \<notin> set (map ao_id (ac_actions c))"
    "chosen = fold (pick g) choices e"
  shows "obsolete \<in> set (ie_actionIds chosen)
    \<and> (\<exists>status err. integrationPut env draw now (Inr admin) i
        (Some (applicationBody (chosen\<lparr>ie_name := n, ie_appId := a, ie_remark := k, ie_appSecret := s\<rparr>))) w
      = (AdminError status err, w))"
proof
  have kept: "obsolete \<in> set (ie_actionIds (fold (pick g) cs e'))" if "obsolete \<in> set (ie_actionIds e')" for cs e'
    using that by (induction cs arbitrary: e') (simp_all add: choose_keeps_obsolete[OF assms(1)])
  show stays: "obsolete \<in> set (ie_actionIds chosen)" unfolding assms(6) by (rule kept[OF assms(2)])
  let ?e = "chosen\<lparr>ie_name := n, ie_appId := a, ie_remark := k, ie_appSecret := s\<rparr>"
  let ?input = "\<lparr>up_name = jget (applicationBody ?e) ''name'', up_appId = jget (applicationBody ?e) ''appId'',
        up_remark = jget (applicationBody ?e) ''note'', up_appSecret = jget (applicationBody ?e) ''appSecret'',
        up_actionIds = jget (applicationBody ?e) ''actionIds''\<rparr>"
  have refused: "normalizeIntegrationActionIds (ie_connector (am_integration env)) p (JArr (map JStr (ie_actionIds chosen))) fallback
      \<noteq> Inr ids" for p fallback ids
  proof
    assume "normalizeIntegrationActionIds (ie_connector (am_integration env)) p (JArr (map JStr (ie_actionIds chosen))) fallback = Inr ids"
    then obtain c where c: "integrationActionCatalog (ie_connector (am_integration env)) p = Inr c"
      "set ids \<subseteq> set (map ao_id (ac_actions c))"
      "requestedActionIds (JArr (map JStr (ie_actionIds chosen))) fallback = Some ids"
      by (rule normalizeIntegrationActionIds_ok)
    have "ids = dedup (filter (\<lambda>s. s \<noteq> []) (map js_trim (ie_actionIds chosen)))"
      using c(3) by (simp only: requested_strings option.inject)
    then have "obsolete \<in> set ids" using stays assms(3,4) by (force simp: image_iff)
    with c(1,2) assms(5) show False by blast
  qed
  have none: "applicationToUpdate (am_integration env) (dw_iv draw) now i ?input (fst w) \<noteq> Inr row" for row
  proof
    assume "applicationToUpdate (am_integration env) (dw_iv draw) now i ?input (fst w) = Inr row"
    with refused show False
      unfolding applicationToUpdate_def body_members by (auto split: option.split_asm)
  qed
  obtain r d' where up: "updateIntegrationApplication (am_integration env) (dw_iv draw) now i ?input (fst w) = (r, d')"
    by (cases "updateIntegrationApplication (am_integration env) (dw_iv draw) now i ?input (fst w)")
  then obtain err where err: "r = Inl err" using updateIntegrationApplication_Inr none by (cases r) blast+
  have "d' = fst w" by (rule updateIntegrationApplication_Inl[OF up[unfolded err]])
  with up err show "\<exists>status err. integrationPut env draw now (Inr admin) i
      (Some (applicationBody ?e)) w = (AdminError status err, w)"
    by (auto simp: integrationPut_form onStore_def answered_def adminFailure_def)
qed

section \<open>Example\<close>

definition demo_page_env :: adminEnv where
  "demo_page_env = \<lparr>am_identity = demo_identity_env, am_integration = demo_integration, am_relay = undefined, am_access = undefined\<rparr>"

definition demo_page_draw :: adminDraw where
  "demo_page_draw = \<lparr>dw_uuid = ''u'', dw_iv = ''iv'', dw_access = undefined\<rparr>"

definition demo_page_form :: applicationEditor where
  "demo_page_form = (applicationForm (serializeApplication (demo_app (demo_uuid (CHR ''1'')) ''a'' True)))\<lparr>ie_name := '' new ''\<rparr>"

lemma demo_page_put:
  "case integrationPut demo_page_env demo_page_draw 9 (Inr undefined) (demo_uuid (CHR ''1'')) (Some (applicationBody demo_page_form))
      (demo_apps, []) of (AdminOk status answer, w') \<Rightarrow> status = 200 \<and> map ap_app_name (applications (fst w')) = [''new'', ''n'']
     | _ \<Rightarrow> False"
  by code_simp


end
