(* ===== verification/Settings_Forms.thy ===== *)
theory Settings_Forms
  imports Admin_Routes Connector_Editor Lightrag
begin

text \<open>
  The settings forms of the console: the WeCom organisations (components/wecom-auth-settings-form.tsx),
  the services of the platform (components/settings-form.tsx) and LightRAG
  (components/lightrag-settings-form.tsx). The organisations' page keeps its own list and never reads
  it again, so its list is compared with the store over any sequence of acts served by the routes; a
  request and its answer are one act. Texts, drawers and the keyboard are left out.
\<close>

section \<open>The organisations' page\<close>

datatype saveState = SaveIdle | SaveDone | SaveFailed

record organizationPage =
  op_organizations :: "organizationSnapshot list"
  op_settings :: "wecomSettings option"
  op_state :: saveState

definition emptySettings :: wecomSettings where
  "emptySettings = \<lparr>ws_id = None, ws_organizationName = [], ws_corpId = [],
     ws_relayCallbackUrl = ''https://tn1.cofly-ai.cn/callbacks/wecom'', ws_active = True\<rparr>"

definition settingsFromSnapshot :: "organizationSnapshot \<Rightarrow> wecomSettings" where
  "settingsFromSnapshot o' = \<lparr>ws_id = Some (os_id o'), ws_organizationName = os_organizationName o', ws_corpId = os_corpId o',
     ws_relayCallbackUrl = os_relayCallbackUrl o', ws_active = os_active o'\<rparr>"

definition closeOrganization :: "organizationPage \<Rightarrow> organizationPage" where
  "closeOrganization pg = pg\<lparr>op_settings := None\<rparr>"

definition openOrganization :: "organizationSnapshot option \<Rightarrow> organizationPage \<Rightarrow> organizationPage" where
  "openOrganization chosen pg = pg\<lparr>op_settings := Some (case chosen of None \<Rightarrow> emptySettings | Some o' \<Rightarrow> settingsFromSnapshot o'),
     op_state := SaveIdle\<rparr>"

definition updateSettings :: "(wecomSettings \<Rightarrow> wecomSettings) \<Rightarrow> organizationPage \<Rightarrow> organizationPage" where
  "updateSettings patch pg = pg\<lparr>op_settings := map_option patch (op_settings pg), op_state := SaveIdle\<rparr>"

definition settingsBody :: "wecomSettings \<Rightarrow> json" where
  "settingsBody s = JObj ((case ws_id s of None \<Rightarrow> [] | Some i \<Rightarrow> [(''id'', JStr i)])
     @ [(''organizationName'', JStr (ws_organizationName s)), (''corpId'', JStr (ws_corpId s)),
        (''relayCallbackUrl'', JStr (ws_relayCallbackUrl s)), (''active'', JBool (ws_active s))])"

definition withOrganization ::
    "(string \<Rightarrow> string \<Rightarrow> bool) \<Rightarrow> organizationSnapshot \<Rightarrow> organizationSnapshot list \<Rightarrow> organizationSnapshot list" where
  "withOrganization collate payload current =
    sort_by (\<lambda>l r. collate (os_organizationName l) (os_organizationName r)) (filter (\<lambda>o'. os_id o' \<noteq> os_id payload) current @ [payload])"

text \<open>A save goes to PUT for an organisation that has an identifier and to POST for a new one.\<close>

definition sendSettings ::
    "adminEnv \<Rightarrow> adminDraw \<Rightarrow> int \<Rightarrow> (appError + platformIdentity) \<Rightarrow> wecomSettings \<Rightarrow> adminState \<Rightarrow> adminResponse \<times> adminState" where
  "sendSettings env draw now auth s w =
    (if given (ws_id s) \<noteq> None then organizationPut env now auth (Some (settingsBody s)) w
     else organizationPost env draw now auth (Some (settingsBody s)) w)"

definition saveSettings ::
    "adminEnv \<Rightarrow> (string \<Rightarrow> string \<Rightarrow> bool) \<Rightarrow> adminDraw \<Rightarrow> int \<Rightarrow> (appError + platformIdentity)
      \<Rightarrow> organizationPage \<times> adminState \<Rightarrow> organizationPage \<times> adminState" where
  "saveSettings env collate draw now auth st = (case op_settings (fst st) of None \<Rightarrow> st
     | Some s \<Rightarrow> (case sendSettings env draw now auth s (snd st) of
         (AdminOk _ (OrganizationBody payload), w') \<Rightarrow>
           ((fst st)\<lparr>op_organizations := withOrganization collate payload (op_organizations (fst st)),
             op_settings := None, op_state := SaveDone\<rparr>, w')
       | (_, w') \<Rightarrow> ((fst st)\<lparr>op_state := SaveFailed\<rparr>, w')))"

definition deleteOrganization ::
    "bool \<Rightarrow> int \<Rightarrow> (appError + platformIdentity) \<Rightarrow> organizationPage \<times> adminState \<Rightarrow> organizationPage \<times> adminState" where
  "deleteOrganization confirmed now auth st = (case Option.bind (op_settings (fst st)) (\<lambda>s. given (ws_id s)) of None \<Rightarrow> st
     | Some i \<Rightarrow> if \<not> confirmed then st
         else (case organizationDelete now auth (Some i) (snd st) of
           (AdminOk _ _, w') \<Rightarrow> ((fst st)\<lparr>op_organizations := filter (\<lambda>o'. os_id o' \<noteq> i) (op_organizations (fst st)),
             op_settings := None, op_state := SaveDone\<rparr>, w')
         | (_, w') \<Rightarrow> ((fst st)\<lparr>op_state := SaveFailed\<rparr>, w')))"

datatype pageAct = OpenNew | OpenCard organizationSnapshot | EditName string | EditCorp string | EditRelay string
  | EditActive bool | CloseForm | SaveForm adminDraw int "appError + platformIdentity"
  | DeleteCard bool int "appError + platformIdentity"

fun organizationAct ::
    "adminEnv \<Rightarrow> (string \<Rightarrow> string \<Rightarrow> bool) \<Rightarrow> pageAct \<Rightarrow> organizationPage \<times> adminState \<Rightarrow> organizationPage \<times> adminState" where
  "organizationAct env collate OpenNew st = (openOrganization None (fst st), snd st)"
| "organizationAct env collate (OpenCard o') st = (if o' \<in> set (op_organizations (fst st))
     then (openOrganization (Some o') (fst st), snd st) else st)"
| "organizationAct env collate (EditName n) st = (updateSettings (\<lambda>s. s\<lparr>ws_organizationName := n\<rparr>) (fst st), snd st)"
| "organizationAct env collate (EditCorp c) st = (updateSettings (\<lambda>s. s\<lparr>ws_corpId := c\<rparr>) (fst st), snd st)"
| "organizationAct env collate (EditRelay u) st = (updateSettings (\<lambda>s. s\<lparr>ws_relayCallbackUrl := u\<rparr>) (fst st), snd st)"
| "organizationAct env collate (EditActive b) st = (updateSettings (\<lambda>s. s\<lparr>ws_active := b\<rparr>) (fst st), snd st)"
| "organizationAct env collate CloseForm st = (closeOrganization (fst st), snd st)"
| "organizationAct env collate (SaveForm draw now auth) st = saveSettings env collate draw now auth st"
| "organizationAct env collate (DeleteCard confirmed now auth) st = deleteOrganization confirmed now auth st"

section \<open>The page follows the store\<close>

text \<open>What the store shows: the snapshots of its rows. Every row has one, identifiers are written in
  lower case as the database writes them, and the form holds an identifier of that shape.\<close>

definition shown :: "relayEnv \<Rightarrow> organizationRow list \<Rightarrow> organizationSnapshot set" where
  "shown env rows = {s. \<exists>g \<in> set rows. serializeOrganization env g = Inr s}"

definition legible :: "relayEnv \<Rightarrow> organizationRow \<Rightarrow> bool" where
  "legible env g \<longleftrightarrow> is_ok (serializeOrganization env g) \<and> js_lower (og_id g) = og_id g"

definition follows :: "relayEnv \<Rightarrow> organizationPage \<times> adminState \<Rightarrow> bool" where
  "follows env st \<longleftrightarrow> (let pg = fst st; rows = organizations (fst (snd st)) in
     db_ok (fst (snd st)) \<and> distinct (map os_id (op_organizations pg)) \<and> set (op_organizations pg) = shown env rows
     \<and> list_all (legible env) rows
     \<and> (case Option.bind (op_settings pg) ws_id of None \<Rightarrow> True | Some i \<Rightarrow> js_lower i = i))"

definition stable_urls :: "relayEnv \<Rightarrow> bool" where
  "stable_urls env \<longleftrightarrow> (\<forall>s u. re_url env s = Some u \<longrightarrow> re_url env (url_href u) \<noteq> None)"

lemma serialize_id: "serializeOrganization env g = Inr s \<Longrightarrow> os_id s = og_id g"
  by (auto simp: serializeOrganization_def split: if_splits option.splits)

lemma serialize_ok: "stable_urls env \<Longrightarrow> re_url env t = Some u \<Longrightarrow> og_relay_callback_url g = Some (url_href u)
    \<Longrightarrow> is_ok (serializeOrganization env g)"
proof -
  assume "stable_urls env" "re_url env t = Some u" "og_relay_callback_url g = Some (url_href u)"
  then obtain y where "re_url env (url_href u) = Some y" "relayUrlText g = url_href u"
    by (auto simp: stable_urls_def relayUrlText_def)
  then show ?thesis by (simp add: serializeOrganization_def wecomRelayApplicationHomepageUrl_def)
qed

lemma validated_url:
  assumes "validateWeComAuthenticationSettings env v = Inr settings"
  shows "\<exists>t u. re_url env t = Some u \<and> ws_relayCallbackUrl settings = url_href u"
  using assms by (auto simp: validateWeComAuthenticationSettings_def normalizeRelayCallbackUrl_def Let_def
      split: sum.split_asm if_split_asm option.split_asm; blast)

lemma distinct_rows: "db_ok d \<Longrightarrow> distinct (map og_id (organizations d))"
  by (simp add: db_ok_def uniques_ok_def organizations_unique_def unique_by_def)

lemma shown_without:
  "{s \<in> shown env rows. os_id s \<noteq> i} = shown env (filter (\<lambda>g. og_id g \<noteq> i) rows)"
  by (auto simp: shown_def dest: serialize_id)

lemma withOrganization_set: "set (withOrganization collate p current) = insert p {s \<in> set current. os_id s \<noteq> os_id p}"
  by (auto simp: withOrganization_def)

lemma withOrganization_distinct:
  "distinct (map os_id current) \<Longrightarrow> distinct (map os_id (withOrganization collate p current))"
proof -
  have "mset (map os_id (withOrganization collate p current)) = mset (map os_id (filter (\<lambda>o'. os_id o' \<noteq> os_id p) current @ [p]))"
    by (simp only: withOrganization_def mset_map mset_sort_by)
  moreover assume "distinct (map os_id current)"
  then have "distinct (map os_id (filter (\<lambda>o'. os_id o' \<noteq> os_id p) current @ [p]))" by (auto simp: distinct_map_filter)
  ultimately show ?thesis by (metis mset_eq_imp_distinct_iff)
qed

lemma update_outcome:
  assumes "stable_urls env" "validateWeComAuthenticationSettings env v = Inr settings"
    "updateWeComAuthenticationConfiguration env now settings (d, c) = (r, w')"
  shows "((\<exists>e. r = Inl e) \<and> w' = (d, c))
    \<or> (\<exists>old p. old \<in> set (organizations d) \<and> r = Inr p \<and> serializeOrganization env (changedOrganization settings now old) = Inr p
        \<and> db_ok (fst w') \<and> organizations (fst w')
          = map (\<lambda>g. if og_id g = og_id old then changedOrganization settings now g else g) (organizations d))"
proof -
  obtain t u where u: "re_url env t = Some u" "ws_relayCallbackUrl settings = url_href u"
    using validated_url[OF assms(2)] by blast
  have ok: "is_ok (serializeOrganization env (changedOrganization settings now g))" for g
    by (rule serialize_ok[OF assms(1) u(1)]) (simp add: changedOrganization_def u(2))
  show ?thesis
  proof (cases "ws_id settings")
    case None
    then show ?thesis using assms(3) by (auto simp: updateWeComAuthenticationConfiguration_def)
  next
    case (Some i)
    show ?thesis
    proof (cases "readRow i d")
      case (Inl e)
      then show ?thesis using assms(3) Some by (auto simp: updateWeComAuthenticationConfiguration_def)
    next
      case (Inr old)
      then have old: "old \<in> set (organizations d)"
        by (auto simp: readRow_def find_Some_iff split: if_split_asm option.split_asm)
      let ?d = "d\<lparr>organizations := map (\<lambda>g. if og_id g = og_id old then changedOrganization settings now g else g) (organizations d)\<rparr>"
      let ?row = "changedOrganization settings now old"
      let ?stored = "organizationWrite ?row (filter (\<lambda>g. og_id g \<noteq> og_id old) (organizations d)) ?d"
      show ?thesis
      proof (cases ?stored)
        case (Inl e)
        then show ?thesis using assms(3) Some \<open>readRow i d = Inr old\<close> by (auto simp: updateWeComAuthenticationConfiguration_def Let_def)
      next
        case (Inr d')
        then have "d' = ?d \<and> db_ok ?d"
          by (auto simp: organizationWrite_def split: sum.split_asm violation.split_asm)
        then show ?thesis
          using assms(3) Some \<open>readRow i d = Inr old\<close> Inr old ok[of old]
          by (auto simp: updateWeComAuthenticationConfiguration_def Let_def is_ok_iff)
      qed
    qed
  qed
qed

lemma create_outcome:
  assumes "stable_urls env" "validateWeComAuthenticationSettings env v = Inr settings"
    "createWeComAuthenticationConfiguration env uuid now settings (d, c) = (r, w')"
  shows "((\<exists>e. r = Inl e) \<and> w' = (d, c))
    \<or> (\<exists>p. r = Inr p \<and> serializeOrganization env (newOrganization uuid now settings) = Inr p
        \<and> db_ok (fst w') \<and> organizations (fst w') = organizations d @ [newOrganization uuid now settings])"
proof -
  obtain t u where u: "re_url env t = Some u" "ws_relayCallbackUrl settings = url_href u"
    using validated_url[OF assms(2)] by blast
  let ?row = "newOrganization uuid now settings"
  have "is_ok (serializeOrganization env ?row)"
    by (rule serialize_ok[OF assms(1) u(1)]) (simp add: newOrganization_def u(2))
  moreover have "organizationWrite ?row (organizations d) (d\<lparr>organizations := organizations d @ [?row]\<rparr>) = Inr d'
      \<Longrightarrow> d' = d\<lparr>organizations := organizations d @ [?row]\<rparr> \<and> db_ok d'" for d'
    by (auto simp: organizationWrite_def split: sum.split_asm violation.split_asm)
  ultimately show ?thesis
    using assms(3)
    by (cases "organizationWrite ?row (organizations d) (d\<lparr>organizations := organizations d @ [?row]\<rparr>)")
      (auto simp: createWeComAuthenticationConfiguration_def Let_def is_ok_iff simp flip: newOrganization_def)
qed

lemma shown_changed:
  assumes "distinct (map og_id rows)" "old \<in> set rows" "serializeOrganization env (f old) = Inr p" "og_id (f old) = og_id old"
  shows "shown env (map (\<lambda>g. if og_id g = og_id old then f g else g) rows) = insert p {s \<in> shown env rows. os_id s \<noteq> os_id p}"
proof -
  have only: "g = old" if "g \<in> set rows" "og_id g = og_id old" for g
    using that assms(1,2) by (auto simp: distinct_map inj_on_def)
  have p: "os_id p = og_id old" using serialize_id[OF assms(3)] assms(4) by simp
  show ?thesis
  proof (intro equalityI subsetI)
    fix s assume "s \<in> shown env (map (\<lambda>g. if og_id g = og_id old then f g else g) rows)"
    then obtain g where g: "g \<in> set rows" "serializeOrganization env (if og_id g = og_id old then f g else g) = Inr s"
      by (auto simp: shown_def)
    show "s \<in> insert p {s \<in> shown env rows. os_id s \<noteq> os_id p}"
    proof (cases "og_id g = og_id old")
      case True
      with g only[OF g(1) True] assms(3) show ?thesis by auto
    next
      case False
      with g p serialize_id[of env g s] show ?thesis by (auto simp: shown_def)
    qed
  next
    fix s assume s: "s \<in> insert p {s \<in> shown env rows. os_id s \<noteq> os_id p}"
    show "s \<in> shown env (map (\<lambda>g. if og_id g = og_id old then f g else g) rows)"
    proof (cases "s = p")
      case True
      have "f old \<in> set (map (\<lambda>g. if og_id g = og_id old then f g else g) rows)" using assms(2) by force
      with True assms(3) show ?thesis unfolding shown_def by blast
    next
      case False
      with s obtain g where g: "g \<in> set rows" "serializeOrganization env g = Inr s" by (auto simp: shown_def)
      have "og_id g \<noteq> og_id old" using False s p serialize_id[OF g(2)] by auto
      with g have "g \<in> set (map (\<lambda>g. if og_id g = og_id old then f g else g) rows)" by force
      with g(2) show ?thesis unfolding shown_def by blast
    qed
  qed
qed

lemma save_follows:
  assumes "stable_urls (am_relay env)" "js_lower (dw_uuid draw) = dw_uuid draw" "follows (am_relay env) st"
  shows "follows (am_relay env) (saveSettings env collate draw now auth st)"
proof (cases "op_settings (fst st)")
  case None
  then show ?thesis using assms(3) by (simp add: saveSettings_def)
next
  case (Some s)
  obtain pg d c where st: "st = (pg, d, c)" by (cases st)
  obtain r w' where sent: "sendSettings env draw now auth s (d, c) = (r, w')"
    by (cases "sendSettings env draw now auth s (d, c)")
  have f: "db_ok d" "distinct (map os_id (op_organizations pg))" "set (op_organizations pg) = shown (am_relay env) (organizations d)"
    "list_all (legible (am_relay env)) (organizations d)"
    using assms(3) by (auto simp: follows_def st Let_def)
  have outcome: "((\<nexists>status p. r = AdminOk status (OrganizationBody p)) \<and> w' = (d, c))
    \<or> (\<exists>status p. r = AdminOk status (OrganizationBody p) \<and> db_ok (fst w')
        \<and> shown (am_relay env) (organizations (fst w')) = insert p {s \<in> shown (am_relay env) (organizations d). os_id s \<noteq> os_id p}
        \<and> list_all (legible (am_relay env)) (organizations (fst w')))"
  proof (cases "given (ws_id s) \<noteq> None")
    case put: True
    show ?thesis
    proof (cases "bindE (case auth of Inl e \<Rightarrow> Inl [] | Inr i \<Rightarrow> Inr i) (\<lambda>_. validateWeComAuthenticationSettings (am_relay env) (settingsBody s))")
      case (Inl e)
      then show ?thesis using sent put
        by (auto simp: sendSettings_def organizationPut_def adminFailure_def split: sum.split_asm)
    next
      case (Inr settings)
      then have v: "validateWeComAuthenticationSettings (am_relay env) (settingsBody s) = Inr settings" and a: "\<exists>i. auth = Inr i"
        by (auto split: sum.split_asm)
      obtain q where q: "updateWeComAuthenticationConfiguration (am_relay env) now settings (d, c) = (q, w')"
        "answered 503 200 OrganizationBody (q, w') = (r, w')"
        using sent put v a by (cases "updateWeComAuthenticationConfiguration (am_relay env) now settings (d, c)")
          (auto simp: sendSettings_def organizationPut_def answered_def split: sum.split_asm)
      from update_outcome[OF assms(1) v q(1)] show ?thesis
      proof (elim disjE exE conjE)
        fix e assume "q = Inl e" "w' = (d, c)"
        with q(2) show ?thesis by (auto simp: answered_def adminFailure_def)
      next
        fix old p assume u: "old \<in> set (organizations d)" "q = Inr p"
          "serializeOrganization (am_relay env) (changedOrganization settings now old) = Inr p" "db_ok (fst w')"
          "organizations (fst w') = map (\<lambda>g. if og_id g = og_id old then changedOrganization settings now g else g) (organizations d)"
        have "og_id (changedOrganization settings now g) = og_id g" for g by (simp add: changedOrganization_def)
        moreover have "legible (am_relay env) (changedOrganization settings now old)"
          using u(1,3) f(4) by (auto simp: legible_def list_all_iff changedOrganization_def)
        then have "legible (am_relay env) (changedOrganization settings now g)"
          if "g \<in> set (organizations d)" "og_id g = og_id old" for g
        proof -
          have "g = old" using that u(1) distinct_rows[OF f(1)] by (auto simp: distinct_map inj_on_def)
          with \<open>legible (am_relay env) (changedOrganization settings now old)\<close> show ?thesis by simp
        qed
        ultimately show ?thesis
          using u q(2) f(4) shown_changed[OF distinct_rows[OF f(1)] u(1), of "am_relay env" "changedOrganization settings now" p]
          by (auto simp: answered_def list_all_iff)
      qed
    qed
  next
    case post: False
    show ?thesis
    proof (cases "bindE (case auth of Inl e \<Rightarrow> Inl [] | Inr i \<Rightarrow> Inr i) (\<lambda>_. validateWeComAuthenticationSettings (am_relay env) (settingsBody s))")
      case (Inl e)
      then show ?thesis using sent post
        by (auto simp: sendSettings_def organizationPost_def adminFailure_def split: sum.split_asm)
    next
      case (Inr settings)
      then have v: "validateWeComAuthenticationSettings (am_relay env) (settingsBody s) = Inr settings" and a: "\<exists>i. auth = Inr i"
        by (auto split: sum.split_asm)
      obtain q where q: "createWeComAuthenticationConfiguration (am_relay env) (dw_uuid draw) now settings (d, c) = (q, w')"
        "answered 503 201 OrganizationBody (q, w') = (r, w')"
        using sent post v a by (cases "createWeComAuthenticationConfiguration (am_relay env) (dw_uuid draw) now settings (d, c)")
          (auto simp: sendSettings_def organizationPost_def answered_def split: sum.split_asm)
      from create_outcome[OF assms(1) v q(1)] show ?thesis
      proof (elim disjE exE conjE)
        fix e assume "q = Inl e" "w' = (d, c)"
        with q(2) show ?thesis by (auto simp: answered_def adminFailure_def)
      next
        fix p assume u: "q = Inr p" "serializeOrganization (am_relay env) (newOrganization (dw_uuid draw) now settings) = Inr p"
          "db_ok (fst w')" "organizations (fst w') = organizations d @ [newOrganization (dw_uuid draw) now settings]"
        have p: "os_id p = dw_uuid draw" using serialize_id[OF u(2)] by (simp add: newOrganization_def)
        have fresh: "g \<in> set (organizations d) \<Longrightarrow> og_id g \<noteq> dw_uuid draw" for g
          using distinct_rows[OF u(3)] u(4) by (force simp: newOrganization_def)
        then have "{s \<in> shown (am_relay env) (organizations d). os_id s \<noteq> os_id p} = shown (am_relay env) (organizations d)"
          using p by (auto simp: shown_def dest: serialize_id)
        moreover have "shown (am_relay env) (organizations (fst w')) = insert p (shown (am_relay env) (organizations d))"
          using u(2,4) by (auto simp: shown_def)
        moreover have "legible (am_relay env) (newOrganization (dw_uuid draw) now settings)"
          using u(2) assms(2) by (simp add: legible_def newOrganization_def)
        ultimately show ?thesis using u q(2) f(4) by (auto simp: answered_def)
      qed
    qed
  qed
  from outcome show ?thesis
  proof (elim disjE exE conjE)
    assume "\<nexists>status p. r = AdminOk status (OrganizationBody p)" "w' = (d, c)"
    then have "saveSettings env collate draw now auth st = (pg\<lparr>op_state := SaveFailed\<rparr>, d, c)"
      using sent Some by (auto simp: saveSettings_def st split: adminResponse.split adminBody.split)
    then show ?thesis using assms(3) by (simp add: follows_def st)
  next
    fix status p assume "r = AdminOk status (OrganizationBody p)" "db_ok (fst w')"
      "shown (am_relay env) (organizations (fst w')) = insert p {s \<in> shown (am_relay env) (organizations d). os_id s \<noteq> os_id p}"
      "list_all (legible (am_relay env)) (organizations (fst w'))"
    then show ?thesis
      using sent Some f(2,3) withOrganization_distinct[OF f(2)] withOrganization_set[of collate p "op_organizations pg"]
      by (simp add: saveSettings_def st follows_def Let_def)
  qed
qed

lemma delete_follows:
  assumes "follows (am_relay env) st"
  shows "follows (am_relay env) (deleteOrganization confirmed now auth st)"
proof (cases "confirmed \<and> Option.bind (op_settings (fst st)) (\<lambda>s. given (ws_id s)) \<noteq> None")
  case False
  then have "deleteOrganization confirmed now auth st = st"
    by (auto simp: deleteOrganization_def split: option.split)
  then show ?thesis using assms by simp
next
  case True
  then obtain s i where s: "confirmed" "op_settings (fst st) = Some s" "given (ws_id s) = Some i" "ws_id s = Some i"
    by (auto simp: given_def bind_eq_Some_conv split: if_split_asm)
  obtain pg d c where st: "st = (pg, d, c)" by (cases st)
  have f: "db_ok d" "distinct (map os_id (op_organizations pg))" "set (op_organizations pg) = shown (am_relay env) (organizations d)"
    "list_all (legible (am_relay env)) (organizations d)" "js_lower i = i"
    using assms s(2,4) by (auto simp: follows_def st Let_def)
  obtain r w' where sent: "organizationDelete now auth (Some i) (d, c) = (r, w')"
    by (cases "organizationDelete now auth (Some i) (d, c)")
  have "(\<nexists>status b. r = AdminOk status b) \<and> db_ok (fst w') \<and> organizations (fst w') = organizations d
    \<or> (\<exists>status b. r = AdminOk status b) \<and> db_ok (fst w')
      \<and> organizations (fst w') = filter (\<lambda>g. og_id g \<noteq> i) (organizations d)"
  proof (cases "(\<exists>a. auth = Inr a) \<and> UUID_PATTERN i")
    case False
    then show ?thesis using sent f(1)
      by (cases auth) (auto simp: organizationDelete_def answered_def adminFailure_def deleteWeComAuthenticationConfiguration_def)
  next
    case True
    have "filter (\<lambda>g. og_id g \<noteq> i) (organizations d) = organizations d" if "\<not> list_ex (\<lambda>g. og_id g = i) (organizations d)"
      using that by (auto simp: filter_id_conv list_ex_iff)
    with True sent f(1,5) delete_organization_outcome[OF f(1), of i now c] show ?thesis
      by (auto simp: organizationDelete_def answered_def adminFailure_def withoutOrganization_def withoutFinished_def
          split: if_split_asm)
  qed
  then show ?thesis
  proof (elim disjE conjE)
    assume a: "\<nexists>status b. r = AdminOk status b" "db_ok (fst w')" "organizations (fst w') = organizations d"
    then have "deleteOrganization confirmed now auth st = (pg\<lparr>op_state := SaveFailed\<rparr>, w')"
      using s sent by (auto simp: deleteOrganization_def st split: adminResponse.split)
    with a f s show ?thesis by (simp add: follows_def Let_def st)
  next
    assume a: "\<exists>status b. r = AdminOk status b" "db_ok (fst w')"
      "organizations (fst w') = filter (\<lambda>g. og_id g \<noteq> i) (organizations d)"
    then have "deleteOrganization confirmed now auth st
        = (pg\<lparr>op_organizations := filter (\<lambda>o'. os_id o' \<noteq> i) (op_organizations pg), op_settings := None, op_state := SaveDone\<rparr>, w')"
      using s sent by (auto simp: deleteOrganization_def st)
    moreover have "{s \<in> shown (am_relay env) (organizations d). os_id s \<noteq> i} = shown (am_relay env) (organizations (fst w'))"
      unfolding a(3) by (rule shown_without)
    ultimately show ?thesis using a f by (auto simp: follows_def Let_def distinct_map_filter list_all_iff)
  qed
qed

lemma edit_follows:
  "(\<And>s. ws_id (patch s) = ws_id s) \<Longrightarrow> follows env st \<Longrightarrow> follows env (updateSettings patch (fst st), snd st)"
  by (cases "op_settings (fst st)") (simp_all add: follows_def Let_def updateSettings_def)

lemma act_follows:
  assumes "stable_urls (am_relay env)" "\<forall>draw now auth. act = SaveForm draw now auth \<longrightarrow> js_lower (dw_uuid draw) = dw_uuid draw"
    "follows (am_relay env) st"
  shows "follows (am_relay env) (organizationAct env collate act st)"
proof -
  have lower: "js_lower (os_id o') = os_id o'" if "o' \<in> set (op_organizations (fst st))" for o'
    using that assms(3) by (auto simp: follows_def Let_def shown_def legible_def list_all_iff dest!: serialize_id)
  show ?thesis
  proof (cases act)
    case (SaveForm draw now auth)
    with assms save_follows show ?thesis by simp
  next
    case (DeleteCard confirmed now auth)
    with assms(3) delete_follows show ?thesis by simp
  next
    case (OpenCard o')
    with assms(3) lower show ?thesis
      by (auto simp: follows_def Let_def openOrganization_def settingsFromSnapshot_def)
  qed (use assms(3) in \<open>simp_all add: edit_follows\<close>,
      use assms(3) in \<open>simp_all add: follows_def Let_def openOrganization_def emptySettings_def closeOrganization_def\<close>)
qed

section \<open>Properties\<close>

text \<open>C40: The organisations' page follows the store without ever reading it again: it starts with what the
  store shows, and after any sequence of opening, editing, saving and deleting, served or refused, by an
  administrator or by nobody, its list has exactly the organisations of the store, each with the values the
  store holds, none twice. The parser of addresses is assumed to accept the addresses it writes.\<close>

theorem organization_page_follows:
  assumes "stable_urls (am_relay env)" "follows (am_relay env) st"
    "\<forall>draw now auth. SaveForm draw now auth \<in> set acts \<longrightarrow> js_lower (dw_uuid draw) = dw_uuid draw"
    "fold (organizationAct env collate) acts st = (pg, w)"
  shows "distinct (map os_id (op_organizations pg))
    \<and> set (op_organizations pg) = {s. \<exists>g \<in> set (organizations (fst w)). serializeOrganization (am_relay env) g = Inr s}
    \<and> length (op_organizations pg) = length (organizations (fst w))"
proof -
  have "follows (am_relay env) (fold (organizationAct env collate) acts st)"
    using assms(2,3)
  proof (induction acts arbitrary: st)
    case (Cons act acts)
    have "follows (am_relay env) (organizationAct env collate act st)"
      by (rule act_follows[OF assms(1)]) (use Cons.prems in auto)
    moreover have "\<forall>draw now auth. SaveForm draw now auth \<in> set acts \<longrightarrow> js_lower (dw_uuid draw) = dw_uuid draw"
      using Cons.prems(2) by auto
    ultimately show ?case using Cons.IH[of "organizationAct env collate act st"] by simp
  qed simp
  then have f: "db_ok (fst w)" "distinct (map os_id (op_organizations pg))"
    "set (op_organizations pg) = shown (am_relay env) (organizations (fst w))"
    "list_all (legible (am_relay env)) (organizations (fst w))"
    using assms(4) by (simp_all add: follows_def Let_def)
  have "os_id ` set (op_organizations pg) = og_id ` set (organizations (fst w))"
  proof (intro equalityI subsetI)
    fix i assume "i \<in> os_id ` set (op_organizations pg)"
    then show "i \<in> og_id ` set (organizations (fst w))" by (auto simp: f(3) shown_def dest: serialize_id)
  next
    fix i assume "i \<in> og_id ` set (organizations (fst w))"
    then obtain g where g: "g \<in> set (organizations (fst w))" "i = og_id g" by auto
    then obtain s where "serializeOrganization (am_relay env) g = Inr s"
      using f(4) by (auto simp: list_all_iff legible_def is_ok_iff)
    with g show "i \<in> os_id ` set (op_organizations pg)"
      by (auto simp: f(3) shown_def image_iff dest: serialize_id intro!: exI[of _ s])
  qed
  then have "set (map os_id (op_organizations pg)) = set (map og_id (organizations (fst w)))" by simp
  then have "length (map os_id (op_organizations pg)) = length (map og_id (organizations (fst w)))"
    using f(2) distinct_rows[OF f(1)] by (metis distinct_card)
  with f(2,3) show ?thesis by (simp add: shown_def)
qed

definition demo_forms_env :: adminEnv where
  "demo_forms_env = \<lparr>am_identity = demo_identity_env, am_integration = undefined, am_relay = demo_relay_env, am_access = undefined\<rparr>"

definition demo_acts :: "pageAct list" where
  "demo_acts = [OpenNew, EditName '' Acme '', EditCorp ''corp'', EditRelay ''https://relay/callbacks/wecom'',
     SaveForm \<lparr>dw_uuid = demo_link_id, dw_iv = [], dw_access = undefined\<rparr> 1000 (Inr undefined)]"

definition demo_page :: organizationPage where
  "demo_page = \<lparr>op_organizations = [], op_settings = None, op_state = SaveIdle\<rparr>"

lemma demo_stable: "stable_urls demo_relay_env"
  by (auto simp: stable_urls_def demo_relay_env_def demo_url_def demo_relay_url_def split: if_splits)

lemma demo_page_follows: "follows demo_relay_env (demo_page, empty_db, [])"
  by (simp add: follows_def demo_page_def shown_def Let_def) (simp add: empty_db_def db_ok_defs applications_unique_def
      bindings_unique_def organizations_unique_def links_unique_def resources_unique_def bindings_check_def
      organizations_check_def links_check_def logins_check_def botRequests_check_def resources_check_def grants_check_def)

lemma demo_page_saved:
  "map os_organizationName (op_organizations (fst (fold (organizationAct demo_forms_env (\<lambda>a b. True)) demo_acts (demo_page, empty_db, []))))
    = [''Acme'']"
  by code_simp

theorem organization_page_follows_witness:
  "let (pg, w) = fold (organizationAct demo_forms_env (\<lambda>a b. True)) demo_acts (demo_page, empty_db, []) in
    map os_organizationName (op_organizations pg) = [''Acme''] \<and> length (organizations (fst w)) = 1"
proof -
  obtain pg w where r: "fold (organizationAct demo_forms_env (\<lambda>a b. True)) demo_acts (demo_page, empty_db, []) = (pg, w)"
    by (cases "fold (organizationAct demo_forms_env (\<lambda>a b. True)) demo_acts (demo_page, empty_db, [])")
  have env: "am_relay demo_forms_env = demo_relay_env" by (simp add: demo_forms_env_def)
  have "js_lower demo_link_id = demo_link_id" by (simp add: demo_link_id_def js_lower_def lower_char_def Let_def code_unit_def)
  then have "\<forall>draw now auth. SaveForm draw now auth \<in> set demo_acts \<longrightarrow> js_lower (dw_uuid draw) = dw_uuid draw"
    by (simp add: demo_acts_def)
  note organization_page_follows[OF demo_stable[folded env] demo_page_follows[folded env] this r]
  then have "length (op_organizations pg) = length (organizations (fst w))" by blast
  moreover have "map os_organizationName (op_organizations pg) = [''Acme'']" using demo_page_saved r by simp
  moreover from this have "length (op_organizations pg) = 1" by (metis length_map length_Cons list.size(3) One_nat_def)
  ultimately show ?thesis using r by simp
qed

section \<open>The services' form\<close>

definition fallbackService :: "serviceDefinition \<Rightarrow> json" where
  "fallbackService s = JObj ((''enabled'', JBool (sv_id s \<noteq> ''promptfoo''))
     # (case sv_defaultEndpoint s of None \<Rightarrow> [] | Some e \<Rightarrow> [(''endpoint'', JStr e)]))"

definition fallbackConfig :: json where
  "fallbackConfig = JObj [(''environment'', JStr ''development''), (''currency'', JStr ''CNY''),
     (''monthlyBudget'', JNum (Fin 20000)), (''services'', JObj (map (\<lambda>s. (sv_id s, fallbackService s)) serviceCatalog)),
     (''updatedAt'', JStr ''1970-01-01T00:00:00.000Z'')]"

datatype formState = FormLoading | FormIdle | FormSaved | FormFailed

record servicesForm =
  sf_config :: json
  sf_state :: formState

definition newServicesForm :: servicesForm where
  "newServicesForm = \<lparr>sf_config = fallbackConfig, sf_state = FormLoading\<rparr>"

text \<open>The answer of the first read; None where there was none.\<close>

definition configLoaded :: "configResponse option \<Rightarrow> servicesForm \<Rightarrow> servicesForm" where
  "configLoaded reply f = (case reply of
     Some (ConfigBody c) \<Rightarrow> if jtruthy c then \<lparr>sf_config = c, sf_state = FormIdle\<rparr> else f
   | _ \<Rightarrow> f\<lparr>sf_state := FormFailed\<rparr>)"

definition updateService :: "string \<Rightarrow> json \<Rightarrow> servicesForm \<Rightarrow> servicesForm" where
  "updateService i patch f = (let services = jget (sf_config f) ''services''; current = jget services i in
     \<lparr>sf_config = spread (sf_config f) (JObj [(''services'', spread services (JObj [(i, spread
          (JObj ((''enabled'', if nullish (jget current ''enabled'') then JBool True else jget current ''enabled'')
             # (if jget current ''endpoint'' = JUndef then [] else [(''endpoint'', jget current ''endpoint'')]))) patch)]))]),
      sf_state = FormIdle\<rparr>)"

definition servicesBody :: "servicesForm \<Rightarrow> json" where
  "servicesBody f = JObj (filter (\<lambda>(k, v). v \<noteq> JUndef) (map (\<lambda>k. (k, jget (sf_config f) k))
     [''environment'', ''currency'', ''monthlyBudget'', ''services'']))"

definition saveConfig :: "string \<Rightarrow> servicesForm \<times> configFile \<Rightarrow> servicesForm \<times> configFile" where
  "saveConfig now st = (case configPatch (Some (servicesBody (fst st))) now (snd st) of
     (ConfigBody c, file') \<Rightarrow> (\<lparr>sf_config = (if jtruthy c then c else sf_config (fst st)), sf_state = FormSaved\<rparr>, file')
   | (_, file') \<Rightarrow> ((fst st)\<lparr>sf_state := FormFailed\<rparr>, file'))"

lemma fallback_valid: "validateConfigPatch (servicesBody newServicesForm) = PatchOk (servicesBody newServicesForm)"
  by code_simp

lemma fallback_keys:
  "jget (servicesBody newServicesForm) ''services'' = JObj (map (\<lambda>s. (sv_id s, fallbackService s)) serviceCatalog)"
  "jget (servicesBody newServicesForm) ''environment'' = JStr ''development''"
  "distinct (map fst (members (servicesBody newServicesForm)))" "''environment'' \<in> set (map fst (members (servicesBody newServicesForm)))"
  by (simp_all add: servicesBody_def newServicesForm_def fallbackConfig_def)

text \<open>When the first read fails the form shows defaults, and saving them overwrites the configuration that
  is there: the environment and the address of every service with a default one.\<close>

theorem failed_load_overwrites:
  assumes "readConsoleConfig now file = (Some old, file1)" "s \<in> set serviceCatalog" "sv_defaultEndpoint s = Some e"
  shows "\<exists>c. saveConfig now (configLoaded None newServicesForm, file)
      = (\<lparr>sf_config = (if jtruthy c then c else fallbackConfig), sf_state = FormSaved\<rparr>, ConfigFile c)
    \<and> jget c ''environment'' = JStr ''development'' \<and> jget (jget (jget c ''services'') (sv_id s)) ''endpoint'' = JStr e"
proof -
  let ?p = "servicesBody newServicesForm"
  let ?c = "applyConfigPatch old ?p now"
  have body: "servicesBody (configLoaded None newServicesForm) = ?p" by (simp add: servicesBody_def configLoaded_def)
  have saved: "saveConfig now (configLoaded None newServicesForm, file)
      = (\<lparr>sf_config = (if jtruthy ?c then ?c else fallbackConfig), sf_state = FormSaved\<rparr>, ConfigFile ?c)"
    using assms(1) unfolding saveConfig_def fst_conv snd_conv body configPatch_def
    by (simp add: fallback_valid updateConfig_def) (simp add: configLoaded_def newServicesForm_def)
  have entry: "map_of (map (\<lambda>s. (sv_id s, fallbackService s)) serviceCatalog) (sv_id s) = Some (fallbackService s)"
    using assms(2) catalog_ids_distinct by (intro map_of_is_SomeI) (auto simp: comp_def)
  have "jget (jget ?c ''services'') (sv_id s)
      = spread (if nullish (jget (JObj (members (jget old ''services''))) (sv_id s)) then enabledService
          else jget (JObj (members (jget old ''services''))) (sv_id s)) (fallbackService s)"
    using catalog_ids_distinct
    by (simp add: applied_get[OF fallback_keys(3)] fallback_keys(1) patchServices_get entry comp_def del: jget.simps)
  moreover have "jget (spread v (fallbackService s)) ''endpoint'' = JStr e" for v
    by (subst jget_spread) (simp_all add: fallbackService_def assms(3))
  moreover have "jget ?c ''environment'' = JStr ''development''"
    using fallback_keys(2,4) by (simp add: applied_get[OF fallback_keys(3)] del: jget.simps)
  ultimately show ?thesis using saved by (intro exI[of _ ?c]) simp
qed

end
