(* ===== verification/Spec2Isabelle.thy ===== *)
theory Spec2Isabelle
  imports Gateway_Probe Wecom_Launch Diagnostics_Routes Services Client_Config Permission_Import
    Account_Routes Gateway_Editor Component_Data Account_Page Integration_Editor Settings_Forms
begin

text \<open>
  Verification of the AI console (src/ai-console), the control plane of the platform in this
  repository: the Next.js server that knows the employees, keeps their connections to enterprise
  applications, decides which connection a request of an agent may use, configures the AI gateway
  and watches the services.

  \<^bold>\<open>The program and its parts.\<close> A browser reaches the console through the Pomerium proxy or with a
  console session cookie that a WeCom login left. The middleware (proxy.ts) lets a request
  through, a route handler under app/api reads who calls (lib/server/console-identity.ts), and
  calls the server modules under lib/server. They share one PostgreSQL database, a data directory
  with the settings files, and remote services: OpenConnector (which holds the credentials of all
  connections), the public WeCom relay, WeCom itself, the LightRAG control plane, the model
  providers and MCP servers behind the gateway, Prometheus and Jaeger.

  \<^bold>\<open>Theories and the code they model.\<close>
  \<^item> Prelude, Js_Data, Json_Text, Base64url, Ttl_Cache: JavaScript strings, JSON values, thrown
    errors as the left summand of a sum, numbers, ordered sets, the stable sort, JSON.stringify and
    JSON.parse, UTF-8, base64url, and the contract of the time-limited caches (a locale).
  \<^item> Connectors, Open_Connector: lib/control-plane/connectors.ts and lib/server/open-connector.ts.
  \<^item> Store: the tables and constraints of lib/server/integrations.ts as lists of rows, statements
    whose result the database checks, transactions that keep the old store when they fail; the
    locales store_handler, atomic_handler and transactional state what a handler owes the store.
  \<^item> Integration_Core, Applications, Employee_Bindings, Identity_Link, Resolver, Bot_Authorization,
    Bot_Properties, Bot_Lease, Bot_Migration, Employee_Views: the handlers of
    lib/server/integrations.ts, by what they work on (applications, personal bindings, WeCom identities, the resolver of a request's
    connection, personal WeCom bots and their scan requests, the migration of earlier bots, the
    employee's page with the merged connections).
  \<^item> Wecom_Qr: lib/server/wecom-bot-qr.ts.
  \<^item> Connector_Access: lib/server/connector-access.ts with its routes and open-connector-route.ts.
  \<^item> Gateway_Input, Gateway_Config, Gateway_Properties, Gateway_Store, Gateway_Probe:
    lib/server/gateway-config.ts (validation, the generated configuration, its properties, the
    settings files, the connection tests); Gateway_Routes: app/api/llm-gateway.
  \<^item> Console_Session, Console_Identity: lib/server/wecom-console-session.ts,
    lib/server/console-identity.ts and proxy.ts.
  \<^item> Wecom_Relay, Wecom_Authentication, Wecom_Launch: lib/server/wecom-relay.ts,
    wecom-identity-link-routing.ts, lib/server/wecom-authentication.ts and the routes
    app/auth/wework/launch/[ticket] and app/auth/wework/link.
  \<^item> Catalog, Console_Config, Services: lib/control-plane/catalog.ts, lib/server/config.ts,
    lib/server/services.ts and lib/server/actions.ts with their routes.
  \<^item> Observability, Diagnostics: lib/server/observability.ts; Diagnostics_Routes:
    app/api/observability. Component_Data: lib/server/component-data.ts and app/api/overview.
  \<^item> Lightrag: lib/server/lightrag-config.ts and its route.
  \<^item> Client_Config, Permission_Import: lib/control-plane/mcp-client-config.ts and the functions of
    lib/control-plane/integrations.ts.
  \<^item> Admin_Routes: the routes of the administration that change the store. Account_Routes: the
    employee's routes app/api/account and the internal resolver (locale personal_handler).
  \<^item> Latest_Request: the locale for pages that ignore the answers of all requests but the latest.
    Gateway_Editor, Account_Page, Connector_Editor, Integration_Editor, Settings_Forms: the state of
    the components gateway-channel-manager, gateway-mcp-manager, account-integration-manager,
    connector-manager, integration-manager, wecom-auth-settings-form and settings-form, with the
    requests they send and, for the connectors and integrations, the routes that answer them.

  \<^bold>\<open>How the state corresponds.\<close> The database is the record db, a field per table and a row record
  per table with a field per column. A handler takes the store and returns the new store beside
  its result; what it sends to other services is either a request answered by a function of the
  environment or, where the order matters, a log. Where the service may answer differently at
  every call the environment has one service per call site. The clock and the random draws of a
  request are arguments. Module-level caches and the settings files are explicit states.
  Concurrency is modelled where the code relies on it: a handler that reads before its transaction
  is split into the steps others can come between (activation of an application), and the
  statements on scan requests are a labelled step relation whose runs are all interleavings
  (Bot_Lease).

  \<^bold>\<open>What the lemmas show.\<close> Every handler of the store keeps all keys, foreign keys and checks
  (db_ok), also when it fails. A login request of WeCom is used at most once, in whatever order
  requests arrive; a link is never taken over; a launch of the console gives a session only to the
  employee whom the relay vouched for, and that session is later read back as this employee. The
  middleware and the identity reader admit nobody else. The resolver answers only with connections
  the caller may use and never with another employee's. The generated gateway configuration is
  well formed whatever the administrator typed. Optimised or concurrent parts are compared with
  plain ones: the retry loop with its reference, the caches with direct reads, the lease with
  mutual exclusion. Round trips: base64url, JSON text, sealed secrets, tickets, sessions, the
  settings of MCP clients read back by a shell. The administration's store changes by
  administrators' calls only (a noninterference statement over sequences of calls).

  \<^bold>\<open>Bounds and fuel.\<close> The JSON reader runs on fuel 2 * length + 2 and never runs out on a text the
  writer produced. The discovery of MCP tools ends after at most 100 pages and 102 requests. The
  lease of a scan request lasts 45 seconds, the visibility and provider caches one and five
  minutes, the diagnostics caches ten seconds, a page asks at most 200 times for the result of a
  scan; the lemmas use these constants of the code.

  \<^bold>\<open>Parameters and hypotheses.\<close> Node's cryptography (SHA-256, HMAC, AES-GCM, ECDSA), the WHATWG URL
  parser, Date.parse, localised collation, UUID syntax of PostgreSQL and all remote services are
  parameters. Hypotheses on them are named and documented: crypto_laws (decryption undoes
  encryption, digests have their length), stable_urls (a normalised address is an address).
  Each is met by a concrete instance in a witness.

  \<^bold>\<open>Simplifications that remain.\<close> A character is a UTF-16 code unit below 256, white space and case
  conversion are those of that range. Numbers are exact rationals beside NaN and the infinities.
  The texts of error messages are constructors or short tags, their statuses and codes are kept.
  Timeouts are requests without an answer. Files are replaced atomically and their permissions
  are left out.

  \<^bold>\<open>Not modelled.\<close> Of the components: drawing, layout, focus, drawers and message texts, and the
  components without a model (the LightRAG form, the setup guide of MCP clients, the shell, tables
  and cards). The pages under app/(console), the static content of portal.ts, the formats of
  format.ts and the clipboard. The SQL text that creates the schema: its constraints are the
  predicates of Store. The Go services mcp-access-gateway and mcp-backend-adapter, the Python code
  of rag-mcp and agent-runtime, the deployment files and scripts: other languages and
  configuration outside this development.
\<close>

end
